(* ===== verification/NBC_Prelude.thy ===== *)
theory NBC_Prelude
  imports Main "HOL-Library.Word"
begin

text \<open>
  Shared vocabulary of the development: bytes and byte strings (\<open>std::string\<close>,
  \<open>ByteArray\<close>), the conversions C++ applies to \<open>char\<close> and to fixed-width integers,
  \<open>absl::Status\<close> and \<open>absl::StatusOr\<close>, big-endian integers on the wire, and the
  generic facts about words and lists that the components use.
\<close>

unbundle bit_operations_syntax

section \<open>Bytes, status values\<close>

type_synonym byte = "8 word"
type_synonym bytes = "byte list"

text \<open>
  The \<open>absl::StatusCode\<close> values the modelled code produces.  The text of a status
  message only reaches logs, so a status is its code.
\<close>

datatype status =
    OkStatus
  | InvalidArgumentError
  | OutOfRangeError
  | UnavailableError
  | InternalError
  | DataLossError
  | UnknownError

type_synonym 'a status_or = "status + 'a"

fun status_ok :: "status \<Rightarrow> bool" where
  "status_ok OkStatus = True"
| "status_ok _ = False"

fun result_opt :: "'e + 'a \<Rightarrow> 'a option" where
  "result_opt (Inl _) = None"
| "result_opt (Inr x) = Some x"

section \<open>Collections of facts\<close>

named_theorems byte_simps \<open>rewriting of byte-level header fields\<close>
named_theorems frame_simps \<open>fields an operation does not write\<close>

section \<open>C++ conversions\<close>

text \<open>
  \<open>char\<close> is signed on the targets the code is built for (x86 and the Apple ABIs), so a
  \<open>char\<close> that takes part in integer arithmetic is read with \<open>sint\<close>; a conversion of
  an \<open>int\<close> to a fixed-width type reduces it modulo the width.
\<close>

definition char_val :: "byte \<Rightarrow> int" where
  "char_val b = sint b"

definition to_char :: "int \<Rightarrow> byte" where
  "to_char i = word_of_int i"

definition to_int16 :: "int \<Rightarrow> int" where
  "to_int16 i = signed_take_bit 15 i"

definition to_uint16 :: "int \<Rightarrow> int" where
  "to_uint16 i = take_bit 16 i"

lemma byte_wrap: "n < 256 \<Longrightarrow> (int n + 128) mod 256 - 128 = (if n < 128 then int n else int n - 256)"
proof -
  assume n: "n < 256"
  have "(int n + 128) mod 256 = (int n - 128) mod 256"
    using mod_add_self2 [of "int n - 128" "256 :: int"] by (simp add: algebra_simps)
  with n show ?thesis
    by (cases "n < 128") simp_all
qed

lemma sint_byte: "sint (b :: byte) = (if unat b < 128 then int (unat b) else int (unat b) - 256)"
proof -
  have "sint b = (uint b + 128) mod 256 - 128"
    by (simp add: sint_uint signed_take_bit_eq_take_bit_shift take_bit_eq_mod)
  moreover have "uint b = int (unat b)"
    by simp
  moreover have "unat b < 256"
    using unsigned_less [of b, where ?'a = nat] by simp
  ultimately show ?thesis
    by (simp only: byte_wrap)
qed

lemma char_val_small [simp]: "unat b < 128 \<Longrightarrow> char_val b = int (unat b)"
  by (simp add: char_val_def sint_byte)

lemma char_val_neg: "128 \<le> unat b \<Longrightarrow> char_val b = int (unat b) - 256"
  by (simp add: char_val_def sint_byte)

section \<open>Big-endian integers\<close>

definition be16 :: "16 word \<Rightarrow> bytes" where
  "be16 w = [ucast (drop_bit 8 w), ucast w]"

definition be32 :: "32 word \<Rightarrow> bytes" where
  "be32 w = [ucast (drop_bit 24 w), ucast (drop_bit 16 w), ucast (drop_bit 8 w), ucast w]"

fun nat_of_be :: "bytes \<Rightarrow> nat" where
  "nat_of_be bs = foldl (\<lambda>n b. 256 * n + unat b) 0 bs"

lemma length_be16 [simp]: "length (be16 w) = 2"
  by (simp add: be16_def)

lemma length_be32 [simp]: "length (be32 w) = 4"
  by (simp add: be32_def)

lemma unat_ucast_byte:
  "unat (ucast (drop_bit n (w :: 'a::len word)) :: byte) = (unat w div 2 ^ n) mod 256"
  by (simp add: unsigned_ucast_eq unsigned_drop_bit_eq take_bit_eq_mod flip: drop_bit_eq_div)

section \<open>Two bytes joined with shift and or\<close>

lemma bit_neg_high: "- 256 \<le> y \<Longrightarrow> y < 0 \<Longrightarrow> 8 \<le> n \<Longrightarrow> bit (y :: int) n"
proof -
  assume y: "- 256 \<le> y" "y < 0" and n: "8 \<le> n"
  have "(2 :: int) ^ 8 \<le> 2 ^ n"
    using n by (intro power_increasing) simp_all
  then have "- (2 ^ n) \<le> y"
    using y by simp
  then have "y div 2 ^ n = - 1"
    using y by (intro div_pos_neg_trivial [symmetric, THEN sym] int_div_pos_eq [where r = "y + 2 ^ n"]) simp_all
  then show "bit y n"
    by (simp add: bit_iff_odd)
qed

lemma push_bit_or_small:
  fixes x y :: int
  assumes "0 \<le> y" and "y < 256"
  shows "push_bit 8 x OR y = 256 * x + y"
proof -
  have y: "y = take_bit 8 y"
    using assms by (simp add: take_bit_eq_mod)
  have "push_bit 8 x + y = push_bit 8 x OR y"
    by (rule disjunctive_add_eq_or, subst y) (auto intro!: bit_eqI simp: bit_simps)
  then show ?thesis
    by (simp add: push_bit_eq_mult algebra_simps)
qed

lemma push_bit_or_neg:
  fixes x y :: int
  assumes "- 256 \<le> y" and "y < 0"
  shows "push_bit 8 x OR y = y"
  by (rule bit_eqI) (auto simp: bit_simps intro: bit_neg_high [OF assms])

section \<open>Words cut into bytes and joined again\<close>

lemma ucast_and_255 [byte_simps]: "(ucast (w AND 255) :: byte) = ucast (w :: 'a::len word)"
proof -
  have "w AND 255 = take_bit 8 w"
    by (simp add: take_bit_eq_mask mask_eq_exp_minus_1)
  then show ?thesis
    by (auto intro!: bit_word_eqI simp: bit_simps dest: bit_imp_le_length)
qed

lemma join_low: "(ucast (ucast v :: byte) :: 'a word) = take_bit 8 (v :: 'a::len word)"
  by (rule bit_word_eqI) (auto simp: bit_simps)

lemma join_step:
  "push_bit n (take_bit 8 (drop_bit n v)) OR take_bit n v = take_bit (n + 8) (v :: 'a::len word)"
  by (rule bit_word_eqI) (auto simp: bit_simps not_less)

lemma join_steps:
  fixes v :: "'a::len word"
  shows "push_bit 8 (take_bit 8 (drop_bit 8 v)) OR take_bit 8 v = take_bit 16 v"
    and "push_bit 16 (take_bit 8 (drop_bit 16 v)) OR take_bit 16 v = take_bit 24 v"
    and "push_bit 24 (take_bit 8 (drop_bit 24 v)) OR take_bit 24 v = take_bit 32 v"
    and "push_bit 32 (take_bit 8 (drop_bit 32 v)) OR take_bit 32 v = take_bit 40 v"
    and "push_bit 40 (take_bit 8 (drop_bit 40 v)) OR take_bit 40 v = take_bit 48 v"
    and "push_bit 48 (take_bit 8 (drop_bit 48 v)) OR take_bit 48 v = take_bit 56 v"
    and "push_bit 56 (take_bit 8 (drop_bit 56 v)) OR take_bit 56 v = take_bit 64 v"
  using join_step [of 8 v] join_step [of 16 v] join_step [of 24 v] join_step [of 32 v]
    join_step [of 40 v] join_step [of 48 v] join_step [of 56 v] by simp_all

lemma take_bit_whole:
  "take_bit 16 (v :: 16 word) = v" "take_bit 32 (w :: 32 word) = w" "take_bit 64 (x :: 64 word) = x"
  by (auto intro!: bit_word_eqI simp: bit_simps dest: bit_imp_le_length)

lemmas join_simps = ucast_and_255 join_low join_steps take_bit_whole or.assoc

section \<open>Bit fields of one byte\<close>

lemma clear_low: "push_bit n (drop_bit n b) = b AND NOT (mask n)" for b :: "'a::len word"
  by (rule bit_word_eqI) (auto simp: bit_simps)

lemma and_255_byte [simp]: "b AND 255 = (b :: byte)"
proof -
  have "(255 :: byte) = - 1"
    by simp
  then show ?thesis
    by (simp only: and_minus_numerals and.right_neutral)
qed

lemma int_masks: "(65280 :: int) = push_bit 8 (mask 8)" "(255 :: int) = mask 8"
  by (simp_all add: mask_eq_exp_minus_1 push_bit_eq_mult)

lemma high_char: "to_char (drop_bit 8 (p AND 65280)) = ucast (drop_bit 8 (word_of_int p :: 16 word))"
  unfolding int_masks to_char_def by (rule bit_word_eqI) (auto simp: bit_simps)

lemma low_char: "to_char (p AND 255) = ucast (word_of_int p :: 16 word)"
  unfolding int_masks to_char_def by (rule bit_word_eqI) (auto simp: bit_simps)

lemma and_15_small:
  assumes "s < (16 :: byte)"
  shows "s AND 15 = s"
proof -
  have "take_bit 4 s = s"
    using assms by (simp add: word_unat_eq_iff unsigned_take_bit_eq take_bit_nat_eq_self word_less_nat_alt)
  then have "s AND mask 4 = s"
    by (simp only: take_bit_eq_mask)
  then show ?thesis
    by (simp add: mask_numeral)
qed

section \<open>Codecs\<close>

text \<open>
  The contract of a wire format: what the encoder writes for a valid value the decoder
  reads back.  Two valid values with the same encoding are then equal.
\<close>

locale wire_codec =
  fixes encode :: "'a \<Rightarrow> 'w"
    and decode :: "'w \<Rightarrow> 'a option"
    and valid :: "'a \<Rightarrow> bool"
  assumes decode_encode: "valid x \<Longrightarrow> decode (encode x) = Some x"
begin

lemma encode_inject: "valid x \<Longrightarrow> valid y \<Longrightarrow> encode x = encode y \<longleftrightarrow> x = y"
  by (metis decode_encode option.inject)

lemma encode_inj_on: "inj_on encode {x. valid x}"
  by (auto simp: inj_on_def encode_inject)

lemma decode_image: "valid x \<Longrightarrow> encode x = bs \<Longrightarrow> decode bs = Some x"
  using decode_encode by blast

end

end
