(* ===== verification/Weave_Packet.thy ===== *)
theory Weave_Packet
  imports NBC_Prelude
begin

text \<open>
  The Weave packet of internal/weave/packet.h and packet.cc: one header byte (packet type,
  three-bit counter, first/last flags or control command) in front of a payload.  A
  \<open>Packet\<close> owns its raw bytes; every operation reads or writes them in place.
\<close>

unbundle bit_operations_syntax

section \<open>Data\<close>

text \<open>
  \<open>GetControlCommandNumber\<close> casts four header bits to the enum, so an object of the enum
  type may hold a value no enumerator names; \<open>kControlUnnamed\<close> carries it.
\<close>

datatype ControlPacketType =
    kControlConnectionRequest
  | kControlConnectionConfirm
  | kControlError
  | kControlUnnamed nat

fun ControlPacketType_val :: "ControlPacketType \<Rightarrow> nat" where
  "ControlPacketType_val kControlConnectionRequest = 0"
| "ControlPacketType_val kControlConnectionConfirm = 1"
| "ControlPacketType_val kControlError = 2"
| "ControlPacketType_val (kControlUnnamed n) = n"

definition ControlPacketType_cast :: "nat \<Rightarrow> ControlPacketType" where
  "ControlPacketType_cast n =
     (if n = 0 then kControlConnectionRequest
      else if n = 1 then kControlConnectionConfirm
      else if n = 2 then kControlError
      else kControlUnnamed n)"

record packet =
  packet_bytes :: bytes

definition kMaxPacketCounter :: int where "kMaxPacketCounter = 7"
definition kPacketHeaderLength :: nat where "kPacketHeaderLength = 1"
definition kFirstPacketBit :: byte where "kFirstPacketBit = 8"
definition kLastPacketBit :: byte where "kLastPacketBit = 4"
definition kMaskType :: byte where "kMaskType = 128"
definition kControlType :: byte where "kControlType = 128"
definition kDataType :: byte where "kDataType = 0"
definition kMaskPacketCounter :: byte where "kMaskPacketCounter = 112"
definition kMaskControlCommandNumber :: byte where "kMaskControlCommandNumber = 15"
definition kConnectionRequestExtraDataSize :: nat where "kConnectionRequestExtraDataSize = 13"
definition kConnectionConfirmExtraDataSize :: nat where "kConnectionConfirmExtraDataSize = 15"
definition kConnectionConfirmPacketHeaderLength :: nat where
  "kConnectionConfirmPacketHeaderLength = 4"
definition kConnectionRequestPacketHeaderLength :: nat where
  "kConnectionRequestPacketHeaderLength = 6"

lemmas weave_const_defs =
  kMaxPacketCounter_def kPacketHeaderLength_def kFirstPacketBit_def kLastPacketBit_def
  kMaskType_def kControlType_def kDataType_def kMaskPacketCounter_def
  kMaskControlCommandNumber_def kConnectionRequestExtraDataSize_def
  kConnectionConfirmExtraDataSize_def kConnectionConfirmPacketHeaderLength_def
  kConnectionRequestPacketHeaderLength_def

section \<open>Operations\<close>

definition Packet_FromBytes :: "bytes \<Rightarrow> packet status_or" where
  "Packet_FromBytes bs =
     (if bs = [] then Inl InvalidArgumentError else Inr \<lparr>packet_bytes = bs\<rparr>)"

text \<open>The private constructor used by the builders: \<open>n\<close> zero bytes.\<close>

definition Packet_zeroed :: "nat \<Rightarrow> packet" where
  "Packet_zeroed n = \<lparr>packet_bytes = replicate n 0\<rparr>"

definition Packet_SetHeader :: "bool \<Rightarrow> int \<Rightarrow> packet \<Rightarrow> packet" where
  "Packet_SetHeader is_control_packet last_four_bits p =
     p\<lparr>packet_bytes := (packet_bytes p)[0 :=
        (if is_control_packet then kControlType else kDataType) OR
        (to_char last_four_bits AND 15)]\<rparr>"

text \<open>\<open>copy\<close> of a string over the packet's bytes from an offset.\<close>

definition overwrite_at :: "nat \<Rightarrow> bytes \<Rightarrow> bytes \<Rightarrow> bytes" where
  "overwrite_at off src dst = take off dst @ src @ drop (off + length src) dst"

definition Packet_CreateDataPacket :: "bool \<Rightarrow> bool \<Rightarrow> bytes \<Rightarrow> packet" where
  "Packet_CreateDataPacket is_first_packet is_last_packet payload =
     (let next_four_bits = uint ((if is_first_packet then kFirstPacketBit else 0) OR
                                 (if is_last_packet then kLastPacketBit else 0));
          p = Packet_SetHeader False next_four_bits
                (Packet_zeroed (kPacketHeaderLength + length payload))
      in p\<lparr>packet_bytes := overwrite_at kPacketHeaderLength payload (packet_bytes p)\<rparr>)"

definition Packet_CreateControlPacket :: "ControlPacketType \<Rightarrow> nat \<Rightarrow> packet" where
  "Packet_CreateControlPacket command_number payload_size =
     Packet_SetHeader True (int (ControlPacketType_val command_number))
       (Packet_zeroed (kPacketHeaderLength + payload_size))"

definition Packet_CreateErrorPacket :: packet where
  "Packet_CreateErrorPacket = Packet_CreateControlPacket kControlError 0"

text \<open>
  Two header bytes of an \<open>int16_t\<close>, as written: \<open>0xFF & (v >> 8)\<close> and \<open>0xFF & v\<close>,
  with \<open>v\<close> promoted to \<open>int\<close>.
\<close>

definition int16_header :: "int \<Rightarrow> bytes" where
  "int16_header v = [to_char (255 AND drop_bit 8 v), to_char (255 AND v)]"

definition Packet_CreateConnectionRequestPacket ::
  "int \<Rightarrow> int \<Rightarrow> int \<Rightarrow> bytes \<Rightarrow> packet status_or" where
  "Packet_CreateConnectionRequestPacket min_protocol_version max_protocol_version
       max_packet_size extra_data =
     (if length extra_data > kConnectionRequestExtraDataSize
      then Inl InvalidArgumentError
      else
        let p = Packet_CreateControlPacket kControlConnectionRequest
                  (kConnectionRequestPacketHeaderLength + length extra_data);
            header_data = int16_header min_protocol_version @
                          int16_header max_protocol_version @
                          int16_header max_packet_size;
            bs = overwrite_at kPacketHeaderLength header_data (packet_bytes p)
        in Inr \<lparr>packet_bytes =
             overwrite_at (kConnectionRequestPacketHeaderLength + kPacketHeaderLength)
               extra_data bs\<rparr>)"

definition Packet_CreateConnectionConfirmPacket ::
  "int \<Rightarrow> int \<Rightarrow> bytes \<Rightarrow> packet status_or" where
  "Packet_CreateConnectionConfirmPacket selected_protocol_version selected_packet_size
       extra_data =
     (if length extra_data > kConnectionConfirmExtraDataSize
      then Inl InvalidArgumentError
      else
        let p = Packet_CreateControlPacket kControlConnectionConfirm
                  (kConnectionConfirmPacketHeaderLength + length extra_data);
            header_data = int16_header selected_protocol_version @
                          int16_header selected_packet_size;
            bs = overwrite_at kPacketHeaderLength header_data (packet_bytes p)
        in Inr \<lparr>packet_bytes =
             overwrite_at (kConnectionConfirmPacketHeaderLength + kPacketHeaderLength)
               extra_data bs\<rparr>)"

text \<open>The header byte; \<open>bytes_[0]\<close> of an empty \<open>std::string\<close> is its terminating 0.\<close>

definition Packet_header :: "packet \<Rightarrow> byte" where
  "Packet_header p = (case packet_bytes p of [] \<Rightarrow> 0 | b # _ \<Rightarrow> b)"

definition Packet_IsFirstPacket :: "packet \<Rightarrow> bool" where
  "Packet_IsFirstPacket p \<longleftrightarrow>
     packet_bytes p \<noteq> [] \<and> Packet_header p AND kFirstPacketBit \<noteq> 0"

definition Packet_IsLastPacket :: "packet \<Rightarrow> bool" where
  "Packet_IsLastPacket p \<longleftrightarrow>
     packet_bytes p \<noteq> [] \<and> Packet_header p AND kLastPacketBit \<noteq> 0"

definition Packet_IsControlPacket :: "packet \<Rightarrow> bool" where
  "Packet_IsControlPacket p \<longleftrightarrow>
     packet_bytes p \<noteq> [] \<and> Packet_header p AND kMaskType \<noteq> 0"

definition Packet_IsDataPacket :: "packet \<Rightarrow> bool" where
  "Packet_IsDataPacket p \<longleftrightarrow> \<not> Packet_IsControlPacket p"

definition Packet_GetPacketCounter :: "packet \<Rightarrow> int" where
  "Packet_GetPacketCounter p =
     (if packet_bytes p = [] then 0
      else uint (drop_bit 4 (Packet_header p AND kMaskPacketCounter)))"

definition Packet_GetControlCommandNumber :: "packet \<Rightarrow> ControlPacketType" where
  "Packet_GetControlCommandNumber p =
     ControlPacketType_cast (unat (Packet_header p AND kMaskControlCommandNumber))"

definition Packet_GetPayload :: "packet \<Rightarrow> bytes" where
  "Packet_GetPayload p = drop kPacketHeaderLength (packet_bytes p)"

definition Packet_SetPacketCounter :: "int \<Rightarrow> packet \<Rightarrow> status \<times> packet" where
  "Packet_SetPacketCounter packetCounter p =
     (if packetCounter < 0 \<or> packetCounter > kMaxPacketCounter
      then (InvalidArgumentError, p)
      else (OkStatus,
            p\<lparr>packet_bytes := (packet_bytes p)[0 :=
               Packet_header p OR
               (to_char (push_bit 4 packetCounter) AND kMaskPacketCounter)]\<rparr>))"

section \<open>Shape of the built packets\<close>

lemma overwrite_at_exact [byte_simps]:
  "overwrite_at (length xs) ys (xs @ replicate (length ys) 0) = xs @ ys"
  by (simp add: overwrite_at_def)

lemma overwrite_at_Cons [byte_simps]:
  "overwrite_at (Suc 0) ys (x # replicate (length ys + n) 0) = x # ys @ replicate n 0"
  by (simp add: overwrite_at_def)

definition data_header :: "bool \<Rightarrow> bool \<Rightarrow> byte" where
  "data_header f l = (if f then 8 else 0) OR (if l then 4 else 0)"

lemma CreateDataPacket_bytes:
  "packet_bytes (Packet_CreateDataPacket f l payload) = data_header f l # payload"
  using overwrite_at_Cons [of payload _ 0]
  by (auto simp: Packet_CreateDataPacket_def Packet_SetHeader_def Packet_zeroed_def
      weave_const_defs to_char_def data_header_def)

lemma CreateControlPacket_bytes:
  "packet_bytes (Packet_CreateControlPacket c n) =
     (128 OR (word_of_int (int (ControlPacketType_val c)) AND 15)) # replicate n 0"
  by (simp add: Packet_CreateControlPacket_def Packet_SetHeader_def Packet_zeroed_def
      weave_const_defs to_char_def)

lemma length_int16_header [simp]: "length (int16_header v) = 2"
  by (simp add: int16_header_def)

lemma CreateConnectionRequestPacket_bytes:
  "length extra \<le> 13 \<Longrightarrow>
   Packet_CreateConnectionRequestPacket minv maxv psize extra =
     Inr \<lparr>packet_bytes = 128 # int16_header minv @ int16_header maxv @ int16_header psize @ extra\<rparr>"
  by (simp add: Packet_CreateConnectionRequestPacket_def CreateControlPacket_bytes
      weave_const_defs overwrite_at_def int16_header_def numeral_eq_Suc)

lemma CreateConnectionConfirmPacket_bytes:
  "length extra \<le> 15 \<Longrightarrow>
   Packet_CreateConnectionConfirmPacket version psize extra =
     Inr \<lparr>packet_bytes = 129 # int16_header version @ int16_header psize @ extra\<rparr>"
  by (simp add: Packet_CreateConnectionConfirmPacket_def CreateControlPacket_bytes
      weave_const_defs overwrite_at_def int16_header_def numeral_eq_Suc)

lemma CreateErrorPacket_bytes: "packet_bytes Packet_CreateErrorPacket = [130]"
  by (simp add: Packet_CreateErrorPacket_def CreateControlPacket_bytes)

section \<open>Reading back what the builders wrote\<close>

lemma header_bytes [byte_simps]:
  "packet_bytes p = b # bs \<Longrightarrow> Packet_header p = b"
  by (simp add: Packet_header_def)

lemma CreateDataPacket_flags [byte_simps]:
  "Packet_IsFirstPacket (Packet_CreateDataPacket f l payload) = f"
  "Packet_IsLastPacket (Packet_CreateDataPacket f l payload) = l"
  "Packet_IsControlPacket (Packet_CreateDataPacket f l payload) = False"
  "Packet_GetPacketCounter (Packet_CreateDataPacket f l payload) = 0"
  "Packet_GetPayload (Packet_CreateDataPacket f l payload) = payload"
  by (cases f; cases l; simp add: Packet_IsFirstPacket_def Packet_IsLastPacket_def
      Packet_IsControlPacket_def Packet_GetPacketCounter_def Packet_GetPayload_def
      CreateDataPacket_bytes header_bytes [OF CreateDataPacket_bytes] data_header_def
      weave_const_defs)+

lemma header_list_update [byte_simps]:
  "packet_bytes p \<noteq> [] \<Longrightarrow>
   Packet_header (p\<lparr>packet_bytes := (packet_bytes p)[0 := b]\<rparr>) = b"
  by (cases "packet_bytes p") (simp_all add: Packet_header_def)

lemma SetPacketCounter_ok_iff:
  "fst (Packet_SetPacketCounter c p) = OkStatus \<longleftrightarrow> 0 \<le> c \<and> c \<le> 7"
  by (simp add: Packet_SetPacketCounter_def weave_const_defs)

lemma counter_cases:
  fixes c :: int
  assumes "0 \<le> c" and "c \<le> 7"
  obtains "c = 0" | "c = 1" | "c = 2" | "c = 3" | "c = 4" | "c = 5" | "c = 6" | "c = 7"
  using assms by (cases "c < 4"; cases "c < 2"; cases "c < 6") linarith+

lemma counter_bits:
  fixes h :: byte
  assumes "0 \<le> c" and "c \<le> 7"
  shows "(h OR (to_char (push_bit 4 c) AND 112)) AND 8 = h AND 8"
    and "(h OR (to_char (push_bit 4 c) AND 112)) AND 4 = h AND 4"
    and "(h OR (to_char (push_bit 4 c) AND 112)) AND 128 = h AND 128"
    and "(h OR (to_char (push_bit 4 c) AND 112)) AND 15 = h AND 15"
    and "h AND 112 = 0 \<Longrightarrow>
      uint (drop_bit 4 ((h OR (to_char (push_bit 4 c) AND 112)) AND 112)) = c"
  using assms
  by (cases c rule: counter_cases;
      simp add: to_char_def push_bit_eq_mult bit.conj_disj_distrib2)+

lemma SetPacketCounter_header:
  assumes "packet_bytes p \<noteq> []" and "0 \<le> c" and "c \<le> 7"
  shows "Packet_header (snd (Packet_SetPacketCounter c p)) =
           Packet_header p OR (to_char (push_bit 4 c) AND 112)"
  using assms by (simp add: Packet_SetPacketCounter_def weave_const_defs header_list_update)

lemma SetPacketCounter_nonempty [simp]:
  "packet_bytes (snd (Packet_SetPacketCounter c p)) = [] \<longleftrightarrow> packet_bytes p = []"
  by (simp add: Packet_SetPacketCounter_def)

lemma SetPacketCounter_payload [simp]:
  "Packet_GetPayload (snd (Packet_SetPacketCounter c p)) = Packet_GetPayload p"
  by (cases "packet_bytes p")
     (simp_all add: Packet_SetPacketCounter_def Packet_GetPayload_def weave_const_defs)

lemma SetPacketCounter_keeps:
  assumes "packet_bytes p \<noteq> []" and "0 \<le> c" and "c \<le> 7"
  shows "Packet_IsFirstPacket (snd (Packet_SetPacketCounter c p)) = Packet_IsFirstPacket p"
    and "Packet_IsLastPacket (snd (Packet_SetPacketCounter c p)) = Packet_IsLastPacket p"
    and "Packet_IsControlPacket (snd (Packet_SetPacketCounter c p)) = Packet_IsControlPacket p"
    and "Packet_GetControlCommandNumber (snd (Packet_SetPacketCounter c p)) =
           Packet_GetControlCommandNumber p"
  using assms
  by (simp_all add: Packet_IsFirstPacket_def Packet_IsLastPacket_def
      Packet_IsControlPacket_def Packet_GetControlCommandNumber_def SetPacketCounter_header
      weave_const_defs counter_bits)

lemma SetPacketCounter_get:
  assumes "packet_bytes p \<noteq> []" and "0 \<le> c" and "c \<le> 7"
    and "Packet_header p AND 112 = 0"
  shows "Packet_GetPacketCounter (snd (Packet_SetPacketCounter c p)) = c"
  using assms(1) counter_bits(5) [OF assms(2,3,4)]
  by (simp only: Packet_GetPacketCounter_def SetPacketCounter_header [OF assms(1-3)]
      weave_const_defs SetPacketCounter_nonempty if_False)

end
