(* ===== verification/Weave_Transfer.thy ===== *)
theory Weave_Transfer
  imports Weave_Packet
begin

text \<open>
  Cutting a message into packets and putting it together again: \<open>MessageWriteRequest\<close>
  and \<open>ControlPacketWriteRequest\<close> (the sender), \<open>Packetizer\<close> (the receiver) and
  \<open>PacketSequenceNumberGenerator\<close> (both), of internal/weave.
\<close>

section \<open>PacketSequenceNumberGenerator\<close>

record sequence_generator =
  packet_counter :: int

definition sequence_init :: sequence_generator where
  "sequence_init = \<lparr>packet_counter = 0\<rparr>"

definition Generator_Next :: "sequence_generator \<Rightarrow> int \<times> sequence_generator" where
  "Generator_Next g =
     (let next_packet_counter = packet_counter g in
      if next_packet_counter = kMaxPacketCounter
      then (next_packet_counter, g\<lparr>packet_counter := 0\<rparr>)
      else (next_packet_counter, g\<lparr>packet_counter := packet_counter g + 1\<rparr>))"

definition Generator_Reset :: "sequence_generator \<Rightarrow> sequence_generator" where
  "Generator_Reset g = g\<lparr>packet_counter := 0\<rparr>"

definition generator_ok :: "sequence_generator \<Rightarrow> bool" where
  "generator_ok g \<longleftrightarrow> 0 \<le> packet_counter g \<and> packet_counter g \<le> 7"

text \<open>The first \<open>n\<close> counters a generator hands out.\<close>

fun take_counters :: "nat \<Rightarrow> sequence_generator \<Rightarrow> int list" where
  "take_counters 0 g = []"
| "take_counters (Suc n) g =
     (case Generator_Next g of (c, g') \<Rightarrow> c # take_counters n g')"

lemma generator_ok_init [simp]: "generator_ok sequence_init"
  by (simp add: generator_ok_def sequence_init_def)

lemma generator_ok_reset [simp]: "generator_ok (Generator_Reset g)"
  by (simp add: generator_ok_def Generator_Reset_def)

lemma Generator_Next_ok:
  "generator_ok g \<Longrightarrow>
   generator_ok (snd (Generator_Next g)) \<and> 0 \<le> fst (Generator_Next g) \<and>
   fst (Generator_Next g) \<le> 7"
  by (auto simp: generator_ok_def Generator_Next_def Let_def kMaxPacketCounter_def)

lemma Generator_Next_mod:
  "generator_ok g \<Longrightarrow>
   fst (Generator_Next g) = packet_counter g \<and>
   packet_counter (snd (Generator_Next g)) = (packet_counter g + 1) mod 8"
  by (auto simp: generator_ok_def Generator_Next_def Let_def kMaxPacketCounter_def)

lemma take_counters_mod:
  "generator_ok g \<Longrightarrow>
   take_counters n g = map (\<lambda>i. (packet_counter g + int i) mod 8) [0..<n]"
proof (induction n arbitrary: g)
  case 0
  then show ?case by simp
next
  case (Suc n)
  obtain c g' where g': "Generator_Next g = (c, g')"
    by (cases "Generator_Next g")
  from Suc.prems have "generator_ok g'"
    using Generator_Next_ok [of g] g' by simp
  then have "take_counters n g' = map (\<lambda>i. (packet_counter g' + int i) mod 8) [0..<n]"
    by (rule Suc.IH)
  moreover have "c = packet_counter g mod 8" "packet_counter g' = (packet_counter g + 1) mod 8"
    using Suc.prems Generator_Next_mod [of g] g' by (auto simp: generator_ok_def)
  ultimately show ?case
    by (simp add: g' upt_conv_Cons mod_simps map_Suc_upt [symmetric] ac_simps del: upt_Suc)
qed

section \<open>MessageWriteRequest\<close>

text \<open>
  \<open>write_status\<close> is the future the socket completes.  \<open>position_\<close> and the packet length
  are non-negative at every use, hence naturals; \<open>max_packet_size\<close> is the caller's \<open>int\<close>.
\<close>

record message_write_request =
  message :: bytes
  position :: nat
  write_status :: "status option"

definition MessageWriteRequest :: "bytes \<Rightarrow> message_write_request" where
  "MessageWriteRequest m = \<lparr>message = m, position = 0, write_status = None\<rparr>"

definition Message_IsStarted :: "message_write_request \<Rightarrow> bool" where
  "Message_IsStarted r \<longleftrightarrow> position r \<noteq> 0"

definition Message_IsFinished :: "message_write_request \<Rightarrow> bool" where
  "Message_IsFinished r \<longleftrightarrow> position r \<ge> length (message r)"

definition Message_NextPacket ::
  "int \<Rightarrow> message_write_request \<Rightarrow> packet status_or \<times> message_write_request" where
  "Message_NextPacket max_packet_size r =
     (if Message_IsFinished r then (Inl OutOfRangeError, r)
      else if max_packet_size \<le> 0 then (Inl InvalidArgumentError, r)
      else
        let is_first = \<not> Message_IsStarted r;
            next_packet_len =
              nat (min (max_packet_size - int kPacketHeaderLength)
                       (int (length (message r)) - int (position r)));
            next_packet_bytes = take next_packet_len (drop (position r) (message r));
            r' = r\<lparr>position := position r + next_packet_len\<rparr>
        in (Inr (Packet_CreateDataPacket is_first (Message_IsFinished r') next_packet_bytes),
            r'))"

definition Message_SetWriteStatus :: "status \<Rightarrow> message_write_request \<Rightarrow> message_write_request" where
  "Message_SetWriteStatus s r = r\<lparr>write_status := Some s\<rparr>"

section \<open>ControlPacketWriteRequest\<close>

record control_write_request =
  control_packet :: packet
  is_started :: bool

definition ControlPacketWriteRequest :: "packet \<Rightarrow> control_write_request" where
  "ControlPacketWriteRequest p = \<lparr>control_packet = p, is_started = False\<rparr>"

definition Control_NextPacket ::
  "control_write_request \<Rightarrow> packet status_or \<times> control_write_request" where
  "Control_NextPacket r =
     (if is_started r then (Inl OutOfRangeError, r)
      else (Inr (control_packet r), r\<lparr>is_started := True\<rparr>))"

section \<open>Packetizer\<close>

record packetizer =
  pending_payloads :: bytes
  is_message_complete :: bool

definition packetizer_init :: packetizer where
  "packetizer_init = \<lparr>pending_payloads = [], is_message_complete = False\<rparr>"

definition Packetizer_AddPacket :: "packet \<Rightarrow> packetizer \<Rightarrow> status \<times> packetizer" where
  "Packetizer_AddPacket p z =
     (if is_message_complete z then (InvalidArgumentError, z)
      else if pending_payloads z = [] \<and> \<not> Packet_IsFirstPacket p
        then (InvalidArgumentError, z)
      else if pending_payloads z \<noteq> [] \<and> Packet_IsFirstPacket p
        then (InvalidArgumentError, z)
      else
        let z' = z\<lparr>pending_payloads := pending_payloads z @ Packet_GetPayload p\<rparr>
        in (OkStatus,
            if Packet_IsLastPacket p then z'\<lparr>is_message_complete := True\<rparr> else z'))"

definition Packetizer_TakeMessage :: "packetizer \<Rightarrow> bytes status_or \<times> packetizer" where
  "Packetizer_TakeMessage z =
     (if \<not> is_message_complete z then (Inl UnavailableError, z)
      else (Inr (pending_payloads z),
            z\<lparr>pending_payloads := [], is_message_complete := False\<rparr>))"

definition Packetizer_Reset :: "packetizer \<Rightarrow> packetizer" where
  "Packetizer_Reset z = z\<lparr>pending_payloads := [], is_message_complete := False\<rparr>"

section \<open>Sending a whole message\<close>

text \<open>
  Asking a request for packets until it is finished, as the socket does after each
  completed write.  \<open>None\<close>: out of fuel, or a request for a packet failed.
\<close>

fun drain_message :: "nat \<Rightarrow> int \<Rightarrow> message_write_request \<Rightarrow> packet list option" where
  "drain_message 0 n r = (if Message_IsFinished r then Some [] else None)"
| "drain_message (Suc fuel) n r =
     (if Message_IsFinished r then Some []
      else (case Message_NextPacket n r of
              (Inl _, _) \<Rightarrow> None
            | (Inr p, r') \<Rightarrow> map_option ((#) p) (drain_message fuel n r')))"

fun add_packets :: "packet list \<Rightarrow> packetizer \<Rightarrow> packetizer status_or" where
  "add_packets [] z = Inr z"
| "add_packets (p # ps) z =
     (case Packetizer_AddPacket p z of
        (s, z') \<Rightarrow> if status_ok s then add_packets ps z' else Inl s)"

lemma NextPacket_progress:
  assumes "\<not> Message_IsFinished r" and "2 \<le> n"
  defines "k \<equiv> min (nat n - 1) (length (message r) - position r)"
  shows "Message_NextPacket n r =
      (Inr (Packet_CreateDataPacket (position r = 0)
              (position r + k \<ge> length (message r))
              (take k (drop (position r) (message r)))),
       r\<lparr>position := position r + k\<rparr>)"
    and "0 < k" and "position r + k \<le> length (message r)"
proof -
  have "nat (min (n - 1) (int (length (message r)) - int (position r))) = k"
    using assms(1,2) by (simp add: k_def Message_IsFinished_def min_def nat_diff_distrib
        flip: of_nat_diff)
  then show "Message_NextPacket n r =
      (Inr (Packet_CreateDataPacket (position r = 0)
              (position r + k \<ge> length (message r))
              (take k (drop (position r) (message r)))),
       r\<lparr>position := position r + k\<rparr>)"
    using assms(1,2)
    by (simp add: Message_NextPacket_def Let_def kPacketHeaderLength_def
        Message_IsStarted_def Message_IsFinished_def)
  show "0 < k" "position r + k \<le> length (message r)"
    using assms(1,2) by (auto simp: k_def Message_IsFinished_def)
qed

text \<open>
  A message cut into packets is rebuilt by a packetizer that already holds the part
  before the request's position.
\<close>

lemma drain_then_add:
  assumes "2 \<le> n" and "length (message r) - position r \<le> fuel"
    and "position r \<le> length (message r)"
  shows "\<exists>ps. drain_message fuel n r = Some ps \<and>
    (position r < length (message r) \<longrightarrow>
      add_packets ps \<lparr>pending_payloads = take (position r) (message r),
                      is_message_complete = False\<rparr> =
      Inr \<lparr>pending_payloads = message r, is_message_complete = True\<rparr>)"
  using assms(2,3)
proof (induction fuel arbitrary: r)
  case 0
  then show ?case by (simp add: Message_IsFinished_def)
next
  case (Suc fuel)
  show ?case
  proof (cases "Message_IsFinished r")
    case True
    then show ?thesis by (simp add: Message_IsFinished_def)
  next
    case False
    define k where "k = min (nat n - 1) (length (message r) - position r)"
    note step = NextPacket_progress [OF False assms(1), folded k_def]
    let ?r = "r\<lparr>position := position r + k\<rparr>"
    from Suc.prems step(2,3) have "length (message ?r) - position ?r \<le> fuel"
      and "position ?r \<le> length (message ?r)"
      by auto
    from Suc.IH [OF this] obtain ps where ps: "drain_message fuel n ?r = Some ps"
      and add: "position r + k < length (message r) \<longrightarrow>
        add_packets ps \<lparr>pending_payloads = take (position r + k) (message r),
                        is_message_complete = False\<rparr> =
        Inr \<lparr>pending_payloads = message r, is_message_complete = True\<rparr>"
      by auto
    have fin: "drain_message fuel n ?r = Some []" if "\<not> position r + k < length (message r)"
      using that by (cases fuel) (simp_all add: Message_IsFinished_def)
    have pending: "take (position r) (message r) @ take k (drop (position r) (message r)) =
        take (position r + k) (message r)"
      by (simp add: take_add)
    have "message r \<noteq> []"
      using False by (auto simp: Message_IsFinished_def)
    show ?thesis
    proof (cases "position r + k < length (message r)")
      case True
      with False ps add step(2) \<open>message r \<noteq> []\<close> show ?thesis
        by (auto simp: step(1) Packetizer_AddPacket_def Let_def byte_simps pending)
    next
      case False
      then have k: "take (position r + k) (message r) = message r"
        by simp
      from False fin step(2) \<open>\<not> Message_IsFinished r\<close> \<open>message r \<noteq> []\<close> show ?thesis
        by (auto simp: step(1) Packetizer_AddPacket_def Let_def byte_simps pending k)
    qed
  qed
qed

end
