(* ===== verification/Weave_Socket.thy ===== *)
theory Weave_Socket
  imports Weave_Transfer
begin

text \<open>
  \<open>BaseSocket\<close> of internal/weave/base_socket.h and base_socket.cc: two request queues, the
  pointers to the requests being written, the connection state, the packetizer and the two
  packet counters, and the single-thread executor on which the queued work runs.

  Every queued request has an address, so that \<open>current_control_\<close> and
  \<open>current_message_\<close> are addresses and reading through a pointer to a request that has
  left its queue is visible: such a read, a \<open>pop_front\<close> of an empty queue and a failed
  \<open>CHECK\<close> set the field \<open>crashed\<close>.  What the socket tells its surroundings (the
  callbacks, \<open>Connection::Transmit\<close> and completed write futures) is recorded in order in
  \<open>socket_trace\<close>.  A callback of the connection and a task of the executor each run as one
  step.
\<close>

section \<open>State\<close>

datatype SocketConnectionState = kDisconnected | kDisconnecting | kConnected

datatype socket_event =
    EvConnected
  | EvDisconnected
  | EvReceive bytes
  | EvError status
  | EvTransmit bytes
  | EvWriteStatus nat status

datatype socket_task =
    TaskWriteComplete status
  | TaskDisconnect
  | TaskDisconnectQuietly
  | TaskWriteMessage message_write_request
  | TaskWriteControl control_write_request
  | TaskOnConnected int

record base_socket =
  control_request_queue :: "(nat \<times> control_write_request) list"
  message_request_queue :: "(nat \<times> message_write_request) list"
  current_control :: "nat option"
  current_message :: "nat option"
  connection_state :: SocketConnectionState
  max_packet_size :: int
  socket_packetizer :: packetizer
  packet_counter_generator :: sequence_generator
  remote_packet_counter_generator :: sequence_generator
  connection_max_packet_size :: int
  next_address :: nat
  executor_queue :: "socket_task list"
  socket_trace :: "socket_event list"
  crashed :: bool

text \<open>The base part of a socket just after its constructor.\<close>

definition base_socket_fields :: "int \<Rightarrow> base_socket" where
  "base_socket_fields conn_max =
     \<lparr>control_request_queue = [], message_request_queue = [], current_control = None,
      current_message = None, connection_state = kDisconnected, max_packet_size = conn_max,
      socket_packetizer = packetizer_init, packet_counter_generator = sequence_init,
      remote_packet_counter_generator = sequence_init,
      connection_max_packet_size = conn_max, next_address = 0, executor_queue = [],
      socket_trace = [], crashed = False\<rparr>"

section \<open>Operations\<close>

definition emit :: "socket_event \<Rightarrow> 'a base_socket_scheme \<Rightarrow> 'a base_socket_scheme" where
  "emit e s = s\<lparr>socket_trace := socket_trace s @ [e]\<rparr>"

definition crash :: "'a base_socket_scheme \<Rightarrow> 'a base_socket_scheme" where
  "crash s = s\<lparr>crashed := True\<rparr>"

definition RunOnSocketThread :: "socket_task \<Rightarrow> 'a base_socket_scheme \<Rightarrow> 'a base_socket_scheme" where
  "RunOnSocketThread t s = s\<lparr>executor_queue := executor_queue s @ [t]\<rparr>"

text \<open>Writing the request an address points to, in its queue.\<close>

fun store_at :: "nat \<Rightarrow> 'r \<Rightarrow> (nat \<times> 'r) list \<Rightarrow> (nat \<times> 'r) list" where
  "store_at a r [] = []"
| "store_at a r ((b, q) # rest) = (if b = a then (b, r) # rest else (b, q) # store_at a r rest)"

definition WritePacket :: "packet status_or \<Rightarrow> 'a base_socket_scheme \<Rightarrow> 'a base_socket_scheme" where
  "WritePacket packet s =
     (case packet of
        Inl _ \<Rightarrow> s
      | Inr p \<Rightarrow>
          (case Generator_Next (packet_counter_generator s) of (c, g) \<Rightarrow>
             let s1 = s\<lparr>packet_counter_generator := g\<rparr> in
             (case Packet_SetPacketCounter c p of (st, p') \<Rightarrow>
                if \<not> status_ok st then crash s1
                else emit (EvTransmit (packet_bytes p')) s1)))"

definition TryWriteNextControl :: "'a base_socket_scheme \<Rightarrow> 'a base_socket_scheme" where
  "TryWriteNextControl s =
     (let s1 = (if current_control s = None \<and> control_request_queue s \<noteq> []
                then s\<lparr>current_control := Some (fst (hd (control_request_queue s)))\<rparr> else s)
      in case current_control s1 of
           None \<Rightarrow> s1
         | Some a \<Rightarrow>
             let s2 = s1\<lparr>current_message := None, message_request_queue := []\<rparr> in
             (case map_of (control_request_queue s2) a of
                None \<Rightarrow> crash s2
              | Some r \<Rightarrow>
                  (case Control_NextPacket r of (p, r') \<Rightarrow>
                     WritePacket p
                       (s2\<lparr>control_request_queue :=
                             store_at a r' (control_request_queue s2)\<rparr>))))"

definition IsConnected :: "'a base_socket_scheme \<Rightarrow> bool" where
  "IsConnected s \<longleftrightarrow> connection_state s = kConnected"

definition TryWriteNextMessage :: "'a base_socket_scheme \<Rightarrow> 'a base_socket_scheme" where
  "TryWriteNextMessage s =
     (if current_control s \<noteq> None \<or> control_request_queue s \<noteq> []
      then TryWriteNextControl s
      else
        let s1 = (if current_message s = None \<and> message_request_queue s \<noteq> []
                  then s\<lparr>current_message := Some (fst (hd (message_request_queue s)))\<rparr>
                  else s)
        in case current_message s1 of
             None \<Rightarrow> s1
           | Some a \<Rightarrow>
               (case map_of (message_request_queue s1) a of
                  None \<Rightarrow> crash s1
                | Some r \<Rightarrow>
                    if Message_IsFinished r \<or> \<not> IsConnected s then s1
                    else (case Message_NextPacket (max_packet_size s1) r of (p, r') \<Rightarrow>
                            WritePacket p
                              (s1\<lparr>message_request_queue :=
                                    store_at a r' (message_request_queue s1)\<rparr>))))"

text \<open>The body of the task \<open>OnWriteRequestWriteComplete\<close> runs on the executor.\<close>

definition WriteComplete_body :: "status \<Rightarrow> 'a base_socket_scheme \<Rightarrow> 'a base_socket_scheme" where
  "WriteComplete_body status s =
     TryWriteNextMessage
       (if current_control s \<noteq> None
        then if control_request_queue s = [] then crash (s\<lparr>current_control := None\<rparr>)
             else s\<lparr>current_control := None,
                    control_request_queue := tl (control_request_queue s)\<rparr>
        else case current_message s of
               None \<Rightarrow> s
             | Some a \<Rightarrow>
                 (case map_of (message_request_queue s) a of
                    None \<Rightarrow> crash s
                  | Some r \<Rightarrow>
                      if Message_IsFinished r then
                        let s1 = emit (EvWriteStatus a status)
                              (s\<lparr>message_request_queue :=
                                   store_at a (Message_SetWriteStatus status r)
                                     (message_request_queue s)\<rparr>)
                        in if message_request_queue s1 \<noteq> [] \<and>
                              a = fst (hd (message_request_queue s1))
                           then s1\<lparr>message_request_queue := tl (message_request_queue s1),
                                   current_message := None\<rparr>
                           else s1
                      else s))"

definition WriteControlPacket :: "packet \<Rightarrow> 'a base_socket_scheme \<Rightarrow> 'a base_socket_scheme" where
  "WriteControlPacket p s = RunOnSocketThread (TaskWriteControl (ControlPacketWriteRequest p)) s"

definition WriteControl_body ::
  "control_write_request \<Rightarrow> 'a base_socket_scheme \<Rightarrow> 'a base_socket_scheme" where
  "WriteControl_body r s =
     TryWriteNextControl
       (s\<lparr>control_request_queue := control_request_queue s @ [(next_address s, r)],
          next_address := Suc (next_address s)\<rparr>)"

definition BaseSocket_Write :: "bytes \<Rightarrow> 'a base_socket_scheme \<Rightarrow> 'a base_socket_scheme" where
  "BaseSocket_Write m s = RunOnSocketThread (TaskWriteMessage (MessageWriteRequest m)) s"

definition WriteMessage_body ::
  "message_write_request \<Rightarrow> 'a base_socket_scheme \<Rightarrow> 'a base_socket_scheme" where
  "WriteMessage_body r s =
     TryWriteNextMessage
       (s\<lparr>message_request_queue := message_request_queue s @ [(next_address s, r)],
          next_address := Suc (next_address s)\<rparr>)"

definition BaseSocket_Disconnect :: "'a base_socket_scheme \<Rightarrow> 'a base_socket_scheme" where
  "BaseSocket_Disconnect s = RunOnSocketThread TaskDisconnect s"

text \<open>\<open>DisconnectQuietly\<close> is virtual: the task of \<open>Disconnect\<close> calls the override \<open>quiet\<close>.\<close>

definition Disconnect_body ::
  "('a base_socket_scheme \<Rightarrow> 'a base_socket_scheme) \<Rightarrow>
   'a base_socket_scheme \<Rightarrow> 'a base_socket_scheme" where
  "Disconnect_body quiet s =
     (if connection_state s = kDisconnecting \<or> connection_state s = kDisconnected then s
      else quiet ((WriteControlPacket Packet_CreateErrorPacket s)
                    \<lparr>current_message := None, message_request_queue := [],
                     connection_state := kDisconnecting\<rparr>))"

definition BaseSocket_DisconnectQuietly :: "'a base_socket_scheme \<Rightarrow> 'a base_socket_scheme" where
  "BaseSocket_DisconnectQuietly s = RunOnSocketThread TaskDisconnectQuietly s"

definition DisconnectQuietly_body :: "'a base_socket_scheme \<Rightarrow> 'a base_socket_scheme" where
  "DisconnectQuietly_body s =
     (let s1 = (if connection_state s = kDisconnecting then emit EvDisconnected s else s)
      in s1\<lparr>socket_packetizer := Packetizer_Reset (socket_packetizer s1),
            packet_counter_generator := Generator_Reset (packet_counter_generator s1),
            remote_packet_counter_generator :=
              Generator_Reset (remote_packet_counter_generator s1),
            message_request_queue := [], control_request_queue := [],
            current_control := None, current_message := None,
            connection_state := kDisconnected\<rparr>)"

definition DisconnectInternal :: "status \<Rightarrow> 'a base_socket_scheme \<Rightarrow> 'a base_socket_scheme" where
  "DisconnectInternal st s = BaseSocket_Disconnect (emit (EvError st) s)"

definition BaseSocket_OnConnected :: "int \<Rightarrow> 'a base_socket_scheme \<Rightarrow> 'a base_socket_scheme" where
  "BaseSocket_OnConnected n s = RunOnSocketThread (TaskOnConnected n) s"

definition OnConnected_body :: "int \<Rightarrow> 'a base_socket_scheme \<Rightarrow> 'a base_socket_scheme" where
  "OnConnected_body new_max_packet_size s =
     (let s1 = s\<lparr>max_packet_size := new_max_packet_size\<rparr>
      in TryWriteNextMessage
           (if \<not> IsConnected s1 then emit EvConnected (s1\<lparr>connection_state := kConnected\<rparr>)
            else s1))"

definition IsRemotePacketCounterExpected ::
  "int \<Rightarrow> 'a base_socket_scheme \<Rightarrow> bool \<times> 'a base_socket_scheme" where
  "IsRemotePacketCounterExpected counter s =
     (case Generator_Next (remote_packet_counter_generator s) of (e, g) \<Rightarrow>
        let s1 = s\<lparr>remote_packet_counter_generator := g\<rparr> in
        if counter = e then (True, s1) else (False, emit (EvError DataLossError) s1))"

definition OnReceiveDataPacket :: "packet \<Rightarrow> 'a base_socket_scheme \<Rightarrow> 'a base_socket_scheme" where
  "OnReceiveDataPacket p s =
     (case Packetizer_AddPacket p (socket_packetizer s) of (st, z) \<Rightarrow>
        let s1 = s\<lparr>socket_packetizer := z\<rparr> in
        if \<not> status_ok st then DisconnectInternal st s1
        else (case Packetizer_TakeMessage z of (m, z') \<Rightarrow>
                let s2 = s1\<lparr>socket_packetizer := z'\<rparr> in
                (case m of
                   Inl e \<Rightarrow> DisconnectInternal e s2
                 | Inr bs \<Rightarrow> emit (EvReceive bs) s2)))"

text \<open>The three callbacks the constructor hands to the connection.\<close>

definition OnTransmit_cb :: "status \<Rightarrow> 'a base_socket_scheme \<Rightarrow> 'a base_socket_scheme" where
  "OnTransmit_cb st s =
     (let s1 = RunOnSocketThread (TaskWriteComplete st) s
      in if \<not> status_ok st then DisconnectInternal st s1 else s1)"

definition OnRemoteTransmit_cb ::
  "(packet \<Rightarrow> 'a base_socket_scheme \<Rightarrow> 'a base_socket_scheme) \<Rightarrow> bytes \<Rightarrow>
   'a base_socket_scheme \<Rightarrow> 'a base_socket_scheme" where
  "OnRemoteTransmit_cb on_control m s =
     (if m = [] then DisconnectInternal InvalidArgumentError s
      else case Packet_FromBytes m of
             Inl e \<Rightarrow> DisconnectInternal e s
           | Inr p \<Rightarrow>
               (case IsRemotePacketCounterExpected (Packet_GetPacketCounter p) s of
                  (expected, s1) \<Rightarrow>
                    if Packet_IsControlPacket p then
                      on_control p
                        (if \<not> expected
                         then s1\<lparr>remote_packet_counter_generator :=
                                   snd (Generator_Next (remote_packet_counter_generator s1))\<rparr>
                         else s1)
                    else if expected then OnReceiveDataPacket p s1
                    else BaseSocket_Disconnect s1))"

section \<open>Steps\<close>

fun run_task ::
  "('a base_socket_scheme \<Rightarrow> 'a base_socket_scheme) \<Rightarrow> socket_task \<Rightarrow>
   'a base_socket_scheme \<Rightarrow> 'a base_socket_scheme" where
  "run_task quiet (TaskWriteComplete st) s = WriteComplete_body st s"
| "run_task quiet TaskDisconnect s = Disconnect_body quiet s"
| "run_task quiet TaskDisconnectQuietly s = DisconnectQuietly_body s"
| "run_task quiet (TaskWriteMessage r) s = WriteMessage_body r s"
| "run_task quiet (TaskWriteControl r) s = WriteControl_body r s"
| "run_task quiet (TaskOnConnected n) s = OnConnected_body n s"

definition run_next_task ::
  "('a base_socket_scheme \<Rightarrow> 'a base_socket_scheme) \<Rightarrow>
   'a base_socket_scheme \<Rightarrow> 'a base_socket_scheme" where
  "run_next_task quiet s =
     (case executor_queue s of
        [] \<Rightarrow> s
      | t # ts \<Rightarrow> run_task quiet t (s\<lparr>executor_queue := ts\<rparr>))"

datatype socket_input =
    InConnect
  | InWrite bytes
  | InDisconnect
  | InRemote bytes
  | InTransmitted status
  | InRemoteDisconnected
  | InRunTask

fun socket_step ::
  "('a base_socket_scheme \<Rightarrow> 'a base_socket_scheme) \<Rightarrow>
   (packet \<Rightarrow> 'a base_socket_scheme \<Rightarrow> 'a base_socket_scheme) \<Rightarrow>
   ('a base_socket_scheme \<Rightarrow> 'a base_socket_scheme) \<Rightarrow>
   socket_input \<Rightarrow> 'a base_socket_scheme \<Rightarrow> 'a base_socket_scheme" where
  "socket_step quiet on_control connect InConnect s = connect s"
| "socket_step quiet on_control connect (InWrite m) s = BaseSocket_Write m s"
| "socket_step quiet on_control connect InDisconnect s = BaseSocket_Disconnect s"
| "socket_step quiet on_control connect (InRemote m) s = OnRemoteTransmit_cb on_control m s"
| "socket_step quiet on_control connect (InTransmitted st) s = OnTransmit_cb st s"
| "socket_step quiet on_control connect InRemoteDisconnected s = quiet s"
| "socket_step quiet on_control connect InRunTask s = run_next_task quiet s"

fun socket_run ::
  "(socket_input \<Rightarrow> 's \<Rightarrow> 's) \<Rightarrow> socket_input list \<Rightarrow> 's \<Rightarrow> 's" where
  "socket_run step [] s = s"
| "socket_run step (i # ins) s = socket_run step ins (step i s)"

end
