(* ===== verification/Weave_Safety.thy ===== *)
theory Weave_Safety
  imports Weave_Socket
begin

text \<open>
  The invariant of a Weave socket and its preservation by every operation of the base
  class; the contract between the base class and its subclasses as a locale.
\<close>

section \<open>The invariant\<close>

text \<open>Counters of the transmitted packets, in order.\<close>

fun transmits :: "socket_event list \<Rightarrow> bytes list" where
  "transmits [] = []"
| "transmits (EvTransmit bs # es) = bs # transmits es"
| "transmits (_ # es) = transmits es"

definition sent_counters :: "'a base_socket_scheme \<Rightarrow> int list" where
  "sent_counters s =
     map (\<lambda>bs. Packet_GetPacketCounter \<lparr>packet_bytes = bs\<rparr>) (transmits (socket_trace s))"

text \<open>Each counter is the successor of the one before, modulo 8, or 0 after a reset.\<close>

fun counters_follow :: "int \<Rightarrow> int list \<Rightarrow> bool" where
  "counters_follow e [] = True"
| "counters_follow e (c # cs) = ((c = e \<or> c = 0) \<and> counters_follow ((c + 1) mod 8) cs)"

fun next_counter :: "int \<Rightarrow> int list \<Rightarrow> int" where
  "next_counter e [] = e"
| "next_counter e (c # cs) = next_counter ((c + 1) mod 8) cs"

definition fresh_packet :: "packet \<Rightarrow> bool" where
  "fresh_packet p \<longleftrightarrow> packet_bytes p \<noteq> [] \<and> Packet_header p AND 112 = 0"

definition control_ok :: "control_write_request \<Rightarrow> bool" where
  "control_ok r \<longleftrightarrow> is_started r \<or> fresh_packet (control_packet r)"

fun task_ok :: "socket_task \<Rightarrow> bool" where
  "task_ok (TaskWriteControl r) = control_ok r"
| "task_ok _ = True"

text \<open>A request pointer is null or points to the front of its queue.\<close>

definition points_to_front :: "nat option \<Rightarrow> (nat \<times> 'r) list \<Rightarrow> bool" where
  "points_to_front ptr q \<longleftrightarrow>
     (case ptr of None \<Rightarrow> True | Some a \<Rightarrow> q \<noteq> [] \<and> fst (hd q) = a)"

definition base_inv :: "'a base_socket_scheme \<Rightarrow> bool" where
  "base_inv s \<longleftrightarrow>
     \<not> crashed s \<and>
     generator_ok (packet_counter_generator s) \<and>
     generator_ok (remote_packet_counter_generator s) \<and>
     points_to_front (current_control s) (control_request_queue s) \<and>
     points_to_front (current_message s) (message_request_queue s) \<and>
     list_all (\<lambda>(a, r). control_ok r) (control_request_queue s) \<and>
     list_all task_ok (executor_queue s) \<and>
     counters_follow 0 (sent_counters s) \<and>
     (packet_counter (packet_counter_generator s) = next_counter 0 (sent_counters s) \<or>
      packet_counter (packet_counter_generator s) = 0)"

lemma transmits_append [simp]: "transmits (xs @ ys) = transmits xs @ transmits ys"
  by (induction xs rule: transmits.induct) simp_all

lemma counters_follow_snoc [simp]:
  "counters_follow e (cs @ [c]) \<longleftrightarrow>
     counters_follow e cs \<and> (c = next_counter e cs \<or> c = 0)"
  by (induction cs arbitrary: e) auto

lemma next_counter_snoc [simp]: "next_counter e (cs @ [c]) = (c + 1) mod 8"
  by (induction cs arbitrary: e) simp_all

lemma sent_counters_snoc:
  "sent_counters (s\<lparr>socket_trace := socket_trace s @ [EvTransmit bs]\<rparr>) =
     sent_counters s @ [Packet_GetPacketCounter \<lparr>packet_bytes = bs\<rparr>]"
  by (simp add: sent_counters_def)

lemma fresh_data_packet [simp]: "fresh_packet (Packet_CreateDataPacket f l bs)"
  by (cases f; cases l)
     (simp_all add: fresh_packet_def CreateDataPacket_bytes
        header_bytes [OF CreateDataPacket_bytes] data_header_def)

lemma fresh_error_packet [simp]: "fresh_packet Packet_CreateErrorPacket"
  by (simp add: fresh_packet_def CreateErrorPacket_bytes header_bytes [OF CreateErrorPacket_bytes])

lemma base_inv_fields [simp]: "base_inv (base_socket_fields n)"
  by (simp add: base_inv_def base_socket_fields_def points_to_front_def sent_counters_def
      sequence_init_def generator_ok_def)

section \<open>Every operation keeps it\<close>

lemma store_at_keys: "map fst (store_at a r q) = map fst q"
  by (induction q) auto

lemma store_at_Nil: "store_at a r q = [] \<longleftrightarrow> q = []"
  using store_at_keys [of a r q] by (metis map_is_Nil_conv)

lemma store_at_front: "q \<noteq> [] \<Longrightarrow> fst (hd (store_at a r q)) = fst (hd q)"
  using store_at_keys [of a r q] store_at_Nil [of a r q] by (metis hd_map)

lemma points_to_front_store [simp]:
  "points_to_front ptr (store_at a r q) = points_to_front ptr q"
  by (auto simp: points_to_front_def store_at_front store_at_Nil split: option.split)

lemma points_to_front_None [simp]: "points_to_front None q"
  by (simp add: points_to_front_def)

lemma points_to_front_snoc:
  "points_to_front ptr q \<Longrightarrow> points_to_front ptr (q @ [x])"
  by (auto simp: points_to_front_def split: option.splits)

lemma points_to_front_lookup:
  "points_to_front (Some a) q \<Longrightarrow> \<exists>r. map_of q a = Some r \<and> (a, r) \<in> set q"
  by (cases q) (auto simp: points_to_front_def)

lemma list_all_store:
  "list_all (\<lambda>(a, r). P r) q \<Longrightarrow> P r' \<Longrightarrow> list_all (\<lambda>(a, r). P r) (store_at a r' q)"
  by (induction q) auto

lemma base_inv_emit [simp]:
  assumes "\<And>bs. e \<noteq> EvTransmit bs"
  shows "base_inv (emit e s) = base_inv s"
proof (cases e)
  case (EvTransmit bs)
  with assms show ?thesis by blast
qed (simp_all add: base_inv_def emit_def sent_counters_def)

lemma base_inv_run [simp]:
  "base_inv (RunOnSocketThread t s) \<longleftrightarrow> task_ok t \<and> base_inv s"
  by (auto simp: base_inv_def RunOnSocketThread_def sent_counters_def)

lemma base_inv_WritePacket:
  assumes inv: "base_inv s" and fresh: "\<And>p. packet = Inr p \<Longrightarrow> fresh_packet p"
  shows "base_inv (WritePacket packet s)"
proof (cases packet)
  case (Inl e)
  with inv show ?thesis by (simp add: WritePacket_def)
next
  case (Inr p)
  let ?g = "packet_counter_generator s"
  obtain c g where next_eq: "Generator_Next ?g = (c, g)"
    by (cases "Generator_Next ?g")
  from inv have ok: "generator_ok ?g"
    by (simp add: base_inv_def)
  from Generator_Next_ok [OF ok] next_eq have c: "0 \<le> c" "c \<le> 7" "generator_ok g"
    by simp_all
  from Generator_Next_mod [OF ok] next_eq have mod8: "c = packet_counter ?g"
    "packet_counter g = (c + 1) mod 8"
    by auto
  obtain st p' where set_eq: "Packet_SetPacketCounter c p = (st, p')"
    by (cases "Packet_SetPacketCounter c p")
  have st: "status_ok st"
    using SetPacketCounter_ok_iff [of c p] c set_eq by simp
  have "Packet_GetPacketCounter p' = c"
    using SetPacketCounter_get [OF _ c(1,2), of p] fresh [OF Inr] set_eq
    by (simp add: fresh_packet_def)
  then have "Packet_GetPacketCounter \<lparr>packet_bytes = packet_bytes p'\<rparr> = c"
    by (cases p') simp
  moreover have "WritePacket packet s =
      emit (EvTransmit (packet_bytes p')) (s\<lparr>packet_counter_generator := g\<rparr>)"
    by (simp add: Inr WritePacket_def next_eq set_eq st Let_def)
  ultimately show ?thesis
    using inv c mod8 by (simp add: base_inv_def emit_def sent_counters_def)
qed

lemma base_inv_TryWriteNextControl:
  assumes inv: "base_inv s"
  shows "base_inv (TryWriteNextControl s)"
proof -
  define s1 where "s1 = (if current_control s = None \<and> control_request_queue s \<noteq> []
      then s\<lparr>current_control := Some (fst (hd (control_request_queue s)))\<rparr> else s)"
  have inv1: "base_inv s1"
    using inv by (auto simp: s1_def base_inv_def points_to_front_def sent_counters_def
        split: option.splits)
  show ?thesis
  proof (cases "current_control s1")
    case None
    with inv1 show ?thesis
      by (simp add: TryWriteNextControl_def Let_def flip: s1_def)
  next
    case (Some a)
    let ?s2 = "s1\<lparr>current_message := None, message_request_queue := []\<rparr>"
    from inv1 Some obtain r where r: "map_of (control_request_queue s1) a = Some r"
      "(a, r) \<in> set (control_request_queue s1)"
      using points_to_front_lookup by (auto simp: base_inv_def)
    obtain p r' where p: "Control_NextPacket r = (p, r')"
      by (cases "Control_NextPacket r")
    from inv1 r(2) have r_ok: "control_ok r"
      by (auto simp: base_inv_def list_all_iff)
    then have "control_ok r'" and fresh: "\<And>q. p = Inr q \<Longrightarrow> fresh_packet q"
      using p by (auto simp: Control_NextPacket_def control_ok_def split: if_splits)
    with inv1 have "base_inv (?s2\<lparr>control_request_queue :=
        store_at a r' (control_request_queue ?s2)\<rparr>)"
      by (auto simp: base_inv_def sent_counters_def list_all_store)
    from base_inv_WritePacket [OF this, of p] fresh show ?thesis
      using Some r(1) p by (simp add: TryWriteNextControl_def Let_def flip: s1_def)
  qed
qed

lemma base_inv_TryWriteNextMessage:
  assumes inv: "base_inv s"
  shows "base_inv (TryWriteNextMessage s)"
proof (cases "current_control s \<noteq> None \<or> control_request_queue s \<noteq> []")
  case True
  then show ?thesis
    using base_inv_TryWriteNextControl [OF inv] by (simp add: TryWriteNextMessage_def)
next
  case False
  define s1 where "s1 = (if current_message s = None \<and> message_request_queue s \<noteq> []
      then s\<lparr>current_message := Some (fst (hd (message_request_queue s)))\<rparr> else s)"
  have inv1: "base_inv s1"
    using inv by (auto simp: s1_def base_inv_def points_to_front_def sent_counters_def
        split: option.splits)
  show ?thesis
  proof (cases "current_message s1")
    case None
    with inv1 False show ?thesis
      by (simp add: TryWriteNextMessage_def Let_def flip: s1_def)
  next
    case (Some a)
    from inv1 Some obtain r where r: "map_of (message_request_queue s1) a = Some r"
      using points_to_front_lookup by (auto simp: base_inv_def)
    obtain p r' where p: "Message_NextPacket (max_packet_size s1) r = (p, r')"
      by (cases "Message_NextPacket (max_packet_size s1) r")
    have fresh: "\<And>q. p = Inr q \<Longrightarrow> fresh_packet q"
      using p by (auto simp: Message_NextPacket_def Let_def split: if_splits)
    from inv1 have "base_inv (s1\<lparr>message_request_queue :=
        store_at a r' (message_request_queue s1)\<rparr>)"
      by (auto simp: base_inv_def sent_counters_def)
    from base_inv_WritePacket [OF this, of p] fresh inv1 show ?thesis
      using Some r p False by (simp add: TryWriteNextMessage_def Let_def flip: s1_def)
  qed
qed

lemma base_inv_WriteComplete:
  assumes inv: "base_inv s"
  shows "base_inv (WriteComplete_body st s)"
proof -
  have front: "control_request_queue s \<noteq> []" if "current_control s \<noteq> None"
    using inv that by (auto simp: base_inv_def points_to_front_def)
  have found: "\<exists>r. map_of (message_request_queue s) a = Some r" if "current_message s = Some a" for a
    using inv that points_to_front_lookup by (fastforce simp: base_inv_def)
  have tl_ok: "list_all P (tl q)" if "list_all P q" for P :: "nat \<times> control_write_request \<Rightarrow> bool" and q
    using that by (cases q) auto
  show ?thesis
    unfolding WriteComplete_body_def
    by (rule base_inv_TryWriteNextMessage, insert inv front found)
       (auto simp: base_inv_def sent_counters_def emit_def Let_def tl_ok
          split: option.split)
qed

lemma base_inv_WriteControl:
  "base_inv s \<Longrightarrow> control_ok r \<Longrightarrow> base_inv (WriteControl_body r s)"
  unfolding WriteControl_body_def
  by (rule base_inv_TryWriteNextControl)
     (auto simp: base_inv_def sent_counters_def points_to_front_snoc)

lemma base_inv_WriteMessage: "base_inv s \<Longrightarrow> base_inv (WriteMessage_body r s)"
  unfolding WriteMessage_body_def
  by (rule base_inv_TryWriteNextMessage)
     (auto simp: base_inv_def sent_counters_def points_to_front_snoc)

lemma base_inv_OnConnected: "base_inv s \<Longrightarrow> base_inv (OnConnected_body n s)"
  unfolding OnConnected_body_def Let_def
  by (rule base_inv_TryWriteNextMessage)
     (auto simp: base_inv_def sent_counters_def emit_def)

lemma base_inv_DisconnectQuietly: "base_inv s \<Longrightarrow> base_inv (DisconnectQuietly_body s)"
  by (auto simp: base_inv_def sent_counters_def DisconnectQuietly_body_def Let_def emit_def
      generator_ok_def Generator_Reset_def)

lemma base_inv_queueing [simp]:
  "base_inv (BaseSocket_Disconnect s) = base_inv s"
  "base_inv (BaseSocket_DisconnectQuietly s) = base_inv s"
  "base_inv (DisconnectInternal st s) = base_inv s"
  "base_inv (BaseSocket_OnConnected n s) = base_inv s"
  "base_inv (BaseSocket_Write m s) = base_inv s"
  "base_inv (OnTransmit_cb st s) = base_inv s"
  "base_inv (WriteControlPacket p s) \<longleftrightarrow> fresh_packet p \<and> base_inv s"
  by (simp_all add: BaseSocket_Disconnect_def BaseSocket_DisconnectQuietly_def
      DisconnectInternal_def BaseSocket_OnConnected_def BaseSocket_Write_def OnTransmit_cb_def
      Let_def WriteControlPacket_def control_ok_def ControlPacketWriteRequest_def)

lemma base_inv_set_packetizer [simp]: "base_inv (s\<lparr>socket_packetizer := z\<rparr>) = base_inv s"
  by (simp add: base_inv_def sent_counters_def)

lemma base_inv_OnReceiveDataPacket: "base_inv s \<Longrightarrow> base_inv (OnReceiveDataPacket p s)"
  by (auto simp: OnReceiveDataPacket_def Let_def split: prod.split sum.split)

lemma base_inv_remote_counter:
  "base_inv s \<Longrightarrow> generator_ok g \<Longrightarrow> base_inv (s\<lparr>remote_packet_counter_generator := g\<rparr>)"
  by (simp add: base_inv_def sent_counters_def)

lemma base_inv_remote_ok: "base_inv s \<Longrightarrow> generator_ok (remote_packet_counter_generator s)"
  by (simp add: base_inv_def)

lemma base_inv_IsRemotePacketCounterExpected:
  "base_inv s \<Longrightarrow> base_inv (snd (IsRemotePacketCounterExpected c s))"
  using Generator_Next_ok [of "remote_packet_counter_generator s"]
  by (auto simp: IsRemotePacketCounterExpected_def Let_def base_inv_remote_counter
      base_inv_remote_ok split: prod.split)

section \<open>What the base class leaves alone\<close>

text \<open>The base class never writes the fields a subclass adds.\<close>

lemma more_basic [frame_simps]:
  "base_socket.more (emit e s) = base_socket.more s"
  "base_socket.more (crash s) = base_socket.more s"
  "base_socket.more (RunOnSocketThread t s) = base_socket.more s"
  by (simp_all add: emit_def crash_def RunOnSocketThread_def)

lemma more_WritePacket [frame_simps]: "base_socket.more (WritePacket p s) = base_socket.more s"
  by (simp add: WritePacket_def Let_def frame_simps split: sum.split prod.split)

lemma more_TryWriteNextControl [frame_simps]:
  "base_socket.more (TryWriteNextControl s) = base_socket.more s"
  by (simp add: TryWriteNextControl_def Let_def frame_simps split: option.split prod.split)

lemma more_TryWriteNextMessage [frame_simps]:
  "base_socket.more (TryWriteNextMessage s) = base_socket.more s"
  by (simp add: TryWriteNextMessage_def Let_def frame_simps split: option.split prod.split)

lemma more_bodies [frame_simps]:
  "base_socket.more (WriteComplete_body st s) = base_socket.more s"
  "base_socket.more (WriteControl_body r s) = base_socket.more s"
  "base_socket.more (WriteMessage_body m s) = base_socket.more s"
  "base_socket.more (OnConnected_body n s) = base_socket.more s"
  "base_socket.more (DisconnectQuietly_body s) = base_socket.more s"
  by (simp_all add: WriteComplete_body_def WriteControl_body_def WriteMessage_body_def
      OnConnected_body_def DisconnectQuietly_body_def Let_def frame_simps split: option.split)

lemma more_queueing [frame_simps]:
  "base_socket.more (BaseSocket_Disconnect s) = base_socket.more s"
  "base_socket.more (BaseSocket_DisconnectQuietly s) = base_socket.more s"
  "base_socket.more (DisconnectInternal st s) = base_socket.more s"
  "base_socket.more (BaseSocket_OnConnected n s) = base_socket.more s"
  "base_socket.more (BaseSocket_Write m s) = base_socket.more s"
  "base_socket.more (OnTransmit_cb st s) = base_socket.more s"
  "base_socket.more (WriteControlPacket p s) = base_socket.more s"
  by (simp_all add: BaseSocket_Disconnect_def BaseSocket_DisconnectQuietly_def
      DisconnectInternal_def BaseSocket_OnConnected_def BaseSocket_Write_def OnTransmit_cb_def
      Let_def WriteControlPacket_def frame_simps)

lemma more_OnReceiveDataPacket [frame_simps]:
  "base_socket.more (OnReceiveDataPacket p s) = base_socket.more s"
  by (simp add: OnReceiveDataPacket_def Let_def frame_simps split: prod.split sum.split)

lemma more_IsRemotePacketCounterExpected [frame_simps]:
  "base_socket.more (snd (IsRemotePacketCounterExpected c s)) = base_socket.more s"
  by (simp add: IsRemotePacketCounterExpected_def Let_def frame_simps split: prod.split)

section \<open>The contract with the subclasses\<close>

text \<open>
  \<open>BaseSocket\<close> calls three operations it does not define: the virtual
  \<open>DisconnectQuietly\<close>, \<open>OnReceiveControlPacket\<close> and \<open>Connect\<close>.  A subclass adds fields of
  its own (\<open>role_ok\<close> is its condition on them) and must keep the base invariant.
\<close>

locale weave_role =
  fixes quiet :: "'a base_socket_scheme \<Rightarrow> 'a base_socket_scheme"
    and on_control :: "packet \<Rightarrow> 'a base_socket_scheme \<Rightarrow> 'a base_socket_scheme"
    and connect :: "'a base_socket_scheme \<Rightarrow> 'a base_socket_scheme"
    and role_ok :: "'a \<Rightarrow> bool"
  assumes quiet_keeps: "base_inv s \<Longrightarrow> role_ok (base_socket.more s) \<Longrightarrow>
      base_inv (quiet s) \<and> role_ok (base_socket.more (quiet s))"
    and on_control_keeps: "base_inv s \<Longrightarrow> role_ok (base_socket.more s) \<Longrightarrow>
      base_inv (on_control p s) \<and> role_ok (base_socket.more (on_control p s))"
    and connect_keeps: "base_inv s \<Longrightarrow> role_ok (base_socket.more s) \<Longrightarrow>
      base_inv (connect s) \<and> role_ok (base_socket.more (connect s))"
begin

definition socket_inv :: "'a base_socket_scheme \<Rightarrow> bool" where
  "socket_inv s \<longleftrightarrow> base_inv s \<and> role_ok (base_socket.more s)"

lemma disconnect_body_keeps:
  assumes "socket_inv s"
  shows "socket_inv (Disconnect_body quiet s)"
proof -
  let ?s = "(WriteControlPacket Packet_CreateErrorPacket s)
      \<lparr>current_message := None, message_request_queue := [], connection_state := kDisconnecting\<rparr>"
  have "base_inv (WriteControlPacket Packet_CreateErrorPacket s)"
    using assms by (simp add: socket_inv_def)
  then have "base_inv ?s"
    by (simp add: base_inv_def sent_counters_def)
  moreover have "role_ok (base_socket.more ?s)"
    using assms by (simp add: socket_inv_def frame_simps)
  ultimately show ?thesis
    using assms quiet_keeps [of ?s] by (simp add: Disconnect_body_def socket_inv_def)
qed

lemma task_keeps:
  assumes "socket_inv s" and "task_ok t"
  shows "socket_inv (run_task quiet t s)"
proof (cases "t = TaskDisconnect")
  case True
  with assms disconnect_body_keeps show ?thesis by simp
next
  case False
  with assms show ?thesis
    by (cases t)
       (simp_all add: socket_inv_def frame_simps base_inv_WriteComplete base_inv_WriteControl
          base_inv_WriteMessage base_inv_OnConnected base_inv_DisconnectQuietly)
qed

lemma next_task_keeps:
  assumes "socket_inv s"
  shows "socket_inv (run_next_task quiet s)"
proof (cases "executor_queue s")
  case Nil
  with assms show ?thesis by (simp add: run_next_task_def)
next
  case (Cons t ts)
  with assms have "socket_inv (s\<lparr>executor_queue := ts\<rparr>)" and "task_ok t"
    by (simp_all add: socket_inv_def base_inv_def sent_counters_def)
  then have "socket_inv (run_task quiet t (s\<lparr>executor_queue := ts\<rparr>))"
    by (rule task_keeps)
  with Cons show ?thesis by (simp add: run_next_task_def)
qed

lemma remote_keeps:
  assumes "socket_inv s"
  shows "socket_inv (OnRemoteTransmit_cb on_control m s)"
proof (cases "m = []")
  case True
  with assms show ?thesis by (simp add: OnRemoteTransmit_cb_def socket_inv_def frame_simps)
next
  case False
  obtain e s1 where e: "IsRemotePacketCounterExpected
      (Packet_GetPacketCounter \<lparr>packet_bytes = m\<rparr>) s = (e, s1)"
    by (cases "IsRemotePacketCounterExpected
      (Packet_GetPacketCounter \<lparr>packet_bytes = m\<rparr>) s")
  have s1: "base_inv s1" "role_ok (base_socket.more s1)"
    using assms base_inv_IsRemotePacketCounterExpected
      [of s "Packet_GetPacketCounter \<lparr>packet_bytes = m\<rparr>"]
      more_IsRemotePacketCounterExpected [of "Packet_GetPacketCounter \<lparr>packet_bytes = m\<rparr>" s] e
    by (simp_all add: socket_inv_def)
  let ?s2 = "s1\<lparr>remote_packet_counter_generator :=
      snd (Generator_Next (remote_packet_counter_generator s1))\<rparr>"
  have s2: "base_inv ?s2" "role_ok (base_socket.more ?s2)"
    using s1 Generator_Next_ok [OF base_inv_remote_ok [OF s1(1)]]
    by (simp_all add: base_inv_remote_counter)
  show ?thesis
    using False on_control_keeps [OF s1] on_control_keeps [OF s2] s1
    by (simp add: OnRemoteTransmit_cb_def Packet_FromBytes_def socket_inv_def e
        base_inv_OnReceiveDataPacket frame_simps)
qed

lemma step_keeps: "socket_inv s \<Longrightarrow> socket_inv (socket_step quiet on_control connect i s)"
proof (cases i)
  case (InRemote m)
  then show "socket_inv s \<Longrightarrow> ?thesis" using remote_keeps by simp
next
  case InRunTask
  then show "socket_inv s \<Longrightarrow> ?thesis" using next_task_keeps by simp
qed (simp_all add: socket_inv_def quiet_keeps connect_keeps frame_simps)

lemma run_keeps:
  "socket_inv s \<Longrightarrow> socket_inv (socket_run (socket_step quiet on_control connect) ins s)"
  by (induction ins arbitrary: s) (simp_all add: step_keeps)

text \<open>No run crashes, and the counters on the wire follow each other.\<close>

lemma run_safe:
  assumes "socket_inv s"
  shows "\<not> crashed (socket_run (socket_step quiet on_control connect) ins s)"
    and "counters_follow 0
           (sent_counters (socket_run (socket_step quiet on_control connect) ins s))"
  using run_keeps [OF assms, of ins] by (simp_all add: socket_inv_def base_inv_def)

end

end
