(* ===== verification/Weave_Handshake.thy ===== *)
theory Weave_Handshake
  imports Weave_Safety
begin

text \<open>
  The two subclasses of \<open>BaseSocket\<close>: \<open>ClientSocket\<close> and \<open>ServerSocket\<close> of
  internal/weave/sockets, which run the version and packet-size handshake over control
  packets, and their interpretation of the contract \<open>weave_role\<close>.
\<close>

section \<open>ClientSocket\<close>

datatype ClientState =
    kStateDisconnected
  | kStateClientConnectionRequest
  | kStateServerConfirm
  | kStateHandshakeCompleted

text \<open>
  \<open>provided_data\<close> is what the \<open>InitialDataProvider\<close> returns; the default provider returns
  the empty string.
\<close>

record client_socket = base_socket +
  client_state :: ClientState
  provided_data :: bytes

definition kProtocolVersion :: int where "kProtocolVersion = 1"
definition kConnectionConfirmPacketMinLength :: nat where "kConnectionConfirmPacketMinLength = 4"

definition ClientSocket :: "int \<Rightarrow> bytes \<Rightarrow> client_socket" where
  "ClientSocket conn_max provided =
     base_socket.extend (base_socket_fields conn_max)
       (client_socket.fields kStateDisconnected provided)"

definition ClientSocket_Connect :: "client_socket \<Rightarrow> client_socket" where
  "ClientSocket_Connect s =
     (if client_state s \<noteq> kStateDisconnected then s
      else
        let s1 = s\<lparr>client_state := kStateClientConnectionRequest\<rparr> in
        (case Packet_CreateConnectionRequestPacket kProtocolVersion kProtocolVersion
                (to_int16 (connection_max_packet_size s1)) (provided_data s1) of
           Inl _ \<Rightarrow> crash s1
         | Inr p \<Rightarrow> (WriteControlPacket p s1)\<lparr>client_state := kStateServerConfirm\<rparr>))"

definition ClientSocket_DisconnectQuietly :: "client_socket \<Rightarrow> client_socket" where
  "ClientSocket_DisconnectQuietly s =
     (BaseSocket_DisconnectQuietly s)\<lparr>client_state := kStateDisconnected\<rparr>"

text \<open>\<open>((data()[i] << 8) | data()[i + 1]) & (int16_t)0xFFFF\<close>: the mask is -1.\<close>

definition client_read_int16 :: "bytes \<Rightarrow> nat \<Rightarrow> int" where
  "client_read_int16 payload i =
     (push_bit 8 (char_val (payload ! i)) OR char_val (payload ! (i + 1))) AND (- 1)"

definition ClientSocket_OnReceiveControlPacket :: "packet \<Rightarrow> client_socket \<Rightarrow> client_socket" where
  "ClientSocket_OnReceiveControlPacket p s =
     (if Packet_GetControlCommandNumber p = kControlError
        then ClientSocket_DisconnectQuietly s
      else if client_state s \<noteq> kStateServerConfirm then emit (EvError InternalError) s
      else if Packet_GetControlCommandNumber p \<noteq> kControlConnectionConfirm
        then DisconnectInternal InternalError s
      else if length (Packet_GetPayload p) < kConnectionConfirmPacketMinLength
        then DisconnectInternal InvalidArgumentError s
      else
        let protocol_version = client_read_int16 (Packet_GetPayload p) 0 in
        if protocol_version \<noteq> kProtocolVersion then DisconnectInternal InternalError s
        else
          let confirmed_max_packet_size = client_read_int16 (Packet_GetPayload p) 2 in
          if confirmed_max_packet_size > connection_max_packet_size s
          then DisconnectInternal InternalError s
          else
            let s1 = BaseSocket_OnConnected confirmed_max_packet_size
                       (s\<lparr>client_state := kStateHandshakeCompleted\<rparr>) in
            if length (Packet_GetPayload p) > kConnectionConfirmPacketMinLength
            then emit (EvReceive (drop kConnectionConfirmPacketMinLength (Packet_GetPayload p))) s1
            else s1)"

section \<open>ServerSocket\<close>

datatype ServerState =
    kServerDisconnected
  | kClientConnectionRequest
  | kServerConfirm
  | kHandshakeCompleted

record server_socket = base_socket +
  server_state :: ServerState
  server_max_packet_size :: int

definition kMinimumConnectionRequestLength :: nat where "kMinimumConnectionRequestLength = 6"

definition ServerSocket :: "int \<Rightarrow> server_socket" where
  "ServerSocket conn_max =
     base_socket.extend (base_socket_fields conn_max)
       (server_socket.fields kClientConnectionRequest 0)"

definition ExtractMinProtocolVersionFromConnRequest :: "bytes \<Rightarrow> int" where
  "ExtractMinProtocolVersionFromConnRequest bs =
     to_int16 ((push_bit 8 (char_val (bs ! 0)) OR char_val (bs ! 1)) AND 65535)"

definition ExtractMaxProtocolVersionFromConnRequest :: "bytes \<Rightarrow> int" where
  "ExtractMaxProtocolVersionFromConnRequest bs =
     to_int16 ((push_bit 8 (char_val (bs ! 2)) OR char_val (bs ! 3)) AND 65535)"

definition ExtractMaxPacketSizeFromConnRequest :: "bytes \<Rightarrow> int" where
  "ExtractMaxPacketSizeFromConnRequest bs =
     to_uint16 ((push_bit 8 (char_val (bs ! 4)) OR char_val (bs ! 5)) AND 65535)"

definition ServerSocket_DisconnectQuietly :: "server_socket \<Rightarrow> server_socket" where
  "ServerSocket_DisconnectQuietly s =
     (BaseSocket_DisconnectQuietly s)\<lparr>server_state := kServerDisconnected\<rparr>"

definition ServerSocket_Connect :: "server_socket \<Rightarrow> server_socket" where
  "ServerSocket_Connect s = s"

definition ServerSocket_WriteConnectionConfirm :: "server_socket \<Rightarrow> server_socket" where
  "ServerSocket_WriteConnectionConfirm s =
     (let s1 = s\<lparr>server_state := kServerConfirm\<rparr> in
      case Packet_CreateConnectionConfirmPacket kProtocolVersion
             (to_int16 (server_max_packet_size s1)) [] of
        Inl e \<Rightarrow> DisconnectInternal e s1
      | Inr p \<Rightarrow>
          BaseSocket_OnConnected (server_max_packet_size s1)
            ((WriteControlPacket p s1)\<lparr>server_state := kHandshakeCompleted\<rparr>))"

definition ServerSocket_OnReceiveControlPacket :: "packet \<Rightarrow> server_socket \<Rightarrow> server_socket" where
  "ServerSocket_OnReceiveControlPacket p s =
     (if Packet_GetControlCommandNumber p = kControlError
        then ServerSocket_DisconnectQuietly s
      else if server_state s \<noteq> kClientConnectionRequest
        then emit (EvError InvalidArgumentError) s
      else if Packet_GetControlCommandNumber p \<noteq> kControlConnectionRequest
        then DisconnectInternal InvalidArgumentError s
      else
        let packet_payload = Packet_GetPayload p in
        if length packet_payload < kMinimumConnectionRequestLength
        then emit (EvError InvalidArgumentError) s
        else if ExtractMinProtocolVersionFromConnRequest packet_payload > kProtocolVersion \<or>
                ExtractMaxProtocolVersionFromConnRequest packet_payload < kProtocolVersion
        then DisconnectInternal InvalidArgumentError s
        else
          let client_max_packet_size = ExtractMaxPacketSizeFromConnRequest packet_payload;
              s1 = s\<lparr>server_max_packet_size :=
                       (if client_max_packet_size = 0 then connection_max_packet_size s
                        else min (connection_max_packet_size s) client_max_packet_size)\<rparr>;
              s2 = (if length packet_payload > kMinimumConnectionRequestLength
                    then emit (EvReceive (drop kMinimumConnectionRequestLength packet_payload)) s1
                    else s1)
          in ServerSocket_WriteConnectionConfirm s2)"

section \<open>The subclasses keep the contract\<close>

lemma base_inv_client_fields [simp]:
  "base_inv (s\<lparr>client_state := x\<rparr>) = base_inv s"
  "base_inv (s\<lparr>provided_data := d\<rparr>) = base_inv s"
  by (simp_all add: base_inv_def sent_counters_def)

lemma base_inv_server_fields [simp]:
  "base_inv (s\<lparr>server_state := y\<rparr>) = base_inv s"
  "base_inv (s\<lparr>server_max_packet_size := n\<rparr>) = base_inv s"
  by (simp_all add: base_inv_def sent_counters_def)

text \<open>The condition on a client's own fields: the provider's data fits the request packet.\<close>

definition client_ok :: "unit client_socket_ext \<Rightarrow> bool" where
  "client_ok m \<longleftrightarrow>
     length (provided_data (base_socket.extend (base_socket_fields 0) m)) \<le> 13"

lemma client_ok_more: "client_ok (base_socket.more s) \<longleftrightarrow> length (provided_data s) \<le> 13"
  by (cases s) (simp add: client_ok_def base_socket.extend_def)

lemma client_more_update [simp]:
  "client_ok (base_socket.more (s\<lparr>client_state := x\<rparr>)) = client_ok (base_socket.more s)"
  by (simp add: client_ok_more)

lemma provided_data_frame:
  "provided_data (WriteControlPacket p s) = provided_data s"
  by (simp add: WriteControlPacket_def RunOnSocketThread_def)

lemma fresh_control_packet:
  "Packet_CreateConnectionRequestPacket a b c d = Inr p \<Longrightarrow> fresh_packet p"
  "Packet_CreateConnectionConfirmPacket a b d = Inr p \<Longrightarrow> fresh_packet p"
  by (auto simp: CreateConnectionRequestPacket_bytes CreateConnectionConfirmPacket_bytes
      fresh_packet_def Packet_header_def Packet_CreateConnectionRequestPacket_def
      Packet_CreateConnectionConfirmPacket_def CreateControlPacket_bytes weave_const_defs
      overwrite_at_def Let_def split: if_splits)

interpretation client: weave_role
  ClientSocket_DisconnectQuietly ClientSocket_OnReceiveControlPacket ClientSocket_Connect client_ok
proof
  fix s :: client_socket and p :: packet
  assume inv: "base_inv s" and ok: "client_ok (base_socket.more s)"
  show quiet: "base_inv (ClientSocket_DisconnectQuietly s) \<and>
      client_ok (base_socket.more (ClientSocket_DisconnectQuietly s))"
    using inv ok by (simp add: ClientSocket_DisconnectQuietly_def frame_simps)
  show "base_inv (ClientSocket_OnReceiveControlPacket p s) \<and>
      client_ok (base_socket.more (ClientSocket_OnReceiveControlPacket p s))"
    using inv ok quiet
    by (simp add: ClientSocket_OnReceiveControlPacket_def Let_def frame_simps)
  show "base_inv (ClientSocket_Connect s) \<and>
      client_ok (base_socket.more (ClientSocket_Connect s))"
    using inv ok
    by (auto simp: ClientSocket_Connect_def Let_def client_ok_more fresh_packet_def
        Packet_header_def provided_data_frame CreateConnectionRequestPacket_bytes)
qed

interpretation server: weave_role
  ServerSocket_DisconnectQuietly ServerSocket_OnReceiveControlPacket ServerSocket_Connect
  "\<lambda>_. True"
proof
  fix s :: server_socket and p :: packet
  assume inv: "base_inv s"
  have confirm: "base_inv t \<Longrightarrow> base_inv (ServerSocket_WriteConnectionConfirm t)" for t
    by (auto simp: ServerSocket_WriteConnectionConfirm_def Let_def fresh_control_packet
        split: sum.split)
  show quiet: "base_inv (ServerSocket_DisconnectQuietly s) \<and> True"
    using inv by (simp add: ServerSocket_DisconnectQuietly_def)
  show "base_inv (ServerSocket_OnReceiveControlPacket p s) \<and> True"
    using inv quiet
    by (auto simp: ServerSocket_OnReceiveControlPacket_def Let_def intro!: confirm)
  show "base_inv (ServerSocket_Connect s) \<and> True"
    using inv by (simp add: ServerSocket_Connect_def)
qed


abbreviation client_step :: "socket_input \<Rightarrow> client_socket \<Rightarrow> client_socket" where
  "client_step \<equiv> socket_step ClientSocket_DisconnectQuietly
     ClientSocket_OnReceiveControlPacket ClientSocket_Connect"

abbreviation server_step :: "socket_input \<Rightarrow> server_socket \<Rightarrow> server_socket" where
  "server_step \<equiv> socket_step ServerSocket_DisconnectQuietly
     ServerSocket_OnReceiveControlPacket ServerSocket_Connect"

lemma base_inv_extend: "base_inv (base_socket.extend (base_socket_fields n) m)"
  by (simp add: base_socket.extend_def base_socket_fields_def base_inv_def sent_counters_def
      sequence_init_def generator_ok_def)

lemma client_start: "length d \<le> 13 \<Longrightarrow> client.socket_inv (ClientSocket n d)"
  by (simp add: client.socket_inv_def ClientSocket_def base_inv_extend client_ok_more)
     (simp add: base_socket.extend_def client_socket.fields_def)

lemma server_start: "server.socket_inv (ServerSocket n)"
  by (simp add: server.socket_inv_def ServerSocket_def base_inv_extend)

section \<open>The header integers as the two ends read them\<close>

lemma char_val_to_char: "0 \<le> i \<Longrightarrow> i < 256 \<Longrightarrow> char_val (to_char i) = (if i < 128 then i else i - 256)"
proof -
  assume i: "0 \<le> i" "i < 256"
  then have "unat (to_char i) = nat i"
    by (simp add: to_char_def unat_eq_nat_uint uint_word_of_int)
  with i show ?thesis
    by (cases "i < 128") (simp_all add: char_val_neg)
qed

lemma int16_header_bytes:
  "int16_header v = [to_char (v div 256 mod 256), to_char (v mod 256)]"
proof -
  have "255 AND x = x mod 256" for x :: int
    using take_bit_eq_mask [of 8 x] by (simp add: take_bit_eq_mod mask_eq_exp_minus_1 and.commute)
  then show ?thesis
    by (simp add: int16_header_def drop_bit_eq_div)
qed

lemma and_65535: "(x :: int) AND 65535 = x mod 65536"
  using take_bit_eq_mask [of 16 x] by (simp add: take_bit_eq_mod mask_eq_exp_minus_1)

lemma join_int16:
  assumes "0 \<le> n" and "n < 65536"
  shows "(push_bit 8 (char_val (to_char (n div 256 mod 256))) OR
          char_val (to_char (n mod 256))) mod 65536 =
         (if n mod 256 < 128 then n else 65280 + n mod 256)"
proof -
  have hi: "n div 256 mod 256 = n div 256" "0 \<le> n div 256" "n div 256 < 256"
    using assms by auto
  have lo: "0 \<le> n mod 256" "n mod 256 < 256"
    by simp_all
  define h where "h = char_val (to_char (n div 256))"
  have h: "h = n div 256 \<or> h = n div 256 - 256"
    using char_val_to_char [OF hi(2,3)] by (simp add: h_def)
  have n: "n = 256 * (n div 256) + n mod 256"
    by simp
  show ?thesis
  proof (cases "n mod 256 < 128")
    case True
    then have "push_bit 8 h OR char_val (to_char (n mod 256)) = 256 * h + n mod 256"
      using lo by (simp add: char_val_to_char push_bit_or_small)
    moreover have "(256 * h + n mod 256) mod 65536 = n"
    proof (cases "h = n div 256")
      case True
      then show ?thesis using n assms by simp
    next
      case False
      with h have "256 * h + n mod 256 = n - 65536" using n by simp
      then show ?thesis using assms by (simp add: mod_diff_right_eq [symmetric])
    qed
    ultimately show ?thesis using True by (simp add: hi h_def)
  next
    case False
    then have "push_bit 8 h OR char_val (to_char (n mod 256)) = n mod 256 - 256"
      using lo by (simp add: char_val_to_char push_bit_or_neg)
    moreover have "(n mod 256 - 256) mod 65536 = 65280 + n mod 256"
      using mod_add_self2 [of "n mod 256 - 256" "65536 :: int"] lo
      by (simp add: mod_pos_pos_trivial)
    ultimately show ?thesis using False by (simp add: hi h_def)
  qed
qed

lemma to_uint16_id: "0 \<le> x \<Longrightarrow> x < 65536 \<Longrightarrow> to_uint16 x = x"
  by (simp add: to_uint16_def take_bit_eq_mod)

lemma server_reads_size:
  assumes "0 \<le> n" and "n < 65536"
  shows "ExtractMaxPacketSizeFromConnRequest (a # b # c # d # int16_header n @ rest) =
     (if n mod 256 < 128 then n else 65280 + n mod 256)"
  using assms join_int16 [OF assms]
  by (simp add: ExtractMaxPacketSizeFromConnRequest_def int16_header_bytes and_65535
      to_uint16_id numeral_eq_Suc split: if_splits)

lemma bit_255: "bit (255 :: int) k \<longleftrightarrow> k < 8"
  using bit_mask_iff [of 8 k, where ?'a = int] by (simp add: mask_eq_exp_minus_1)

lemma int16_header_to_int16 [simp]: "int16_header (to_int16 n) = int16_header n"
proof -
  have "255 AND drop_bit 8 (signed_take_bit 15 n) = 255 AND drop_bit 8 n"
  proof (rule bit_eqI)
    fix k
    show "bit (255 AND drop_bit 8 (signed_take_bit 15 n)) k = bit (255 AND drop_bit 8 n) k"
      by (cases "k = 7") (auto simp: bit_simps bit_255 min_def)
  qed
  moreover have "255 AND signed_take_bit 15 n = 255 AND n"
    by (rule bit_eqI) (auto simp: bit_simps bit_255 min_def)
  ultimately show ?thesis
    by (simp add: int16_header_def to_int16_def)
qed

section \<open>The handshake of a client and a server\<close>

text \<open>Sizes on which the two ends agree: the low byte has its sign bit clear.\<close>

definition plain_size :: "int \<Rightarrow> bool" where
  "plain_size n \<longleftrightarrow> 0 < n \<and> n < 32768 \<and> n mod 256 < 128"

definition last_transmit :: "'a base_socket_scheme \<Rightarrow> bytes" where
  "last_transmit s = last (transmits (socket_trace s))"

lemma sent_header: "Packet_SetPacketCounter 0 \<lparr>packet_bytes = b # bs\<rparr> =
    (OkStatus, \<lparr>packet_bytes = b # bs\<rparr>)"
  by (simp add: Packet_SetPacketCounter_def kMaxPacketCounter_def Packet_header_def to_char_def
      kMaskPacketCounter_def)

definition client_request :: "int \<Rightarrow> bytes \<Rightarrow> bytes" where
  "client_request n d = 128 # int16_header 1 @ int16_header 1 @ int16_header n @ d"

definition server_confirm :: "int \<Rightarrow> bytes" where
  "server_confirm n = 129 # int16_header 1 @ int16_header n"

lemmas socket_eval =
  run_next_task_def WriteControl_body_def WriteControlPacket_def RunOnSocketThread_def
  ControlPacketWriteRequest_def TryWriteNextControl_def Control_NextPacket_def WritePacket_def
  Generator_Next_def sequence_init_def kMaxPacketCounter_def emit_def OnTransmit_cb_def
  WriteComplete_body_def TryWriteNextMessage_def BaseSocket_OnConnected_def OnConnected_body_def
  IsConnected_def base_socket.extend_def base_socket_fields_def Let_def

definition connected_client :: "int \<Rightarrow> bytes \<Rightarrow> client_socket" where
  "connected_client n d =
     socket_run client_step [InConnect, InRunTask, InTransmitted OkStatus, InRunTask]
       (ClientSocket n d)"

lemma client_after_request:
  assumes "length d \<le> 13"
  shows "connected_client n d =
     (ClientSocket n d)\<lparr>next_address := 1, client_state := kStateServerConfirm,
       packet_counter_generator := \<lparr>packet_counter = 1\<rparr>,
       socket_trace := [EvTransmit (client_request n d)]\<rparr>"
  using assms
  by (simp add: connected_client_def ClientSocket_def ClientSocket_Connect_def
      client_socket.fields_def CreateConnectionRequestPacket_bytes sent_header client_request_def
      kProtocolVersion_def socket_eval)

lemma client_request_packet:
  "Packet_FromBytes (client_request n d) = Inr \<lparr>packet_bytes = client_request n d\<rparr>"
  "Packet_GetPacketCounter \<lparr>packet_bytes = client_request n d\<rparr> = 0"
  "Packet_IsControlPacket \<lparr>packet_bytes = client_request n d\<rparr>"
  "Packet_GetControlCommandNumber \<lparr>packet_bytes = client_request n d\<rparr> = kControlConnectionRequest"
  "Packet_GetPayload \<lparr>packet_bytes = client_request n d\<rparr> =
     int16_header 1 @ int16_header 1 @ int16_header n @ d"
  by (simp_all add: client_request_def Packet_FromBytes_def Packet_GetPacketCounter_def
      Packet_IsControlPacket_def Packet_GetControlCommandNumber_def Packet_GetPayload_def
      Packet_header_def weave_const_defs ControlPacketType_cast_def)

lemma server_confirm_packet:
  "Packet_FromBytes (server_confirm n) = Inr \<lparr>packet_bytes = server_confirm n\<rparr>"
  "Packet_GetPacketCounter \<lparr>packet_bytes = server_confirm n\<rparr> = 0"
  "Packet_IsControlPacket \<lparr>packet_bytes = server_confirm n\<rparr>"
  "Packet_GetControlCommandNumber \<lparr>packet_bytes = server_confirm n\<rparr> = kControlConnectionConfirm"
  "Packet_GetPayload \<lparr>packet_bytes = server_confirm n\<rparr> = int16_header 1 @ int16_header n"
  by (simp_all add: server_confirm_def Packet_FromBytes_def Packet_GetPacketCounter_def
      Packet_IsControlPacket_def Packet_GetControlCommandNumber_def Packet_GetPayload_def
      Packet_header_def weave_const_defs ControlPacketType_cast_def)

lemma versions_read:
  "ExtractMinProtocolVersionFromConnRequest (int16_header 1 @ rest) = 1"
  "ExtractMaxProtocolVersionFromConnRequest (int16_header 1 @ int16_header 1 @ rest) = 1"
  "client_read_int16 (int16_header 1 @ rest) 0 = 1"
  by (simp_all add: ExtractMinProtocolVersionFromConnRequest_def
      ExtractMaxProtocolVersionFromConnRequest_def client_read_int16_def int16_header_bytes
      char_val_to_char to_int16_def numeral_eq_Suc signed_take_bit_int_eq_self)

lemma request_size_read:
  "plain_size n \<Longrightarrow>
   ExtractMaxPacketSizeFromConnRequest (int16_header 1 @ int16_header 1 @ int16_header n @ d) = n"
  using server_reads_size [of n _ _ _ _ d]
  by (simp add: plain_size_def int16_header_bytes [of 1])

lemma confirm_size_read:
  assumes "plain_size n"
  shows "client_read_int16 (int16_header 1 @ int16_header n) 2 = n"
proof -
  have "n div 256 mod 256 = n div 256" "0 \<le> n div 256" "n div 256 < 128"
    using assms by (auto simp: plain_size_def)
  moreover have joined: "256 * (n div 256) OR n mod 256 = n"
    using push_bit_or_small [of "n mod 256" "n div 256"]
    by (simp add: push_bit_eq_mult mult.commute)
  ultimately show ?thesis
    using assms by (simp add: client_read_int16_def int16_header_bytes numeral_eq_Suc
        char_val_to_char joined plain_size_def)
qed

definition answering_server :: "int \<Rightarrow> bytes \<Rightarrow> server_socket" where
  "answering_server n request =
     socket_run server_step [InRemote request, InRunTask, InRunTask, InTransmitted OkStatus, InRunTask]
       (ServerSocket n)"

lemma server_after_request:
  assumes "plain_size m" and "plain_size n" and "length d \<le> 13"
  shows "answering_server n (client_request m d) =
     (ServerSocket n)\<lparr>next_address := 1, server_state := kHandshakeCompleted,
       server_max_packet_size := min n m, max_packet_size := min n m,
       connection_state := kConnected,
       packet_counter_generator := \<lparr>packet_counter = 1\<rparr>,
       remote_packet_counter_generator := \<lparr>packet_counter = 1\<rparr>,
       socket_trace := (if d = [] then [] else [EvReceive d]) @
         [EvTransmit (server_confirm (min n m)), EvConnected]\<rparr>"
proof -
  have "m \<noteq> 0"
    using assms by (simp add: plain_size_def)
  moreover have "client_request m d \<noteq> []"
    by (simp add: client_request_def)
  ultimately show ?thesis
    using assms
    by (cases "d = []")
       (simp_all add: answering_server_def ServerSocket_def server_socket.fields_def
        OnRemoteTransmit_cb_def client_request_packet IsRemotePacketCounterExpected_def
        request_size_read [where d = "[]", simplified]
        ServerSocket_OnReceiveControlPacket_def versions_read request_size_read
        kMinimumConnectionRequestLength_def kProtocolVersion_def
        ServerSocket_WriteConnectionConfirm_def CreateConnectionConfirmPacket_bytes
        sent_header server_confirm_def socket_eval)
qed

definition confirmed_client :: "int \<Rightarrow> bytes \<Rightarrow> bytes \<Rightarrow> client_socket" where
  "confirmed_client m d confirm =
     socket_run client_step [InRemote confirm, InRunTask] (connected_client m d)"

lemma client_after_confirm:
  assumes "plain_size k" and "k \<le> m" and "length d \<le> 13"
  shows "confirmed_client m d (server_confirm k) =
     (ClientSocket m d)\<lparr>next_address := 1, client_state := kStateHandshakeCompleted,
       max_packet_size := k, connection_state := kConnected,
       packet_counter_generator := \<lparr>packet_counter = 1\<rparr>,
       remote_packet_counter_generator := \<lparr>packet_counter = 1\<rparr>,
       socket_trace := [EvTransmit (client_request m d), EvConnected]\<rparr>"
proof -
  have "server_confirm k \<noteq> []"
    by (simp add: server_confirm_def)
  then show ?thesis
    using assms
    by (simp add: confirmed_client_def client_after_request OnRemoteTransmit_cb_def
        server_confirm_packet IsRemotePacketCounterExpected_def
        ClientSocket_OnReceiveControlPacket_def versions_read confirm_size_read
        kConnectionConfirmPacketMinLength_def kProtocolVersion_def ClientSocket_def
        client_socket.fields_def socket_eval)
qed

end
