(* ===== verification/Weave_Props.thy ===== *)
theory Weave_Props
  imports Weave_Handshake
begin

text \<open>
  The properties of the Weave transport, over both kinds of socket.
\<close>

section \<open>Safety of the sockets\<close>



section \<open>The handshake\<close>

text \<open>
  C12: A client and a server that exchange the connection request and the connection confirm
  both end up connected, with the same packet size, the smaller of what their connections
  allow, and the server has delivered the client's initial data before it reports the
  connection; for packet sizes on which the sign of the low byte does not interfere.
\<close>

theorem weave_handshake_agrees:
  assumes "plain_size m" and "plain_size n" and "length d \<le> 13"
  shows "let s = answering_server n (last_transmit (connected_client m d));
             c = confirmed_client m d (last_transmit s)
         in IsConnected c \<and> IsConnected s \<and>
            client_state c = kStateHandshakeCompleted \<and> server_state s = kHandshakeCompleted \<and>
            max_packet_size c = min m n \<and> max_packet_size s = min m n \<and>
            socket_trace s = (if d = [] then [] else [EvReceive d]) @
              [EvTransmit (server_confirm (min m n)), EvConnected]"
proof -
  have size: "plain_size (min m n)"
    using assms by (simp add: min_def)
  have c: "last_transmit (connected_client m d) = client_request m d"
    by (simp add: client_after_request [OF assms(3)] last_transmit_def)
  have "last_transmit (answering_server n (client_request m d)) = server_confirm (min m n)"
    by (simp add: server_after_request [OF assms] last_transmit_def min.commute)
  then show ?thesis
    by (simp only: c Let_def server_after_request [OF assms]
          client_after_confirm [OF size min.cobounded1 assms(3)])
       (simp add: IsConnected_def min.commute)
qed

theorem weave_handshake_agrees_witness:
  "max_packet_size (answering_server 100 (last_transmit (connected_client 20 [7]))) = 20"
  using weave_handshake_agrees [of 20 100 "[7]"]
  by (simp add: plain_size_def Let_def)

section \<open>Messages\<close>

text \<open>
  C28: A non-empty message is cut into packets and rebuilt exactly: with packets of at least
  two bytes, asking the write request for packets ends within as many steps as the message
  has bytes, and a packetizer that receives those packets in order holds the complete
  message, hands it out and is empty again.
\<close>

theorem weave_message_roundtrip:
  assumes "2 \<le> n" and "m \<noteq> []"
  shows "\<exists>ps z. drain_message (length m) n (MessageWriteRequest m) = Some ps \<and>
           add_packets ps packetizer_init = Inr z \<and>
           Packetizer_TakeMessage z = (Inr m, packetizer_init)"
proof -
  obtain ps where "drain_message (length m) n (MessageWriteRequest m) = Some ps"
    and "add_packets ps packetizer_init =
      Inr \<lparr>pending_payloads = m, is_message_complete = True\<rparr>"
    using drain_then_add [OF assms(1), of "MessageWriteRequest m" "length m"] assms(2)
    by (auto simp: MessageWriteRequest_def packetizer_init_def)
  then show ?thesis
    by (simp add: Packetizer_TakeMessage_def packetizer_init_def)
qed

theorem weave_message_roundtrip_witness:
  "\<exists>ps z. drain_message 3 2 (MessageWriteRequest [5, 6, 7]) = Some ps \<and>
     add_packets ps packetizer_init = Inr z \<and>
     Packetizer_TakeMessage z = (Inr [5, 6, 7], packetizer_init)"
  using weave_message_roundtrip [of 2 "[5, 6, 7]"]
  by (simp add: numeral_3_eq_3 del: drain_message.simps)

text \<open>
  What \<open>CreateDataPacket\<close> and \<open>SetPacketCounter\<close> write is what the accessors read: the
  first and last flags, the packet counter, the data type and the payload, for every counter
  the generator can produce.
\<close>

theorem weave_data_packet_roundtrip:
  assumes "0 \<le> c" and "c \<le> kMaxPacketCounter"
  shows "case Packet_SetPacketCounter c (Packet_CreateDataPacket f l payload) of (st, p) \<Rightarrow>
           st = OkStatus \<and> Packet_IsFirstPacket p = f \<and> Packet_IsLastPacket p = l \<and>
           Packet_IsDataPacket p \<and> Packet_GetPacketCounter p = c \<and>
           Packet_GetPayload p = payload \<and> length (packet_bytes p) = 1 + length payload"
proof -
  let ?p = "Packet_CreateDataPacket f l payload"
  have c: "0 \<le> c" "c \<le> 7"
    using assms by (simp_all add: kMaxPacketCounter_def)
  have fresh: "packet_bytes ?p \<noteq> []" "Packet_header ?p AND 112 = 0"
    by (cases f; cases l; simp add: CreateDataPacket_bytes
        header_bytes [OF CreateDataPacket_bytes] data_header_def)+
  obtain st p where p: "Packet_SetPacketCounter c ?p = (st, p)"
    by (cases "Packet_SetPacketCounter c ?p")
  have "length (packet_bytes p) = length (packet_bytes ?p)"
    using p by (auto simp: Packet_SetPacketCounter_def split: if_splits)
  then show ?thesis
    using SetPacketCounter_keeps [OF fresh(1) c] SetPacketCounter_get [OF fresh(1) c fresh(2)]
      SetPacketCounter_payload [of c ?p] SetPacketCounter_ok_iff [of c ?p] c p
    by (simp add: CreateDataPacket_flags Packet_IsDataPacket_def CreateDataPacket_bytes)
qed

theorem weave_data_packet_roundtrip_witness:
  "Packet_GetPacketCounter (snd (Packet_SetPacketCounter 5 (Packet_CreateDataPacket True False [9]))) = 5"
  using weave_data_packet_roundtrip [of 5 True False "[9]"]
  by (simp add: kMaxPacketCounter_def split: prod.splits)

section \<open>What the code does not do\<close>

text \<open>
  The packet size a server reads from a connection request is the one the client wrote
  exactly when the low byte of the size is below 128; otherwise sign extension turns it into
  65280 plus the low byte.
\<close>

theorem weave_server_size_sign_extended:
  assumes "0 \<le> n" and "n < 65536" and "length d \<le> 13"
  shows "\<exists>p. Packet_CreateConnectionRequestPacket v w (to_int16 n) d = Inr p \<and>
           ExtractMaxPacketSizeFromConnRequest (Packet_GetPayload p) =
             (if n mod 256 < 128 then n else 65280 + n mod 256)"
  using server_reads_size [OF assms(1,2)] assms(3)
  by (simp add: CreateConnectionRequestPacket_bytes Packet_GetPayload_def kPacketHeaderLength_def
      int16_header_bytes [of v] int16_header_bytes [of w])

theorem weave_server_size_sign_extended_witness:
  "\<exists>p. Packet_CreateConnectionRequestPacket 1 1 (to_int16 200) [] = Inr p \<and>
     ExtractMaxPacketSizeFromConnRequest (Packet_GetPayload p) = 65480"
  using weave_server_size_sign_extended [of 200 "[]" 1 1] by simp

text \<open>
  A message that needs more than one packet is never received: when its first packet
  reaches a socket whose packetizer is empty, the socket reports \<open>UnavailableError\<close> and
  schedules a disconnect instead of waiting for the rest.
\<close>

theorem weave_fragmented_message_disconnects:
  assumes "2 \<le> n" and "nat n \<le> length m" and "socket_packetizer s = packetizer_init"
  shows "\<exists>p r. Message_NextPacket n (MessageWriteRequest m) = (Inr p, r) \<and>
           OnReceiveDataPacket p s =
             DisconnectInternal UnavailableError
               (s\<lparr>socket_packetizer :=
                    \<lparr>pending_payloads = take (nat n - 1) m, is_message_complete = False\<rparr>\<rparr>)"
proof -
  let ?r = "MessageWriteRequest m"
  have fin: "\<not> Message_IsFinished ?r"
    using assms by (auto simp: Message_IsFinished_def MessageWriteRequest_def)
  have k: "min (nat n - 1) (length m) = nat n - 1" and "nat n - 1 < length m"
    using assms by auto
  then show ?thesis
    using NextPacket_progress(1) [OF fin assms(1)] assms(3)
    by (simp add: MessageWriteRequest_def OnReceiveDataPacket_def Packetizer_AddPacket_def
        packetizer_init_def byte_simps Let_def Packetizer_TakeMessage_def)
qed

theorem weave_fragmented_message_disconnects_witness:
  "\<exists>p r. Message_NextPacket 2 (MessageWriteRequest [1, 2]) = (Inr p, r) \<and>
     OnReceiveDataPacket p (ServerSocket 20) =
       DisconnectInternal UnavailableError
         ((ServerSocket 20)\<lparr>socket_packetizer :=
            \<lparr>pending_payloads = [1], is_message_complete = False\<rparr>\<rparr>)"
  using weave_fragmented_message_disconnects [of 2 "[1, 2]" "ServerSocket 20"]
  by (simp add: ServerSocket_def base_socket.extend_def base_socket_fields_def)

text \<open>
  An empty message blocks a socket: on a connected socket with nothing queued, writing
  the empty message and then any other message transmits nothing and leaves both requests
  queued, because a finished request is only dropped when a write completes.
\<close>

theorem weave_empty_message_blocks:
  assumes "IsConnected s" and "current_control s = None" and "control_request_queue s = []"
    and "current_message s = None" and "message_request_queue s = []" and "executor_queue s = []"
  shows "let s' = socket_run client_step [InWrite [], InRunTask, InWrite m, InRunTask] s in
         transmits (socket_trace s') = transmits (socket_trace s) \<and>
         executor_queue s' = [] \<and>
         map snd (message_request_queue s') = [MessageWriteRequest [], MessageWriteRequest m]"
  using assms
  by (simp add: BaseSocket_Write_def WriteMessage_body_def MessageWriteRequest_def
      Message_IsFinished_def socket_eval)

theorem weave_empty_message_blocks_witness:
  "transmits (socket_trace (socket_run client_step [InWrite [], InRunTask, InWrite [3], InRunTask]
     ((ClientSocket 20 [])\<lparr>connection_state := kConnected\<rparr>))) = []"
  using weave_empty_message_blocks
    [of "(ClientSocket 20 [])\<lparr>connection_state := kConnected\<rparr>" "[3]"]
  by (simp add: ClientSocket_def base_socket.extend_def base_socket_fields_def IsConnected_def
      client_socket.fields_def Let_def del: socket_run.simps)

text \<open>
  The counters a fresh generator hands out are 0, 1, ..., 7 and then again from 0.
\<close>

theorem weave_counter_sequence:
  "take_counters n (Generator_Reset g) = map (\<lambda>i. int i mod 8) [0..<n]"
  using take_counters_mod [OF generator_ok_reset [of g], of n] by (simp add: Generator_Reset_def)

end
