(* ===== verification/Byte_Stream.thy ===== *)
theory Byte_Stream
  imports NBC_Prelude
begin

text \<open>
  \<open>StreamReader\<close> and \<open>StreamWriter\<close> of internal/platform: the cursor every wire decoder of
  the repository reads through and the buffer the encoders write to.  Unsigned results are
  words of their width, signed results are read from the same bits.
\<close>

unbundle bit_operations_syntax

section \<open>StreamReader\<close>

record stream_reader =
  reader_buffer :: bytes
  reader_position :: nat
  reader_bits_unused :: nat
  reader_bits_buffer :: byte

definition StreamReader :: "bytes \<Rightarrow> stream_reader" where
  "StreamReader bs =
     \<lparr>reader_buffer = bs, reader_position = 0, reader_bits_unused = 0, reader_bits_buffer = 0\<rparr>"

text \<open>
  \<open>buffer_->size() - position_ >= size\<close> compares as \<open>size_t\<close>: a negative \<open>size\<close> becomes
  larger than any buffer.
\<close>

definition IsAvailable :: "int \<Rightarrow> stream_reader \<Rightarrow> bool" where
  "IsAvailable n r \<longleftrightarrow>
     0 \<le> n \<and> n \<le> int (length (reader_buffer r)) - int (reader_position r)"

text \<open>
  \<open>Read\<close> copies into a fresh array of \<open>size\<close> bytes with \<open>CopyAt\<close>, which fails on an empty
  destination and on a source position at the end of the buffer.
\<close>

definition Read :: "int \<Rightarrow> stream_reader \<Rightarrow> bytes option \<times> stream_reader" where
  "Read n r =
     (if \<not> IsAvailable n r then (None, r)
      else if n \<le> 0 then (None, r)
      else if reader_position r \<ge> length (reader_buffer r) then (None, r)
      else (Some (take (nat n) (drop (reader_position r) (reader_buffer r))),
            r\<lparr>reader_position := reader_position r + nat n\<rparr>))"

definition ReadBytes :: "int \<Rightarrow> stream_reader \<Rightarrow> bytes option \<times> stream_reader" where
  "ReadBytes n r = (if reader_bits_unused r \<noteq> 0 then (None, r) else Read n r)"

definition ReadBits :: "int \<Rightarrow> stream_reader \<Rightarrow> byte option \<times> stream_reader" where
  "ReadBits bits r =
     (if bits > 8 \<or> bits \<le> 0 then (None, r)
      else if reader_bits_unused r = 0 \<and> \<not> IsAvailable 1 r then (None, r)
      else
        let r1 = (if reader_bits_unused r = 0
                  then r\<lparr>reader_bits_buffer := reader_buffer r ! reader_position r,
                         reader_position := reader_position r + 1,
                         reader_bits_unused := 8\<rparr>
                  else r);
            b = nat bits
        in if reader_bits_unused r1 < b then (None, r1)
           else (Some (drop_bit (reader_bits_unused r1 - b) (reader_bits_buffer r1) AND
                       (push_bit b 1 - 1)),
                 r1\<lparr>reader_bits_unused := reader_bits_unused r1 - b\<rparr>))"

definition ReadUint8 :: "stream_reader \<Rightarrow> byte option \<times> stream_reader" where
  "ReadUint8 r = (case ReadBytes 1 r of
       (None, r') \<Rightarrow> (None, r')
     | (Some bs, r') \<Rightarrow> (Some (bs ! 0), r'))"

definition ReadInt8 :: "stream_reader \<Rightarrow> int option \<times> stream_reader" where
  "ReadInt8 r = (case ReadBytes 1 r of
       (None, r') \<Rightarrow> (None, r')
     | (Some bs, r') \<Rightarrow> (Some (char_val (bs ! 0)), r'))"

definition ReadUint16 :: "stream_reader \<Rightarrow> 16 word option \<times> stream_reader" where
  "ReadUint16 r = (case ReadBytes 2 r of
       (None, r') \<Rightarrow> (None, r')
     | (Some bs, r') \<Rightarrow> (Some (push_bit 8 (ucast (bs ! 0)) OR ucast (bs ! 1)), r'))"

definition ReadInt16 :: "stream_reader \<Rightarrow> int option \<times> stream_reader" where
  "ReadInt16 r = (case ReadBytes 2 r of
       (None, r') \<Rightarrow> (None, r')
     | (Some bs, r') \<Rightarrow>
         (Some (sint (push_bit 8 (ucast (bs ! 0)) OR ucast (bs ! 1) :: 16 word)), r'))"

definition ReadUint32 :: "stream_reader \<Rightarrow> 32 word option \<times> stream_reader" where
  "ReadUint32 r = (case ReadBytes 4 r of
       (None, r') \<Rightarrow> (None, r')
     | (Some bs, r') \<Rightarrow>
         (Some (push_bit 24 (ucast (bs ! 0)) OR push_bit 16 (ucast (bs ! 1)) OR
                push_bit 8 (ucast (bs ! 2)) OR ucast (bs ! 3)), r'))"

definition ReadInt32 :: "stream_reader \<Rightarrow> int option \<times> stream_reader" where
  "ReadInt32 r = (case ReadBytes 4 r of
       (None, r') \<Rightarrow> (None, r')
     | (Some bs, r') \<Rightarrow>
         (Some (sint (push_bit 24 (ucast (bs ! 0)) OR push_bit 16 (ucast (bs ! 1)) OR
                push_bit 8 (ucast (bs ! 2)) OR ucast (bs ! 3) :: 32 word)), r'))"

definition be64_join :: "bytes \<Rightarrow> 64 word" where
  "be64_join bs =
     push_bit 56 (ucast (bs ! 0)) OR push_bit 48 (ucast (bs ! 1)) OR
     push_bit 40 (ucast (bs ! 2)) OR push_bit 32 (ucast (bs ! 3)) OR
     push_bit 24 (ucast (bs ! 4)) OR push_bit 16 (ucast (bs ! 5)) OR
     push_bit 8 (ucast (bs ! 6)) OR ucast (bs ! 7)"

definition ReadUint64 :: "stream_reader \<Rightarrow> 64 word option \<times> stream_reader" where
  "ReadUint64 r = (case ReadBytes 8 r of
       (None, r') \<Rightarrow> (None, r')
     | (Some bs, r') \<Rightarrow> (Some (be64_join bs), r'))"

definition ReadInt64 :: "stream_reader \<Rightarrow> int option \<times> stream_reader" where
  "ReadInt64 r = (case ReadBytes 8 r of
       (None, r') \<Rightarrow> (None, r')
     | (Some bs, r') \<Rightarrow> (Some (sint (be64_join bs)), r'))"

section \<open>StreamWriter\<close>

text \<open>The \<open>Exception\<close> a write returns is success or \<open>kInvalidProtocolBuffer\<close>.\<close>

datatype write_result = WriteSuccess | WriteInvalidProtocolBuffer

record stream_writer =
  writer_bits_used :: nat
  writer_bits_buffer :: byte
  writer_buffer :: bytes

definition StreamWriter :: stream_writer where
  "StreamWriter = \<lparr>writer_bits_used = 0, writer_bits_buffer = 0, writer_buffer = []\<rparr>"

definition GetData :: "stream_writer \<Rightarrow> bytes" where
  "GetData w =
     (if writer_bits_used w \<noteq> 0 then writer_buffer w @ [writer_bits_buffer w]
      else writer_buffer w)"

definition WriteBits :: "byte \<Rightarrow> int \<Rightarrow> stream_writer \<Rightarrow> write_result \<times> stream_writer" where
  "WriteBits v bits w =
     (if bits \<ge> 8 \<or> bits \<le> 0 \<or> 8 - bits < int (writer_bits_used w)
      then (WriteInvalidProtocolBuffer, w)
      else
        let b = nat bits;
            buf = writer_bits_buffer w OR
                  push_bit (8 - b - writer_bits_used w) (v AND (push_bit b 1 - 1));
            used = writer_bits_used w + b
        in (WriteSuccess,
            if used = 8
            then w\<lparr>writer_buffer := writer_buffer w @ [buf], writer_bits_used := 0,
                   writer_bits_buffer := 0\<rparr>
            else w\<lparr>writer_bits_buffer := buf, writer_bits_used := used\<rparr>))"

definition WriteBytes :: "bytes \<Rightarrow> stream_writer \<Rightarrow> write_result \<times> stream_writer" where
  "WriteBytes data w =
     (if writer_bits_used w \<noteq> 0 then (WriteInvalidProtocolBuffer, w)
      else (WriteSuccess, w\<lparr>writer_buffer := writer_buffer w @ data\<rparr>))"

definition WriteUint8 :: "byte \<Rightarrow> stream_writer \<Rightarrow> write_result \<times> stream_writer" where
  "WriteUint8 v w =
     (if writer_bits_used w \<noteq> 0 then (WriteInvalidProtocolBuffer, w)
      else (WriteSuccess, w\<lparr>writer_buffer := writer_buffer w @ [v]\<rparr>))"

definition WriteInt8 :: "int \<Rightarrow> stream_writer \<Rightarrow> write_result \<times> stream_writer" where
  "WriteInt8 v w = WriteUint8 (word_of_int v) w"

definition WriteUint16 :: "16 word \<Rightarrow> stream_writer \<Rightarrow> write_result \<times> stream_writer" where
  "WriteUint16 v w =
     (if writer_bits_used w \<noteq> 0 then (WriteInvalidProtocolBuffer, w)
      else (WriteSuccess, w\<lparr>writer_buffer := writer_buffer w @
              [ucast (drop_bit 8 v AND 255), ucast (v AND 255)]\<rparr>))"

definition WriteInt16 :: "int \<Rightarrow> stream_writer \<Rightarrow> write_result \<times> stream_writer" where
  "WriteInt16 v w = WriteUint16 (word_of_int v) w"

definition WriteUint32 :: "32 word \<Rightarrow> stream_writer \<Rightarrow> write_result \<times> stream_writer" where
  "WriteUint32 v w =
     (if writer_bits_used w \<noteq> 0 then (WriteInvalidProtocolBuffer, w)
      else (WriteSuccess, w\<lparr>writer_buffer := writer_buffer w @
              [ucast (drop_bit 24 v AND 255), ucast (drop_bit 16 v AND 255),
               ucast (drop_bit 8 v AND 255), ucast (v AND 255)]\<rparr>))"

definition WriteInt32 :: "int \<Rightarrow> stream_writer \<Rightarrow> write_result \<times> stream_writer" where
  "WriteInt32 v w = WriteUint32 (word_of_int v) w"

definition WriteUint64 :: "64 word \<Rightarrow> stream_writer \<Rightarrow> write_result \<times> stream_writer" where
  "WriteUint64 v w =
     (if writer_bits_used w \<noteq> 0 then (WriteInvalidProtocolBuffer, w)
      else (WriteSuccess, w\<lparr>writer_buffer := writer_buffer w @
              [ucast (drop_bit 56 v AND 255), ucast (drop_bit 48 v AND 255),
               ucast (drop_bit 40 v AND 255), ucast (drop_bit 32 v AND 255),
               ucast (drop_bit 24 v AND 255), ucast (drop_bit 16 v AND 255),
               ucast (drop_bit 8 v AND 255), ucast (v AND 255)]\<rparr>))"

definition WriteInt64 :: "int \<Rightarrow> stream_writer \<Rightarrow> write_result \<times> stream_writer" where
  "WriteInt64 v w = WriteUint64 (word_of_int v) w"

section \<open>A reader in the middle of its buffer\<close>

definition reader_at :: "bytes \<Rightarrow> bytes \<Rightarrow> stream_reader" where
  "reader_at done rest =
     \<lparr>reader_buffer = done @ rest, reader_position = length done, reader_bits_unused = 0,
      reader_bits_buffer = 0\<rparr>"

lemma StreamReader_at: "StreamReader bs = reader_at [] bs"
  by (simp add: StreamReader_def reader_at_def)

lemma IsAvailable_at [byte_simps]:
  "IsAvailable n (reader_at done rest) \<longleftrightarrow> 0 \<le> n \<and> n \<le> int (length rest)"
  by (simp add: IsAvailable_def reader_at_def)

lemma ReadBytes_at [byte_simps]:
  "ReadBytes n (reader_at done rest) =
     (if 0 < n \<and> n \<le> int (length rest)
      then (Some (take (nat n) rest), reader_at (done @ take (nat n) rest) (drop (nat n) rest))
      else (None, reader_at done rest))"
  by (auto simp: ReadBytes_def Read_def IsAvailable_def reader_at_def min_def)

lemma ReadUint8_at [byte_simps]:
  "ReadUint8 (reader_at done (b # rest)) = (Some b, reader_at (done @ [b]) rest)"
  "ReadUint8 (reader_at done []) = (None, reader_at done [])"
  by (simp_all add: ReadUint8_def ReadBytes_at)

lemma ReadInt8_at [byte_simps]:
  "ReadInt8 (reader_at done (b # rest)) = (Some (char_val b), reader_at (done @ [b]) rest)"
  by (simp add: ReadInt8_def ReadBytes_at)

lemma ReadUint16_at [byte_simps]:
  "ReadUint16 (reader_at done (a # b # rest)) =
     (Some (push_bit 8 (ucast a) OR ucast b), reader_at (done @ [a, b]) rest)"
  by (simp add: ReadUint16_def ReadBytes_at)

lemma ReadInt16_at [byte_simps]:
  "ReadInt16 (reader_at done (a # b # rest)) =
     (Some (sint (push_bit 8 (ucast a) OR ucast b :: 16 word)), reader_at (done @ [a, b]) rest)"
  by (simp add: ReadInt16_def ReadBytes_at)

lemma ReadUint32_at [byte_simps]:
  "ReadUint32 (reader_at done (a # b # c # d # rest)) =
     (Some (push_bit 24 (ucast a) OR push_bit 16 (ucast b) OR push_bit 8 (ucast c) OR ucast d),
      reader_at (done @ [a, b, c, d]) rest)"
  by (simp add: ReadUint32_def ReadBytes_at numeral_eq_Suc)

lemma ReadInt32_at [byte_simps]:
  "ReadInt32 (reader_at done (a # b # c # d # rest)) =
     (Some (sint (push_bit 24 (ucast a) OR push_bit 16 (ucast b) OR push_bit 8 (ucast c) OR
        ucast d :: 32 word)), reader_at (done @ [a, b, c, d]) rest)"
  by (simp add: ReadInt32_def ReadBytes_at numeral_eq_Suc)

lemma ReadUint64_at [byte_simps]:
  "length bs = 8 \<Longrightarrow> ReadUint64 (reader_at done (bs @ rest)) =
     (Some (be64_join bs), reader_at (done @ bs) rest)"
  by (simp add: ReadUint64_def ReadBytes_at)

lemma ReadInt64_at [byte_simps]:
  "length bs = 8 \<Longrightarrow> ReadInt64 (reader_at done (bs @ rest)) =
     (Some (sint (be64_join bs)), reader_at (done @ bs) rest)"
  by (simp add: ReadInt64_def ReadBytes_at)

section \<open>Decoders\<close>

text \<open>
  The step every decoder repeats: read, and return the failure value when the
  \<open>std::optional\<close> is empty.
\<close>

definition read_or ::
  "(stream_reader \<Rightarrow> 'a option \<times> stream_reader) \<Rightarrow> 'b \<Rightarrow>
   ('a \<Rightarrow> stream_reader \<Rightarrow> 'b) \<Rightarrow> stream_reader \<Rightarrow> 'b" where
  "read_or rd failure k r =
     (case rd r of (None, _) \<Rightarrow> failure | (Some x, r') \<Rightarrow> k x r')"

section \<open>Integer fields\<close>

text \<open>
  The contract between the writer and the reader of one integer type: on a byte boundary
  the write appends a fixed number of bytes, and reading them gives the value back.
\<close>

locale stream_field =
  fixes put :: "'a \<Rightarrow> stream_writer \<Rightarrow> write_result \<times> stream_writer"
    and get :: "stream_reader \<Rightarrow> 'a option \<times> stream_reader"
    and field_bytes :: "'a \<Rightarrow> bytes"
    and in_range :: "'a \<Rightarrow> bool"
  assumes write_field: "put x w =
      (if writer_bits_used w \<noteq> 0 then (WriteInvalidProtocolBuffer, w)
       else (WriteSuccess, w\<lparr>writer_buffer := writer_buffer w @ field_bytes x\<rparr>))"
    and read_field: "in_range x \<Longrightarrow> get (reader_at done (field_bytes x @ rest)) =
      (Some x, reader_at (done @ field_bytes x) rest)"
begin

fun write_fields :: "'a list \<Rightarrow> stream_writer \<Rightarrow> stream_writer" where
  "write_fields [] w = w"
| "write_fields (x # xs) w = write_fields xs (snd (put x w))"

fun read_fields :: "nat \<Rightarrow> stream_reader \<Rightarrow> 'a list option" where
  "read_fields 0 r = Some []"
| "read_fields (Suc n) r =
     (case get r of
        (None, _) \<Rightarrow> None
      | (Some x, r') \<Rightarrow> map_option ((#) x) (read_fields n r'))"

lemma write_fields_bytes:
  "writer_bits_used w = 0 \<Longrightarrow>
   write_fields xs w = w\<lparr>writer_buffer := writer_buffer w @ concat (map field_bytes xs)\<rparr>"
  by (induction xs arbitrary: w) (simp_all add: write_field)

lemma read_fields_bytes:
  "list_all in_range xs \<Longrightarrow>
   read_fields (length xs) (reader_at done (concat (map field_bytes xs) @ rest)) = Some xs"
  by (induction xs arbitrary: "done") (simp_all add: read_field)

lemma fields_roundtrip:
  "list_all in_range xs \<Longrightarrow>
   read_fields (length xs) (StreamReader (GetData (write_fields xs StreamWriter))) = Some xs"
  using read_fields_bytes [of xs "[]" "[]"]
  by (simp add: write_fields_bytes StreamWriter_def GetData_def StreamReader_at)

end

interpretation uint8: stream_field WriteUint8 ReadUint8 "\<lambda>v. [v]" "\<lambda>_. True"
  by unfold_locales (simp_all add: WriteUint8_def ReadUint8_at)

interpretation uint16: stream_field WriteUint16 ReadUint16
  "\<lambda>v. [ucast (drop_bit 8 v AND 255), ucast (v AND 255)]" "\<lambda>_. True"
  by unfold_locales (simp_all add: WriteUint16_def ReadUint16_at join_simps)

definition uint32_bytes :: "32 word \<Rightarrow> bytes" where
  "uint32_bytes v = [ucast (drop_bit 24 v AND 255), ucast (drop_bit 16 v AND 255),
     ucast (drop_bit 8 v AND 255), ucast (v AND 255)]"

definition uint64_bytes :: "64 word \<Rightarrow> bytes" where
  "uint64_bytes v = [ucast (drop_bit 56 v AND 255), ucast (drop_bit 48 v AND 255),
     ucast (drop_bit 40 v AND 255), ucast (drop_bit 32 v AND 255),
     ucast (drop_bit 24 v AND 255), ucast (drop_bit 16 v AND 255),
     ucast (drop_bit 8 v AND 255), ucast (v AND 255)]"

lemma be64_join_bytes: "be64_join (uint64_bytes v) = v"
  by (simp add: be64_join_def uint64_bytes_def join_simps)

lemma length_uint64_bytes [simp]: "length (uint64_bytes v) = 8"
  by (simp add: uint64_bytes_def)

interpretation uint32: stream_field WriteUint32 ReadUint32 uint32_bytes "\<lambda>_. True"
  by unfold_locales (simp_all add: WriteUint32_def ReadUint32_at uint32_bytes_def join_simps)

lemma WriteUint64_bytes:
  "WriteUint64 v w =
     (if writer_bits_used w \<noteq> 0 then (WriteInvalidProtocolBuffer, w)
      else (WriteSuccess, w\<lparr>writer_buffer := writer_buffer w @ uint64_bytes v\<rparr>))"
  by (simp add: WriteUint64_def uint64_bytes_def)

interpretation uint64: stream_field WriteUint64 ReadUint64 uint64_bytes "\<lambda>_. True"
  by unfold_locales (simp_all add: WriteUint64_bytes ReadUint64_at be64_join_bytes)

definition signed_range :: "nat \<Rightarrow> int \<Rightarrow> bool" where
  "signed_range n v \<longleftrightarrow> - (2 ^ n) \<le> v \<and> v < 2 ^ n"

lemma sint_of_range:
  "signed_range 7 v \<Longrightarrow> sint (word_of_int v :: 8 word) = v"
  "signed_range 15 v \<Longrightarrow> sint (word_of_int v :: 16 word) = v"
  "signed_range 31 v \<Longrightarrow> sint (word_of_int v :: 32 word) = v"
  "signed_range 63 v \<Longrightarrow> sint (word_of_int v :: 64 word) = v"
  by (simp_all add: signed_range_def sint_sbintrunc' signed_take_bit_int_eq_self)

interpretation int8: stream_field WriteInt8 ReadInt8 "\<lambda>v. [word_of_int v]" "signed_range 7"
  by unfold_locales
     (simp_all add: WriteInt8_def WriteUint8_def ReadInt8_at char_val_def sint_of_range)

interpretation int16: stream_field WriteInt16 ReadInt16
  "\<lambda>v. [ucast (drop_bit 8 (word_of_int v :: 16 word) AND 255),
        ucast ((word_of_int v :: 16 word) AND 255)]" "signed_range 15"
  by unfold_locales
     (simp_all add: WriteInt16_def WriteUint16_def ReadInt16_at join_simps sint_of_range)

interpretation int32: stream_field WriteInt32 ReadInt32
  "\<lambda>v. uint32_bytes (word_of_int v)" "signed_range 31"
  by unfold_locales
     (simp_all add: WriteInt32_def WriteUint32_def ReadInt32_at uint32_bytes_def join_simps
        sint_of_range)

interpretation int64: stream_field WriteInt64 ReadInt64
  "\<lambda>v. uint64_bytes (word_of_int v)" "signed_range 63"
  by unfold_locales
     (simp_all add: WriteInt64_def WriteUint64_bytes ReadInt64_at be64_join_bytes sint_of_range)

text \<open>
  Two bit fields that fill a byte are read back in the order they were written.
\<close>

lemma take_bit_as_mask: "w AND (push_bit b 1 - 1) = take_bit b (w :: byte)"
  by (simp add: take_bit_eq_mask mask_eq_exp_minus_1 push_bit_eq_mult)

lemmas WriteBits_take = WriteBits_def [unfolded take_bit_as_mask]
lemmas ReadBits_take = ReadBits_def [unfolded take_bit_as_mask]

lemma bits_roundtrip:
  assumes k: "0 < k" "k < 8"
  shows "\<exists>w r r'. snd (WriteBits y (8 - int k) (snd (WriteBits x (int k) StreamWriter))) = w \<and>
    ReadBits (int k) (StreamReader (GetData w)) = (Some (take_bit k x), r) \<and>
    ReadBits (8 - int k) r = (Some (take_bit (8 - k) y), r')"
proof -
  have n: "nat (8 - int k) = 8 - k" "8 - (8 - k) = k"
    using k by simp_all
  have lo: "take_bit (8 - k) (push_bit (8 - k) (take_bit k x) OR take_bit (8 - k) y) =
      take_bit (8 - k) y"
    by (rule bit_word_eqI) (auto simp: bit_simps)
  have hi: "take_bit k (drop_bit (8 - k) (push_bit (8 - k) (take_bit k x) OR take_bit (8 - k) y)) =
      take_bit k x"
    using k by (intro bit_word_eqI) (auto simp: bit_simps)
  show ?thesis
    using k lo hi
    by (simp add: WriteBits_take StreamWriter_def Let_def n GetData_def ReadBits_take
        StreamReader_def IsAvailable_def)
qed

section \<open>What a successful read says of the rest\<close>

lemma ReadBytes_SomeD:
  "ReadBytes n (reader_at done rest) = (Some xs, r) \<Longrightarrow>
   \<exists>rest'. rest = xs @ rest' \<and> r = reader_at (done @ xs) rest' \<and> int (length xs) = n \<and> 0 < n"
  by (rule exI [of _ "drop (nat n) rest"]) (auto simp: ReadBytes_at split: if_splits)

lemma ReadUint8_SomeD:
  "ReadUint8 (reader_at done rest) = (Some b, r) \<Longrightarrow>
   \<exists>rest'. rest = b # rest' \<and> r = reader_at (done @ [b]) rest'"
  by (cases rest) (auto simp: ReadUint8_at)

lemma read_short:
  "length rest < 2 \<Longrightarrow> ReadUint16 (reader_at done rest) = (None, reader_at done rest)"
  "length rest < 4 \<Longrightarrow> ReadUint32 (reader_at done rest) = (None, reader_at done rest)"
  by (simp_all add: ReadUint16_def ReadUint32_def ReadBytes_at)

lemma uint32_bytes_join:
  "uint32_bytes (push_bit 24 (ucast a) OR push_bit 16 (ucast b) OR push_bit 8 (ucast c) OR ucast d)
     = [a, b, c, d]"
proof -
  have "ucast (drop_bit 24 (push_bit 24 (ucast a) OR push_bit 16 (ucast b) OR
          push_bit 8 (ucast c) OR ucast d :: 32 word)) = (a :: byte)"
    and "ucast (drop_bit 16 (push_bit 24 (ucast a) OR push_bit 16 (ucast b) OR
          push_bit 8 (ucast c) OR ucast d :: 32 word)) = (b :: byte)"
    and "ucast (drop_bit 8 (push_bit 24 (ucast a) OR push_bit 16 (ucast b) OR
          push_bit 8 (ucast c) OR ucast d :: 32 word)) = (c :: byte)"
    and "ucast (push_bit 24 (ucast a) OR push_bit 16 (ucast b) OR
          push_bit 8 (ucast c) OR ucast d :: 32 word) = (d :: byte)"
    by (rule bit_word_eqI; auto simp: bit_simps dest: bit_imp_le_length)+
  then show ?thesis
    by (simp add: uint32_bytes_def ucast_and_255)
qed

lemma ReadUint32_SomeD:
  assumes "ReadUint32 (reader_at done rest) = (Some v, r)"
  shows "\<exists>rest'. rest = uint32_bytes v @ rest' \<and> r = reader_at (done @ uint32_bytes v) rest'"
proof (cases "length rest < 4")
  case True
  with assms show ?thesis by (simp add: read_short)
next
  case False
  then obtain a b c d rest' where "rest = a # b # c # d # rest'"
    by (cases rest; cases "tl rest"; cases "tl (tl rest)"; cases "tl (tl (tl rest))") auto
  with assms show ?thesis
    by (auto simp: ReadUint32_at uint32_bytes_join)
qed

end
