(* ===== verification/Medium_Advertisement.thy ===== *)
theory Medium_Advertisement
  imports Byte_Stream
begin

text \<open>
  The advertisement of the BLE medium: \<open>BleAdvertisement\<close> of
  connections/implementation/mediums/ble/ble_advertisement.h and .cc, its two layouts (fast
  and regular) and its optional extra fields.
\<close>

unbundle bit_operations_syntax

section \<open>Data\<close>

text \<open>
  \<open>Version\<close> and \<open>SocketVersion\<close> have the same enumerators and three bits on the wire;
  a cast of other bits is a value without a name.
\<close>

datatype ble_version = VersionUndefined | VersionV1 | VersionV2 | VersionUnnamed nat

fun version_val :: "ble_version \<Rightarrow> nat" where
  "version_val VersionUndefined = 0"
| "version_val VersionV1 = 1"
| "version_val VersionV2 = 2"
| "version_val (VersionUnnamed n) = n"

definition version_cast :: "nat \<Rightarrow> ble_version" where
  "version_cast n =
     (if n = 0 then VersionUndefined else if n = 1 then VersionV1
      else if n = 2 then VersionV2 else VersionUnnamed n)"

text \<open>Between \<open>kV1\<close> and \<open>kV2\<close>.\<close>

fun IsSupportedVersion :: "ble_version \<Rightarrow> bool" where
  "IsSupportedVersion VersionV1 = True"
| "IsSupportedVersion VersionV2 = True"
| "IsSupportedVersion _ = False"

fun IsSupportedSocketVersion :: "ble_version \<Rightarrow> bool" where
  "IsSupportedSocketVersion VersionV1 = True"
| "IsSupportedSocketVersion VersionV2 = True"
| "IsSupportedSocketVersion _ = False"

record medium_advertisement =
  adv_version :: ble_version
  adv_socket_version :: ble_version
  adv_fast :: bool
  adv_second_profile :: bool
  adv_service_id_hash :: bytes
  adv_data :: bytes
  adv_device_token :: bytes
  adv_psm :: int
  adv_rx_instant_connection :: bytes

definition kAdvServiceIdHashLength :: nat where "kAdvServiceIdHashLength = 3"
definition kDeviceTokenLength :: nat where "kDeviceTokenLength = 2"
definition kMinAdvertisementLength :: nat where "kMinAdvertisementLength = 8"
definition kMaxAdvertisementLength :: nat where "kMaxAdvertisementLength = 512"
definition kMinFastAdvertisementLength :: nat where "kMinFastAdvertisementLength = 2"
definition kMaxFastAdvertisementLength :: nat where "kMaxFastAdvertisementLength = 27"
definition kDefaultPsmValue :: int where "kDefaultPsmValue = 0"
definition kPsmBitmask :: byte where "kPsmBitmask = 1"
definition kRxInstantConnectionAdvBitmask :: byte where "kRxInstantConnectionAdvBitmask = 2"

lemmas adv_const_defs =
  kAdvServiceIdHashLength_def kDeviceTokenLength_def kMinAdvertisementLength_def
  kMaxAdvertisementLength_def kMinFastAdvertisementLength_def kMaxFastAdvertisementLength_def
  kDefaultPsmValue_def kPsmBitmask_def kRxInstantConnectionAdvBitmask_def

definition empty_advertisement :: medium_advertisement where
  "empty_advertisement =
     \<lparr>adv_version = VersionUndefined, adv_socket_version = VersionUndefined, adv_fast = False,
      adv_second_profile = False, adv_service_id_hash = [], adv_data = [],
      adv_device_token = [], adv_psm = kDefaultPsmValue, adv_rx_instant_connection = []\<rparr>"

definition MediumAdv_IsValid :: "medium_advertisement \<Rightarrow> bool" where
  "MediumAdv_IsValid a \<longleftrightarrow> IsSupportedVersion (adv_version a)"

section \<open>Construction\<close>

definition ComputeAdvertisementLength :: "nat \<Rightarrow> nat \<Rightarrow> bool \<Rightarrow> nat" where
  "ComputeAdvertisementLength data_length total_optional_length fast_advertisement =
     (if fast_advertisement then kMinFastAdvertisementLength + data_length + total_optional_length
      else kMinAdvertisementLength + data_length + total_optional_length)"

definition MediumAdv_DoInitialize ::
  "bool \<Rightarrow> ble_version \<Rightarrow> ble_version \<Rightarrow> bytes \<Rightarrow> bytes \<Rightarrow> bytes \<Rightarrow> int \<Rightarrow>
   medium_advertisement \<Rightarrow> medium_advertisement" where
  "MediumAdv_DoInitialize fast_advertisement version socket_version service_id_hash data
       device_token psm a =
     (let a1 = a\<lparr>adv_fast := fast_advertisement\<rparr> in
      if \<not> fast_advertisement \<and> length service_id_hash \<noteq> kAdvServiceIdHashLength then a1
      else if \<not> IsSupportedVersion version \<or> \<not> IsSupportedSocketVersion socket_version \<or>
              (device_token \<noteq> [] \<and> length device_token \<noteq> kDeviceTokenLength) then a1
      else if ComputeAdvertisementLength (length data) (length device_token) fast_advertisement >
              (if fast_advertisement then kMaxFastAdvertisementLength
               else kMaxAdvertisementLength) then a1
      else a1\<lparr>adv_version := version, adv_socket_version := socket_version,
              adv_service_id_hash :=
                (if \<not> fast_advertisement then service_id_hash else adv_service_id_hash a1),
              adv_data := data, adv_device_token := device_token, adv_psm := psm\<rparr>)"

definition MediumAdv_new ::
  "ble_version \<Rightarrow> ble_version \<Rightarrow> bytes \<Rightarrow> bytes \<Rightarrow> bytes \<Rightarrow> int \<Rightarrow> medium_advertisement" where
  "MediumAdv_new version socket_version service_id_hash data device_token psm =
     MediumAdv_DoInitialize (service_id_hash = []) version socket_version service_id_hash data
       device_token psm empty_advertisement"

section \<open>Decoding\<close>

text \<open>
  The size of a fast advertisement is a \<open>char\<close> converted to \<open>uint32_t\<close>; \<open>ReadBytes\<close> takes
  the size back as an \<open>int\<close>.
\<close>

definition read_expected_data_size ::
  "bool \<Rightarrow> stream_reader \<Rightarrow> 32 word option \<times> stream_reader" where
  "read_expected_data_size fast_advertisement r =
     (if fast_advertisement
      then (case ReadBytes 1 r of
              (None, r') \<Rightarrow> (None, r')
            | (Some bs, r') \<Rightarrow> (Some (word_of_int (char_val (bs ! 0))), r'))
      else ReadUint32 r)"

text \<open>The extra fields at the end, once the field_mask byte is available.\<close>

definition read_rx_instant_connection ::
  "byte \<Rightarrow> medium_advertisement \<Rightarrow> stream_reader \<Rightarrow> medium_advertisement status_or" where
  "read_rx_instant_connection field_mask a r =
     (if field_mask AND kRxInstantConnectionAdvBitmask = 0 then Inr a
      else read_or ReadUint8 (Inl InvalidArgumentError) (\<lambda>n.
           read_or (ReadBytes (uint n)) (Inl InvalidArgumentError) (\<lambda>bs r'.
             Inr (a\<lparr>adv_rx_instant_connection := bs\<rparr>))) r)"

definition read_extra_fields ::
  "medium_advertisement \<Rightarrow> stream_reader \<Rightarrow> medium_advertisement status_or" where
  "read_extra_fields a r =
     (if \<not> IsAvailable 1 r then Inr a
      else (case ReadUint8 r of (m, r1) \<Rightarrow>
        let field_mask = (case m of Some b \<Rightarrow> b | None \<Rightarrow> 0) in
        if field_mask AND kPsmBitmask = 0 then read_rx_instant_connection field_mask a r1
        else read_or ReadUint16 (Inl InvalidArgumentError) (\<lambda>psm.
               read_rx_instant_connection field_mask (a\<lparr>adv_psm := uint psm\<rparr>)) r1))"

definition read_device_token ::
  "medium_advertisement \<Rightarrow> stream_reader \<Rightarrow> medium_advertisement status_or" where
  "read_device_token a r =
     (if IsAvailable (int kDeviceTokenLength) r
      then read_or (ReadBytes (int kDeviceTokenLength)) (Inl InvalidArgumentError) (\<lambda>token.
             read_extra_fields (a\<lparr>adv_device_token := token\<rparr>)) r
      else read_extra_fields a r)"

definition read_hash_and_data ::
  "ble_version \<Rightarrow> ble_version \<Rightarrow> bool \<Rightarrow> bool \<Rightarrow> bytes \<Rightarrow> stream_reader \<Rightarrow>
   medium_advertisement status_or" where
  "read_hash_and_data version socket_version fast_advertisement is_second_profile
       service_id_hash =
     read_or (read_expected_data_size fast_advertisement) (Inl InvalidArgumentError)
       (\<lambda>expected_data_size.
         let finish = (\<lambda>data. read_device_token
               (empty_advertisement\<lparr>adv_version := version, adv_socket_version := socket_version,
                  adv_fast := fast_advertisement, adv_second_profile := is_second_profile,
                  adv_service_id_hash := service_id_hash, adv_data := data\<rparr>))
         in if expected_data_size > 0
            then read_or (ReadBytes (sint expected_data_size)) (Inl InvalidArgumentError) finish
            else finish [])"

definition MediumAdv_CreateBleAdvertisement :: "bytes \<Rightarrow> medium_advertisement status_or" where
  "MediumAdv_CreateBleAdvertisement bs =
     (if bs = [] then Inl InvalidArgumentError
      else read_or ReadUint8 (Inl InvalidArgumentError) (\<lambda>version_byte.
        let version = version_cast (unat (drop_bit 5 (version_byte AND 224)));
            socket_version = version_cast (unat (drop_bit 2 (version_byte AND 28)));
            fast_advertisement = (drop_bit 1 (version_byte AND 2) \<noteq> 0);
            is_second_profile = (version_byte AND 1 \<noteq> 0)
        in if \<not> IsSupportedVersion version then (\<lambda>_. Inl InvalidArgumentError)
           else if \<not> IsSupportedSocketVersion socket_version
             then (\<lambda>_. Inl InvalidArgumentError)
           else if \<not> fast_advertisement
             then read_or (ReadBytes (int kAdvServiceIdHashLength)) (Inl InvalidArgumentError)
                    (\<lambda>service_id_hash.
                       read_hash_and_data version socket_version fast_advertisement
                         is_second_profile service_id_hash)
           else read_hash_and_data version socket_version fast_advertisement is_second_profile [])
        (StreamReader bs))"

section \<open>Encoding\<close>

definition adv_version_byte :: "medium_advertisement \<Rightarrow> byte" where
  "adv_version_byte a =
     (push_bit 5 (of_nat (version_val (adv_version a))) AND 224) OR
     (push_bit 2 (of_nat (version_val (adv_socket_version a))) AND 28) OR
     (push_bit 1 (if adv_fast a then 1 else 0) AND 2) OR
     ((if adv_second_profile a then 1 else 0) AND 1)"

definition MediumAdv_ByteArray :: "medium_advertisement \<Rightarrow> bytes" where
  "MediumAdv_ByteArray a =
     (if \<not> MediumAdv_IsValid a then []
      else
        let w1 = snd (WriteUint8 (adv_version_byte a) StreamWriter);
            w2 = (if adv_fast a then snd (WriteUint8 (of_nat (length (adv_data a))) w1)
                  else snd (WriteUint32 (of_nat (length (adv_data a)))
                              (snd (WriteBytes (adv_service_id_hash a) w1))));
            w3 = snd (WriteBytes (adv_data a) w2);
            w4 = snd (WriteBytes (adv_device_token a) w3)
        in GetData w4)"

text \<open>\<open>BleExtraFields\<close>: a value for each field, and its two conversions.\<close>

record extra_fields =
  extra_psm :: int
  extra_rx_instant_connection :: bytes

definition HasField :: "byte \<Rightarrow> byte \<Rightarrow> bool" where
  "HasField field_mask bit_mask \<longleftrightarrow> field_mask AND bit_mask > 0"

definition ExtraFields_ByteArray :: "extra_fields \<Rightarrow> bytes" where
  "ExtraFields_ByteArray e =
     (if extra_psm e = kDefaultPsmValue \<and> extra_rx_instant_connection e = [] then []
      else
        let w1 = snd (WriteUint8
                   ((if extra_psm e \<noteq> kDefaultPsmValue then kPsmBitmask else 0) OR
                    (if extra_rx_instant_connection e = [] then 0
                     else kRxInstantConnectionAdvBitmask)) StreamWriter);
            w2 = (if extra_psm e \<noteq> kDefaultPsmValue
                  then snd (WriteUint16 (word_of_int (extra_psm e)) w1) else w1);
            w3 = (if extra_rx_instant_connection e \<noteq> []
                  then snd (WriteBytes (extra_rx_instant_connection e)
                         (snd (WriteUint8 (of_nat (length (extra_rx_instant_connection e))) w2)))
                  else w2)
        in GetData w3)"

definition ExtraFields_of_bytes :: "bytes \<Rightarrow> extra_fields" where
  "ExtraFields_of_bytes bs =
     (let e0 = \<lparr>extra_psm = kDefaultPsmValue, extra_rx_instant_connection = []\<rparr> in
      if bs = [] then e0
      else (case ReadUint8 (StreamReader bs) of (m, r1) \<Rightarrow>
        let field_mask = (case m of Some b \<Rightarrow> b | None \<Rightarrow> 0) in
        if field_mask = 0 then e0
        else
          let (e1, r2) =
                (if HasField field_mask kPsmBitmask \<and> IsAvailable 2 r1
                 then (case ReadUint16 r1 of
                         (Some p, r) \<Rightarrow> (e0\<lparr>extra_psm := uint p\<rparr>, r)
                       | (None, r) \<Rightarrow> (e0\<lparr>extra_psm := 0\<rparr>, r))
                 else (e0, r1))
          in if HasField field_mask kRxInstantConnectionAdvBitmask \<and> IsAvailable 1 r2
             then (case ReadUint8 r2 of
                     (Some n, r3) \<Rightarrow>
                       (case ReadBytes (uint n) r3 of
                          (Some d, _) \<Rightarrow> e1\<lparr>extra_rx_instant_connection := d\<rparr>
                        | (None, _) \<Rightarrow> e1)
                   | (None, _) \<Rightarrow> e1)
             else e1))"

definition MediumAdv_ByteArrayWithExtraField :: "medium_advertisement \<Rightarrow> bytes" where
  "MediumAdv_ByteArrayWithExtraField a =
     MediumAdv_ByteArray a @
     ExtraFields_ByteArray
       \<lparr>extra_psm = adv_psm a, extra_rx_instant_connection = adv_rx_instant_connection a\<rparr>"

section \<open>Well-formed advertisements\<close>

definition adv_wf :: "medium_advertisement \<Rightarrow> bool" where
  "adv_wf a \<longleftrightarrow>
     IsSupportedVersion (adv_version a) \<and> IsSupportedSocketVersion (adv_socket_version a) \<and>
     (if adv_fast a then adv_service_id_hash a = [] else length (adv_service_id_hash a) = 3) \<and>
     (adv_device_token a = [] \<or> length (adv_device_token a) = 2) \<and>
     ComputeAdvertisementLength (length (adv_data a)) (length (adv_device_token a)) (adv_fast a) \<le>
       (if adv_fast a then 27 else 512)"

lemma MediumAdv_new_wf:
  "MediumAdv_IsValid (MediumAdv_new v w h d t p) \<Longrightarrow> adv_wf (MediumAdv_new v w h d t p)"
  by (auto simp: MediumAdv_new_def MediumAdv_DoInitialize_def Let_def MediumAdv_IsValid_def
      empty_advertisement_def adv_wf_def adv_const_defs split: if_splits)

lemma supported_cases:
  "IsSupportedVersion v \<longleftrightarrow> v = VersionV1 \<or> v = VersionV2"
  "IsSupportedSocketVersion v \<longleftrightarrow> v = VersionV1 \<or> v = VersionV2"
  by (cases v; simp)+

lemma adv_version_byte_fields:
  assumes "IsSupportedVersion (adv_version a)" and "IsSupportedSocketVersion (adv_socket_version a)"
  shows "version_cast (unat (drop_bit 5 (adv_version_byte a AND 224))) = adv_version a"
    and "version_cast (unat (drop_bit 2 (adv_version_byte a AND 28))) = adv_socket_version a"
    and "drop_bit 1 (adv_version_byte a AND 2) \<noteq> 0 \<longleftrightarrow> adv_fast a"
    and "adv_version_byte a AND 1 \<noteq> 0 \<longleftrightarrow> adv_second_profile a"
  using assms
  by (auto simp: supported_cases adv_version_byte_def version_cast_def)

section \<open>Decoding what was encoded\<close>

lemma MediumAdv_ByteArray_bytes:
  "MediumAdv_IsValid a \<Longrightarrow>
   MediumAdv_ByteArray a =
     adv_version_byte a #
     (if adv_fast a then [of_nat (length (adv_data a))]
      else adv_service_id_hash a @ uint32_bytes (of_nat (length (adv_data a)))) @
     adv_data a @ adv_device_token a"
  by (simp add: MediumAdv_ByteArray_def Let_def WriteUint8_def WriteBytes_def WriteUint32_def
      StreamWriter_def GetData_def uint32_bytes_def)

lemma ExtraFields_ByteArray_bytes:
  "ExtraFields_ByteArray e =
     (if extra_psm e = 0 \<and> extra_rx_instant_connection e = [] then []
      else ((if extra_psm e \<noteq> 0 then 1 else 0) OR
            (if extra_rx_instant_connection e = [] then 0 else 2)) #
        (if extra_psm e \<noteq> 0
         then [ucast (drop_bit 8 (word_of_int (extra_psm e) :: 16 word) AND 255),
               ucast ((word_of_int (extra_psm e) :: 16 word) AND 255)] else []) @
        (if extra_rx_instant_connection e \<noteq> []
         then of_nat (length (extra_rx_instant_connection e)) # extra_rx_instant_connection e
         else []))"
  by (simp add: ExtraFields_ByteArray_def Let_def WriteUint8_def WriteBytes_def WriteUint16_def
      StreamWriter_def GetData_def adv_const_defs)

definition adv_base :: "medium_advertisement \<Rightarrow> medium_advertisement" where
  "adv_base a = a\<lparr>adv_device_token := [], adv_psm := 0, adv_rx_instant_connection := []\<rparr>"

lemma uint_size: "n < 128 \<Longrightarrow> char_val (of_nat n) = int n"
proof -
  assume "n < 128"
  moreover from this have "unat (of_nat n :: byte) = n"
    by (simp add: unat_of_nat)
  ultimately show ?thesis
    by simp
qed

lemma small_size32:
  assumes "n < 2147483648"
  shows "sint (of_nat n :: 32 word) = int n" and "(of_nat n :: 32 word) > 0 \<longleftrightarrow> n \<noteq> 0"
proof -
  have "sint (word_of_int (int n) :: 32 word) = int n"
    using assms by (intro sint_of_range) (simp add: signed_range_def)
  then show "sint (of_nat n :: 32 word) = int n"
    by simp
  have "unat (of_nat n :: 32 word) = n"
    using assms by (simp add: unat_of_nat)
  then show "(of_nat n :: 32 word) > 0 \<longleftrightarrow> n \<noteq> 0"
    by (metis unat_gt_0 unat_0 word_neq_0_conv)
qed

lemma read_expected_size:
  assumes "fast \<longrightarrow> n < 128"
  shows "read_expected_data_size fast
      (reader_at pre ((if fast then [of_nat n] else uint32_bytes (of_nat n)) @ rest)) =
    (Some (of_nat n :: 32 word), reader_at (pre @ (if fast then [of_nat n] else uint32_bytes (of_nat n))) rest)"
proof (cases fast)
  case True
  with assms show ?thesis
    by (simp add: read_expected_data_size_def ReadBytes_at uint_size)
next
  case False
  then show ?thesis
    using uint32.read_field [of pre "of_nat n :: 32 word" rest]
    by (simp add: read_expected_data_size_def)
qed

text \<open>What \<open>ByteArray\<close> and \<open>BleExtraFields\<close> can carry, and decode to.\<close>

definition extras_wf :: "int \<Rightarrow> bytes \<Rightarrow> bool" where
  "extras_wf psm rx \<longleftrightarrow> 0 \<le> psm \<and> psm < 65536 \<and> length rx < 256"

lemma read_rx_field:
  assumes "length rx < 256" and "rx \<noteq> []" and "m AND 2 \<noteq> 0"
  shows "read_rx_instant_connection m a (reader_at pre (of_nat (length rx) # rx)) =
    Inr (a\<lparr>adv_rx_instant_connection := rx\<rparr>)"
proof -
  have "unat (of_nat (length rx) :: byte) = length rx"
    using assms by (simp add: unat_of_nat)
  then have "uint (of_nat (length rx) :: byte) = int (length rx)"
    by (metis uint_nat)
  with assms show ?thesis
    by (simp add: read_rx_instant_connection_def read_or_def ReadUint8_at ReadBytes_at adv_const_defs)
qed

lemma join_psm:
  assumes "0 \<le> psm" and "psm < 65536"
  shows "uint (push_bit 8 (ucast (ucast (drop_bit 8 (word_of_int psm :: 16 word) AND 255) :: byte)) OR
      ucast (ucast ((word_of_int psm :: 16 word) AND 255) :: byte) :: 16 word) = psm"
  using assms by (simp only: join_simps) (simp add: uint_word_of_int_eq take_bit_eq_mod)

lemma extras_mask:
  "((1 :: byte) OR 2) AND 1 \<noteq> 0" "((1 :: byte) OR 2) AND 2 \<noteq> 0"
  by simp_all

lemma read_extra_fields_encoded:
  assumes wf: "extras_wf psm rx" and a: "adv_psm a = 0" "adv_rx_instant_connection a = []"
  shows "read_extra_fields a
      (reader_at pre (ExtraFields_ByteArray \<lparr>extra_psm = psm, extra_rx_instant_connection = rx\<rparr>)) =
    Inr (a\<lparr>adv_psm := psm, adv_rx_instant_connection := rx\<rparr>)"
proof (cases "psm = 0"; cases "rx = []")
  assume "psm = 0" "rx = []"
  with a show ?thesis
    by (simp add: read_extra_fields_def ExtraFields_ByteArray_bytes IsAvailable_at)
next
  assume "psm = 0" "rx \<noteq> []"
  with a wf show ?thesis
    by (simp add: read_extra_fields_def ExtraFields_ByteArray_bytes IsAvailable_at ReadUint8_at
        read_rx_field extras_wf_def adv_const_defs)
next
  assume "psm \<noteq> 0" "rx = []"
  with a wf show ?thesis
    by (simp add: read_extra_fields_def ExtraFields_ByteArray_bytes IsAvailable_at ReadUint8_at
        ReadUint16_at read_or_def join_psm read_rx_instant_connection_def extras_wf_def
        adv_const_defs)
next
  assume "psm \<noteq> 0" "rx \<noteq> []"
  with a wf show ?thesis
    by (simp add: read_extra_fields_def ExtraFields_ByteArray_bytes IsAvailable_at ReadUint8_at
        ReadUint16_at read_or_def join_psm read_rx_field extras_wf_def adv_const_defs)
qed

definition adv_codec_wf :: "medium_advertisement \<Rightarrow> bool" where
  "adv_codec_wf a \<longleftrightarrow> adv_wf a \<and> extras_wf (adv_psm a) (adv_rx_instant_connection a) \<and>
     (adv_device_token a = [] \<longrightarrow> adv_psm a = 0 \<and> adv_rx_instant_connection a = [])"

lemma read_device_token_encoded:
  assumes wf: "adv_codec_wf a"
    and b: "adv_device_token b = []" "adv_psm b = 0" "adv_rx_instant_connection b = []"
  shows "read_device_token b (reader_at pre (adv_device_token a @
      ExtraFields_ByteArray \<lparr>extra_psm = adv_psm a,
        extra_rx_instant_connection = adv_rx_instant_connection a\<rparr>)) =
    Inr (b\<lparr>adv_device_token := adv_device_token a, adv_psm := adv_psm a,
           adv_rx_instant_connection := adv_rx_instant_connection a\<rparr>)"
proof (cases "adv_device_token a = []")
  case True
  with wf b show ?thesis
    by (simp add: adv_codec_wf_def read_device_token_def ExtraFields_ByteArray_bytes IsAvailable_at
        read_extra_fields_def adv_const_defs)
next
  case False
  with wf have len: "length (adv_device_token a) = 2"
      and ex: "extras_wf (adv_psm a) (adv_rx_instant_connection a)"
    by (simp_all add: adv_codec_wf_def adv_wf_def)
  with b show ?thesis
    by (simp add: read_device_token_def IsAvailable_at ReadBytes_at read_or_def adv_const_defs
        read_extra_fields_encoded [OF ex, simplified])
qed

lemma read_rx_keeps:
  "read_rx_instant_connection m a r = Inr a' \<Longrightarrow> \<exists>rx. a' = a\<lparr>adv_rx_instant_connection := rx\<rparr>"
  by (auto simp: read_rx_instant_connection_def read_or_def split: if_splits prod.splits option.splits)
     (metis medium_advertisement.surjective medium_advertisement.update_convs(9))

lemma read_extra_keeps:
  "read_extra_fields a r = Inr a' \<Longrightarrow>
   \<exists>p rx. a' = a\<lparr>adv_psm := p, adv_rx_instant_connection := rx\<rparr>"
  by (auto simp: read_extra_fields_def read_or_def Let_def
      split: if_splits prod.splits option.splits dest!: read_rx_keeps)
     (metis medium_advertisement.surjective medium_advertisement.update_convs(8,9))+

lemma read_hash_and_data_encoded:
  assumes wf: "adv_wf a"
  shows "\<exists>pre'. read_hash_and_data (adv_version a) (adv_socket_version a) (adv_fast a)
      (adv_second_profile a) (adv_service_id_hash a)
      (reader_at pre
        ((if adv_fast a then [of_nat (length (adv_data a))]
          else uint32_bytes (of_nat (length (adv_data a)))) @ adv_data a @ rest)) =
    read_device_token (adv_base a) (reader_at pre' rest)"
proof -
  let ?n = "length (adv_data a)"
  have fast: "adv_fast a \<longrightarrow> ?n < 128" and n: "?n < 2147483648"
    using wf by (auto simp: adv_wf_def ComputeAdvertisementLength_def adv_const_defs
        split: if_splits)
  have base: "empty_advertisement\<lparr>adv_version := adv_version a,
      adv_socket_version := adv_socket_version a, adv_fast := adv_fast a,
      adv_second_profile := adv_second_profile a, adv_service_id_hash := adv_service_id_hash a,
      adv_data := adv_data a\<rparr> = adv_base a"
    by (simp add: empty_advertisement_def adv_base_def adv_const_defs)
  show ?thesis
    unfolding read_hash_and_data_def read_or_def Let_def read_expected_size [OF fast]
    by (cases "adv_data a = []")
       (use base in \<open>auto simp: small_size32 [OF n] ReadBytes_at\<close>)
qed

lemma MediumAdv_decode_header:
  assumes wf: "adv_wf a"
  shows "\<exists>pre. MediumAdv_CreateBleAdvertisement (adv_version_byte a #
      (if adv_fast a then [of_nat (length (adv_data a))]
       else adv_service_id_hash a @ uint32_bytes (of_nat (length (adv_data a)))) @
      adv_data a @ rest) = read_device_token (adv_base a) (reader_at pre rest)"
proof -
  have v: "IsSupportedVersion (adv_version a)" "IsSupportedSocketVersion (adv_socket_version a)"
    and h: "if adv_fast a then adv_service_id_hash a = [] else length (adv_service_id_hash a) = 3"
    using wf by (simp_all add: adv_wf_def)
  note fields = adv_version_byte_fields [OF v] adv_version_byte_fields [OF v, simplified]
  show ?thesis
  proof (cases "adv_fast a")
    case True
    with h v show ?thesis
      using read_hash_and_data_encoded [OF wf, of "[adv_version_byte a]" rest]
      by (simp add: MediumAdv_CreateBleAdvertisement_def read_or_def StreamReader_at ReadUint8_at
          fields Let_def)
  next
    case False
    with h v show ?thesis
      using read_hash_and_data_encoded [OF wf, of "adv_version_byte a # adv_service_id_hash a" rest]
      by (simp add: MediumAdv_CreateBleAdvertisement_def read_or_def StreamReader_at ReadUint8_at
          ReadBytes_at fields Let_def kAdvServiceIdHashLength_def)
  qed
qed

lemma MediumAdv_decode_tail:
  assumes "adv_wf a"
  shows "\<exists>pre. MediumAdv_CreateBleAdvertisement (MediumAdv_ByteArrayWithExtraField a) =
    read_device_token (adv_base a) (reader_at pre (adv_device_token a @
      ExtraFields_ByteArray \<lparr>extra_psm = adv_psm a,
        extra_rx_instant_connection = adv_rx_instant_connection a\<rparr>))"
  using MediumAdv_decode_header [OF assms] assms
  by (simp add: MediumAdv_ByteArrayWithExtraField_def MediumAdv_ByteArray_bytes
      MediumAdv_IsValid_def adv_wf_def)

lemma MediumAdv_decode_encode:
  assumes wf: "adv_codec_wf a"
  shows "MediumAdv_CreateBleAdvertisement (MediumAdv_ByteArrayWithExtraField a) = Inr a"
proof -
  have "adv_wf a"
    using wf by (simp add: adv_codec_wf_def)
  then show ?thesis
    using MediumAdv_decode_tail [of a] read_device_token_encoded [OF wf, of "adv_base a"]
    by (auto simp: adv_base_def)
qed

text \<open>
  Without a device token, the decoder takes the first two bytes of the extra fields for one.
\<close>

lemma read_device_token_sets:
  "read_device_token b (reader_at pre rest) = Inr a \<Longrightarrow> 2 \<le> length rest \<Longrightarrow>
   adv_device_token a \<noteq> []"
  by (auto simp: read_device_token_def IsAvailable_at ReadBytes_at read_or_def kDeviceTokenLength_def
      dest!: read_extra_keeps)

lemma extras_long:
  "extra_psm e \<noteq> 0 \<or> extra_rx_instant_connection e \<noteq> [] \<Longrightarrow> 2 \<le> length (ExtraFields_ByteArray e)"
  by (cases "extra_rx_instant_connection e") (auto simp: ExtraFields_ByteArray_bytes)

lemma MediumAdv_decode_needs_token:
  assumes "adv_wf a" and "adv_device_token a = []"
    and "adv_psm a \<noteq> 0 \<or> adv_rx_instant_connection a \<noteq> []"
  shows "MediumAdv_CreateBleAdvertisement (MediumAdv_ByteArrayWithExtraField a) \<noteq> Inr a"
proof -
  let ?e = "\<lparr>extra_psm = adv_psm a, extra_rx_instant_connection = adv_rx_instant_connection a\<rparr>"
  have "2 \<le> length (ExtraFields_ByteArray ?e)"
    using assms(3) by (intro extras_long) simp
  then show ?thesis
    using MediumAdv_decode_tail [OF assms(1)] assms(2) read_device_token_sets by fastforce
qed

interpretation medium_adv: wire_codec MediumAdv_ByteArrayWithExtraField
  "\<lambda>bs. result_opt (MediumAdv_CreateBleAdvertisement bs)" adv_codec_wf
  by unfold_locales (simp add: MediumAdv_decode_encode)

section \<open>Encoding what was decoded\<close>

text \<open>
  The decoder ignores nothing between the header and the extra fields: an accepted input
  starts with the encoding of what was read from it.
\<close>

lemma version_byte_of_fields:
  assumes "IsSupportedVersion (version_cast (unat (drop_bit 5 (b AND 224))))"
    and "IsSupportedSocketVersion (version_cast (unat (drop_bit 2 (b AND 28))))"
    and "adv_version a = version_cast (unat (drop_bit 5 (b AND 224)))"
    and "adv_socket_version a = version_cast (unat (drop_bit 2 (b AND 28)))"
    and "adv_fast a \<longleftrightarrow> drop_bit 1 (b AND 2) \<noteq> 0"
    and "adv_second_profile a \<longleftrightarrow> b AND 1 \<noteq> 0"
  shows "adv_version_byte a = b"
proof -
  have v: "version_val (version_cast n) = n" for n
    by (simp add: version_cast_def)
  have u: "of_nat (unat x) = x" for x :: byte
    by simp
  have "push_bit 1 (if drop_bit 1 (b AND 2) \<noteq> 0 then 1 else 0) = push_bit 1 (drop_bit 1 (b AND 2))"
    and "(if b AND 1 \<noteq> 0 then 1 else 0) = b AND 1"
    by (simp_all add: and_one_eq)
  then show ?thesis
    using assms unfolding adv_version_byte_def v
    by (simp only: v u clear_low)
       (simp add: and.assoc mask_numeral flip: bit.conj_disj_distrib)
qed

lemma MediumAdv_ByteArray_extras:
  "MediumAdv_ByteArray (a\<lparr>adv_psm := p, adv_rx_instant_connection := rx\<rparr>) = MediumAdv_ByteArray a"
  by (simp add: MediumAdv_ByteArray_def MediumAdv_IsValid_def adv_version_byte_def)

lemma read_device_token_prefix:
  assumes "read_device_token b (reader_at pre rest) = Inr a" and "adv_device_token b = []"
  shows "\<exists>t p rx rest'. a = b\<lparr>adv_device_token := t, adv_psm := p, adv_rx_instant_connection := rx\<rparr> \<and>
    rest = t @ rest'"
proof -
  consider (token) t r where "ReadBytes 2 (reader_at pre rest) = (Some t, r)"
      "read_extra_fields (b\<lparr>adv_device_token := t\<rparr>) r = Inr a"
    | (none) "read_extra_fields b (reader_at pre rest) = Inr a"
    using assms(1)
    by (auto simp: read_device_token_def read_or_def kDeviceTokenLength_def
        split: if_splits prod.splits option.splits)
  then show ?thesis
  proof cases
    case token
    then show ?thesis
      by (auto dest!: read_extra_keeps ReadBytes_SomeD)
  next
    case none
    then obtain p rx where "a = b\<lparr>adv_psm := p, adv_rx_instant_connection := rx\<rparr>"
      using read_extra_keeps by blast
    with assms(2) show ?thesis
      by (cases b) (rule exI [of _ "[]"], rule exI [of _ p], rule exI [of _ rx], simp)
  qed
qed

lemma narrow_of_sint:
  assumes "int k = sint (n :: 32 word)"
  shows "n = of_nat k" and "(ucast n :: byte) = of_nat k"
proof -
  show n: "n = of_nat k"
  proof -
    have "word_of_int (sint n) = n"
      by simp
    then show ?thesis
      by (simp flip: assms)
  qed
  show "(ucast n :: byte) = of_nat k"
    unfolding n by (simp add: word_unat_eq_iff unsigned_ucast_eq unsigned_of_nat take_bit_take_bit)
qed

lemma read_expected_SomeD:
  assumes "read_expected_data_size fast (reader_at pre rest) = (Some n, r)"
  shows "\<exists>pre' rest'. rest = (if fast then [ucast n] else uint32_bytes n) @ rest' \<and>
    r = reader_at pre' rest'"
proof (cases fast)
  case True
  have "ucast (word_of_int (sint b) :: 32 word) = b" for b :: byte
    by (rule bit_word_eqI) (auto simp: bit_simps)
  with assms True show ?thesis
    by (cases rest) (auto simp: read_expected_data_size_def ReadBytes_at char_val_def)
next
  case False
  with assms show ?thesis
    by (auto simp: read_expected_data_size_def dest!: ReadUint32_SomeD)
qed

lemma read_hash_and_data_prefix:
  assumes r: "read_hash_and_data v w fast second h (reader_at pre rest) = Inr a"
    and v: "IsSupportedVersion v" and h: "fast \<longrightarrow> h = []"
    and ver: "adv_version_byte (empty_advertisement\<lparr>adv_version := v, adv_socket_version := w,
        adv_fast := fast, adv_second_profile := second\<rparr>) = b"
  shows "\<exists>rest'. b # h @ rest = MediumAdv_ByteArray a @ rest'"
proof -
  let ?a = "empty_advertisement\<lparr>adv_version := v, adv_socket_version := w, adv_fast := fast,
      adv_second_profile := second, adv_service_id_hash := h\<rparr>"
  obtain n r1 where n: "read_expected_data_size fast (reader_at pre rest) = (Some n, r1)"
    using r by (auto simp: read_hash_and_data_def read_or_def split: prod.splits option.splits)
  then obtain pre1 rest1 where sz: "rest = (if fast then [ucast n] else uint32_bytes n) @ rest1"
      "r1 = reader_at pre1 rest1"
    using read_expected_SomeD by blast
  have "\<exists>d pre2 rest2. rest1 = d @ rest2 \<and> int (length d) = sint n \<and>
      read_device_token (?a\<lparr>adv_data := d\<rparr>) (reader_at pre2 rest2) = Inr a"
  proof (cases "n > 0")
    case True
    with r n sz(2) show ?thesis
      by (auto simp: read_hash_and_data_def read_or_def dest!: ReadBytes_SomeD
          split: prod.splits option.splits)
  next
    case False
    with r n sz(2) show ?thesis
      by - (rule exI [of _ "[]"], rule exI [of _ pre1], rule exI [of _ rest1],
            simp add: read_hash_and_data_def read_or_def word_neq_0_conv [symmetric])
  qed
  then obtain d pre2 rest2 where d: "rest1 = d @ rest2" "int (length d) = sint n"
      "read_device_token (?a\<lparr>adv_data := d\<rparr>) (reader_at pre2 rest2) = Inr a"
    by blast
  then obtain t p rx rest3 where t: "rest2 = t @ rest3"
      "a = ?a\<lparr>adv_data := d, adv_device_token := t, adv_psm := p, adv_rx_instant_connection := rx\<rparr>"
    using read_device_token_prefix [OF d(3)] by (auto simp: empty_advertisement_def)
  from v h ver sz d t narrow_of_sint [OF d(2)] show ?thesis
    by (auto simp: MediumAdv_ByteArray_bytes MediumAdv_IsValid_def adv_version_byte_def)
qed

lemma MediumAdv_decode_prefix:
  assumes "MediumAdv_CreateBleAdvertisement bs = Inr a"
  shows "\<exists>rest. bs = MediumAdv_ByteArray a @ rest"
proof -
  obtain b rest where bs: "bs = b # rest"
    using assms by (cases bs) (auto simp: MediumAdv_CreateBleAdvertisement_def)
  let ?v = "version_cast (unat (drop_bit 5 (b AND 224)))"
  let ?w = "version_cast (unat (drop_bit 2 (b AND 28)))"
  let ?fast = "drop_bit 1 (b AND 2) \<noteq> 0"
  let ?second = "b AND 1 \<noteq> 0"
  note step = assms [unfolded bs MediumAdv_CreateBleAdvertisement_def read_or_def StreamReader_at
      Let_def kAdvServiceIdHashLength_def, simplified list.simps ReadUint8_at prod.case option.case]
  have v: "IsSupportedVersion ?v" "IsSupportedSocketVersion ?w"
    using step by (auto split: if_splits)
  have ver: "adv_version_byte (empty_advertisement\<lparr>adv_version := ?v, adv_socket_version := ?w,
      adv_fast := ?fast, adv_second_profile := ?second\<rparr>) = b"
    by (rule version_byte_of_fields [OF v]) simp_all
  have "\<exists>h pre rest1. rest = h @ rest1 \<and> (?fast \<longrightarrow> h = []) \<and>
      read_hash_and_data ?v ?w ?fast ?second h (reader_at pre rest1) = Inr a"
  proof (cases ?fast)
    case True
    with step v show ?thesis
      by (intro exI [of _ "[]"] exI [of _ "[b]"] exI [of _ rest]) simp
  next
    case False
    with step v show ?thesis
      by (auto dest!: ReadBytes_SomeD split: prod.splits option.splits)
  qed
  then obtain h pre rest1 where h: "rest = h @ rest1" "?fast \<longrightarrow> h = []"
      and "read_hash_and_data ?v ?w ?fast ?second h (reader_at pre rest1) = Inr a"
    by blast
  then show ?thesis
    using read_hash_and_data_prefix [OF _ v(1) h(2) ver] bs h by auto
qed

end
