(* ===== verification/Ble_Formats.thy ===== *)
theory Ble_Formats
  imports Medium_Advertisement
begin

text \<open>
  The smaller wire formats of the BLE medium
  (connections/implementation/mediums/ble): the GATT advertisement header
  (ble_advertisement_header), the packets of BLE sockets (ble_packet), the packets of the
  L2CAP sockets (ble_l2cap_packet) and the instant-on-lost advertisement
  (instant_on_lost_advertisement), each .h and .cc.
\<close>

unbundle bit_operations_syntax

section \<open>BleAdvertisementHeader\<close>

record advertisement_header =
  hdr_version :: ble_version
  hdr_extended :: bool
  hdr_num_slots :: int
  hdr_bloom_filter :: bytes
  hdr_hash :: bytes
  hdr_psm :: int

definition kAdvertisementHashByteLength :: nat where "kAdvertisementHashByteLength = 4"
definition kServiceIdBloomFilterByteLength :: nat where "kServiceIdBloomFilterByteLength = 10"
definition kPsmValueByteLength :: nat where "kPsmValueByteLength = 2"
definition kMinAdvertisementHeaderLength :: nat where
  "kMinAdvertisementHeaderLength =
     1 + kServiceIdBloomFilterByteLength + kAdvertisementHashByteLength"

lemmas hdr_const_defs =
  kAdvertisementHashByteLength_def kServiceIdBloomFilterByteLength_def kPsmValueByteLength_def
  kMinAdvertisementHeaderLength_def

definition empty_header :: advertisement_header where
  "empty_header =
     \<lparr>hdr_version = VersionUndefined, hdr_extended = False, hdr_num_slots = 0,
      hdr_bloom_filter = [], hdr_hash = [], hdr_psm = kDefaultPsmValue\<rparr>"

definition AdvHeader_IsValid :: "advertisement_header \<Rightarrow> bool" where
  "AdvHeader_IsValid h \<longleftrightarrow> hdr_version h = VersionV2"

definition AdvHeader_new ::
  "ble_version \<Rightarrow> bool \<Rightarrow> int \<Rightarrow> bytes \<Rightarrow> bytes \<Rightarrow> int \<Rightarrow> advertisement_header" where
  "AdvHeader_new version extended num_slots bloom hash psm =
     (if version \<noteq> VersionV2 \<or> num_slots < 0 \<or>
         length bloom \<noteq> kServiceIdBloomFilterByteLength \<or>
         length hash \<noteq> kAdvertisementHashByteLength
      then empty_header
      else \<lparr>hdr_version = version, hdr_extended = extended, hdr_num_slots = num_slots,
            hdr_bloom_filter = bloom, hdr_hash = hash, hdr_psm = psm\<rparr>)"

text \<open>
  \<open>Base64Utils::Decode\<close> hands its input to absl; the result of the library for an input
  (empty when it is not base64) is the argument \<open>base64\<close>.
\<close>

definition optional_or :: "'a \<Rightarrow> 'a option \<times> stream_reader \<Rightarrow> 'a \<times> stream_reader" where
  "optional_or d p = (case p of (None, r) \<Rightarrow> (d, r) | (Some x, r) \<Rightarrow> (x, r))"

definition AdvHeader_parse :: "bytes \<Rightarrow> advertisement_header" where
  "AdvHeader_parse raw =
     (case ReadUint8 (StreamReader raw) of
        (None, _) \<Rightarrow> empty_header
      | (Some b, r1) \<Rightarrow>
          let version = version_cast (unat (drop_bit 5 (b AND 224)));
              h1 = empty_header\<lparr>hdr_version := version\<rparr>
          in if version \<noteq> VersionV2 then h1
             else
               let h2 = h1\<lparr>hdr_extended := (drop_bit 4 (b AND 16) = 1),
                           hdr_num_slots := uint (b AND 15)\<rparr>;
                   (bloom, r2) = optional_or []
                      (ReadBytes (int kServiceIdBloomFilterByteLength) r1);
                   (hash, r3) = optional_or []
                      (ReadBytes (int kAdvertisementHashByteLength) r2);
                   h3 = h2\<lparr>hdr_bloom_filter := bloom, hdr_hash := hash\<rparr>
               in if IsAvailable (int kPsmValueByteLength) r3
                  then h3\<lparr>hdr_psm := fst (optional_or 0 (ReadInt16 r3))\<rparr>
                  else h3)"

definition AdvHeader_of_bytes :: "(bytes \<Rightarrow> bytes) \<Rightarrow> bytes \<Rightarrow> advertisement_header" where
  "AdvHeader_of_bytes base64 bs =
     (let decoded = base64 bs in
      if decoded = [] then
        (if length bs = kMinAdvertisementHeaderLength \<or>
            length bs = kMinAdvertisementHeaderLength + 2
         then AdvHeader_parse bs
         else empty_header)
      else if length decoded < kMinAdvertisementHeaderLength then empty_header
      else AdvHeader_parse decoded)"

definition hdr_first_byte :: "advertisement_header \<Rightarrow> byte" where
  "hdr_first_byte h =
     (push_bit 5 (of_nat (version_val (hdr_version h))) AND 224) OR
     (push_bit 4 (if hdr_extended h then 1 else 0) AND 16) OR
     (word_of_int (hdr_num_slots h) AND 15)"

definition AdvHeader_ByteArray :: "advertisement_header \<Rightarrow> bytes" where
  "AdvHeader_ByteArray h =
     (if \<not> AdvHeader_IsValid h then []
      else hdr_first_byte h # hdr_bloom_filter h @ hdr_hash h @
           [to_char (drop_bit 8 (hdr_psm h AND 65280)), to_char (hdr_psm h AND 255)])"

section \<open>BlePacket\<close>

datatype ble_packet_type = PacketInvalid | PacketData | PacketControl

record ble_packet =
  blep_type :: ble_packet_type
  blep_service_id_hash :: bytes
  blep_data :: bytes

definition empty_ble_packet :: ble_packet where
  "empty_ble_packet = \<lparr>blep_type = PacketInvalid, blep_service_id_hash = [], blep_data = []\<rparr>"

definition kServiceIdHashLength :: nat where "kServiceIdHashLength = 3"
definition kControlPacketServiceIdHash :: bytes where "kControlPacketServiceIdHash = [0, 0, 0]"
definition kMaxDataSize :: nat where "kMaxDataSize = 2147483647 - kServiceIdHashLength"

lemmas blep_const_defs =
  kServiceIdHashLength_def kControlPacketServiceIdHash_def kMaxDataSize_def empty_ble_packet_def

definition BlePacket_CreateControlPacket :: "bytes \<Rightarrow> ble_packet status_or" where
  "BlePacket_CreateControlPacket data =
     (if length data > kMaxDataSize then Inl InvalidArgumentError
      else Inr \<lparr>blep_type = PacketControl, blep_service_id_hash = kControlPacketServiceIdHash,
                blep_data = data\<rparr>)"

definition BlePacket_CreateDataPacket :: "bytes \<Rightarrow> bytes \<Rightarrow> ble_packet status_or" where
  "BlePacket_CreateDataPacket service_id_hash data =
     (if length data > kMaxDataSize then Inl InvalidArgumentError
      else if length service_id_hash \<noteq> kServiceIdHashLength \<or>
              service_id_hash = kControlPacketServiceIdHash then Inl InvalidArgumentError
      else Inr \<lparr>blep_type = PacketData, blep_service_id_hash = service_id_hash,
                blep_data = data\<rparr>)"

text \<open>
  The \<open>SocketControlFrame\<close> messages; \<open>serialize\<close> is the protobuf library's encoding of
  them.  The setters take \<open>service_id_hash.data()\<close>, a \<open>char*\<close>: the field gets the bytes
  before the first zero byte.
\<close>

datatype socket_control_frame =
    IntroductionFrame bytes
  | DisconnectionFrame bytes
  | PacketAcknowledgementFrame bytes int

definition c_string :: "bytes \<Rightarrow> bytes" where
  "c_string bs = takeWhile (\<lambda>b. b \<noteq> 0) bs"

definition CreateControlIntroductionPacket ::
  "(socket_control_frame \<Rightarrow> bytes) \<Rightarrow> bytes \<Rightarrow> ble_packet status_or" where
  "CreateControlIntroductionPacket serialize service_id_hash =
     (if length service_id_hash \<noteq> kServiceIdHashLength then Inl InvalidArgumentError
      else BlePacket_CreateControlPacket (serialize (IntroductionFrame (c_string service_id_hash))))"

definition CreateControlDisconnectionPacket ::
  "(socket_control_frame \<Rightarrow> bytes) \<Rightarrow> bytes \<Rightarrow> ble_packet status_or" where
  "CreateControlDisconnectionPacket serialize service_id_hash =
     (if length service_id_hash \<noteq> kServiceIdHashLength then Inl InvalidArgumentError
      else BlePacket_CreateControlPacket
             (serialize (DisconnectionFrame (c_string service_id_hash))))"

definition CreateControlPacketAcknowledgementPacket ::
  "(socket_control_frame \<Rightarrow> bytes) \<Rightarrow> bytes \<Rightarrow> int \<Rightarrow> ble_packet status_or" where
  "CreateControlPacketAcknowledgementPacket serialize service_id_hash received_size =
     (if length service_id_hash \<noteq> kServiceIdHashLength then Inl InvalidArgumentError
      else BlePacket_CreateControlPacket
             (serialize (PacketAcknowledgementFrame (c_string service_id_hash) received_size)))"

definition BlePacket_of_bytes :: "bytes \<Rightarrow> ble_packet" where
  "BlePacket_of_bytes bs =
     (if bs = [] then empty_ble_packet
      else if length bs < kServiceIdHashLength then empty_ble_packet
      else (case ReadBytes (int kServiceIdHashLength) (StreamReader bs) of
              (None, _) \<Rightarrow> empty_ble_packet
            | (Some h, r) \<Rightarrow>
                let p = empty_ble_packet\<lparr>blep_service_id_hash := h,
                          blep_type := (if h = kControlPacketServiceIdHash then PacketControl
                                        else PacketData)\<rparr>
                in (case ReadBytes (int (length bs - kServiceIdHashLength)) r of
                      (None, _) \<Rightarrow> p
                    | (Some d, _) \<Rightarrow> p\<lparr>blep_data := d\<rparr>)))"

definition BlePacket_IsValid :: "ble_packet \<Rightarrow> bool" where
  "BlePacket_IsValid p \<longleftrightarrow> blep_type p \<noteq> PacketInvalid"

definition BlePacket_IsControlPacket :: "ble_packet \<Rightarrow> bool" where
  "BlePacket_IsControlPacket p \<longleftrightarrow> blep_type p = PacketControl"

definition BlePacket_GetPacketSize :: "ble_packet \<Rightarrow> nat" where
  "BlePacket_GetPacketSize p = length (blep_data p) + kServiceIdHashLength"

definition BlePacket_ByteArray :: "ble_packet \<Rightarrow> bytes" where
  "BlePacket_ByteArray p =
     (if \<not> BlePacket_IsValid p then [] else blep_service_id_hash p @ blep_data p)"

section \<open>BleL2capPacket\<close>

datatype l2cap_command =
    RequestAdvertisement
  | RequestAdvertisementFinish
  | RequestDataConnection
  | ResponseAdvertisement
  | ResponseServiceIdNotFound
  | ResponseDataConnectionReady
  | ResponseDataConnectionFailure
  | CommandUnnamed nat

fun command_val :: "l2cap_command \<Rightarrow> nat" where
  "command_val RequestAdvertisement = 1"
| "command_val RequestAdvertisementFinish = 2"
| "command_val RequestDataConnection = 3"
| "command_val ResponseAdvertisement = 21"
| "command_val ResponseServiceIdNotFound = 22"
| "command_val ResponseDataConnectionReady = 23"
| "command_val ResponseDataConnectionFailure = 24"
| "command_val (CommandUnnamed n) = n"

definition command_cast :: "nat \<Rightarrow> l2cap_command" where
  "command_cast n =
     (if n = 1 then RequestAdvertisement else if n = 2 then RequestAdvertisementFinish
      else if n = 3 then RequestDataConnection else if n = 21 then ResponseAdvertisement
      else if n = 22 then ResponseServiceIdNotFound
      else if n = 23 then ResponseDataConnectionReady
      else if n = 24 then ResponseDataConnectionFailure else CommandUnnamed n)"

record l2cap_packet =
  l2cap_command :: l2cap_command
  l2cap_service_id_hash :: bytes
  l2cap_advertisement :: bytes

definition BleL2capPacket :: "l2cap_command \<Rightarrow> bytes option \<Rightarrow> bytes option \<Rightarrow> l2cap_packet" where
  "BleL2capPacket c service_id_hash data =
     \<lparr>l2cap_command = c,
      l2cap_service_id_hash = (case service_id_hash of None \<Rightarrow> [] | Some h \<Rightarrow> h),
      l2cap_advertisement = (case data of None \<Rightarrow> [] | Some d \<Rightarrow> d)\<rparr>"

definition kCommandLength :: nat where "kCommandLength = 1"
definition kDataLength :: nat where "kDataLength = 2"
definition kL2capMaxLength :: nat where
  "kL2capMaxLength = kCommandLength + kDataLength + kMaxAdvertisementLength"

definition L2cap_IsValidLength :: "int \<Rightarrow> bool" where
  "L2cap_IsValidLength n \<longleftrightarrow> 0 < n \<and> n \<le> int kL2capMaxLength"

definition L2cap_CreateFromBytes :: "bytes \<Rightarrow> l2cap_packet status_or" where
  "L2cap_CreateFromBytes bs =
     (if length bs < kCommandLength then Inl InvalidArgumentError
      else read_or ReadUint8 (Inl InvalidArgumentError) (\<lambda>command_byte r1.
        let command_data = command_cast (unat command_byte)
        in if command_data = RequestAdvertisementFinish \<or>
              command_data = RequestDataConnection \<or>
              command_data = ResponseServiceIdNotFound \<or>
              command_data = ResponseDataConnectionReady \<or>
              command_data = ResponseDataConnectionFailure
           then Inr (BleL2capPacket command_data None None)
           else if \<not> IsAvailable (int kDataLength) r1 then Inl InvalidArgumentError
           else
             let (data_length, r2) = optional_or 0 (ReadUint16 r1) in
             if data_length = 0 then Inl InvalidArgumentError
             else if command_data = RequestAdvertisement then
               (if unat data_length < kAdvServiceIdHashLength then Inl InvalidArgumentError
                else read_or (ReadBytes (uint data_length)) (Inl InvalidArgumentError)
                       (\<lambda>h _. Inr (BleL2capPacket command_data (Some h) None)) r2)
             else if command_data = ResponseAdvertisement then
               (if unat data_length > kMaxAdvertisementLength then Inl InvalidArgumentError
                else read_or (ReadBytes (uint data_length)) (Inl InvalidArgumentError)
                       (\<lambda>d _. Inr (BleL2capPacket command_data None (Some d))) r2)
             else Inl InvalidArgumentError) (StreamReader bs))"

definition L2cap_ByteArrayForCommand :: "l2cap_command \<Rightarrow> bytes option \<Rightarrow> bytes" where
  "L2cap_ByteArrayForCommand c data =
     (case data of
        Some d \<Rightarrow> of_nat (command_val c) #
          [to_char (drop_bit 8 (int (length d) AND 65280)), to_char (int (length d) AND 255)] @ d
      | None \<Rightarrow> [of_nat (command_val c)])"

text \<open>\<open>Utils::Sha256Hash\<close> of the service id, cut to three bytes, is the argument \<open>sha256\<close>.\<close>

definition L2cap_GenerateServiceIdHash :: "(bytes \<Rightarrow> nat \<Rightarrow> bytes) \<Rightarrow> bytes \<Rightarrow> bytes" where
  "L2cap_GenerateServiceIdHash sha256 service_id = sha256 service_id kAdvServiceIdHashLength"

definition L2cap_RequestAdvertisement ::
  "(bytes \<Rightarrow> nat \<Rightarrow> bytes) \<Rightarrow> bytes \<Rightarrow> bytes status_or" where
  "L2cap_RequestAdvertisement sha256 service_id =
     (if service_id = [] then Inl InvalidArgumentError
      else Inr (L2cap_ByteArrayForCommand RequestAdvertisement
                  (Some (L2cap_GenerateServiceIdHash sha256 service_id))))"

definition L2cap_ResponseAdvertisement :: "bytes \<Rightarrow> bytes status_or" where
  "L2cap_ResponseAdvertisement advertisement =
     (if length advertisement < kMinAdvertisementLength then Inl InvalidArgumentError
      else Inr (L2cap_ByteArrayForCommand ResponseAdvertisement (Some advertisement)))"

text \<open>\<open>ByteArrayForRequestAdvertisementFinish\<close> and the four after it.\<close>

definition L2cap_plain :: "l2cap_command \<Rightarrow> bytes" where
  "L2cap_plain c = L2cap_ByteArrayForCommand c None"

section \<open>InstantOnLostAdvertisement\<close>

definition kMaxHashCount :: nat where "kMaxHashCount = 5"
definition kLostAdvertisementType :: byte where "kLostAdvertisementType = 1"
definition kLostVersion :: byte where "kLostVersion = 1"
definition kMetadataLength :: nat where "kMetadataLength = 2"

lemmas lost_const_defs =
  kMaxHashCount_def kLostAdvertisementType_def kLostVersion_def kMetadataLength_def
  kAdvertisementHashByteLength_def

text \<open>An \<open>InstantOnLostAdvertisement\<close> is its list of hashes.\<close>

definition Lost_CreateFromHashes :: "bytes list \<Rightarrow> bytes list status_or" where
  "Lost_CreateFromHashes hashes =
     (if list_ex (\<lambda>h. length h \<noteq> kAdvertisementHashByteLength) hashes
      then Inl InvalidArgumentError else Inr hashes)"

definition Lost_ToBytes :: "bytes list \<Rightarrow> bytes" where
  "Lost_ToBytes hashes =
     (if hashes = [] \<or> length hashes > kMaxHashCount then []
      else
        let header = (push_bit 4 kLostAdvertisementType AND 240) OR (kLostVersion AND 7);
            count = of_nat (length hashes) AND 7
        in if list_ex (\<lambda>h. length h \<noteq> kAdvertisementHashByteLength) hashes then []
           else header # count # concat hashes)"

function lost_hashes_from :: "nat \<Rightarrow> bytes \<Rightarrow> bytes list" where
  "lost_hashes_from i bs =
     (if i < length bs
      then take kAdvertisementHashByteLength (drop i bs) #
           lost_hashes_from (i + kAdvertisementHashByteLength) bs
      else [])"
  by pat_completeness auto
termination by (relation "measure (\<lambda>(i, bs). length bs - i)") (auto simp: kAdvertisementHashByteLength_def)

declare lost_hashes_from.simps [simp del]

definition Lost_CreateFromBytes :: "bytes \<Rightarrow> bytes list status_or" where
  "Lost_CreateFromBytes bs =
     (if length bs < kMetadataLength then Inl InvalidArgumentError
      else
        let header = bs ! 0;
            count = bs ! 1 AND 7
        in if drop_bit 4 (header AND 240) \<noteq> kLostAdvertisementType then Inl InvalidArgumentError
           else if header AND 7 \<noteq> kLostVersion then Inl InvalidArgumentError
           else if unat count * kAdvertisementHashByteLength + 2 \<noteq> length bs
             then Inl InvalidArgumentError
           else Inr (lost_hashes_from 2 bs))"

section \<open>Header round trip\<close>

definition hdr_wf :: "advertisement_header \<Rightarrow> bool" where
  "hdr_wf h \<longleftrightarrow> hdr_version h = VersionV2 \<and> 0 \<le> hdr_num_slots h \<and> hdr_num_slots h < 16 \<and>
     length (hdr_bloom_filter h) = 10 \<and> length (hdr_hash h) = 4 \<and> signed_range 15 (hdr_psm h)"

lemma hdr_first_byte_fields:
  assumes v: "hdr_version h = VersionV2" and n: "0 \<le> hdr_num_slots h" "hdr_num_slots h < 16"
  shows "version_cast (unat (drop_bit 5 (hdr_first_byte h AND 224))) = VersionV2"
    and "drop_bit 4 (hdr_first_byte h AND 16) = 1 \<longleftrightarrow> hdr_extended h"
    and "uint (hdr_first_byte h AND 15) = hdr_num_slots h"
proof -
  let ?s = "word_of_int (hdr_num_slots h) :: byte"
  have u: "uint ?s = hdr_num_slots h"
    using n by (simp add: uint_word_of_int_eq take_bit_eq_mod)
  then have s: "?s AND 15 = ?s"
    using n by (intro and_15_small) (simp add: word_less_def)
  note simps = hdr_first_byte_def v bit.conj_disj_distrib2 and.assoc version_cast_def
  show "version_cast (unat (drop_bit 5 (hdr_first_byte h AND 224))) = VersionV2"
    by (cases "hdr_extended h"; simp add: simps)
  show "drop_bit 4 (hdr_first_byte h AND 16) = 1 \<longleftrightarrow> hdr_extended h"
    by (cases "hdr_extended h"; simp add: simps)
  have "hdr_first_byte h AND 15 = ?s"
    by (cases "hdr_extended h"; simp add: simps s)
  with u show "uint (hdr_first_byte h AND 15) = hdr_num_slots h"
    by simp
qed

lemma join_chars:
  "push_bit 8 (ucast (to_char (drop_bit 8 (p AND 65280)))) OR ucast (to_char (p AND 255)) =
   (word_of_int p :: 16 word)"
  by (simp only: high_char low_char join_simps)

lemma AdvHeader_parse_layout:
  assumes v: "hdr_version h = VersionV2" "0 \<le> hdr_num_slots h" "hdr_num_slots h < 16"
    and len: "length (hdr_bloom_filter h) = 10" "length (hdr_hash h) = 4"
  shows "AdvHeader_parse (AdvHeader_ByteArray h) =
    h\<lparr>hdr_psm := sint (word_of_int (hdr_psm h) :: 16 word)\<rparr>"
proof -
  note first = hdr_first_byte_fields [OF v] hdr_first_byte_fields [OF v, simplified]
  show ?thesis
    using v len
    by (simp add: AdvHeader_parse_def AdvHeader_ByteArray_def AdvHeader_IsValid_def
        StreamReader_at ReadUint8_at ReadBytes_at IsAvailable_at ReadInt16_at first
        join_chars [simplified] optional_or_def empty_header_def hdr_const_defs)
qed

lemma AdvHeader_parse_encode: "hdr_wf h \<Longrightarrow> AdvHeader_parse (AdvHeader_ByteArray h) = h"
  by (simp add: hdr_wf_def AdvHeader_parse_layout sint_of_range)

interpretation adv_header: wire_codec AdvHeader_ByteArray "\<lambda>bs. Some (AdvHeader_parse bs)" hdr_wf
  by unfold_locales (simp add: AdvHeader_parse_encode)

section \<open>BlePacket round trip\<close>

definition blep_wf :: "ble_packet \<Rightarrow> bool" where
  "blep_wf p \<longleftrightarrow> length (blep_service_id_hash p) = 3 \<and>
     blep_type p = (if blep_service_id_hash p = [0, 0, 0] then PacketControl else PacketData)"

lemma created_packets_wf:
  "BlePacket_CreateControlPacket d = Inr p \<Longrightarrow> blep_wf p"
  "BlePacket_CreateDataPacket h d = Inr p \<Longrightarrow> blep_wf p"
  by (auto simp: BlePacket_CreateControlPacket_def BlePacket_CreateDataPacket_def blep_wf_def
      blep_const_defs split: if_splits)

lemma BlePacket_decode_encode:
  "blep_wf p \<Longrightarrow> BlePacket_of_bytes (BlePacket_ByteArray p) = p"
  by (cases p)
     (auto simp: BlePacket_of_bytes_def BlePacket_ByteArray_def BlePacket_IsValid_def blep_wf_def
       StreamReader_at ReadBytes_at blep_const_defs Let_def split: if_splits)

interpretation ble_packet: wire_codec BlePacket_ByteArray "\<lambda>bs. Some (BlePacket_of_bytes bs)" blep_wf
  by unfold_locales (simp add: BlePacket_decode_encode)

lemma BlePacket_encode_decode:
  "3 \<le> length bs \<Longrightarrow> BlePacket_ByteArray (BlePacket_of_bytes bs) = bs"
  by (auto simp: BlePacket_of_bytes_def BlePacket_ByteArray_def BlePacket_IsValid_def
       StreamReader_at ReadBytes_at blep_const_defs Let_def)

section \<open>L2CAP round trip\<close>

lemma of_nat_16:
  assumes "n < 65536"
  shows "unat (of_nat n :: 16 word) = n" and "(of_nat n :: 16 word) = 0 \<longleftrightarrow> n = 0"
proof -
  show n: "unat (of_nat n :: 16 word) = n"
    using assms by (simp add: unat_of_nat)
  then show "(of_nat n :: 16 word) = 0 \<longleftrightarrow> n = 0"
    by (metis unat_eq_zero)
qed

lemma uint_of_nat_16: "n < 65536 \<Longrightarrow> uint (of_nat n :: 16 word) = int n"
  by (metis of_nat_16(1) uint_nat)

lemmas l2cap_read_simps =
  L2cap_CreateFromBytes_def L2cap_ByteArrayForCommand_def read_or_def StreamReader_at ReadUint8_at
  ReadUint16_at ReadBytes_at IsAvailable_at command_cast_def optional_or_def join_chars [simplified]
  of_nat_16 uint_of_nat_16 kCommandLength_def kDataLength_def adv_const_defs

lemma L2cap_read_request:
  "length d < 65536 \<Longrightarrow> d \<noteq> [] \<Longrightarrow>
   L2cap_CreateFromBytes (L2cap_ByteArrayForCommand RequestAdvertisement (Some d)) =
    (if length d < 3 then Inl InvalidArgumentError
     else Inr (BleL2capPacket RequestAdvertisement (Some d) None))"
  by (simp add: l2cap_read_simps)

lemma L2cap_read_response:
  "length d < 65536 \<Longrightarrow> d \<noteq> [] \<Longrightarrow>
   L2cap_CreateFromBytes (L2cap_ByteArrayForCommand ResponseAdvertisement (Some d)) =
    (if length d > 512 then Inl InvalidArgumentError
     else Inr (BleL2capPacket ResponseAdvertisement None (Some d)))"
  by (simp add: l2cap_read_simps)

lemma L2cap_read_plain:
  "c \<in> {RequestAdvertisementFinish, RequestDataConnection, ResponseServiceIdNotFound,
        ResponseDataConnectionReady, ResponseDataConnectionFailure} \<Longrightarrow>
   L2cap_CreateFromBytes (L2cap_plain c) = Inr (BleL2capPacket c None None)"
  by (auto simp: L2cap_plain_def L2cap_ByteArrayForCommand_def L2cap_CreateFromBytes_def read_or_def
      StreamReader_at ReadUint8_at command_cast_def kCommandLength_def)

section \<open>Instant on lost round trip\<close>

lemma lost_hashes_concat:
  "list_all (\<lambda>h. length h = 4) hs \<Longrightarrow> lost_hashes_from (length pre) (pre @ concat hs) = hs"
proof (induction hs arbitrary: pre)
  case Nil
  then show ?case by (simp add: lost_hashes_from.simps)
next
  case (Cons h hs)
  from Cons.prems Cons.IH [of "pre @ h"] show ?case
    by (subst lost_hashes_from.simps) (auto simp: kAdvertisementHashByteLength_def)
qed

lemma length_concat_const: "list_all (\<lambda>h. length h = n) hs \<Longrightarrow> length (concat hs) = n * length hs"
  by (induction hs) simp_all

lemma Lost_decode_encode:
  assumes hs: "list_all (\<lambda>h. length h = 4) hs" and n: "hs \<noteq> []" "length hs \<le> 5"
  shows "Lost_CreateFromBytes (Lost_ToBytes hs) = Inr hs"
proof -
  have le: "length hs < 8"
    using n by simp
  have "take_bit 3 (of_nat (length hs) :: byte) = of_nat (length hs)"
    using le by (simp add: word_unat_eq_iff unsigned_take_bit_eq unat_of_nat take_bit_nat_eq_self)
  then have "of_nat (length hs) AND mask 3 = (of_nat (length hs) :: byte)"
    by (simp only: take_bit_eq_mask)
  then have c: "of_nat (length hs) AND 7 = (of_nat (length hs) :: byte)"
    by (simp add: mask_numeral)
  have u: "unat (of_nat (length hs) :: byte) = length hs"
    using le by (simp add: unat_of_nat)
  have ex: "\<not> list_ex (\<lambda>h. length h \<noteq> 4) hs"
    using hs by (auto simp: list_ex_iff list_all_iff)
  have from2: "lost_hashes_from 2 (17 # of_nat (length hs) # concat hs) = hs"
    using lost_hashes_concat [OF hs, of "[17, of_nat (length hs)]"] by (simp add: numeral_2_eq_2)
  show ?thesis
    using n ex length_concat_const [OF hs]
    by (simp add: Lost_CreateFromBytes_def Lost_ToBytes_def Let_def lost_const_defs c u from2)
qed

lemma lost_hashes_lengths:
  "length bs = 4 * n + i \<Longrightarrow>
   length (lost_hashes_from i bs) = n \<and> list_all (\<lambda>h. length h = 4) (lost_hashes_from i bs) \<and>
   concat (lost_hashes_from i bs) = drop i bs"
proof (induction n arbitrary: i)
  case 0
  then show ?case by (simp add: lost_hashes_from.simps)
next
  case (Suc n)
  moreover have "take 4 (drop i bs) @ drop (i + 4) bs = drop i bs"
    by (metis add.commute append_take_drop_id drop_drop)
  ultimately show ?case
    using Suc.IH [of "i + 4"]
    by (subst (1 2 3) lost_hashes_from.simps) (simp add: kAdvertisementHashByteLength_def)
qed

lemma Lost_CreateFromBytes_lengths:
  assumes "Lost_CreateFromBytes bs = Inr hs"
  shows "list_all (\<lambda>h. length h = 4) hs \<and> length hs \<le> 7 \<and> concat hs = drop 2 bs"
proof -
  have c: "unat (bs ! 1 AND 7) \<le> 7"
    using word_and_le1 [of "bs ! 1" 7] by (simp add: word_le_nat_alt)
  have "hs = lost_hashes_from 2 bs" and n: "length bs = 4 * unat (bs ! 1 AND 7) + 2"
    using assms by (auto simp: Lost_CreateFromBytes_def Let_def lost_const_defs split: if_splits)
  with lost_hashes_lengths [OF n] c show ?thesis
    by simp
qed

end
