(* ===== verification/Bloom_Filter.thy ===== *)
theory Bloom_Filter
  imports NBC_Prelude
begin

text \<open>
  The Bloom filter of service ids in GATT advertisement headers
  (connections/implementation/mediums/ble/bloom_filter.h and .cc).  A bit set is the list of
  its bits by position.  \<open>MurmurHash3_x64_128\<close> (third party) and absl's binary number parser
  are arguments.
\<close>

unbundle bit_operations_syntax

section \<open>BitSetImpl\<close>

type_synonym bit_set = "bool list"

definition BitSet_new :: "nat \<Rightarrow> bit_set" where
  "BitSet_new capacity_in_bytes = replicate (capacity_in_bytes * 8) False"

definition BitSet_ToString :: "bit_set \<Rightarrow> string" where
  "BitSet_ToString bits = rev (map (\<lambda>b. if b then CHR ''1'' else CHR ''0'') bits)"

definition BitSet_Set :: "nat \<Rightarrow> bool \<Rightarrow> bit_set \<Rightarrow> bit_set" where
  "BitSet_Set pos v bits = bits[pos := v]"

definition BitSet_Test :: "nat \<Rightarrow> bit_set \<Rightarrow> bool" where
  "BitSet_Test pos bits = bits ! pos"

section \<open>BloomFilter\<close>

definition set_byte :: "nat \<Rightarrow> byte \<Rightarrow> bit_set \<Rightarrow> bit_set" where
  "set_byte byte_index b bits =
     foldl (\<lambda>bs bit_index. BitSet_Set (byte_index * 8 + bit_index) (bit b bit_index) bs)
       bits [0..<8]"

fun set_bytes :: "nat \<Rightarrow> bytes \<Rightarrow> bit_set \<Rightarrow> bit_set" where
  "set_bytes byte_index [] bits = bits"
| "set_bytes byte_index (b # bs) bits = set_bytes (byte_index + 1) bs (set_byte byte_index b bits)"

definition BloomFilter_new :: "bit_set \<Rightarrow> bytes \<Rightarrow> bit_set" where
  "BloomFilter_new bit_set bs =
     (if length bs = 0 then bit_set
      else if length bs * 8 \<noteq> length bit_set then bit_set
      else set_bytes 0 bs bit_set)"

text \<open>
  The loop of \<open>operator ByteArray\<close> walks the string backwards in steps of eight; on a size that
  is not a multiple of eight \<open>i - 8\<close> wraps around and \<open>substr\<close> throws, the result None.
\<close>

fun filter_bytes_from :: "(string \<Rightarrow> 32 word) \<Rightarrow> string \<Rightarrow> nat \<Rightarrow> bytes option" where
  "filter_bytes_from parse2 s i =
     (if i = 0 then Some []
      else if i < 8 then None
      else map_option ((#) (ucast (parse2 (take 8 (drop (i - 8) s)) AND 255)))
             (filter_bytes_from parse2 s (i - 8)))"

declare filter_bytes_from.simps [simp del]

definition BloomFilter_ByteArray :: "(string \<Rightarrow> 32 word) \<Rightarrow> bit_set \<Rightarrow> bytes option" where
  "BloomFilter_ByteArray parse2 bits =
     filter_bytes_from parse2 (BitSet_ToString bits) (length bits)"

definition kHasherNumberOfRepetitions :: nat where "kHasherNumberOfRepetitions = 5"

text \<open>
  \<open>hash1 + (i * hash2)\<close> is a \<open>size_t\<close> expression: both hashes are sign-extended to 64
  bits, and the result is cut to 32.
\<close>

definition combined_hash :: "32 word \<Rightarrow> 32 word \<Rightarrow> nat \<Rightarrow> 32 word" where
  "combined_hash hash1 hash2 i =
     (let c = ucast (scast hash1 + of_nat i * scast hash2 :: 64 word) :: 32 word
      in if sint c < 0 then NOT c else c)"

definition GetHashes :: "(bytes \<Rightarrow> 64 word) \<Rightarrow> bytes \<Rightarrow> 32 word list" where
  "GetHashes murmur_low64 s =
     (let hash64 = murmur_low64 s;
          hash1 = ucast (hash64 AND 4294967295) :: 32 word;
          hash2 = ucast (drop_bit 32 hash64 AND 4294967295) :: 32 word
      in map (combined_hash hash1 hash2) [1..<kHasherNumberOfRepetitions + 1])"

definition bit_position :: "32 word \<Rightarrow> bit_set \<Rightarrow> nat" where
  "bit_position hash bits = unat (scast hash :: 64 word) mod length bits"

definition BloomFilter_Add :: "(bytes \<Rightarrow> 64 word) \<Rightarrow> bytes \<Rightarrow> bit_set \<Rightarrow> bit_set" where
  "BloomFilter_Add murmur_low64 s bits =
     foldl (\<lambda>bs hash. BitSet_Set (bit_position hash bs) True bs) bits (GetHashes murmur_low64 s)"

definition PossiblyContains :: "(bytes \<Rightarrow> 64 word) \<Rightarrow> bytes \<Rightarrow> bit_set \<Rightarrow> bool" where
  "PossiblyContains murmur_low64 s bits =
     list_all (\<lambda>hash. BitSet_Test (bit_position hash bits) bits) (GetHashes murmur_low64 s)"

section \<open>Adding sets bits and clears none\<close>

definition bits_le :: "bit_set \<Rightarrow> bit_set \<Rightarrow> bool" where
  "bits_le a b \<longleftrightarrow> length a = length b \<and> (\<forall>i < length a. a ! i \<longrightarrow> b ! i)"

lemma bits_le_refl [simp]: "bits_le a a"
  by (simp add: bits_le_def)

lemma bits_le_trans: "bits_le a b \<Longrightarrow> bits_le b c \<Longrightarrow> bits_le a c"
  by (auto simp: bits_le_def)

lemma bits_le_set: "bits_le a (BitSet_Set p True a)"
  unfolding bits_le_def BitSet_Set_def
proof (intro conjI allI impI)
  fix i assume "i < length a" "a ! i"
  then show "a[p := True] ! i"
    by (cases "i = p") simp_all
qed simp

lemma bit_position_less: "bits \<noteq> [] \<Longrightarrow> bit_position h bits < length bits"
  by (simp add: bit_position_def)

lemma bit_position_length: "length a = length b \<Longrightarrow> bit_position h a = bit_position h b"
  by (simp add: bit_position_def)

abbreviation set_hashes :: "32 word list \<Rightarrow> bit_set \<Rightarrow> bit_set" where
  "set_hashes hs bits \<equiv> foldl (\<lambda>bs hash. BitSet_Set (bit_position hash bs) True bs) bits hs"

lemma set_hashes_le: "bits_le bits (set_hashes hs bits)"
  by (induction hs arbitrary: bits) (auto intro: bits_le_trans bits_le_set)

lemma bits_le_test:
  "bits_le a b \<Longrightarrow> a \<noteq> [] \<Longrightarrow> BitSet_Test (bit_position h a) a \<Longrightarrow> BitSet_Test (bit_position h b) b"
proof -
  assume le: "bits_le a b" and ne: "a \<noteq> []" and t: "BitSet_Test (bit_position h a) a"
  have "bit_position h b = bit_position h a"
    using le by (intro bit_position_length) (simp add: bits_le_def)
  then show ?thesis
    using le t bit_position_less [OF ne, of h] by (simp add: bits_le_def BitSet_Test_def)
qed

lemma length_Set [simp]: "length (BitSet_Set p v bits) = length bits"
  by (simp add: BitSet_Set_def)

lemma length_set_hashes [simp]: "length (set_hashes hs bits) = length bits"
  by (induction hs arbitrary: bits) simp_all

lemma set_hashes_test:
  "bits \<noteq> [] \<Longrightarrow> h \<in> set hs \<Longrightarrow>
   BitSet_Test (bit_position h (set_hashes hs bits)) (set_hashes hs bits)"
proof (induction hs arbitrary: bits)
  case Nil
  then show ?case by simp
next
  case (Cons k hs)
  let ?b = "BitSet_Set (bit_position k bits) True bits"
  have ne: "?b \<noteq> []"
    using Cons.prems(1) by (simp add: BitSet_Set_def)
  show ?case
  proof (cases "h = k")
    case True
    have "BitSet_Test (bit_position h ?b) ?b"
      using Cons.prems(1) True bit_position_length [of ?b bits h] bit_position_less [of bits h]
      by (simp add: BitSet_Test_def) (simp add: BitSet_Set_def)
    then show ?thesis
      using bits_le_test [OF set_hashes_le ne] by simp
  next
    case False
    with Cons.prems(2) Cons.IH [OF ne] show ?thesis
      by simp
  qed
qed

abbreviation add_all :: "(bytes \<Rightarrow> 64 word) \<Rightarrow> bytes list \<Rightarrow> bit_set \<Rightarrow> bit_set" where
  "add_all murmur_low64 ts f \<equiv> foldl (\<lambda>f t. BloomFilter_Add murmur_low64 t f) f ts"

lemma Add_le: "bits_le bits (BloomFilter_Add m s bits)"
  by (simp add: BloomFilter_Add_def set_hashes_le)

lemma Adds_le: "bits_le bits (add_all m ts bits)"
  by (induction ts arbitrary: bits) (auto intro: bits_le_trans Add_le)

lemma PossiblyContains_mono:
  "bits_le a b \<Longrightarrow> a \<noteq> [] \<Longrightarrow> PossiblyContains m s a \<Longrightarrow> PossiblyContains m s b"
  by (auto simp: PossiblyContains_def list_all_iff intro: bits_le_test)

lemma Add_contains: "bits \<noteq> [] \<Longrightarrow> PossiblyContains m s (BloomFilter_Add m s bits)"
  by (simp add: PossiblyContains_def list_all_iff BloomFilter_Add_def set_hashes_test)

section \<open>The bytes of a filter\<close>

definition parses_binary :: "(string \<Rightarrow> 32 word) \<Rightarrow> bool" where
  "parses_binary parse2 \<longleftrightarrow>
     (\<forall>s. length s = 8 \<and> set s \<subseteq> {CHR ''0'', CHR ''1''} \<longrightarrow>
        parse2 s = foldl (\<lambda>v c. 2 * v + (if c = CHR ''1'' then 1 else 0)) 0 s)"

abbreviation byte_bits :: "byte \<Rightarrow> bit_set" where
  "byte_bits b \<equiv> map (bit b) [0..<8]"

definition bytes_bits :: "bytes \<Rightarrow> bit_set" where
  "bytes_bits bs = concat (map byte_bits bs)"

lemma length_bytes_bits [simp]: "length (bytes_bits bs) = 8 * length bs"
  by (induction bs) (simp_all add: bytes_bits_def)

lemma set_range:
  "p + n \<le> length bits \<Longrightarrow>
   foldl (\<lambda>bs i. BitSet_Set (p + i) (f i) bs) bits [0..<n] =
   take p bits @ map f [0..<n] @ drop (p + n) bits"
proof (induction n)
  case 0
  then show ?case by simp
next
  case (Suc n)
  then have "drop (p + n) bits = bits ! (p + n) # drop (p + Suc n) bits"
    by (simp add: Cons_nth_drop_Suc)
  with Suc show ?case
    by (simp add: BitSet_Set_def list_update_append)
qed

lemma set_bytes_bits:
  "length bits = 8 * (k + length bs) \<Longrightarrow>
   set_bytes k bs bits = take (8 * k) bits @ bytes_bits bs"
proof (induction bs arbitrary: k bits)
  case Nil
  then show ?case by (simp add: bytes_bits_def)
next
  case (Cons b bs)
  have b: "set_byte k b bits = take (8 * k) bits @ byte_bits b @ drop (8 * k + 8) bits"
    using Cons.prems by (simp only: set_byte_def mult.commute [of k 8]) (rule set_range, simp)
  with Cons.prems Cons.IH [of "set_byte k b bits" "k + 1"] show ?case
    by (simp add: bytes_bits_def)
qed

lemma filter_bytes_append:
  "i \<le> length s \<Longrightarrow> filter_bytes_from parse2 (s @ t) i = filter_bytes_from parse2 s i"
proof (induction parse2 s i rule: filter_bytes_from.induct)
  case (1 parse2 s i)
  show ?case
  proof (cases "i < 8")
    case True
    then show ?thesis by (simp add: filter_bytes_from.simps)
  next
    case False
    with 1 show ?thesis
      by (subst (1 2) filter_bytes_from.simps) simp
  qed
qed

lemma parse_byte_bits:
  assumes "parses_binary parse2"
  shows "ucast (parse2 (rev (map (\<lambda>b. if b then CHR ''1'' else CHR ''0'') (byte_bits b))) AND 255) = b"
proof -
  let ?cs = "map (\<lambda>b. if b then CHR ''1'' else CHR ''0'') (byte_bits b)"
  have "parse2 (rev ?cs) = foldr (\<lambda>c v. 2 * v + (if c = CHR ''1'' then 1 else 0)) ?cs 0"
  proof -
    have "length (rev ?cs) = 8 \<and> set (rev ?cs) \<subseteq> {CHR ''0'', CHR ''1''}"
      by auto
    then have "parse2 (rev ?cs) = foldl (\<lambda>v c. 2 * v + (if c = CHR ''1'' then 1 else 0)) 0 (rev ?cs)"
      using assms by (simp only: parses_binary_def)
    then show ?thesis
      by (simp only: foldr_conv_foldl)
  qed
  also have "\<dots> = horner_sum of_bool 2 (map (bit (ucast b :: 32 word)) [0..<8])"
    by (simp add: horner_sum_foldr foldr_map o_def of_bool_def bit_ucast_iff)
       (rule foldr_cong; auto)
  also have "\<dots> = take_bit 8 (ucast b)"
    by (rule horner_sum_bit_eq_take_bit)
  finally show ?thesis
    by (simp only: ucast_and_255) (auto intro!: bit_word_eqI simp: bit_simps)
qed

lemma filter_bytes_bits:
  assumes "parses_binary parse2"
  shows "BloomFilter_ByteArray parse2 (bytes_bits bs) = Some bs"
proof (induction bs)
  case Nil
  then show ?case
    by (simp add: BloomFilter_ByteArray_def bytes_bits_def filter_bytes_from.simps)
next
  case (Cons b bs)
  then show ?case
    using parse_byte_bits [OF assms, of b]
    by (simp add: BloomFilter_ByteArray_def filter_bytes_from.simps [of _ _ "8 + _"] bytes_bits_def
        BitSet_ToString_def filter_bytes_append)
qed

lemma bits_are_bytes: "length bits = 8 * n \<Longrightarrow> \<exists>bs. length bs = n \<and> bits = bytes_bits bs"
proof (induction n arbitrary: bits)
  case 0
  then show ?case by (simp add: bytes_bits_def)
next
  case (Suc n)
  then obtain bs where bs: "length bs = n" "drop 8 bits = bytes_bits bs"
    using Suc.IH [of "drop 8 bits"] Suc.prems by (metis add_diff_cancel_left' length_drop mult_Suc_right)
  let ?b = "horner_sum of_bool 2 (take 8 bits) :: byte"
  have "byte_bits ?b = take 8 bits"
    using Suc.prems by (intro nth_equalityI) (auto simp: bit_horner_sum_bit_word_iff)
  with bs have "bits = bytes_bits (?b # bs)"
    by (simp add: bytes_bits_def) (metis append_take_drop_id)
  with bs(1) show ?case
    by (intro exI [of _ "?b # bs"]) simp
qed

lemma filter_roundtrip:
  assumes p: "parses_binary parse2" and n: "length bits = 8 * n" and k: "0 < n"
  shows "\<exists>bs. BloomFilter_ByteArray parse2 bits = Some bs \<and> length bs = n \<and>
    BloomFilter_new (BitSet_new n) bs = bits"
proof -
  obtain bs where bs: "length bs = n" "bits = bytes_bits bs"
    using bits_are_bytes [OF n] by blast
  with k filter_bytes_bits [OF p, of bs] show ?thesis
    by (intro exI [of _ bs]) (simp add: BloomFilter_new_def BitSet_new_def set_bytes_bits)
qed

end
