(* ===== verification/Read_Result.thy ===== *)
theory Read_Result
  imports NBC_Prelude "HOL-Library.AList"
begin

text \<open>
  \<open>AdvertisementReadResult\<close> (connections/implementation/mediums/ble/advertisement_read_result.h
  and .cc): what was read from a GATT server, and when a read may be tried again.  Times and
  durations are nanoseconds; the clock is an argument of the operations that read it, and
  multiplying a duration by \<open>backoff_multiplier\<close> is absl's operation, a field of the
  configuration.
\<close>

section \<open>State and operations\<close>

record read_config =
  multiply_backoff :: "int \<Rightarrow> int"
  base_backoff_duration :: int
  max_backoff_duration :: int

definition seconds :: "int \<Rightarrow> int" where
  "seconds n = 1000000000 * n"

definition kDefaultConfig :: read_config where
  "kDefaultConfig =
     \<lparr>multiply_backoff = (\<lambda>d. 2 * d), base_backoff_duration = seconds 1,
      max_backoff_duration = seconds 300\<rparr>"

datatype retry_status = RetryUnknown | Retry | PreviouslySucceeded | TooSoon

datatype read_outcome = ReadFailure | ReadSuccess

record read_result =
  rr_advertisements :: "(int \<times> bytes) list"
  rr_config :: read_config
  rr_backoff_duration :: int
  rr_last_read_timestamp :: int
  rr_result :: "read_outcome option"

definition AdvertisementReadResult :: "read_config \<Rightarrow> int \<Rightarrow> read_result" where
  "AdvertisementReadResult config now =
     \<lparr>rr_advertisements = [], rr_config = config,
      rr_backoff_duration = base_backoff_duration config,
      rr_last_read_timestamp = now - max_backoff_duration config, rr_result = None\<rparr>"

definition AddAdvertisement :: "int \<Rightarrow> bytes \<Rightarrow> read_result \<Rightarrow> read_result" where
  "AddAdvertisement slot advertisement r =
     r\<lparr>rr_advertisements := AList.update slot advertisement (rr_advertisements r)\<rparr>"

definition HasAdvertisement :: "int \<Rightarrow> read_result \<Rightarrow> bool" where
  "HasAdvertisement slot r \<longleftrightarrow> map_of (rr_advertisements r) slot \<noteq> None"

definition GetAdvertisements :: "read_result \<Rightarrow> bytes list" where
  "GetAdvertisements r = map snd (rr_advertisements r)"

definition GetDurationSinceRead :: "int \<Rightarrow> read_result \<Rightarrow> int" where
  "GetDurationSinceRead now r = now - rr_last_read_timestamp r"

definition EvaluateRetryStatus :: "int \<Rightarrow> read_result \<Rightarrow> retry_status" where
  "EvaluateRetryStatus now r =
     (if rr_result r = Some ReadSuccess then PreviouslySucceeded
      else if GetDurationSinceRead now r < rr_backoff_duration r then TooSoon
      else Retry)"

definition RecordLastReadStatus :: "int \<Rightarrow> bool \<Rightarrow> read_result \<Rightarrow> read_result" where
  "RecordLastReadStatus now is_success r =
     r\<lparr>rr_last_read_timestamp := now,
       rr_backoff_duration :=
         (if is_success then base_backoff_duration (rr_config r)
          else if rr_result r = Some ReadFailure
            then min (multiply_backoff (rr_config r) (rr_backoff_duration r))
                   (max_backoff_duration (rr_config r))
          else base_backoff_duration (rr_config r)),
       rr_result := Some (if is_success then ReadSuccess else ReadFailure)\<rparr>"

section \<open>The backoff\<close>

fun record_reads :: "(int \<times> bool) list \<Rightarrow> read_result \<Rightarrow> read_result" where
  "record_reads [] r = r"
| "record_reads ((now, ok) # es) r = record_reads es (RecordLastReadStatus now ok r)"

text \<open>The multiplier should never be below one.\<close>

definition config_ok :: "read_config \<Rightarrow> bool" where
  "config_ok c \<longleftrightarrow> base_backoff_duration c \<le> max_backoff_duration c \<and>
     (\<forall>d. base_backoff_duration c \<le> d \<longrightarrow> d \<le> multiply_backoff c d)"

definition backoff_inv :: "read_config \<Rightarrow> read_result \<Rightarrow> bool" where
  "backoff_inv c r \<longleftrightarrow> rr_config r = c \<and> base_backoff_duration c \<le> rr_backoff_duration r \<and>
     rr_backoff_duration r \<le> max_backoff_duration c \<and>
     (rr_result r = Some ReadSuccess \<longrightarrow> rr_backoff_duration r = base_backoff_duration c)"

lemma backoff_inv_new: "config_ok c \<Longrightarrow> backoff_inv c (AdvertisementReadResult c now)"
  by (simp add: backoff_inv_def AdvertisementReadResult_def config_ok_def)

lemma backoff_inv_record:
  assumes "config_ok c" and "backoff_inv c r"
  shows "backoff_inv c (RecordLastReadStatus now ok r)"
proof -
  have "base_backoff_duration c \<le> multiply_backoff c (rr_backoff_duration r)"
    using assms order_trans by (auto simp: config_ok_def backoff_inv_def)
  with assms show ?thesis
    by (auto simp: backoff_inv_def RecordLastReadStatus_def config_ok_def)
qed

lemma backoff_inv_reads:
  "config_ok c \<Longrightarrow> backoff_inv c r \<Longrightarrow> backoff_inv c (record_reads es r)"
  by (induction es r rule: record_reads.induct) (simp_all add: backoff_inv_record)

lemma record_reads_append: "record_reads (xs @ ys) r = record_reads ys (record_reads xs r)"
  by (induction xs r rule: record_reads.induct) simp_all

lemma record_failure:
  "rr_result (RecordLastReadStatus now False r) = Some ReadFailure"
  "rr_config (RecordLastReadStatus now ok r) = rr_config r"
  "rr_last_read_timestamp (RecordLastReadStatus now ok r) = now"
  "rr_result r = Some ReadFailure \<Longrightarrow>
   rr_backoff_duration (RecordLastReadStatus now False r) =
     min (multiply_backoff (rr_config r) (rr_backoff_duration r)) (max_backoff_duration (rr_config r))"
  "rr_result r \<noteq> Some ReadFailure \<Longrightarrow>
   rr_backoff_duration (RecordLastReadStatus now False r) = base_backoff_duration (rr_config r)"
  by (simp_all add: RecordLastReadStatus_def)

text \<open>Failures only, from a result that has not failed before.\<close>

lemma failures_backoff:
  assumes "rr_config r = kDefaultConfig" and "rr_result r \<noteq> Some ReadFailure" and "ts \<noteq> []"
  defines "f \<equiv> record_reads (map (\<lambda>t. (t, False)) ts) r"
  shows "rr_config f = kDefaultConfig \<and> rr_result f = Some ReadFailure \<and>
    rr_last_read_timestamp f = last ts \<and>
    rr_backoff_duration f = min (seconds (2 ^ (length ts - 1))) (seconds 300)"
  using assms(3) unfolding f_def
proof (induction ts rule: rev_nonempty_induct)
  case (single t)
  with assms show ?case
    by (simp add: record_failure kDefaultConfig_def seconds_def)
next
  case (snoc t ts)
  then have "length ts \<noteq> 0"
    by simp
  then obtain n where n: "length ts = Suc n"
    by (cases "length ts") auto
  show ?case
    using snoc n
    by (auto simp: record_reads_append record_failure kDefaultConfig_def seconds_def min_def)
qed

lemma EvaluateRetryStatus_after:
  "EvaluateRetryStatus now (record_reads (es @ [(t, ok)]) r) =
     (if ok then PreviouslySucceeded
      else if now - t < rr_backoff_duration (record_reads (es @ [(t, ok)]) r) then TooSoon
      else Retry)"
  by (simp add: EvaluateRetryStatus_def record_reads_append RecordLastReadStatus_def
      GetDurationSinceRead_def)

section \<open>The advertisements by slot\<close>

lemma HasAdvertisement_Add:
  "HasAdvertisement s (AddAdvertisement slot a r) \<longleftrightarrow> s = slot \<or> HasAdvertisement s r"
  by (simp add: HasAdvertisement_def AddAdvertisement_def update_conv')

lemma distinct_slots_Add:
  "distinct (map fst (rr_advertisements r)) \<Longrightarrow>
   distinct (map fst (rr_advertisements (AddAdvertisement slot a r)))"
  by (simp add: AddAdvertisement_def distinct_update)

lemma GetAdvertisements_slots:
  "distinct (map fst (rr_advertisements r)) \<Longrightarrow>
   a \<in> set (GetAdvertisements r) \<longleftrightarrow> (\<exists>slot. map_of (rr_advertisements r) slot = Some a)"
  by (force simp: GetAdvertisements_def)

end
