(* ===== verification/Ble_Props.thy ===== *)
theory Ble_Props
  imports Ble_Formats Bloom_Filter Read_Result
begin

text \<open>
  The properties of the BLE medium: its advertisements, header, socket packets, L2CAP packets,
  instant-on-lost advertisement, Bloom filter and read backoff.
\<close>

unbundle bit_operations_syntax

section \<open>Advertisements\<close>

text \<open>
  C29: A BLE advertisement that the constructor can build, encoded with its extra fields
  (\<open>ByteArrayWithExtraField\<close>), is decoded to the same advertisement by
  \<open>CreateBleAdvertisement\<close> exactly when it has a device token or no extra field; this holds
  for the fast and for the regular layout, every length and every 16-bit PSM.
\<close>

theorem medium_adv_roundtrip:
  assumes "adv_wf a" and "extras_wf (adv_psm a) (adv_rx_instant_connection a)"
  shows "MediumAdv_CreateBleAdvertisement (MediumAdv_ByteArrayWithExtraField a) = Inr a \<longleftrightarrow>
    (adv_device_token a = [] \<longrightarrow> adv_psm a = kDefaultPsmValue \<and> adv_rx_instant_connection a = [])"
  using assms MediumAdv_decode_encode [of a] MediumAdv_decode_needs_token [of a]
  by (auto simp: adv_codec_wf_def kDefaultPsmValue_def)

definition sample_adv :: medium_advertisement where
  "sample_adv = MediumAdv_new VersionV2 VersionV2 [1, 2, 3] [10, 20, 30] [7, 8] 4660"

lemma sample_adv_wf: "adv_wf sample_adv"
  unfolding sample_adv_def
  by (rule MediumAdv_new_wf)
     (simp add: MediumAdv_new_def MediumAdv_DoInitialize_def MediumAdv_IsValid_def
       ComputeAdvertisementLength_def adv_const_defs)

lemma sample_adv_fields:
  "adv_device_token sample_adv = [7, 8]" "adv_psm sample_adv = 4660"
  "adv_rx_instant_connection sample_adv = []"
  by (simp_all add: sample_adv_def MediumAdv_new_def MediumAdv_DoInitialize_def
      ComputeAdvertisementLength_def adv_const_defs empty_advertisement_def)

theorem medium_adv_roundtrip_witness:
  "MediumAdv_CreateBleAdvertisement (MediumAdv_ByteArrayWithExtraField sample_adv) = Inr sample_adv"
  using medium_adv_roundtrip [of sample_adv] sample_adv_wf
  by (simp add: sample_adv_fields extras_wf_def)

text \<open>
  Whatever bytes \<open>CreateBleAdvertisement\<close> accepts, they begin with the encoding of the
  advertisement it returns, and that advertisement is valid: the decoder invents nothing.
\<close>

theorem medium_adv_accepts_encoding:
  assumes "MediumAdv_CreateBleAdvertisement bs = Inr a"
  shows "\<exists>rest. bs = MediumAdv_ByteArray a @ rest"
  using assms by (rule MediumAdv_decode_prefix)

theorem medium_adv_accepts_encoding_witness:
  "\<exists>rest. MediumAdv_ByteArrayWithExtraField sample_adv = MediumAdv_ByteArray sample_adv @ rest"
  by (rule medium_adv_accepts_encoding, rule MediumAdv_decode_encode)
     (simp add: adv_codec_wf_def sample_adv_wf sample_adv_fields extras_wf_def)

section \<open>The advertisement header\<close>

text \<open>
  A header that the constructor accepts (with a slot count of four bits and a PSM that
  fits in a signed 16-bit integer) is read back from its bytes, as long as these do not
  happen to be a base64 string, which \<open>BleAdvertisementHeader(bytes)\<close> tries first.
\<close>

theorem adv_header_roundtrip:
  assumes "AdvHeader_new VersionV2 extended slots bloom hash psm = h" and "AdvHeader_IsValid h"
    and "slots < 16" and "- 32768 \<le> psm" and "psm < 32768"
    and "base64 (AdvHeader_ByteArray h) = []"
  shows "AdvHeader_of_bytes base64 (AdvHeader_ByteArray h) = h"
proof -
  have wf: "hdr_wf h"
    using assms(1-5)
    by (auto simp: AdvHeader_new_def AdvHeader_IsValid_def empty_header_def hdr_wf_def hdr_const_defs
        signed_range_def split: if_splits)
  then have "length (AdvHeader_ByteArray h) = kMinAdvertisementHeaderLength + 2"
    by (simp add: AdvHeader_ByteArray_def AdvHeader_IsValid_def hdr_wf_def hdr_const_defs)
  with assms(6) AdvHeader_parse_encode [OF wf] show ?thesis
    by (simp add: AdvHeader_of_bytes_def)
qed

theorem adv_header_roundtrip_witness:
  "AdvHeader_of_bytes (\<lambda>_. []) (AdvHeader_ByteArray
      (AdvHeader_new VersionV2 True 3 (replicate 10 5) [1, 2, 3, 4] 129)) =
    AdvHeader_new VersionV2 True 3 (replicate 10 5) [1, 2, 3, 4] 129"
  by (rule adv_header_roundtrip [OF refl])
     (simp_all add: AdvHeader_new_def AdvHeader_IsValid_def hdr_const_defs)

text \<open>
  The PSM of a header is read as a signed 16-bit integer: a PSM from 32768 on, which the
  encoder writes and which the advertisement itself carries unsigned, comes back negative.
\<close>

theorem adv_header_psm_sign:
  assumes "AdvHeader_new VersionV2 extended slots bloom hash psm = h" and "AdvHeader_IsValid h"
    and "slots < 16" and "32768 \<le> psm" and "psm < 65536"
  shows "hdr_psm (AdvHeader_parse (AdvHeader_ByteArray h)) = psm - 65536"
proof -
  have h: "hdr_version h = VersionV2" "0 \<le> hdr_num_slots h" "hdr_num_slots h < 16"
    "length (hdr_bloom_filter h) = 10" "length (hdr_hash h) = 4" "hdr_psm h = psm"
    using assms by (auto simp: AdvHeader_new_def AdvHeader_IsValid_def empty_header_def hdr_const_defs
        split: if_splits)
  have "word_of_int psm = (word_of_int (psm - 65536) :: 16 word)"
    by (simp add: of_int_diff)
  then have "sint (word_of_int psm :: 16 word) = psm - 65536"
    using assms by (simp only:) (rule sint_of_range, simp add: signed_range_def)
  with h show ?thesis
    by (simp add: AdvHeader_parse_layout)
qed

theorem adv_header_psm_sign_witness:
  "hdr_psm (AdvHeader_parse (AdvHeader_ByteArray
      (AdvHeader_new VersionV2 True 3 (replicate 10 5) [1, 2, 3, 4] 40000))) = - 25536"
  using adv_header_psm_sign [OF refl, of True 3 "replicate 10 5" "[1, 2, 3, 4]" 40000]
  by (simp add: AdvHeader_new_def AdvHeader_IsValid_def hdr_const_defs)

section \<open>Socket packets\<close>

text \<open>
  BLE socket packets: any three bytes or more decode to a packet whose encoding is those
  bytes again; a packet made by \<open>CreateControlPacket\<close> or \<open>CreateDataPacket\<close> survives the
  round trip, and is recognised as a control packet exactly when it was made as one.
\<close>

theorem ble_packet_roundtrip:
  assumes "BlePacket_CreateControlPacket d = Inr p" and "BlePacket_CreateDataPacket h d' = Inr q"
    and "3 \<le> length bs"
  shows "BlePacket_ByteArray (BlePacket_of_bytes bs) = bs \<and>
    BlePacket_of_bytes (BlePacket_ByteArray p) = p \<and> BlePacket_IsControlPacket p \<and>
    BlePacket_of_bytes (BlePacket_ByteArray q) = q \<and> \<not> BlePacket_IsControlPacket q"
proof -
  have "BlePacket_IsControlPacket p" and "\<not> BlePacket_IsControlPacket q"
    using assms(1,2)
    by (auto simp: BlePacket_CreateControlPacket_def BlePacket_CreateDataPacket_def
        BlePacket_IsControlPacket_def split: if_splits)
  then show ?thesis
    using created_packets_wf(1) [OF assms(1)] created_packets_wf(2) [OF assms(2)]
      BlePacket_encode_decode [OF assms(3)]
    by (simp add: BlePacket_decode_encode)
qed

theorem ble_packet_roundtrip_witness:
  "BlePacket_ByteArray (BlePacket_of_bytes [0, 0, 0, 1]) = [0, 0, 0, 1]"
proof -
  have "BlePacket_CreateControlPacket [] =
      Inr \<lparr>blep_type = PacketControl, blep_service_id_hash = [0, 0, 0], blep_data = []\<rparr>"
    and "BlePacket_CreateDataPacket [1, 2, 3] [4] =
      Inr \<lparr>blep_type = PacketData, blep_service_id_hash = [1, 2, 3], blep_data = [4]\<rparr>"
    by (simp_all add: BlePacket_CreateControlPacket_def BlePacket_CreateDataPacket_def blep_const_defs)
  from ble_packet_roundtrip [OF this, of "[0, 0, 0, 1]"] show ?thesis
    by simp
qed

text \<open>
  The control frames take the service id hash as a C string: when its second byte is
  zero, the third byte is lost, and an introduction (or disconnection, or acknowledgement) for
  one service is the same packet as for another service.
\<close>

theorem ble_control_hash_truncated:
  "CreateControlIntroductionPacket serialize [a, 0, b] =
     CreateControlIntroductionPacket serialize [a, 0, c] \<and>
   CreateControlDisconnectionPacket serialize [a, 0, b] =
     CreateControlDisconnectionPacket serialize [a, 0, c] \<and>
   CreateControlPacketAcknowledgementPacket serialize [a, 0, b] n =
     CreateControlPacketAcknowledgementPacket serialize [a, 0, c] n"
  by (simp add: CreateControlIntroductionPacket_def CreateControlDisconnectionPacket_def
      CreateControlPacketAcknowledgementPacket_def c_string_def)

section \<open>L2CAP packets\<close>

text \<open>
  What \<open>ByteArrayForResponseAdvertisement\<close> and \<open>ByteArrayForRequestAdvertisement\<close>
  produce is decoded by \<open>CreateFromBytes\<close> to the same command with the same payload, and has a
  valid length; an advertisement above the maximum is encoded all the same, and refused by the
  decoder.
\<close>

theorem l2cap_roundtrip:
  assumes "L2cap_ResponseAdvertisement adv = Inr bs" and "length adv < 65536"
    and "L2cap_RequestAdvertisement sha256 service_id = Inr rs"
    and "\<forall>s n. length (sha256 s n) = n"
  shows "L2cap_CreateFromBytes bs =
      (if length adv \<le> kMaxAdvertisementLength
       then Inr (BleL2capPacket ResponseAdvertisement None (Some adv))
       else Inl InvalidArgumentError) \<and>
    (L2cap_IsValidLength (int (length bs)) \<longleftrightarrow> length adv \<le> kMaxAdvertisementLength) \<and>
    L2cap_CreateFromBytes rs =
      Inr (BleL2capPacket RequestAdvertisement
             (Some (L2cap_GenerateServiceIdHash sha256 service_id)) None) \<and>
    L2cap_IsValidLength (int (length rs))"
proof -
  let ?h = "L2cap_GenerateServiceIdHash sha256 service_id"
  have h: "length ?h = 3"
    using assms(4) by (simp add: L2cap_GenerateServiceIdHash_def kAdvServiceIdHashLength_def)
  then have hn: "?h \<noteq> []"
    by auto
  have bs: "bs = L2cap_ByteArrayForCommand ResponseAdvertisement (Some adv)" "8 \<le> length adv"
    and rs: "rs = L2cap_ByteArrayForCommand RequestAdvertisement (Some ?h)"
    using assms(1,3)
    by (auto simp: L2cap_ResponseAdvertisement_def L2cap_RequestAdvertisement_def
        kMinAdvertisementLength_def split: if_splits)
  have "adv \<noteq> []"
    using bs(2) by auto
  from L2cap_read_response [OF assms(2) this] L2cap_read_request [of ?h] h hn
  show ?thesis
    by (auto simp: bs(1) rs L2cap_IsValidLength_def kL2capMaxLength_def kCommandLength_def
        kDataLength_def kMaxAdvertisementLength_def L2cap_ByteArrayForCommand_def)
qed

theorem l2cap_roundtrip_witness:
  "L2cap_CreateFromBytes (L2cap_ByteArrayForCommand ResponseAdvertisement (Some (replicate 9 1))) =
    Inr (BleL2capPacket ResponseAdvertisement None (Some (replicate 9 1)))"
  using l2cap_roundtrip [of "replicate 9 1" _ "\<lambda>s n. replicate n 7" "[65]"]
  by (simp add: L2cap_ResponseAdvertisement_def L2cap_RequestAdvertisement_def adv_const_defs)

section \<open>Instant on lost\<close>

text \<open>
  An instant-on-lost advertisement of one to five hashes is decoded from its bytes to the
  same hashes; and whatever \<open>CreateFromBytes\<close> accepts carries at most seven hashes of four
  bytes, which are exactly the bytes after the header.
\<close>

theorem lost_advertisement_roundtrip:
  assumes "Lost_CreateFromHashes hs = Inr hs'" and "hs \<noteq> []" and "length hs \<le> kMaxHashCount"
    and "Lost_CreateFromBytes bs = Inr ks"
  shows "Lost_CreateFromBytes (Lost_ToBytes hs') = Inr hs \<and>
    list_all (\<lambda>k. length k = 4) ks \<and> length ks \<le> 7 \<and> concat ks = drop 2 bs"
proof -
  have "hs' = hs" and "list_all (\<lambda>h. length h = 4) hs"
    using assms(1) by (auto simp: Lost_CreateFromHashes_def lost_const_defs list_ex_iff list_all_iff
        split: if_splits)
  with Lost_decode_encode [of hs] Lost_CreateFromBytes_lengths [OF assms(4)] assms(2,3)
  show ?thesis
    by (simp add: kMaxHashCount_def)
qed

theorem lost_advertisement_roundtrip_witness:
  "Lost_CreateFromBytes (Lost_ToBytes [[1, 2, 3, 4], [5, 6, 7, 8]]) =
    Inr [[1, 2, 3, 4], [5, 6, 7, 8]]"
proof -
  have "Lost_CreateFromHashes [[1, 2, 3, 4], [5, 6, 7, 8]] = Inr [[1, 2, 3, 4], [5, 6, 7, 8]]"
    and "Lost_CreateFromBytes [17, 0] = Inr []"
    by (simp_all add: Lost_CreateFromHashes_def Lost_CreateFromBytes_def lost_const_defs
        lost_hashes_from.simps)
  from lost_advertisement_roundtrip [OF this(1) _ _ this(2)] show ?thesis
    by (simp add: kMaxHashCount_def)
qed

section \<open>The Bloom filter\<close>

text \<open>
  No false negatives: a service id added to a Bloom filter is reported as possibly
  contained after any further additions, and still after the filter went over the air as
  bytes and was rebuilt; nothing else about the filter changes on the way.
\<close>

theorem bloom_filter_no_false_negatives:
  assumes "parses_binary parse2" and "0 < capacity"
    and f_def: "f = add_all murmur us
      (BloomFilter_Add murmur s (add_all murmur ts (BitSet_new capacity)))"
  shows "PossiblyContains murmur s f \<and>
    (\<exists>bs. BloomFilter_ByteArray parse2 f = Some bs \<and> length bs = capacity \<and>
      BloomFilter_new (BitSet_new capacity) bs = f)"
proof -
  let ?g = "add_all murmur ts (BitSet_new capacity)"
  have len: "length f = length (BitSet_new capacity)"
    using Adds_le [of "BitSet_new capacity" murmur ts] Add_le [of ?g murmur s]
      Adds_le [of "BloomFilter_Add murmur s ?g" murmur us]
    by (simp add: bits_le_def f_def)
  have "?g \<noteq> []"
    using Adds_le [of "BitSet_new capacity" murmur ts] assms(2)
    by (auto simp: bits_le_def BitSet_new_def)
  then have "PossiblyContains murmur s (BloomFilter_Add murmur s ?g)"
    by (rule Add_contains)
  moreover have "BloomFilter_Add murmur s ?g \<noteq> []"
    using \<open>?g \<noteq> []\<close> Add_le [of ?g murmur s] by (auto simp: bits_le_def)
  ultimately have "PossiblyContains murmur s f"
    unfolding f_def by (intro PossiblyContains_mono [OF Adds_le])
  then show ?thesis
    using filter_roundtrip [OF assms(1), of f capacity] len assms(2)
    by (simp add: BitSet_new_def)
qed

definition binary_value :: "string \<Rightarrow> 32 word" where
  "binary_value s = foldl (\<lambda>v c. 2 * v + (if c = CHR ''1'' then 1 else 0)) 0 s"

theorem bloom_filter_no_false_negatives_witness:
  "PossiblyContains (\<lambda>s. of_nat (length s)) [1, 2] (BloomFilter_Add (\<lambda>s. of_nat (length s)) [3]
     (BloomFilter_Add (\<lambda>s. of_nat (length s)) [1, 2] (BitSet_new 10)))"
  using bloom_filter_no_false_negatives
    [OF _ _ refl, of binary_value 10 "\<lambda>s. of_nat (length s)" "[1, 2]" "[]" "[[3]]"]
  by (simp add: parses_binary_def binary_value_def)

section \<open>The read backoff\<close>

text \<open>
  The retry backoff of GATT reads: over any history of reads the backoff stays between
  the base and the maximum duration and is the base after a success; with the default
  configuration, n failed reads in a row after a success (or from the start) make it
  min(2^(n-1), 300) seconds, and a retry is allowed exactly when that time has passed.
\<close>

theorem read_backoff:
  assumes "config_ok c" and "ts \<noteq> []"
    and "d = record_reads es (AdvertisementReadResult kDefaultConfig start)"
    and "es = [] \<or> snd (last es)"
  shows "base_backoff_duration c \<le>
        rr_backoff_duration (record_reads hist (AdvertisementReadResult c now)) \<and>
      rr_backoff_duration (record_reads hist (AdvertisementReadResult c now)) \<le>
        max_backoff_duration c \<and>
      EvaluateRetryStatus t (record_reads (map (\<lambda>t. (t, False)) ts) d) =
        (if t - last ts < min (seconds (2 ^ (length ts - 1))) (seconds 300) then TooSoon else Retry)"
proof -
  have inv: "backoff_inv c (record_reads hist (AdvertisementReadResult c now))"
    using assms(1) by (intro backoff_inv_reads backoff_inv_new)
  have cfg: "rr_config d = kDefaultConfig"
    using backoff_inv_reads [OF _ backoff_inv_new, of kDefaultConfig es start] assms(3)
    by (simp add: config_ok_def kDefaultConfig_def seconds_def backoff_inv_def)
  have "rr_result d \<noteq> Some ReadFailure"
  proof (cases es rule: rev_cases)
    case Nil
    with assms(3) show ?thesis by (simp add: AdvertisementReadResult_def)
  next
    case (snoc xs e)
    with assms(3,4) show ?thesis
      by (cases e) (simp add: record_reads_append RecordLastReadStatus_def)
  qed
  from failures_backoff [OF cfg this assms(2)] inv show ?thesis
    by (simp add: backoff_inv_def EvaluateRetryStatus_def GetDurationSinceRead_def)
qed

theorem read_backoff_witness:
  "EvaluateRetryStatus (seconds 5) (record_reads [(0, False), (seconds 2, False)]
     (AdvertisementReadResult kDefaultConfig 0)) = Retry"
  using read_backoff [of kDefaultConfig "[0, seconds 2]" _ "[]" 0 "[]" 0 "seconds 5"]
  by (simp add: config_ok_def kDefaultConfig_def seconds_def)

end
