(* ===== verification/Payload_Types.thy ===== *)
theory Payload_Types
  imports NBC_Prelude
begin

text \<open>
  Payloads as the client sees them (connections/payload.cc) and the progress it is told of
  (connections/listeners.h).

  Streams and files are objects that the application and the payload manager share, so a
  payload refers to them by number; the objects are in the platform's store (Payload_Source).
  A payload whose content was moved out has \<open>NoContent\<close>.
\<close>

datatype ProgressStatus = ProgressSuccess | ProgressFailure | ProgressInProgress | ProgressCanceled

record payload_progress_info =
  progress_payload_id :: int
  progress_status :: ProgressStatus
  progress_total_bytes :: int
  progress_bytes_transferred :: int

definition terminal_status :: "ProgressStatus \<Rightarrow> bool" where
  "terminal_status st \<longleftrightarrow> st \<noteq> ProgressInProgress"

datatype PayloadType = kUnknownType | kBytes | kFile | kStream

datatype payload_content =
    NoContent
  | BytesContent bytes
  | StreamContent nat
  | FileContent nat

record payload =
  payload_id :: int
  payload_offset :: nat
  payload_parent_folder :: string
  payload_file_name :: string
  payload_last_modified :: int
  payload_type :: PayloadType
  payload_content :: payload_content

section \<open>Constructors and accessors\<close>

text \<open>\<open>FormatFileName\<close> keeps what follows the last separator, of either kind.\<close>

definition FormatFileName :: "string \<Rightarrow> string" where
  "FormatFileName s =
     rev (takeWhile (\<lambda>c. c \<noteq> CHR ''/'') (rev (map (\<lambda>c. if c = CHR 0x5C then CHR ''/'' else c) s)))"

definition bytes_payload :: "int \<Rightarrow> bytes \<Rightarrow> payload" where
  "bytes_payload i bs =
     \<lparr>payload_id = i, payload_offset = 0, payload_parent_folder = [], payload_file_name = [],
      payload_last_modified = 0, payload_type = kBytes, payload_content = BytesContent bs\<rparr>"

definition stream_payload :: "int \<Rightarrow> nat \<Rightarrow> payload" where
  "stream_payload i p =
     \<lparr>payload_id = i, payload_offset = 0, payload_parent_folder = [], payload_file_name = [],
      payload_last_modified = 0, payload_type = kStream, payload_content = StreamContent p\<rparr>"

text \<open>\<open>modified\<close> is what \<open>GetLastModifiedTime\<close> of the file returns.\<close>

definition file_payload :: "int \<Rightarrow> string \<Rightarrow> string \<Rightarrow> int \<Rightarrow> nat \<Rightarrow> payload" where
  "file_payload i parent_folder file_name modified f =
     \<lparr>payload_id = i, payload_offset = 0, payload_parent_folder = parent_folder,
      payload_file_name = FormatFileName file_name, payload_last_modified = modified,
      payload_type = kFile, payload_content = FileContent f\<rparr>"

definition AsBytes :: "payload \<Rightarrow> bytes" where
  "AsBytes p = (case payload_content p of BytesContent bs \<Rightarrow> bs | _ \<Rightarrow> [])"

definition AsStream :: "payload \<Rightarrow> nat option" where
  "AsStream p = (case payload_content p of StreamContent r \<Rightarrow> Some r | _ \<Rightarrow> None)"

definition AsFile :: "payload \<Rightarrow> nat option" where
  "AsFile p = (case payload_content p of FileContent f \<Rightarrow> Some f | _ \<Rightarrow> None)"

text \<open>\<open>None\<close> is a failed CHECK; \<open>total_size\<close> is the size of the file, if it is one.\<close>

definition SetOffset :: "(nat \<Rightarrow> int) \<Rightarrow> nat \<Rightarrow> payload \<Rightarrow> payload option" where
  "SetOffset total_size off p =
     (if payload_type p \<noteq> kFile \<and> payload_type p \<noteq> kStream then None
      else case AsFile p of
             Some f \<Rightarrow> if total_size f > 0 \<and> int off < total_size f
                       then Some (p\<lparr>payload_offset := off\<rparr>) else None
           | None \<Rightarrow> Some (p\<lparr>payload_offset := off\<rparr>))"

lemma FormatFileName_no_separator:
  "CHR ''/'' \<notin> set (FormatFileName s)" "CHR 0x5C \<notin> set (FormatFileName s)"
  by (auto simp: FormatFileName_def dest!: set_takeWhileD split: if_splits)

end
