(* ===== verification/Client_Proxy.thy ===== *)
theory Client_Proxy
  imports Payload_Types
begin

text \<open>
  \<open>ClientProxy\<close> (connections/implementation/client_proxy.h and .cc): what one client of the
  library is doing (advertising, discovering, listening), its connections and the state of
  each one's acceptance by both sides, the endpoint id it uses, and the callbacks it gets.

  A callback object is known by a number.  The callbacks are recorded in order in
  \<open>client_trace\<close>; they do not call back into the proxy here, and the analytics recorder and the
  log are left out.  The containers keyed by endpoint id are association lists.  A feature flag
  is a field of \<open>client_flags\<close>.
\<close>

unbundle bit_operations_syntax

section \<open>Data\<close>

datatype Medium =
    UNKNOWN_MEDIUM | MDNS | BLUETOOTH | WIFI_HOTSPOT | BLE | WIFI_LAN | WIFI_AWARE | NFC
  | WIFI_DIRECT | WEB_RTC | BLE_L2CAP | USB | WEB_RTC_NON_CELLULAR | AWDL

datatype nc_status =
    kSuccess | kError | kOutOfOrderApiCall | kAlreadyHaveActiveStrategy | kAlreadyAdvertising
  | kAlreadyDiscovering | kAlreadyListening | kEndpointIoError | kEndpointUnknown
  | kConnectionRejected | kAlreadyConnectedToEndpoint | kNotConnectedToEndpoint
  | kBluetoothError | kBleError | kWifiLanError | kPayloadUnknown | kReset | kTimeout
  | kUnknown | kNextValue

datatype Strategy = StrategyNone | P2pCluster | P2pStar | P2pPointToPoint

definition IsNone :: "Strategy \<Rightarrow> bool" where
  "IsNone s \<longleftrightarrow> s = StrategyNone"

record connection_options =
  allowed_mediums :: "Medium list"
  supports_5_ghz :: bool
  bssid :: string
  ap_frequency :: int
  ip_address :: string
  medium_role :: "nat option"
  keep_alive_interval_millis :: int
  keep_alive_timeout_millis :: int

record lifecycle_options =
  opt_strategy :: Strategy
  opt_auto_upgrade_bandwidth :: bool
  opt_enforce_topology_constraints :: bool

text \<open>
  A \<open>ConnectionListener\<close> is the client's own, or the wrapper that
  \<open>GetAdvertisingOrIncomingConnectionListener\<close> builds, which forwards to the v3 listener the
  proxy has when the callback happens (\<open>accepted\<close> as a result with \<open>kSuccess\<close>).
\<close>

datatype connection_listener = ClientListener nat | IncomingWrapper

datatype callback_target = ToListener nat | ToV3Listener nat

datatype client_event =
    CbInitiated callback_target string
  | CbAccepted callback_target string
  | CbRejected callback_target string nc_status
  | CbDisconnected callback_target string
  | CbBandwidthChanged callback_target string Medium
  | CbEndpointFound nat string bytes string
  | CbEndpointLost nat string
  | CbPayload "nat option" string payload
  | CbPayloadProgress "nat option" string payload_progress_info

text \<open>\<open>Connection::Status\<close> is a bit mask in a \<open>uint8_t\<close>.\<close>

definition kPending :: byte where "kPending = 0"
definition kLocalEndpointAccepted :: byte where "kLocalEndpointAccepted = push_bit 0 1"
definition kLocalEndpointRejected :: byte where "kLocalEndpointRejected = push_bit 1 1"
definition kRemoteEndpointAccepted :: byte where "kRemoteEndpointAccepted = push_bit 2 1"
definition kRemoteEndpointRejected :: byte where "kRemoteEndpointRejected = push_bit 3 1"
definition kStatusConnected :: byte where "kStatusConnected = push_bit 4 1"

lemmas status_bits =
  kPending_def kLocalEndpointAccepted_def kLocalEndpointRejected_def
  kRemoteEndpointAccepted_def kRemoteEndpointRejected_def kStatusConnected_def

record connection =
  conn_is_incoming :: bool
  conn_connected_medium :: Medium
  conn_status :: byte
  conn_listener :: connection_listener
  conn_options :: connection_options
  conn_token :: string
  conn_os_info :: "nat option"
  conn_safe_to_disconnect_version :: int
  conn_multiplex_bitmask :: "32 word"
  conn_payload_listener :: "nat option"

record client_flags =
  flag_use_stable_endpoint_id :: bool
  flag_cancellation :: bool
  flag_multiplex :: bool
  flag_multiplex_bluetooth :: bool
  flag_multiplex_wifi_lan :: bool

record client_proxy =
  flags :: client_flags
  is_dct_enabled :: bool
  dct_endpoint_id :: string
  external_endpoint_id :: "string option"
  local_endpoint_id :: string
  local_endpoint_info :: bytes
  high_vis_mode :: bool
  stable_endpoint_id_mode :: bool
  cached_endpoint_id :: string
  cached_endpoint_id_alarm :: bool
  advertising_service_id :: string
  advertising_listener :: connection_listener
  advertising_options :: lifecycle_options
  discovery_service_id :: string
  discovery_listener :: nat
  listening_service_id :: string
  listening_listener :: nat
  listening_options :: lifecycle_options
  connections :: "(string \<times> connection) list"
  bluetooth_mac_addresses :: "(string \<times> bytes) list"
  discovered_endpoint_ids :: "string list"
  cancellation_flags :: "(string \<times> bool) list"
  supports_safe_to_disconnect :: bool
  support_auto_reconnect :: bool
  client_trace :: "client_event list"

definition notify :: "client_event \<Rightarrow> client_proxy \<Rightarrow> client_proxy" where
  "notify e s = s\<lparr>client_trace := client_trace s @ [e]\<rparr>"

definition listener_target :: "client_proxy \<Rightarrow> connection_listener \<Rightarrow> callback_target" where
  "listener_target s l =
     (case l of ClientListener n \<Rightarrow> ToListener n | IncomingWrapper \<Rightarrow> ToV3Listener (listening_listener s))"

section \<open>Connections by endpoint\<close>

definition LookupConnection :: "string \<Rightarrow> client_proxy \<Rightarrow> connection option" where
  "LookupConnection endpoint_id s = map_of (connections s) endpoint_id"

text \<open>Writing through the pointer a lookup returned.\<close>

definition write_connection ::
  "string \<Rightarrow> (connection \<Rightarrow> connection) \<Rightarrow> client_proxy \<Rightarrow> client_proxy" where
  "write_connection endpoint_id f s =
     s\<lparr>connections := map (\<lambda>(e, c). if e = endpoint_id then (e, f c) else (e, c)) (connections s)\<rparr>"

definition ConnectionStatusMatches :: "string \<Rightarrow> byte \<Rightarrow> client_proxy \<Rightarrow> bool" where
  "ConnectionStatusMatches endpoint_id st s =
     (case LookupConnection endpoint_id s of Some c \<Rightarrow> conn_status c = st | None \<Rightarrow> False)"

definition ConnectionStatusesContains :: "string \<Rightarrow> byte \<Rightarrow> client_proxy \<Rightarrow> bool" where
  "ConnectionStatusesContains endpoint_id st s =
     (case LookupConnection endpoint_id s of Some c \<Rightarrow> conn_status c AND st \<noteq> 0 | None \<Rightarrow> False)"

definition AppendConnectionStatus :: "string \<Rightarrow> byte \<Rightarrow> client_proxy \<Rightarrow> client_proxy" where
  "AppendConnectionStatus endpoint_id st =
     write_connection endpoint_id (\<lambda>c. c\<lparr>conn_status := conn_status c OR st\<rparr>)"

definition IsConnectedToEndpoint :: "string \<Rightarrow> client_proxy \<Rightarrow> bool" where
  "IsConnectedToEndpoint endpoint_id s = ConnectionStatusMatches endpoint_id kStatusConnected s"

definition GetMatchingEndpoints :: "(connection \<Rightarrow> bool) \<Rightarrow> client_proxy \<Rightarrow> string list" where
  "GetMatchingEndpoints pred s = map fst (filter (\<lambda>(e, c). pred c) (connections s))"

definition GetPendingConnectedEndpoints :: "client_proxy \<Rightarrow> string list" where
  "GetPendingConnectedEndpoints s =
     GetMatchingEndpoints (\<lambda>c. conn_status c \<noteq> kStatusConnected) s"

definition GetConnectedEndpoints :: "client_proxy \<Rightarrow> string list" where
  "GetConnectedEndpoints s = GetMatchingEndpoints (\<lambda>c. conn_status c = kStatusConnected) s"

definition HasOngoingConnection :: "client_proxy \<Rightarrow> bool" where
  "HasOngoingConnection s \<longleftrightarrow>
     GetPendingConnectedEndpoints s \<noteq> [] \<or> GetConnectedEndpoints s \<noteq> []"

definition GetNumOutgoingConnections :: "client_proxy \<Rightarrow> nat" where
  "GetNumOutgoingConnections s =
     length (GetMatchingEndpoints
       (\<lambda>c. conn_status c = kStatusConnected \<and> \<not> conn_is_incoming c) s)"

definition GetNumIncomingConnections :: "client_proxy \<Rightarrow> nat" where
  "GetNumIncomingConnections s =
     length (GetMatchingEndpoints
       (\<lambda>c. conn_status c = kStatusConnected \<and> conn_is_incoming c) s)"

definition IsIncomingConnection :: "string \<Rightarrow> client_proxy \<Rightarrow> bool" where
  "IsIncomingConnection endpoint_id s =
     (case LookupConnection endpoint_id s of
        Some c \<Rightarrow> conn_status c = kStatusConnected \<and> conn_is_incoming c
      | None \<Rightarrow> False)"

definition IsOutgoingConnection :: "string \<Rightarrow> client_proxy \<Rightarrow> bool" where
  "IsOutgoingConnection endpoint_id s =
     (case LookupConnection endpoint_id s of
        Some c \<Rightarrow> conn_status c = kStatusConnected \<and> \<not> conn_is_incoming c
      | None \<Rightarrow> False)"

definition HasPendingConnectionToEndpoint :: "string \<Rightarrow> client_proxy \<Rightarrow> bool" where
  "HasPendingConnectionToEndpoint endpoint_id s =
     (case LookupConnection endpoint_id s of
        Some c \<Rightarrow> conn_status c \<noteq> kStatusConnected | None \<Rightarrow> False)"

definition HasLocalEndpointResponded :: "string \<Rightarrow> client_proxy \<Rightarrow> bool" where
  "HasLocalEndpointResponded endpoint_id s =
     ConnectionStatusesContains endpoint_id (kLocalEndpointAccepted OR kLocalEndpointRejected) s"

definition HasRemoteEndpointResponded :: "string \<Rightarrow> client_proxy \<Rightarrow> bool" where
  "HasRemoteEndpointResponded endpoint_id s =
     ConnectionStatusesContains endpoint_id (kRemoteEndpointAccepted OR kRemoteEndpointRejected) s"

definition LocalEndpointAcceptedConnection ::
  "string \<Rightarrow> nat option \<Rightarrow> client_proxy \<Rightarrow> client_proxy" where
  "LocalEndpointAcceptedConnection endpoint_id listener s =
     (if HasLocalEndpointResponded endpoint_id s then s
      else write_connection endpoint_id (\<lambda>c. c\<lparr>conn_payload_listener := listener\<rparr>)
             (AppendConnectionStatus endpoint_id kLocalEndpointAccepted s))"

definition LocalEndpointRejectedConnection :: "string \<Rightarrow> client_proxy \<Rightarrow> client_proxy" where
  "LocalEndpointRejectedConnection endpoint_id s =
     (if HasLocalEndpointResponded endpoint_id s then s
      else AppendConnectionStatus endpoint_id kLocalEndpointRejected s)"

definition RemoteEndpointAcceptedConnection :: "string \<Rightarrow> client_proxy \<Rightarrow> client_proxy" where
  "RemoteEndpointAcceptedConnection endpoint_id s =
     (if HasRemoteEndpointResponded endpoint_id s then s
      else AppendConnectionStatus endpoint_id kRemoteEndpointAccepted s)"

definition RemoteEndpointRejectedConnection :: "string \<Rightarrow> client_proxy \<Rightarrow> client_proxy" where
  "RemoteEndpointRejectedConnection endpoint_id s =
     (if HasRemoteEndpointResponded endpoint_id s then s
      else AppendConnectionStatus endpoint_id kRemoteEndpointRejected s)"

definition LocalConnectionIsAccepted :: "string \<Rightarrow> client_proxy \<Rightarrow> bool" where
  "LocalConnectionIsAccepted endpoint_id s =
     ConnectionStatusesContains endpoint_id kLocalEndpointAccepted s"

definition RemoteConnectionIsAccepted :: "string \<Rightarrow> client_proxy \<Rightarrow> bool" where
  "RemoteConnectionIsAccepted endpoint_id s =
     ConnectionStatusesContains endpoint_id kRemoteEndpointAccepted s"

definition IsConnectionAccepted :: "string \<Rightarrow> client_proxy \<Rightarrow> bool" where
  "IsConnectionAccepted endpoint_id s \<longleftrightarrow>
     ConnectionStatusesContains endpoint_id kLocalEndpointAccepted s \<and>
     ConnectionStatusesContains endpoint_id kRemoteEndpointAccepted s"

definition IsConnectionRejected :: "string \<Rightarrow> client_proxy \<Rightarrow> bool" where
  "IsConnectionRejected endpoint_id s =
     ConnectionStatusesContains endpoint_id (kLocalEndpointRejected OR kRemoteEndpointRejected) s"

section \<open>The local endpoint id\<close>

definition kEndpointIdLength :: nat where "kEndpointIdLength = 4"

definition kEndpointIdChars :: string where
  "kEndpointIdChars = ''ABCDEFGHIJKLMNOPQRSTUVWXYZ1234567890''"

definition GetEndpointIdForDct :: "client_proxy \<Rightarrow> string option" where
  "GetEndpointIdForDct s = (if dct_endpoint_id s = [] then None else Some (dct_endpoint_id s))"

text \<open>The draws of the random generator are the argument \<open>rnd\<close>.\<close>

definition GenerateLocalEndpointId :: "(nat \<Rightarrow> 32 word) \<Rightarrow> client_proxy \<Rightarrow> string" where
  "GenerateLocalEndpointId rnd s =
     (if (if flag_use_stable_endpoint_id (flags s)
          then cached_endpoint_id s \<noteq> [] \<and> stable_endpoint_id_mode s
          else high_vis_mode s \<and> cached_endpoint_id s \<noteq> [])
      then cached_endpoint_id s
      else map (\<lambda>i. kEndpointIdChars ! (unat (rnd i) mod length kEndpointIdChars))
             [0..<kEndpointIdLength])"

definition GetLocalEndpointId ::
  "(nat \<Rightarrow> 32 word) \<Rightarrow> client_proxy \<Rightarrow> string \<times> client_proxy" where
  "GetLocalEndpointId rnd s =
     (if is_dct_enabled s \<and> GetEndpointIdForDct s \<noteq> None
      then (the (GetEndpointIdForDct s), s)
      else if local_endpoint_id s \<noteq> [] then (local_endpoint_id s, s)
      else
        let i = (case external_endpoint_id s of
                   None \<Rightarrow> GenerateLocalEndpointId rnd s | Some e \<Rightarrow> e)
        in (i, s\<lparr>local_endpoint_id := i\<rparr>))"

definition CancelClearCachedEndpointIdAlarm :: "client_proxy \<Rightarrow> client_proxy" where
  "CancelClearCachedEndpointIdAlarm s = s\<lparr>cached_endpoint_id_alarm := False\<rparr>"

definition ScheduleClearCachedEndpointIdAlarm :: "client_proxy \<Rightarrow> client_proxy" where
  "ScheduleClearCachedEndpointIdAlarm s =
     (let s1 = CancelClearCachedEndpointIdAlarm s in
      if cached_endpoint_id s1 = [] then s1
      else if flag_use_stable_endpoint_id (flags s1) \<and> HasOngoingConnection s1 then s1
      else s1\<lparr>cached_endpoint_id_alarm := True\<rparr>)"

definition ClearCachedLocalEndpointId :: "client_proxy \<Rightarrow> client_proxy" where
  "ClearCachedLocalEndpointId s = s\<lparr>cached_endpoint_id := []\<rparr>"

text \<open>The alarm of the cached endpoint id goes off after 30 seconds.\<close>

definition cached_id_alarm_fires :: "client_proxy \<Rightarrow> client_proxy" where
  "cached_id_alarm_fires s =
     (if cached_endpoint_id_alarm s
      then ClearCachedLocalEndpointId (s\<lparr>cached_endpoint_id_alarm := False\<rparr>) else s)"

definition EnterHighVisibilityMode :: "client_proxy \<Rightarrow> client_proxy" where
  "EnterHighVisibilityMode s = s\<lparr>high_vis_mode := True\<rparr>"

definition ExitHighVisibilityMode :: "client_proxy \<Rightarrow> client_proxy" where
  "ExitHighVisibilityMode s = ScheduleClearCachedEndpointIdAlarm (s\<lparr>high_vis_mode := False\<rparr>)"

definition EnterStableEndpointIdMode :: "client_proxy \<Rightarrow> client_proxy" where
  "EnterStableEndpointIdMode s = s\<lparr>stable_endpoint_id_mode := True\<rparr>"

definition ExitStableEndpointIdMode :: "client_proxy \<Rightarrow> client_proxy" where
  "ExitStableEndpointIdMode s =
     ScheduleClearCachedEndpointIdAlarm (s\<lparr>stable_endpoint_id_mode := False\<rparr>)"

section \<open>Advertising, listening, discovering\<close>

definition IsAdvertising :: "client_proxy \<Rightarrow> bool" where
  "IsAdvertising s \<longleftrightarrow> advertising_service_id s \<noteq> []"

definition OnSessionComplete :: "client_proxy \<Rightarrow> client_proxy" where
  "OnSessionComplete s =
     (if connections s = [] \<and> \<not> IsAdvertising s then s\<lparr>local_endpoint_id := []\<rparr> else s)"

definition StartedAdvertising ::
  "string \<Rightarrow> connection_listener \<Rightarrow> lifecycle_options \<Rightarrow> client_proxy \<Rightarrow> client_proxy" where
  "StartedAdvertising service_id listener options s =
     (let s1 =
        (if flag_use_stable_endpoint_id (flags s)
         then CancelClearCachedEndpointIdAlarm
                (s\<lparr>cached_endpoint_id :=
                     (if stable_endpoint_id_mode s then local_endpoint_id s else [])\<rparr>)
         else if high_vis_mode s
           then CancelClearCachedEndpointIdAlarm (s\<lparr>cached_endpoint_id := local_endpoint_id s\<rparr>)
         else s)
      in s1\<lparr>advertising_service_id := service_id, advertising_listener := listener,
            advertising_options := options\<rparr>)"

definition StoppedAdvertising :: "client_proxy \<Rightarrow> client_proxy" where
  "StoppedAdvertising s =
     (let s1 = OnSessionComplete
            (if IsAdvertising s then s\<lparr>advertising_service_id := [], local_endpoint_info := []\<rparr> else s)
      in if flag_use_stable_endpoint_id (flags s1) then ExitStableEndpointIdMode s1
         else ExitHighVisibilityMode s1)"

definition StartedListeningForIncomingConnections ::
  "string \<Rightarrow> nat \<Rightarrow> lifecycle_options \<Rightarrow> client_proxy \<Rightarrow> client_proxy" where
  "StartedListeningForIncomingConnections service_id listener options s =
     s\<lparr>listening_options := options, listening_service_id := service_id,
       listening_listener := listener\<rparr>"

definition StoppedListeningForIncomingConnections :: "client_proxy \<Rightarrow> client_proxy" where
  "StoppedListeningForIncomingConnections s = s\<lparr>listening_service_id := []\<rparr>"

definition IsListeningForIncomingConnections :: "client_proxy \<Rightarrow> bool" where
  "IsListeningForIncomingConnections s \<longleftrightarrow> listening_service_id s \<noteq> []"

definition GetAdvertisingOrIncomingConnectionListener :: "client_proxy \<Rightarrow> connection_listener" where
  "GetAdvertisingOrIncomingConnectionListener s =
     (if IsListeningForIncomingConnections s then IncomingWrapper else advertising_listener s)"

definition IsDiscovering :: "client_proxy \<Rightarrow> bool" where
  "IsDiscovering s \<longleftrightarrow> discovery_service_id s \<noteq> []"

definition StartedDiscovery :: "string \<Rightarrow> nat \<Rightarrow> client_proxy \<Rightarrow> client_proxy" where
  "StartedDiscovery service_id listener s =
     s\<lparr>discovery_service_id := service_id, discovery_listener := listener\<rparr>"

definition StoppedDiscovery :: "client_proxy \<Rightarrow> client_proxy" where
  "StoppedDiscovery s =
     OnSessionComplete
       (if IsDiscovering s then s\<lparr>discovered_endpoint_ids := [], discovery_service_id := []\<rparr> else s)"

definition IsDiscoveringServiceId :: "string \<Rightarrow> client_proxy \<Rightarrow> bool" where
  "IsDiscoveringServiceId service_id s \<longleftrightarrow>
     IsDiscovering s \<and> service_id = discovery_service_id s"

definition OnEndpointFound :: "string \<Rightarrow> string \<Rightarrow> bytes \<Rightarrow> client_proxy \<Rightarrow> client_proxy" where
  "OnEndpointFound service_id endpoint_id endpoint_info s =
     (if \<not> IsDiscoveringServiceId service_id s then s
      else if endpoint_id \<in> set (discovered_endpoint_ids s) then s
      else notify (CbEndpointFound (discovery_listener s) endpoint_id endpoint_info service_id)
             (s\<lparr>discovered_endpoint_ids := endpoint_id # discovered_endpoint_ids s\<rparr>))"

definition OnEndpointLost :: "string \<Rightarrow> string \<Rightarrow> client_proxy \<Rightarrow> client_proxy" where
  "OnEndpointLost service_id endpoint_id s =
     (if \<not> IsDiscoveringServiceId service_id s then s
      else if endpoint_id \<notin> set (discovered_endpoint_ids s) then s
      else notify (CbEndpointLost (discovery_listener s) endpoint_id)
             (s\<lparr>discovered_endpoint_ids := removeAll endpoint_id (discovered_endpoint_ids s)\<rparr>))"

definition AutoUpgradeBandwidth :: "client_proxy \<Rightarrow> bool" where
  "AutoUpgradeBandwidth s \<longleftrightarrow>
     (IsAdvertising s \<and> (IsNone (opt_strategy (advertising_options s)) \<or>
        opt_auto_upgrade_bandwidth (advertising_options s))) \<or>
     (IsListeningForIncomingConnections s \<and> (IsNone (opt_strategy (listening_options s)) \<or>
        opt_auto_upgrade_bandwidth (listening_options s)))"

definition ShouldEnforceTopologyConstraints :: "client_proxy \<Rightarrow> bool" where
  "ShouldEnforceTopologyConstraints s \<longleftrightarrow>
     (IsAdvertising s \<and> (IsNone (opt_strategy (advertising_options s)) \<or>
        opt_enforce_topology_constraints (advertising_options s))) \<or>
     (IsListeningForIncomingConnections s \<and> (IsNone (opt_strategy (listening_options s)) \<or>
        opt_enforce_topology_constraints (listening_options s)))"

section \<open>Cancellation flags\<close>

text \<open>
  A cancellation flag is its \<open>cancelled_\<close>; its operations do nothing, and it reads as not
  cancelled, when the feature is off.
\<close>

definition set_flag :: "string \<Rightarrow> bool \<Rightarrow> client_proxy \<Rightarrow> client_proxy" where
  "set_flag endpoint_id v s =
     s\<lparr>cancellation_flags :=
        map (\<lambda>(e, b). if e = endpoint_id then (e, v) else (e, b)) (cancellation_flags s)\<rparr>"

definition AddCancellationFlag :: "string \<Rightarrow> client_proxy \<Rightarrow> client_proxy" where
  "AddCancellationFlag endpoint_id s =
     (if \<not> flag_cancellation (flags s) then s
      else case map_of (cancellation_flags s) endpoint_id of
             Some cancelled \<Rightarrow> (if cancelled then set_flag endpoint_id False s else s)
           | None \<Rightarrow>
               s\<lparr>cancellation_flags := cancellation_flags s @ [(endpoint_id, False)]\<rparr>)"

text \<open>Whether the flag \<open>GetCancellationFlag\<close> returns is cancelled; the default flag is.\<close>

definition flag_is_cancelled :: "string \<Rightarrow> client_proxy \<Rightarrow> bool" where
  "flag_is_cancelled endpoint_id s \<longleftrightarrow> flag_cancellation (flags s) \<and>
     (case map_of (cancellation_flags s) endpoint_id of None \<Rightarrow> True | Some b \<Rightarrow> b)"

definition CancelEndpoint :: "string \<Rightarrow> client_proxy \<Rightarrow> client_proxy" where
  "CancelEndpoint endpoint_id s =
     (case map_of (cancellation_flags s) endpoint_id of
        Some _ \<Rightarrow> if flag_cancellation (flags s) then set_flag endpoint_id True s else s
      | None \<Rightarrow> s)"

definition CancelAllEndpoints :: "client_proxy \<Rightarrow> client_proxy" where
  "CancelAllEndpoints s =
     (if flag_cancellation (flags s)
      then s\<lparr>cancellation_flags := map (\<lambda>(e, _). (e, True)) (cancellation_flags s)\<rparr>
      else s)"

section \<open>The life of a connection\<close>

definition new_connection ::
  "bool \<Rightarrow> connection_options \<Rightarrow> connection_listener \<Rightarrow> string \<Rightarrow> connection" where
  "new_connection is_incoming options listener token =
     \<lparr>conn_is_incoming = is_incoming, conn_connected_medium = UNKNOWN_MEDIUM,
      conn_status = kPending, conn_listener = listener, conn_options = options,
      conn_token = token, conn_os_info = None, conn_safe_to_disconnect_version = 0,
      conn_multiplex_bitmask = 0, conn_payload_listener = None\<rparr>"

definition OnConnectionInitiated ::
  "string \<Rightarrow> bool \<Rightarrow> connection_options \<Rightarrow> connection_listener \<Rightarrow> string \<Rightarrow>
   client_proxy \<Rightarrow> client_proxy" where
  "OnConnectionInitiated endpoint_id is_incoming options listener token s =
     (let s1 = (case LookupConnection endpoint_id s of
                  None \<Rightarrow> s\<lparr>connections := connections s @
                            [(endpoint_id, new_connection is_incoming options listener token)]\<rparr>
                | Some _ \<Rightarrow> s);
          l = (case LookupConnection endpoint_id s1 of
                 None \<Rightarrow> listener | Some c \<Rightarrow> conn_listener c);
          s2 = notify (CbInitiated (listener_target s1 l) endpoint_id) s1
      in if is_incoming then AddCancellationFlag endpoint_id s2 else s2)"

definition OnConnectionAccepted :: "string \<Rightarrow> client_proxy \<Rightarrow> client_proxy" where
  "OnConnectionAccepted endpoint_id s =
     (if \<not> HasPendingConnectionToEndpoint endpoint_id s then s
      else case LookupConnection endpoint_id s of
             None \<Rightarrow> s
           | Some c \<Rightarrow>
               write_connection endpoint_id (\<lambda>c. c\<lparr>conn_status := kStatusConnected\<rparr>)
                 (notify (CbAccepted (listener_target s (conn_listener c)) endpoint_id) s))"

definition OnDisconnected :: "string \<Rightarrow> bool \<Rightarrow> client_proxy \<Rightarrow> client_proxy" where
  "OnDisconnected endpoint_id notify_client s =
     (let s1 = (case LookupConnection endpoint_id s of
                  None \<Rightarrow> s
                | Some c \<Rightarrow>
                    let n = (if notify_client
                             then notify (CbDisconnected (listener_target s (conn_listener c))
                                            endpoint_id) s
                             else s)
                    in OnSessionComplete
                         (n\<lparr>connections := filter (\<lambda>(e, _). e \<noteq> endpoint_id) (connections n)\<rparr>));
          s2 = CancelEndpoint endpoint_id s1
      in if flag_use_stable_endpoint_id (flags s2) \<and>
            \<not> stable_endpoint_id_mode s2 \<and> \<not> HasOngoingConnection s2
         then ScheduleClearCachedEndpointIdAlarm s2 else s2)"

definition OnConnectionRejected :: "string \<Rightarrow> nc_status \<Rightarrow> client_proxy \<Rightarrow> client_proxy" where
  "OnConnectionRejected endpoint_id st s =
     (if \<not> HasPendingConnectionToEndpoint endpoint_id s then s
      else case LookupConnection endpoint_id s of
             None \<Rightarrow> s
           | Some c \<Rightarrow>
               OnDisconnected endpoint_id False
                 (notify (CbRejected (listener_target s (conn_listener c)) endpoint_id st) s))"

definition OnBandwidthChanged :: "string \<Rightarrow> Medium \<Rightarrow> client_proxy \<Rightarrow> client_proxy" where
  "OnBandwidthChanged endpoint_id m s =
     (case LookupConnection endpoint_id s of
        None \<Rightarrow> s
      | Some c \<Rightarrow>
          notify (CbBandwidthChanged (listener_target s (conn_listener c)) endpoint_id m)
            (write_connection endpoint_id (\<lambda>c. c\<lparr>conn_connected_medium := m\<rparr>) s))"

definition OnPayload :: "string \<Rightarrow> payload \<Rightarrow> client_proxy \<Rightarrow> client_proxy" where
  "OnPayload endpoint_id payload s =
     (if IsConnectedToEndpoint endpoint_id s
      then (case LookupConnection endpoint_id s of
              None \<Rightarrow> s
            | Some c \<Rightarrow> notify (CbPayload (conn_payload_listener c) endpoint_id payload) s)
      else s)"

definition OnPayloadProgress :: "string \<Rightarrow> payload_progress_info \<Rightarrow> client_proxy \<Rightarrow> client_proxy" where
  "OnPayloadProgress endpoint_id info s =
     (if IsConnectedToEndpoint endpoint_id s
      then (case LookupConnection endpoint_id s of
              None \<Rightarrow> s
            | Some c \<Rightarrow> notify (CbPayloadProgress (conn_payload_listener c) endpoint_id info) s)
      else s)"

definition RemoveAllEndpoints :: "client_proxy \<Rightarrow> client_proxy" where
  "RemoveAllEndpoints s =
     OnSessionComplete (s\<lparr>connections := [], cancellation_flags := [], bluetooth_mac_addresses := []\<rparr>)"

definition ClientProxy_Reset :: "client_proxy \<Rightarrow> client_proxy" where
  "ClientProxy_Reset s =
     (let s1 = RemoveAllEndpoints (StoppedDiscovery (StoppedAdvertising s))
      in if flag_use_stable_endpoint_id (flags s1) then ExitStableEndpointIdMode s1
         else ExitHighVisibilityMode s1)"

section \<open>What is known of the remote endpoint\<close>

definition GetConnectionToken :: "string \<Rightarrow> client_proxy \<Rightarrow> string" where
  "GetConnectionToken endpoint_id s =
     (case LookupConnection endpoint_id s of Some c \<Rightarrow> conn_token c | None \<Rightarrow> [])"

definition GetBluetoothMacAddress :: "string \<Rightarrow> client_proxy \<Rightarrow> bytes option" where
  "GetBluetoothMacAddress endpoint_id s = map_of (bluetooth_mac_addresses s) endpoint_id"

definition SetBluetoothMacAddress :: "string \<Rightarrow> bytes \<Rightarrow> client_proxy \<Rightarrow> client_proxy" where
  "SetBluetoothMacAddress endpoint_id mac s =
     s\<lparr>bluetooth_mac_addresses := (endpoint_id, mac) # bluetooth_mac_addresses s\<rparr>"

definition GetConnectedMedium :: "string \<Rightarrow> client_proxy \<Rightarrow> Medium" where
  "GetConnectedMedium endpoint_id s =
     (case LookupConnection endpoint_id s of
        Some c \<Rightarrow> conn_connected_medium c | None \<Rightarrow> UNKNOWN_MEDIUM)"

definition GetUpgradeMediums :: "string \<Rightarrow> client_proxy \<Rightarrow> Medium list" where
  "GetUpgradeMediums endpoint_id s =
     (case LookupConnection endpoint_id s of
        Some c \<Rightarrow> allowed_mediums (conn_options c) | None \<Rightarrow> [])"

definition Is5GHzSupported :: "string \<Rightarrow> client_proxy \<Rightarrow> bool" where
  "Is5GHzSupported endpoint_id s =
     (case LookupConnection endpoint_id s of
        Some c \<Rightarrow> supports_5_ghz (conn_options c) | None \<Rightarrow> False)"

definition GetBssid :: "string \<Rightarrow> client_proxy \<Rightarrow> string" where
  "GetBssid endpoint_id s =
     (case LookupConnection endpoint_id s of Some c \<Rightarrow> bssid (conn_options c) | None \<Rightarrow> [])"

definition GetApFrequency :: "string \<Rightarrow> client_proxy \<Rightarrow> int" where
  "GetApFrequency endpoint_id s =
     (case LookupConnection endpoint_id s of
        Some c \<Rightarrow> ap_frequency (conn_options c) | None \<Rightarrow> - 1)"

definition GetIPAddress :: "string \<Rightarrow> client_proxy \<Rightarrow> string" where
  "GetIPAddress endpoint_id s =
     (case LookupConnection endpoint_id s of Some c \<Rightarrow> ip_address (conn_options c) | None \<Rightarrow> [])"

definition GetMediumRole :: "string \<Rightarrow> client_proxy \<Rightarrow> nat option" where
  "GetMediumRole endpoint_id s =
     (case LookupConnection endpoint_id s of Some c \<Rightarrow> medium_role (conn_options c) | None \<Rightarrow> None)"

definition GetRemoteOsInfo :: "string \<Rightarrow> client_proxy \<Rightarrow> nat option" where
  "GetRemoteOsInfo endpoint_id s =
     (case LookupConnection endpoint_id s of Some c \<Rightarrow> conn_os_info c | None \<Rightarrow> None)"

definition SetRemoteOsInfo :: "string \<Rightarrow> nat \<Rightarrow> client_proxy \<Rightarrow> client_proxy" where
  "SetRemoteOsInfo endpoint_id os =
     write_connection endpoint_id (\<lambda>c. c\<lparr>conn_os_info := Some os\<rparr>)"

definition GetRemoteSafeToDisconnectVersion :: "string \<Rightarrow> client_proxy \<Rightarrow> int option" where
  "GetRemoteSafeToDisconnectVersion endpoint_id s =
     map_option conn_safe_to_disconnect_version (LookupConnection endpoint_id s)"

definition SetRemoteSafeToDisconnectVersion :: "string \<Rightarrow> int \<Rightarrow> client_proxy \<Rightarrow> client_proxy" where
  "SetRemoteSafeToDisconnectVersion endpoint_id v =
     write_connection endpoint_id (\<lambda>c. c\<lparr>conn_safe_to_disconnect_version := v\<rparr>)"

text \<open>The minimum versions are those of \<open>FeatureFlags\<close>: 1, 3 and 6.\<close>

definition version_at_least :: "int \<Rightarrow> string \<Rightarrow> client_proxy \<Rightarrow> bool" where
  "version_at_least v endpoint_id s =
     (case GetRemoteSafeToDisconnectVersion endpoint_id s of None \<Rightarrow> False | Some r \<Rightarrow> r \<ge> v)"

definition IsSafeToDisconnectEnabled :: "string \<Rightarrow> client_proxy \<Rightarrow> bool" where
  "IsSafeToDisconnectEnabled endpoint_id s \<longleftrightarrow>
     supports_safe_to_disconnect s \<and> version_at_least 1 endpoint_id s"

definition IsAutoReconnectEnabled :: "string \<Rightarrow> client_proxy \<Rightarrow> bool" where
  "IsAutoReconnectEnabled endpoint_id s \<longleftrightarrow>
     support_auto_reconnect s \<and> version_at_least 3 endpoint_id s"

definition IsPayloadReceivedAckEnabled :: "string \<Rightarrow> client_proxy \<Rightarrow> bool" where
  "IsPayloadReceivedAckEnabled endpoint_id s \<longleftrightarrow>
     supports_safe_to_disconnect s \<and> version_at_least 6 endpoint_id s"

definition kBtMultiplexEnabled :: "32 word" where "kBtMultiplexEnabled = push_bit 2 1"
definition kWifiLanMultiplexEnabled :: "32 word" where "kWifiLanMultiplexEnabled = push_bit 3 1"

definition GetLocalMultiplexSocketBitmask :: "client_proxy \<Rightarrow> 32 word" where
  "GetLocalMultiplexSocketBitmask s =
     (if flag_multiplex (flags s)
      then (if flag_multiplex_bluetooth (flags s) then kBtMultiplexEnabled else 0) OR
           (if flag_multiplex_wifi_lan (flags s) then kWifiLanMultiplexEnabled else 0)
      else 0)"

definition SetRemoteMultiplexSocketBitmask ::
  "string \<Rightarrow> 32 word \<Rightarrow> client_proxy \<Rightarrow> client_proxy" where
  "SetRemoteMultiplexSocketBitmask endpoint_id m =
     write_connection endpoint_id (\<lambda>c. c\<lparr>conn_multiplex_bitmask := m\<rparr>)"

definition GetRemoteMultiplexSocketBitmask :: "string \<Rightarrow> client_proxy \<Rightarrow> 32 word option" where
  "GetRemoteMultiplexSocketBitmask endpoint_id s =
     map_option conn_multiplex_bitmask (LookupConnection endpoint_id s)"

definition medium_in_bitmask :: "Medium \<Rightarrow> 32 word \<Rightarrow> bool" where
  "medium_in_bitmask m bitmask =
     (case m of
        BLUETOOTH \<Rightarrow> bitmask AND kBtMultiplexEnabled \<noteq> 0
      | WIFI_LAN \<Rightarrow> bitmask AND kWifiLanMultiplexEnabled \<noteq> 0
      | _ \<Rightarrow> False)"

definition IsLocalMultiplexSocketSupported :: "Medium \<Rightarrow> client_proxy \<Rightarrow> bool" where
  "IsLocalMultiplexSocketSupported m s = medium_in_bitmask m (GetLocalMultiplexSocketBitmask s)"

definition IsMultiplexSocketSupported :: "string \<Rightarrow> Medium \<Rightarrow> client_proxy \<Rightarrow> bool" where
  "IsMultiplexSocketSupported endpoint_id m s =
     (case LookupConnection endpoint_id s of
        None \<Rightarrow> False
      | Some c \<Rightarrow>
          medium_in_bitmask m (GetLocalMultiplexSocketBitmask s AND conn_multiplex_bitmask c))"

section \<open>Every operation as a step\<close>

datatype client_op =
    OpStartedAdvertising string connection_listener lifecycle_options
  | OpStoppedAdvertising
  | OpStartedListening string nat lifecycle_options
  | OpStoppedListening
  | OpStartedDiscovery string nat
  | OpStoppedDiscovery
  | OpEndpointFound string string bytes
  | OpEndpointLost string string
  | OpInitiated string bool connection_options connection_listener string
  | OpAccepted string
  | OpRejected string nc_status
  | OpBandwidthChanged string Medium
  | OpDisconnected string bool
  | OpLocalAccepted string "nat option"
  | OpLocalRejected string
  | OpRemoteAccepted string
  | OpRemoteRejected string
  | OpPayload string payload
  | OpPayloadProgress string payload_progress_info
  | OpGetLocalEndpointId "nat \<Rightarrow> 32 word"
  | OpEnterHighVisibility
  | OpExitHighVisibility
  | OpEnterStable
  | OpExitStable
  | OpAlarm
  | OpClearCached
  | OpAddFlag string
  | OpCancel string
  | OpCancelAll
  | OpSetMac string bytes
  | OpSetOsInfo string nat
  | OpSetVersion string int
  | OpSetMultiplex string "32 word"
  | OpReset

fun proxy_step :: "client_op \<Rightarrow> client_proxy \<Rightarrow> client_proxy" where
  "proxy_step (OpStartedAdvertising i l o1) s = StartedAdvertising i l o1 s"
| "proxy_step OpStoppedAdvertising s = StoppedAdvertising s"
| "proxy_step (OpStartedListening i l o1) s = StartedListeningForIncomingConnections i l o1 s"
| "proxy_step OpStoppedListening s = StoppedListeningForIncomingConnections s"
| "proxy_step (OpStartedDiscovery i l) s = StartedDiscovery i l s"
| "proxy_step OpStoppedDiscovery s = StoppedDiscovery s"
| "proxy_step (OpEndpointFound i e x) s = OnEndpointFound i e x s"
| "proxy_step (OpEndpointLost i e) s = OnEndpointLost i e s"
| "proxy_step (OpInitiated e b o1 l t) s = OnConnectionInitiated e b o1 l t s"
| "proxy_step (OpAccepted e) s = OnConnectionAccepted e s"
| "proxy_step (OpRejected e st) s = OnConnectionRejected e st s"
| "proxy_step (OpBandwidthChanged e m) s = OnBandwidthChanged e m s"
| "proxy_step (OpDisconnected e n) s = OnDisconnected e n s"
| "proxy_step (OpLocalAccepted e p) s = LocalEndpointAcceptedConnection e p s"
| "proxy_step (OpLocalRejected e) s = LocalEndpointRejectedConnection e s"
| "proxy_step (OpRemoteAccepted e) s = RemoteEndpointAcceptedConnection e s"
| "proxy_step (OpRemoteRejected e) s = RemoteEndpointRejectedConnection e s"
| "proxy_step (OpPayload e p) s = OnPayload e p s"
| "proxy_step (OpPayloadProgress e p) s = OnPayloadProgress e p s"
| "proxy_step (OpGetLocalEndpointId rnd) s = snd (GetLocalEndpointId rnd s)"
| "proxy_step OpEnterHighVisibility s = EnterHighVisibilityMode s"
| "proxy_step OpExitHighVisibility s = ExitHighVisibilityMode s"
| "proxy_step OpEnterStable s = EnterStableEndpointIdMode s"
| "proxy_step OpExitStable s = ExitStableEndpointIdMode s"
| "proxy_step OpAlarm s = cached_id_alarm_fires s"
| "proxy_step OpClearCached s = ClearCachedLocalEndpointId s"
| "proxy_step (OpAddFlag e) s = AddCancellationFlag e s"
| "proxy_step (OpCancel e) s = CancelEndpoint e s"
| "proxy_step OpCancelAll s = CancelAllEndpoints s"
| "proxy_step (OpSetMac e m) s = SetBluetoothMacAddress e m s"
| "proxy_step (OpSetOsInfo e i) s = SetRemoteOsInfo e i s"
| "proxy_step (OpSetVersion e v) s = SetRemoteSafeToDisconnectVersion e v s"
| "proxy_step (OpSetMultiplex e m) s = SetRemoteMultiplexSocketBitmask e m s"
| "proxy_step OpReset s = ClientProxy_Reset s"

definition proxy_run :: "client_op list \<Rightarrow> client_proxy \<Rightarrow> client_proxy" where
  "proxy_run ops s = fold proxy_step ops s"

definition default_options :: lifecycle_options where
  "default_options = \<lparr>opt_strategy = StrategyNone, opt_auto_upgrade_bandwidth = True,
     opt_enforce_topology_constraints = True\<rparr>"

definition ClientProxy_new :: "client_flags \<Rightarrow> bool \<Rightarrow> bool \<Rightarrow> bool \<Rightarrow> client_proxy" where
  "ClientProxy_new fl dct safe_to_disconnect auto_reconnect =
     \<lparr>flags = fl, is_dct_enabled = dct, dct_endpoint_id = [], external_endpoint_id = None,
      local_endpoint_id = [], local_endpoint_info = [], high_vis_mode = False,
      stable_endpoint_id_mode = False, cached_endpoint_id = [], cached_endpoint_id_alarm = False,
      advertising_service_id = [], advertising_listener = ClientListener 0,
      advertising_options = default_options, discovery_service_id = [], discovery_listener = 0,
      listening_service_id = [], listening_listener = 0, listening_options = default_options,
      connections = [], bluetooth_mac_addresses = [], discovered_endpoint_ids = [],
      cancellation_flags = [], supports_safe_to_disconnect = safe_to_disconnect,
      support_auto_reconnect = auto_reconnect, client_trace = []\<rparr>"

end
