(* ===== verification/Client_Lemmas.thy ===== *)
theory Client_Lemmas
  imports Client_Proxy
begin

text \<open>
  What the operations of \<open>ClientProxy\<close> keep: the endpoint ids of the connections stay
  distinct, a side's answer to a connection is never both yes and no, and a payload is
  reported only for an endpoint whose acceptance was reported before.
\<close>

unbundle bit_operations_syntax

section \<open>Connections after an operation\<close>

lemma Lookup_write:
  "LookupConnection e (write_connection k f s) =
     (if e = k then map_option f (LookupConnection e s) else LookupConnection e s)"
proof -
  have "map_of (map (\<lambda>(x, c). if x = k then (x, f c) else (x, c)) xs) e =
      (if e = k then map_option f (map_of xs e) else map_of xs e)" for xs
    by (induction xs) auto
  then show ?thesis
    by (simp add: LookupConnection_def write_connection_def)
qed

lemma Lookup_notify [simp]: "LookupConnection e (notify ev s) = LookupConnection e s"
  by (simp add: LookupConnection_def notify_def)

lemma keys_write [simp]: "map fst (connections (write_connection k f s)) = map fst (connections s)"
  by (auto simp: write_connection_def)

lemma write_fields [simp]:
  "client_trace (write_connection k f s) = client_trace s"
  "flags (write_connection k f s) = flags s"
  "discovered_endpoint_ids (write_connection k f s) = discovered_endpoint_ids s"
  "discovery_service_id (write_connection k f s) = discovery_service_id s"
  "advertising_service_id (write_connection k f s) = advertising_service_id s"
  "cancellation_flags (write_connection k f s) = cancellation_flags s"
  by (simp_all add: write_connection_def)

lemma notify_fields [simp]:
  "connections (notify ev s) = connections s"
  "client_trace (notify ev s) = client_trace s @ [ev]"
  "flags (notify ev s) = flags s"
  "discovered_endpoint_ids (notify ev s) = discovered_endpoint_ids s"
  "discovery_service_id (notify ev s) = discovery_service_id s"
  "cancellation_flags (notify ev s) = cancellation_flags s"
  by (simp_all add: notify_def)

text \<open>Operations that touch neither the connections nor the trace nor the discovered ids.\<close>

definition quiet_step :: "client_proxy \<Rightarrow> client_proxy \<Rightarrow> bool" where
  "quiet_step s s' \<longleftrightarrow> connections s' = connections s \<and> client_trace s' = client_trace s \<and>
     discovered_endpoint_ids s' = discovered_endpoint_ids s"

lemma quiet_trans: "quiet_step s t \<Longrightarrow> quiet_step t u \<Longrightarrow> quiet_step s u"
  by (simp add: quiet_step_def)

lemma quiet_Schedule: "quiet_step s (ScheduleClearCachedEndpointIdAlarm s)"
  by (simp add: quiet_step_def ScheduleClearCachedEndpointIdAlarm_def
      CancelClearCachedEndpointIdAlarm_def Let_def)

lemma quiet_Session: "quiet_step s (OnSessionComplete s)"
  by (simp add: quiet_step_def OnSessionComplete_def)

lemma quiet_Exit:
  "quiet_step s (ExitHighVisibilityMode s)" "quiet_step s (ExitStableEndpointIdMode s)"
  using quiet_Schedule [of "s\<lparr>high_vis_mode := False\<rparr>"]
    quiet_Schedule [of "s\<lparr>stable_endpoint_id_mode := False\<rparr>"]
  by (simp_all add: ExitHighVisibilityMode_def ExitStableEndpointIdMode_def quiet_step_def)

lemma quiet_StartedAdvertising: "quiet_step s (StartedAdvertising i l opts s)"
  by (simp add: StartedAdvertising_def quiet_step_def Let_def CancelClearCachedEndpointIdAlarm_def)

lemma quiet_StoppedAdvertising: "quiet_step s (StoppedAdvertising s)"
proof -
  let ?t = "if IsAdvertising s then s\<lparr>advertising_service_id := [], local_endpoint_info := []\<rparr> else s"
  have "quiet_step s ?t"
    by (simp add: quiet_step_def)
  from quiet_trans [OF this quiet_Session] have t: "quiet_step s (OnSessionComplete ?t)" .
  show ?thesis
    unfolding StoppedAdvertising_def Let_def
    using quiet_trans [OF t quiet_Exit(1)] quiet_trans [OF t quiet_Exit(2)] by simp
qed

lemma quiet_flags:
  "quiet_step s (AddCancellationFlag e s)" "quiet_step s (CancelEndpoint e s)"
  "quiet_step s (CancelAllEndpoints s)"
  by (simp_all add: quiet_step_def AddCancellationFlag_def CancelEndpoint_def CancelAllEndpoints_def
      set_flag_def split: option.splits)

lemma quiet_endpoint_id: "quiet_step s (snd (GetLocalEndpointId rnd s))"
  by (simp add: quiet_step_def GetLocalEndpointId_def Let_def)

section \<open>The invariant\<close>

fun payload_of :: "client_event \<Rightarrow> string option" where
  "payload_of (CbPayload _ e _) = Some e"
| "payload_of (CbPayloadProgress _ e _) = Some e"
| "payload_of _ = None"

fun accepted_of :: "client_event \<Rightarrow> string option" where
  "accepted_of (CbAccepted _ e) = Some e"
| "accepted_of _ = None"

definition accepted_in :: "string \<Rightarrow> client_event list \<Rightarrow> bool" where
  "accepted_in e t \<longleftrightarrow> Some e \<in> accepted_of ` set t"

definition payloads_guarded :: "client_event list \<Rightarrow> bool" where
  "payloads_guarded t \<longleftrightarrow>
     (\<forall>i < length t. \<forall>e. payload_of (t ! i) = Some e \<longrightarrow> accepted_in e (take i t))"

lemma payloads_guarded_snoc:
  "payloads_guarded (t @ [ev]) \<longleftrightarrow>
   payloads_guarded t \<and> (\<forall>e. payload_of ev = Some e \<longrightarrow> accepted_in e t)"
proof -
  have "(\<forall>i < Suc (length t). P i) \<longleftrightarrow> (\<forall>i < length t. P i) \<and> P (length t)" for P
    by (auto simp: less_Suc_eq)
  then show ?thesis
    by (simp add: payloads_guarded_def nth_append cong: conj_cong)
qed

lemma accepted_in_append: "accepted_in e t \<Longrightarrow> accepted_in e (t @ u)"
  by (auto simp: accepted_in_def)

definition answers_ok :: "byte \<Rightarrow> bool" where
  "answers_ok st \<longleftrightarrow> \<not> (bit st 0 \<and> bit st 1) \<and> \<not> (bit st 2 \<and> bit st 3)"

definition client_inv :: "client_proxy \<Rightarrow> bool" where
  "client_inv s \<longleftrightarrow> distinct (map fst (connections s)) \<and>
     (\<forall>(e, c) \<in> set (connections s). answers_ok (conn_status c) \<and>
        (bit (conn_status c) 4 \<longrightarrow> accepted_in e (client_trace s))) \<and>
     payloads_guarded (client_trace s)"

lemma client_inv_new: "client_inv (ClientProxy_new fl dct sd ar)"
  by (simp add: client_inv_def ClientProxy_new_def payloads_guarded_def)

lemma client_inv_quiet: "quiet_step s s' \<Longrightarrow> client_inv s \<Longrightarrow> client_inv s'"
  by (simp add: client_inv_def quiet_step_def)

lemma client_inv_fewer:
  assumes "client_inv s" and "client_trace s' = client_trace s"
    and "connections s' = filter P (connections s)"
  shows "client_inv s'"
  using assms by (auto simp: client_inv_def distinct_map_filter)

lemma client_inv_notify:
  "client_inv s \<Longrightarrow> payload_of ev = None \<Longrightarrow> client_inv (notify ev s)"
  by (auto simp: client_inv_def payloads_guarded_snoc intro: accepted_in_append)

lemma client_inv_write:
  assumes inv: "client_inv s"
    and f: "\<And>c. LookupConnection e s = Some c \<Longrightarrow> answers_ok (conn_status (f c)) \<and>
      (bit (conn_status (f c)) 4 \<longrightarrow> accepted_in e (client_trace s))"
  shows "client_inv (write_connection e f s)"
proof -
  have "LookupConnection e s = Some c" if "(e, c) \<in> set (connections s)" for c
    using inv that by (simp add: client_inv_def LookupConnection_def)
  with inv f have "\<forall>(k, c) \<in> set (connections (write_connection e f s)).
      answers_ok (conn_status c) \<and> (bit (conn_status c) 4 \<longrightarrow> accepted_in k (client_trace s))"
    by (auto simp: client_inv_def write_connection_def case_prod_beta split: if_splits)
  with inv show ?thesis
    by (simp only: client_inv_def keys_write write_fields simp_thms)
qed

lemma LookupConnection_inv:
  "client_inv s \<Longrightarrow> LookupConnection e s = Some c \<Longrightarrow>
   answers_ok (conn_status c) \<and> (bit (conn_status c) 4 \<longrightarrow> accepted_in e (client_trace s))"
  by (auto simp: client_inv_def LookupConnection_def dest!: map_of_SomeD)

section \<open>The status bits\<close>

lemma and_status_bit: "w AND push_bit n 1 \<noteq> 0 \<longleftrightarrow> bit (w :: byte) n" if "n < 8"
proof -
  have "push_bit n 1 = (2 :: byte) ^ n"
    by (simp add: push_bit_eq_mult)
  then show ?thesis
    by (simp only: and_exp_eq_0_iff_not_bit) simp
qed

lemma and_or_bits: "w AND (a OR b) \<noteq> 0 \<longleftrightarrow> w AND a \<noteq> 0 \<or> w AND b \<noteq> (0 :: byte)"
  by (simp add: bit.conj_disj_distrib or_eq_0_iff)

lemma status_contains:
  "w AND kLocalEndpointAccepted \<noteq> 0 \<longleftrightarrow> bit w 0"
  "w AND kLocalEndpointRejected \<noteq> 0 \<longleftrightarrow> bit w 1"
  "w AND kRemoteEndpointAccepted \<noteq> 0 \<longleftrightarrow> bit w 2"
  "w AND kRemoteEndpointRejected \<noteq> 0 \<longleftrightarrow> bit w 3"
  "w AND (kLocalEndpointAccepted OR kLocalEndpointRejected) \<noteq> 0 \<longleftrightarrow> bit w 0 \<or> bit w 1"
  "w AND (kRemoteEndpointAccepted OR kRemoteEndpointRejected) \<noteq> 0 \<longleftrightarrow> bit w 2 \<or> bit w 3"
  "w AND (kLocalEndpointRejected OR kRemoteEndpointRejected) \<noteq> 0 \<longleftrightarrow> bit w 1 \<or> bit w 3"
  unfolding and_or_bits status_bits by (simp_all only: and_status_bit)

lemma status_append:
  "bit (w OR kLocalEndpointAccepted) n \<longleftrightarrow> bit w n \<or> n = 0"
  "bit (w OR kLocalEndpointRejected) n \<longleftrightarrow> bit w n \<or> n = 1"
  "bit (w OR kRemoteEndpointAccepted) n \<longleftrightarrow> bit w n \<or> n = 2"
  "bit (w OR kRemoteEndpointRejected) n \<longleftrightarrow> bit w n \<or> n = 3"
  "bit kStatusConnected n \<longleftrightarrow> n = 4"
  "\<not> bit kPending n"
  for w :: byte
proof -
  have b: "bit (push_bit k (1 :: byte)) n \<longleftrightarrow> n = k" if "k < 8" for k
    using that by (auto simp: bit_exp_iff)
  have bs: "bit (push_bit 0 (1 :: byte)) n \<longleftrightarrow> n = 0" "bit (push_bit 1 (1 :: byte)) n \<longleftrightarrow> n = 1"
    "bit (push_bit 2 (1 :: byte)) n \<longleftrightarrow> n = 2" "bit (push_bit 3 (1 :: byte)) n \<longleftrightarrow> n = 3"
    "bit (push_bit 4 (1 :: byte)) n \<longleftrightarrow> n = 4"
    by (rule b, simp)+
  show "bit (w OR kLocalEndpointAccepted) n \<longleftrightarrow> bit w n \<or> n = 0"
    "bit (w OR kLocalEndpointRejected) n \<longleftrightarrow> bit w n \<or> n = 1"
    "bit (w OR kRemoteEndpointAccepted) n \<longleftrightarrow> bit w n \<or> n = 2"
    "bit (w OR kRemoteEndpointRejected) n \<longleftrightarrow> bit w n \<or> n = 3"
    "bit kStatusConnected n \<longleftrightarrow> n = 4"
    unfolding status_bits bit_or_iff bs by simp_all
  show "\<not> bit kPending n"
    by (simp add: kPending_def)
qed

section \<open>Every operation keeps the invariant\<close>

lemma contains_bit:
  "LookupConnection e s = Some c \<Longrightarrow> ConnectionStatusesContains e st s \<longleftrightarrow> conn_status c AND st \<noteq> 0"
  by (simp add: ConnectionStatusesContains_def)

lemma client_inv_append:
  assumes inv: "client_inv s"
    and ok: "\<And>c. LookupConnection e s = Some c \<Longrightarrow> answers_ok (conn_status c OR st)"
    and st: "\<not> bit st 4"
  shows "client_inv (AppendConnectionStatus e st s)"
  unfolding AppendConnectionStatus_def
proof (rule client_inv_write [OF inv])
  fix c assume "LookupConnection e s = Some c"
  then show "answers_ok (conn_status (c\<lparr>conn_status := conn_status c OR st\<rparr>)) \<and>
      (bit (conn_status (c\<lparr>conn_status := conn_status c OR st\<rparr>)) 4 \<longrightarrow>
        accepted_in e (client_trace s))"
    using LookupConnection_inv [OF inv] ok st by (auto simp: bit_or_iff)
qed

lemma no_connected_bit:
  "\<not> bit kLocalEndpointAccepted 4" "\<not> bit kLocalEndpointRejected 4"
  "\<not> bit kRemoteEndpointAccepted 4" "\<not> bit kRemoteEndpointRejected 4"
  using status_append(1-4) [of 0 4] by simp_all

lemma client_inv_same_status:
  "client_inv s \<Longrightarrow> (\<And>c. conn_status (f c) = conn_status c) \<Longrightarrow>
   client_inv (write_connection e f s)"
  by (rule client_inv_write) (use LookupConnection_inv in auto)

lemma client_inv_answers:
  assumes "client_inv s"
  shows "client_inv (LocalEndpointAcceptedConnection e p s)"
    and "client_inv (LocalEndpointRejectedConnection e s)"
    and "client_inv (RemoteEndpointAcceptedConnection e s)"
    and "client_inv (RemoteEndpointRejectedConnection e s)"
proof -
  have la: "client_inv (AppendConnectionStatus e kLocalEndpointAccepted s)"
    if "\<not> HasLocalEndpointResponded e s"
    using that LookupConnection_inv [OF assms]
    by (intro client_inv_append [OF assms])
       (auto simp: HasLocalEndpointResponded_def contains_bit status_contains answers_ok_def
          status_append no_connected_bit)
  have lr: "client_inv (AppendConnectionStatus e kLocalEndpointRejected s)"
    if "\<not> HasLocalEndpointResponded e s"
    using that LookupConnection_inv [OF assms]
    by (intro client_inv_append [OF assms])
       (auto simp: HasLocalEndpointResponded_def contains_bit status_contains answers_ok_def
          status_append no_connected_bit)
  have ra: "client_inv (AppendConnectionStatus e kRemoteEndpointAccepted s)"
    if "\<not> HasRemoteEndpointResponded e s"
    using that LookupConnection_inv [OF assms]
    by (intro client_inv_append [OF assms])
       (auto simp: HasRemoteEndpointResponded_def contains_bit status_contains answers_ok_def
          status_append no_connected_bit)
  have rr: "client_inv (AppendConnectionStatus e kRemoteEndpointRejected s)"
    if "\<not> HasRemoteEndpointResponded e s"
    using that LookupConnection_inv [OF assms]
    by (intro client_inv_append [OF assms])
       (auto simp: HasRemoteEndpointResponded_def contains_bit status_contains answers_ok_def
          status_append no_connected_bit)
  show "client_inv (LocalEndpointAcceptedConnection e p s)"
    using la assms by (simp add: LocalEndpointAcceptedConnection_def client_inv_same_status)
  show "client_inv (LocalEndpointRejectedConnection e s)"
    using lr assms by (simp add: LocalEndpointRejectedConnection_def)
  show "client_inv (RemoteEndpointAcceptedConnection e s)"
    using ra assms by (simp add: RemoteEndpointAcceptedConnection_def)
  show "client_inv (RemoteEndpointRejectedConnection e s)"
    using rr assms by (simp add: RemoteEndpointRejectedConnection_def)
qed

lemma client_inv_Initiated:
  assumes inv: "client_inv s"
  shows "client_inv (OnConnectionInitiated e b opts l tok s)"
proof -
  let ?s1 = "case LookupConnection e s of
      None \<Rightarrow> s\<lparr>connections := connections s @ [(e, new_connection b opts l tok)]\<rparr> | Some _ \<Rightarrow> s"
  have s1: "client_inv ?s1"
  proof (cases "LookupConnection e s")
    case None
    then have "e \<notin> fst ` set (connections s)"
      by (simp add: LookupConnection_def map_of_eq_None_iff)
    with None inv show ?thesis
      by (auto simp: client_inv_def new_connection_def answers_ok_def status_append)
  qed (use inv in simp)
  have "client_inv (notify (CbInitiated t e) ?s1)" for t
    using s1 by (simp add: client_inv_notify)
  then show ?thesis
    unfolding OnConnectionInitiated_def Let_def
    by (simp add: client_inv_quiet [OF quiet_flags(1)])
qed

lemma client_inv_Accepted:
  assumes inv: "client_inv s"
  shows "client_inv (OnConnectionAccepted e s)"
proof -
  have "client_inv (write_connection e (\<lambda>c. c\<lparr>conn_status := kStatusConnected\<rparr>)
      (notify (CbAccepted t e) s))" for t
    using inv
    by (intro client_inv_write client_inv_notify)
       (auto simp: answers_ok_def status_append accepted_in_def)
  with inv show ?thesis
    by (simp add: OnConnectionAccepted_def split: option.splits)
qed

lemma client_inv_Disconnected:
  assumes inv: "client_inv s"
  shows "client_inv (OnDisconnected e b s)"
proof -
  have fewer: "client_inv (n\<lparr>connections := filter P (connections n)\<rparr>)" if "client_inv n" for n P
    using that by (rule client_inv_fewer) simp_all
  have n: "client_inv (notify (CbDisconnected t e) s)" for t
    using inv by (simp add: client_inv_notify)
  have nf: "client_inv (notify (CbDisconnected t e) s\<lparr>connections := filter P (connections s)\<rparr>)"
    for t P
    using fewer [OF n, of P t] by simp
  have q: "client_inv (CancelEndpoint e t)" "client_inv (ScheduleClearCachedEndpointIdAlarm t)"
    "client_inv (OnSessionComplete t)" if "client_inv t" for t
    using that client_inv_quiet quiet_flags(2) quiet_Schedule quiet_Session by blast+
  show ?thesis
    unfolding OnDisconnected_def Let_def
    by (cases "LookupConnection e s"; cases b) (auto intro!: q nf fewer inv)
qed

lemma client_inv_Rejected: "client_inv s \<Longrightarrow> client_inv (OnConnectionRejected e st s)"
  by (auto simp: OnConnectionRejected_def client_inv_notify client_inv_Disconnected
      split: option.splits)

lemma connected_accepted:
  "client_inv s \<Longrightarrow> IsConnectedToEndpoint e s \<Longrightarrow> accepted_in e (client_trace s)"
  by (auto simp: IsConnectedToEndpoint_def ConnectionStatusMatches_def status_append
      split: option.splits dest: LookupConnection_inv)

lemma client_inv_payload:
  assumes "client_inv s" and "accepted_in e (client_trace s)" and "payload_of ev = Some e"
  shows "client_inv (notify ev s)"
  using assms by (auto simp: client_inv_def payloads_guarded_snoc intro: accepted_in_append)

lemma client_inv_Payload:
  "client_inv s \<Longrightarrow> client_inv (OnPayload e p s)"
  "client_inv s \<Longrightarrow> client_inv (OnPayloadProgress e i s)"
  by (auto simp: OnPayload_def OnPayloadProgress_def connected_accepted
      intro!: client_inv_payload split: option.splits)

lemma client_inv_Reset: "client_inv s \<Longrightarrow> client_inv (ClientProxy_Reset s)"
proof -
  assume inv: "client_inv s"
  have sd: "client_inv (StoppedDiscovery t)" if "client_inv t" for t
    using that by (simp add: StoppedDiscovery_def OnSessionComplete_def client_inv_def)
  have ra: "client_inv (RemoveAllEndpoints t)" if "client_inv t" for t
    using that by (simp add: RemoveAllEndpoints_def OnSessionComplete_def client_inv_def)
  have "client_inv (RemoveAllEndpoints (StoppedDiscovery (StoppedAdvertising s)))"
    by (intro ra sd client_inv_quiet [OF quiet_StoppedAdvertising] inv)
  then show ?thesis
    unfolding ClientProxy_Reset_def Let_def
    by (simp add: client_inv_quiet [OF quiet_Exit(1)] client_inv_quiet [OF quiet_Exit(2)])
qed

lemma client_inv_irrelevant:
  "client_inv s \<Longrightarrow> connections s' = connections s \<Longrightarrow> client_trace s' = client_trace s \<Longrightarrow>
   client_inv s'"
  by (simp add: client_inv_def)

lemma client_inv_Found:
  "client_inv s \<Longrightarrow> client_inv (OnEndpointFound i e x s)"
  "client_inv s \<Longrightarrow> client_inv (OnEndpointLost i e s)"
proof -
  assume inv: "client_inv s"
  have "client_inv (s\<lparr>discovered_endpoint_ids := d\<rparr>)" for d
    using inv by (rule client_inv_irrelevant) simp_all
  then show "client_inv (OnEndpointFound i e x s)" and "client_inv (OnEndpointLost i e s)"
    using inv by (auto simp: OnEndpointFound_def OnEndpointLost_def intro!: client_inv_notify)
qed

lemma client_inv_step:
  assumes inv: "client_inv s"
  shows "client_inv (proxy_step op s)"
proof (cases op)
  case (OpBandwidthChanged e m)
  then show ?thesis
    using client_inv_same_status [OF inv, of "\<lambda>c. c\<lparr>conn_connected_medium := m\<rparr>" e] inv
    by (auto simp: OnBandwidthChanged_def intro!: client_inv_notify split: option.splits)
next
  case OpStoppedDiscovery
  then show ?thesis
    using inv by (simp add: StoppedDiscovery_def OnSessionComplete_def client_inv_def)
next
  case OpStoppedAdvertising
  then show ?thesis
    using client_inv_quiet [OF quiet_StoppedAdvertising inv] by simp
qed (use inv in \<open>auto intro: client_inv_quiet [OF quiet_StartedAdvertising]
       client_inv_quiet [OF quiet_flags(1)] client_inv_quiet [OF quiet_flags(2)]
       client_inv_quiet [OF quiet_flags(3)] client_inv_quiet [OF quiet_endpoint_id]
       client_inv_quiet [OF quiet_Exit(1)] client_inv_quiet [OF quiet_Exit(2)]
       client_inv_Initiated client_inv_Accepted client_inv_Rejected client_inv_Disconnected
       client_inv_answers client_inv_Payload client_inv_Reset client_inv_Found
       client_inv_same_status client_inv_irrelevant
       simp: StartedListeningForIncomingConnections_def StoppedListeningForIncomingConnections_def
         StartedDiscovery_def EnterHighVisibilityMode_def EnterStableEndpointIdMode_def
         cached_id_alarm_fires_def ClearCachedLocalEndpointId_def SetBluetoothMacAddress_def
         SetRemoteOsInfo_def SetRemoteSafeToDisconnectVersion_def
         SetRemoteMultiplexSocketBitmask_def\<close>)

lemma client_inv_run: "client_inv s \<Longrightarrow> client_inv (proxy_run ops s)"
  unfolding proxy_run_def by (induction ops arbitrary: s) (simp_all add: client_inv_step)

end
