(* ===== verification/Client_Props.thy ===== *)
theory Client_Props
  imports Client_Lemmas
begin

text \<open>
  The properties of a client's state.
\<close>

unbundle bit_operations_syntax

section \<open>Status queries by bits\<close>

lemma query_bits:
  assumes "LookupConnection e s = Some c"
  shows "HasLocalEndpointResponded e s \<longleftrightarrow> bit (conn_status c) 0 \<or> bit (conn_status c) 1"
    and "HasRemoteEndpointResponded e s \<longleftrightarrow> bit (conn_status c) 2 \<or> bit (conn_status c) 3"
    and "IsConnectionAccepted e s \<longleftrightarrow> bit (conn_status c) 0 \<and> bit (conn_status c) 2"
    and "IsConnectionRejected e s \<longleftrightarrow> bit (conn_status c) 1 \<or> bit (conn_status c) 3"
    and "IsConnectedToEndpoint e s \<longleftrightarrow> conn_status c = kStatusConnected"
    and "HasPendingConnectionToEndpoint e s \<longleftrightarrow> conn_status c \<noteq> kStatusConnected"
  using assms
  by (simp_all add: HasLocalEndpointResponded_def HasRemoteEndpointResponded_def
      IsConnectionAccepted_def IsConnectionRejected_def contains_bit status_contains
      IsConnectedToEndpoint_def ConnectionStatusMatches_def HasPendingConnectionToEndpoint_def)

lemma no_connection:
  "LookupConnection e s = None \<Longrightarrow> \<not> IsConnectionAccepted e s \<and> \<not> IsConnectedToEndpoint e s"
  by (simp add: IsConnectionAccepted_def ConnectionStatusesContains_def IsConnectedToEndpoint_def
      ConnectionStatusMatches_def)

lemma matching_split:
  "length (filter (\<lambda>x. P x \<and> \<not> Q x) xs) + length (filter (\<lambda>x. P x \<and> Q x) xs) = length (filter P xs)"
  by (induction xs) auto

lemma connected_counts:
  "GetNumOutgoingConnections s + GetNumIncomingConnections s = length (GetConnectedEndpoints s)"
  using matching_split [of "\<lambda>x. conn_status (snd x) = kStatusConnected"
      "\<lambda>x. conn_is_incoming (snd x)" "connections s"]
  by (simp add: GetNumOutgoingConnections_def GetNumIncomingConnections_def
      GetConnectedEndpoints_def GetMatchingEndpoints_def case_prod_unfold)

text \<open>
  C25: Whatever operations run on a fresh client, in any order: a connection is never both
  accepted and rejected, each endpoint has at most one connection, the connected endpoints are
  exactly the outgoing and the incoming ones counted together, and every payload or progress
  callback for an endpoint comes after an accepted callback for it.
\<close>

theorem client_acceptance:
  assumes "s = proxy_run ops (ClientProxy_new fl dct sd ar)"
  shows "\<not> (IsConnectionAccepted e s \<and> IsConnectionRejected e s) \<and>
    distinct (map fst (connections s)) \<and>
    GetNumOutgoingConnections s + GetNumIncomingConnections s = length (GetConnectedEndpoints s) \<and>
    (\<forall>pre ev post. client_trace s = pre @ ev # post \<longrightarrow> payload_of ev = Some e \<longrightarrow>
       accepted_in e pre)"
proof -
  have inv: "client_inv s"
    unfolding assms by (rule client_inv_run [OF client_inv_new])
  have "\<not> (IsConnectionAccepted e s \<and> IsConnectionRejected e s)"
    using LookupConnection_inv [OF inv, of e] no_connection [of e s]
    by (cases "LookupConnection e s") (auto simp: query_bits answers_ok_def)
  moreover have "accepted_in e pre" if "client_trace s = pre @ ev # post" "payload_of ev = Some e"
    for pre ev post
  proof -
    have "payloads_guarded (client_trace s)"
      using inv by (simp add: client_inv_def)
    then show ?thesis
      unfolding payloads_guarded_def that(1) using that(2)
      by (auto dest: spec [of _ "length pre"])
  qed
  ultimately show ?thesis
    using inv by (simp add: client_inv_def connected_counts)
qed

definition plain_flags :: client_flags where
  "plain_flags = \<lparr>flag_use_stable_endpoint_id = True, flag_cancellation = True,
     flag_multiplex = False, flag_multiplex_bluetooth = False, flag_multiplex_wifi_lan = False\<rparr>"

definition plain_options :: connection_options where
  "plain_options = \<lparr>allowed_mediums = [BLE], supports_5_ghz = False, bssid = [], ap_frequency = - 1,
     ip_address = [], medium_role = None, keep_alive_interval_millis = 5000,
     keep_alive_timeout_millis = 30000\<rparr>"

definition sample_ops :: "client_op list" where
  "sample_ops = [OpInitiated ''ABCD'' True plain_options (ClientListener 1) ''token'',
     OpLocalAccepted ''ABCD'' (Some 2), OpRemoteAccepted ''ABCD'', OpAccepted ''ABCD'',
     OpPayload ''ABCD'' (bytes_payload 7 [1, 2])]"

lemma sample_trace:
  "client_trace (proxy_run sample_ops (ClientProxy_new plain_flags False False False)) =
    [CbInitiated (ToListener 1) ''ABCD'', CbAccepted (ToListener 1) ''ABCD'',
     CbPayload (Some 2) ''ABCD'' (bytes_payload 7 [1, 2])]"
  by code_simp

theorem client_acceptance_witness:
  "accepted_in ''ABCD'' [CbInitiated (ToListener 1) ''ABCD'', CbAccepted (ToListener 1) ''ABCD'']"
proof -
  let ?s = "proxy_run sample_ops (ClientProxy_new plain_flags False False False)"
  have "client_trace ?s = [CbInitiated (ToListener 1) ''ABCD'', CbAccepted (ToListener 1) ''ABCD''] @
      CbPayload (Some 2) ''ABCD'' (bytes_payload 7 [1, 2]) # []"
    by (simp add: sample_trace)
  with client_acceptance [OF refl, where ops = sample_ops and fl = plain_flags and dct = False and
      sd = False and ar = False and e = "''ABCD''"] show ?thesis
    by (metis payload_of.simps(1))
qed

section \<open>Discovery\<close>

text \<open>The found (True) and lost (False) callbacks about one endpoint, in order.\<close>

fun discovery_events :: "string \<Rightarrow> client_event list \<Rightarrow> bool list" where
  "discovery_events e [] = []"
| "discovery_events e (CbEndpointFound _ k _ _ # t) =
     (if k = e then True # discovery_events e t else discovery_events e t)"
| "discovery_events e (CbEndpointLost _ k # t) =
     (if k = e then False # discovery_events e t else discovery_events e t)"
| "discovery_events e (_ # t) = discovery_events e t"

fun alternates :: "bool \<Rightarrow> bool list \<Rightarrow> bool" where
  "alternates b [] = True"
| "alternates b (x # xs) \<longleftrightarrow> x \<noteq> b \<and> alternates x xs"

lemma discovery_events_append:
  "discovery_events e (t @ u) = discovery_events e t @ discovery_events e u"
  by (induction e t rule: discovery_events.induct) simp_all

lemma alternates_snoc: "alternates b (xs @ [x]) \<longleftrightarrow> alternates b xs \<and> x \<noteq> last (b # xs)"
  by (induction xs arbitrary: b) auto

definition disc_inv :: "string \<Rightarrow> client_proxy \<Rightarrow> bool" where
  "disc_inv e s \<longleftrightarrow> alternates False (discovery_events e (client_trace s)) \<and>
     (e \<in> set (discovered_endpoint_ids s) \<longleftrightarrow> last (False # discovery_events e (client_trace s)))"

text \<open>Steps that report nothing about discovery and keep the discovered ids.\<close>

definition disc_quiet :: "string \<Rightarrow> client_proxy \<Rightarrow> client_proxy \<Rightarrow> bool" where
  "disc_quiet e s s' \<longleftrightarrow>
     discovery_events e (client_trace s') = discovery_events e (client_trace s) \<and>
     discovered_endpoint_ids s' = discovered_endpoint_ids s"

lemma disc_quiet_inv: "disc_quiet e s s' \<Longrightarrow> disc_inv e s \<Longrightarrow> disc_inv e s'"
  by (simp add: disc_quiet_def disc_inv_def)

lemma disc_quiet_step: "quiet_step s s' \<Longrightarrow> disc_quiet e s s'"
  by (simp add: quiet_step_def disc_quiet_def)

lemma disc_quiet_trans: "disc_quiet e s t \<Longrightarrow> disc_quiet e t u \<Longrightarrow> disc_quiet e s u"
  by (simp add: disc_quiet_def)

lemma disc_quiet_basic:
  "disc_quiet e s s" "disc_quiet e s (write_connection k f s)"
  "disc_quiet e s (s\<lparr>connections := cs\<rparr>)"
  "discovery_events e [ev] = [] \<Longrightarrow> disc_quiet e s (notify ev s)"
  by (simp_all add: disc_quiet_def discovery_events_append)

lemma disc_quiet_same:
  "client_trace s' = client_trace s \<Longrightarrow> discovered_endpoint_ids s' = discovered_endpoint_ids s \<Longrightarrow>
   disc_quiet e s s'"
  by (simp add: disc_quiet_def)

lemma disc_quiet_connections:
  "disc_quiet e s (OnConnectionInitiated k b opts l tok s)"
  "disc_quiet e s (OnConnectionAccepted k s)"
  "disc_quiet e s (OnBandwidthChanged k m s)"
  "disc_quiet e s (OnPayload k p s)"
  "disc_quiet e s (OnPayloadProgress k i s)"
  "disc_quiet e s (LocalEndpointAcceptedConnection k pl s)"
  "disc_quiet e s (LocalEndpointRejectedConnection k s)"
  "disc_quiet e s (RemoteEndpointAcceptedConnection k s)"
  "disc_quiet e s (RemoteEndpointRejectedConnection k s)"
  using quiet_flags [unfolded quiet_step_def]
  by (simp_all add: disc_quiet_def OnConnectionInitiated_def OnConnectionAccepted_def
      OnBandwidthChanged_def OnPayload_def OnPayloadProgress_def
      LocalEndpointAcceptedConnection_def LocalEndpointRejectedConnection_def
      RemoteEndpointAcceptedConnection_def RemoteEndpointRejectedConnection_def
      AppendConnectionStatus_def Let_def discovery_events_append split: option.splits)

lemma disc_quiet_Disconnected: "disc_quiet e s (OnDisconnected k b s)"
proof -
  let ?s1 = "case LookupConnection k s of
      None \<Rightarrow> s
    | Some c \<Rightarrow>
        let n = (if b then notify (CbDisconnected (listener_target s (conn_listener c)) k) s else s)
        in OnSessionComplete
             (n\<lparr>connections := filter (\<lambda>(e, _). e \<noteq> k) (connections n)\<rparr>)"
  have s1: "disc_quiet e s ?s1"
    by (auto simp: Let_def disc_quiet_def discovery_events_append OnSessionComplete_def
        split: option.splits)
  have s2: "disc_quiet e s (CancelEndpoint k ?s1)"
    by (rule disc_quiet_trans [OF s1 disc_quiet_step [OF quiet_flags(2)]])
  show ?thesis
    unfolding OnDisconnected_def Let_def [of ?s1] Let_def [of "CancelEndpoint k ?s1"]
    using s2 disc_quiet_trans [OF s2 disc_quiet_step [OF quiet_Schedule]] by simp
qed

lemma disc_quiet_Rejected: "disc_quiet e s (OnConnectionRejected k st s)"
proof -
  have "disc_quiet e s (OnDisconnected k False (notify (CbRejected t k st) s))" for t
    by (rule disc_quiet_trans [OF disc_quiet_basic(4) disc_quiet_Disconnected]) simp
  then show ?thesis
    by (simp add: OnConnectionRejected_def disc_quiet_basic split: option.splits)
qed

fun clears_discovery :: "client_op \<Rightarrow> bool" where
  "clears_discovery OpStoppedDiscovery = True"
| "clears_discovery OpReset = True"
| "clears_discovery _ = False"

lemma disc_inv_Found:
  assumes "disc_inv e s"
  shows "disc_inv e (OnEndpointFound i k x s)" and "disc_inv e (OnEndpointLost i k s)"
  using assms
  by (auto simp: OnEndpointFound_def OnEndpointLost_def disc_inv_def discovery_events_append
      alternates_snoc)

lemma disc_quiet_other:
  assumes "\<not> clears_discovery op" and "\<forall>i k x. op \<noteq> OpEndpointFound i k x"
    and "\<forall>i k. op \<noteq> OpEndpointLost i k"
  shows "disc_quiet e s (proxy_step op s)"
proof (cases op)
  case OpStoppedAdvertising
  then show ?thesis
    using disc_quiet_step [OF quiet_StoppedAdvertising] by simp
qed (use assms in \<open>auto intro: disc_quiet_step quiet_StartedAdvertising quiet_flags
       quiet_endpoint_id quiet_Exit disc_quiet_connections disc_quiet_Disconnected
       disc_quiet_Rejected disc_quiet_basic disc_quiet_same
       simp: StartedListeningForIncomingConnections_def StoppedListeningForIncomingConnections_def
         StartedDiscovery_def EnterHighVisibilityMode_def EnterStableEndpointIdMode_def
         cached_id_alarm_fires_def ClearCachedLocalEndpointId_def SetBluetoothMacAddress_def
         SetRemoteOsInfo_def SetRemoteSafeToDisconnectVersion_def
         SetRemoteMultiplexSocketBitmask_def\<close>)

lemma disc_inv_step:
  assumes "disc_inv e s" and "\<not> clears_discovery op"
  shows "disc_inv e (proxy_step op s)"
proof (cases "(\<forall>i k x. op \<noteq> OpEndpointFound i k x) \<and> (\<forall>i k. op \<noteq> OpEndpointLost i k)")
  case True
  with assms disc_quiet_other disc_quiet_inv show ?thesis by blast
next
  case False
  with assms(1) disc_inv_Found show ?thesis by auto
qed

lemma disc_inv_run: "disc_inv e s \<Longrightarrow> \<not> list_ex clears_discovery ops \<Longrightarrow> disc_inv e (proxy_run ops s)"
  unfolding proxy_run_def by (induction ops arbitrary: s) (simp_all add: disc_inv_step)

text \<open>
  C39: As long as the client does not stop discovering, the found and lost callbacks it gets
  about one endpoint alternate, beginning with a found one, whatever else happens and however
  often the mediums report the endpoint; the endpoint is in the proxy's cache exactly when the
  last callback was a found one.
\<close>

theorem discovery_callbacks_alternate:
  assumes "\<not> list_ex clears_discovery ops"
    and "s = proxy_run ops (ClientProxy_new fl dct sd ar)"
  shows "alternates False (discovery_events e (client_trace s)) \<and>
    (e \<in> set (discovered_endpoint_ids s) \<longleftrightarrow>
       last (False # discovery_events e (client_trace s)))"
proof -
  have "disc_inv e (ClientProxy_new fl dct sd ar)"
    by (simp add: disc_inv_def ClientProxy_new_def)
  from disc_inv_run [OF this assms(1)] show ?thesis
    unfolding assms(2) by (simp add: disc_inv_def)
qed

definition discovery_ops :: "client_op list" where
  "discovery_ops = [OpStartedDiscovery ''svc'' 1, OpEndpointFound ''svc'' ''ABCD'' [1],
     OpEndpointFound ''svc'' ''ABCD'' [1], OpEndpointLost ''svc'' ''ABCD'',
     OpEndpointLost ''svc'' ''ABCD'', OpEndpointFound ''svc'' ''ABCD'' [2]]"

theorem discovery_callbacks_alternate_witness:
  "alternates False (discovery_events ''ABCD''
     (client_trace (proxy_run discovery_ops (ClientProxy_new plain_flags False False False))))"
  using discovery_callbacks_alternate
    [OF _ refl, of discovery_ops "''ABCD''" plain_flags False False False]
  by (simp add: discovery_ops_def)

section \<open>The endpoint id\<close>

lemma generated_id:
  "GenerateLocalEndpointId rnd s \<noteq> []"
  by (simp add: GenerateLocalEndpointId_def kEndpointIdLength_def)

text \<open>
  With stable endpoint ids, a client without connections that stops advertising and
  starts again in stable mode gets the endpoint id it advertised before, unless the 30-second
  alarm went off in between; then it gets a newly drawn one.
\<close>

theorem endpoint_id_stable:
  assumes "flag_use_stable_endpoint_id (flags s)" and "\<not> is_dct_enabled s"
    and "external_endpoint_id s = None" and "connections s = []" and "service_id \<noteq> []"
    and "GetLocalEndpointId rnd (EnterStableEndpointIdMode s) = (i, s1)"
    and "s2 = StoppedAdvertising (StartedAdvertising service_id l opts s1)"
  shows "fst (GetLocalEndpointId rnd' (EnterStableEndpointIdMode s2)) = i \<and>
    cached_endpoint_id_alarm s2 \<and>
    fst (GetLocalEndpointId rnd' (EnterStableEndpointIdMode (cached_id_alarm_fires s2))) =
      map (\<lambda>k. kEndpointIdChars ! (unat (rnd' k) mod 36)) [0..<4]"
proof -
  let ?e = "EnterStableEndpointIdMode s"
  have i: "i \<noteq> []" "s1 = ?e\<lparr>local_endpoint_id := i\<rparr> \<or> s1 = ?e \<and> local_endpoint_id ?e = i"
    using assms(2,3,6) generated_id [of rnd ?e]
    by (auto simp: GetLocalEndpointId_def Let_def EnterStableEndpointIdMode_def split: if_splits)
  then have s1: "s1 = ?e\<lparr>local_endpoint_id := i\<rparr>"
    by auto
  have len: "length kEndpointIdChars = 36"
    by (simp add: kEndpointIdChars_def)
  show ?thesis
    using assms(1-5) i(1)
    by (simp add: assms(7) s1 EnterStableEndpointIdMode_def StartedAdvertising_def
        StoppedAdvertising_def IsAdvertising_def OnSessionComplete_def ExitStableEndpointIdMode_def
        ScheduleClearCachedEndpointIdAlarm_def CancelClearCachedEndpointIdAlarm_def
        HasOngoingConnection_def GetPendingConnectedEndpoints_def GetConnectedEndpoints_def
        GetMatchingEndpoints_def cached_id_alarm_fires_def ClearCachedLocalEndpointId_def
        GetLocalEndpointId_def GenerateLocalEndpointId_def Let_def kEndpointIdLength_def len)
qed

theorem endpoint_id_stable_witness:
  "fst (GetLocalEndpointId (\<lambda>_. 5) (EnterStableEndpointIdMode
     (StoppedAdvertising (StartedAdvertising ''svc'' (ClientListener 1) default_options
        (snd (GetLocalEndpointId (\<lambda>_. 0) (EnterStableEndpointIdMode
           (ClientProxy_new plain_flags False False False)))))))) =
   fst (GetLocalEndpointId (\<lambda>_. 0) (EnterStableEndpointIdMode
           (ClientProxy_new plain_flags False False False)))"
  using endpoint_id_stable [OF _ _ _ _ _ surjective_pairing refl,
      of "ClientProxy_new plain_flags False False False" "''svc''"]
  by (simp add: ClientProxy_new_def plain_flags_def)

end
