(* ===== verification/Channel_Manager.thy ===== *)
theory Channel_Manager
  imports Client_Lemmas
begin

text \<open>
  \<open>EndpointChannelManager\<close> and its \<open>ChannelState\<close>
  (connections/implementation/endpoint_channel_manager.cc): which channel each endpoint
  communicates over, whether it has an encryption context, and the wait for a safe
  disconnection.

  A channel is a record with an identity; what the manager calls on it (\<open>Resume\<close>, \<open>Write\<close> of a
  disconnection frame, \<open>Close\<close>) is returned as a list of events.  \<open>endpoints_\<close> is an
  association list with distinct keys.  The blocking wait is its two halves, before and after
  the condition variable; the second is \<open>None\<close> when the entry it refers to is gone.
\<close>

section \<open>Channels\<close>

datatype DisconnectionReason =
    UNKNOWN_DISCONNECTION_REASON | LOCAL_DISCONNECTION | REMOTE_DISCONNECTION | IO_ERROR
  | UPGRADED | SHUTDOWN | UNFINISHED | PREV_CHANNEL_DISCONNECTION_IN_RECONNECT
  | AUTHENTICATION_FAILURE

record endpoint_channel =
  channel_id :: nat
  channel_name :: string
  channel_medium :: Medium
  channel_encrypted :: bool
  channel_closed :: bool
  channel_can_multiplex :: bool
  channel_multiplex_enabled :: bool

text \<open>\<open>GetType\<close> is the medium's name, with a prefix when the channel is encrypted.\<close>

definition channel_type :: "endpoint_channel \<Rightarrow> Medium \<times> bool" where
  "channel_type c =
     (if channel_medium c = UNKNOWN_MEDIUM then (UNKNOWN_MEDIUM, False)
      else (channel_medium c, channel_encrypted c))"

definition same_channel :: "endpoint_channel \<Rightarrow> endpoint_channel \<Rightarrow> bool" where
  "same_channel a b \<longleftrightarrow> channel_type a = channel_type b \<and> channel_name a = channel_name b \<and>
     channel_medium a = channel_medium b"

datatype channel_event =
    ChResume nat
  | ChWriteDisconnection nat
  | ChClose nat DisconnectionReason

section \<open>The state of the endpoints\<close>

record endpoint_data =
  ep_channel :: "endpoint_channel option"
  ep_has_context :: bool
  ep_disconnect_reason :: DisconnectionReason
  ep_safe_to_disconnect :: bool
  ep_wait_enabled :: bool
  ep_wait_notified :: bool
  ep_is_safe :: bool

type_synonym channel_map = "(string \<times> endpoint_data) list"

definition empty_endpoint_data :: endpoint_data where
  "empty_endpoint_data =
     \<lparr>ep_channel = None, ep_has_context = False,
      ep_disconnect_reason = UNKNOWN_DISCONNECTION_REASON, ep_safe_to_disconnect = False,
      ep_wait_enabled = False, ep_wait_notified = False, ep_is_safe = False\<rparr>"

text \<open>\<open>endpoints_[endpoint_id]\<close> creates an entry when there is none.\<close>

fun update_endpoint ::
  "string \<Rightarrow> (endpoint_data \<Rightarrow> endpoint_data) \<Rightarrow> channel_map \<Rightarrow> channel_map" where
  "update_endpoint e f [] = [(e, f empty_endpoint_data)]"
| "update_endpoint e f ((k, d) # m) =
     (if k = e then (k, f d) # m else (k, d) # update_endpoint e f m)"

definition LookupEndpointData :: "string \<Rightarrow> channel_map \<Rightarrow> endpoint_data option" where
  "LookupEndpointData e m = map_of m e"

definition UpdateChannelForEndpoint :: "string \<Rightarrow> endpoint_channel \<Rightarrow> channel_map \<Rightarrow> channel_map" where
  "UpdateChannelForEndpoint e c = update_endpoint e (\<lambda>d. d\<lparr>ep_channel := Some c\<rparr>)"

definition UpdateEncryptionContextForEndpoint :: "string \<Rightarrow> channel_map \<Rightarrow> channel_map" where
  "UpdateEncryptionContextForEndpoint e = update_endpoint e (\<lambda>d. d\<lparr>ep_has_context := True\<rparr>)"

definition UpdateSafeToDisconnectForEndpoint :: "string \<Rightarrow> bool \<Rightarrow> channel_map \<Rightarrow> channel_map" where
  "UpdateSafeToDisconnectForEndpoint e b = update_endpoint e (\<lambda>d. d\<lparr>ep_safe_to_disconnect := b\<rparr>)"

definition GetSafeToDisconnectForEndpoint :: "string \<Rightarrow> channel_map \<Rightarrow> bool" where
  "GetSafeToDisconnectForEndpoint e m =
     (case LookupEndpointData e m of None \<Rightarrow> False | Some d \<Rightarrow> ep_safe_to_disconnect d)"

definition EncryptChannel :: "endpoint_data \<Rightarrow> endpoint_data \<times> bool" where
  "EncryptChannel d =
     (case ep_channel d of
        Some c \<Rightarrow> if ep_has_context d
                  then (d\<lparr>ep_channel := Some (c\<lparr>channel_encrypted := True\<rparr>)\<rparr>, True)
                  else (d, False)
      | None \<Rightarrow> (d, False))"

definition EncryptChannelForEndpoint :: "string \<Rightarrow> channel_map \<Rightarrow> channel_map \<times> bool" where
  "EncryptChannelForEndpoint e m =
     (let m1 = UpdateEncryptionContextForEndpoint e m
      in (update_endpoint e (fst \<circ> EncryptChannel) m1,
          case LookupEndpointData e m1 of None \<Rightarrow> False | Some d \<Rightarrow> snd (EncryptChannel d)))"

definition GetChannelForEndpoint :: "string \<Rightarrow> channel_map \<Rightarrow> endpoint_channel option" where
  "GetChannelForEndpoint e m =
     (case LookupEndpointData e m of None \<Rightarrow> None | Some d \<Rightarrow> ep_channel d)"

definition EnableMultiplexSocket :: "string \<Rightarrow> channel_map \<Rightarrow> channel_map" where
  "EnableMultiplexSocket e =
     update_endpoint e (\<lambda>d. d\<lparr>ep_channel :=
       map_option (\<lambda>c. if channel_can_multiplex c then c\<lparr>channel_multiplex_enabled := True\<rparr> else c)
         (ep_channel d)\<rparr>)"

section \<open>Registering and replacing channels\<close>

text \<open>\<open>enabled\<close> is what \<open>ClientProxy::IsSafeToDisconnectEnabled\<close> says of the endpoint.\<close>

definition SetActiveEndpointChannel ::
  "bool \<Rightarrow> string \<Rightarrow> endpoint_channel \<Rightarrow> bool \<Rightarrow> channel_map \<Rightarrow> channel_map" where
  "SetActiveEndpointChannel enabled e c enable_encryption m =
     (let m1 = UpdateSafeToDisconnectForEndpoint e enabled (UpdateChannelForEndpoint e c m)
      in case LookupEndpointData e m1 of
           None \<Rightarrow> m1
         | Some d \<Rightarrow> if ep_has_context d \<and> enable_encryption
                     then update_endpoint e (fst \<circ> EncryptChannel) m1 else m1)"

definition RegisterChannelForEndpoint ::
  "bool \<Rightarrow> string \<Rightarrow> endpoint_channel \<Rightarrow> channel_map \<Rightarrow> channel_map" where
  "RegisterChannelForEndpoint enabled e c = SetActiveEndpointChannel enabled e c True"

definition IsWaitingForSafeToDisconnectTimeout :: "string \<Rightarrow> channel_map \<Rightarrow> bool" where
  "IsWaitingForSafeToDisconnectTimeout e m =
     (case LookupEndpointData e m of None \<Rightarrow> False | Some d \<Rightarrow> ep_wait_enabled d)"

definition ReplaceChannelForEndpoint ::
  "bool \<Rightarrow> string \<Rightarrow> endpoint_channel \<Rightarrow> bool \<Rightarrow> channel_map \<Rightarrow> channel_map" where
  "ReplaceChannelForEndpoint enabled e c enable_encryption m =
     (if enabled \<and> IsWaitingForSafeToDisconnectTimeout e m then m
      else SetActiveEndpointChannel enabled e c enable_encryption m)"

definition GetConnectedEndpointsCount :: "channel_map \<Rightarrow> nat" where
  "GetConnectedEndpointsCount m = length m"

definition isWifiLanConnected :: "channel_map \<Rightarrow> bool" where
  "isWifiLanConnected m =
     list_ex (\<lambda>(e, d). case ep_channel d of None \<Rightarrow> False | Some c \<Rightarrow> channel_medium c = WIFI_LAN) m"

section \<open>Safe disconnection\<close>

definition MarkEndpointStopWaitToDisconnect ::
  "string \<Rightarrow> bool \<Rightarrow> bool \<Rightarrow> channel_map \<Rightarrow> channel_map" where
  "MarkEndpointStopWaitToDisconnect e is_safe notify_stop_waiting m =
     (if LookupEndpointData e m = None then m
      else update_endpoint e (\<lambda>d.
        let d1 = d\<lparr>ep_is_safe := is_safe\<rparr>
        in if \<not> ep_wait_enabled d1 then d1
           else if notify_stop_waiting then d1\<lparr>ep_wait_notified := True\<rparr> else d1) m)"

text \<open>\<open>CreateNewTimeoutDisconnectedState\<close> up to the wait, and after it.\<close>

definition TimeoutDisconnected_begin :: "string \<Rightarrow> channel_map \<Rightarrow> channel_map \<times> bool" where
  "TimeoutDisconnected_begin e m =
     (if LookupEndpointData e m = None then (m, False)
      else (update_endpoint e (\<lambda>d. d\<lparr>ep_wait_enabled := True, ep_wait_notified := False\<rparr>) m, True))"

definition TimeoutDisconnected_end :: "string \<Rightarrow> channel_map \<Rightarrow> channel_map option" where
  "TimeoutDisconnected_end e m =
     (if LookupEndpointData e m = None then None
      else Some (update_endpoint e (\<lambda>d.
        let d1 = (if \<not> ep_wait_notified d then d\<lparr>ep_is_safe := True\<rparr> else d)
        in d1\<lparr>ep_wait_notified := False, ep_wait_enabled := False\<rparr>) m))"

definition IsSafeToDisconnect :: "string \<Rightarrow> channel_map \<Rightarrow> bool" where
  "IsSafeToDisconnect e m =
     (case LookupEndpointData e m of None \<Rightarrow> True | Some d \<Rightarrow> ep_is_safe d)"

definition RemoveTimeoutDisconnectedState :: "string \<Rightarrow> channel_map \<Rightarrow> channel_map" where
  "RemoveTimeoutDisconnectedState e m =
     (if LookupEndpointData e m = None then m
      else update_endpoint e (\<lambda>d. d\<lparr>ep_wait_notified := False, ep_wait_enabled := False\<rparr>) m)"

section \<open>Removing an endpoint\<close>

text \<open>The destructor of the entry closes the channel with the recorded reason.\<close>

definition RemoveEndpoint ::
  "string \<Rightarrow> DisconnectionReason \<Rightarrow> bool \<Rightarrow> channel_map \<Rightarrow> channel_map \<times> channel_event list \<times> bool" where
  "RemoveEndpoint e reason safe_to_disconnect_enabled m =
     (case LookupEndpointData e m of
        None \<Rightarrow> (m, [], False)
      | Some d \<Rightarrow>
          (filter (\<lambda>(k, _). k \<noteq> e) m,
           (case ep_channel d of
              None \<Rightarrow> []
            | Some c \<Rightarrow>
                (if \<not> channel_closed c \<and> \<not> safe_to_disconnect_enabled
                 then [ChResume (channel_id c), ChWriteDisconnection (channel_id c)] else []) @
                [ChClose (channel_id c) reason]),
           True))"

definition UnregisterChannelForEndpoint ::
  "string \<Rightarrow> DisconnectionReason \<Rightarrow> channel_map \<Rightarrow> channel_map \<times> channel_event list \<times> bool" where
  "UnregisterChannelForEndpoint e reason m =
     RemoveEndpoint e reason (GetSafeToDisconnectForEndpoint e m) m"

text \<open>
  \<open>DestroyAll\<close> erases the element its loop stands at; this is the run in which the loop still
  goes on to the next element.
\<close>

definition DestroyAll :: "channel_map \<Rightarrow> channel_map \<times> channel_event list" where
  "DestroyAll m =
     (case fold (\<lambda>(e, _) (m', evs).
              case RemoveEndpoint e SHUTDOWN False m' of (m'', evs', _) \<Rightarrow> (m'', evs @ evs')) m (m, [])
      of (m', evs) \<Rightarrow> ([], evs))"

section \<open>Lemmas\<close>

lemma map_of_update_endpoint:
  "map_of (update_endpoint e f m) k =
     (if k = e then Some (f (case map_of m e of None \<Rightarrow> empty_endpoint_data | Some d \<Rightarrow> d))
      else map_of m k)"
  by (induction e f m rule: update_endpoint.induct) auto

lemma map_of_removed: "map_of (filter (\<lambda>(k, _). k \<noteq> e) xs) k' = (if k' = e then None else map_of xs k')"
  by (induction xs) auto

lemma keys_update_endpoint:
  "distinct (map fst m) \<Longrightarrow> distinct (map fst (update_endpoint e f m)) \<and>
   set (map fst (update_endpoint e f m)) = insert e (set (map fst m))"
  by (induction e f m rule: update_endpoint.induct) auto

lemmas channel_map_defs =
  LookupEndpointData_def UpdateChannelForEndpoint_def UpdateEncryptionContextForEndpoint_def
  UpdateSafeToDisconnectForEndpoint_def GetSafeToDisconnectForEndpoint_def
  GetChannelForEndpoint_def SetActiveEndpointChannel_def map_of_update_endpoint

lemma GetChannel_Update [simp]:
  "GetChannelForEndpoint k (UpdateSafeToDisconnectForEndpoint e b m) = GetChannelForEndpoint k m"
  by (auto simp: channel_map_defs empty_endpoint_data_def split: option.splits)

lemma EncryptChannelForEndpoint_ok:
  assumes "GetChannelForEndpoint e m = Some ch"
  shows "\<exists>m'. EncryptChannelForEndpoint e m = (m', True) \<and>
    GetChannelForEndpoint e m' = Some (ch\<lparr>channel_encrypted := True\<rparr>)"
  using assms
  by (auto simp: EncryptChannelForEndpoint_def channel_map_defs Let_def EncryptChannel_def
      split: option.splits)

lemma Enable_encrypted:
  "GetChannelForEndpoint e m = Some ch \<Longrightarrow>
   \<exists>ch'. GetChannelForEndpoint e (EnableMultiplexSocket e m) = Some ch' \<and>
     channel_encrypted ch' = channel_encrypted ch"
  by (cases "channel_can_multiplex ch")
     (auto simp: EnableMultiplexSocket_def channel_map_defs split: option.splits)

text \<open>The channel that is set, and how it is encrypted.\<close>

lemma SetActive_channel:
  "GetChannelForEndpoint k (SetActiveEndpointChannel b e c enc m) =
     (if k = e
      then Some (if enc \<and> (case LookupEndpointData e m of None \<Rightarrow> False | Some d \<Rightarrow> ep_has_context d)
                 then c\<lparr>channel_encrypted := True\<rparr> else c)
      else GetChannelForEndpoint k m)"
  by (auto simp: channel_map_defs Let_def EncryptChannel_def empty_endpoint_data_def
      split: option.splits)

lemma SetActive_context:
  "(case LookupEndpointData k (SetActiveEndpointChannel b e c enc m) of
      None \<Rightarrow> False | Some d \<Rightarrow> ep_has_context d) =
   (case LookupEndpointData k m of None \<Rightarrow> False | Some d \<Rightarrow> ep_has_context d)"
  by (auto simp: channel_map_defs Let_def EncryptChannel_def empty_endpoint_data_def
      split: option.splits)

end
