(* ===== verification/Channel_Props.thy ===== *)
theory Channel_Props
  imports Channel_Manager
begin

text \<open>
  The properties of \<open>EndpointChannelManager\<close>: an encrypted endpoint never falls back to an
  unencrypted channel, and what the wait for a safe disconnection leaves behind.
\<close>

section \<open>Encryption survives the replacement of channels\<close>

datatype channel_op =
    ChanRegister bool string endpoint_channel
  | ChanReplace bool string endpoint_channel bool
  | ChanEncrypt string
  | ChanMultiplex string
  | ChanSafe string bool
  | ChanMark string bool bool
  | ChanWait string
  | ChanWaitDone string
  | ChanRemoveWait string
  | ChanUnregister string DisconnectionReason

text \<open>A wait that comes back to an entry that is gone has no further effect on the map.\<close>

fun channel_step :: "channel_op \<Rightarrow> channel_map \<Rightarrow> channel_map" where
  "channel_step (ChanRegister b e c) m = RegisterChannelForEndpoint b e c m"
| "channel_step (ChanReplace b e c enc) m = ReplaceChannelForEndpoint b e c enc m"
| "channel_step (ChanEncrypt e) m = fst (EncryptChannelForEndpoint e m)"
| "channel_step (ChanMultiplex e) m =
     (if GetChannelForEndpoint e m = None then m else EnableMultiplexSocket e m)"
| "channel_step (ChanSafe e b) m = UpdateSafeToDisconnectForEndpoint e b m"
| "channel_step (ChanMark e b n) m = MarkEndpointStopWaitToDisconnect e b n m"
| "channel_step (ChanWait e) m = fst (TimeoutDisconnected_begin e m)"
| "channel_step (ChanWaitDone e) m = (case TimeoutDisconnected_end e m of None \<Rightarrow> m | Some m' \<Rightarrow> m')"
| "channel_step (ChanRemoveWait e) m = RemoveTimeoutDisconnectedState e m"
| "channel_step (ChanUnregister e r) m = fst (UnregisterChannelForEndpoint e r m)"

text \<open>The steps that could take the encryption of \<open>e\<close> away.\<close>

fun keeps_encryption :: "string \<Rightarrow> channel_op \<Rightarrow> bool" where
  "keeps_encryption e (ChanReplace b e' c enc) = (e' \<noteq> e \<or> enc)"
| "keeps_encryption e (ChanUnregister e' r) = (e' \<noteq> e)"
| "keeps_encryption e _ = True"

definition encrypted :: "endpoint_data \<Rightarrow> bool" where
  "encrypted d \<longleftrightarrow> ep_has_context d \<and>
     (case ep_channel d of None \<Rightarrow> False | Some c \<Rightarrow> channel_encrypted c)"

definition endpoint_encrypted :: "string \<Rightarrow> channel_map \<Rightarrow> bool" where
  "endpoint_encrypted e m \<longleftrightarrow> (case LookupEndpointData e m of None \<Rightarrow> False | Some d \<Rightarrow> encrypted d)"

lemma endpoint_encrypted_channel:
  "endpoint_encrypted e m \<Longrightarrow>
   \<exists>c. GetChannelForEndpoint e m = Some c \<and> channel_encrypted c"
  by (auto simp: endpoint_encrypted_def encrypted_def GetChannelForEndpoint_def split: option.splits)

lemma encrypted_update:
  assumes "\<And>d. encrypted d \<Longrightarrow> encrypted (f d)" and "endpoint_encrypted e m"
  shows "endpoint_encrypted e (update_endpoint k f m)"
  using assms by (auto simp: endpoint_encrypted_def LookupEndpointData_def map_of_update_endpoint
      split: option.splits)

lemma encrypted_SetActive:
  assumes "endpoint_encrypted e m" and "k \<noteq> e \<or> enc"
  shows "endpoint_encrypted e (SetActiveEndpointChannel b k c enc m)"
proof -
  have ctx: "(case LookupEndpointData e m of None \<Rightarrow> False | Some d \<Rightarrow> ep_has_context d)"
    using assms(1) by (auto simp: endpoint_encrypted_def encrypted_def split: option.splits)
  have "\<exists>c'. GetChannelForEndpoint e (SetActiveEndpointChannel b k c enc m) = Some c' \<and> channel_encrypted c'"
    using SetActive_channel [of e b k c enc m] ctx assms endpoint_encrypted_channel [OF assms(1)]
    by auto
  then show ?thesis
    using SetActive_context [of e b k c enc m] ctx
    by (auto simp: endpoint_encrypted_def encrypted_def GetChannelForEndpoint_def split: option.splits)
qed

lemma encrypted_step:
  assumes "endpoint_encrypted e m" and "keeps_encryption e a"
  shows "endpoint_encrypted e (channel_step a m)"
proof (cases a)
  case (ChanRegister b k c)
  with assms show ?thesis
    by (simp add: RegisterChannelForEndpoint_def encrypted_SetActive)
next
  case (ChanReplace b k c enc)
  with assms show ?thesis
    by (simp add: ReplaceChannelForEndpoint_def encrypted_SetActive)
next
  case (ChanEncrypt k)
  have "endpoint_encrypted e (update_endpoint k (fst \<circ> EncryptChannel)
      (update_endpoint k (\<lambda>d. d\<lparr>ep_has_context := True\<rparr>) m))"
    by (intro encrypted_update assms(1))
      (auto simp: encrypted_def EncryptChannel_def split: option.splits)
  with ChanEncrypt show ?thesis
    by (simp add: EncryptChannelForEndpoint_def Let_def UpdateEncryptionContextForEndpoint_def)
next
  case (ChanMultiplex k)
  have "endpoint_encrypted e (EnableMultiplexSocket k m)"
    unfolding EnableMultiplexSocket_def
    by (intro encrypted_update assms(1)) (auto simp: encrypted_def split: option.splits)
  with ChanMultiplex assms(1) show ?thesis by simp
next
  case (ChanSafe k b)
  then show ?thesis
    unfolding channel_step.simps ChanSafe UpdateSafeToDisconnectForEndpoint_def
    by (intro encrypted_update assms(1)) (auto simp: encrypted_def)
next
  case (ChanMark k b n)
  have "endpoint_encrypted e (update_endpoint k (\<lambda>d.
      let d1 = d\<lparr>ep_is_safe := b\<rparr>
      in if \<not> ep_wait_enabled d1 then d1
         else if n then d1\<lparr>ep_wait_notified := True\<rparr> else d1) m)"
    by (intro encrypted_update assms(1)) (auto simp: encrypted_def Let_def)
  with ChanMark assms(1) show ?thesis by (simp add: MarkEndpointStopWaitToDisconnect_def)
next
  case (ChanWait k)
  have "endpoint_encrypted e (update_endpoint k
      (\<lambda>d. d\<lparr>ep_wait_enabled := True, ep_wait_notified := False\<rparr>) m)"
    by (intro encrypted_update assms(1)) (auto simp: encrypted_def)
  with ChanWait assms(1) show ?thesis by (simp add: TimeoutDisconnected_begin_def)
next
  case (ChanWaitDone k)
  have "endpoint_encrypted e (update_endpoint k (\<lambda>d.
      let d1 = (if \<not> ep_wait_notified d then d\<lparr>ep_is_safe := True\<rparr> else d)
      in d1\<lparr>ep_wait_notified := False, ep_wait_enabled := False\<rparr>) m)"
    by (intro encrypted_update assms(1)) (auto simp: encrypted_def Let_def)
  with ChanWaitDone assms(1) show ?thesis by (simp add: TimeoutDisconnected_end_def)
next
  case (ChanRemoveWait k)
  have "endpoint_encrypted e (update_endpoint k
      (\<lambda>d. d\<lparr>ep_wait_notified := False, ep_wait_enabled := False\<rparr>) m)"
    by (intro encrypted_update assms(1)) (auto simp: encrypted_def)
  with ChanRemoveWait assms(1) show ?thesis by (simp add: RemoveTimeoutDisconnectedState_def)
next
  case (ChanUnregister k r)
  with assms show ?thesis
    by (auto simp: UnregisterChannelForEndpoint_def RemoveEndpoint_def endpoint_encrypted_def
        LookupEndpointData_def map_of_removed split: option.splits)
qed

text \<open>
  C27: Once the channel of an endpoint is encrypted it stays so: whatever happens afterwards
  to the channels of all endpoints (registrations, replacements during bandwidth upgrades,
  multiplexing, waits for a safe disconnection, removals of others), as long as the endpoint is
  not removed and no replacement of its channel asks for no encryption, it has a channel and that
  channel is encrypted.
\<close>

theorem encryption_survives:
  assumes "GetChannelForEndpoint e m = Some c" and "list_all (keeps_encryption e) ops"
  shows "\<exists>c'. GetChannelForEndpoint e
      (fold channel_step ops (fst (EncryptChannelForEndpoint e m))) = Some c' \<and> channel_encrypted c'"
proof -
  have "endpoint_encrypted e (fst (EncryptChannelForEndpoint e m))"
    using assms(1)
    by (auto simp: endpoint_encrypted_def encrypted_def EncryptChannelForEndpoint_def
        channel_map_defs Let_def EncryptChannel_def split: option.splits)
  then have "endpoint_encrypted e (fold channel_step ops (fst (EncryptChannelForEndpoint e m)))"
    using assms(2)
  proof (induction ops arbitrary: m rule: rev_induct)
    case (snoc a ops)
    then show ?case by (simp add: encrypted_step)
  qed simp
  then show ?thesis
    by (rule endpoint_encrypted_channel)
qed

definition sample_channel :: "nat \<Rightarrow> Medium \<Rightarrow> endpoint_channel" where
  "sample_channel n medium =
     \<lparr>channel_id = n, channel_name = ''ch'', channel_medium = medium, channel_encrypted = False,
      channel_closed = False, channel_can_multiplex = False, channel_multiplex_enabled = False\<rparr>"

definition upgrade_ops :: "channel_op list" where
  "upgrade_ops =
     [ChanReplace True ''ABCD'' (sample_channel 2 WIFI_LAN) True, ChanWait ''ABCD'',
      ChanReplace True ''ABCD'' (sample_channel 3 WIFI_DIRECT) True,
      ChanRegister True ''WXYZ'' (sample_channel 4 BLE), ChanUnregister ''WXYZ'' IO_ERROR]"

theorem encryption_survives_witness:
  "\<exists>c'. GetChannelForEndpoint ''ABCD'' (fold channel_step upgrade_ops
      (fst (EncryptChannelForEndpoint ''ABCD''
        (RegisterChannelForEndpoint True ''ABCD'' (sample_channel 1 BLE) [])))) = Some c' \<and>
    channel_encrypted c'"
proof (rule encryption_survives)
  show "GetChannelForEndpoint ''ABCD''
      (RegisterChannelForEndpoint True ''ABCD'' (sample_channel 1 BLE) []) = Some (sample_channel 1 BLE)"
    by (simp add: RegisterChannelForEndpoint_def SetActive_channel LookupEndpointData_def)
qed (simp add: upgrade_ops_def)

section \<open>Waiting for a safe disconnection\<close>

text \<open>
  The wait for a safe disconnection, in its two halves around the condition variable.  While it
  lasts, no channel of the endpoint is replaced; a notification decides by its flag whether
  the disconnection is safe; with no notification the timeout makes it safe, even after an
  unnotified report that it is not.  If the endpoint is removed while the wait lasts, the
  second half finds the entry it refers to gone.
\<close>

theorem safe_disconnect_wait:
  assumes "LookupEndpointData e m = Some d" and "TimeoutDisconnected_begin e m = (w, ok)"
  shows "ok \<and> ReplaceChannelForEndpoint True e c enc w = w \<and>
    map_option (IsSafeToDisconnect e)
      (TimeoutDisconnected_end e (MarkEndpointStopWaitToDisconnect e safe True w)) = Some safe \<and>
    map_option (IsSafeToDisconnect e)
      (TimeoutDisconnected_end e (MarkEndpointStopWaitToDisconnect e safe False w)) = Some True \<and>
    TimeoutDisconnected_end e (fst (UnregisterChannelForEndpoint e reason w)) = None"
proof -
  have w: "w = update_endpoint e (\<lambda>d. d\<lparr>ep_wait_enabled := True, ep_wait_notified := False\<rparr>) m" "ok"
    using assms by (simp_all add: TimeoutDisconnected_begin_def)
  have l: "LookupEndpointData e w = Some (d\<lparr>ep_wait_enabled := True, ep_wait_notified := False\<rparr>)"
    using assms(1) by (simp add: w LookupEndpointData_def map_of_update_endpoint)
  then show ?thesis
    by (simp add: w(2) ReplaceChannelForEndpoint_def IsWaitingForSafeToDisconnectTimeout_def
        TimeoutDisconnected_end_def MarkEndpointStopWaitToDisconnect_def IsSafeToDisconnect_def
        UnregisterChannelForEndpoint_def RemoveEndpoint_def LookupEndpointData_def
        map_of_update_endpoint map_of_removed Let_def)
qed

theorem safe_disconnect_wait_witness:
  "TimeoutDisconnected_end ''ABCD'' (fst (UnregisterChannelForEndpoint ''ABCD'' IO_ERROR
     (fst (TimeoutDisconnected_begin ''ABCD''
        (RegisterChannelForEndpoint True ''ABCD'' (sample_channel 1 BLE) []))))) = None"
proof -
  have "\<exists>d. LookupEndpointData ''ABCD''
      (RegisterChannelForEndpoint True ''ABCD'' (sample_channel 1 BLE) []) = Some d"
    by (simp add: RegisterChannelForEndpoint_def channel_map_defs Let_def empty_endpoint_data_def)
  then show ?thesis
    using safe_disconnect_wait [where e = "''ABCD''" and reason = IO_ERROR]
    by (metis prod.collapse)
qed

end
