(* ===== verification/Pcp_State.thy ===== *)
theory Pcp_State
  imports Channel_Manager
begin

text \<open>
  The state of \<open>BasePcpHandler\<close> (connections/implementation/base_pcp_handler.h) and the small
  steps its operations share.

  The handler runs every operation as a task of one thread, so a task is a function on this
  state.  What it asks of other components (frames written to channels, channels closed, the
  encryption runner started, the endpoint manager and the bandwidth upgrade manager called) is
  recorded in \<open>pcp_actions\<close>; the futures that callers wait for are \<open>pcp_results\<close>, where the
  first value that is set stays.  \<open>pcp_crashed\<close> marks a failed \<open>CHECK\<close> or a null pointer that
  is followed.
\<close>

section \<open>Data\<close>

datatype web_rtc_state = kUndefined | kConnectable | kUnconnectable

text \<open>\<open>de_object\<close> is the identity of the object; the multimap holds shared pointers.\<close>

record discovered_endpoint =
  de_object :: nat
  de_endpoint_id :: string
  de_endpoint_info :: bytes
  de_service_id :: string
  de_medium :: Medium
  de_web_rtc_state :: web_rtc_state

text \<open>
  The UKEY2 handshake of a pending connection is what its verification will return;
  \<open>pending_ukey2\<close> is \<open>None\<close> until the handshake is done.  The channel moves to the channel
  manager when the endpoint is registered.
\<close>

record pending_connection =
  pending_is_incoming :: bool
  pending_nonce :: int
  pending_endpoint_info :: bytes
  pending_listener :: connection_listener
  pending_options :: connection_options
  pending_result :: "nat option"
  pending_supported_mediums :: "Medium list"
  pending_channel :: "endpoint_channel option"
  pending_ukey2 :: "bool option"
  pending_token :: string

text \<open>What a connection request says of the device that sends it.\<close>

record connection_info =
  info_local_endpoint_id :: string
  info_local_endpoint_info :: bytes
  info_nonce :: int
  info_supports_5_ghz :: bool
  info_bssid :: string
  info_ap_frequency :: int
  info_ip_address :: string
  info_supported_mediums :: "Medium list"
  info_keep_alive_interval_millis :: int
  info_keep_alive_timeout_millis :: int
  info_medium_role :: "nat option"

datatype pcp_action =
    WroteConnectionRequest string connection_info
  | WroteConnectionResponse string nc_status
  | CloseChannel nat
  | ChannelEvent channel_event
  | StartEncryptionClient string "nat option"
  | StartEncryptionServer string "nat option"
  | DiscardEndpoint string DisconnectionReason
  | InitiateBwuForEndpoint string

text \<open>
  \<open>discovered_endpoints\<close> is the multimap; entries with one key keep the order of insertion.
  \<open>em_endpoints\<close> are the endpoints for which the endpoint manager runs its workers.
\<close>

record pcp_state =
  pcp_client :: client_proxy
  pending_connections :: "(string \<times> pending_connection) list"
  discovered_endpoints :: "discovered_endpoint list"
  endpoint_lost_by_medium_alarms :: "((string \<times> Medium) \<times> nat) list"
  pcp_channels :: channel_map
  em_endpoints :: "string list"
  pending_alarms :: "string list"
  web_rtc_non_cellular :: bool
  pcp_results :: "(nat \<times> nc_status) list"
  pcp_actions :: "pcp_action list"
  pcp_crashed :: bool

definition BasePcpHandler :: "client_proxy \<Rightarrow> pcp_state" where
  "BasePcpHandler client =
     \<lparr>pcp_client = client, pending_connections = [], discovered_endpoints = [],
      endpoint_lost_by_medium_alarms = [], pcp_channels = [],
      em_endpoints = [], pending_alarms = [],
      web_rtc_non_cellular = False, pcp_results = [], pcp_actions = [], pcp_crashed = False\<rparr>"

section \<open>Small steps\<close>

definition act :: "pcp_action \<Rightarrow> pcp_state \<Rightarrow> pcp_state" where
  "act a s = s\<lparr>pcp_actions := pcp_actions s @ [a]\<rparr>"

definition on_client :: "(client_proxy \<Rightarrow> client_proxy) \<Rightarrow> pcp_state \<Rightarrow> pcp_state" where
  "on_client f s = s\<lparr>pcp_client := f (pcp_client s)\<rparr>"

definition pcp_crash :: "pcp_state \<Rightarrow> pcp_state" where
  "pcp_crash s = s\<lparr>pcp_crashed := True\<rparr>"

text \<open>\<open>Future::Set\<close>; a pending connection without a future has nobody waiting.\<close>

definition set_result :: "nat option \<Rightarrow> nc_status \<Rightarrow> pcp_state \<Rightarrow> pcp_state" where
  "set_result r st s =
     (case r of
        None \<Rightarrow> s
      | Some i \<Rightarrow> if map_of (pcp_results s) i = None
                  then s\<lparr>pcp_results := pcp_results s @ [(i, st)]\<rparr> else s)"

definition close_channel :: "endpoint_channel option \<Rightarrow> pcp_state \<Rightarrow> pcp_state" where
  "close_channel c s = (case c of None \<Rightarrow> s | Some ch \<Rightarrow> act (CloseChannel (channel_id ch)) s)"

text \<open>\<open>EndpointManager::DiscardEndpoint\<close>, which posts the removal to another thread.\<close>

definition discard_endpoint :: "string \<Rightarrow> DisconnectionReason \<Rightarrow> pcp_state \<Rightarrow> pcp_state" where
  "discard_endpoint e reason s =
     act (DiscardEndpoint e reason)
       (if reason = IO_ERROR
        then s\<lparr>pcp_channels := MarkEndpointStopWaitToDisconnect e False True (pcp_channels s)\<rparr>
        else s)"

text \<open>\<open>~PendingConnectionInfo\<close>: a future that was not set fails, a channel still held is closed.\<close>

definition destroy_pending :: "pending_connection \<Rightarrow> pcp_state \<Rightarrow> pcp_state" where
  "destroy_pending p s = close_channel (pending_channel p) (set_result (pending_result p) kError s)"

definition find_pending :: "string \<Rightarrow> pcp_state \<Rightarrow> pending_connection option" where
  "find_pending e s = map_of (pending_connections s) e"

definition extract_pending :: "string \<Rightarrow> pcp_state \<Rightarrow> pcp_state" where
  "extract_pending e s = s\<lparr>pending_connections := filter (\<lambda>(k, _). k \<noteq> e) (pending_connections s)\<rparr>"

definition erase_pending :: "string \<Rightarrow> pcp_state \<Rightarrow> pcp_state" where
  "erase_pending e s =
     (case find_pending e s of
        None \<Rightarrow> s | Some p \<Rightarrow> destroy_pending p (extract_pending e s))"

definition write_pending ::
  "string \<Rightarrow> (pending_connection \<Rightarrow> pending_connection) \<Rightarrow> pcp_state \<Rightarrow> pcp_state" where
  "write_pending e f s =
     s\<lparr>pending_connections := map (\<lambda>(k, p). (k, if k = e then f p else p)) (pending_connections s)\<rparr>"

section \<open>What the small steps touch\<close>

lemma pcp_simps [simp]:
  "pcp_client (act a s) = pcp_client s" "pending_connections (act a s) = pending_connections s"
  "discovered_endpoints (act a s) = discovered_endpoints s" "pcp_channels (act a s) = pcp_channels s"
  "pcp_results (act a s) = pcp_results s" "pcp_crashed (act a s) = pcp_crashed s"
  "pcp_actions (act a s) = pcp_actions s @ [a]"
  "pcp_client (on_client f s) = f (pcp_client s)"
  "pending_connections (on_client f s) = pending_connections s"
  "discovered_endpoints (on_client f s) = discovered_endpoints s"
  "pcp_channels (on_client f s) = pcp_channels s" "pcp_results (on_client f s) = pcp_results s"
  "pcp_crashed (on_client f s) = pcp_crashed s" "pcp_actions (on_client f s) = pcp_actions s"
  "pcp_client (extract_pending e s) = pcp_client s"
  "discovered_endpoints (extract_pending e s) = discovered_endpoints s"
  "pcp_channels (extract_pending e s) = pcp_channels s"
  "pcp_results (extract_pending e s) = pcp_results s"
  "pcp_crashed (extract_pending e s) = pcp_crashed s"
  "pcp_actions (extract_pending e s) = pcp_actions s"
  by (simp_all add: act_def on_client_def extract_pending_def)

lemma discard_endpoint_simps [simp]:
  "pcp_client (discard_endpoint e r s) = pcp_client s"
  "pending_connections (discard_endpoint e r s) = pending_connections s"
  "discovered_endpoints (discard_endpoint e r s) = discovered_endpoints s"
  "pcp_results (discard_endpoint e r s) = pcp_results s"
  "pcp_crashed (discard_endpoint e r s) = pcp_crashed s"
  "pcp_actions (discard_endpoint e r s) = pcp_actions s @ [DiscardEndpoint e r]"
  "find_pending k (discard_endpoint e r s) = find_pending k s"
  by (simp_all add: discard_endpoint_def find_pending_def)

lemma set_result_simps [simp]:
  "pcp_client (set_result r st s) = pcp_client s"
  "pending_connections (set_result r st s) = pending_connections s"
  "discovered_endpoints (set_result r st s) = discovered_endpoints s"
  "pcp_channels (set_result r st s) = pcp_channels s"
  "pcp_crashed (set_result r st s) = pcp_crashed s" "pcp_actions (set_result r st s) = pcp_actions s"
  by (simp_all add: set_result_def split: option.splits)

lemma close_channel_simps [simp]:
  "pcp_client (close_channel c s) = pcp_client s"
  "pending_connections (close_channel c s) = pending_connections s"
  "discovered_endpoints (close_channel c s) = discovered_endpoints s"
  "pcp_channels (close_channel c s) = pcp_channels s"
  "pcp_results (close_channel c s) = pcp_results s"
  "pcp_crashed (close_channel c s) = pcp_crashed s"
  by (simp_all add: close_channel_def split: option.splits)

lemma destroy_pending_simps [simp]:
  "pcp_client (destroy_pending p s) = pcp_client s"
  "pending_connections (destroy_pending p s) = pending_connections s"
  "discovered_endpoints (destroy_pending p s) = discovered_endpoints s"
  "pcp_channels (destroy_pending p s) = pcp_channels s"
  "pcp_crashed (destroy_pending p s) = pcp_crashed s"
  by (simp_all add: destroy_pending_def)

lemma find_pending_simps [simp]:
  "find_pending k (act a s) = find_pending k s" "find_pending k (on_client f s) = find_pending k s"
  "find_pending k (set_result r st s) = find_pending k s"
  "find_pending k (close_channel c s) = find_pending k s"
  "find_pending k (destroy_pending p s) = find_pending k s"
  by (simp_all add: find_pending_def)

lemma find_pending_updates [simp]:
  "find_pending k (s\<lparr>pcp_client := x0\<rparr>) = find_pending k s"
  "find_pending k (s\<lparr>discovered_endpoints := x1\<rparr>) = find_pending k s"
  "find_pending k (s\<lparr>endpoint_lost_by_medium_alarms := x2\<rparr>) = find_pending k s"
  "find_pending k (s\<lparr>pcp_channels := x3\<rparr>) = find_pending k s"
  "find_pending k (s\<lparr>pending_alarms := x4\<rparr>) = find_pending k s"
  "find_pending k (s\<lparr>em_endpoints := x9\<rparr>) = find_pending k s"
  "find_pending k (s\<lparr>web_rtc_non_cellular := x5\<rparr>) = find_pending k s"
  "find_pending k (s\<lparr>pcp_results := x6\<rparr>) = find_pending k s"
  "find_pending k (s\<lparr>pcp_actions := x7\<rparr>) = find_pending k s"
  "find_pending k (s\<lparr>pcp_crashed := x8\<rparr>) = find_pending k s"
  by (simp_all add: find_pending_def)

lemma find_extract [simp]:
  "find_pending k (extract_pending e s) = (if k = e then None else find_pending k s)"
  by (simp add: find_pending_def extract_pending_def map_of_removed)

lemma erase_pending_simps [simp]:
  "pcp_client (erase_pending e s) = pcp_client s"
  "discovered_endpoints (erase_pending e s) = discovered_endpoints s"
  "pcp_channels (erase_pending e s) = pcp_channels s"
  "pcp_crashed (erase_pending e s) = pcp_crashed s"
  "find_pending k (erase_pending e s) = (if k = e then None else find_pending k s)"
  by (auto simp: erase_pending_def split: option.splits)

text \<open>Removing a pending connection leaves its caller answered.\<close>

lemma set_result_answered:
  "map_of (pcp_results (set_result (Some i) st s)) i \<noteq> None"
  by (simp add: set_result_def map_add_def split: option.splits)

lemma set_result_keeps:
  "map_of (pcp_results s) i = Some st \<Longrightarrow> map_of (pcp_results (set_result r st' s)) i = Some st"
  by (auto simp: set_result_def map_add_def split: option.splits)

end
