(* ===== verification/Connection_Response.thy ===== *)
theory Connection_Response
  imports Pcp_State
begin

text \<open>
  How two endpoints agree on a connection: the tasks of \<open>BasePcpHandler\<close>
  (connections/implementation/base_pcp_handler.cc) that accept and reject a pending
  connection, take the peer's CONNECTION_RESPONSE frame and evaluate the two answers.

  What the channel's \<open>Write\<close> returns is an argument.
\<close>

section \<open>Evaluating the two answers\<close>

text \<open>The branch where both sides accepted; a failed handshake is a failed CHECK.\<close>

definition encrypt_accepted ::
  "string \<Rightarrow> pending_connection \<Rightarrow> pcp_state \<Rightarrow> nc_status \<times> pcp_state" where
  "encrypt_accepted e pending s =
     (if pending_ukey2 pending \<noteq> Some True then (kSuccess, pcp_crash s)
      else (case EncryptChannelForEndpoint e (pcp_channels s) of (m, ok) \<Rightarrow>
        let s1 = s\<lparr>pcp_channels := m\<rparr>;
            s2 = (case GetChannelForEndpoint e m of
                    None \<Rightarrow> s1
                  | Some c \<Rightarrow>
                      if IsMultiplexSocketSupported e (channel_medium c) (pcp_client s1)
                      then s1\<lparr>pcp_channels := EnableMultiplexSocket e m\<rparr> else s1)
        in (if ok then kSuccess else kEndpointUnknown, s2)))"

text \<open>
  \<open>conclude\<close> is the rest of \<open>EvaluateConnectionResult\<close> once the pending connection is taken
  out of the map and its channel is known.
\<close>

definition conclude ::
  "string \<Rightarrow> bool \<Rightarrow> bool \<Rightarrow> pending_connection \<Rightarrow> endpoint_channel \<Rightarrow> pcp_state \<Rightarrow> pcp_state" where
  "conclude e can_close_immediately is_connection_accepted pending channel s1 =
     (let medium = channel_medium channel;
          (code, s2) = (if is_connection_accepted then encrypt_accepted e pending s1
                        else (kConnectionRejected, s1))
      in if pcp_crashed s2 then s2
         else if code \<noteq> kSuccess then
           let s3 = on_client (OnConnectionRejected e code) s2
           in if can_close_immediately then discard_endpoint e UNFINISHED s3
              else s3\<lparr>pending_alarms :=
                        (if e \<in> set (pending_alarms s3) then pending_alarms s3
                         else e # pending_alarms s3)\<rparr>
         else
           let s3 = on_client (OnConnectionAccepted e) s2;
               m = (if medium = WEB_RTC \<and> web_rtc_non_cellular s3
                    then WEB_RTC_NON_CELLULAR else medium);
               s4 = on_client (OnBandwidthChanged e m) s3
           in if pending_is_incoming pending \<and> AutoUpgradeBandwidth (pcp_client s4)
              then act (InitiateBwuForEndpoint e) s4 else s4)"

definition EvaluateConnectionResult :: "string \<Rightarrow> bool \<Rightarrow> pcp_state \<Rightarrow> pcp_state" where
  "EvaluateConnectionResult e can_close_immediately s =
     (let is_connection_accepted = IsConnectionAccepted e (pcp_client s) in
      if \<not> is_connection_accepted \<and> \<not> IsConnectionRejected e (pcp_client s) then s
      else case find_pending e s of
        None \<Rightarrow> s
      | Some pending \<Rightarrow>
          let s1 = extract_pending e s in
          destroy_pending pending
            (case GetChannelForEndpoint e (pcp_channels s1) of
               None \<Rightarrow> s1
             | Some channel \<Rightarrow>
                 conclude e can_close_immediately is_connection_accepted pending channel s1))"

definition ProcessPreConnectionResultFailure ::
  "string \<Rightarrow> bool \<Rightarrow> DisconnectionReason \<Rightarrow> pcp_state \<Rightarrow> pcp_state" where
  "ProcessPreConnectionResultFailure e should_call_disconnect_endpoint reason s =
     (let s1 = extract_pending e s;
          s2 = (if should_call_disconnect_endpoint then discard_endpoint e reason s1 else s1);
          s3 = on_client (OnConnectionRejected e kError) s2
      in case find_pending e s of None \<Rightarrow> s3 | Some p \<Rightarrow> destroy_pending p s3)"

section \<open>The local answer\<close>

definition AcceptConnection ::
  "string \<Rightarrow> nat option \<Rightarrow> bool \<Rightarrow> pcp_state \<Rightarrow> nc_status \<times> pcp_state" where
  "AcceptConnection e listener write_ok s =
     (if find_pending e s = None then (kEndpointUnknown, s)
      else case GetChannelForEndpoint e (pcp_channels s) of
        None \<Rightarrow> (kEndpointUnknown, ProcessPreConnectionResultFailure e True IO_ERROR s)
      | Some _ \<Rightarrow>
          if \<not> write_ok then (kEndpointIoError, ProcessPreConnectionResultFailure e True IO_ERROR s)
          else (kSuccess,
                EvaluateConnectionResult e False
                  (on_client (LocalEndpointAcceptedConnection e listener)
                    (act (WroteConnectionResponse e kSuccess) s))))"

definition RejectConnection :: "string \<Rightarrow> bool \<Rightarrow> pcp_state \<Rightarrow> nc_status \<times> pcp_state" where
  "RejectConnection e write_ok s =
     (if find_pending e s = None then (kEndpointUnknown, s)
      else case GetChannelForEndpoint e (pcp_channels s) of
        None \<Rightarrow> (kEndpointUnknown, ProcessPreConnectionResultFailure e True IO_ERROR s)
      | Some _ \<Rightarrow>
          if \<not> write_ok then (kEndpointIoError, ProcessPreConnectionResultFailure e True IO_ERROR s)
          else (kSuccess,
                EvaluateConnectionResult e False
                  (on_client (LocalEndpointRejectedConnection e)
                    (act (WroteConnectionResponse e kConnectionRejected) s))))"

section \<open>The remote answer\<close>

datatype response_status = UNKNOWN_RESPONSE_STATUS | ACCEPT | REJECT

record connection_response_frame =
  frame_response :: "response_status option"
  frame_status :: int
  frame_os_info :: "nat option"
  frame_multiplex_socket_bitmask :: "32 word option"
  frame_safe_to_disconnect_version :: "int option"

definition response_accepts :: "connection_response_frame \<Rightarrow> bool" where
  "response_accepts f =
     (case frame_response f of Some r \<Rightarrow> r = ACCEPT | None \<Rightarrow> frame_status f = 0)"

text \<open>
  The task of \<open>OnIncomingFrame\<close>.  The caller, the endpoint's reader thread, waits for the
  latch; the first component says whether the task counts it down.
\<close>

definition OnIncomingFrame ::
  "connection_response_frame \<Rightarrow> string \<Rightarrow> pcp_state \<Rightarrow> bool \<times> pcp_state" where
  "OnIncomingFrame f e s =
     (if HasRemoteEndpointResponded e (pcp_client s) then (False, s)
      else
        let s1 = (if response_accepts f then on_client (RemoteEndpointAcceptedConnection e) s
                  else on_client (RemoteEndpointRejectedConnection e) s);
            s2 = (case frame_os_info f of
                    None \<Rightarrow> s1 | Some os \<Rightarrow> on_client (SetRemoteOsInfo e os) s1);
            s3 = (case frame_multiplex_socket_bitmask f of
                    None \<Rightarrow> s2 | Some m \<Rightarrow> on_client (SetRemoteMultiplexSocketBitmask e m) s2);
            s4 = (case frame_safe_to_disconnect_version f of
                    None \<Rightarrow> s3 | Some v \<Rightarrow> on_client (SetRemoteSafeToDisconnectVersion e v) s3);
            s5 = s4\<lparr>pcp_channels := UpdateSafeToDisconnectForEndpoint e
                      (IsSafeToDisconnectEnabled e (pcp_client s4)) (pcp_channels s4)\<rparr>
        in (True, EvaluateConnectionResult e True s5))"

end
