(* ===== verification/Response_Props.thy ===== *)
theory Response_Props
  imports Client_Props Connection_Response
begin

text \<open>
  The properties of the agreement on a connection.
\<close>

unbundle bit_operations_syntax

section \<open>Agreeing on a connection\<close>

lemma Lookup_answers:
  assumes "LookupConnection e s = Some c"
  shows "\<not> bit (conn_status c) 0 \<Longrightarrow> \<not> bit (conn_status c) 1 \<Longrightarrow>
      LookupConnection e (LocalEndpointAcceptedConnection e p s) =
        Some (c\<lparr>conn_status := conn_status c OR kLocalEndpointAccepted,
                conn_payload_listener := p\<rparr>)"
    and "\<not> bit (conn_status c) 0 \<Longrightarrow> \<not> bit (conn_status c) 1 \<Longrightarrow>
      LookupConnection e (LocalEndpointRejectedConnection e s) =
        Some (c\<lparr>conn_status := conn_status c OR kLocalEndpointRejected\<rparr>)"
    and "\<not> bit (conn_status c) 2 \<Longrightarrow> \<not> bit (conn_status c) 3 \<Longrightarrow>
      LookupConnection e (RemoteEndpointAcceptedConnection e s) =
        Some (c\<lparr>conn_status := conn_status c OR kRemoteEndpointAccepted\<rparr>)"
    and "\<not> bit (conn_status c) 2 \<Longrightarrow> \<not> bit (conn_status c) 3 \<Longrightarrow>
      LookupConnection e (RemoteEndpointRejectedConnection e s) =
        Some (c\<lparr>conn_status := conn_status c OR kRemoteEndpointRejected\<rparr>)"
  using assms query_bits [OF assms]
  by (simp_all add: LocalEndpointAcceptedConnection_def LocalEndpointRejectedConnection_def
      RemoteEndpointAcceptedConnection_def RemoteEndpointRejectedConnection_def
      AppendConnectionStatus_def Lookup_write)

lemma Lookup_Accepted:
  "LookupConnection e s = Some c \<Longrightarrow> conn_status c \<noteq> kStatusConnected \<Longrightarrow>
   LookupConnection e (OnConnectionAccepted e s) = Some (c\<lparr>conn_status := kStatusConnected\<rparr>)"
  by (simp add: OnConnectionAccepted_def HasPendingConnectionToEndpoint_def Lookup_write)

lemma Lookup_Bandwidth:
  "LookupConnection e (OnBandwidthChanged e m s) =
     map_option (\<lambda>c. c\<lparr>conn_connected_medium := m\<rparr>) (LookupConnection e s)"
  by (simp add: OnBandwidthChanged_def Lookup_write split: option.splits)

lemma Lookup_Disconnected: "LookupConnection e (OnDisconnected e b s) = None"
proof -
  have filt: "map_of (filter (\<lambda>(k, _). k \<noteq> e) xs) e = None" for xs :: "(string \<times> connection) list"
    by (induction xs) auto
  have q: "LookupConnection e (CancelEndpoint e t) = LookupConnection e t"
    "LookupConnection e (ScheduleClearCachedEndpointIdAlarm t) = LookupConnection e t"
    "LookupConnection e (OnSessionComplete t) = LookupConnection e t" for t
    using quiet_flags(2) [of t e] quiet_Schedule [of t] quiet_Session [of t]
    by (simp_all add: quiet_step_def LookupConnection_def)
  show ?thesis
    by (cases "LookupConnection e s")
       (simp_all add: OnDisconnected_def Let_def q LookupConnection_def [of e "client_proxy.connections_update _ _"] filt)
qed

lemma Lookup_Rejected:
  "LookupConnection e s = Some c \<Longrightarrow> conn_status c \<noteq> kStatusConnected \<Longrightarrow>
   LookupConnection e (OnConnectionRejected e st s) = None"
  by (simp add: OnConnectionRejected_def HasPendingConnectionToEndpoint_def Lookup_Disconnected)

text \<open>An endpoint whose connection awaits both answers.\<close>

definition awaiting :: "string \<Rightarrow> pending_connection \<Rightarrow> endpoint_channel \<Rightarrow> connection \<Rightarrow> pcp_state \<Rightarrow> bool" where
  "awaiting e pending ch c s \<longleftrightarrow>
     LookupConnection e (pcp_client s) = Some c \<and>
     find_pending e s = Some pending \<and> pending_ukey2 pending = Some True \<and>
     GetChannelForEndpoint e (pcp_channels s) = Some ch \<and> \<not> pcp_crashed s"

lemma encrypt_accepted_ok:
  assumes "GetChannelForEndpoint e (pcp_channels s) = Some ch" and "pending_ukey2 p = Some True"
  shows "\<exists>m ch'. encrypt_accepted e p s = (kSuccess, s\<lparr>pcp_channels := m\<rparr>) \<and>
    GetChannelForEndpoint e m = Some ch' \<and> channel_encrypted ch'"
proof -
  obtain m where m: "EncryptChannelForEndpoint e (pcp_channels s) = (m, True)"
      "GetChannelForEndpoint e m = Some (ch\<lparr>channel_encrypted := True\<rparr>)"
    using EncryptChannelForEndpoint_ok [OF assms(1)] by blast
  obtain ch' where "GetChannelForEndpoint e (EnableMultiplexSocket e m) = Some ch'"
      "channel_encrypted ch'"
    using Enable_encrypted [OF m(2)] by auto
  with m assms(2) show ?thesis
    by (auto simp: encrypt_accepted_def Let_def)
qed

text \<open>Both answers are yes: the endpoint is connected over an encrypted channel.\<close>

definition established :: "string \<Rightarrow> pcp_state \<Rightarrow> bool" where
  "established e s \<longleftrightarrow> IsConnectedToEndpoint e (pcp_client s) \<and>
     find_pending e s = None \<and>
     (case GetChannelForEndpoint e (pcp_channels s) of None \<Rightarrow> False | Some ch \<Rightarrow> channel_encrypted ch)"

lemma conclude_accepted:
  assumes l: "LookupConnection e (pcp_client s) = Some c" "conn_status c \<noteq> kStatusConnected"
    and s: "GetChannelForEndpoint e (pcp_channels s) = Some ch" "\<not> pcp_crashed s"
    and p: "pending_ukey2 p = Some True" "find_pending e s = None"
  shows "established e (conclude e b True p ch' s)"
proof -
  obtain m c' where m: "encrypt_accepted e p s = (kSuccess, s\<lparr>pcp_channels := m\<rparr>)"
      "GetChannelForEndpoint e m = Some c'" "channel_encrypted c'"
    using encrypt_accepted_ok [OF s(1) p(1)] by blast
  have conn: "IsConnectedToEndpoint e (OnBandwidthChanged e x (OnConnectionAccepted e (pcp_client s)))"
    for x
    using query_bits(5) [of e "OnBandwidthChanged e x (OnConnectionAccepted e (pcp_client s))"]
    by (simp add: Lookup_Bandwidth Lookup_Accepted [OF l])
  have "find_pending e (s\<lparr>pcp_channels := m\<rparr>) = None"
    using p(2) by (simp add: find_pending_def)
  then show ?thesis
    using m conn s(2) by (simp add: conclude_def Let_def established_def)
qed

lemma established_destroy [simp]: "established e (destroy_pending p s) = established e s"
  by (simp add: established_def)

lemma Evaluate_accepted:
  assumes s: "awaiting e pending ch c s"
    and yes: "bit (conn_status c) 0" "bit (conn_status c) 2"
  shows "established e (EvaluateConnectionResult e b s)"
proof -
  have l: "LookupConnection e (pcp_client s) = Some c"
    and p: "find_pending e s = Some pending" "pending_ukey2 pending = Some True"
    and ch: "GetChannelForEndpoint e (pcp_channels s) = Some ch" "\<not> pcp_crashed s"
    using s by (simp_all add: awaiting_def)
  have nc: "conn_status c \<noteq> kStatusConnected"
    using yes(1) status_append(5) [of 0] by auto
  have acc: "IsConnectionAccepted e (pcp_client s)"
    using query_bits(3) [OF l] yes by simp
  show ?thesis
    using acc p ch conclude_accepted [of e "extract_pending e s" c ch pending b ch] l nc
    by (simp add: EvaluateConnectionResult_def)
qed

definition gone :: "string \<Rightarrow> pcp_state \<Rightarrow> bool" where
  "gone e s \<longleftrightarrow> LookupConnection e (pcp_client s) = None \<and>
     find_pending e s = None"

lemma Evaluate_rejected:
  assumes s: "awaiting e pending ch c s"
    and no: "bit (conn_status c) 1 \<or> bit (conn_status c) 3" and ok: "answers_ok (conn_status c)"
  shows "gone e (EvaluateConnectionResult e b s)"
proof -
  have l: "LookupConnection e (pcp_client s) = Some c"
    and p: "find_pending e s = Some pending"
    and ch: "GetChannelForEndpoint e (pcp_channels s) = Some ch" "\<not> pcp_crashed s"
    using s by (simp_all add: awaiting_def)
  have nc: "conn_status c \<noteq> kStatusConnected"
    using no status_append(5) [of 1] status_append(5) [of 3] by auto
  have "\<not> IsConnectionAccepted e (pcp_client s)" "IsConnectionRejected e (pcp_client s)"
    using query_bits(3,4) [OF l] no ok by (auto simp: answers_ok_def)
  then show ?thesis
    using p ch Lookup_Rejected [OF l nc]
    by (simp add: EvaluateConnectionResult_def conclude_def Let_def gone_def)
qed

lemma Evaluate_waits:
  assumes "awaiting e pending ch c s" and "\<not> (bit (conn_status c) 0 \<and> bit (conn_status c) 2)"
    and "\<not> bit (conn_status c) 1" and "\<not> bit (conn_status c) 3"
  shows "EvaluateConnectionResult e b s = s"
  using assms by (auto simp: EvaluateConnectionResult_def awaiting_def query_bits)

lemma Lookup_same_status:
  "LookupConnection e s = Some c \<Longrightarrow>
   \<exists>c'. LookupConnection e (SetRemoteOsInfo e os s) = Some c' \<and> conn_status c' = conn_status c"
  "LookupConnection e s = Some c \<Longrightarrow>
   \<exists>c'. LookupConnection e (SetRemoteMultiplexSocketBitmask e m s) = Some c' \<and>
     conn_status c' = conn_status c"
  "LookupConnection e s = Some c \<Longrightarrow>
   \<exists>c'. LookupConnection e (SetRemoteSafeToDisconnectVersion e v s) = Some c' \<and>
     conn_status c' = conn_status c"
  by (simp_all add: SetRemoteOsInfo_def SetRemoteMultiplexSocketBitmask_def
      SetRemoteSafeToDisconnectVersion_def Lookup_write)

lemma awaiting_on_client:
  "awaiting e pending ch c s \<Longrightarrow> LookupConnection e (f (pcp_client s)) = Some c' \<Longrightarrow>
   awaiting e pending ch c' (on_client f s)"
  by (simp add: awaiting_def on_client_def)

text \<open>A state that differs from another in the client's proxy only, with a given status.\<close>

definition answered :: "string \<Rightarrow> byte \<Rightarrow> pcp_state \<Rightarrow> pcp_state \<Rightarrow> bool" where
  "answered e st s t \<longleftrightarrow>
     (\<exists>cl c. t = s\<lparr>pcp_client := cl\<rparr> \<and> LookupConnection e cl = Some c \<and> conn_status c = st)"

lemma answered_on_client:
  "LookupConnection e (f (pcp_client s)) = Some c \<Longrightarrow> answered e (conn_status c) s (on_client f s)"
  by (auto simp: answered_def on_client_def)

lemma answered_option:
  assumes t: "answered e st s t"
    and f: "\<And>x t c. LookupConnection e t = Some c \<Longrightarrow>
      \<exists>c'. LookupConnection e (f x t) = Some c' \<and> conn_status c' = conn_status c"
  shows "answered e st s (case opt of None \<Rightarrow> t | Some x \<Rightarrow> on_client (f x) t)"
proof (cases opt)
  case (Some x)
  obtain cl c where "t = s\<lparr>pcp_client := cl\<rparr>" "LookupConnection e cl = Some c" "conn_status c = st"
    using t by (auto simp: answered_def)
  with f [of cl c x] Some show ?thesis
    by (auto simp: answered_def on_client_def)
qed (use t in simp)

lemma OnIncomingFrame_answered:
  assumes l: "LookupConnection e (pcp_client s) = Some c"
    and new: "\<not> bit (conn_status c) 2" "\<not> bit (conn_status c) 3"
  shows "\<exists>t b. OnIncomingFrame f e s = (True, EvaluateConnectionResult e True
      (t\<lparr>pcp_channels := UpdateSafeToDisconnectForEndpoint e b (pcp_channels s)\<rparr>)) \<and>
    answered e (conn_status c OR
      (if response_accepts f then kRemoteEndpointAccepted else kRemoteEndpointRejected)) s t"
proof -
  have nr: "\<not> HasRemoteEndpointResponded e (pcp_client s)"
    using query_bits(2) [OF l] new by simp
  let ?st = "conn_status c OR
    (if response_accepts f then kRemoteEndpointAccepted else kRemoteEndpointRejected)"
  define s1 where "s1 = (if response_accepts f then on_client (RemoteEndpointAcceptedConnection e) s
     else on_client (RemoteEndpointRejectedConnection e) s)"
  define s2 where "s2 = (case frame_os_info f of
      None \<Rightarrow> s1 | Some os \<Rightarrow> on_client (SetRemoteOsInfo e os) s1)"
  define s3 where "s3 = (case frame_multiplex_socket_bitmask f of
      None \<Rightarrow> s2 | Some m \<Rightarrow> on_client (SetRemoteMultiplexSocketBitmask e m) s2)"
  define s4 where "s4 = (case frame_safe_to_disconnect_version f of
      None \<Rightarrow> s3 | Some v \<Rightarrow> on_client (SetRemoteSafeToDisconnectVersion e v) s3)"
  have s1: "answered e ?st s s1"
    using answered_on_client [where f = "RemoteEndpointAcceptedConnection e", OF Lookup_answers(3) [OF l new]]
      answered_on_client [where f = "RemoteEndpointRejectedConnection e", OF Lookup_answers(4) [OF l new]]
    by (simp add: s1_def)
  have s2: "answered e ?st s s2" unfolding s2_def
    by (rule answered_option [where f = "SetRemoteOsInfo e", OF s1 Lookup_same_status(1)])
  have s3: "answered e ?st s s3" unfolding s3_def
    by (rule answered_option [where f = "SetRemoteMultiplexSocketBitmask e", OF s2 Lookup_same_status(2)])
  have s4: "answered e ?st s s4" unfolding s4_def
    by (rule answered_option [where f = "SetRemoteSafeToDisconnectVersion e", OF s3 Lookup_same_status(3)])
  then have ch: "pcp_channels s4 = pcp_channels s"
    by (auto simp: answered_def)
  have "OnIncomingFrame f e s = (True, EvaluateConnectionResult e True (s4\<lparr>pcp_channels :=
      UpdateSafeToDisconnectForEndpoint e (IsSafeToDisconnectEnabled e (pcp_client s4)) (pcp_channels s4)\<rparr>))"
    by (simp only: OnIncomingFrame_def Let_def nr if_False s4_def s3_def s2_def s1_def)
  with s4 show ?thesis
    unfolding ch by blast
qed

lemma OnIncomingFrame_awaiting:
  assumes s: "awaiting e pending ch c s"
    and new: "\<not> bit (conn_status c) 2" "\<not> bit (conn_status c) 3"
  shows "\<exists>t c'. OnIncomingFrame f e s = (True, EvaluateConnectionResult e True t) \<and>
    awaiting e pending ch c' t \<and>
    conn_status c' = conn_status c OR
      (if response_accepts f then kRemoteEndpointAccepted else kRemoteEndpointRejected)"
proof -
  have l: "LookupConnection e (pcp_client s) = Some c"
    using s by (simp add: awaiting_def)
  obtain t b where f: "OnIncomingFrame f e s = (True, EvaluateConnectionResult e True
      (t\<lparr>pcp_channels := UpdateSafeToDisconnectForEndpoint e b (pcp_channels s)\<rparr>))"
    and t: "answered e (conn_status c OR
      (if response_accepts f then kRemoteEndpointAccepted else kRemoteEndpointRejected)) s t"
    using OnIncomingFrame_answered [OF l new] by blast
  from t obtain c' cl where "LookupConnection e cl = Some c'" "t = s\<lparr>pcp_client := cl\<rparr>"
    "conn_status c' = conn_status c OR
      (if response_accepts f then kRemoteEndpointAccepted else kRemoteEndpointRejected)"
    unfolding answered_def by metis
  with s f show ?thesis
    by (intro exI [of _ "t\<lparr>pcp_channels := UpdateSafeToDisconnectForEndpoint e b (pcp_channels s)\<rparr>"]
        exI [of _ c']) (simp add: awaiting_def GetChannel_Update)
qed

lemma awaiting_act: "awaiting e pending ch c s \<Longrightarrow> awaiting e pending ch c (act a s)"
  by (simp add: awaiting_def act_def)

lemma AcceptConnection_awaiting:
  assumes s: "awaiting e pending ch c s"
    and new: "\<not> bit (conn_status c) 0" "\<not> bit (conn_status c) 1"
  shows "\<exists>t c'. AcceptConnection e l True s = (kSuccess, EvaluateConnectionResult e False t) \<and>
    awaiting e pending ch c' t \<and> conn_status c' = conn_status c OR kLocalEndpointAccepted"
proof -
  let ?s = "act (WroteConnectionResponse e kSuccess) s"
  have a: "awaiting e pending ch c ?s"
    using s by (rule awaiting_act)
  then have "LookupConnection e (pcp_client ?s) = Some c"
    by (simp add: awaiting_def)
  note w = awaiting_on_client [where f = "LocalEndpointAcceptedConnection e l",
      OF a Lookup_answers(1) [OF this new]]
  show ?thesis
    using s by (intro exI conjI, rule_tac [2] w) (simp_all add: AcceptConnection_def awaiting_def)
qed

lemma RejectConnection_awaiting:
  assumes s: "awaiting e pending ch c s"
    and new: "\<not> bit (conn_status c) 0" "\<not> bit (conn_status c) 1"
  shows "\<exists>t c'. RejectConnection e True s = (kSuccess, EvaluateConnectionResult e False t) \<and>
    awaiting e pending ch c' t \<and> conn_status c' = conn_status c OR kLocalEndpointRejected"
proof -
  let ?s = "act (WroteConnectionResponse e kConnectionRejected) s"
  have a: "awaiting e pending ch c ?s"
    using s by (rule awaiting_act)
  then have "LookupConnection e (pcp_client ?s) = Some c"
    by (simp add: awaiting_def)
  note w = awaiting_on_client [where f = "LocalEndpointRejectedConnection e",
      OF a Lookup_answers(2) [OF this new]]
  show ?thesis
    using s by (intro exI conjI, rule_tac [2] w) (simp_all add: RejectConnection_def awaiting_def)
qed

lemma accept_decides:
  assumes s: "awaiting e pending ch c s"
    and new: "\<not> bit (conn_status c) 0" "\<not> bit (conn_status c) 1" "\<not> bit (conn_status c) 3"
  shows "if bit (conn_status c) 2 then established e (snd (AcceptConnection e l True s))
    else \<exists>c'. awaiting e pending ch c' (snd (AcceptConnection e l True s)) \<and>
      conn_status c' = conn_status c OR kLocalEndpointAccepted"
proof -
  obtain t c' where a: "AcceptConnection e l True s = (kSuccess, EvaluateConnectionResult e False t)"
      "awaiting e pending ch c' t" "conn_status c' = conn_status c OR kLocalEndpointAccepted"
    using AcceptConnection_awaiting [OF s new(1,2)] by blast
  have "established e (EvaluateConnectionResult e False t)" if "bit (conn_status c) 2"
    by (rule Evaluate_accepted [OF a(2)]) (simp_all add: a(3) status_append that)
  moreover have "EvaluateConnectionResult e False t = t" if "\<not> bit (conn_status c) 2"
    by (rule Evaluate_waits [OF a(2)]) (use that new in \<open>simp_all add: a(3) status_append\<close>)
  ultimately show ?thesis
    using a by auto
qed

lemma reject_decides:
  assumes s: "awaiting e pending ch c s"
    and new: "\<not> bit (conn_status c) 0" "\<not> bit (conn_status c) 1" and ok: "answers_ok (conn_status c)"
  shows "gone e (snd (RejectConnection e True s))"
proof -
  obtain t c' where r: "RejectConnection e True s = (kSuccess, EvaluateConnectionResult e False t)"
      "awaiting e pending ch c' t" "conn_status c' = conn_status c OR kLocalEndpointRejected"
    using RejectConnection_awaiting [OF s new] by blast
  have "gone e (EvaluateConnectionResult e False t)"
    by (rule Evaluate_rejected [OF r(2)])
       (use ok new in \<open>simp_all add: r(3) status_append answers_ok_def\<close>)
  then show ?thesis
    by (simp add: r(1))
qed

lemma frame_decides:
  assumes s: "awaiting e pending ch c s"
    and new: "\<not> bit (conn_status c) 2" "\<not> bit (conn_status c) 3" "\<not> bit (conn_status c) 1"
  shows "if \<not> response_accepts f then gone e (snd (OnIncomingFrame f e s))
    else if bit (conn_status c) 0 then established e (snd (OnIncomingFrame f e s))
    else \<exists>c'. awaiting e pending ch c' (snd (OnIncomingFrame f e s)) \<and>
      conn_status c' = conn_status c OR kRemoteEndpointAccepted"
proof -
  obtain t c' where f: "OnIncomingFrame f e s = (True, EvaluateConnectionResult e True t)"
      "awaiting e pending ch c' t" "conn_status c' = conn_status c OR
        (if response_accepts f then kRemoteEndpointAccepted else kRemoteEndpointRejected)"
    using OnIncomingFrame_awaiting [OF s new(1,2)] by blast
  have "gone e (EvaluateConnectionResult e True t)" if "\<not> response_accepts f"
    by (rule Evaluate_rejected [OF f(2)])
       (use that new in \<open>simp_all add: f(3) status_append answers_ok_def\<close>)
  moreover have "established e (EvaluateConnectionResult e True t)"
    if "response_accepts f" "bit (conn_status c) 0"
    by (rule Evaluate_accepted [OF f(2)]) (simp_all add: f(3) status_append that)
  moreover have "EvaluateConnectionResult e True t = t"
    if "response_accepts f" "\<not> bit (conn_status c) 0"
    by (rule Evaluate_waits [OF f(2)]) (use that new in \<open>simp_all add: f(3) status_append\<close>)
  ultimately show ?thesis
    using f by auto
qed

lemma not_established_awaiting:
  "awaiting e pending ch c s \<Longrightarrow> \<not> established e s"
  by (simp add: awaiting_def established_def)


text \<open>A pending connection with a verified handshake, and the two answers.\<close>

definition plain_channel :: "nat \<Rightarrow> Medium \<Rightarrow> endpoint_channel" where
  "plain_channel i m = \<lparr>channel_id = i, channel_name = ''ch'', channel_medium = m,
     channel_encrypted = False, channel_closed = False, channel_can_multiplex = False,
     channel_multiplex_enabled = False\<rparr>"

definition plain_pending :: pending_connection where
  "plain_pending = \<lparr>pending_is_incoming = True, pending_nonce = 7, pending_endpoint_info = [],
     pending_listener = ClientListener 1, pending_options = plain_options, pending_result = None,
     pending_supported_mediums = [], pending_channel = None, pending_ukey2 = Some True,
     pending_token = ''token''\<rparr>"

definition pending_pcp :: pcp_state where
  "pending_pcp =
     (BasePcpHandler (OnConnectionInitiated ''ABCD'' True plain_options (ClientListener 1) ''token''
        (ClientProxy_new plain_flags False False False)))
     \<lparr>pending_connections := [(''ABCD'', plain_pending)],
      pcp_channels := RegisterChannelForEndpoint False ''ABCD'' (plain_channel 1 BLUETOOTH) []\<rparr>"

definition accept_frame :: connection_response_frame where
  "accept_frame = \<lparr>frame_response = Some ACCEPT, frame_status = 0, frame_os_info = Some 1,
     frame_multiplex_socket_bitmask = None, frame_safe_to_disconnect_version = Some 1\<rparr>"


lemma pending_pcp_awaits:
  "\<exists>p ch c. awaiting ''ABCD'' p ch c pending_pcp \<and> conn_status c = kPending"
  by (simp add: awaiting_def pending_pcp_def BasePcpHandler_def OnConnectionInitiated_def Let_def
      LookupConnection_def ClientProxy_new_def new_connection_def notify_def AddCancellationFlag_def
      RegisterChannelForEndpoint_def SetActive_channel find_pending_def plain_pending_def)


text \<open>
  Once a connection is established its status no longer records the peer's answer, so a
  further CONNECTION_RESPONSE is taken as a new one: the status bits are added to the
  connected status, the endpoint no longer counts as connected, although its channel stays,
  and every payload that arrives from it is dropped without a callback.
\<close>

theorem late_response_disconnects:
  assumes s: "established e s"
  shows "\<not> IsConnectedToEndpoint e (pcp_client (snd (OnIncomingFrame f e s))) \<and>
    pcp_actions (snd (OnIncomingFrame f e s)) = pcp_actions s \<and>
    OnPayload e p (pcp_client (snd (OnIncomingFrame f e s))) = pcp_client (snd (OnIncomingFrame f e s))"
proof -
  obtain c where l: "LookupConnection e (pcp_client s) = Some c"
    using s no_connection [of e "pcp_client s"] by (cases "LookupConnection e (pcp_client s)") (auto simp: established_def)
  then have c: "conn_status c = kStatusConnected" and pend: "find_pending e s = None"
    using s by (simp_all add: established_def query_bits)
  let ?b = "if response_accepts f then kRemoteEndpointAccepted else kRemoteEndpointRejected"
  have "\<not> bit (conn_status c) 2" "\<not> bit (conn_status c) 3"
    by (simp_all add: c status_append)
  from OnIncomingFrame_answered [OF l this] obtain t ub where
    f: "OnIncomingFrame f e s = (True, EvaluateConnectionResult e True
      (t\<lparr>pcp_channels := UpdateSafeToDisconnectForEndpoint e ub (pcp_channels s)\<rparr>))"
    and "answered e (conn_status c OR ?b) s t" by blast
  then obtain c' cl where t: "LookupConnection e cl = Some c'" "t = s\<lparr>pcp_client := cl\<rparr>"
    "conn_status c' = conn_status c OR ?b"
    unfolding answered_def by metis
  have "bit (conn_status c') 2 \<or> bit (conn_status c') 3"
    by (simp add: t(3) status_append)
  then have "conn_status c' \<noteq> kStatusConnected"
    using status_append(5) [of 2] status_append(5) [of 3] by auto
  moreover have "snd (OnIncomingFrame f e s) =
      s\<lparr>pcp_client := cl, pcp_channels := UpdateSafeToDisconnectForEndpoint e ub (pcp_channels s)\<rparr>"
    using pend by (simp add: f t(2) EvaluateConnectionResult_def Let_def)
  ultimately show ?thesis
    using query_bits(5) [OF t(1)] by (simp add: OnPayload_def)
qed

lemma pending_pcp_established:
  "established ''ABCD'' (snd (OnIncomingFrame accept_frame ''ABCD''
     (snd (AcceptConnection ''ABCD'' None True pending_pcp))))"
  unfolding established_def by code_simp

theorem late_response_disconnects_witness:
  "\<not> IsConnectedToEndpoint ''ABCD'' (pcp_client (snd (OnIncomingFrame accept_frame ''ABCD''
     (snd (OnIncomingFrame accept_frame ''ABCD''
       (snd (AcceptConnection ''ABCD'' None True pending_pcp)))))))"
  using late_response_disconnects [OF pending_pcp_established] by blast

text \<open>
  A CONNECTION_RESPONSE for an endpoint whose answer is already recorded returns from the
  handler's task without counting down the latch, so the reader thread that delivered the
  frame waits for ever; a first response counts it down.
\<close>

theorem duplicate_response_blocks:
  assumes "awaiting e pending ch c s" and "conn_status c = kPending" and "response_accepts f"
  shows "fst (OnIncomingFrame f e s) \<and>
    \<not> fst (OnIncomingFrame f' e (snd (OnIncomingFrame f e s))) \<and>
    snd (OnIncomingFrame f' e (snd (OnIncomingFrame f e s))) = snd (OnIncomingFrame f e s)"
proof -
  have nb: "\<not> bit (conn_status c) n" for n
    using assms(2) status_append(6) by simp
  have "fst (OnIncomingFrame f e s)"
    using OnIncomingFrame_awaiting [OF assms(1) nb nb, of f] by auto
  moreover obtain c' where "LookupConnection e (pcp_client (snd (OnIncomingFrame f e s))) = Some c'"
      "bit (conn_status c') 2"
    using frame_decides [OF assms(1) nb nb nb, of f] assms(3)
    by (auto simp: nb awaiting_def status_append)
  then have "HasRemoteEndpointResponded e (pcp_client (snd (OnIncomingFrame f e s)))"
    using query_bits(2) by blast
  ultimately show ?thesis
    by (simp add: OnIncomingFrame_def [of f'])
qed

theorem duplicate_response_blocks_witness:
  "\<not> fst (OnIncomingFrame accept_frame ''ABCD'' (snd (OnIncomingFrame accept_frame ''ABCD'' pending_pcp)))"
proof -
  obtain p ch c where "awaiting ''ABCD'' p ch c pending_pcp" "conn_status c = kPending"
    using pending_pcp_awaits by blast
  from duplicate_response_blocks [OF this, of accept_frame accept_frame] show ?thesis
    by (simp add: response_accepts_def accept_frame_def)
qed

end
