(* ===== verification/Discovered_Endpoints.thy ===== *)
theory Discovered_Endpoints
  imports Pcp_State "HOL-Library.Multiset"
begin

text \<open>
  The endpoints a \<open>BasePcpHandler\<close> has discovered
  (connections/implementation/base_pcp_handler.cc): one entry for each medium an endpoint is
  seen on, what the client is told about them, the alarms that drop the endpoints of a medium,
  the entries that a connection request adds, and the order in which they are tried.
\<close>

section \<open>The order of preference\<close>

text \<open>\<open>mediums\<close> is \<open>GetConnectionMediumsByPriority()\<close>.\<close>

fun comes_first :: "Medium \<Rightarrow> Medium \<Rightarrow> Medium list \<Rightarrow> bool" where
  "comes_first new_medium old_medium [] = False"
| "comes_first new_medium old_medium (m # ms) =
     (if m = new_medium then True else if m = old_medium then False
      else comes_first new_medium old_medium ms)"

definition IsPreferred :: "Medium list \<Rightarrow> discovered_endpoint \<Rightarrow> discovered_endpoint \<Rightarrow> bool" where
  "IsPreferred mediums new_endpoint old_endpoint =
     (de_medium new_endpoint \<noteq> de_medium old_endpoint \<and>
      comes_first (de_medium new_endpoint) (de_medium old_endpoint) mediums)"

text \<open>\<open>std::sort\<close>: insertion, the result for equally preferred endpoints being unspecified.\<close>

fun insert_preferred ::
  "Medium list \<Rightarrow> discovered_endpoint \<Rightarrow> discovered_endpoint list \<Rightarrow> discovered_endpoint list" where
  "insert_preferred mediums d [] = [d]"
| "insert_preferred mediums d (x # xs) =
     (if IsPreferred mediums x d then x # insert_preferred mediums d xs else d # x # xs)"

definition equal_range :: "string \<Rightarrow> discovered_endpoint list \<Rightarrow> discovered_endpoint list" where
  "equal_range e ds = filter (\<lambda>d. de_endpoint_id d = e) ds"

definition GetDiscoveredEndpoint :: "string \<Rightarrow> pcp_state \<Rightarrow> discovered_endpoint option" where
  "GetDiscoveredEndpoint e s =
     (case equal_range e (discovered_endpoints s) of [] \<Rightarrow> None | d # _ \<Rightarrow> Some d)"

definition GetDiscoveredEndpoints :: "Medium list \<Rightarrow> string \<Rightarrow> pcp_state \<Rightarrow> discovered_endpoint list" where
  "GetDiscoveredEndpoints mediums e s =
     foldr (insert_preferred mediums) (equal_range e (discovered_endpoints s)) []"

definition GetDiscoveredEndpoints_medium :: "Medium \<Rightarrow> pcp_state \<Rightarrow> discovered_endpoint list" where
  "GetDiscoveredEndpoints_medium m s = filter (\<lambda>d. de_medium d = m) (discovered_endpoints s)"

section \<open>Alarms\<close>

definition StopEndpointLostByMediumAlarm :: "string \<Rightarrow> Medium \<Rightarrow> pcp_state \<Rightarrow> pcp_state" where
  "StopEndpointLostByMediumAlarm e m s =
     s\<lparr>endpoint_lost_by_medium_alarms :=
         filter (\<lambda>(k, _). k \<noteq> (e, m)) (endpoint_lost_by_medium_alarms s)\<rparr>"

definition StartEndpointLostByMediumAlarms :: "Medium \<Rightarrow> pcp_state \<Rightarrow> pcp_state" where
  "StartEndpointLostByMediumAlarms m s =
     fold (\<lambda>d s. let s1 = StopEndpointLostByMediumAlarm (de_endpoint_id d) m s
                 in s1\<lparr>endpoint_lost_by_medium_alarms :=
                         ((de_endpoint_id d, m), de_object d) # endpoint_lost_by_medium_alarms s1\<rparr>)
       (GetDiscoveredEndpoints_medium m s) s"

section \<open>Found and lost\<close>

text \<open>What the loop over the known entries of the endpoint decides.\<close>

datatype found_scan = ScanEnd | ScanIgnore | ScanReset

fun scan_found :: "bool \<Rightarrow> discovered_endpoint \<Rightarrow> discovered_endpoint list \<Rightarrow> found_scan" where
  "scan_found dct endpoint [] = ScanEnd"
| "scan_found dct endpoint (d # ds) =
     (if dct
      then if de_medium d = de_medium endpoint then ScanIgnore else scan_found dct endpoint ds
      else if de_endpoint_info d \<noteq> de_endpoint_info endpoint then ScanReset
      else if de_medium d = de_medium endpoint then ScanIgnore
      else scan_found dct endpoint ds)"

definition erase_endpoints :: "string \<Rightarrow> pcp_state \<Rightarrow> pcp_state" where
  "erase_endpoints e s =
     s\<lparr>discovered_endpoints := filter (\<lambda>d. de_endpoint_id d \<noteq> e) (discovered_endpoints s)\<rparr>"

definition emplace_endpoint :: "discovered_endpoint \<Rightarrow> pcp_state \<Rightarrow> pcp_state" where
  "emplace_endpoint d s = s\<lparr>discovered_endpoints := discovered_endpoints s @ [d]\<rparr>"

definition report_found :: "discovered_endpoint \<Rightarrow> pcp_state \<Rightarrow> pcp_state" where
  "report_found d =
     on_client (OnEndpointFound (de_service_id d) (de_endpoint_id d) (de_endpoint_info d))"

definition Pcp_OnEndpointFound :: "discovered_endpoint \<Rightarrow> pcp_state \<Rightarrow> pcp_state" where
  "Pcp_OnEndpointFound endpoint s =
     (let e = de_endpoint_id endpoint;
          range = equal_range e (discovered_endpoints s)
      in case scan_found (is_dct_enabled (pcp_client s)) endpoint range of
           ScanIgnore \<Rightarrow> s
         | ScanReset \<Rightarrow>
             report_found endpoint
               (StopEndpointLostByMediumAlarm e (de_medium endpoint)
                 (emplace_endpoint endpoint
                   (erase_endpoints e
                     (on_client (OnEndpointLost (de_service_id endpoint) e) s))))
         | ScanEnd \<Rightarrow>
             let s1 = emplace_endpoint endpoint s
             in if range = [] then report_found endpoint s1 else s1)"

text \<open>Erasing the first entry of the endpoint on that medium.\<close>

fun remove_entry :: "string \<Rightarrow> Medium \<Rightarrow> discovered_endpoint list \<Rightarrow> discovered_endpoint list" where
  "remove_entry e m [] = []"
| "remove_entry e m (d # ds) =
     (if de_endpoint_id d = e \<and> de_medium d = m then ds else d # remove_entry e m ds)"

definition Pcp_OnEndpointLost :: "discovered_endpoint \<Rightarrow> pcp_state \<Rightarrow> pcp_state" where
  "Pcp_OnEndpointLost endpoint s =
     (let e = de_endpoint_id endpoint;
          range = equal_range e (discovered_endpoints s)
      in if list_ex (\<lambda>d. de_medium d = de_medium endpoint) range
         then
           let s1 = (if length range = 1
                     then on_client (OnEndpointLost (de_service_id endpoint) e) s else s)
           in s1\<lparr>discovered_endpoints :=
                   remove_entry e (de_medium endpoint) (discovered_endpoints s1)\<rparr>
         else s)"

text \<open>\<open>OnInstantLost\<close>: the endpoint on every medium on which it has that info.\<close>

definition OnInstantLost :: "Medium list \<Rightarrow> string \<Rightarrow> bytes \<Rightarrow> pcp_state \<Rightarrow> pcp_state" where
  "OnInstantLost mediums e info s =
     fold (\<lambda>d s. if de_endpoint_info d = info then Pcp_OnEndpointLost d s else s)
       (GetDiscoveredEndpoints mediums e s) s"

text \<open>
  The alarm of an endpoint and a medium goes off.  It refers to the entry it was started for
  by a plain pointer; when that entry is gone, the pointer dangles.
\<close>

definition lost_alarm_fires :: "string \<Rightarrow> Medium \<Rightarrow> pcp_state \<Rightarrow> pcp_state" where
  "lost_alarm_fires e m s =
     (case map_of (endpoint_lost_by_medium_alarms s) (e, m) of
        None \<Rightarrow> s
      | Some object \<Rightarrow>
          let s1 = StopEndpointLostByMediumAlarm e m s
          in case find (\<lambda>d. de_object d = object) (discovered_endpoints s1) of
               None \<Rightarrow> pcp_crash s1
             | Some d \<Rightarrow> Pcp_OnEndpointLost d s1)"

section \<open>Entries added by a connection request\<close>

text \<open>\<open>object\<close> is the new object; \<open>valid\<close>: a Bluetooth device exists for the address.\<close>

definition AppendRemoteBluetoothMacAddressEndpoint ::
  "string \<Rightarrow> nat \<Rightarrow> bool \<Rightarrow> bool \<Rightarrow> pcp_state \<Rightarrow> bool \<times> pcp_state" where
  "AppendRemoteBluetoothMacAddressEndpoint e object valid allowed_bluetooth s =
     (if \<not> allowed_bluetooth then (False, s)
      else case equal_range e (discovered_endpoints s) of
        [] \<Rightarrow> (False, s)
      | d # ds \<Rightarrow>
          if list_ex (\<lambda>x. de_medium x = BLUETOOTH) (d # ds) then (False, s)
          else if \<not> valid then (False, s)
          else (True, emplace_endpoint
                 \<lparr>de_object = object, de_endpoint_id = e, de_endpoint_info = de_endpoint_info d,
                  de_service_id = de_service_id d, de_medium = BLUETOOTH,
                  de_web_rtc_state = kUnconnectable\<rparr> s))"

definition AppendWebRTCEndpoint :: "string \<Rightarrow> nat \<Rightarrow> bool \<Rightarrow> pcp_state \<Rightarrow> bool \<times> pcp_state" where
  "AppendWebRTCEndpoint e object allowed_web_rtc s =
     (if \<not> allowed_web_rtc then (False, s)
      else case equal_range e (discovered_endpoints s) of
        [] \<Rightarrow> (False, s)
      | d # ds \<Rightarrow>
          if \<not> list_ex (\<lambda>x. de_web_rtc_state x \<noteq> kUnconnectable) (d # ds) then (False, s)
          else (True, emplace_endpoint
                 \<lparr>de_object = object, de_endpoint_id = e, de_endpoint_info = de_endpoint_info d,
                  de_service_id = de_service_id d, de_medium = WEB_RTC,
                  de_web_rtc_state = kConnectable\<rparr> s))"

section \<open>Lemmas on the order\<close>

definition medium_rank :: "Medium list \<Rightarrow> Medium \<Rightarrow> nat" where
  "medium_rank ms m = length (takeWhile (\<lambda>x. x \<noteq> m) ms)"

lemma IsPreferred_rank:
  "IsPreferred ms a b \<longleftrightarrow> medium_rank ms (de_medium a) < medium_rank ms (de_medium b)"
  by (induction ms) (auto simp: IsPreferred_def medium_rank_def)

lemma mset_insert_preferred: "mset (insert_preferred ms d xs) = {#d#} + mset xs"
  by (induction xs) auto

lemma sorted_insert_preferred:
  "sorted_wrt (\<lambda>a b. medium_rank ms (de_medium a) \<le> medium_rank ms (de_medium b)) xs \<Longrightarrow>
   sorted_wrt (\<lambda>a b. medium_rank ms (de_medium a) \<le> medium_rank ms (de_medium b))
     (insert_preferred ms d xs)"
proof (induction xs)
  case (Cons x xs)
  have "set (insert_preferred ms d xs) = insert d (set xs)"
    by (metis mset_insert_preferred set_mset_add_mset_insert set_mset_mset add_mset_add_single add.commute)
  with Cons show ?case
    by (fastforce simp: IsPreferred_rank)
qed simp

lemma GetDiscoveredEndpoints_mset:
  "mset (GetDiscoveredEndpoints ms e s) = mset (equal_range e (discovered_endpoints s))"
proof -
  have "mset (foldr (insert_preferred ms) xs []) = mset xs" for xs
    by (induction xs) (simp_all add: mset_insert_preferred)
  then show ?thesis
    by (simp add: GetDiscoveredEndpoints_def)
qed

lemma GetDiscoveredEndpoints_sorted:
  "sorted_wrt (\<lambda>a b. medium_rank ms (de_medium a) \<le> medium_rank ms (de_medium b))
     (GetDiscoveredEndpoints ms e s)"
proof -
  have "sorted_wrt (\<lambda>a b. medium_rank ms (de_medium a) \<le> medium_rank ms (de_medium b))
      (foldr (insert_preferred ms) xs [])" for xs
    by (induction xs) (simp_all add: sorted_insert_preferred)
  then show ?thesis
    by (simp add: GetDiscoveredEndpoints_def)
qed

end
