(* ===== verification/Topology.thy ===== *)
theory Topology
  imports Discovered_Endpoints
begin

text \<open>
  What the three kinds of handler (p2p_cluster_pcp_handler.cc, p2p_star_pcp_handler.cc,
  p2p_point_to_point_pcp_handler.cc) decide: the mediums to connect over, in order of
  preference, the medium to upgrade to, and whether a further connection fits the topology; and
  how the base handler computes the mediums two devices have in common.

  Which radios are available, and the feature flags read here, are the record \<open>pcp_env\<close>.
\<close>

section \<open>The environment\<close>

datatype pcp_kind = ClusterHandler | StarHandler | PointToPointHandler

record pcp_env =
  env_kind :: pcp_kind
  wifi_lan_available :: bool
  wifi_available :: bool
  wifi_direct_gc_available :: bool
  wifi_hotspot_client_available :: bool
  web_rtc_available :: bool
  bluetooth_available :: bool
  ble_available :: bool
  awdl_available :: bool
  awdl_enabled :: bool
  hotspot_client_enabled :: bool
  role_switch_on_apple :: bool
  wifi_supports_5_ghz :: bool
  wifi_bssid :: string
  wifi_ap_frequency :: int
  wifi_ip_address :: string
  apple_medium_role :: nat
  webrtc_upgrade_allowed :: bool
  discovery_allows_bluetooth :: bool
  discovery_allows_web_rtc :: bool
  default_keep_alive_interval :: int
  default_keep_alive_timeout :: int

section \<open>Mediums by priority\<close>

definition Cluster_GetConnectionMediumsByPriority :: "pcp_env \<Rightarrow> Medium list" where
  "Cluster_GetConnectionMediumsByPriority env =
     (if wifi_lan_available env then [WIFI_LAN] else []) @
     (if web_rtc_available env then [WEB_RTC] else []) @
     (if bluetooth_available env then [BLUETOOTH] else []) @
     (if ble_available env then [BLE] else [])"

definition Star_GetConnectionMediumsByPriority :: "pcp_env \<Rightarrow> Medium list" where
  "Star_GetConnectionMediumsByPriority env =
     (if wifi_lan_available env then [WIFI_LAN] else []) @
     (if wifi_available env \<and> wifi_direct_gc_available env then [WIFI_DIRECT] else []) @
     (if wifi_available env \<and> wifi_hotspot_client_available env then [WIFI_HOTSPOT] else []) @
     (if web_rtc_available env then [WEB_RTC] else []) @
     (if bluetooth_available env then [BLUETOOTH] else []) @
     (if ble_available env then [BLE] else [])"

definition PointToPoint_GetConnectionMediumsByPriority :: "pcp_env \<Rightarrow> Medium list" where
  "PointToPoint_GetConnectionMediumsByPriority env =
     (if awdl_enabled env then if awdl_available env then [AWDL] else [] else []) @
     (if wifi_lan_available env then [WIFI_LAN] else []) @
     (if wifi_available env \<and> wifi_direct_gc_available env then [WIFI_DIRECT] else []) @
     (if wifi_available env \<and> wifi_hotspot_client_available env then [WIFI_HOTSPOT] else []) @
     (if web_rtc_available env then [WEB_RTC] else []) @
     (if bluetooth_available env then [BLUETOOTH] else []) @
     (if ble_available env then [BLE] else [])"

fun mediums_by_priority :: "pcp_kind \<Rightarrow> pcp_env \<Rightarrow> Medium list" where
  "mediums_by_priority ClusterHandler env = Cluster_GetConnectionMediumsByPriority env"
| "mediums_by_priority StarHandler env = Star_GetConnectionMediumsByPriority env"
| "mediums_by_priority PointToPointHandler env = PointToPoint_GetConnectionMediumsByPriority env"

definition GetConnectionMediumsByPriority :: "pcp_env \<Rightarrow> Medium list" where
  "GetConnectionMediumsByPriority env = mediums_by_priority (env_kind env) env"

text \<open>The point-to-point handler inherits the answer of the star handler.\<close>

definition Cluster_GetDefaultUpgradeMedium :: Medium where
  "Cluster_GetDefaultUpgradeMedium = WIFI_LAN"

definition Star_GetDefaultUpgradeMedium :: Medium where
  "Star_GetDefaultUpgradeMedium = WIFI_HOTSPOT"

definition GetDefaultUpgradeMedium :: "pcp_env \<Rightarrow> Medium" where
  "GetDefaultUpgradeMedium env =
     (if env_kind env = ClusterHandler then Cluster_GetDefaultUpgradeMedium
      else Star_GetDefaultUpgradeMedium)"

section \<open>Limits of the topology\<close>

definition HasOutgoingConnections :: "pcp_state \<Rightarrow> bool" where
  "HasOutgoingConnections s \<longleftrightarrow>
     list_ex (\<lambda>(e, p). \<not> pending_is_incoming p) (pending_connections s) \<or>
     GetNumOutgoingConnections (pcp_client s) > 0"

definition HasIncomingConnections :: "pcp_state \<Rightarrow> bool" where
  "HasIncomingConnections s \<longleftrightarrow>
     list_ex (\<lambda>(e, p). pending_is_incoming p) (pending_connections s) \<or>
     GetNumIncomingConnections (pcp_client s) > 0"

definition Base_CanSendOutgoingConnection :: "pcp_state \<Rightarrow> bool" where
  "Base_CanSendOutgoingConnection s = True"

definition Base_CanReceiveIncomingConnection :: "pcp_state \<Rightarrow> bool" where
  "Base_CanReceiveIncomingConnection s = True"

definition Star_CanSendOutgoingConnection :: "pcp_state \<Rightarrow> bool" where
  "Star_CanSendOutgoingConnection s \<longleftrightarrow> \<not> HasOutgoingConnections s \<and> \<not> HasIncomingConnections s"

definition Star_CanReceiveIncomingConnection :: "pcp_state \<Rightarrow> bool" where
  "Star_CanReceiveIncomingConnection s \<longleftrightarrow> \<not> HasOutgoingConnections s"

definition PointToPoint_CanSendOutgoingConnection :: "pcp_state \<Rightarrow> bool" where
  "PointToPoint_CanSendOutgoingConnection s \<longleftrightarrow>
     \<not> HasOutgoingConnections s \<and> \<not> HasIncomingConnections s"

definition PointToPoint_CanReceiveIncomingConnection :: "pcp_state \<Rightarrow> bool" where
  "PointToPoint_CanReceiveIncomingConnection s \<longleftrightarrow>
     \<not> HasOutgoingConnections s \<and> \<not> HasIncomingConnections s"

fun CanSendOutgoingConnection :: "pcp_kind \<Rightarrow> pcp_state \<Rightarrow> bool" where
  "CanSendOutgoingConnection ClusterHandler s = Base_CanSendOutgoingConnection s"
| "CanSendOutgoingConnection StarHandler s = Star_CanSendOutgoingConnection s"
| "CanSendOutgoingConnection PointToPointHandler s = PointToPoint_CanSendOutgoingConnection s"

fun CanReceiveIncomingConnection :: "pcp_kind \<Rightarrow> pcp_state \<Rightarrow> bool" where
  "CanReceiveIncomingConnection ClusterHandler s = Base_CanReceiveIncomingConnection s"
| "CanReceiveIncomingConnection StarHandler s = Star_CanReceiveIncomingConnection s"
| "CanReceiveIncomingConnection PointToPointHandler s = PointToPoint_CanReceiveIncomingConnection s"

section \<open>Mediums in common\<close>

record medium_selector =
  sel_bluetooth :: bool
  sel_ble :: bool
  sel_web_rtc_no_cellular :: bool
  sel_web_rtc :: bool
  sel_wifi_lan :: bool
  sel_wifi_hotspot :: bool
  sel_wifi_direct :: bool
  sel_awdl :: bool

definition selector_GetMediums :: "bool \<Rightarrow> medium_selector \<Rightarrow> Medium list" where
  "selector_GetMediums value m =
     (if sel_awdl m = value then [AWDL] else []) @
     (if sel_wifi_lan m = value then [WIFI_LAN] else []) @
     (if sel_wifi_direct m = value then [WIFI_DIRECT] else []) @
     (if sel_wifi_hotspot m = value then [WIFI_HOTSPOT] else []) @
     (if sel_web_rtc m = value \<and> sel_web_rtc_no_cellular m = value then [WEB_RTC]
      else (if sel_web_rtc m = value then [WEB_RTC] else []) @
           (if sel_web_rtc_no_cellular m = value then [WEB_RTC_NON_CELLULAR] else [])) @
     (if sel_bluetooth m = value then [BLUETOOTH] else []) @
     (if sel_ble m = value then [BLE] else [])"

definition ComputeIntersectionOfSupportedMediums :: "pcp_env \<Rightarrow> pending_connection \<Rightarrow> medium_selector" where
  "ComputeIntersectionOfSupportedMediums env p =
     (let their_mediums = (if pending_supported_mediums p = [] then [GetDefaultUpgradeMedium env]
                           else pending_supported_mediums p);
          intersection = set (filter (\<lambda>m. m \<in> set their_mediums \<and>
              (m = WEB_RTC \<longrightarrow> webrtc_upgrade_allowed env)) (GetConnectionMediumsByPriority env))
      in \<lparr>sel_bluetooth = BLUETOOTH \<in> intersection, sel_ble = BLE \<in> intersection,
          sel_web_rtc_no_cellular = False, sel_web_rtc = WEB_RTC \<in> intersection,
          sel_wifi_lan = WIFI_LAN \<in> intersection, sel_wifi_hotspot = WIFI_HOTSPOT \<in> intersection,
          sel_wifi_direct = WIFI_DIRECT \<in> intersection, sel_awdl = AWDL \<in> intersection\<rparr>)"

definition MediumSupportedByClientOptions :: "Medium \<Rightarrow> connection_options \<Rightarrow> bool" where
  "MediumSupportedByClientOptions m options = (m \<in> set (allowed_mediums options))"

definition GetSupportedConnectionMediumsByPriority :: "pcp_env \<Rightarrow> connection_options \<Rightarrow> Medium list" where
  "GetSupportedConnectionMediumsByPriority env options =
     filter (\<lambda>m. MediumSupportedByClientOptions m options) (GetConnectionMediumsByPriority env)"

definition StripOutWifiHotspotMedium :: "connection_info \<Rightarrow> connection_info" where
  "StripOutWifiHotspotMedium c =
     (if WIFI_LAN \<in> set (info_supported_mediums c)
      then c\<lparr>info_supported_mediums := removeAll WIFI_HOTSPOT (info_supported_mediums c)\<rparr> else c)"

section \<open>Lemmas\<close>

lemma distinct_mediums: "distinct (GetConnectionMediumsByPriority env)"
  by (cases "env_kind env")
    (auto simp: GetConnectionMediumsByPriority_def Cluster_GetConnectionMediumsByPriority_def
      Star_GetConnectionMediumsByPriority_def PointToPoint_GetConnectionMediumsByPriority_def)

lemma mediums_listed:
  "set (GetConnectionMediumsByPriority env) \<subseteq>
     {AWDL, WIFI_LAN, WIFI_DIRECT, WIFI_HOTSPOT, WEB_RTC, BLUETOOTH, BLE}"
  by (cases "env_kind env")
    (auto simp: GetConnectionMediumsByPriority_def Cluster_GetConnectionMediumsByPriority_def
      Star_GetConnectionMediumsByPriority_def PointToPoint_GetConnectionMediumsByPriority_def)

end
