(* ===== verification/Connection_Request.thy ===== *)
theory Connection_Request
  imports Topology Connection_Response
begin

text \<open>
  How a connection comes to be pending and then initiated
  (connections/implementation/base_pcp_handler.cc): requesting a connection, an incoming
  connection and the tie between the two, the end of the key exchange, and disconnection; with
  the parts of \<open>EndpointManager\<close> (endpoint_manager.cc) these tasks run: registering, removing
  and discarding an endpoint.

  The radios are arguments: what connecting to a discovered endpoint returns, whether a write
  succeeds, the frame read from a new channel.  The nonce and the id of the future that a
  caller waits for are arguments too.
\<close>

section \<open>Endpoint manager\<close>

definition channel_events :: "channel_event list \<Rightarrow> pcp_state \<Rightarrow> pcp_state" where
  "channel_events evs s = s\<lparr>pcp_actions := pcp_actions s @ map ChannelEvent evs\<rparr>"

definition unregister_channel :: "string \<Rightarrow> DisconnectionReason \<Rightarrow> pcp_state \<Rightarrow> bool \<times> pcp_state" where
  "unregister_channel e reason s =
     (case UnregisterChannelForEndpoint e reason (pcp_channels s) of
        (m, evs, ok) \<Rightarrow> (ok, channel_events evs (s\<lparr>pcp_channels := m\<rparr>)))"

text \<open>The destructor of an endpoint's state unregisters its channel.\<close>

definition RemoveEndpointState :: "string \<Rightarrow> pcp_state \<Rightarrow> pcp_state" where
  "RemoveEndpointState e s =
     (if e \<in> set (em_endpoints s)
      then snd (unregister_channel e SHUTDOWN (s\<lparr>em_endpoints := removeAll e (em_endpoints s)\<rparr>))
      else s)"

definition RegisterEndpoint ::
  "string \<Rightarrow> bool \<Rightarrow> connection_options \<Rightarrow> endpoint_channel \<Rightarrow> connection_listener \<Rightarrow> string \<Rightarrow>
   pcp_state \<Rightarrow> pcp_state" where
  "RegisterEndpoint e is_incoming options ch listener token s =
     (let s1 = RemoveEndpointState e s;
          s2 = s1\<lparr>pcp_channels :=
                    RegisterChannelForEndpoint (IsSafeToDisconnectEnabled e (pcp_client s1)) e ch
                      (pcp_channels s1),
                  em_endpoints := e # em_endpoints s1\<rparr>
      in on_client (OnConnectionInitiated e is_incoming options listener token) s2)"

section \<open>Failures\<close>

definition ProcessPreConnectionInitiationFailure ::
  "string \<Rightarrow> endpoint_channel option \<Rightarrow> nc_status \<Rightarrow> nat option \<Rightarrow> pcp_state \<Rightarrow> pcp_state" where
  "ProcessPreConnectionInitiationFailure e ch st result s =
     erase_pending e (set_result result st (close_channel ch s))"

definition ProcessTieBreakLoss :: "string \<Rightarrow> pending_connection \<Rightarrow> pcp_state \<Rightarrow> pcp_state" where
  "ProcessTieBreakLoss e p s =
     ProcessPreConnectionResultFailure e True IO_ERROR
       (ProcessPreConnectionInitiationFailure e (pending_channel p) kEndpointIoError
          (pending_result p) s)"

section \<open>Requesting a connection\<close>

definition VerifyConnectionRequest :: "pcp_env \<Rightarrow> string \<Rightarrow> pcp_state \<Rightarrow> nc_status" where
  "VerifyConnectionRequest env e s =
     (if find_pending e s \<noteq> None then kAlreadyConnectedToEndpoint
      else if ShouldEnforceTopologyConstraints (pcp_client s) \<and>
              \<not> CanSendOutgoingConnection (env_kind env) s then kOutOfOrderApiCall
      else kSuccess)"

text \<open>Trying the entries of the endpoint in turn: the last status, and the channel.\<close>

fun connect_first ::
  "(discovered_endpoint \<Rightarrow> nc_status \<times> endpoint_channel option) \<Rightarrow> connection_options \<Rightarrow>
   nc_status \<Rightarrow> discovered_endpoint list \<Rightarrow> nc_status \<times> endpoint_channel option" where
  "connect_first ConnectImpl options st [] = (st, None)"
| "connect_first ConnectImpl options st (d # ds) =
     (if \<not> MediumSupportedByClientOptions (de_medium d) options
      then connect_first ConnectImpl options st ds
      else case ConnectImpl d of
             (st', ch) \<Rightarrow> if st' = kSuccess then (st', ch)
                         else connect_first ConnectImpl options st' ds)"

text \<open>
  What the caller passes, and the outcomes of the platform: \<open>bt_object\<close> and \<open>rtc_object\<close> are the
  entries that may be added, \<open>bt_valid\<close> says whether the address names a device, \<open>write_ok\<close>
  whether the request frame is written.
\<close>

record request_call =
  call_endpoint_info :: bytes
  call_listener :: connection_listener
  call_options :: connection_options
  call_bluetooth_address :: "bytes option"
  call_non_disruptive_hotspot :: bool
  call_result :: nat
  call_nonce :: int
  call_random :: "nat \<Rightarrow> 32 word"
  bt_object :: nat
  bt_valid :: bool
  rtc_object :: nat
  connect_impl :: "discovered_endpoint \<Rightarrow> nc_status \<times> endpoint_channel option"
  write_ok :: bool

definition FillConnectionInfo ::
  "pcp_env \<Rightarrow> request_call \<Rightarrow> client_proxy \<Rightarrow> connection_info \<times> client_proxy" where
  "FillConnectionInfo env call client =
     (case GetLocalEndpointId (call_random call) client of
        (local_id, client') \<Rightarrow>
          let options = call_options call;
              c = \<lparr>info_local_endpoint_id = local_id,
                   info_local_endpoint_info = call_endpoint_info call,
                   info_nonce = call_nonce call,
                   info_supports_5_ghz = wifi_available env \<and> wifi_supports_5_ghz env,
                   info_bssid = (if wifi_available env then wifi_bssid env else []),
                   info_ap_frequency = (if wifi_available env then wifi_ap_frequency env else -1),
                   info_ip_address = (if wifi_available env then wifi_ip_address env else []),
                   info_supported_mediums = GetSupportedConnectionMediumsByPriority env options,
                   info_keep_alive_interval_millis = keep_alive_interval_millis options,
                   info_keep_alive_timeout_millis = keep_alive_timeout_millis options,
                   info_medium_role = (if wifi_available env \<and> role_switch_on_apple env
                                       then Some (apple_medium_role env) else None)\<rparr>
          in (if \<not> hotspot_client_enabled env \<or> call_non_disruptive_hotspot call
              then StripOutWifiHotspotMedium c else c, client'))"

text \<open>Both requests from the discovered endpoint on; they differ in \<open>is_incoming\<close>.\<close>

definition append_entries :: "pcp_env \<Rightarrow> request_call \<Rightarrow> string \<Rightarrow> pcp_state \<Rightarrow> pcp_state" where
  "append_entries env call e s =
     (let s1 = (if call_bluetooth_address call \<noteq> None
                then snd (AppendRemoteBluetoothMacAddressEndpoint e (bt_object call) (bt_valid call)
                            (discovery_allows_bluetooth env) s)
                else s)
      in snd (AppendWebRTCEndpoint e (rtc_object call) (discovery_allows_web_rtc env) s1))"

definition new_pending ::
  "bool \<Rightarrow> request_call \<Rightarrow> bytes \<Rightarrow> endpoint_channel \<Rightarrow> pending_connection" where
  "new_pending is_incoming call info ch =
     \<lparr>pending_is_incoming = is_incoming, pending_nonce = call_nonce call,
      pending_endpoint_info = info, pending_listener = call_listener call,
      pending_options = call_options call, pending_result = Some (call_result call),
      pending_supported_mediums = [], pending_channel = Some ch, pending_ukey2 = None,
      pending_token = []\<rparr>"

text \<open>
  \<open>emplace\<close> keeps an entry that is there; the new information is then destroyed at the end of
  the task.
\<close>

definition emplace_pending :: "string \<Rightarrow> pending_connection \<Rightarrow> pcp_state \<Rightarrow> pcp_state" where
  "emplace_pending e p s =
     (if find_pending e s = None then s\<lparr>pending_connections := pending_connections s @ [(e, p)]\<rparr>
      else s)"

definition pending_channel_id :: "string \<Rightarrow> pcp_state \<Rightarrow> nat option" where
  "pending_channel_id e s =
     (case find_pending e s of None \<Rightarrow> None
      | Some p \<Rightarrow> map_option channel_id (pending_channel p))"

definition request_from ::
  "pcp_env \<Rightarrow> bool \<Rightarrow> request_call \<Rightarrow> string \<Rightarrow> discovered_endpoint \<Rightarrow> pcp_state \<Rightarrow> pcp_state" where
  "request_from env is_incoming call e endpoint s =
     (let result = Some (call_result call);
          s1 = append_entries env call e s
      in case connect_first (connect_impl call) (call_options call) kError
                (GetDiscoveredEndpoints (GetConnectionMediumsByPriority env) e s1) of
           (st, None) \<Rightarrow> ProcessPreConnectionInitiationFailure e None st result s1
         | (st, Some ch) \<Rightarrow>
             (case FillConnectionInfo env call (pcp_client s1) of
                (info, client) \<Rightarrow>
                  let s2 = s1\<lparr>pcp_client := client\<rparr>
                  in if \<not> write_ok call
                     then ProcessPreConnectionInitiationFailure e (Some ch) kEndpointIoError result s2
                     else
                       let s3 = act (WroteConnectionRequest e info) s2;
                           p = new_pending is_incoming call (de_endpoint_info endpoint) ch;
                           s4 = emplace_pending e p s3;
                           s5 = act (StartEncryptionClient e (pending_channel_id e s4)) s4
                       in if find_pending e s3 = None then s5 else destroy_pending p s5))"

definition RequestConnection :: "pcp_env \<Rightarrow> request_call \<Rightarrow> string \<Rightarrow> pcp_state \<Rightarrow> pcp_state" where
  "RequestConnection env call e s =
     (case GetDiscoveredEndpoint e s of
        None \<Rightarrow> set_result (Some (call_result call)) kEndpointUnknown s
      | Some endpoint \<Rightarrow> request_from env False call e endpoint s)"

definition RequestConnectionV3 :: "pcp_env \<Rightarrow> request_call \<Rightarrow> string \<Rightarrow> pcp_state \<Rightarrow> pcp_state" where
  "RequestConnectionV3 env call e s =
     (let st = VerifyConnectionRequest env e s
      in if st \<noteq> kSuccess then set_result (Some (call_result call)) st s
         else case GetDiscoveredEndpoint e s of
                None \<Rightarrow> set_result (Some (call_result call)) kEndpointUnknown s
              | Some endpoint \<Rightarrow> request_from env True call e endpoint s)"

section \<open>Incoming connections\<close>

datatype device_type = ConnectionsDevice | PresenceDevice | UnknownDevice

record connection_request_frame =
  req_endpoint_id :: string
  req_endpoint_info :: "bytes option"
  req_endpoint_name :: bytes
  req_nonce :: int
  req_has_connections_device :: bool
  req_has_presence_device :: bool
  req_keep_alive_interval :: "int option"
  req_keep_alive_timeout :: "int option"
  req_mediums :: "Medium list"
  req_supports_5_ghz :: bool
  req_bssid :: string
  req_ap_frequency :: int
  req_ip_address :: string
  req_medium_role :: "nat option"

definition BreakTie :: "string \<Rightarrow> int \<Rightarrow> endpoint_channel \<Rightarrow> pcp_state \<Rightarrow> bool \<times> pcp_state" where
  "BreakTie e incoming_nonce ch s =
     (case find_pending e s of
        None \<Rightarrow> (False, s)
      | Some p \<Rightarrow>
          if pending_nonce p > incoming_nonce then (True, close_channel (Some ch) s)
          else if pending_nonce p < incoming_nonce then (False, ProcessTieBreakLoss e p s)
          else (True, ProcessTieBreakLoss e p (close_channel (Some ch) s)))"

definition incoming_device_type :: "connection_request_frame \<Rightarrow> device_type" where
  "incoming_device_type f =
     (if req_has_connections_device f then ConnectionsDevice
      else if req_has_presence_device f then PresenceDevice else ConnectionsDevice)"

definition incoming_options :: "pcp_env \<Rightarrow> connection_request_frame \<Rightarrow> connection_options" where
  "incoming_options env f =
     (let (interval, timeout) =
            (case (req_keep_alive_interval f, req_keep_alive_timeout f) of
               (Some i, Some t) \<Rightarrow> (i, t) | _ \<Rightarrow> (0, 0));
          (interval', timeout') =
            (if interval = 0 \<or> timeout = 0 \<or> interval \<ge> timeout
             then (default_keep_alive_interval env, default_keep_alive_timeout env)
             else (interval, timeout))
      in \<lparr>allowed_mediums = [], supports_5_ghz = req_supports_5_ghz f, bssid = req_bssid f,
          ap_frequency = req_ap_frequency f, ip_address = req_ip_address f,
          medium_role = req_medium_role f, keep_alive_interval_millis = interval',
          keep_alive_timeout_millis = timeout'\<rparr>)"

definition incoming_pending ::
  "pcp_env \<Rightarrow> connection_request_frame \<Rightarrow> endpoint_channel \<Rightarrow> pcp_state \<Rightarrow> pending_connection" where
  "incoming_pending env f ch s =
     \<lparr>pending_is_incoming = True, pending_nonce = req_nonce f,
      pending_endpoint_info = (case req_endpoint_info f of Some i \<Rightarrow> i | None \<Rightarrow> req_endpoint_name f),
      pending_listener = GetAdvertisingOrIncomingConnectionListener (pcp_client s),
      pending_options = incoming_options env f, pending_result = None,
      pending_supported_mediums = req_mediums f, pending_channel = Some ch,
      pending_ukey2 = None, pending_token = []\<rparr>"

text \<open>
  \<open>frame\<close> is what \<open>ReadConnectionRequestFrame\<close> returns.  The result is whether the exception
  returned is \<open>kSuccess\<close>.
\<close>

definition OnIncomingConnection ::
  "pcp_env \<Rightarrow> device_type \<Rightarrow> endpoint_channel \<Rightarrow> connection_request_frame option \<Rightarrow> pcp_state \<Rightarrow>
   bool \<times> pcp_state" where
  "OnIncomingConnection env listening_device_type ch frame s =
     (if \<not> IsAdvertising (pcp_client s) \<and> \<not> IsListeningForIncomingConnections (pcp_client s)
      then (False, s)
      else case frame of
        None \<Rightarrow> (False, ProcessPreConnectionInitiationFailure [] (Some ch) kError None s)
      | Some f \<Rightarrow>
          let e = req_endpoint_id f in
          if IsConnectedToEndpoint e (pcp_client s) then (False, s)
          else case BreakTie e (req_nonce f) ch s of
            (True, s1) \<Rightarrow> (True, s1)
          | (False, s1) \<Rightarrow>
              if ShouldEnforceTopologyConstraints (pcp_client s1) \<and>
                 \<not> CanReceiveIncomingConnection (env_kind env) s1 then (False, s1)
              else if listening_device_type \<noteq> incoming_device_type f then (False, s1)
              else
                let s2 = emplace_pending e (incoming_pending env f ch s1) s1
                in (True, act (StartEncryptionServer e (pending_channel_id e s2)) s2))"

section \<open>The end of the key exchange\<close>

text \<open>\<open>ukey2\<close> is \<open>None\<close> for a null pointer.  A moved channel is dereferenced by its registration.\<close>

definition RegisterDeviceAfterEncryptionSuccess ::
  "pcp_env \<Rightarrow> string \<Rightarrow> bool option \<Rightarrow> string \<Rightarrow> pending_connection \<Rightarrow> pcp_state \<Rightarrow> pcp_state" where
  "RegisterDeviceAfterEncryptionSuccess env e ukey2 token p s =
     (case pending_channel p of
        None \<Rightarrow> pcp_crash s
      | Some ch \<Rightarrow>
          let options = (pending_options p)\<lparr>allowed_mediums :=
                selector_GetMediums True (ComputeIntersectionOfSupportedMediums env p)\<rparr>;
              s1 = write_pending e (\<lambda>p. p\<lparr>pending_ukey2 := ukey2, pending_token := token,
                                          pending_channel := None\<rparr>) s;
              s2 = RegisterEndpoint e (pending_is_incoming p) options ch (pending_listener p) token s1
          in write_pending e (\<lambda>p. p\<lparr>pending_result := None\<rparr>)
               (set_result (pending_result p) kSuccess s2))"

definition OnEncryptionSuccessRunnable ::
  "pcp_env \<Rightarrow> string \<Rightarrow> bool option \<Rightarrow> string \<Rightarrow> pcp_state \<Rightarrow> pcp_state" where
  "OnEncryptionSuccessRunnable env e ukey2 token s =
     (case find_pending e s of
        None \<Rightarrow> s
      | Some p \<Rightarrow>
          if ukey2 = None
          then ProcessPreConnectionInitiationFailure e (pending_channel p) kEndpointIoError
                 (pending_result p) s
          else RegisterDeviceAfterEncryptionSuccess env e ukey2 token p s)"

text \<open>The authentication by the device provider only changes a field that is passed on.\<close>

definition OnEncryptionSuccessRunnableV3 ::
  "pcp_env \<Rightarrow> string \<Rightarrow> bool option \<Rightarrow> string \<Rightarrow> pcp_state \<Rightarrow> pcp_state" where
  "OnEncryptionSuccessRunnableV3 env e ukey2 token s =
     (case find_pending e s of
        None \<Rightarrow> s
      | Some p \<Rightarrow>
          if ukey2 = None
          then ProcessPreConnectionInitiationFailure e (pending_channel p) kEndpointIoError
                 (pending_result p) s
          else if \<not> pending_is_incoming p then s
          else RegisterDeviceAfterEncryptionSuccess env e ukey2 token p s)"

definition OnEncryptionFailureRunnable :: "string \<Rightarrow> endpoint_channel \<Rightarrow> pcp_state \<Rightarrow> pcp_state" where
  "OnEncryptionFailureRunnable e ch s =
     (case find_pending e s of
        None \<Rightarrow> s
      | Some p \<Rightarrow>
          (case pending_channel p of
             None \<Rightarrow> pcp_crash s
           | Some c \<Rightarrow>
               if \<not> same_channel ch c then s
               else ProcessPreConnectionInitiationFailure e (Some c) kEndpointIoError
                      (pending_result p) s))"

section \<open>Disconnection\<close>

text \<open>The delayed close of a rejected connection.\<close>

definition rejected_close_fires :: "string \<Rightarrow> pcp_state \<Rightarrow> pcp_state" where
  "rejected_close_fires e s =
     (if e \<in> set (pending_alarms s) then discard_endpoint e UNFINISHED s else s)"

definition OnEndpointDisconnect :: "string \<Rightarrow> DisconnectionReason \<Rightarrow> pcp_state \<Rightarrow> pcp_state" where
  "OnEndpointDisconnect e reason s =
     ProcessPreConnectionResultFailure e False reason
       (s\<lparr>pending_alarms := removeAll e (pending_alarms s)\<rparr>)"

text \<open>
  \<open>ApplySafeToDisconnect\<close>: \<open>waited\<close> is \<open>None\<close> when the endpoint has no entry to wait on, else what
  \<open>IsSafeToDisconnect\<close> says after the wait.
\<close>

definition ApplySafeToDisconnect ::
  "endpoint_channel \<Rightarrow> DisconnectionReason \<Rightarrow> bool \<Rightarrow> bool option \<Rightarrow> bool \<times> channel_event list" where
  "ApplySafeToDisconnect ch reason disconnection_written waited =
     (if reason \<in> {UPGRADED, SHUTDOWN, PREV_CHANNEL_DISCONNECTION_IN_RECONNECT, UNFINISHED}
      then (True, [])
      else if reason = IO_ERROR then (False, [])
      else
        let is_safe = reason \<in> {LOCAL_DISCONNECTION, REMOTE_DISCONNECTION};
            send = reason \<noteq> REMOTE_DISCONNECTION;
            evs = (if send then [ChResume (channel_id ch), ChWriteDisconnection (channel_id ch)] else [])
        in if send \<and> \<not> disconnection_written then (is_safe, evs)
           else case waited of None \<Rightarrow> (is_safe, evs) | Some safe \<Rightarrow> (is_safe \<or> safe, evs))"

definition RemoveEndpoint_task ::
  "string \<Rightarrow> bool \<Rightarrow> DisconnectionReason \<Rightarrow> bool \<Rightarrow> bool option \<Rightarrow> pcp_state \<Rightarrow> pcp_state" where
  "RemoveEndpoint_task e notify_client reason disconnection_written waited s =
     (let s1 = (case GetChannelForEndpoint e (pcp_channels s) of
                  None \<Rightarrow> s
                | Some ch \<Rightarrow>
                    if IsSafeToDisconnectEnabled e (pcp_client s)
                    then channel_events (snd (ApplySafeToDisconnect ch reason disconnection_written waited)) s
                    else s)
      in case unregister_channel e reason s1 of
           (ok, s2) \<Rightarrow>
             RemoveEndpointState e
               (if ok then on_client (OnDisconnected e notify_client) (OnEndpointDisconnect e reason s2) else s2))"

text \<open>The tasks that \<open>DiscardEndpoint\<close> and \<open>UnregisterEndpoint\<close> post.\<close>

definition DiscardEndpoint_task ::
  "string \<Rightarrow> DisconnectionReason \<Rightarrow> bool \<Rightarrow> bool option \<Rightarrow> pcp_state \<Rightarrow> pcp_state" where
  "DiscardEndpoint_task e reason disconnection_written waited s =
     RemoveEndpoint_task e (IsConnectedToEndpoint e (pcp_client s)) reason disconnection_written waited s"

definition UnregisterEndpoint_task :: "string \<Rightarrow> bool \<Rightarrow> bool option \<Rightarrow> pcp_state \<Rightarrow> pcp_state" where
  "UnregisterEndpoint_task e disconnection_written waited s =
     RemoveEndpoint_task e (IsConnectedToEndpoint e (pcp_client s)) LOCAL_DISCONNECTION
       disconnection_written waited s"

end
