(* ===== verification/Request_Lemmas.thy ===== *)
theory Request_Lemmas
  imports Connection_Request
begin

text \<open>
  Two relations that every task of the handler keeps between the state before and after it: the
  endpoints that are pending or connected do not grow (\<open>settles\<close>), and no caller that waits for an
  answer is forgotten (\<open>keeps_promises\<close>).
\<close>

unbundle bit_operations_syntax

section \<open>Which endpoints a client is connected to\<close>

definition conn_live :: "client_proxy \<Rightarrow> string set" where
  "conn_live c = {e. \<exists>x. (e, x) \<in> set (connections c) \<and> conn_status x = kStatusConnected}"

text \<open>What decides whether the topology is enforced.\<close>

definition lifecycle :: "client_proxy \<Rightarrow> string \<times> lifecycle_options \<times> string \<times> lifecycle_options" where
  "lifecycle c = (advertising_service_id c, advertising_options c, listening_service_id c,
     listening_options c)"

definition client_settles :: "client_proxy \<Rightarrow> client_proxy \<Rightarrow> bool" where
  "client_settles c c' \<longleftrightarrow> conn_live c' \<subseteq> conn_live c \<and> lifecycle c' = lifecycle c"

lemma client_settles_refl [simp]: "client_settles c c"
  by (simp add: client_settles_def)

lemma client_settles_trans: "client_settles a b \<Longrightarrow> client_settles b c \<Longrightarrow> client_settles a c"
  by (auto simp: client_settles_def)

lemma client_settles_same:
  "connections c' = connections c \<Longrightarrow> lifecycle c' = lifecycle c \<Longrightarrow> client_settles c c'"
  by (simp add: client_settles_def conn_live_def)

lemma IsConnected_live: "IsConnectedToEndpoint e c \<Longrightarrow> e \<in> conn_live c"
  by (auto simp: IsConnectedToEndpoint_def ConnectionStatusMatches_def LookupConnection_def
      conn_live_def split: option.splits dest!: map_of_SomeD)

lemma no_connections_live:
  "GetNumOutgoingConnections c = 0 \<and> GetNumIncomingConnections c = 0 \<longleftrightarrow> conn_live c = {}"
  by (auto simp: GetNumOutgoingConnections_def GetNumIncomingConnections_def GetMatchingEndpoints_def
      conn_live_def filter_empty_conv)

lemma lifecycle_decides:
  "lifecycle c' = lifecycle c \<Longrightarrow>
   ShouldEnforceTopologyConstraints c' = ShouldEnforceTopologyConstraints c \<and>
   IsAdvertising c' = IsAdvertising c \<and>
   IsListeningForIncomingConnections c' = IsListeningForIncomingConnections c"
  by (auto simp: lifecycle_def ShouldEnforceTopologyConstraints_def IsAdvertising_def
      IsListeningForIncomingConnections_def)

lemma lifecycle_fields [simp]:
  "lifecycle (notify ev c) = lifecycle c"
  "lifecycle (write_connection e f c) = lifecycle c"
  "lifecycle (c\<lparr>connections := x1\<rparr>) = lifecycle c"
  "lifecycle (c\<lparr>local_endpoint_id := x2\<rparr>) = lifecycle c"
  "lifecycle (c\<lparr>cached_endpoint_id_alarm := x3\<rparr>) = lifecycle c"
  "lifecycle (c\<lparr>cancellation_flags := x4\<rparr>) = lifecycle c"
  "lifecycle (c\<lparr>discovered_endpoint_ids := x5\<rparr>) = lifecycle c"
  by (simp_all add: lifecycle_def notify_def write_connection_def)

lemma settles_notify: "client_settles c (notify ev c)"
  by (rule client_settles_same) simp_all

lemma settles_write:
  assumes "\<And>x. conn_status (f x) = kStatusConnected \<Longrightarrow> conn_status x = kStatusConnected"
  shows "client_settles c (write_connection e f c)"
  using assms by (auto simp: client_settles_def conn_live_def write_connection_def lifecycle_def
      split: if_splits)

lemma no_answer_is_connected:
  "w OR kLocalEndpointAccepted \<noteq> kStatusConnected" "w OR kLocalEndpointRejected \<noteq> kStatusConnected"
  "w OR kRemoteEndpointAccepted \<noteq> kStatusConnected" "w OR kRemoteEndpointRejected \<noteq> kStatusConnected"
  using status_append(1) [of w 0] status_append(2) [of w 1] status_append(3) [of w 2]
    status_append(4) [of w 3] status_append(5) by auto

lemma settles_answers:
  "client_settles c (LocalEndpointAcceptedConnection e l c)"
  "client_settles c (LocalEndpointRejectedConnection e c)"
  "client_settles c (RemoteEndpointAcceptedConnection e c)"
  "client_settles c (RemoteEndpointRejectedConnection e c)"
proof -
  have append: "client_settles c (AppendConnectionStatus e st c)"
    if "\<And>w. w OR st \<noteq> kStatusConnected" for st
    using that unfolding AppendConnectionStatus_def by (intro settles_write) simp
  have listener: "client_settles t (write_connection e (\<lambda>c. c\<lparr>conn_payload_listener := l\<rparr>) t)" for t
    by (rule settles_write) simp
  show "client_settles c (LocalEndpointAcceptedConnection e l c)"
    using append [OF no_answer_is_connected(1)] listener
    by (auto simp: LocalEndpointAcceptedConnection_def intro: client_settles_trans)
  show "client_settles c (LocalEndpointRejectedConnection e c)"
    using append [OF no_answer_is_connected(2)] by (simp add: LocalEndpointRejectedConnection_def)
  show "client_settles c (RemoteEndpointAcceptedConnection e c)"
    using append [OF no_answer_is_connected(3)] by (simp add: RemoteEndpointAcceptedConnection_def)
  show "client_settles c (RemoteEndpointRejectedConnection e c)"
    using append [OF no_answer_is_connected(4)] by (simp add: RemoteEndpointRejectedConnection_def)
qed

lemma settles_remote:
  "client_settles c (SetRemoteOsInfo e os c)"
  "client_settles c (SetRemoteMultiplexSocketBitmask e m c)"
  "client_settles c (SetRemoteSafeToDisconnectVersion e v c)"
  by (auto simp: SetRemoteOsInfo_def SetRemoteMultiplexSocketBitmask_def
      SetRemoteSafeToDisconnectVersion_def intro: settles_write)

lemma settles_flags:
  "client_settles c (AddCancellationFlag e c)" "client_settles c (CancelEndpoint e c)"
  by (auto simp: AddCancellationFlag_def CancelEndpoint_def set_flag_def
      split: option.splits intro: client_settles_same)

lemma settles_ids:
  "client_settles c (OnSessionComplete c)" "client_settles c (ScheduleClearCachedEndpointIdAlarm c)"
  "client_settles c (snd (GetLocalEndpointId rnd c))"
  by (auto simp: OnSessionComplete_def ScheduleClearCachedEndpointIdAlarm_def
      CancelClearCachedEndpointIdAlarm_def GetLocalEndpointId_def Let_def intro: client_settles_same)

lemma settles_fewer: "client_settles c (c\<lparr>connections := filter P (connections c)\<rparr>)"
  by (auto simp: client_settles_def conn_live_def)

lemma settles_Disconnected: "client_settles c (OnDisconnected e b c)"
proof -
  let ?n = "\<lambda>x. if b then notify (CbDisconnected (listener_target c (conn_listener x)) e) c else c"
  have "client_settles c (OnSessionComplete
      (?n x\<lparr>connections := filter P (connections (?n x))\<rparr>))" for x P
  proof -
    have "client_settles c (?n x)"
      by (simp add: settles_notify)
    from client_settles_trans [OF this settles_fewer]
    show ?thesis by (rule client_settles_trans) (rule settles_ids)
  qed
  then have s1: "client_settles c (case LookupConnection e c of None \<Rightarrow> c
      | Some x \<Rightarrow> OnSessionComplete (?n x\<lparr>connections := filter (\<lambda>(k, _). k \<noteq> e) (connections (?n x))\<rparr>))"
    by (cases "LookupConnection e c") (simp_all only: option.case client_settles_refl)
  from client_settles_trans [OF s1 settles_flags(2)] show ?thesis
    unfolding OnDisconnected_def Let_def
    by (auto intro: client_settles_trans [OF _ settles_ids(2)])
qed

lemma settles_Rejected: "client_settles c (OnConnectionRejected e st c)"
  by (auto simp: OnConnectionRejected_def split: option.splits
      intro: client_settles_trans [OF settles_notify settles_Disconnected])

lemma settles_Initiated: "client_settles c (OnConnectionInitiated e b opts l tok c)"
proof -
  have pending: "kPending \<noteq> kStatusConnected"
    using status_append(5) [of 4] status_append(6) [of 4] by auto
  let ?s1 = "case LookupConnection e c of
      None \<Rightarrow> c\<lparr>connections := connections c @ [(e, new_connection b opts l tok)]\<rparr> | Some _ \<Rightarrow> c"
  have "client_settles c ?s1"
    using pending by (auto simp: client_settles_def conn_live_def new_connection_def split: option.splits)
  from client_settles_trans [OF this settles_notify]
  have "client_settles c (notify ev ?s1)" for ev .
  then show ?thesis
    unfolding OnConnectionInitiated_def Let_def
    by (auto intro: client_settles_trans [OF _ settles_flags(1)])
qed

lemma settles_Bandwidth: "client_settles c (OnBandwidthChanged e m c)"
proof -
  have "client_settles c (write_connection e (\<lambda>c. c\<lparr>conn_connected_medium := m\<rparr>) c)"
    by (rule settles_write) simp
  then show ?thesis
    by (auto simp: OnBandwidthChanged_def split: option.splits
        intro: client_settles_trans [OF _ settles_notify])
qed

lemma settles_found:
  "client_settles c (OnEndpointFound svc e i c)" "client_settles c (OnEndpointLost svc e c)"
  by (auto simp: OnEndpointFound_def OnEndpointLost_def notify_def lifecycle_def
      intro!: client_settles_same)

lemma live_Accepted:
  "conn_live (OnConnectionAccepted e c) \<subseteq> insert e (conn_live c)"
  "lifecycle (OnConnectionAccepted e c) = lifecycle c"
  by (auto simp: OnConnectionAccepted_def conn_live_def write_connection_def notify_def
      lifecycle_def split: option.splits if_splits)

section \<open>The handler's endpoints\<close>

definition live :: "pcp_state \<Rightarrow> string set" where
  "live s = fst ` set (pending_connections s) \<union> conn_live (pcp_client s)"

definition settles :: "pcp_state \<Rightarrow> pcp_state \<Rightarrow> bool" where
  "settles s s' \<longleftrightarrow> live s' \<subseteq> live s \<and> lifecycle (pcp_client s') = lifecycle (pcp_client s)"

lemma settles_refl [simp]: "settles s s"
  by (simp add: settles_def)

lemma settles_trans: "settles a b \<Longrightarrow> settles b c \<Longrightarrow> settles a c"
  by (auto simp: settles_def)

lemma settles_when:
  "fst ` set (pending_connections s') \<subseteq> fst ` set (pending_connections s) \<Longrightarrow>
   client_settles (pcp_client s) (pcp_client s') \<Longrightarrow> settles s s'"
  by (auto simp: settles_def live_def client_settles_def)

lemma pending_keys [simp]:
  "fst ` set (pending_connections (write_pending e f s)) = fst ` set (pending_connections s)"
  "pcp_client (write_pending e f s) = pcp_client s"
  by (force simp: write_pending_def)+

lemma extract_keys:
  "fst ` set (pending_connections (extract_pending e s)) = fst ` set (pending_connections s) - {e}"
  by (force simp: extract_pending_def)

lemma erase_keys:
  "fst ` set (pending_connections (erase_pending e s)) \<subseteq> fst ` set (pending_connections s)"
  by (auto simp: erase_pending_def extract_keys split: option.splits)

lemma settles_on_client: "(\<And>c. client_settles c (f c)) \<Longrightarrow> settles s (on_client f s)"
  by (rule settles_when) simp_all

lemma settles_on:
  "settles s (on_client (OnConnectionRejected e st) s)"
  "settles s (on_client (OnConnectionInitiated e b opts l tok) s)"
  "settles s (on_client (OnDisconnected e b) s)"
  "settles s (on_client (OnBandwidthChanged e m) s)"
  "settles s (on_client (LocalEndpointAcceptedConnection e pl) s)"
  "settles s (on_client (LocalEndpointRejectedConnection e) s)"
  "settles s (on_client (RemoteEndpointAcceptedConnection e) s)"
  "settles s (on_client (RemoteEndpointRejectedConnection e) s)"
  "settles s (on_client (SetRemoteOsInfo e os) s)"
  "settles s (on_client (SetRemoteMultiplexSocketBitmask e bm) s)"
  "settles s (on_client (SetRemoteSafeToDisconnectVersion e v) s)"
  "settles s (on_client (OnEndpointFound svc e i) s)"
  "settles s (on_client (OnEndpointLost svc e) s)"
  by (rule settles_on_client; rule settles_Rejected settles_Initiated settles_Disconnected
      settles_Bandwidth settles_answers settles_remote settles_found)+

lemma settles_extract: "settles s (extract_pending e s)"
  by (rule settles_when) (auto simp: extract_keys)

lemma settles_erase: "settles s (erase_pending e s)"
  by (rule settles_when) (simp_all add: erase_keys)

lemma settles_small:
  "settles s (act a s)" "settles s (set_result r st s)" "settles s (close_channel ch s)"
  "settles s (destroy_pending p s)" "settles s (write_pending e f s)"
  "settles s (discard_endpoint e reason s)" "settles s (pcp_crash s)" "settles s (channel_events evs s)"
  by (rule settles_when; simp add: pcp_crash_def channel_events_def)+

lemma settles_fields:
  "pending_connections s' = pending_connections s \<Longrightarrow> pcp_client s' = pcp_client s \<Longrightarrow> settles s s'"
  by (rule settles_when) simp_all

section \<open>Promises to callers\<close>

definition distinct_pending :: "pcp_state \<Rightarrow> bool" where
  "distinct_pending s \<longleftrightarrow> distinct (map fst (pending_connections s))"

definition attached :: "nat \<Rightarrow> pcp_state \<Rightarrow> bool" where
  "attached i s \<longleftrightarrow> map_of (pcp_results s) i \<noteq> None \<or>
     (\<exists>k p. (k, p) \<in> set (pending_connections s) \<and> pending_result p = Some i)"

definition keeps_promises :: "pcp_state \<Rightarrow> pcp_state \<Rightarrow> bool" where
  "keeps_promises s s' \<longleftrightarrow> (distinct_pending s \<longrightarrow>
     distinct_pending s' \<and> (\<forall>i. attached i s \<longrightarrow> attached i s'))"

definition same_pending :: "pcp_state \<Rightarrow> pcp_state \<Rightarrow> bool" where
  "same_pending s s' \<longleftrightarrow> pending_connections s' = pending_connections s \<and>
     (\<forall>i. map_of (pcp_results s) i \<noteq> None \<longrightarrow> map_of (pcp_results s') i \<noteq> None)"

lemma keeps_refl [simp]: "keeps_promises s s"
  by (simp add: keeps_promises_def)

lemma keeps_trans: "keeps_promises a b \<Longrightarrow> keeps_promises b c \<Longrightarrow> keeps_promises a c"
  by (simp add: keeps_promises_def)

lemma same_refl [simp]: "same_pending s s"
  by (simp add: same_pending_def)

lemma same_trans: "same_pending a b \<Longrightarrow> same_pending b c \<Longrightarrow> same_pending a c"
  by (simp add: same_pending_def)

lemma same_keeps: "same_pending s s' \<Longrightarrow> keeps_promises s s'"
  by (auto simp: same_pending_def keeps_promises_def distinct_pending_def attached_def)

lemma same_fields:
  "pending_connections s' = pending_connections s \<Longrightarrow> pcp_results s' = pcp_results s \<Longrightarrow>
   same_pending s s'"
  by (simp add: same_pending_def)

lemma same_set_result: "same_pending s (set_result r st s)"
  using set_result_keeps [of s] by (fastforce simp: same_pending_def)

lemma same_small:
  "same_pending s (act a s)" "same_pending s (on_client f s)" "same_pending s (close_channel ch s)"
  "same_pending s (discard_endpoint e r s)" "same_pending s (pcp_crash s)"
  "same_pending s (channel_events evs s)" "same_pending s (destroy_pending p s)"
proof -
  show "same_pending s (destroy_pending p s)"
    using same_set_result [of s "pending_result p" kError]
    by (simp add: destroy_pending_def same_pending_def)
qed (simp_all add: same_pending_def pcp_crash_def channel_events_def)

lemma find_pending_in: "find_pending e s = Some p \<Longrightarrow> (e, p) \<in> set (pending_connections s)"
  by (simp add: find_pending_def map_of_SomeD)

lemma find_pending_unique:
  "distinct_pending s \<Longrightarrow> (e, p) \<in> set (pending_connections s) \<Longrightarrow> find_pending e s = Some p"
  by (simp add: find_pending_def distinct_pending_def)

lemma find_pending_absent: "find_pending e s = None \<longleftrightarrow> e \<notin> fst ` set (pending_connections s)"
  by (simp add: find_pending_def map_of_eq_None_iff)

lemma distinct_extract: "distinct_pending s \<Longrightarrow> distinct_pending (extract_pending e s)"
  by (simp add: distinct_pending_def extract_pending_def distinct_map_filter)

lemma keeps_destroy:
  assumes p: "find_pending e s = Some p" and t: "same_pending (extract_pending e s) t"
  shows "keeps_promises s (destroy_pending p t)"
  unfolding keeps_promises_def
proof (intro impI conjI allI)
  assume d: "distinct_pending s"
  have pend: "pending_connections (destroy_pending p t) = pending_connections (extract_pending e s)"
    using t by (simp add: same_pending_def)
  then show "distinct_pending (destroy_pending p t)"
    using distinct_extract [OF d, of e] by (simp add: distinct_pending_def)
  fix i assume "attached i s"
  then consider "map_of (pcp_results s) i \<noteq> None"
    | k q where "(k, q) \<in> set (pending_connections s)" "pending_result q = Some i"
    by (auto simp: attached_def)
  then show "attached i (destroy_pending p t)"
  proof cases
    case 1
    then have "map_of (pcp_results t) i \<noteq> None"
      using t by (simp add: same_pending_def)
    with same_small(7) [of t p] show ?thesis
      by (simp add: attached_def same_pending_def)
  next
    case 2
    show ?thesis
    proof (cases "k = e")
      case True
      with 2 p find_pending_unique [OF d] have "pending_result p = Some i" by fastforce
      then have "map_of (pcp_results (destroy_pending p t)) i \<noteq> None"
        using set_result_answered by (simp add: destroy_pending_def)
      then show ?thesis by (simp add: attached_def)
    next
      case False
      with 2 have "(k, q) \<in> set (pending_connections (extract_pending e s))"
        by (simp add: extract_pending_def)
      with 2 pend show ?thesis
        unfolding attached_def by metis
    qed
  qed
qed

lemma extract_absent: "find_pending e s = None \<Longrightarrow> extract_pending e s = s"
proof -
  assume "find_pending e s = None"
  then have "filter (\<lambda>(k, _). k \<noteq> e) (pending_connections s) = pending_connections s"
    by (intro filter_True) (force simp: find_pending_absent)
  then show ?thesis by (simp add: extract_pending_def)
qed

lemma keeps_erase: "keeps_promises s (erase_pending e s)"
  by (auto simp: erase_pending_def split: option.splits intro: keeps_destroy)

lemma keeps_write:
  assumes "\<And>p. pending_result (f p) = pending_result p"
  shows "keeps_promises s (write_pending e f s)"
proof -
  have "map fst (pending_connections (write_pending e f s)) = map fst (pending_connections s)"
    by (auto simp: write_pending_def)
  moreover have "\<exists>p'. (k, p') \<in> set (pending_connections (write_pending e f s)) \<and> pending_result p' = Some i"
    if "(k, p) \<in> set (pending_connections s)" "pending_result p = Some i" for k p i
    using that assms
    by (intro exI [of _ "if k = e then f p else p"]) (force simp: write_pending_def)
  moreover have "pcp_results (write_pending e f s) = pcp_results s"
    by (simp add: write_pending_def)
  ultimately show ?thesis
    unfolding keeps_promises_def distinct_pending_def attached_def by metis
qed

text \<open>An answer is set before its future is forgotten.\<close>

lemma keeps_reset:
  assumes "find_pending e s = Some q" and "pending_result q = r"
  shows "keeps_promises s (write_pending e (\<lambda>p. p\<lparr>pending_result := None\<rparr>) (set_result r st s))"
  unfolding keeps_promises_def
proof (intro impI conjI allI)
  let ?t = "write_pending e (\<lambda>p. p\<lparr>pending_result := None\<rparr>) (set_result r st s)"
  assume d: "distinct_pending s"
  have "map fst (pending_connections ?t) = map fst (pending_connections s)"
    by (auto simp: write_pending_def)
  with d show "distinct_pending ?t" by (simp add: distinct_pending_def)
  have results: "pcp_results ?t = pcp_results (set_result r st s)"
    by (simp add: write_pending_def)
  fix i assume "attached i s"
  then consider "map_of (pcp_results s) i \<noteq> None"
    | k p where "(k, p) \<in> set (pending_connections s)" "pending_result p = Some i"
    by (auto simp: attached_def)
  then show "attached i ?t"
  proof cases
    case 1
    then show ?thesis
      using same_set_result [of s r st] by (simp add: attached_def results same_pending_def)
  next
    case 2
    show ?thesis
    proof (cases "k = e")
      case True
      with 2 assms find_pending_unique [OF d] have "r = Some i" by fastforce
      then have "map_of (pcp_results (set_result r st s)) i \<noteq> None"
        using set_result_answered [of i st s] by simp
      then show ?thesis by (simp only: attached_def results simp_thms)
    next
      case False
      with 2 have "(k, p) \<in> set (pending_connections ?t)"
        by (force simp: write_pending_def)
      with 2 show ?thesis by (auto simp: attached_def)
    qed
  qed
qed

section \<open>Every task keeps both\<close>

lemma settles_PreResultFailure: "settles s (ProcessPreConnectionResultFailure e b r s)"
proof -
  have "settles s (on_client (OnConnectionRejected e kError)
      (if b then discard_endpoint e r (extract_pending e s) else extract_pending e s))"
    using settles_trans [OF settles_extract settles_small(6)] settles_extract
    by (intro settles_trans [OF _ settles_on(1)]) simp
  then show ?thesis
    by (auto simp: ProcessPreConnectionResultFailure_def Let_def split: option.splits
        intro: settles_trans [OF _ settles_small(4)])
qed

lemma keeps_PreResultFailure: "keeps_promises s (ProcessPreConnectionResultFailure e b r s)"
proof -
  let ?s3 = "on_client (OnConnectionRejected e kError)
      (if b then discard_endpoint e r (extract_pending e s) else extract_pending e s)"
  have s3: "same_pending (extract_pending e s) ?s3"
    using same_trans [OF same_small(4) same_small(2)] same_small(2) by simp
  show ?thesis
  proof (cases "find_pending e s")
    case None
    with same_keeps [OF s3] show ?thesis
      by (cases b) (simp_all add: ProcessPreConnectionResultFailure_def extract_absent)
  next
    case (Some p)
    with keeps_destroy [OF this s3] show ?thesis
      by (simp add: ProcessPreConnectionResultFailure_def Let_def)
  qed
qed

lemma settles_InitiationFailure: "settles s (ProcessPreConnectionInitiationFailure e ch st r s)"
  unfolding ProcessPreConnectionInitiationFailure_def
  by (intro settles_trans [OF settles_trans [OF settles_small(3) settles_small(2)] settles_erase])

lemma keeps_InitiationFailure: "keeps_promises s (ProcessPreConnectionInitiationFailure e ch st r s)"
  unfolding ProcessPreConnectionInitiationFailure_def
  by (intro keeps_trans [OF same_keeps [OF same_trans [OF same_small(3) same_set_result]] keeps_erase])

lemma settles_TieBreakLoss: "settles s (ProcessTieBreakLoss e p s)"
  unfolding ProcessTieBreakLoss_def
  by (rule settles_trans [OF settles_InitiationFailure settles_PreResultFailure])

lemma keeps_TieBreakLoss: "keeps_promises s (ProcessTieBreakLoss e p s)"
  unfolding ProcessTieBreakLoss_def
  by (rule keeps_trans [OF keeps_InitiationFailure keeps_PreResultFailure])

lemma BreakTie_keeps:
  "settles s (snd (BreakTie e n ch s))" "keeps_promises s (snd (BreakTie e n ch s))"
  by (auto simp: BreakTie_def settles_small settles_TieBreakLoss keeps_TieBreakLoss
      same_keeps same_small split: option.splits
      intro: settles_trans [OF settles_small(3) settles_TieBreakLoss]
        keeps_trans [OF same_keeps [OF same_small(3)] keeps_TieBreakLoss])

lemma unregister_keeps:
  "settles s (snd (unregister_channel e r s))" "same_pending s (snd (unregister_channel e r s))"
  by (auto simp: unregister_channel_def channel_events_def split: prod.splits
      intro!: settles_fields same_fields)

lemma RemoveEndpointState_keeps:
  "settles s (RemoveEndpointState e s)" "same_pending s (RemoveEndpointState e s)"
  using settles_trans [OF settles_fields unregister_keeps(1)]
    same_trans [OF same_fields unregister_keeps(2)]
  by (auto simp: RemoveEndpointState_def)

lemma RegisterEndpoint_keeps:
  "settles s (RegisterEndpoint e b opts ch l tok s)"
  "same_pending s (RegisterEndpoint e b opts ch l tok s)"
proof -
  let ?s2 = "(RemoveEndpointState e s)\<lparr>pcp_channels :=
      RegisterChannelForEndpoint (IsSafeToDisconnectEnabled e (pcp_client (RemoveEndpointState e s))) e ch
        (pcp_channels (RemoveEndpointState e s)),
      em_endpoints := e # em_endpoints (RemoveEndpointState e s)\<rparr>"
  have "settles s ?s2" "same_pending s ?s2"
    by (rule settles_trans [OF RemoveEndpointState_keeps(1) settles_fields],
        simp, simp, rule same_trans [OF RemoveEndpointState_keeps(2) same_fields], simp_all)
  then show "settles s (RegisterEndpoint e b opts ch l tok s)"
    and "same_pending s (RegisterEndpoint e b opts ch l tok s)"
    using settles_trans [OF _ settles_on(2)] same_trans [OF _ same_small(2)]
    by (simp_all add: RegisterEndpoint_def Let_def)
qed

lemma find_write:
  "find_pending k (write_pending e f s) =
     (if k = e then map_option f (find_pending k s) else find_pending k s)"
proof -
  have "map_of (map (\<lambda>(k, p). (k, if k = e then f p else p)) xs) k =
      (if k = e then map_option f (map_of xs k) else map_of xs k)" for xs
    by (induction xs) auto
  then show ?thesis by (simp add: find_pending_def write_pending_def)
qed

lemma same_find: "same_pending s t \<Longrightarrow> find_pending e t = find_pending e s"
  by (simp add: same_pending_def find_pending_def)

lemma RegisterDevice_keeps:
  assumes "find_pending e s = Some p"
  shows "settles s (RegisterDeviceAfterEncryptionSuccess env e u tok p s)"
    and "keeps_promises s (RegisterDeviceAfterEncryptionSuccess env e u tok p s)"
proof -
  let ?f = "\<lambda>p. p\<lparr>pending_ukey2 := u, pending_token := tok, pending_channel := None\<rparr>"
  have f: "keeps_promises s (write_pending e ?f s)"
    by (rule keeps_write) simp
  have reset: "keeps_promises t (write_pending e (\<lambda>p. p\<lparr>pending_result := None\<rparr>)
      (set_result (pending_result p) kSuccess t))"
    if "same_pending (write_pending e ?f s) t" for t
    by (rule keeps_reset [of e t "?f p"]) (simp_all add: same_find [OF that] find_write assms)
  show "settles s (RegisterDeviceAfterEncryptionSuccess env e u tok p s)"
    unfolding RegisterDeviceAfterEncryptionSuccess_def Let_def
    by (auto simp: settles_small split: option.splits
        intro!: settles_trans [OF settles_trans [OF settles_trans [OF settles_small(5)
          RegisterEndpoint_keeps(1)] settles_small(2)] settles_small(5)])
  show "keeps_promises s (RegisterDeviceAfterEncryptionSuccess env e u tok p s)"
    unfolding RegisterDeviceAfterEncryptionSuccess_def Let_def
    by (auto simp: same_small same_keeps split: option.splits
        intro!: keeps_trans [OF keeps_trans [OF f same_keeps [OF RegisterEndpoint_keeps(2)]]
          reset [OF RegisterEndpoint_keeps(2)]])
qed

lemma OnEncryptionSuccess_keeps:
  "settles s (OnEncryptionSuccessRunnable env e u tok s)"
  "keeps_promises s (OnEncryptionSuccessRunnable env e u tok s)"
  "settles s (OnEncryptionSuccessRunnableV3 env e u tok s)"
  "keeps_promises s (OnEncryptionSuccessRunnableV3 env e u tok s)"
  by (auto simp: OnEncryptionSuccessRunnable_def OnEncryptionSuccessRunnableV3_def
      settles_InitiationFailure keeps_InitiationFailure RegisterDevice_keeps split: option.splits)

lemma OnEncryptionFailure_keeps:
  "settles s (OnEncryptionFailureRunnable e ch s)"
  "keeps_promises s (OnEncryptionFailureRunnable e ch s)"
  by (auto simp: OnEncryptionFailureRunnable_def settles_small same_small same_keeps
      settles_InitiationFailure keeps_InitiationFailure split: option.splits)

lemma OnEndpointDisconnect_keeps:
  "settles s (OnEndpointDisconnect e r s)" "keeps_promises s (OnEndpointDisconnect e r s)"
  unfolding OnEndpointDisconnect_def
  by (rule settles_trans [OF settles_fields settles_PreResultFailure]; simp)
    (rule keeps_trans [OF same_keeps [OF same_fields] keeps_PreResultFailure]; simp)

lemma RemoveEndpoint_keeps:
  "settles s (RemoveEndpoint_task e n r w wt s)" "keeps_promises s (RemoveEndpoint_task e n r w wt s)"
proof -
  define s1 where "s1 = (case GetChannelForEndpoint e (pcp_channels s) of
      None \<Rightarrow> s
    | Some ch \<Rightarrow> if IsSafeToDisconnectEnabled e (pcp_client s)
                 then channel_events (snd (ApplySafeToDisconnect ch r w wt)) s else s)"
  have s1: "settles s s1" "same_pending s s1"
    by (auto simp: s1_def settles_small same_small split: option.splits)
  obtain ok s2 where u: "unregister_channel e r s1 = (ok, s2)"
    by (cases "unregister_channel e r s1")
  have s2: "settles s s2" "keeps_promises s s2"
    using settles_trans [OF s1(1) unregister_keeps(1)] same_trans [OF s1(2) unregister_keeps(2)] u
    by (metis snd_conv, metis snd_conv same_keeps)
  let ?s3 = "if ok then on_client (OnDisconnected e n) (OnEndpointDisconnect e r s2) else s2"
  have "settles s ?s3" "keeps_promises s ?s3"
    using s2 settles_trans [OF settles_trans [OF s2(1) OnEndpointDisconnect_keeps(1)] settles_on(3)]
      keeps_trans [OF keeps_trans [OF s2(2) OnEndpointDisconnect_keeps(2)] same_keeps [OF same_small(2)]]
    by simp_all
  from settles_trans [OF this(1) RemoveEndpointState_keeps(1)]
    keeps_trans [OF this(2) same_keeps [OF RemoveEndpointState_keeps(2)]]
  show "settles s (RemoveEndpoint_task e n r w wt s)" "keeps_promises s (RemoveEndpoint_task e n r w wt s)"
    by (simp_all add: RemoveEndpoint_task_def Let_def u flip: s1_def)
qed

text \<open>
  Evaluating the answers moves an endpoint from pending to connected, or drops it.
\<close>

lemma conclude_keeps:
  assumes "e \<in> live s" and "settles s s1"
  shows "settles s (conclude e b acc p ch s1)"
proof -
  obtain code s2 where c: "(if acc then encrypt_accepted e p s1 else (kConnectionRejected, s1)) = (code, s2)"
    by (metis surj_pair)
  have "settles s1 (snd (encrypt_accepted e p s1))"
    by (auto simp: encrypt_accepted_def Let_def pcp_crash_def split: prod.splits option.splits
        intro!: settles_fields)
  then have s2: "settles s s2"
    using c assms(2) settles_trans by (auto split: if_splits)
  have rejected: "settles s (on_client (OnConnectionRejected e code) s2)"
    by (rule settles_trans [OF s2 settles_on(1)])
  let ?s3 = "on_client (OnConnectionAccepted e) s2"
  have "live ?s3 \<subseteq> insert e (live s2)"
    using live_Accepted(1) [of e "pcp_client s2"] by (auto simp: live_def)
  then have "settles s ?s3"
    using s2 assms(1) live_Accepted(2) by (auto simp: settles_def)
  from settles_trans [OF this settles_on(4)]
  have s4: "settles s (on_client (OnBandwidthChanged e m) ?s3)" for m .
  show ?thesis
    using s2 rejected s4 settles_trans [OF rejected settles_small(6)]
      settles_trans [OF rejected settles_fields] settles_trans [OF s4 settles_small(1)]
    by (auto simp: conclude_def c Let_def)
qed

lemma conclude_same: "same_pending s (conclude e b acc p ch s)"
proof -
  obtain code s2 where c: "(if acc then encrypt_accepted e p s else (kConnectionRejected, s)) = (code, s2)"
    by (metis surj_pair)
  have "same_pending s (snd (encrypt_accepted e p s))"
    by (auto simp: encrypt_accepted_def Let_def pcp_crash_def split: prod.splits option.splits
        intro!: same_fields)
  then have "same_pending s s2"
    using c by (auto split: if_splits)
  then show ?thesis
    by (auto simp: conclude_def c Let_def same_pending_def)
qed

lemma Evaluate_keeps:
  "settles s (EvaluateConnectionResult e b s)" "keeps_promises s (EvaluateConnectionResult e b s)"
proof -
  have concluded: "settles s (destroy_pending p (conclude e b acc p ch (extract_pending e s)))"
    if "find_pending e s = Some p" for p ch acc
  proof (rule settles_trans [OF conclude_keeps settles_small(4)])
    show "e \<in> live s"
      using find_pending_in [OF that] by (force simp: live_def)
  qed (rule settles_extract)
  show "settles s (EvaluateConnectionResult e b s)"
    using concluded settles_trans [OF settles_extract settles_small(4)]
    by (auto simp: EvaluateConnectionResult_def Let_def split: option.splits)
  show "keeps_promises s (EvaluateConnectionResult e b s)"
    using keeps_destroy [OF _ conclude_same] keeps_destroy [OF _ same_refl]
    by (auto simp: EvaluateConnectionResult_def Let_def split: option.splits)
qed

lemma Answer_keeps:
  "settles s (snd (AcceptConnection e l w s))" "keeps_promises s (snd (AcceptConnection e l w s))"
  "settles s (snd (RejectConnection e w s))" "keeps_promises s (snd (RejectConnection e w s))"
proof -
  have a: "settles s (EvaluateConnectionResult e b (on_client f (act a s)))"
    "keeps_promises s (EvaluateConnectionResult e b (on_client f (act a s)))"
    if "\<And>c. client_settles c (f c)" for f a b
    using that
    by (auto intro!: settles_trans [OF settles_trans [OF settles_small(1) settles_on_client] Evaluate_keeps(1)]
        keeps_trans [OF same_keeps [OF same_trans [OF same_small(1) same_small(2)]] Evaluate_keeps(2)])
  show "settles s (snd (AcceptConnection e l w s))" "keeps_promises s (snd (AcceptConnection e l w s))"
    by (auto simp: AcceptConnection_def settles_PreResultFailure keeps_PreResultFailure
        split: option.splits intro!: a settles_answers)
  show "settles s (snd (RejectConnection e w s))" "keeps_promises s (snd (RejectConnection e w s))"
    by (auto simp: RejectConnection_def settles_PreResultFailure keeps_PreResultFailure
        split: option.splits intro!: a settles_answers)
qed

lemma OnIncomingFrame_keeps:
  "settles s (snd (OnIncomingFrame f e s))" "keeps_promises s (snd (OnIncomingFrame f e s))"
proof -
  define s1 where "s1 = (if response_accepts f then on_client (RemoteEndpointAcceptedConnection e) s
    else on_client (RemoteEndpointRejectedConnection e) s)"
  define s2 where "s2 = (case frame_os_info f of None \<Rightarrow> s1 | Some os \<Rightarrow> on_client (SetRemoteOsInfo e os) s1)"
  define s3 where "s3 = (case frame_multiplex_socket_bitmask f of
    None \<Rightarrow> s2 | Some m \<Rightarrow> on_client (SetRemoteMultiplexSocketBitmask e m) s2)"
  define s4 where "s4 = (case frame_safe_to_disconnect_version f of
    None \<Rightarrow> s3 | Some v \<Rightarrow> on_client (SetRemoteSafeToDisconnectVersion e v) s3)"
  define s5 where "s5 = s4\<lparr>pcp_channels := UpdateSafeToDisconnectForEndpoint e
    (IsSafeToDisconnectEnabled e (pcp_client s4)) (pcp_channels s4)\<rparr>"
  have steps: "settles s s1" "settles s1 s2" "settles s2 s3" "settles s3 s4" "settles s4 s5"
    by (auto simp: s1_def s2_def s3_def s4_def s5_def settles_on split: option.splits
        intro: settles_fields)
  have sames: "same_pending s s1" "same_pending s1 s2" "same_pending s2 s3" "same_pending s3 s4"
    "same_pending s4 s5"
    by (auto simp: s1_def s2_def s3_def s4_def s5_def same_small split: option.splits
        intro: same_fields)
  have s5: "settles s s5" "same_pending s s5"
    using steps sames by (blast intro: settles_trans, blast intro: same_trans)
  have run: "OnIncomingFrame f e s = (if HasRemoteEndpointResponded e (pcp_client s) then (False, s)
      else (True, EvaluateConnectionResult e True s5))"
    unfolding OnIncomingFrame_def Let_def s5_def s4_def s3_def s2_def s1_def ..
  show "settles s (snd (OnIncomingFrame f e s))" "keeps_promises s (snd (OnIncomingFrame f e s))"
    using settles_trans [OF s5(1) Evaluate_keeps(1)] keeps_trans [OF same_keeps [OF s5(2)] Evaluate_keeps(2)]
    by (simp_all add: run)
qed

end
