(* ===== verification/Pcp_Run.thy ===== *)
theory Pcp_Run
  imports Request_Lemmas
begin

text \<open>
  The tasks of the handler as one step function, and what a request and an incoming connection
  change: they add at most their own endpoint, and leave the caller answered or attached to a
  pending connection.
\<close>

section \<open>Every task as a step\<close>

datatype pcp_event =
    PRequest request_call string
  | PRequestV3 request_call string
  | PIncoming device_type endpoint_channel "connection_request_frame option"
  | PKeySuccess string "bool option" string
  | PKeySuccessV3 string "bool option" string
  | PKeyFailure string endpoint_channel
  | PAccept string "nat option" bool
  | PReject string bool
  | PResponse connection_response_frame string
  | PDiscard string DisconnectionReason bool "bool option"
  | PUnregister string bool "bool option"
  | PCloseAlarm string
  | PFound discovered_endpoint
  | PLost discovered_endpoint

fun pcp_step :: "pcp_env \<Rightarrow> pcp_event \<Rightarrow> pcp_state \<Rightarrow> pcp_state" where
  "pcp_step env (PRequest call e) s = RequestConnection env call e s"
| "pcp_step env (PRequestV3 call e) s = RequestConnectionV3 env call e s"
| "pcp_step env (PIncoming t ch f) s = snd (OnIncomingConnection env t ch f s)"
| "pcp_step env (PKeySuccess e u tok) s = OnEncryptionSuccessRunnable env e u tok s"
| "pcp_step env (PKeySuccessV3 e u tok) s = OnEncryptionSuccessRunnableV3 env e u tok s"
| "pcp_step env (PKeyFailure e ch) s = OnEncryptionFailureRunnable e ch s"
| "pcp_step env (PAccept e l w) s = snd (AcceptConnection e l w s)"
| "pcp_step env (PReject e w) s = snd (RejectConnection e w s)"
| "pcp_step env (PResponse f e) s = snd (OnIncomingFrame f e s)"
| "pcp_step env (PDiscard e r w wt) s = DiscardEndpoint_task e r w wt s"
| "pcp_step env (PUnregister e w wt) s = UnregisterEndpoint_task e w wt s"
| "pcp_step env (PCloseAlarm e) s = rejected_close_fires e s"
| "pcp_step env (PFound d) s = Pcp_OnEndpointFound d s"
| "pcp_step env (PLost d) s = Pcp_OnEndpointLost d s"

definition pcp_run :: "pcp_env \<Rightarrow> pcp_event list \<Rightarrow> pcp_state \<Rightarrow> pcp_state" where
  "pcp_run env evs s = fold (pcp_step env) evs s"

section \<open>What a request and an incoming connection change\<close>

lemma append_entries_keeps:
  "settles s (append_entries env call e s)" "same_pending s (append_entries env call e s)"
proof -
  have m: "settles t (snd (AppendRemoteBluetoothMacAddressEndpoint e n v b t))"
    "same_pending t (snd (AppendRemoteBluetoothMacAddressEndpoint e n v b t))"
    "settles t (snd (AppendWebRTCEndpoint e n b t))" "same_pending t (snd (AppendWebRTCEndpoint e n b t))"
    for n v b t
    by (auto simp: AppendRemoteBluetoothMacAddressEndpoint_def AppendWebRTCEndpoint_def
        emplace_endpoint_def split: list.splits intro: settles_fields same_fields)
  show "settles s (append_entries env call e s)" "same_pending s (append_entries env call e s)"
    by (auto simp: append_entries_def Let_def m intro: settles_trans [OF m(1) m(3)] same_trans [OF m(2) m(4)])
qed

lemma append_entries_client [simp]:
  "pcp_client (append_entries env call e s) = pcp_client s"
  "pending_connections (append_entries env call e s) = pending_connections s"
  by (auto simp: append_entries_def Let_def AppendRemoteBluetoothMacAddressEndpoint_def
      AppendWebRTCEndpoint_def emplace_endpoint_def split: list.splits)

lemma FillConnectionInfo_client:
  "snd (FillConnectionInfo env call c) = snd (GetLocalEndpointId (call_random call) c)"
  by (simp add: FillConnectionInfo_def Let_def split: prod.splits)

lemma emplace_live: "live (emplace_pending e p s) \<subseteq> insert e (live s)"
  by (auto simp: emplace_pending_def live_def)

lemma emplace_client [simp]: "pcp_client (emplace_pending e p s) = pcp_client s"
  by (simp add: emplace_pending_def)

lemma emplace_attached:
  assumes "distinct_pending s"
  shows "distinct_pending (emplace_pending e p s)"
    and "attached i s \<Longrightarrow> attached i (emplace_pending e p s)"
  using assms find_pending_absent [of e s]
  by (auto simp: emplace_pending_def distinct_pending_def attached_def)

text \<open>Whatever happens, a request leaves its caller answered or attached to a pending connection.\<close>

definition requests_as :: "nat \<Rightarrow> pcp_state \<Rightarrow> pcp_state \<Rightarrow> bool" where
  "requests_as i s s' \<longleftrightarrow> keeps_promises s s' \<and> (distinct_pending s \<longrightarrow> attached i s')"

definition adds :: "string \<Rightarrow> pcp_state \<Rightarrow> pcp_state \<Rightarrow> bool" where
  "adds e s s' \<longleftrightarrow> live s' \<subseteq> insert e (live s) \<and> lifecycle (pcp_client s') = lifecycle (pcp_client s)"

lemma settles_adds: "settles s s' \<Longrightarrow> adds e s s'"
  by (auto simp: settles_def adds_def)

lemma adds_settles: "adds e s t \<Longrightarrow> settles t u \<Longrightarrow> adds e s u"
  by (auto simp: settles_def adds_def)

lemma settles_then_adds: "settles s t \<Longrightarrow> adds e t u \<Longrightarrow> adds e s u"
  by (auto simp: settles_def adds_def)

lemma emplace_adds: "adds e s (emplace_pending e p s)"
  using emplace_live by (simp add: adds_def)

lemma answered_now:
  "same_pending (set_result (Some i) st s) t \<Longrightarrow> attached i t"
  using set_result_answered by (auto simp: same_pending_def attached_def)

lemma InitiationFailure_answers:
  "requests_as i s (ProcessPreConnectionInitiationFailure e ch st (Some i) s)"
proof -
  let ?t = "set_result (Some i) st (close_channel ch s)"
  have "attached i ?t" by (rule answered_now [OF same_refl])
  moreover have "distinct_pending ?t" if "distinct_pending s"
    using that by (simp add: distinct_pending_def)
  ultimately show ?thesis
    using keeps_InitiationFailure [of s e ch st "Some i"] keeps_erase [of ?t e]
    by (simp add: requests_as_def ProcessPreConnectionInitiationFailure_def keeps_promises_def)
qed

lemma requests_after:
  assumes "same_pending s t" and "requests_as i t u"
  shows "requests_as i s u"
proof -
  have "distinct_pending t" if "distinct_pending s"
    using that assms(1) by (simp add: same_pending_def distinct_pending_def)
  then show ?thesis
    using assms keeps_trans [OF same_keeps [OF assms(1)]] by (auto simp: requests_as_def)
qed

lemma adds_small: "adds e s t \<Longrightarrow> adds e s (act a t)" "adds e s t \<Longrightarrow> adds e s (destroy_pending p t)"
  by (rule adds_settles, assumption, rule settles_small)+

lemma request_pended:
  assumes "pending_result p = Some i"
  shows "requests_as i s
    (let s5 = act a (emplace_pending e p s)
     in if find_pending e s = None then s5 else destroy_pending p s5)"
proof -
  let ?s5 = "act a (emplace_pending e p s)"
  have emplaced: "keeps_promises s ?s5"
    using emplace_attached [where s = s and e = e and p = p] same_keeps [OF same_small(1)]
    by (auto simp: keeps_promises_def)
  show ?thesis
  proof (cases "find_pending e s = None")
    case True
    then have "(e, p) \<in> set (pending_connections ?s5)"
      by (simp add: emplace_pending_def)
    then have "attached i ?s5"
      using assms by (auto simp: attached_def)
    with True emplaced show ?thesis by (simp add: requests_as_def Let_def)
  next
    case False
    have "attached i (destroy_pending p ?s5)"
      unfolding destroy_pending_def assms by (rule answered_now [OF same_small(3)])
    moreover have "keeps_promises s (destroy_pending p ?s5)"
      by (rule keeps_trans [OF emplaced same_keeps [OF same_small(7)]])
    ultimately show ?thesis
      using False by (auto simp: requests_as_def Let_def)
  qed
qed

lemma request_from_keeps:
  "adds e s (request_from env inc call e d s)"
  "requests_as (call_result call) s (request_from env inc call e d s)"
proof -
  let ?s1 = "append_entries env call e s"
  obtain st chan where c: "connect_first (connect_impl call) (call_options call) kError
      (GetDiscoveredEndpoints (GetConnectionMediumsByPriority env) e ?s1) = (st, chan)"
    by (metis surj_pair)
  obtain info client where f: "FillConnectionInfo env call (pcp_client ?s1) = (info, client)"
    by (metis surj_pair)
  let ?s2 = "?s1\<lparr>pcp_client := client\<rparr>"
  have client: "client_settles (pcp_client s) client"
    using FillConnectionInfo_client [of env call "pcp_client s"] f settles_ids(3) by simp
  have s2: "settles s ?s2" "same_pending s ?s2"
    using client append_entries_keeps(2) [of s env call e]
    by (auto intro!: settles_when simp: same_pending_def)
  note fail = adds_settles [OF settles_adds settles_InitiationFailure]
  show "adds e s (request_from env inc call e d s)"
    using fail [OF append_entries_keeps(1)] fail [OF s2(1)]
      adds_small(1) [OF settles_then_adds [OF settles_trans [OF s2(1) settles_small(1)] emplace_adds]]
    by (auto simp: request_from_def Let_def c f [simplified] adds_small split: option.splits)
  have act: "same_pending s (act a ?s2)" for a
    by (rule same_trans [OF s2(2) same_small(1)])
  show "requests_as (call_result call) s (request_from env inc call e d s)"
    using requests_after [OF append_entries_keeps(2) InitiationFailure_answers]
      requests_after [OF s2(2) InitiationFailure_answers]
      requests_after [OF act request_pended, where i = "call_result call"]
    by (auto simp: request_from_def Let_def c f [simplified] new_pending_def split: option.splits)
qed

lemma answer_at_once: "requests_as i s (set_result (Some i) st s)"
  using answered_now [OF same_refl] same_keeps [OF same_set_result]
  by (simp add: requests_as_def)

lemma Request_answers:
  "requests_as (call_result call) s (RequestConnection env call e s)"
  "requests_as (call_result call) s (RequestConnectionV3 env call e s)"
  by (auto simp: RequestConnection_def RequestConnectionV3_def Let_def request_from_keeps answer_at_once
      split: option.splits)

text \<open>An incoming connection changes little, or adds its endpoint where the topology has room.\<close>

lemma OnIncomingConnection_cases:
  obtains "settles s (snd (OnIncomingConnection env t ch fr s))"
  | f s1 a where "fr = Some f" and "settles s s1"
      and "ShouldEnforceTopologyConstraints (pcp_client s1) \<longrightarrow> CanReceiveIncomingConnection (env_kind env) s1"
      and "snd (OnIncomingConnection env t ch fr s) =
        act a (emplace_pending (req_endpoint_id f) (incoming_pending env f ch s1) s1)"
proof (cases fr)
  case None
  then have "settles s (snd (OnIncomingConnection env t ch fr s))"
    by (simp add: OnIncomingConnection_def settles_InitiationFailure)
  then show ?thesis by (rule that)
next
  case (Some f)
  obtain b u where tie: "BreakTie (req_endpoint_id f) (req_nonce f) ch s = (b, u)"
    by (metis surj_pair)
  have u: "settles s u"
    using BreakTie_keeps(1) [of s "req_endpoint_id f" "req_nonce f" ch] tie by simp
  have "settles s (snd (OnIncomingConnection env t ch fr s)) \<or>
      (ShouldEnforceTopologyConstraints (pcp_client u) \<longrightarrow> CanReceiveIncomingConnection (env_kind env) u) \<and>
      (\<exists>a. snd (OnIncomingConnection env t ch fr s) =
        act a (emplace_pending (req_endpoint_id f) (incoming_pending env f ch u) u))"
    using u by (auto simp: OnIncomingConnection_def Let_def Some tie split: bool.splits)
  with that(1) that(2) [OF Some u] show ?thesis by blast
qed

lemma OnIncomingConnection_keeps: "keeps_promises s (snd (OnIncomingConnection env t ch fr s))"
proof -
  have "keeps_promises u (act a (emplace_pending e p u))" for u a e p
    using emplace_attached [where s = u and e = e and p = p] same_keeps [OF same_small(1)]
    by (auto simp: keeps_promises_def)
  then have "keeps_promises s (act a (emplace_pending e p u))" if "keeps_promises s u" for u a e p
    using that keeps_trans by blast
  moreover have "keeps_promises s u" if "BreakTie e n ch s = (b, u)" for e n ch b u
    using BreakTie_keeps(2) [of s e n ch] that by simp
  ultimately show ?thesis
    by (auto simp: OnIncomingConnection_def Let_def keeps_InitiationFailure
        split: option.splits prod.splits bool.splits)
qed

lemma other_tasks_keep:
  "settles s (rejected_close_fires e s)" "keeps_promises s (rejected_close_fires e s)"
  "settles s (Pcp_OnEndpointFound d s)" "keeps_promises s (Pcp_OnEndpointFound d s)"
  "settles s (Pcp_OnEndpointLost d s)" "keeps_promises s (Pcp_OnEndpointLost d s)"
proof -
  show "settles s (rejected_close_fires e s)" "keeps_promises s (rejected_close_fires e s)"
    by (auto simp: rejected_close_fires_def settles_small same_keeps same_small)
  have c: "client_settles c (OnEndpointFound i k x (OnEndpointLost i' k' c))" for c i k x i' k'
    by (rule client_settles_trans [OF settles_found(2) settles_found(1)])
  show "settles s (Pcp_OnEndpointFound d s)"
    using c settles_found(1)
    by (auto simp: Pcp_OnEndpointFound_def Let_def report_found_def emplace_endpoint_def
        erase_endpoints_def StopEndpointLostByMediumAlarm_def split: found_scan.splits intro!: settles_when)
  show "keeps_promises s (Pcp_OnEndpointFound d s)"
    by (auto simp: Pcp_OnEndpointFound_def Let_def report_found_def emplace_endpoint_def
        erase_endpoints_def StopEndpointLostByMediumAlarm_def on_client_def
        split: found_scan.splits intro!: same_keeps same_fields)
  show "settles s (Pcp_OnEndpointLost d s)"
    using settles_found(2)
    by (auto simp: Pcp_OnEndpointLost_def Let_def intro!: settles_when)
  show "keeps_promises s (Pcp_OnEndpointLost d s)"
    by (auto simp: Pcp_OnEndpointLost_def Let_def on_client_def intro!: same_keeps same_fields)
qed

lemmas task_keeps =
  OnEncryptionSuccess_keeps OnEncryptionFailure_keeps Answer_keeps OnIncomingFrame_keeps
  RemoveEndpoint_keeps other_tasks_keep

lemma pcp_step_keeps: "keeps_promises s (pcp_step env ev s)"
  using Request_answers
  by (cases ev) (simp_all add: task_keeps OnIncomingConnection_keeps DiscardEndpoint_task_def
      UnregisterEndpoint_task_def requests_as_def)

end
