(* ===== verification/Discovered_Props.thy ===== *)
theory Discovered_Props
  imports Discovered_Endpoints Response_Props
begin

text \<open>
  The properties of the table of discovered endpoints: it refines a map from endpoints to the
  info and the mediums they are visible with, and the client is told exactly its domain.
\<close>

section \<open>The abstract view\<close>

type_synonym endpoint_view = "string \<Rightarrow> (bytes \<times> Medium set) option"

datatype endpoint_event =
    EvFound discovered_endpoint
  | EvLost discovered_endpoint
  | EvInstantLost string bytes
  | EvStartAlarms Medium

fun endpoint_step :: "Medium list \<Rightarrow> endpoint_event \<Rightarrow> pcp_state \<Rightarrow> pcp_state" where
  "endpoint_step ms (EvFound d) s = Pcp_OnEndpointFound d s"
| "endpoint_step ms (EvLost d) s = Pcp_OnEndpointLost d s"
| "endpoint_step ms (EvInstantLost e info) s = OnInstantLost ms e info s"
| "endpoint_step ms (EvStartAlarms m) s = StartEndpointLostByMediumAlarms m s"

definition view_lost :: "string \<Rightarrow> Medium \<Rightarrow> endpoint_view \<Rightarrow> endpoint_view" where
  "view_lost e m V =
     (case V e of
        None \<Rightarrow> V
      | Some (i, M) \<Rightarrow> if M - {m} = {} then V(e := None) else V(e \<mapsto> (i, M - {m})))"

definition view_found :: "string \<Rightarrow> bytes \<Rightarrow> Medium \<Rightarrow> endpoint_view \<Rightarrow> endpoint_view" where
  "view_found e info m V =
     (case V e of
        None \<Rightarrow> V(e \<mapsto> (info, {m}))
      | Some (i, M) \<Rightarrow> if i = info then V(e \<mapsto> (i, insert m M)) else V(e \<mapsto> (info, {m})))"

fun view_step :: "endpoint_event \<Rightarrow> endpoint_view \<Rightarrow> endpoint_view" where
  "view_step (EvFound d) V = view_found (de_endpoint_id d) (de_endpoint_info d) (de_medium d) V"
| "view_step (EvLost d) V = view_lost (de_endpoint_id d) (de_medium d) V"
| "view_step (EvInstantLost e info) V =
     (case V e of None \<Rightarrow> V | Some (i, M) \<Rightarrow> if i = info then V(e := None) else V)"
| "view_step (EvStartAlarms m) V = V"

fun summary :: "discovered_endpoint list \<Rightarrow> (bytes \<times> Medium set) option" where
  "summary [] = None"
| "summary (d # ds) = Some (de_endpoint_info d, de_medium ` set (d # ds))"

definition view_of :: "discovered_endpoint list \<Rightarrow> endpoint_view" where
  "view_of ds e = summary (equal_range e ds)"

section \<open>The invariant of the table\<close>

definition table_ok :: "discovered_endpoint list \<Rightarrow> bool" where
  "table_ok ds \<longleftrightarrow> distinct (map (\<lambda>d. (de_endpoint_id d, de_medium d)) ds) \<and>
     (\<forall>d \<in> set ds. \<forall>d' \<in> set ds.
        de_endpoint_id d = de_endpoint_id d' \<longrightarrow> de_endpoint_info d = de_endpoint_info d')"

definition told :: "string \<Rightarrow> pcp_state \<Rightarrow> bool" where
  "told svc s \<longleftrightarrow> IsDiscoveringServiceId svc (pcp_client s) \<and> \<not> is_dct_enabled (pcp_client s) \<and>
     set (discovered_endpoint_ids (pcp_client s)) = de_endpoint_id ` set (discovered_endpoints s)"

lemma equal_range_simps [simp]:
  "equal_range k (xs @ ys) = equal_range k xs @ equal_range k ys"
  "equal_range k [] = []"
  "equal_range k (d # ds) = (if de_endpoint_id d = k then d # equal_range k ds else equal_range k ds)"
  by (simp_all add: equal_range_def)

lemma equal_range_erased:
  "equal_range k (filter (\<lambda>d. de_endpoint_id d \<noteq> e) ds) = (if k = e then [] else equal_range k ds)"
  by (induction ds) auto

lemma set_equal_range: "set (equal_range k ds) = {d \<in> set ds. de_endpoint_id d = k}"
  by (auto simp: equal_range_def)

lemma equal_range_empty: "equal_range k ds = [] \<longleftrightarrow> k \<notin> de_endpoint_id ` set ds"
  by (auto simp: equal_range_def filter_empty_conv)

lemma view_of_None: "view_of ds e = None \<longleftrightarrow> e \<notin> de_endpoint_id ` set ds"
  by (cases "equal_range e ds") (simp_all add: view_of_def equal_range_empty [symmetric])

lemma view_of_dom: "dom (view_of ds) = de_endpoint_id ` set ds"
  using view_of_None by (auto simp: dom_def)

lemma set_remove_entry: "set (remove_entry e m ds) \<subseteq> set ds"
  by (induction ds) auto

lemma equal_range_removed:
  "distinct (map (\<lambda>d. (de_endpoint_id d, de_medium d)) ds) \<Longrightarrow>
   equal_range k (remove_entry e m ds) =
     (if k = e then filter (\<lambda>d. de_medium d \<noteq> m) (equal_range k ds) else equal_range k ds)"
proof (induction ds)
  case (Cons d ds)
  show ?case
  proof (cases "de_endpoint_id d = e \<and> de_medium d = m")
    case True
    with Cons.prems have "(e, m) \<notin> (\<lambda>d. (de_endpoint_id d, de_medium d)) ` set ds"
      by auto
    then have "\<And>x. x \<in> set (equal_range e ds) \<Longrightarrow> de_medium x \<noteq> m"
      by (auto simp: set_equal_range)
    with True show ?thesis
      by (auto simp: filter_id_conv)
  qed (use Cons in auto)
qed simp

lemma table_ok_remove: "table_ok ds \<Longrightarrow> table_ok (remove_entry e m ds)"
proof -
  have "distinct (map f (remove_entry e m ds))" if "distinct (map f ds)"
    for f :: "discovered_endpoint \<Rightarrow> string \<times> Medium"
    using that
  proof (induction ds)
    case (Cons d ds)
    have "f ` set (remove_entry e m ds) \<subseteq> f ` set ds"
      using set_remove_entry by (intro image_mono)
    with Cons show ?case by auto
  qed simp
  then show "table_ok ds \<Longrightarrow> table_ok (remove_entry e m ds)"
    using set_remove_entry [of e m ds] unfolding table_ok_def by blast
qed

lemma table_ok_erase: "table_ok ds \<Longrightarrow> table_ok (filter P ds)"
  by (auto simp: table_ok_def distinct_map inj_on_def)

lemma table_ok_range_distinct:
  "table_ok ds \<Longrightarrow> distinct (map de_medium (equal_range e ds))"
  by (auto simp: table_ok_def equal_range_def distinct_map inj_on_def)

lemma table_ok_info:
  "table_ok ds \<Longrightarrow> x \<in> set (equal_range e ds) \<Longrightarrow> y \<in> set (equal_range e ds) \<Longrightarrow>
   de_endpoint_info x = de_endpoint_info y"
  by (auto simp: table_ok_def set_equal_range)

section \<open>What each change of the table is in the view\<close>

lemma view_of_Some:
  "equal_range e ds = d # r \<Longrightarrow>
   view_of ds e = Some (de_endpoint_info d, de_medium ` set (equal_range e ds))"
  by (simp add: view_of_def)

lemma view_other: "equal_range k ds = equal_range k ds' \<Longrightarrow> view_of ds k = view_of ds' k"
  by (simp add: view_of_def)

lemma view_emplace:
  assumes "\<forall>x \<in> set (equal_range (de_endpoint_id d) ds). de_endpoint_info x = de_endpoint_info d"
  shows "view_of (ds @ [d]) =
    view_found (de_endpoint_id d) (de_endpoint_info d) (de_medium d) (view_of ds)"
proof
  fix k
  show "view_of (ds @ [d]) k =
    view_found (de_endpoint_id d) (de_endpoint_info d) (de_medium d) (view_of ds) k"
  proof (cases "equal_range (de_endpoint_id d) ds")
    case Nil
    then show ?thesis
      by (cases "k = de_endpoint_id d") (auto simp: view_of_def view_found_def)
  next
    case (Cons x xs)
    with assms have "de_endpoint_info x = de_endpoint_info d" by simp
    with Cons show ?thesis
      by (cases "k = de_endpoint_id d") (auto simp: view_of_def view_found_def)
  qed
qed

lemma view_reset:
  assumes "equal_range (de_endpoint_id d) ds = x # xs"
    and "de_endpoint_info x \<noteq> de_endpoint_info d"
  shows "view_of (filter (\<lambda>y. de_endpoint_id y \<noteq> de_endpoint_id d) ds @ [d]) =
    view_found (de_endpoint_id d) (de_endpoint_info d) (de_medium d) (view_of ds)"
  using assms by (auto simp: fun_eq_iff view_of_def view_found_def equal_range_erased)

lemma view_remove:
  assumes "table_ok ds"
  shows "view_of (remove_entry e m ds) = view_lost e m (view_of ds)"
proof
  fix k
  have range: "equal_range k (remove_entry e m ds) =
      (if k = e then filter (\<lambda>d. de_medium d \<noteq> m) (equal_range k ds) else equal_range k ds)"
    using assms by (intro equal_range_removed) (simp add: table_ok_def)
  show "view_of (remove_entry e m ds) k = view_lost e m (view_of ds) k"
  proof (cases "k = e")
    case False
    with range show ?thesis
      by (simp add: view_other [of k "remove_entry e m ds" ds] view_lost_def split: option.splits)
  next
    case True
    show ?thesis
    proof (cases "equal_range e ds")
      case Nil
      with True range show ?thesis
        by (simp add: view_of_def view_lost_def)
    next
      case (Cons d r)
      let ?f = "filter (\<lambda>d. de_medium d \<noteq> m) (equal_range e ds)"
      have img: "de_medium ` set ?f = de_medium ` set (equal_range e ds) - {m}" by auto
      have v: "view_of ds e = Some (de_endpoint_info d, de_medium ` set (equal_range e ds))"
        using Cons by (rule view_of_Some)
      show ?thesis
      proof (cases ?f)
        case Nil
        then show ?thesis
          using img True range v by (simp add: view_of_def [of "remove_entry e m ds"] view_lost_def)
      next
        case f: (Cons x xs)
        then have "x \<in> set (equal_range e ds)"
          by (metis filter_is_subset list.set_intros(1) subsetD)
        moreover have "d \<in> set (equal_range e ds)"
          using Cons by simp
        ultimately have "de_endpoint_info x = de_endpoint_info d"
          by (rule table_ok_info [OF assms])
        moreover have "de_medium ` set (equal_range e ds) - {m} \<noteq> {}"
          using f img by auto
        ultimately show ?thesis
          using f img True range v by (simp add: view_of_def [of "remove_entry e m ds"] view_lost_def)
      qed
    qed
  qed
qed

lemma scan_found_uniform:
  assumes "\<forall>x \<in> set ds. de_endpoint_info x = i"
  shows "scan_found False d ds =
    (if ds = [] then ScanEnd else if i \<noteq> de_endpoint_info d then ScanReset
     else if de_medium d \<in> de_medium ` set ds then ScanIgnore else ScanEnd)"
  using assms by (induction ds) auto

section \<open>Every event keeps the invariant and is its abstract event\<close>

lemma client_found:
  assumes "IsDiscoveringServiceId svc c"
  shows "set (discovered_endpoint_ids (OnEndpointFound svc e i c)) = insert e (set (discovered_endpoint_ids c))"
    and "set (discovered_endpoint_ids (OnEndpointLost svc e c)) = set (discovered_endpoint_ids c) - {e}"
  using assms by (auto simp: OnEndpointFound_def OnEndpointLost_def notify_def)

lemma client_keeps [simp]:
  "IsDiscoveringServiceId svc (OnEndpointFound sv e i c) = IsDiscoveringServiceId svc c"
  "IsDiscoveringServiceId svc (OnEndpointLost sv e c) = IsDiscoveringServiceId svc c"
  "is_dct_enabled (OnEndpointFound sv e i c) = is_dct_enabled c"
  "is_dct_enabled (OnEndpointLost sv e c) = is_dct_enabled c"
  by (simp_all add: OnEndpointFound_def OnEndpointLost_def notify_def IsDiscoveringServiceId_def
      IsDiscovering_def)

lemma table_simps [simp]:
  "discovered_endpoints (emplace_endpoint d s) = discovered_endpoints s @ [d]"
  "pcp_client (emplace_endpoint d s) = pcp_client s"
  "discovered_endpoints (erase_endpoints e s) = filter (\<lambda>x. de_endpoint_id x \<noteq> e) (discovered_endpoints s)"
  "pcp_client (erase_endpoints e s) = pcp_client s"
  "discovered_endpoints (report_found d s) = discovered_endpoints s"
  "pcp_client (report_found d s) =
     OnEndpointFound (de_service_id d) (de_endpoint_id d) (de_endpoint_info d) (pcp_client s)"
  "discovered_endpoints (StopEndpointLostByMediumAlarm e m s) = discovered_endpoints s"
  "pcp_client (StopEndpointLostByMediumAlarm e m s) = pcp_client s"
  by (simp_all add: emplace_endpoint_def erase_endpoints_def report_found_def
      StopEndpointLostByMediumAlarm_def)

text \<open>The state of a handler whose client discovers \<open>svc\<close>.\<close>

definition tracking :: "string \<Rightarrow> pcp_state \<Rightarrow> bool" where
  "tracking svc s \<longleftrightarrow> table_ok (discovered_endpoints s) \<and> told svc s"

lemma table_okI:
  assumes "distinct (map (\<lambda>d. (de_endpoint_id d, de_medium d)) ds)"
    and "\<And>x y. x \<in> set ds \<Longrightarrow> y \<in> set ds \<Longrightarrow> de_endpoint_id x = de_endpoint_id y \<Longrightarrow>
      de_endpoint_info x = de_endpoint_info y"
  shows "table_ok ds"
  unfolding table_ok_def by (rule conjI [OF assms(1)]) (intro ballI impI, rule assms(2))

lemma table_ok_same_info:
  assumes "table_ok ds" and "x \<in> set ds" and "y \<in> set ds" and "de_endpoint_id x = de_endpoint_id y"
  shows "de_endpoint_info x = de_endpoint_info y"
  by (rule table_ok_info [OF assms(1), of x "de_endpoint_id y"])
    (simp_all add: set_equal_range assms)

lemma table_ok_emplace:
  assumes "table_ok ds" and "\<forall>x \<in> set (equal_range (de_endpoint_id d) ds).
      de_endpoint_info x = de_endpoint_info d \<and> de_medium x \<noteq> de_medium d"
  shows "table_ok (ds @ [d])"
proof (rule table_okI)
  have r: "de_endpoint_info x = de_endpoint_info d \<and> de_medium x \<noteq> de_medium d"
    if "x \<in> set ds" "de_endpoint_id x = de_endpoint_id d" for x
    using assms(2) that by (simp add: set_equal_range)
  have "(de_endpoint_id d, de_medium d) \<notin> set (map (\<lambda>d. (de_endpoint_id d, de_medium d)) ds)"
  proof
    assume "(de_endpoint_id d, de_medium d) \<in> set (map (\<lambda>d. (de_endpoint_id d, de_medium d)) ds)"
    then obtain x where "x \<in> set ds" "de_endpoint_id x = de_endpoint_id d" "de_medium x = de_medium d"
      by auto
    then show False using r [of x] by simp
  qed
  moreover have "distinct (map (\<lambda>d. (de_endpoint_id d, de_medium d)) ds)"
    using assms(1) unfolding table_ok_def by (rule conjunct1)
  ultimately show "distinct (map (\<lambda>d. (de_endpoint_id d, de_medium d)) (ds @ [d]))"
    by simp
  fix x y
  assume x: "x \<in> set (ds @ [d])" and y: "y \<in> set (ds @ [d])"
    and same: "de_endpoint_id x = de_endpoint_id y"
  consider "x \<in> set ds" "y \<in> set ds" | "x \<in> set ds" "y = d" | "x = d" "y \<in> set ds" | "x = d" "y = d"
    using x y by fastforce
  then show "de_endpoint_info x = de_endpoint_info y"
  proof cases
    case 1
    then show ?thesis using same by (rule table_ok_same_info [OF assms(1)])
  next
    case 2
    then show ?thesis using r [of x] same by simp
  next
    case 3
    then show ?thesis using r [of y] same by simp
  next
    case 4
    then show ?thesis by simp
  qed
qed

lemma view_found_same:
  "V e = Some (i, M) \<Longrightarrow> m \<in> M \<Longrightarrow> view_found e i m V = V"
  by (auto simp: view_found_def insert_absorb)

lemma Found_step:
  assumes "tracking svc s" and "de_service_id d = svc"
  shows "tracking svc (Pcp_OnEndpointFound d s) \<and>
    view_of (discovered_endpoints (Pcp_OnEndpointFound d s)) =
      view_found (de_endpoint_id d) (de_endpoint_info d) (de_medium d)
        (view_of (discovered_endpoints s))"
proof -
  let ?ds = "discovered_endpoints s" and ?e = "de_endpoint_id d"
  have ok: "table_ok ?ds" and disc: "IsDiscoveringServiceId svc (pcp_client s)"
    and dct: "\<not> is_dct_enabled (pcp_client s)"
    and ids: "set (discovered_endpoint_ids (pcp_client s)) = de_endpoint_id ` set ?ds"
    using assms by (simp_all add: tracking_def told_def)
  note cf = client_found [OF disc] client_found [of svc "OnEndpointLost svc ?e (pcp_client s)"]
  show ?thesis
  proof (cases "equal_range ?e ?ds")
    case Nil
    have "table_ok (?ds @ [d])"
      using ok Nil by (intro table_ok_emplace) auto
    with Nil show ?thesis
      using view_emplace [of d ?ds] ids disc dct assms(2) cf
      by (simp add: Pcp_OnEndpointFound_def Let_def tracking_def told_def)
  next
    case (Cons x xs)
    have uniform: "\<forall>y \<in> set (equal_range ?e ?ds). de_endpoint_info y = de_endpoint_info x"
      using table_ok_info [OF ok] Cons by (metis list.set_intros(1))
    have here: "?e \<in> de_endpoint_id ` set ?ds"
      using Cons equal_range_empty [of ?e ?ds] by auto
    consider (reset) "de_endpoint_info x \<noteq> de_endpoint_info d"
      | (ignore) "de_endpoint_info x = de_endpoint_info d" "de_medium d \<in> de_medium ` set (equal_range ?e ?ds)"
      | (new) "de_endpoint_info x = de_endpoint_info d" "de_medium d \<notin> de_medium ` set (equal_range ?e ?ds)"
      by blast
    then show ?thesis
    proof cases
      case reset
      have scan: "scan_found False d (equal_range ?e ?ds) = ScanReset"
        unfolding scan_found_uniform [OF uniform] using reset Cons by simp
      have "table_ok (filter (\<lambda>x. de_endpoint_id x \<noteq> ?e) ?ds @ [d])"
        using table_ok_erase [OF ok] by (intro table_ok_emplace) (auto simp: equal_range_erased)
      then show ?thesis
        using scan view_reset [OF Cons reset] disc dct assms(2) cf ids
        by (auto simp: Pcp_OnEndpointFound_def Let_def tracking_def told_def)
    next
      case ignore
      have scan: "scan_found False d (equal_range ?e ?ds) = ScanIgnore"
        unfolding scan_found_uniform [OF uniform] using ignore Cons by simp
      have "view_of ?ds ?e = Some (de_endpoint_info d, de_medium ` set (equal_range ?e ?ds))"
        using view_of_Some [OF Cons] ignore(1) by simp
      then show ?thesis
        using view_found_same [OF _ ignore(2)] scan dct assms(1)
        by (simp add: Pcp_OnEndpointFound_def Let_def)
    next
      case new
      have scan: "scan_found False d (equal_range ?e ?ds) = ScanEnd"
        unfolding scan_found_uniform [OF uniform] using new Cons by simp
      have "table_ok (?ds @ [d])"
        using ok uniform new by (intro table_ok_emplace ballI) (simp, metis image_eqI)
      then show ?thesis
        using view_emplace [of d ?ds] uniform new(1) scan dct ids disc here Cons
        by (auto simp: Pcp_OnEndpointFound_def Let_def tracking_def told_def)
    qed
  qed
qed

lemma single_medium:
  assumes "distinct (map de_medium xs)" and "x \<in> set xs" and "de_medium x = m"
  shows "(\<forall>y \<in> set xs. de_medium y = m) \<longleftrightarrow> length xs = 1"
proof (cases xs)
  case Nil
  then show ?thesis using assms by simp
next
  case (Cons a ys)
  then show ?thesis using assms by (cases ys) auto
qed

lemma Lost_step:
  assumes "tracking svc s" and "de_service_id d = svc"
  shows "tracking svc (Pcp_OnEndpointLost d s) \<and>
    view_of (discovered_endpoints (Pcp_OnEndpointLost d s)) =
      view_lost (de_endpoint_id d) (de_medium d) (view_of (discovered_endpoints s))"
proof -
  let ?ds = "discovered_endpoints s" and ?e = "de_endpoint_id d" and ?m = "de_medium d"
  have ok: "table_ok ?ds" and disc: "IsDiscoveringServiceId svc (pcp_client s)"
    and dct: "\<not> is_dct_enabled (pcp_client s)"
    and ids: "set (discovered_endpoint_ids (pcp_client s)) = de_endpoint_id ` set ?ds"
    using assms by (simp_all add: tracking_def told_def)
  show ?thesis
  proof (cases "list_ex (\<lambda>x. de_medium x = ?m) (equal_range ?e ?ds)")
    case False
    then have "?m \<notin> de_medium ` set (equal_range ?e ?ds)"
      by (auto simp: list_ex_iff)
    then have "view_lost ?e ?m (view_of ?ds) = view_of ?ds"
      by (cases "equal_range ?e ?ds") (auto simp: view_lost_def view_of_def)
    with False assms(1) show ?thesis
      by (simp add: Pcp_OnEndpointLost_def)
  next
    case True
    then obtain x where x: "x \<in> set (equal_range ?e ?ds)" "de_medium x = ?m"
      by (auto simp: list_ex_iff)
    let ?ds' = "remove_entry ?e ?m ?ds"
    have r: "equal_range k ?ds' =
        (if k = ?e then filter (\<lambda>d. de_medium d \<noteq> ?m) (equal_range k ?ds) else equal_range k ?ds)" for k
      using ok by (intro equal_range_removed) (simp add: table_ok_def)
    have left: "?e \<in> de_endpoint_id ` set ?ds' \<longleftrightarrow> length (equal_range ?e ?ds) \<noteq> 1"
    proof -
      have "?e \<notin> de_endpoint_id ` set ?ds' \<longleftrightarrow> (\<forall>y \<in> set (equal_range ?e ?ds). de_medium y = ?m)"
        using equal_range_empty [of ?e ?ds'] by (simp add: r filter_empty_conv)
      also have "\<dots> \<longleftrightarrow> length (equal_range ?e ?ds) = 1"
        using table_ok_range_distinct [OF ok] x by (rule single_medium)
      finally show ?thesis by blast
    qed
    have others: "k \<in> de_endpoint_id ` set ?ds' \<longleftrightarrow> k \<in> de_endpoint_id ` set ?ds" if "k \<noteq> ?e" for k
      using equal_range_empty [of k ?ds'] equal_range_empty [of k ?ds] that by (simp add: r)
    have here: "?e \<in> de_endpoint_id ` set ?ds"
      using equal_range_empty [of ?e ?ds] x(1) by auto
    have "de_endpoint_id ` set ?ds' =
        (if length (equal_range ?e ?ds) = 1 then de_endpoint_id ` set ?ds - {?e}
         else de_endpoint_id ` set ?ds)"
    proof (rule set_eqI)
      fix k
      show "k \<in> de_endpoint_id ` set ?ds' \<longleftrightarrow>
          k \<in> (if length (equal_range ?e ?ds) = 1 then de_endpoint_id ` set ?ds - {?e}
               else de_endpoint_id ` set ?ds)"
        using left here others [of k] by (cases "k = ?e") (simp_all only: Diff_iff singleton_iff split: if_splits, blast+)
    qed
    then show ?thesis
      using True table_ok_remove [OF ok] view_remove [OF ok] disc dct ids assms(2)
        client_found(2) [OF disc]
      by (simp add: Pcp_OnEndpointLost_def Let_def tracking_def told_def)
  qed
qed

section \<open>Runs of events\<close>

definition all_of_service :: "string \<Rightarrow> pcp_state \<Rightarrow> bool" where
  "all_of_service svc s \<longleftrightarrow> (\<forall>d \<in> set (discovered_endpoints s). de_service_id d = svc)"

lemma Lost_entries: "set (discovered_endpoints (Pcp_OnEndpointLost d s)) \<subseteq> set (discovered_endpoints s)"
  using set_remove_entry by (auto simp: Pcp_OnEndpointLost_def Let_def)

lemma Found_entries:
  "set (discovered_endpoints (Pcp_OnEndpointFound d s)) \<subseteq> insert d (set (discovered_endpoints s))"
  by (auto simp: Pcp_OnEndpointFound_def Let_def split: found_scan.splits)

lemma StartAlarms_keeps [simp]:
  "discovered_endpoints (StartEndpointLostByMediumAlarms m s) = discovered_endpoints s"
  "pcp_client (StartEndpointLostByMediumAlarms m s) = pcp_client s"
proof -
  let ?f = "\<lambda>d s. let s1 = StopEndpointLostByMediumAlarm (de_endpoint_id d) m s
     in s1\<lparr>endpoint_lost_by_medium_alarms :=
             ((de_endpoint_id d, m), de_object d) # endpoint_lost_by_medium_alarms s1\<rparr>"
  have "discovered_endpoints (fold ?f xs s) = discovered_endpoints s \<and>
      pcp_client (fold ?f xs s) = pcp_client s" for xs
    by (induction xs arbitrary: s) (simp_all add: Let_def)
  then show "discovered_endpoints (StartEndpointLostByMediumAlarms m s) = discovered_endpoints s"
    and "pcp_client (StartEndpointLostByMediumAlarms m s) = pcp_client s"
    unfolding StartEndpointLostByMediumAlarms_def by blast+
qed

lemma fold_Lost:
  assumes "tracking svc s" and "\<forall>d \<in> set xs. de_service_id d = svc \<and> de_endpoint_id d = e"
  shows "tracking svc (fold Pcp_OnEndpointLost xs s) \<and>
    view_of (discovered_endpoints (fold Pcp_OnEndpointLost xs s)) =
      fold (\<lambda>d. view_lost e (de_medium d)) xs (view_of (discovered_endpoints s))"
  using assms
proof (induction xs arbitrary: s)
  case (Cons d xs)
  from Cons.prems have "tracking svc (Pcp_OnEndpointLost d s)"
      "view_of (discovered_endpoints (Pcp_OnEndpointLost d s)) =
       view_lost e (de_medium d) (view_of (discovered_endpoints s))"
    using Lost_step [OF Cons.prems(1), of d] by simp_all
  with Cons show ?case by simp
qed simp

lemma fold_view_lost:
  assumes "xs \<noteq> []"
  shows "fold (\<lambda>d. view_lost e (de_medium d)) xs V =
    (case V e of
       None \<Rightarrow> V
     | Some (i, M) \<Rightarrow> if M - de_medium ` set xs = {} then V(e := None)
                      else V(e \<mapsto> (i, M - de_medium ` set xs)))"
  using assms
proof (induction xs arbitrary: V rule: list_nonempty_induct)
  case (single d)
  show ?case by (cases "V e") (auto simp: view_lost_def)
next
  case (cons d xs)
  show ?case
  proof (cases "V e")
    case None
    with cons show ?thesis by (simp add: view_lost_def)
  next
    case (Some p)
    obtain i M where p: "p = (i, M)" by (cases p)
    show ?thesis
    proof (cases "M - {de_medium d} = {}")
      case True
      then have "M - insert (de_medium d) N = {}" for N by blast
      with cons Some p True show ?thesis by (simp add: view_lost_def)
    next
      case False
      then have "view_lost e (de_medium d) V e = Some (i, M - {de_medium d})"
        using Some p by (simp add: view_lost_def)
      moreover have "(view_lost e (de_medium d) V)(e := v) = V(e := v)" for v
        using Some p by (simp add: view_lost_def)
      moreover have "M - {de_medium d} \<subseteq> N \<longleftrightarrow> M \<subseteq> insert (de_medium d) N"
        and "M - {de_medium d} - N = M - insert (de_medium d) N" for N
        by blast+
      ultimately show ?thesis using cons Some p by (simp add: fun_upd_def)
    qed
  qed
qed

lemma InstantLost_step:
  assumes "tracking svc s" and "all_of_service svc s"
  shows "tracking svc (OnInstantLost ms e info s) \<and> all_of_service svc (OnInstantLost ms e info s) \<and>
    view_of (discovered_endpoints (OnInstantLost ms e info s)) =
      view_step (EvInstantLost e info) (view_of (discovered_endpoints s))"
proof -
  let ?xs = "GetDiscoveredEndpoints ms e s" and ?r = "equal_range e (discovered_endpoints s)"
  let ?f = "\<lambda>d s. if de_endpoint_info d = info then Pcp_OnEndpointLost d s else s"
  have xs: "set ?xs = set ?r"
    by (metis GetDiscoveredEndpoints_mset set_mset_mset)
  have "length ?xs = length ?r"
    by (metis GetDiscoveredEndpoints_mset size_mset)
  then have empty: "?xs = [] \<longleftrightarrow> ?r = []" by (cases ?xs; cases ?r) auto
  have ok: "table_ok (discovered_endpoints s)"
    using assms(1) by (simp add: tracking_def)
  show ?thesis
  proof (cases ?r)
    case Nil
    with empty have "OnInstantLost ms e info s = s" by (simp add: OnInstantLost_def)
    with Nil assms show ?thesis by (simp add: view_of_def)
  next
    case (Cons d r)
    have uniform: "\<forall>x \<in> set ?xs. de_endpoint_info x = de_endpoint_info d"
      using table_ok_info [OF ok] Cons unfolding xs by (metis list.set_intros(1))
    have V: "view_of (discovered_endpoints s) e = Some (de_endpoint_info d, de_medium ` set ?r)"
      using Cons by (rule view_of_Some)
    show ?thesis
    proof (cases "de_endpoint_info d = info")
      case False
      have "fold ?f xs s = s" if "\<forall>x \<in> set xs. de_endpoint_info x = de_endpoint_info d" for xs
        using that False by (induction xs) auto
      with uniform have "OnInstantLost ms e info s = s" by (simp add: OnInstantLost_def)
      with V False assms show ?thesis by simp
    next
      case True
      have "fold ?f xs t = fold Pcp_OnEndpointLost xs t"
        if "\<forall>x \<in> set xs. de_endpoint_info x = de_endpoint_info d" for xs t
        using that True by (induction xs arbitrary: t) auto
      with uniform have run: "OnInstantLost ms e info s = fold Pcp_OnEndpointLost ?xs s"
        by (simp add: OnInstantLost_def)
      have ids: "\<forall>x \<in> set ?xs. de_service_id x = svc \<and> de_endpoint_id x = e"
        using assms(2) unfolding xs by (auto simp: set_equal_range all_of_service_def)
      have "set (discovered_endpoints (fold Pcp_OnEndpointLost xs t)) \<subseteq> set (discovered_endpoints t)" for xs t
        using Lost_entries by (induction xs arbitrary: t) (auto, blast)
      then have "all_of_service svc (fold Pcp_OnEndpointLost ?xs s)"
        using assms(2) unfolding all_of_service_def by blast
      moreover have "fold (\<lambda>d. view_lost e (de_medium d)) ?xs (view_of (discovered_endpoints s)) =
          (view_of (discovered_endpoints s))(e := None)"
        using empty Cons V xs by (subst fold_view_lost) simp_all
      ultimately show ?thesis
        using fold_Lost [OF assms(1) ids] run V True by simp
    qed
  qed
qed

fun event_of_service :: "string \<Rightarrow> endpoint_event \<Rightarrow> bool" where
  "event_of_service svc (EvFound d) = (de_service_id d = svc)"
| "event_of_service svc (EvLost d) = (de_service_id d = svc)"
| "event_of_service svc _ = True"

lemma endpoint_step_refines:
  assumes "tracking svc s" and "all_of_service svc s" and "event_of_service svc ev"
  shows "tracking svc (endpoint_step ms ev s) \<and> all_of_service svc (endpoint_step ms ev s) \<and>
    view_of (discovered_endpoints (endpoint_step ms ev s)) =
      view_step ev (view_of (discovered_endpoints s))"
proof (cases ev)
  case (EvFound d)
  have "all_of_service svc (Pcp_OnEndpointFound d s)"
    using assms EvFound Found_entries [of d s] by (auto simp: all_of_service_def)
  with EvFound assms Found_step [of svc s d] show ?thesis by simp
next
  case (EvLost d)
  have "all_of_service svc (Pcp_OnEndpointLost d s)"
    using assms EvLost Lost_entries [of d s] by (auto simp: all_of_service_def)
  with EvLost assms Lost_step [of svc s d] show ?thesis by simp
next
  case (EvInstantLost e i)
  with InstantLost_step [OF assms(1,2)] show ?thesis by simp
next
  case (EvStartAlarms m)
  with assms show ?thesis by (simp add: tracking_def told_def all_of_service_def)
qed

lemma endpoint_run_refines:
  assumes "tracking svc s" and "all_of_service svc s" and "list_all (event_of_service svc) evs"
  shows "tracking svc (fold (endpoint_step ms) evs s) \<and>
    view_of (discovered_endpoints (fold (endpoint_step ms) evs s)) =
      fold view_step evs (view_of (discovered_endpoints s))"
  using assms
proof (induction evs arbitrary: s)
  case (Cons ev evs)
  then show ?case
    using endpoint_step_refines [OF Cons.prems(1,2), of ev ms] by simp
qed simp

definition fresh_discoverer :: "string \<Rightarrow> pcp_state \<Rightarrow> bool" where
  "fresh_discoverer svc s \<longleftrightarrow> discovered_endpoints s = [] \<and>
     IsDiscoveringServiceId svc (pcp_client s) \<and> \<not> is_dct_enabled (pcp_client s) \<and>
     discovered_endpoint_ids (pcp_client s) = []"


text \<open>The witness: one endpoint seen on two mediums, lost on one and found again changed.\<close>

definition sighting :: "nat \<Rightarrow> string \<Rightarrow> bytes \<Rightarrow> Medium \<Rightarrow> web_rtc_state \<Rightarrow> discovered_endpoint" where
  "sighting object e info m w =
     \<lparr>de_object = object, de_endpoint_id = e, de_endpoint_info = info, de_service_id = ''svc'',
      de_medium = m, de_web_rtc_state = w\<rparr>"

definition discovering_pcp :: pcp_state where
  "discovering_pcp = BasePcpHandler
     (StartedDiscovery ''svc'' 1
       (ClientProxy_new plain_flags False False False))"

definition sightings :: "endpoint_event list" where
  "sightings =
     [EvFound (sighting 1 ''ABCD'' [1] BLE kUnconnectable),
      EvFound (sighting 2 ''ABCD'' [1] BLUETOOTH kUnconnectable),
      EvFound (sighting 3 ''WXYZ'' [7] BLE kUnconnectable),
      EvStartAlarms BLE,
      EvLost (sighting 4 ''ABCD'' [1] BLE kUnconnectable),
      EvInstantLost ''WXYZ'' [7],
      EvFound (sighting 5 ''ABCD'' [2] WIFI_LAN kUnconnectable)]"


section \<open>The order in which the entries of an endpoint are tried\<close>

text \<open>
  The entries of an endpoint are tried in the order of the handler's mediums: the list a
  request goes through is a rearrangement of the endpoint's entries in which an entry comes
  before another unless its medium ranks lower, mediums that the handler does not list coming
  last; and the comparison handed to the sort is a strict weak order.
\<close>

theorem discovered_endpoints_by_preference:
  "mset (GetDiscoveredEndpoints ms e s) =
     mset (filter (\<lambda>d. de_endpoint_id d = e) (discovered_endpoints s)) \<and>
   sorted_wrt (\<lambda>a b. \<not> IsPreferred ms b a) (GetDiscoveredEndpoints ms e s) \<and>
   irreflp (IsPreferred ms) \<and> transp (IsPreferred ms) \<and>
   transp (\<lambda>a b. \<not> IsPreferred ms a b)"
proof -
  have "sorted_wrt (\<lambda>a b. \<not> IsPreferred ms b a) (GetDiscoveredEndpoints ms e s)"
    using GetDiscoveredEndpoints_sorted [of ms e s]
    by (rule sorted_wrt_mono_rel [rotated]) (simp add: IsPreferred_rank)
  then show ?thesis
    by (auto simp: GetDiscoveredEndpoints_mset equal_range_def irreflp_def transp_def IsPreferred_rank)
qed

section \<open>Alarms and entries that outlive their endpoint\<close>

lemma alarm_started:
  assumes "table_ok (discovered_endpoints s)" and "d \<in> set (discovered_endpoints s)"
  shows "map_of (endpoint_lost_by_medium_alarms (StartEndpointLostByMediumAlarms (de_medium d) s))
    (de_endpoint_id d, de_medium d) = Some (de_object d)"
proof -
  let ?m = "de_medium d"
  let ?f = "\<lambda>d s. let s1 = StopEndpointLostByMediumAlarm (de_endpoint_id d) ?m s
     in s1\<lparr>endpoint_lost_by_medium_alarms :=
             ((de_endpoint_id d, ?m), de_object d) # endpoint_lost_by_medium_alarms s1\<rparr>"
  have other: "map_of (filter (\<lambda>(k, _). k \<noteq> q) al) k = map_of al k"
    if "k \<noteq> q" for k q :: "string \<times> Medium" and al :: "((string \<times> Medium) \<times> nat) list"
    using that by (induction al) auto
  have keeps: "map_of (endpoint_lost_by_medium_alarms (fold ?f xs t)) (e, ?m) =
      map_of (endpoint_lost_by_medium_alarms t) (e, ?m)"
    if "e \<notin> de_endpoint_id ` set xs" for e xs t
    using that by (induction xs arbitrary: t) (simp_all add: Let_def StopEndpointLostByMediumAlarm_def other)
  have "map_of (endpoint_lost_by_medium_alarms (fold ?f xs t)) (de_endpoint_id d, ?m) = Some (de_object d)"
    if "d \<in> set xs" "distinct (map de_endpoint_id xs)" for xs t
    using that
  proof (induction xs arbitrary: t)
    case (Cons x xs)
    show ?case
    proof (cases "x = d")
      case True
      with Cons.prems have "de_endpoint_id d \<notin> de_endpoint_id ` set xs" by auto
      with keeps [of "de_endpoint_id d" xs "?f d t"] True show ?thesis by (simp add: Let_def)
    qed (use Cons in auto)
  qed simp
  moreover have "distinct (map de_endpoint_id (GetDiscoveredEndpoints_medium ?m s))"
    using assms(1) unfolding table_ok_def GetDiscoveredEndpoints_medium_def
    by (auto simp: distinct_map inj_on_def)
  moreover have "d \<in> set (GetDiscoveredEndpoints_medium ?m s)"
    using assms(2) by (simp add: GetDiscoveredEndpoints_medium_def)
  ultimately show ?thesis
    unfolding StartEndpointLostByMediumAlarms_def by blast
qed

lemma alarms_Lost [simp]:
  "endpoint_lost_by_medium_alarms (Pcp_OnEndpointLost d s) = endpoint_lost_by_medium_alarms s"
  by (simp add: Pcp_OnEndpointLost_def Let_def on_client_def)


lemma table_ok_find:
  assumes "distinct (map de_object ds)" and "d \<in> set ds"
  shows "find (\<lambda>x. de_object x = de_object d) ds = Some d"
  using assms by (induction ds) auto

lemma removed_entry:
  assumes "table_ok ds" and "d \<in> set ds"
  shows "d \<notin> set (remove_entry (de_endpoint_id d) (de_medium d) ds)"
proof -
  have "equal_range (de_endpoint_id d) (remove_entry (de_endpoint_id d) (de_medium d) ds) =
      filter (\<lambda>x. de_medium x \<noteq> de_medium d) (equal_range (de_endpoint_id d) ds)"
    using assms(1) by (subst equal_range_removed) (simp_all add: table_ok_def)
  then have "d \<notin> set (equal_range (de_endpoint_id d) (remove_entry (de_endpoint_id d) (de_medium d) ds))"
    by simp
  then show ?thesis by (simp add: set_equal_range)
qed

lemma Lost_removes:
  assumes "d \<in> set (discovered_endpoints s)"
  shows "discovered_endpoints (Pcp_OnEndpointLost d s) =
    remove_entry (de_endpoint_id d) (de_medium d) (discovered_endpoints s)"
proof -
  have "list_ex (\<lambda>x. de_medium x = de_medium d) (equal_range (de_endpoint_id d) (discovered_endpoints s))"
    using assms by (auto simp: list_ex_iff set_equal_range)
  then show ?thesis by (simp add: Pcp_OnEndpointLost_def Let_def)
qed

lemma alarm_fires:
  assumes "map_of (endpoint_lost_by_medium_alarms s) (e, m) = Some object"
  shows "lost_alarm_fires e m s =
    (case find (\<lambda>d. de_object d = object) (discovered_endpoints s) of
       None \<Rightarrow> pcp_crash (StopEndpointLostByMediumAlarm e m s)
     | Some d \<Rightarrow> Pcp_OnEndpointLost d (StopEndpointLostByMediumAlarm e m s))"
  using assms by (simp add: lost_alarm_fires_def Let_def)

text \<open>
  The alarm that drops an endpoint of a medium keeps a plain pointer to the entry it was
  started for.  If nothing happens to the entry the alarm reports it lost; but an entry that is
  lost before the alarm goes off is freed without the alarm being cancelled, and the alarm then
  reads the freed entry.
\<close>

theorem lost_alarm_dangles:
  assumes "table_ok (discovered_endpoints s)" and "distinct (map de_object (discovered_endpoints s))"
    and "d \<in> set (discovered_endpoints s)"
  shows "lost_alarm_fires (de_endpoint_id d) (de_medium d)
      (StartEndpointLostByMediumAlarms (de_medium d) s) =
    Pcp_OnEndpointLost d (StopEndpointLostByMediumAlarm (de_endpoint_id d) (de_medium d)
      (StartEndpointLostByMediumAlarms (de_medium d) s)) \<and>
    pcp_crashed (lost_alarm_fires (de_endpoint_id d) (de_medium d)
      (Pcp_OnEndpointLost d (StartEndpointLostByMediumAlarms (de_medium d) s)))"
proof -
  let ?s = "StartEndpointLostByMediumAlarms (de_medium d) s"
  let ?left = "remove_entry (de_endpoint_id d) (de_medium d) (discovered_endpoints s)"
  have "find (\<lambda>x. de_object x = de_object d) ?left = None"
  proof -
    have "de_object x \<noteq> de_object d" if "x \<in> set ?left" for x
    proof
      assume "de_object x = de_object d"
      moreover have "x \<in> set (discovered_endpoints s)"
        using that set_remove_entry by (rule subsetD [rotated])
      ultimately have "x = d"
        using assms(2,3) by (simp add: distinct_map inj_on_def)
      with that removed_entry [OF assms(1,3)] show False by simp
    qed
    then show ?thesis by (simp add: find_None_iff)
  qed
  then show ?thesis
    using alarm_fires [OF alarm_started [OF assms(1,3)]]
      alarm_fires [of "Pcp_OnEndpointLost d ?s", unfolded alarms_Lost, OF alarm_started [OF assms(1,3)]]
      table_ok_find [OF assms(2,3)] Lost_removes [of d ?s] assms(3)
    by (simp add: pcp_crash_def)
qed

definition two_sightings :: pcp_state where
  "two_sightings = fold (endpoint_step []) (take 2 sightings) discovering_pcp"

theorem lost_alarm_dangles_witness:
  "pcp_crashed (lost_alarm_fires ''ABCD'' BLUETOOTH
     (Pcp_OnEndpointLost (sighting 2 ''ABCD'' [1] BLUETOOTH kUnconnectable)
       (StartEndpointLostByMediumAlarms BLUETOOTH two_sightings)))"
proof -
  have "discovered_endpoints two_sightings =
      [sighting 1 ''ABCD'' [1] BLE kUnconnectable, sighting 2 ''ABCD'' [1] BLUETOOTH kUnconnectable]"
    by code_simp
  then show ?thesis
    using lost_alarm_dangles [of two_sightings "sighting 2 ''ABCD'' [1] BLUETOOTH kUnconnectable"]
    by (simp add: sighting_def table_ok_def)
qed

text \<open>
  Requesting a connection over WebRTC adds an entry for the endpoint that no medium's
  discovery will ever report lost: when the endpoint is lost on the one medium it was seen on,
  the entry stays and the client is not told; and a second request adds a second entry.
\<close>

theorem webrtc_entry_outlives:
  assumes "equal_range e (discovered_endpoints s) = [d]" and "de_medium d \<noteq> WEB_RTC"
    and "de_web_rtc_state d \<noteq> kUnconnectable"
  shows "fst (AppendWebRTCEndpoint e obj True s) \<and>
    pcp_client (Pcp_OnEndpointLost d (snd (AppendWebRTCEndpoint e obj True s))) = pcp_client s \<and>
    map de_medium (equal_range e (discovered_endpoints
      (Pcp_OnEndpointLost d (snd (AppendWebRTCEndpoint e obj True s))))) = [WEB_RTC] \<and>
    map de_medium (equal_range e (discovered_endpoints
      (snd (AppendWebRTCEndpoint e obj' True (snd (AppendWebRTCEndpoint e obj True s)))))) =
      [de_medium d, WEB_RTC, WEB_RTC]"
proof -
  have id: "de_endpoint_id d = e"
    using assms(1) by (metis (mono_tags) list.set_intros(1) mem_Collect_eq set_equal_range)
  define x where "x = \<lparr>de_object = obj, de_endpoint_id = e, de_endpoint_info = de_endpoint_info d,
    de_service_id = de_service_id d, de_medium = WEB_RTC, de_web_rtc_state = kConnectable\<rparr>"
  have app: "AppendWebRTCEndpoint e obj True s = (True, emplace_endpoint x s)"
    using assms(1,3) by (simp add: AppendWebRTCEndpoint_def x_def)
  have x: "de_endpoint_id x = e" "de_medium x = WEB_RTC"
    by (simp_all add: x_def)
  have left: "equal_range e (remove_entry e (de_medium d) (ds @ [x])) = [x]"
    if "equal_range e ds = [d]" for ds
    using that assms(2) x by (induction ds) (auto simp: id split: if_splits)
  show ?thesis
    using assms app x left [OF assms(1)] id
    by (simp add: Pcp_OnEndpointLost_def Let_def AppendWebRTCEndpoint_def)
qed

definition connectable_sighting :: pcp_state where
  "connectable_sighting =
     emplace_endpoint (sighting 1 ''ABCD'' [1] BLE kConnectable) discovering_pcp"

theorem webrtc_entry_outlives_witness:
  "map de_medium (equal_range ''ABCD'' (discovered_endpoints
     (Pcp_OnEndpointLost (sighting 1 ''ABCD'' [1] BLE kConnectable)
       (snd (AppendWebRTCEndpoint ''ABCD'' 2 True connectable_sighting))))) = [WEB_RTC]"
proof -
  have "equal_range ''ABCD'' (discovered_endpoints connectable_sighting) =
      [sighting 1 ''ABCD'' [1] BLE kConnectable]"
    by (simp add: connectable_sighting_def discovering_pcp_def BasePcpHandler_def sighting_def)
  then show ?thesis
    using webrtc_entry_outlives [of "''ABCD''" connectable_sighting "sighting 1 ''ABCD'' [1] BLE kConnectable" 2]
    by (simp add: sighting_def)
qed

end
