(* ===== verification/Request_Props.thy ===== *)
theory Request_Props
  imports Pcp_Run Discovered_Props
begin

text \<open>
  The properties of requested and incoming connections: the limits of a point-to-point handler,
  the answer every caller gets, the tie between two devices that request each other, the medium
  a request connects over, and what the unverified requests lead to.
\<close>

section \<open>One connection at a time\<close>

lemma no_room_left: "\<not> HasOutgoingConnections s \<and> \<not> HasIncomingConnections s \<longleftrightarrow> live s = {}"
proof -
  have none: "\<not> list_ex (\<lambda>(e, p). \<not> pending_is_incoming p) xs \<and> \<not> list_ex (\<lambda>(e, p). pending_is_incoming p) xs
      \<longleftrightarrow> xs = []" for xs :: "(string \<times> pending_connection) list"
    by (cases xs) auto
  have "\<not> HasOutgoingConnections s \<and> \<not> HasIncomingConnections s \<longleftrightarrow>
      (\<not> list_ex (\<lambda>(e, p). \<not> pending_is_incoming p) (pending_connections s) \<and>
       \<not> list_ex (\<lambda>(e, p). pending_is_incoming p) (pending_connections s)) \<and>
      (GetNumOutgoingConnections (pcp_client s) = 0 \<and> GetNumIncomingConnections (pcp_client s) = 0)"
    by (auto simp: HasOutgoingConnections_def HasIncomingConnections_def)
  also have "\<dots> \<longleftrightarrow> pending_connections s = [] \<and> conn_live (pcp_client s) = {}"
    by (simp only: none no_connections_live)
  finally show ?thesis
    by (simp add: live_def)
qed

definition single :: "pcp_state \<Rightarrow> bool" where
  "single s \<longleftrightarrow> (\<exists>k. live s \<subseteq> {k})"

lemma settles_single: "settles s s' \<Longrightarrow> single s \<Longrightarrow> single s'"
  by (auto simp: settles_def single_def)

lemma adds_single: "adds e s s' \<Longrightarrow> live s = {} \<Longrightarrow> single s'"
  by (auto simp: adds_def single_def)

definition enforced :: "pcp_state \<Rightarrow> bool" where
  "enforced s \<longleftrightarrow> ShouldEnforceTopologyConstraints (pcp_client s)"

lemma enforced_lifecycle: "lifecycle (pcp_client s') = lifecycle (pcp_client s) \<Longrightarrow> enforced s' = enforced s"
  by (drule lifecycle_decides) (simp add: enforced_def)

fun checks_topology :: "pcp_event \<Rightarrow> bool" where
  "checks_topology (PRequest call e) = False"
| "checks_topology _ = True"

lemma step_single:
  assumes "env_kind env = PointToPointHandler" and "enforced s" and "single s" and "checks_topology ev"
  shows "single (pcp_step env ev s) \<and> enforced (pcp_step env ev s)"
proof -
  have settled: "single s' \<and> enforced s'" if "settles s s'" for s'
    using settles_single [OF that assms(3)] enforced_lifecycle [of s' s] that assms(2)
    by (simp add: settles_def)
  have added: "single s' \<and> enforced s'" if "adds e s s'" "live s = {}" for s' e
    using adds_single [OF that] enforced_lifecycle [of s' s] that(1) assms(2)
    by (simp add: adds_def)
  show ?thesis
  proof (cases ev)
    case (PRequestV3 call e)
    show ?thesis
    proof (cases "VerifyConnectionRequest env e s = kSuccess")
      case True
      with assms(1,2) have "live s = {}"
        unfolding no_room_left [symmetric]
        by (simp add: VerifyConnectionRequest_def enforced_def PointToPoint_CanSendOutgoingConnection_def
            split: if_splits)
      moreover have "adds e s (RequestConnectionV3 env call e s)"
        using True request_from_keeps(1) settles_adds [OF settles_small(2)]
        by (auto simp: RequestConnectionV3_def split: option.splits)
      ultimately show ?thesis
        using PRequestV3 added by simp
    next
      case False
      with PRequestV3 settled [OF settles_small(2)] show ?thesis
        by (simp add: RequestConnectionV3_def)
    qed
  next
    case (PIncoming t ch fr)
    show ?thesis
    proof (rule OnIncomingConnection_cases [of s env t ch fr])
      fix f s1 a
      assume s1: "settles s s1"
        and room: "ShouldEnforceTopologyConstraints (pcp_client s1) \<longrightarrow>
          CanReceiveIncomingConnection (env_kind env) s1"
        and s': "snd (OnIncomingConnection env t ch fr s) =
          act a (emplace_pending (req_endpoint_id f) (incoming_pending env f ch s1) s1)"
      have "enforced s1"
        using s1 assms(2) enforced_lifecycle [of s1 s] by (simp add: settles_def)
      with room assms(1) have "live s1 = {}"
        unfolding no_room_left [symmetric]
        by (simp add: enforced_def PointToPoint_CanReceiveIncomingConnection_def)
      moreover have "adds (req_endpoint_id f) s1 (act a (emplace_pending (req_endpoint_id f)
          (incoming_pending env f ch s1) s1))"
        by (rule adds_small) (rule emplace_adds)
      ultimately have "single (pcp_step env ev s)"
        using s' PIncoming adds_single by simp
      moreover have "enforced (pcp_step env ev s)"
        using \<open>enforced s1\<close> s' PIncoming by (simp add: enforced_def)
      ultimately show ?thesis ..
    qed (use PIncoming settled in simp)
  qed (use assms(4) in \<open>simp_all add: settled task_keeps DiscardEndpoint_task_def UnregisterEndpoint_task_def\<close>)
qed

text \<open>
  C14: A point-to-point handler whose client enforces the topology never deals with two endpoints
  at once: starting with no connection, whatever sequence of incoming connections, V3 requests, key
  exchanges, answers of both sides, disconnections and discoveries follows, any two
  endpoints that are pending or connected are the same one.
\<close>

theorem point_to_point_exclusive:
  assumes "env_kind env = PointToPointHandler" and "ShouldEnforceTopologyConstraints (pcp_client s)"
    and "pending_connections s = []" and "connections (pcp_client s) = []"
    and "list_all checks_topology evs"
    and "find_pending e (pcp_run env evs s) \<noteq> None \<or> IsConnectedToEndpoint e (pcp_client (pcp_run env evs s))"
    and "find_pending e' (pcp_run env evs s) \<noteq> None \<or> IsConnectedToEndpoint e' (pcp_client (pcp_run env evs s))"
  shows "e = e'"
proof -
  have run: "single (fold (pcp_step env) evs t) \<and> enforced (fold (pcp_step env) evs t)"
    if "single t" "enforced t" "list_all checks_topology evs" for t evs
    using that
  proof (induction evs arbitrary: t)
    case (Cons ev evs)
    then show ?case
      using step_single [OF assms(1), of t ev] by simp
  qed simp
  have "single s" "enforced s"
    using assms(2-4) by (auto simp: single_def live_def conn_live_def enforced_def)
  then have "single (pcp_run env evs s)"
    using run assms(5) by (simp add: pcp_run_def)
  moreover have "k \<in> live t" if "find_pending k t \<noteq> None \<or> IsConnectedToEndpoint k (pcp_client t)" for k t
    using that find_pending_absent IsConnected_live by (auto simp: live_def)
  ultimately show ?thesis
    using assms(6,7) unfolding single_def by blast
qed

section \<open>Every caller is answered\<close>

text \<open>
  C15: No caller of a connection request is forgotten.  In every run from a handler with nothing
  pending, each request that was made has its answer, or a pending connection that will give
  it; so when nothing is pending any more, every request has been answered.
\<close>

theorem every_request_answered:
  assumes "pending_connections s = []"
  shows "\<forall>(call, e) \<in> {(call, e). PRequest call e \<in> set evs \<or> PRequestV3 call e \<in> set evs}.
    map_of (pcp_results (pcp_run env evs s)) (call_result call) \<noteq> None \<or>
    (\<exists>k p. (k, p) \<in> set (pending_connections (pcp_run env evs s)) \<and>
      pending_result p = Some (call_result call))"
proof -
  have "\<forall>call e. PRequest call e \<in> set evs \<or> PRequestV3 call e \<in> set evs \<longrightarrow>
      attached (call_result call) (fold (pcp_step env) evs s)"
    if "distinct_pending s"
    using that
  proof (induction evs rule: rev_induct)
    case (snoc ev evs)
    let ?t = "fold (pcp_step env) evs s"
    have "distinct_pending (fold (pcp_step env) evs s)" for evs
      using snoc.prems pcp_step_keeps by (induction evs rule: rev_induct) (auto simp: keeps_promises_def)
    then have d: "distinct_pending ?t" .
    have "attached i (pcp_step env ev ?t)" if "attached i ?t" for i
      using that d pcp_step_keeps by (simp add: keeps_promises_def)
    moreover have "attached (call_result call) (pcp_step env ev ?t)"
      if "ev = PRequest call e \<or> ev = PRequestV3 call e" for call e
      using that d Request_answers by (auto simp: requests_as_def)
    ultimately show ?case
      using snoc by auto
  qed simp
  moreover have "distinct_pending s"
    using assms by (simp add: distinct_pending_def)
  ultimately show ?thesis
    by (auto simp: attached_def pcp_run_def)
qed

section \<open>Both devices keep the same connection\<close>

text \<open>A device that waits for incoming connections and has one outgoing connection pending.\<close>

definition requesting :: "string \<Rightarrow> pending_connection \<Rightarrow> pcp_state \<Rightarrow> bool" where
  "requesting e p s \<longleftrightarrow> pending_connections s = [(e, p)] \<and> \<not> pending_is_incoming p \<and>
     conn_live (pcp_client s) = {} \<and>
     (IsAdvertising (pcp_client s) \<or> IsListeningForIncomingConnections (pcp_client s))"

lemma tie_lost:
  assumes "requesting e p s"
  shows "live (ProcessTieBreakLoss e p s) = {}"
    and "pending_result p = Some i \<Longrightarrow> map_of (pcp_results s) i = None \<Longrightarrow>
      map_of (pcp_results (ProcessTieBreakLoss e p s)) i = Some kEndpointIoError"
proof -
  let ?t = "ProcessPreConnectionInitiationFailure e (pending_channel p) kEndpointIoError (pending_result p) s"
  have find: "find_pending e s = Some p"
    using assms by (simp add: requesting_def find_pending_def)
  have t: "pending_connections ?t = []"
    using assms find by (auto simp: ProcessPreConnectionInitiationFailure_def erase_pending_def
        extract_pending_def requesting_def split: option.splits)
  have "fst ` set (pending_connections (ProcessTieBreakLoss e p s)) = {}"
    using t by (simp add: ProcessTieBreakLoss_def ProcessPreConnectionResultFailure_def
        extract_pending_def find_pending_def Let_def)
  moreover have "client_settles (pcp_client s) (pcp_client (ProcessTieBreakLoss e p s))"
    using settles_Rejected by (simp add: ProcessTieBreakLoss_def ProcessPreConnectionResultFailure_def
        ProcessPreConnectionInitiationFailure_def Let_def split: option.splits)
  ultimately show "live (ProcessTieBreakLoss e p s) = {}"
    using assms by (simp add: live_def client_settles_def requesting_def)
  assume r: "pending_result p = Some i" "map_of (pcp_results s) i = None"
  then have "map_of (pcp_results (set_result (Some i) kEndpointIoError u)) i = Some kEndpointIoError"
    if "pcp_results u = pcp_results s" for u
    using that by (simp add: set_result_def map_add_def)
  then have "map_of (pcp_results ?t) i = Some kEndpointIoError"
    using r find by (auto simp: ProcessPreConnectionInitiationFailure_def erase_pending_def
        destroy_pending_def intro!: set_result_keeps)
  then show "map_of (pcp_results (ProcessTieBreakLoss e p s)) i = Some kEndpointIoError"
    using t by (simp add: ProcessTieBreakLoss_def ProcessPreConnectionResultFailure_def
        extract_pending_def find_pending_def Let_def on_client_def)
qed

lemma room_when_empty: "live s = {} \<Longrightarrow> CanReceiveIncomingConnection k s"
  using no_room_left [of s]
  by (cases k) (simp_all add: Base_CanReceiveIncomingConnection_def
      Star_CanReceiveIncomingConnection_def PointToPoint_CanReceiveIncomingConnection_def)

lemma tie_side:
  assumes req: "requesting e p s" and f: "req_endpoint_id f = e" "incoming_device_type f = t"
    and s': "s' = snd (OnIncomingConnection env t ch (Some f) s)"
  shows "pending_nonce p > req_nonce f \<Longrightarrow> find_pending e s' = Some p"
    and "pending_nonce p < req_nonce f \<Longrightarrow>
      \<exists>q. find_pending e s' = Some q \<and> pending_nonce q = req_nonce f \<and> pending_is_incoming q \<and>
        pending_channel q = Some ch"
    and "pending_nonce p = req_nonce f \<Longrightarrow> find_pending e s' = None"
    and "pending_nonce p \<le> req_nonce f \<Longrightarrow> pending_result p = Some i \<Longrightarrow>
      map_of (pcp_results s) i = None \<Longrightarrow> map_of (pcp_results s') i = Some kEndpointIoError"
proof -
  have open_: "IsAdvertising (pcp_client s) \<or> IsListeningForIncomingConnections (pcp_client s)"
    and unconnected: "\<not> IsConnectedToEndpoint e (pcp_client s)"
    and find: "find_pending e s = Some p"
    using req IsConnected_live by (auto simp: requesting_def find_pending_def)
  have tie: "s' = (case BreakTie e (req_nonce f) ch s of
      (True, s1) \<Rightarrow> s1
    | (False, s1) \<Rightarrow>
        if ShouldEnforceTopologyConstraints (pcp_client s1) \<and> \<not> CanReceiveIncomingConnection (env_kind env) s1
        then s1
        else act (StartEncryptionServer e
              (pending_channel_id e (emplace_pending e (incoming_pending env f ch s1) s1)))
              (emplace_pending e (incoming_pending env f ch s1) s1))"
    using open_ unconnected f by (auto simp: s' OnIncomingConnection_def Let_def split: prod.splits bool.splits)
  have req': "requesting e p (close_channel (Some ch) s)"
    using req by (simp add: requesting_def)
  note lost = tie_lost [OF req] and lost' = tie_lost [OF req']
  have gone: "find_pending e u = None" if "live u = {}" for u
    using that by (simp add: find_pending_absent live_def)
  show "find_pending e s' = Some p" if "pending_nonce p > req_nonce f"
    using that find by (simp add: tie BreakTie_def)
  show "find_pending e s' = None" if "pending_nonce p = req_nonce f"
    using that gone [OF lost'(1)] by (simp add: tie BreakTie_def find)
  have loser: "s' = act (StartEncryptionServer e
      (pending_channel_id e (emplace_pending e (incoming_pending env f ch (ProcessTieBreakLoss e p s))
        (ProcessTieBreakLoss e p s))))
      (emplace_pending e (incoming_pending env f ch (ProcessTieBreakLoss e p s)) (ProcessTieBreakLoss e p s))"
    if "pending_nonce p < req_nonce f"
    using that room_when_empty [OF lost(1)] by (simp add: tie BreakTie_def find)
  show "\<exists>q. find_pending e s' = Some q \<and> pending_nonce q = req_nonce f \<and> pending_is_incoming q \<and>
      pending_channel q = Some ch" if "pending_nonce p < req_nonce f"
  proof -
    have "pending_connections (ProcessTieBreakLoss e p s) = []"
      using lost(1) by (simp add: live_def)
    then have "find_pending e s' = Some (incoming_pending env f ch (ProcessTieBreakLoss e p s))"
      by (simp add: loser [OF that] emplace_pending_def find_pending_def)
    then show ?thesis by (simp add: incoming_pending_def)
  qed
  have results: "pcp_results (emplace_pending e q u) = pcp_results u" for q u
    by (simp add: emplace_pending_def)
  show "map_of (pcp_results s') i = Some kEndpointIoError"
    if "pending_nonce p \<le> req_nonce f" "pending_result p = Some i" "map_of (pcp_results s) i = None"
  proof (cases "pending_nonce p < req_nonce f")
    case True
    with lost(2) that show ?thesis by (simp add: loser results)
  next
    case False
    with that have "pending_nonce p = req_nonce f" by simp
    with lost'(2) that show ?thesis by (simp add: tie BreakTie_def find)
  qed
qed


section \<open>The medium a request connects over\<close>

lemma connect_first_find:
  "connect_first C opts st ds =
    (case find (\<lambda>d. MediumSupportedByClientOptions (de_medium d) opts \<and> fst (C d) = kSuccess) ds of
       Some d \<Rightarrow> C d
     | None \<Rightarrow> (last (st # map (fst \<circ> C)
         (filter (\<lambda>d. MediumSupportedByClientOptions (de_medium d) opts) ds)), None))"
  by (induction ds arbitrary: st) (auto split: prod.splits option.splits)

text \<open>
  A request connects over the best medium it can.  The channel is that of an entry of the
  endpoint whose medium the options allow and over which connecting succeeds, and no such entry is
  preferred to it; if there is no such entry there is no channel, and the caller gets the
  status of the last attempt, or an error when none was made.
\<close>

theorem request_connects_over_best_medium:
  assumes "ds = GetDiscoveredEndpoints (GetConnectionMediumsByPriority env) e s"
    and "usable = (\<lambda>d. MediumSupportedByClientOptions (de_medium d) opts \<and> fst (C d) = kSuccess)"
  shows "(if list_ex usable (equal_range e (discovered_endpoints s))
      then \<exists>d \<in> set (equal_range e (discovered_endpoints s)). usable d \<and>
        connect_first C opts kError ds = C d \<and>
        list_all (\<lambda>d'. usable d' \<longrightarrow> \<not> IsPreferred (GetConnectionMediumsByPriority env) d' d)
          (equal_range e (discovered_endpoints s))
      else connect_first C opts kError ds =
        (last (kError # map (fst \<circ> C) (filter (\<lambda>d. MediumSupportedByClientOptions (de_medium d) opts) ds)), None))"
proof -
  let ?ms = "GetConnectionMediumsByPriority env"
  have set: "set ds = set (equal_range e (discovered_endpoints s))"
    using assms(1) GetDiscoveredEndpoints_mset [of ?ms e s] by (metis set_mset_mset)
  have sorted: "sorted_wrt (\<lambda>a b. medium_rank ?ms (de_medium a) \<le> medium_rank ?ms (de_medium b)) ds"
    unfolding assms(1) by (rule GetDiscoveredEndpoints_sorted)
  have best: "usable d \<and> d \<in> set ds \<and> list_all (\<lambda>d'. usable d' \<longrightarrow> \<not> IsPreferred ?ms d' d) ds"
    if "find usable ds = Some d" for d
    using that sorted
  proof (induction ds)
    case (Cons x xs)
    show ?case
    proof (cases "usable x")
      case True
      with Cons.prems show ?thesis by (auto simp: list_all_iff IsPreferred_rank)
    next
      case False
      with Cons show ?thesis by simp
    qed
  qed simp
  show ?thesis
  proof (cases "find usable ds")
    case None
    then have "\<not> list_ex usable (equal_range e (discovered_endpoints s))"
      using set by (auto simp: find_None_iff list_ex_iff)
    with None show ?thesis by (simp add: connect_first_find assms(2))
  next
    case (Some d)
    from best [OF this] have d: "usable d" "d \<in> set ds"
        "list_all (\<lambda>d'. usable d' \<longrightarrow> \<not> IsPreferred ?ms d' d) (equal_range e (discovered_endpoints s))"
      by (simp_all add: list_all_iff set)
    then have "list_ex usable (equal_range e (discovered_endpoints s))"
      using set by (auto simp: list_ex_iff)
    moreover have "connect_first C opts kError ds = C d"
      using Some by (simp add: connect_first_find assms(2))
    ultimately show ?thesis
      using d set by auto
  qed
qed

section \<open>The mediums two devices have in common\<close>

lemma filter_if_single: "filter P (if b then [x] else []) = (if b \<and> P x then [x] else [])"
  by (cases b) auto

lemma in_if_single: "y \<in> set (if b then [x] else []) \<longleftrightarrow> b \<and> y = x"
  by (cases b) auto

lemma if_if_single: "(if a then if b then [x] else [] else []) = (if a \<and> b then [x] else [])"
  by simp

lemmas selector_simps =
  selector_GetMediums_def ComputeIntersectionOfSupportedMediums_def Let_def
  GetConnectionMediumsByPriority_def mediums_by_priority.simps medium_selector.simps
  set_filter mem_Collect_eq set_append Un_iff in_if_single filter_append filter_if_single
  if_if_single Medium.distinct simp_thms if_True if_False append_Nil append_Nil2

text \<open>
  C40: The mediums a new connection may be upgraded to are, in the handler's order of
  preference, those of its own mediums that the other device listed, WebRTC only when the
  local client allows it; the default upgrade medium stands for a device that listed none.
\<close>

theorem mediums_in_common:
  "selector_GetMediums True (ComputeIntersectionOfSupportedMediums env p) =
     filter (\<lambda>m. m \<in> set (if pending_supported_mediums p = [] then [GetDefaultUpgradeMedium env]
                            else pending_supported_mediums p) \<and>
              (if m = WEB_RTC then webrtc_upgrade_allowed env else True))
       (GetConnectionMediumsByPriority env)"
proof (cases "env_kind env")
  case ClusterHandler
  then show ?thesis
    by (simp only: selector_simps Cluster_GetConnectionMediumsByPriority_def)
      (simp only: conj_ac simp_thms)?
next
  case StarHandler
  then show ?thesis
    by (simp only: selector_simps Star_GetConnectionMediumsByPriority_def)
      (simp only: conj_ac simp_thms)?
next
  case PointToPointHandler
  then show ?thesis
    by (simp only: selector_simps PointToPoint_GetConnectionMediumsByPriority_def)
      (simp only: conj_ac simp_thms)?
qed

section \<open>Requests that nothing checks\<close>

text \<open>A request whose endpoint is known and can be reached over \<open>ch\<close>.\<close>

definition reachable ::
  "pcp_env \<Rightarrow> request_call \<Rightarrow> string \<Rightarrow> discovered_endpoint \<Rightarrow> endpoint_channel \<Rightarrow> pcp_state \<Rightarrow> bool" where
  "reachable env call e d ch s \<longleftrightarrow> GetDiscoveredEndpoint e s = Some d \<and> write_ok call \<and>
     snd (connect_first (connect_impl call) (call_options call) kError
       (GetDiscoveredEndpoints (GetConnectionMediumsByPriority env) e (append_entries env call e s))) =
     Some ch"

lemma request_reaches:
  assumes "reachable env call e d ch s"
  shows "\<exists>s3. request_from env inc call e d s =
      (let p = new_pending inc call (de_endpoint_info d) ch; s4 = emplace_pending e p s3;
           s5 = act (StartEncryptionClient e (pending_channel_id e s4)) s4
       in if find_pending e s3 = None then s5 else destroy_pending p s5) \<and>
    pending_connections s3 = pending_connections s \<and> pcp_results s3 = pcp_results s \<and>
    client_settles (pcp_client s) (pcp_client s3)"
proof -
  obtain st where c: "connect_first (connect_impl call) (call_options call) kError
      (GetDiscoveredEndpoints (GetConnectionMediumsByPriority env) e (append_entries env call e s)) =
      (st, Some ch)"
    using assms by (metis reachable_def prod.collapse)
  obtain info client where f: "FillConnectionInfo env call (pcp_client s) = (info, client)"
    by (metis surj_pair)
  have client: "client_settles (pcp_client s) client"
    using FillConnectionInfo_client [of env call "pcp_client s"] f settles_ids(3) by simp
  have results: "pcp_results (append_entries env call e s) = pcp_results s"
    by (auto simp: append_entries_def Let_def AppendRemoteBluetoothMacAddressEndpoint_def
        AppendWebRTCEndpoint_def emplace_endpoint_def split: list.splits)
  show ?thesis
    using assms client
    by (intro exI [of _ "act (WroteConnectionRequest e info)
          ((append_entries env call e s)\<lparr>pcp_client := client\<rparr>)"])
      (simp add: request_from_def c f Let_def reachable_def results)
qed

lemma request_new:
  assumes "reachable env call e d ch s" and "find_pending e s = None"
  shows "pending_connections (request_from env inc call e d s) =
      pending_connections s @ [(e, new_pending inc call (de_endpoint_info d) ch)]"
    and "client_settles (pcp_client s) (pcp_client (request_from env inc call e d s))"
proof -
  obtain s3 where s3: "request_from env inc call e d s =
      (let p = new_pending inc call (de_endpoint_info d) ch; s4 = emplace_pending e p s3;
           s5 = act (StartEncryptionClient e (pending_channel_id e s4)) s4
       in if find_pending e s3 = None then s5 else destroy_pending p s5)"
    "pending_connections s3 = pending_connections s" "client_settles (pcp_client s) (pcp_client s3)"
    using request_reaches [OF assms(1)] by blast
  moreover have "find_pending e s3 = None"
    using assms(2) s3(2) by (simp add: find_pending_def)
  ultimately show "pending_connections (request_from env inc call e d s) =
      pending_connections s @ [(e, new_pending inc call (de_endpoint_info d) ch)]"
    and "client_settles (pcp_client s) (pcp_client (request_from env inc call e d s))"
    by (simp_all add: Let_def emplace_pending_def)
qed

text \<open>
  \<open>RequestConnection\<close> does not verify the request.  In a point-to-point handler that enforces
  the topology and has a connection to another endpoint pending, a V3 request is refused, and
  nothing else changes; the same request through the older call is carried out, and the
  handler ends up with two endpoints.
\<close>

theorem request_ignores_topology:
  assumes "env_kind env = PointToPointHandler" and "ShouldEnforceTopologyConstraints (pcp_client s)"
    and "find_pending k s = Some q" and "find_pending e s = None" and "reachable env call e d ch s"
  shows "RequestConnectionV3 env call e s = set_result (Some (call_result call)) kOutOfOrderApiCall s \<and>
    find_pending k (RequestConnection env call e s) = Some q \<and>
    find_pending e (RequestConnection env call e s) \<noteq> None"
proof -
  have "live s \<noteq> {}"
    using find_pending_in [OF assms(3)] by (force simp: live_def)
  then have "\<not> PointToPoint_CanSendOutgoingConnection s"
    unfolding no_room_left [symmetric] by (simp add: PointToPoint_CanSendOutgoingConnection_def)
  then have "VerifyConnectionRequest env e s = kOutOfOrderApiCall"
    using assms by (simp add: VerifyConnectionRequest_def)
  moreover have "RequestConnection env call e s = request_from env False call e d s"
    using assms(5) by (simp add: RequestConnection_def reachable_def)
  ultimately show ?thesis
    using request_new(1) [OF assms(5,4), of False] assms(3,4)
    by (auto simp: RequestConnectionV3_def find_pending_def map_add_def split: option.splits)
qed

lemma success_moves_channel:
  assumes "find_pending e s = Some p" and "pending_channel p = Some c"
  shows "\<exists>q. find_pending e (OnEncryptionSuccessRunnable env e (Some b) tok s) = Some q \<and>
    pending_channel q = None"
proof -
  have "find_pending e (RegisterEndpoint e inc opts ch l tok t) = find_pending e t" for inc opts ch l t
    by (rule same_find) (rule RegisterEndpoint_keeps(2))
  then show ?thesis
    using assms
    by (simp add: OnEncryptionSuccessRunnable_def RegisterDeviceAfterEncryptionSuccess_def Let_def find_write)
qed

text \<open>
  A second request to an endpoint whose connection is pending fails at once, but it has
  started a second key exchange over the channel of the first.  The first exchange to succeed
  moves that channel to the endpoint manager, and the end of the other, whether it
  succeeds or fails, then follows a null pointer.
\<close>

theorem double_request_crashes:
  assumes "find_pending e s = Some p" and "pending_channel p = Some c"
    and "reachable env call e d ch s" and "map_of (pcp_results s) (call_result call) = None"
    and "s1 = RequestConnection env call e s"
    and "s2 = OnEncryptionSuccessRunnable env e (Some b) tok s1"
  shows "map_of (pcp_results s1) (call_result call) = Some kError \<and>
    StartEncryptionClient e (Some (channel_id c)) \<in> set (pcp_actions s1) \<and>
    pcp_crashed (OnEncryptionSuccessRunnable env e (Some b') tok' s2) \<and>
    pcp_crashed (OnEncryptionFailureRunnable e c' s2)"
proof -
  obtain s3 where s3: "request_from env False call e d s =
      (let p = new_pending False call (de_endpoint_info d) ch; s4 = emplace_pending e p s3;
           s5 = act (StartEncryptionClient e (pending_channel_id e s4)) s4
       in if find_pending e s3 = None then s5 else destroy_pending p s5)"
    "pending_connections s3 = pending_connections s" "pcp_results s3 = pcp_results s"
    using request_reaches [OF assms(3)] by blast
  have find: "find_pending e s3 = Some p"
    using assms(1) s3(2) by (simp add: find_pending_def)
  let ?p = "new_pending False call (de_endpoint_info d) ch"
  have s1: "s1 = destroy_pending ?p (act (StartEncryptionClient e (Some (channel_id c))) s3)"
    using assms(2,3,5) s3(1) find
    by (simp add: RequestConnection_def reachable_def Let_def emplace_pending_def pending_channel_id_def)
  have "map_of (pcp_results s1) (call_result call) = Some kError"
    using assms(4) s3(3)
    by (simp add: s1 destroy_pending_def new_pending_def set_result_def map_add_def)
  moreover have "StartEncryptionClient e (Some (channel_id c)) \<in> set (pcp_actions s1)"
    by (simp add: s1 destroy_pending_def close_channel_def new_pending_def)
  moreover have "find_pending e s1 = Some p"
    by (simp add: s1 find)
  then obtain q where "find_pending e s2 = Some q" "pending_channel q = None"
    using success_moves_channel [OF _ assms(2)] assms(6) by blast
  then have "pcp_crashed (OnEncryptionSuccessRunnable env e (Some b') tok' s2)"
    "pcp_crashed (OnEncryptionFailureRunnable e c' s2)"
    by (simp_all add: OnEncryptionSuccessRunnable_def RegisterDeviceAfterEncryptionSuccess_def
        OnEncryptionFailureRunnable_def pcp_crash_def)
  ultimately show ?thesis by blast
qed

text \<open>
  An outgoing connection made by \<open>RequestConnectionV3\<close> is recorded as an incoming one, so a star
  handler that has sent out a request still takes incoming connections; after the same request
  through the older call it does not.
\<close>

theorem v3_request_counts_as_incoming:
  assumes "env_kind env = StarHandler" and "pending_connections s = []"
    and "connections (pcp_client s) = []" and "reachable env call e d ch s"
  shows "HasIncomingConnections (RequestConnectionV3 env call e s) \<and>
    CanReceiveIncomingConnection (env_kind env) (RequestConnectionV3 env call e s) \<and>
    \<not> CanReceiveIncomingConnection (env_kind env) (RequestConnection env call e s)"
proof -
  have find: "find_pending e s = None" and "live s = {}"
    using assms(2,3) by (simp_all add: find_pending_def live_def conn_live_def)
  then have "VerifyConnectionRequest env e s = kSuccess"
    using assms(1) unfolding no_room_left [symmetric]
    by (simp add: VerifyConnectionRequest_def Star_CanSendOutgoingConnection_def)
  then have v3: "RequestConnectionV3 env call e s = request_from env True call e d s"
    and v1: "RequestConnection env call e s = request_from env False call e d s"
    using assms(4) by (simp_all add: RequestConnectionV3_def RequestConnection_def reachable_def)
  have none: "conn_live (pcp_client (request_from env inc call e d s)) = {}" for inc
    using request_new(2) [OF assms(4) find, of inc] assms(3)
    by (simp add: client_settles_def conn_live_def)
  have "GetNumOutgoingConnections (pcp_client (request_from env inc call e d s)) = 0" for inc
    using none [of inc] no_connections_live by blast
  then show ?thesis
    using request_new(1) [OF assms(4) find] assms(1,2)
    by (simp add: v3 v1 HasIncomingConnections_def HasOutgoingConnections_def new_pending_def
        Star_CanReceiveIncomingConnection_def)
qed

section \<open>Keep-alive settings of an incoming connection\<close>

text \<open>
  The keep-alive settings taken from a peer's request are never zero and the interval is
  shorter than the timeout, given defaults that are so; a request whose fields are both there,
  nonzero and in that order is taken as it is, a negative interval included.
\<close>

theorem keep_alive_bounds:
  assumes "0 < default_keep_alive_interval env"
    and "default_keep_alive_interval env < default_keep_alive_timeout env"
    and "opts = incoming_options env f"
  shows "keep_alive_interval_millis opts \<noteq> 0 \<and> keep_alive_timeout_millis opts \<noteq> 0 \<and>
    keep_alive_interval_millis opts < keep_alive_timeout_millis opts \<and>
    (if \<exists>i t. req_keep_alive_interval f = Some i \<and> req_keep_alive_timeout f = Some t \<and>
         i \<noteq> 0 \<and> t \<noteq> 0 \<and> i < t
     then Some (keep_alive_interval_millis opts) = req_keep_alive_interval f \<and>
       Some (keep_alive_timeout_millis opts) = req_keep_alive_timeout f
     else keep_alive_interval_millis opts = default_keep_alive_interval env \<and>
       keep_alive_timeout_millis opts = default_keep_alive_timeout env)"
  using assms
  by (cases "req_keep_alive_interval f"; cases "req_keep_alive_timeout f")
    (auto simp: incoming_options_def Let_def)

section \<open>Witnesses\<close>

definition sample_env :: "pcp_kind \<Rightarrow> pcp_env" where
  "sample_env k =
     \<lparr>env_kind = k, wifi_lan_available = True, wifi_available = True,
      wifi_direct_gc_available = False, wifi_hotspot_client_available = True,
      web_rtc_available = False, bluetooth_available = True, ble_available = True,
      awdl_available = False, awdl_enabled = False, hotspot_client_enabled = True,
      role_switch_on_apple = False, wifi_supports_5_ghz = True, wifi_bssid = [],
      wifi_ap_frequency = 5180, wifi_ip_address = [], apple_medium_role = 0,
      webrtc_upgrade_allowed = False, discovery_allows_bluetooth = True,
      discovery_allows_web_rtc = False, default_keep_alive_interval = 5000,
      default_keep_alive_timeout = 30000\<rparr>"

definition plain_call :: "nat \<Rightarrow> int \<Rightarrow> nat \<Rightarrow> request_call" where
  "plain_call result nonce ch =
     \<lparr>call_endpoint_info = [1], call_listener = ClientListener 1, call_options = plain_options,
      call_bluetooth_address = None, call_non_disruptive_hotspot = False, call_result = result,
      call_nonce = nonce, call_random = (\<lambda>_. 0), bt_object = 90, bt_valid = False, rtc_object = 91,
      connect_impl = (\<lambda>d. (kSuccess, Some (plain_channel ch BLE))), write_ok = True\<rparr>"

definition request_frame :: "string \<Rightarrow> int \<Rightarrow> connection_request_frame" where
  "request_frame e nonce =
     \<lparr>req_endpoint_id = e, req_endpoint_info = Some [7], req_endpoint_name = [], req_nonce = nonce,
      req_has_connections_device = True, req_has_presence_device = False,
      req_keep_alive_interval = Some 5000, req_keep_alive_timeout = Some 30000,
      req_mediums = [BLE, WIFI_LAN], req_supports_5_ghz = True, req_bssid = [],
      req_ap_frequency = 2412, req_ip_address = [], req_medium_role = None\<rparr>"

text \<open>A handler that advertises and has seen two endpoints.\<close>

definition open_pcp :: pcp_state where
  "open_pcp =
     (BasePcpHandler (StartedAdvertising ''svc'' (ClientListener 1) default_options
        (ClientProxy_new plain_flags False False False)))
     \<lparr>discovered_endpoints := [sighting 1 ''ABCD'' [1] BLE kUnconnectable,
                               sighting 2 ''WXYZ'' [2] BLE kUnconnectable]\<rparr>"

lemma open_pcp_facts:
  "ShouldEnforceTopologyConstraints (pcp_client open_pcp)" "pending_connections open_pcp = []"
  "connections (pcp_client open_pcp) = []" "IsAdvertising (pcp_client open_pcp)"
  "conn_live (pcp_client open_pcp) = {}" "pcp_results open_pcp = []"
  by (simp_all add: open_pcp_def BasePcpHandler_def StartedAdvertising_def default_options_def
      ClientProxy_new_def plain_flags_def ShouldEnforceTopologyConstraints_def IsAdvertising_def
      IsNone_def conn_live_def Let_def CancelClearCachedEndpointIdAlarm_def)

lemma open_pcp_reachable:
  "reachable (sample_env k) (plain_call i n ch) ''ABCD'' (sighting 1 ''ABCD'' [1] BLE kUnconnectable)
     (plain_channel ch BLE) open_pcp"
  "reachable (sample_env k) (plain_call i n ch) ''WXYZ'' (sighting 2 ''WXYZ'' [2] BLE kUnconnectable)
     (plain_channel ch BLE) open_pcp"
  by (simp_all add: reachable_def open_pcp_def sighting_def GetDiscoveredEndpoint_def plain_call_def
      append_entries_def AppendWebRTCEndpoint_def sample_env_def GetDiscoveredEndpoints_def
      MediumSupportedByClientOptions_def plain_options_def)

theorem point_to_point_exclusive_witness:
  "find_pending ''ABCD'' (pcp_run (sample_env PointToPointHandler)
     [PIncoming ConnectionsDevice (plain_channel 1 BLE) (Some (request_frame ''ABCD'' 5)),
      PIncoming ConnectionsDevice (plain_channel 2 BLE) (Some (request_frame ''WXYZ'' 6))] open_pcp) \<noteq> None \<and>
   find_pending ''WXYZ'' (pcp_run (sample_env PointToPointHandler)
     [PIncoming ConnectionsDevice (plain_channel 1 BLE) (Some (request_frame ''ABCD'' 5)),
      PIncoming ConnectionsDevice (plain_channel 2 BLE) (Some (request_frame ''WXYZ'' 6))] open_pcp) = None"
    (is "find_pending _ (pcp_run ?env ?evs _) \<noteq> None \<and> _")
proof -
  have pended: "find_pending ''ABCD'' (pcp_run ?env ?evs open_pcp) \<noteq> None"
    by code_simp
  moreover have "find_pending ''WXYZ'' (pcp_run ?env ?evs open_pcp) = None"
  proof (rule ccontr)
    assume "find_pending ''WXYZ'' (pcp_run ?env ?evs open_pcp) \<noteq> None"
    with pended have "''ABCD'' = ''WXYZ''"
      using point_to_point_exclusive [of ?env open_pcp ?evs "''ABCD''" "''WXYZ''"] open_pcp_facts
      by (simp add: sample_env_def)
    then show False by simp
  qed
  ultimately show ?thesis ..
qed

definition two_requests :: "pcp_event list" where
  "two_requests =
     [PRequest (plain_call 1 5 1) ''ABCD'', PRequestV3 (plain_call 2 6 2) ''WXYZ'',
      PKeyFailure ''ABCD'' (plain_channel 1 BLE)]"

theorem every_request_answered_witness:
  "map_of (pcp_results (pcp_run (sample_env ClusterHandler) two_requests open_pcp)) 1 \<noteq> None"
proof -
  let ?s = "pcp_run (sample_env ClusterHandler) two_requests open_pcp"
  have "PRequest (plain_call 1 5 1) ''ABCD'' \<in> set two_requests"
    by (simp add: two_requests_def)
  then have "map_of (pcp_results ?s) 1 \<noteq> None \<or>
      (\<exists>k p. (k, p) \<in> set (pending_connections ?s) \<and> pending_result p = Some 1)"
    using bspec [OF every_request_answered [OF open_pcp_facts(2)], of "(plain_call 1 5 1, ''ABCD'')"
        two_requests "sample_env ClusterHandler"]
    by (simp add: plain_call_def)
  moreover have "list_all (\<lambda>(k, p). pending_result p \<noteq> Some 1) (pending_connections ?s)"
    by code_simp
  ultimately show ?thesis
    by (auto simp: list_all_iff)
qed

definition outgoing_pending :: "int \<Rightarrow> pending_connection" where
  "outgoing_pending nonce = new_pending False (plain_call 1 nonce 1) [1] (plain_channel 1 BLE)"

definition crossing :: "string \<Rightarrow> int \<Rightarrow> pcp_state" where
  "crossing e nonce = open_pcp\<lparr>pending_connections := [(e, outgoing_pending nonce)]\<rparr>"

lemma crossing_requesting: "requesting e (outgoing_pending n) (crossing e n)"
  using open_pcp_facts by (simp add: requesting_def crossing_def outgoing_pending_def new_pending_def)


theorem request_connects_over_best_medium_witness:
  "connect_first (connect_impl (plain_call 1 5 1)) plain_options kError
     (GetDiscoveredEndpoints (GetConnectionMediumsByPriority (sample_env ClusterHandler)) ''ABCD'' open_pcp) =
   (kSuccess, Some (plain_channel 1 BLE))"
proof -
  have "equal_range ''ABCD'' (discovered_endpoints open_pcp) = [sighting 1 ''ABCD'' [1] BLE kUnconnectable]"
    by (simp add: open_pcp_def sighting_def)
  then show ?thesis
    using request_connects_over_best_medium [OF refl refl, where e = "''ABCD''" and s = open_pcp
        and opts = plain_options and C = "connect_impl (plain_call 1 5 1)"
        and env = "sample_env ClusterHandler"]
    by (simp add: MediumSupportedByClientOptions_def plain_options_def sighting_def plain_call_def)
qed

definition occupied :: pcp_state where
  "occupied = open_pcp\<lparr>pending_connections := [(''WXYZ'', outgoing_pending 3)]\<rparr>"

lemma occupied_reachable:
  "reachable (sample_env k) (plain_call i n ch) ''ABCD'' (sighting 1 ''ABCD'' [1] BLE kUnconnectable)
     (plain_channel ch BLE) occupied"
  "reachable (sample_env k) (plain_call i n ch) ''WXYZ'' (sighting 2 ''WXYZ'' [2] BLE kUnconnectable)
     (plain_channel ch BLE) occupied"
  by (simp_all add: occupied_def reachable_def open_pcp_def sighting_def GetDiscoveredEndpoint_def plain_call_def
      append_entries_def AppendWebRTCEndpoint_def sample_env_def GetDiscoveredEndpoints_def
      MediumSupportedByClientOptions_def plain_options_def)

theorem request_ignores_topology_witness:
  "find_pending ''WXYZ'' (RequestConnection (sample_env PointToPointHandler) (plain_call 4 5 1) ''ABCD'' occupied)
     = Some (outgoing_pending 3) \<and>
   find_pending ''ABCD'' (RequestConnection (sample_env PointToPointHandler) (plain_call 4 5 1) ''ABCD'' occupied)
     \<noteq> None"
  using request_ignores_topology [OF _ _ _ _ occupied_reachable(1), of PointToPointHandler "''WXYZ''"
      "outgoing_pending 3" 4 5 1] open_pcp_facts
  by (simp add: sample_env_def occupied_def find_pending_def)

theorem double_request_crashes_witness:
  "pcp_crashed (OnEncryptionSuccessRunnable (sample_env ClusterHandler) ''WXYZ'' (Some True) ''t''
     (OnEncryptionSuccessRunnable (sample_env ClusterHandler) ''WXYZ'' (Some True) ''t''
       (RequestConnection (sample_env ClusterHandler) (plain_call 4 5 1) ''WXYZ'' occupied)))"
  using double_request_crashes [OF _ _ occupied_reachable(2) _ refl refl, where p = "outgoing_pending 3"
      and c = "plain_channel 1 BLE" and b = True and tok = "''t''" and b' = True and tok' = "''t''"]
    open_pcp_facts
  by (simp add: occupied_def find_pending_def outgoing_pending_def new_pending_def plain_call_def)

theorem v3_request_counts_as_incoming_witness:
  "CanReceiveIncomingConnection StarHandler
     (RequestConnectionV3 (sample_env StarHandler) (plain_call 4 5 1) ''ABCD'' open_pcp) \<and>
   \<not> CanReceiveIncomingConnection StarHandler
     (RequestConnection (sample_env StarHandler) (plain_call 4 5 1) ''ABCD'' open_pcp)"
  using v3_request_counts_as_incoming [OF _ open_pcp_facts(2,3) open_pcp_reachable(1), of StarHandler 4 5 1]
  by (simp add: sample_env_def)

theorem keep_alive_bounds_witness:
  "keep_alive_interval_millis (incoming_options (sample_env StarHandler)
     ((request_frame ''ABCD'' 1)\<lparr>req_keep_alive_interval := Some 40000\<rparr>)) = 5000"
  using keep_alive_bounds [of "sample_env StarHandler", OF _ _ refl,
      of "(request_frame ''ABCD'' 1)\<lparr>req_keep_alive_interval := Some 40000\<rparr>"]
  by (simp add: sample_env_def request_frame_def)

end
