(* ===== verification/Payload_Source.thy ===== *)
theory Payload_Source
  imports Payload_Types
begin

text \<open>
  What a payload is read from and written to: pipes (internal/platform/pipe.cc), files
  (internal/platform/implementation/shared/file.cc), skipping (internal/platform/input_stream.cc),
  and the internal payloads over them (connections/implementation/internal_payload_factory.cc).

  The streams an application passes are pipes here, the repository's \<open>InputStream\<close>.  A read that
  would wait for data is \<open>ReadBlocks\<close>; a wait that is interrupted is not modelled.  What a device
  delivers is an argument: \<open>Some n\<close> when a read yields at most \<open>n\<close> bytes.
\<close>

datatype read_outcome = ReadBytes bytes | ReadError | ReadBlocks

section \<open>Pipes\<close>

record pipe =
  pipe_buffer :: "bytes list"
  pipe_input_closed :: bool
  pipe_output_closed :: bool
  pipe_read_all :: bool

definition new_pipe :: pipe where
  "new_pipe = \<lparr>pipe_buffer = [], pipe_input_closed = False, pipe_output_closed = False,
     pipe_read_all = False\<rparr>"

definition Pipe_Read :: "nat \<Rightarrow> pipe \<Rightarrow> read_outcome \<times> pipe" where
  "Pipe_Read sz p =
     (if pipe_read_all p then (ReadBytes [], p)
      else case pipe_buffer p of
        [] \<Rightarrow> if pipe_input_closed p then (ReadBytes [], p\<lparr>pipe_read_all := True\<rparr>)
              else (ReadBlocks, p)
      | chunk # rest \<Rightarrow>
          if chunk = [] then (ReadBytes [], p\<lparr>pipe_read_all := True\<rparr>)
          else if length chunk \<le> sz then (ReadBytes chunk, p\<lparr>pipe_buffer := rest\<rparr>)
          else (ReadBytes (take sz chunk), p\<lparr>pipe_buffer := drop sz chunk # rest\<rparr>))"

definition Pipe_Write :: "bytes \<Rightarrow> pipe \<Rightarrow> bool \<times> pipe" where
  "Pipe_Write bs p =
     (if pipe_input_closed p \<or> pipe_output_closed p then (False, p)
      else (True, p\<lparr>pipe_buffer := pipe_buffer p @ [bs]\<rparr>))"

definition MarkInputStreamClosed :: "pipe \<Rightarrow> pipe" where
  "MarkInputStreamClosed p = p\<lparr>pipe_input_closed := True\<rparr>"

definition MarkOutputStreamClosed :: "pipe \<Rightarrow> pipe" where
  "MarkOutputStreamClosed p =
     (if pipe_output_closed p then p else (snd (Pipe_Write [] p))\<lparr>pipe_output_closed := True\<rparr>)"

section \<open>Files\<close>

text \<open>
  \<open>io_data\<close> is what is left to read of a file opened for reading, and what has been written to
  one opened for writing; \<open>io_good\<close> is the state of the \<open>fstream\<close>.  A read that gets fewer bytes
  than it asks for leaves the stream not good, and \<open>peek\<close> then returns EOF.
\<close>

record io_file =
  io_path :: string
  io_open :: bool
  io_good :: bool
  io_data :: bytes
  io_total_size :: int

definition IOFile_Read :: "nat option \<Rightarrow> nat \<Rightarrow> io_file \<Rightarrow> read_outcome \<times> io_file" where
  "IOFile_Read delivers sz f =
     (if \<not> io_open f then (ReadError, f)
      else if \<not> io_good f \<or> io_data f = [] then (ReadBytes [], f\<lparr>io_good := False\<rparr>)
      else let n = (case delivers of None \<Rightarrow> sz | Some k \<Rightarrow> min sz k);
               bs = take n (io_data f);
               f' = f\<lparr>io_data := drop n (io_data f), io_good := (length bs = sz)\<rparr>
           in if bs = [] then (ReadError, f') else (ReadBytes bs, f'))"

definition IOFile_Write :: "bool \<Rightarrow> bytes \<Rightarrow> io_file \<Rightarrow> bool \<times> io_file" where
  "IOFile_Write disk_ok bs f =
     (if \<not> io_open f \<or> \<not> io_good f then (False, f)
      else if disk_ok then (True, f\<lparr>io_data := io_data f @ bs\<rparr>)
      else (False, f\<lparr>io_good := False\<rparr>))"

definition IOFile_Close :: "io_file \<Rightarrow> io_file" where
  "IOFile_Close f = f\<lparr>io_open := False\<rparr>"

section \<open>Skipping\<close>

datatype skip_outcome = Skipped nat | SkipError | SkipBlocks

definition kSkipBufferSize :: nat where "kSkipBufferSize = 65536"

text \<open>\<open>InputStream::Skip\<close> over any stream; \<open>left\<close> is \<open>bytes_left\<close>.\<close>

function skip_loop ::
  "(nat \<Rightarrow> 's \<Rightarrow> read_outcome \<times> 's) \<Rightarrow> nat \<Rightarrow> nat \<Rightarrow> 's \<Rightarrow> skip_outcome \<times> 's" where
  "skip_loop read off left s =
     (if left = 0 then (Skipped off, s)
      else case read (min left kSkipBufferSize) s of
             (ReadError, s') \<Rightarrow> (SkipError, s')
           | (ReadBlocks, s') \<Rightarrow> (SkipBlocks, s')
           | (ReadBytes bs, s') \<Rightarrow>
               if bs = [] then (Skipped (off - left), s')
               else skip_loop read off (left - length bs) s')"
  by pat_completeness auto
termination
  by (relation "measure (\<lambda>(read, off, left, s). left)") auto

declare skip_loop.simps [simp del]

definition InputStream_Skip ::
  "(nat \<Rightarrow> 's \<Rightarrow> read_outcome \<times> 's) \<Rightarrow> nat \<Rightarrow> 's \<Rightarrow> skip_outcome \<times> 's" where
  "InputStream_Skip read off s = skip_loop read off off s"

section \<open>The objects of the platform\<close>

record platform =
  pf_pipes :: "nat \<Rightarrow> pipe"
  pf_files :: "nat \<Rightarrow> io_file"
  pf_next :: nat

definition on_pipe :: "nat \<Rightarrow> (pipe \<Rightarrow> 'r \<times> pipe) \<Rightarrow> platform \<Rightarrow> 'r \<times> platform" where
  "on_pipe r f s =
     (case f (pf_pipes s r) of (x, p) \<Rightarrow> (x, s\<lparr>pf_pipes := (pf_pipes s)(r := p)\<rparr>))"

definition on_file :: "nat \<Rightarrow> (io_file \<Rightarrow> 'r \<times> io_file) \<Rightarrow> platform \<Rightarrow> 'r \<times> platform" where
  "on_file r f s =
     (case f (pf_files s r) of (x, p) \<Rightarrow> (x, s\<lparr>pf_files := (pf_files s)(r := p)\<rparr>))"

definition CreatePipe :: "platform \<Rightarrow> nat \<times> platform" where
  "CreatePipe s =
     (pf_next s, s\<lparr>pf_pipes := (pf_pipes s)(pf_next s := new_pipe), pf_next := Suc (pf_next s)\<rparr>)"

definition open_output :: "string \<Rightarrow> platform \<Rightarrow> nat \<times> platform" where
  "open_output path s =
     (pf_next s, s\<lparr>pf_files := (pf_files s)(pf_next s :=
        \<lparr>io_path = path, io_open = True, io_good = True, io_data = [], io_total_size = 0\<rparr>),
        pf_next := Suc (pf_next s)\<rparr>)"

section \<open>Internal payloads\<close>

datatype payload_kind =
    BytesInternalPayload int bool
  | OutgoingStreamInternalPayload
  | IncomingStreamInternalPayload nat
  | OutgoingFileInternalPayload int
  | IncomingFileInternalPayload nat int int

record internal_payload =
  ip_payload :: payload
  ip_id :: int
  ip_kind :: payload_kind

datatype wire_payload_type = UNKNOWN_PAYLOAD_TYPE | BYTES | FILE | STREAM

fun GetType :: "payload_kind \<Rightarrow> wire_payload_type" where
  "GetType (BytesInternalPayload _ _) = BYTES"
| "GetType OutgoingStreamInternalPayload = STREAM"
| "GetType (IncomingStreamInternalPayload _) = STREAM"
| "GetType (OutgoingFileInternalPayload _) = FILE"
| "GetType (IncomingFileInternalPayload _ _ _) = FILE"

definition kIndeterminateSize :: int where "kIndeterminateSize = - 1"

fun GetTotalSize :: "payload_kind \<Rightarrow> int" where
  "GetTotalSize (BytesInternalPayload n _) = n"
| "GetTotalSize OutgoingStreamInternalPayload = - 1"
| "GetTotalSize (IncomingStreamInternalPayload _) = - 1"
| "GetTotalSize (OutgoingFileInternalPayload n) = n"
| "GetTotalSize (IncomingFileInternalPayload _ _ n) = n"

definition ReleasePayload :: "internal_payload \<Rightarrow> payload \<times> internal_payload" where
  "ReleasePayload ip =
     (ip_payload ip, ip\<lparr>ip_payload := (ip_payload ip)\<lparr>payload_content := NoContent\<rparr>\<rparr>)"

definition close_pipe_input :: "nat \<Rightarrow> platform \<Rightarrow> platform" where
  "close_pipe_input r pf = snd (on_pipe r (\<lambda>p. ((), MarkInputStreamClosed p)) pf)"

definition close_pipe_output :: "nat \<Rightarrow> platform \<Rightarrow> platform" where
  "close_pipe_output r pf = snd (on_pipe r (\<lambda>p. ((), MarkOutputStreamClosed p)) pf)"

definition close_file :: "nat \<Rightarrow> platform \<Rightarrow> platform" where
  "close_file r pf = snd (on_file r (\<lambda>f. ((), IOFile_Close f)) pf)"

text \<open>The chunk is \<open>None\<close> while the read blocks.\<close>

definition stream_DetachNextChunk :: "nat \<Rightarrow> nat \<Rightarrow> platform \<Rightarrow> bytes option \<times> platform" where
  "stream_DetachNextChunk chunk_size r pf =
     (case on_pipe r (Pipe_Read chunk_size) pf of
        (ReadBlocks, pf') \<Rightarrow> (None, pf')
      | (ReadError, pf') \<Rightarrow> (Some [], close_pipe_input r pf')
      | (ReadBytes bs, pf') \<Rightarrow>
          if bs = [] then (Some [], close_pipe_input r pf') else (Some bs, pf'))"

definition file_DetachNextChunk ::
  "nat option \<Rightarrow> nat \<Rightarrow> nat \<Rightarrow> platform \<Rightarrow> bytes option \<times> platform" where
  "file_DetachNextChunk delivers chunk_size r pf =
     (case on_file r (IOFile_Read delivers chunk_size) pf of
        (ReadBytes bs, pf') \<Rightarrow> if bs = [] then (Some [], close_file r pf') else (Some bs, pf')
      | (_, pf') \<Rightarrow> (Some [], pf'))"

definition DetachNextChunk ::
  "nat option \<Rightarrow> nat \<Rightarrow> internal_payload \<times> platform \<Rightarrow> bytes option \<times> internal_payload \<times> platform" where
  "DetachNextChunk delivers chunk_size = (\<lambda>(ip, pf).
     (case ip_kind ip of
        BytesInternalPayload n detached \<Rightarrow>
          if detached then (Some [], ip, pf)
          else (Some (AsBytes (ip_payload ip)), ip\<lparr>ip_kind := BytesInternalPayload n True\<rparr>, pf)
      | OutgoingStreamInternalPayload \<Rightarrow>
          (case AsStream (ip_payload ip) of
             None \<Rightarrow> (Some [], ip, pf)
           | Some r \<Rightarrow> (case stream_DetachNextChunk chunk_size r pf of (c, pf') \<Rightarrow> (c, ip, pf')))
      | OutgoingFileInternalPayload n \<Rightarrow>
          (case AsFile (ip_payload ip) of
             None \<Rightarrow> (Some [], ip, pf)
           | Some r \<Rightarrow>
               (case file_DetachNextChunk delivers chunk_size r pf of (c, pf') \<Rightarrow> (c, ip, pf')))
      | _ \<Rightarrow> (Some [], ip, pf)))"

definition InternalPayload_Close :: "internal_payload \<Rightarrow> platform \<Rightarrow> platform" where
  "InternalPayload_Close ip pf =
     (case ip_kind ip of
        BytesInternalPayload _ _ \<Rightarrow> pf
      | OutgoingStreamInternalPayload \<Rightarrow>
          (case AsStream (ip_payload ip) of None \<Rightarrow> pf | Some r \<Rightarrow> close_pipe_input r pf)
      | IncomingStreamInternalPayload r \<Rightarrow> close_pipe_output r pf
      | OutgoingFileInternalPayload _ \<Rightarrow>
          (case AsFile (ip_payload ip) of None \<Rightarrow> pf | Some r \<Rightarrow> close_file r pf)
      | IncomingFileInternalPayload r _ _ \<Rightarrow> close_file r pf)"

text \<open>The first component is whether the exception is \<open>kSuccess\<close>.\<close>

definition AttachNextChunk :: "bool \<Rightarrow> bytes \<Rightarrow> internal_payload \<Rightarrow> platform \<Rightarrow> bool \<times> platform" where
  "AttachNextChunk disk_ok chunk ip pf =
     (case ip_kind ip of
        BytesInternalPayload _ _ \<Rightarrow> (True, pf)
      | IncomingStreamInternalPayload r \<Rightarrow>
          if chunk = [] then (True, close_pipe_output r pf) else on_pipe r (Pipe_Write chunk) pf
      | IncomingFileInternalPayload r _ _ \<Rightarrow>
          if chunk = [] then (True, close_file r pf) else on_file r (IOFile_Write disk_ok chunk) pf
      | _ \<Rightarrow> (False, pf))"

definition SkipToOffset ::
  "nat option \<Rightarrow> nat \<Rightarrow> internal_payload \<Rightarrow> platform \<Rightarrow> skip_outcome \<times> platform" where
  "SkipToOffset delivers off ip pf =
     (case ip_kind ip of
        OutgoingStreamInternalPayload \<Rightarrow>
          (case AsStream (ip_payload ip) of
             None \<Rightarrow> (SkipError, pf)
           | Some r \<Rightarrow>
               (case on_pipe r (InputStream_Skip Pipe_Read off) pf of
                  (SkipBlocks, pf') \<Rightarrow> (SkipBlocks, pf')
                | (SkipError, pf') \<Rightarrow> (SkipError, close_pipe_input r pf')
                | (Skipped n, pf') \<Rightarrow>
                    if n = off then (Skipped n, pf') else (SkipError, close_pipe_input r pf')))
      | OutgoingFileInternalPayload _ \<Rightarrow>
          (case AsFile (ip_payload ip) of
             None \<Rightarrow> (SkipError, pf)
           | Some r \<Rightarrow>
               (case on_file r (InputStream_Skip (IOFile_Read delivers) off) pf of
                  (Skipped n, pf') \<Rightarrow>
                    if n = off then (Skipped n, pf') else (SkipError, close_file r pf')
                | (_, pf') \<Rightarrow> (SkipError, close_file r pf')))
      | _ \<Rightarrow> (SkipError, pf))"

text \<open>\<open>None\<close> stands for \<open>DETAIL_UNKNOWN\<close>.\<close>

definition CreateOutgoingInternalPayload :: "platform \<Rightarrow> payload \<Rightarrow> internal_payload option" where
  "CreateOutgoingInternalPayload pf p =
     (case payload_type p of
        kBytes \<Rightarrow> Some \<lparr>ip_payload = p, ip_id = payload_id p,
                     ip_kind = BytesInternalPayload (int (length (AsBytes p))) False\<rparr>
      | kFile \<Rightarrow> map_option (\<lambda>f. \<lparr>ip_payload = p, ip_id = payload_id p,
                     ip_kind = OutgoingFileInternalPayload (io_total_size (pf_files pf f))\<rparr>) (AsFile p)
      | kStream \<Rightarrow> Some \<lparr>ip_payload = p, ip_id = payload_id p, ip_kind = OutgoingStreamInternalPayload\<rparr>
      | kUnknownType \<Rightarrow> None)"

end
