(* ===== verification/Payload_State.thy ===== *)
theory Payload_State
  imports Payload_Source Channel_Manager "HOL-Library.AList"
begin

text \<open>
  The state of \<open>PayloadManager\<close> (connections/implementation/payload_manager.h) and the table of
  its pending payloads, with their reference counts.

  A \<open>PendingPayload\<close> is an object with an address; \<open>pm_objects\<close> holds the live ones.  A handle
  that a thread keeps is a reference counted in the object.  A use of an object that is gone
  sets \<open>pm_crashed\<close>.  What runs on the status update thread is a queue of tasks.
\<close>

section \<open>Frames\<close>

record payload_header =
  hd_id :: "int option"
  hd_type :: "wire_payload_type option"
  hd_total_size :: "int option"
  hd_file_name :: "string option"
  hd_parent_folder :: "string option"
  hd_last_modified :: "int option"

definition header_id :: "payload_header \<Rightarrow> int" where
  "header_id h = (case hd_id h of Some i \<Rightarrow> i | None \<Rightarrow> 0)"

definition header_type :: "payload_header \<Rightarrow> wire_payload_type" where
  "header_type h = (case hd_type h of Some t \<Rightarrow> t | None \<Rightarrow> UNKNOWN_PAYLOAD_TYPE)"

definition header_total_size :: "payload_header \<Rightarrow> int" where
  "header_total_size h = (case hd_total_size h of Some n \<Rightarrow> n | None \<Rightarrow> 0)"

record payload_chunk =
  ck_flags :: "32 word"
  ck_offset :: int
  ck_body :: bytes
  ck_index :: int

definition LAST_CHUNK :: "32 word" where "LAST_CHUNK = 1"

definition last_flag :: "32 word \<Rightarrow> bool" where
  "last_flag fl \<longleftrightarrow> fl AND LAST_CHUNK \<noteq> 0"

definition IsLastChunk :: "payload_chunk \<Rightarrow> bool" where
  "IsLastChunk c = last_flag (ck_flags c)"

datatype control_event = UNKNOWN_EVENT_TYPE | PAYLOAD_ERROR | PAYLOAD_CANCELED | PAYLOAD_RECEIVED_ACK

text \<open>A transfer frame, by its packet type, with the message that goes with it.\<close>

datatype payload_frame =
    DataFrame payload_header payload_chunk
  | ControlFrame payload_header control_event int
  | AckFrame payload_header
  | UnknownFrame payload_header

section \<open>Pending payloads\<close>

datatype EndpointStatus = StatusUnknown | StatusAvailable | StatusCanceled | StatusError

record payload_endpoint =
  pe_status :: EndpointStatus
  pe_offset :: int
  pe_received_ack :: bool

record pending_payload =
  pp_is_incoming :: bool
  pp_locally_canceled :: bool
  pp_closed :: bool
  pp_internal :: internal_payload
  pp_endpoints :: "(string \<times> payload_endpoint) list"
  pp_refcount :: int

definition pp_id :: "pending_payload \<Rightarrow> int" where
  "pp_id p = ip_id (pp_internal p)"

text \<open>\<open>emplace\<close> keeps the first entry of an endpoint that is listed twice.\<close>

fun available_endpoints :: "string list \<Rightarrow> (string \<times> payload_endpoint) list" where
  "available_endpoints [] = []"
| "available_endpoints (e # es) =
     (e, \<lparr>pe_status = StatusAvailable, pe_offset = 0, pe_received_ack = False\<rparr>) #
     filter (\<lambda>(k, _). k \<noteq> e) (available_endpoints es)"

definition new_pending_payload :: "internal_payload \<Rightarrow> string list \<Rightarrow> bool \<Rightarrow> pending_payload" where
  "new_pending_payload ip es incoming =
     \<lparr>pp_is_incoming = incoming, pp_locally_canceled = False, pp_closed = False, pp_internal = ip,
      pp_endpoints = available_endpoints es, pp_refcount = 0\<rparr>"

definition GetEndpoint :: "string \<Rightarrow> pending_payload \<Rightarrow> payload_endpoint option" where
  "GetEndpoint e p = map_of (pp_endpoints p) e"

text \<open>\<open>endpoints_\<close> is an association list; its elements are the first of each key.\<close>

definition GetEndpoints :: "pending_payload \<Rightarrow> (string \<times> payload_endpoint) list" where
  "GetEndpoints p = AList.clearjunk (pp_endpoints p)"

definition RemoveEndpoints :: "string list \<Rightarrow> pending_payload \<Rightarrow> pending_payload" where
  "RemoveEndpoints es p = p\<lparr>pp_endpoints := filter (\<lambda>(k, _). k \<notin> set es) (pp_endpoints p)\<rparr>"

definition update_endpoint_info ::
  "string \<Rightarrow> (payload_endpoint \<Rightarrow> payload_endpoint) \<Rightarrow> pending_payload \<Rightarrow> pending_payload" where
  "update_endpoint_info e f p =
     p\<lparr>pp_endpoints := map (\<lambda>(k, i). (k, if k = e then f i else i)) (pp_endpoints p)\<rparr>"

fun ControlMessageEventToEndpointInfoStatus :: "control_event \<Rightarrow> EndpointStatus" where
  "ControlMessageEventToEndpointInfoStatus PAYLOAD_ERROR = StatusError"
| "ControlMessageEventToEndpointInfoStatus PAYLOAD_CANCELED = StatusCanceled"
| "ControlMessageEventToEndpointInfoStatus _ = StatusUnknown"

definition SetEndpointStatusFromControlMessage ::
  "string \<Rightarrow> control_event \<Rightarrow> pending_payload \<Rightarrow> pending_payload" where
  "SetEndpointStatusFromControlMessage e ev =
     update_endpoint_info e (\<lambda>i. i\<lparr>pe_status := ControlMessageEventToEndpointInfoStatus ev\<rparr>)"

definition SetOffsetForEndpoint :: "string \<Rightarrow> int \<Rightarrow> pending_payload \<Rightarrow> pending_payload" where
  "SetOffsetForEndpoint e off = update_endpoint_info e (\<lambda>i. i\<lparr>pe_offset := off\<rparr>)"

definition MarkReceivedAckFromEndpoint :: "string \<Rightarrow> pending_payload \<Rightarrow> pending_payload" where
  "MarkReceivedAckFromEndpoint e = update_endpoint_info e (\<lambda>i. i\<lparr>pe_received_ack := True\<rparr>)"

section \<open>The state of the manager\<close>

datatype PayloadStatus =
    UNKNOWN_PAYLOAD_STATUS | SUCCESS | LOCAL_ERROR | REMOTE_ERROR | ENDPOINT_IO_ERROR
  | LOCAL_CANCELLATION | REMOTE_CANCELLATION

datatype status_task =
    FinishedOutgoing "string list" payload_header int PayloadStatus
  | FinishedIncoming string payload_header int PayloadStatus
  | OutgoingChunkSent string payload_header "32 word" int int
  | IncomingChunkReceived string payload_header "32 word" int int
  | NewPayload string "nat option"
  | DestroyPayload int
  | EndpointGone string
  | ShutdownNotification
  | StopTracking

record send_task =
  st_payload_id :: int
  st_resume_offset :: nat

record running_send =
  rs_object :: nat
  rs_header :: payload_header
  rs_offset :: int
  rs_resume_offset :: nat
  rs_index :: int

record sender =
  sd_queue :: "send_task list"
  sd_running :: "running_send option"

record payload_flags =
  flag_payload_received_ack :: bool
  flag_skip_chunk_update :: bool
  flag_send_payload_offset :: bool

record payload_manager =
  pm_flags :: payload_flags
  pm_objects :: "nat \<Rightarrow> pending_payload option"
  pm_next :: nat
  pm_tracked :: "(int \<times> nat) list"
  pm_bin :: "nat list"
  pm_platform :: platform
  pm_client :: client_proxy
  pm_channels :: channel_map
  pm_status_tasks :: "status_task list"
  pm_ack_tasks :: "(nat \<times> string) list"
  pm_senders :: "PayloadType \<Rightarrow> sender"
  pm_sent :: "(string \<times> payload_frame) list"
  pm_discards :: "string list"
  pm_save_path :: string
  pm_shutdown :: bool
  pm_barrier :: "nat option"
  pm_outgoing_updates :: int
  pm_incoming_updates :: int
  pm_last_outgoing_update :: "int option"
  pm_last_incoming_update :: "int option"
  pm_crashed :: bool

definition RunOnStatusUpdateThread :: "status_task \<Rightarrow> payload_manager \<Rightarrow> payload_manager" where
  "RunOnStatusUpdateThread t s = s\<lparr>pm_status_tasks := pm_status_tasks s @ [t]\<rparr>"

definition pm_crash :: "payload_manager \<Rightarrow> payload_manager" where
  "pm_crash s = s\<lparr>pm_crashed := True\<rparr>"

definition on_payload_client :: "(client_proxy \<Rightarrow> client_proxy) \<Rightarrow> payload_manager \<Rightarrow> payload_manager" where
  "on_payload_client f s = s\<lparr>pm_client := f (pm_client s)\<rparr>"

text \<open>A change of the object at an address.\<close>

definition write_object ::
  "nat \<Rightarrow> (pending_payload \<Rightarrow> pending_payload) \<Rightarrow> payload_manager \<Rightarrow> payload_manager" where
  "write_object a f s = s\<lparr>pm_objects := (pm_objects s)(a := map_option f (pm_objects s a))\<rparr>"

text \<open>A use of the object at an address.\<close>

definition with_object ::
  "nat \<Rightarrow> (pending_payload \<Rightarrow> payload_manager \<Rightarrow> payload_manager) \<Rightarrow> payload_manager \<Rightarrow> payload_manager" where
  "with_object a f s = (case pm_objects s a of None \<Rightarrow> pm_crash s | Some p \<Rightarrow> f p s)"

section \<open>Closing and destroying a payload\<close>

definition PendingPayload_Close :: "nat \<Rightarrow> payload_manager \<Rightarrow> payload_manager" where
  "PendingPayload_Close a = with_object a (\<lambda>p s.
     if pp_closed p then s
     else (write_object a (\<lambda>p. p\<lparr>pp_closed := True\<rparr>) s)
            \<lparr>pm_platform := InternalPayload_Close (pp_internal p) (pm_platform s)\<rparr>)"

definition OnPendingPayloadDestroy :: "pending_payload \<Rightarrow> payload_manager \<Rightarrow> payload_manager" where
  "OnPendingPayloadDestroy p s =
     (if pp_is_incoming p then s else RunOnStatusUpdateThread ShutdownNotification s)"

definition destroy_object :: "nat \<Rightarrow> payload_manager \<Rightarrow> payload_manager" where
  "destroy_object a = with_object a (\<lambda>p s.
     let s1 = OnPendingPayloadDestroy p (PendingPayload_Close a s)
     in s1\<lparr>pm_objects := (pm_objects s1)(a := None)\<rparr>)"

section \<open>The table of pending payloads\<close>

definition add_ref :: "int \<Rightarrow> nat \<Rightarrow> payload_manager \<Rightarrow> payload_manager" where
  "add_ref n a = write_object a (\<lambda>p. p\<lparr>pp_refcount := pp_refcount p + n\<rparr>)"

text \<open>\<open>Remove\<close>, of the element at an iterator that is not the end.\<close>

definition PendingPayloads_Remove :: "int \<Rightarrow> payload_manager \<Rightarrow> payload_manager" where
  "PendingPayloads_Remove i s =
     (case map_of (pm_tracked s) i of
        None \<Rightarrow> s
      | Some a \<Rightarrow> with_object a (\<lambda>p s.
          if pp_refcount p = 0 then destroy_object a s else s\<lparr>pm_bin := pm_bin s @ [a]\<rparr>)
          ((add_ref (- 1) a s)\<lparr>pm_tracked := filter (\<lambda>(k, _). k \<noteq> i) (pm_tracked s)\<rparr>))"

definition StartTrackingPayload :: "int \<Rightarrow> pending_payload \<Rightarrow> payload_manager \<Rightarrow> payload_manager" where
  "StartTrackingPayload i p s =
     (let s1 = PendingPayloads_Remove i s; a = pm_next s1
      in s1\<lparr>pm_objects := (pm_objects s1)(a \<mapsto> p\<lparr>pp_refcount := pp_refcount p + 1\<rparr>),
            pm_tracked := pm_tracked s1 @ [(i, a)], pm_next := Suc a\<rparr>)"

definition StopTrackingPayload :: "int \<Rightarrow> payload_manager \<Rightarrow> payload_manager" where
  "StopTrackingPayload = PendingPayloads_Remove"

definition StopTrackingAllPayloads :: "payload_manager \<Rightarrow> payload_manager" where
  "StopTrackingAllPayloads s = fold PendingPayloads_Remove (map fst (pm_tracked s)) s"

definition GetPayload :: "int \<Rightarrow> payload_manager \<Rightarrow> nat option \<times> payload_manager" where
  "GetPayload i s =
     (case map_of (pm_tracked s) i of None \<Rightarrow> (None, s) | Some a \<Rightarrow> (Some a, add_ref 1 a s))"

definition PendingPayloads_Release :: "nat \<Rightarrow> payload_manager \<Rightarrow> payload_manager" where
  "PendingPayloads_Release a = with_object a (\<lambda>p s.
     if map_of (pm_tracked s) (pp_id p) = Some a then add_ref (- 1) a s
     else if a \<in> set (pm_bin s) then
       let s1 = add_ref (- 1) a s
       in if pp_refcount p - 1 = 0
          then destroy_object a (s1\<lparr>pm_bin := removeAll a (pm_bin s1)\<rparr>)
          else s1
     else s)"

text \<open>The scope of a handle: what is done with the payload, if there is one, then the release.\<close>

definition with_payload ::
  "int \<Rightarrow> (nat \<Rightarrow> payload_manager \<Rightarrow> payload_manager) \<Rightarrow> payload_manager \<Rightarrow> payload_manager" where
  "with_payload i f s =
     (case GetPayload i s of
        (None, s1) \<Rightarrow> s1 | (Some a, s1) \<Rightarrow> PendingPayloads_Release a (f a s1))"

end
