(* ===== verification/Payload_Manager.thy ===== *)
theory Payload_Manager
  imports Payload_State
begin

text \<open>
  The operations of \<open>PayloadManager\<close> (connections/implementation/payload_manager.cc) other than
  the sending loop: frames that arrive, the tasks of the status update thread, cancellation,
  the loss of an endpoint; with the sending functions of \<open>EndpointManager\<close>
  (endpoint_manager.cc) and the creation of incoming payloads (internal_payload_factory.cc).

  What writing to an endpoint's channel gives, what the disk and the platform's paths are, and
  the time are arguments.  Analytics and throughput records are left out.
\<close>

section \<open>Conversions of status values\<close>

fun EndpointInfoStatusToPayloadStatus :: "EndpointStatus \<Rightarrow> PayloadStatus" where
  "EndpointInfoStatusToPayloadStatus StatusCanceled = REMOTE_CANCELLATION"
| "EndpointInfoStatusToPayloadStatus StatusError = REMOTE_ERROR"
| "EndpointInfoStatusToPayloadStatus StatusAvailable = SUCCESS"
| "EndpointInfoStatusToPayloadStatus StatusUnknown = UNKNOWN_PAYLOAD_STATUS"

fun ControlMessageEventToPayloadStatus :: "control_event \<Rightarrow> PayloadStatus" where
  "ControlMessageEventToPayloadStatus PAYLOAD_ERROR = REMOTE_ERROR"
| "ControlMessageEventToPayloadStatus PAYLOAD_CANCELED = REMOTE_CANCELLATION"
| "ControlMessageEventToPayloadStatus _ = UNKNOWN_PAYLOAD_STATUS"

fun PayloadStatusToTransferUpdateStatus :: "PayloadStatus \<Rightarrow> ProgressStatus" where
  "PayloadStatusToTransferUpdateStatus LOCAL_CANCELLATION = ProgressCanceled"
| "PayloadStatusToTransferUpdateStatus REMOTE_CANCELLATION = ProgressCanceled"
| "PayloadStatusToTransferUpdateStatus SUCCESS = ProgressSuccess"
| "PayloadStatusToTransferUpdateStatus _ = ProgressFailure"

section \<open>Sending frames\<close>

definition GetMaxTransmitPacketSize ::
  "(endpoint_channel \<Rightarrow> nat) \<Rightarrow> string \<Rightarrow> channel_map \<Rightarrow> nat" where
  "GetMaxTransmitPacketSize packet_size e m =
     (case GetChannelForEndpoint e m of None \<Rightarrow> 0 | Some ch \<Rightarrow> packet_size ch)"

text \<open>The endpoints that failed, and the state in which the frame went out to the others.\<close>

fun SendTransferFrameBytes ::
  "(string \<Rightarrow> bool) \<Rightarrow> payload_frame \<Rightarrow> string list \<Rightarrow> payload_manager \<Rightarrow>
   string list \<times> payload_manager" where
  "SendTransferFrameBytes write_ok fr [] s = ([], s)"
| "SendTransferFrameBytes write_ok fr (e # es) s =
     (if GetChannelForEndpoint e (pm_channels s) = None \<or> \<not> write_ok e
      then (case SendTransferFrameBytes write_ok fr es s of (failed, s') \<Rightarrow> (e # failed, s'))
      else SendTransferFrameBytes write_ok fr es (s\<lparr>pm_sent := pm_sent s @ [(e, fr)]\<rparr>))"

definition SendControlMessage ::
  "(string \<Rightarrow> bool) \<Rightarrow> string list \<Rightarrow> payload_header \<Rightarrow> int \<Rightarrow> control_event \<Rightarrow> payload_manager \<Rightarrow>
   payload_manager" where
  "SendControlMessage write_ok es h off ev s =
     snd (SendTransferFrameBytes write_ok (ControlFrame h ev off) es s)"

definition ack_frame :: "int \<Rightarrow> payload_frame" where
  "ack_frame i = AckFrame \<lparr>hd_id = Some i, hd_type = None, hd_total_size = Some kIndeterminateSize,
     hd_file_name = None, hd_parent_folder = None, hd_last_modified = None\<rparr>"

text \<open>\<open>DiscardEndpoint\<close> with \<open>IO_ERROR\<close>; the removal it posts is another thread's.\<close>

definition payload_DiscardEndpoint :: "string \<Rightarrow> payload_manager \<Rightarrow> payload_manager" where
  "payload_DiscardEndpoint e s =
     s\<lparr>pm_channels := MarkEndpointStopWaitToDisconnect e False True (pm_channels s),
       pm_discards := pm_discards s @ [e]\<rparr>"

definition ack_enabled :: "string \<Rightarrow> pending_payload \<Rightarrow> payload_manager \<Rightarrow> bool" where
  "ack_enabled e p s \<longleftrightarrow> flag_payload_received_ack (pm_flags s) \<and>
     IsPayloadReceivedAckEnabled e (pm_client s) \<and> GetType (ip_kind (pp_internal p)) \<noteq> BYTES"

text \<open>The task that sends the acknowledgement refers to the payload without a handle.\<close>

definition SendPayloadReceivedAck ::
  "nat \<Rightarrow> pending_payload \<Rightarrow> string \<Rightarrow> bool \<Rightarrow> payload_manager \<Rightarrow> payload_manager" where
  "SendPayloadReceivedAck a p e is_last s =
     (if \<not> is_last \<or> \<not> ack_enabled e p s then s
      else s\<lparr>pm_ack_tasks := pm_ack_tasks s @ [(a, e)]\<rparr>)"

definition run_ack_task :: "(string \<Rightarrow> bool) \<Rightarrow> payload_manager \<Rightarrow> payload_manager" where
  "run_ack_task write_ok s =
     (case pm_ack_tasks s of
        [] \<Rightarrow> s
      | (a, e) # ts \<Rightarrow> with_object a (\<lambda>p s.
          snd (SendTransferFrameBytes write_ok (ack_frame (pp_id p)) [e] s))
          (s\<lparr>pm_ack_tasks := ts\<rparr>))"

section \<open>Finished payloads\<close>

definition HandleFinishedOutgoingPayload ::
  "(string \<Rightarrow> bool) \<Rightarrow> string list \<Rightarrow> payload_header \<Rightarrow> int \<Rightarrow> PayloadStatus \<Rightarrow> payload_manager \<Rightarrow>
   payload_manager" where
  "HandleFinishedOutgoingPayload write_ok es h n st s =
     (let s1 = RunOnStatusUpdateThread (FinishedOutgoing es h n st) s
      in case st of
           LOCAL_ERROR \<Rightarrow> SendControlMessage write_ok es h n PAYLOAD_ERROR s1
         | LOCAL_CANCELLATION \<Rightarrow> SendControlMessage write_ok es h n PAYLOAD_CANCELED s1
         | ENDPOINT_IO_ERROR \<Rightarrow> fold payload_DiscardEndpoint es s1
         | _ \<Rightarrow> s1)"

definition HandleFinishedIncomingPayload ::
  "(string \<Rightarrow> bool) \<Rightarrow> string \<Rightarrow> payload_header \<Rightarrow> int \<Rightarrow> PayloadStatus \<Rightarrow> payload_manager \<Rightarrow>
   payload_manager" where
  "HandleFinishedIncomingPayload write_ok e h n st s =
     (let s1 = RunOnStatusUpdateThread (FinishedIncoming e h n st) s
      in case st of
           LOCAL_ERROR \<Rightarrow> SendControlMessage write_ok [e] h n PAYLOAD_ERROR s1
         | LOCAL_CANCELLATION \<Rightarrow> SendControlMessage write_ok [e] h n PAYLOAD_CANCELED s1
         | _ \<Rightarrow> s1)"

definition HandleSuccessfulOutgoingChunk ::
  "string \<Rightarrow> payload_header \<Rightarrow> 32 word \<Rightarrow> int \<Rightarrow> int \<Rightarrow> payload_manager \<Rightarrow> payload_manager" where
  "HandleSuccessfulOutgoingChunk e h fl off sz s =
     RunOnStatusUpdateThread (OutgoingChunkSent e h fl off sz)
       (if flag_skip_chunk_update (pm_flags s)
        then s\<lparr>pm_outgoing_updates := pm_outgoing_updates s + 1\<rparr> else s)"

definition HandleSuccessfulIncomingChunk ::
  "string \<Rightarrow> payload_header \<Rightarrow> 32 word \<Rightarrow> int \<Rightarrow> int \<Rightarrow> payload_manager \<Rightarrow> payload_manager" where
  "HandleSuccessfulIncomingChunk e h fl off sz s =
     RunOnStatusUpdateThread (IncomingChunkReceived e h fl off sz)
       (if flag_skip_chunk_update (pm_flags s)
        then s\<lparr>pm_incoming_updates := pm_incoming_updates s + 1\<rparr> else s)"

section \<open>The tasks of the status update thread\<close>

definition close_if_deserted :: "nat \<Rightarrow> payload_manager \<Rightarrow> payload_manager" where
  "close_if_deserted a = with_object a (\<lambda>p s.
     if GetEndpoints p = [] then PendingPayload_Close a s else s)"

definition notify_finished ::
  "nat \<Rightarrow> payload_progress_info \<Rightarrow> string \<Rightarrow> payload_manager \<Rightarrow> payload_manager" where
  "notify_finished a info e = with_object a (\<lambda>p s.
     if GetEndpoint e p = None then s else on_payload_client (OnPayloadProgress e info) s)"

definition run_FinishedOutgoing ::
  "string list \<Rightarrow> payload_header \<Rightarrow> int \<Rightarrow> PayloadStatus \<Rightarrow> payload_manager \<Rightarrow> payload_manager" where
  "run_FinishedOutgoing es h n st = with_payload (header_id h) (\<lambda>a s.
     let info = \<lparr>progress_payload_id = header_id h,
                 progress_status = PayloadStatusToTransferUpdateStatus st,
                 progress_total_bytes = header_total_size h, progress_bytes_transferred = n\<rparr>
     in close_if_deserted a (write_object a (RemoveEndpoints es) (fold (notify_finished a info) es s)))"

definition DestroyPendingPayload :: "int \<Rightarrow> payload_manager \<Rightarrow> payload_manager" where
  "DestroyPendingPayload = StopTrackingPayload"

definition run_FinishedIncoming ::
  "string \<Rightarrow> payload_header \<Rightarrow> int \<Rightarrow> PayloadStatus \<Rightarrow> payload_manager \<Rightarrow> payload_manager" where
  "run_FinishedIncoming e h n st = with_payload (header_id h) (\<lambda>a s.
     let info = \<lparr>progress_payload_id = header_id h,
                 progress_status = PayloadStatusToTransferUpdateStatus st,
                 progress_total_bytes = header_total_size h, progress_bytes_transferred = n\<rparr>
     in DestroyPendingPayload (header_id h) (on_payload_client (OnPayloadProgress e info) s))"

definition kMinTransferUpdateInterval :: int where "kMinTransferUpdateInterval = 50"

text \<open>Whether the update of a chunk of a file is skipped; \<open>count\<close> is the count after it went down.\<close>

definition skip_update ::
  "int \<Rightarrow> int \<Rightarrow> int option \<Rightarrow> payload_header \<Rightarrow> 32 word \<Rightarrow> int \<Rightarrow> bool" where
  "skip_update now count last_update h fl off \<longleftrightarrow>
     hd_type h = Some FILE \<and> \<not> last_flag fl \<and> off \<noteq> 0 \<and>
     (count > 0 \<or>
      (case last_update of None \<Rightarrow> False | Some t \<Rightarrow> now - t < kMinTransferUpdateInterval))"

definition chunk_progress :: "payload_header \<Rightarrow> 32 word \<Rightarrow> int \<Rightarrow> int \<Rightarrow> payload_progress_info" where
  "chunk_progress h fl off sz =
     \<lparr>progress_payload_id = header_id h,
      progress_status = (if last_flag fl then ProgressSuccess else ProgressInProgress),
      progress_total_bytes = header_total_size h,
      progress_bytes_transferred = (if last_flag fl then off else off + sz)\<rparr>"

definition run_OutgoingChunkSent ::
  "int \<Rightarrow> string \<Rightarrow> payload_header \<Rightarrow> 32 word \<Rightarrow> int \<Rightarrow> int \<Rightarrow> payload_manager \<Rightarrow> payload_manager" where
  "run_OutgoingChunkSent now e h fl off sz s =
     (let flag = flag_skip_chunk_update (pm_flags s);
          s1 = (if flag then s\<lparr>pm_outgoing_updates := pm_outgoing_updates s - 1\<rparr> else s)
      in if flag \<and> skip_update now (pm_outgoing_updates s1) (pm_last_outgoing_update s1) h fl off
         then s1
         else with_payload (header_id h) (\<lambda>a. with_object a (\<lambda>p s.
                if GetEndpoint e p = None then s
                else
                  let s2 = on_payload_client (OnPayloadProgress e (chunk_progress h fl off sz)) s
                  in if last_flag fl
                     then close_if_deserted a (write_object a (RemoveEndpoints [e]) s2)
                     else s2))
              (if flag \<and> hd_type h = Some FILE then s1\<lparr>pm_last_outgoing_update := Some now\<rparr> else s1))"

definition run_IncomingChunkReceived ::
  "int \<Rightarrow> string \<Rightarrow> payload_header \<Rightarrow> 32 word \<Rightarrow> int \<Rightarrow> int \<Rightarrow> payload_manager \<Rightarrow> payload_manager" where
  "run_IncomingChunkReceived now e h fl off sz s =
     (let flag = flag_skip_chunk_update (pm_flags s);
          s1 = (if flag then s\<lparr>pm_incoming_updates := pm_incoming_updates s - 1\<rparr> else s)
      in if flag \<and> skip_update now (pm_incoming_updates s1) (pm_last_incoming_update s1) h fl off
         then s1
         else with_payload (header_id h) (\<lambda>a s.
                let s2 = on_payload_client (OnPayloadProgress e (chunk_progress h fl off sz)) s
                in if last_flag fl then DestroyPendingPayload (header_id h) s2 else s2)
              (if flag \<and> hd_type h = Some FILE then s1\<lparr>pm_last_incoming_update := Some now\<rparr> else s1))"

text \<open>The task's handle is released when the task is over.\<close>

definition run_NewPayload :: "string \<Rightarrow> nat option \<Rightarrow> payload_manager \<Rightarrow> payload_manager" where
  "run_NewPayload e handle s =
     (case handle of
        None \<Rightarrow> s
      | Some a \<Rightarrow> PendingPayloads_Release a (with_object a (\<lambda>p s.
          on_payload_client (OnPayload e (fst (ReleasePayload (pp_internal p))))
            (write_object a (\<lambda>p. p\<lparr>pp_internal := snd (ReleasePayload (pp_internal p))\<rparr>) s)) s))"

definition endpoint_gone ::
  "string \<Rightarrow> nat \<Rightarrow> payload_manager \<Rightarrow> payload_manager" where
  "endpoint_gone e a = with_object a (\<lambda>p s.
     case GetEndpoint e p of
       None \<Rightarrow> s
     | Some i \<Rightarrow>
         on_payload_client (OnPayloadProgress e
             \<lparr>progress_payload_id = pp_id p, progress_status = ProgressFailure,
              progress_total_bytes = GetTotalSize (ip_kind (pp_internal p)),
              progress_bytes_transferred = pe_offset i\<rparr>)
           (close_if_deserted a (write_object a (RemoveEndpoints [e]) s)))"

definition run_EndpointGone :: "string \<Rightarrow> payload_manager \<Rightarrow> payload_manager" where
  "run_EndpointGone e s = fold (endpoint_gone e) (map snd (pm_tracked s)) s"

definition NotifyShutdown :: "payload_manager \<Rightarrow> payload_manager" where
  "NotifyShutdown s =
     (if \<not> pm_shutdown s then s
      else case pm_barrier s of None \<Rightarrow> s | Some n \<Rightarrow> s\<lparr>pm_barrier := Some (n - 1)\<rparr>)"

fun run_status_task :: "int \<Rightarrow> status_task \<Rightarrow> payload_manager \<Rightarrow> payload_manager" where
  "run_status_task now (FinishedOutgoing es h n st) s = run_FinishedOutgoing es h n st s"
| "run_status_task now (FinishedIncoming e h n st) s = run_FinishedIncoming e h n st s"
| "run_status_task now (OutgoingChunkSent e h fl off sz) s = run_OutgoingChunkSent now e h fl off sz s"
| "run_status_task now (IncomingChunkReceived e h fl off sz) s =
     run_IncomingChunkReceived now e h fl off sz s"
| "run_status_task now (NewPayload e handle) s = run_NewPayload e handle s"
| "run_status_task now (DestroyPayload i) s = DestroyPendingPayload i s"
| "run_status_task now (EndpointGone e) s = run_EndpointGone e s"
| "run_status_task now ShutdownNotification s = NotifyShutdown s"
| "run_status_task now StopTracking s = StopTrackingAllPayloads s"

definition run_next_status_task :: "int \<Rightarrow> payload_manager \<Rightarrow> payload_manager" where
  "run_next_status_task now s =
     (case pm_status_tasks s of
        [] \<Rightarrow> s | t # ts \<Rightarrow> run_status_task now t (s\<lparr>pm_status_tasks := ts\<rparr>))"

section \<open>Incoming frames\<close>

record incoming_env =
  ie_write_ok :: "string \<Rightarrow> bool"
  ie_disk_ok :: bool
  ie_chrome_os :: bool
  ie_output_valid :: "string \<Rightarrow> bool"
  ie_custom_save_path :: "string \<Rightarrow> string \<Rightarrow> string"
  ie_download_path :: "string \<Rightarrow> string \<Rightarrow> string"
  ie_now :: int
  ie_show :: "int \<Rightarrow> string"

definition make_path :: "incoming_env \<Rightarrow> string \<Rightarrow> string \<Rightarrow> string \<Rightarrow> string" where
  "make_path env save_path parent_folder file_name =
     (if save_path \<noteq> []
      then ie_custom_save_path env (save_path @ ''/'' @ parent_folder) file_name
      else ie_download_path env parent_folder file_name)"

datatype incoming_error = NOT_DATA_TYPE | IO_FILE_OPENING_ERROR | DETAIL_UNKNOWN

definition new_incoming_file ::
  "incoming_env \<Rightarrow> string \<Rightarrow> payload_header \<Rightarrow> platform \<Rightarrow>
   incoming_error + internal_payload \<times> platform" where
  "new_incoming_file env save_path h pf =
     (let parent_folder = (case hd_parent_folder h of Some d \<Rightarrow> d | None \<Rightarrow> []);
          i = header_id h;
          total = header_total_size h;
          modified = (case hd_last_modified h of Some t \<Rightarrow> t | None \<Rightarrow> ie_now env);
          create = (\<lambda>file_name.
            let path = (if ie_chrome_os env then ie_show env i
                        else make_path env save_path parent_folder file_name)
            in if \<not> ie_output_valid env path then Inl IO_FILE_OPENING_ERROR
               else case open_output path pf of (f, pf') \<Rightarrow>
                 Inr (\<lparr>ip_payload = (if ie_chrome_os env then file_payload i [] path (ie_now env) f
                                     else file_payload i parent_folder file_name (ie_now env) f),
                       ip_id = i, ip_kind = IncomingFileInternalPayload f modified total\<rparr>, pf'))
      in case hd_file_name h of
           Some file_name \<Rightarrow> create file_name
         | None \<Rightarrow> (case hd_id h of Some i \<Rightarrow> create (ie_show env i) | None \<Rightarrow> Inl IO_FILE_OPENING_ERROR))"

definition CreateIncomingInternalPayload ::
  "incoming_env \<Rightarrow> string \<Rightarrow> payload_frame \<Rightarrow> platform \<Rightarrow>
   incoming_error + internal_payload \<times> platform" where
  "CreateIncomingInternalPayload env save_path fr pf =
     (case fr of
        DataFrame h c \<Rightarrow>
          (case header_type h of
             BYTES \<Rightarrow> Inr (\<lparr>ip_payload = bytes_payload (header_id h) (ck_body c), ip_id = header_id h,
                           ip_kind = BytesInternalPayload (int (length (ck_body c))) False\<rparr>, pf)
           | STREAM \<Rightarrow> (case CreatePipe pf of (r, pf') \<Rightarrow>
                Inr (\<lparr>ip_payload = stream_payload (header_id h) r, ip_id = header_id h,
                      ip_kind = IncomingStreamInternalPayload r\<rparr>, pf'))
           | FILE \<Rightarrow> new_incoming_file env save_path h pf
           | UNKNOWN_PAYLOAD_TYPE \<Rightarrow> Inl DETAIL_UNKNOWN)
      | _ \<Rightarrow> Inl NOT_DATA_TYPE)"

text \<open>The handle it returns is taken where the payload is used.\<close>

definition CreateIncomingPayload ::
  "incoming_env \<Rightarrow> payload_frame \<Rightarrow> string \<Rightarrow> payload_manager \<Rightarrow> incoming_error + payload_manager" where
  "CreateIncomingPayload env fr e s =
     (case CreateIncomingInternalPayload env (pm_save_path s) fr (pm_platform s) of
        Inl err \<Rightarrow> Inl err
      | Inr (ip, pf) \<Rightarrow>
          Inr (StartTrackingPayload (ip_id ip) (new_pending_payload ip [e] True) (s\<lparr>pm_platform := pf\<rparr>)))"

text \<open>The task that lets the client know of a new payload holds a handle of its own.\<close>

definition announce_payload :: "string \<Rightarrow> int \<Rightarrow> payload_manager \<Rightarrow> payload_manager" where
  "announce_payload e i s =
     (case GetPayload i s of (handle, s1) \<Rightarrow> RunOnStatusUpdateThread (NewPayload e handle) s1)"

text \<open>The rest of \<open>ProcessDataPacket\<close>, with a handle on the payload at \<open>a\<close>.\<close>

definition receive_chunk ::
  "incoming_env \<Rightarrow> string \<Rightarrow> payload_header \<Rightarrow> payload_chunk \<Rightarrow> nat \<Rightarrow> payload_manager \<Rightarrow>
   payload_manager" where
  "receive_chunk env e h c a = with_object a (\<lambda>p s.
     if pp_locally_canceled p
     then HandleFinishedIncomingPayload (ie_write_ok env) e h (ck_offset c) LOCAL_CANCELLATION s
     else
       let s1 = write_object a (SetOffsetForEndpoint e (ck_offset c)) s
       in case AttachNextChunk (ie_disk_ok env) (ck_body c) (pp_internal p) (pm_platform s1) of
            (ok, pf) \<Rightarrow>
              let s2 = s1\<lparr>pm_platform := pf\<rparr>
              in if \<not> ok
                 then HandleFinishedIncomingPayload (ie_write_ok env) e h (ck_offset c) LOCAL_ERROR s2
                 else HandleSuccessfulIncomingChunk e h (ck_flags c) (ck_offset c)
                        (int (length (ck_body c)))
                        (SendPayloadReceivedAck a p e (IsLastChunk c) s2))"

definition ProcessDataPacket ::
  "incoming_env \<Rightarrow> string \<Rightarrow> payload_header \<Rightarrow> payload_chunk \<Rightarrow> payload_manager \<Rightarrow> payload_manager" where
  "ProcessDataPacket env e h c s =
     (if header_id h = 0
      then SendControlMessage (ie_write_ok env) [e] h (ck_offset c) PAYLOAD_ERROR s
      else if ck_offset c = 0
      then case CreateIncomingPayload env (DataFrame h c) e s of
             Inl err \<Rightarrow> SendControlMessage (ie_write_ok env) [e] h (ck_offset c) PAYLOAD_ERROR s
           | Inr s1 \<Rightarrow>
               with_payload (header_id h)
                 (\<lambda>a s. receive_chunk env e h c a (announce_payload e (header_id h) s)) s1
      else with_payload (header_id h) (receive_chunk env e h c) s)"

definition ProcessControlPacket ::
  "incoming_env \<Rightarrow> string \<Rightarrow> payload_header \<Rightarrow> control_event \<Rightarrow> int \<Rightarrow> payload_manager \<Rightarrow>
   payload_manager" where
  "ProcessControlPacket env e h ev off = with_payload (header_id h) (\<lambda>a. with_object a (\<lambda>p s.
     if ev = PAYLOAD_CANCELED \<or> ev = PAYLOAD_ERROR
     then if pp_is_incoming p
          then HandleFinishedIncomingPayload (ie_write_ok env) e h off
                 (ControlMessageEventToPayloadStatus ev) s
          else write_object a (SetEndpointStatusFromControlMessage e ev) s
     else s))"

definition ProcessPayloadAckPacket :: "string \<Rightarrow> payload_header \<Rightarrow> payload_manager \<Rightarrow> payload_manager" where
  "ProcessPayloadAckPacket e h = with_payload (header_id h) (\<lambda>a.
     write_object a (MarkReceivedAckFromEndpoint e))"

definition Payload_OnIncomingFrame ::
  "incoming_env \<Rightarrow> string \<Rightarrow> payload_frame \<Rightarrow> payload_manager \<Rightarrow> payload_manager" where
  "Payload_OnIncomingFrame env e fr s =
     (if \<not> IsConnectedToEndpoint e (pm_client s)
      then (case fr of
              DataFrame h c \<Rightarrow> with_payload (header_id h) (\<lambda>a. with_object a (\<lambda>p s.
                if IsLastChunk c \<and> ack_enabled e p s
                then SendPayloadReceivedAck a p e (IsLastChunk c) s else s)) s
            | _ \<Rightarrow> s)
      else case fr of
             ControlFrame h ev off \<Rightarrow> ProcessControlPacket env e h ev off s
           | DataFrame h c \<Rightarrow> ProcessDataPacket env e h c s
           | AckFrame h \<Rightarrow> ProcessPayloadAckPacket e h s
           | UnknownFrame h \<Rightarrow> s)"

section \<open>Cancellation and the loss of an endpoint\<close>

definition CancelPayload :: "int \<Rightarrow> payload_manager \<Rightarrow> bool \<times> payload_manager" where
  "CancelPayload i s =
     (if map_of (pm_tracked s) i = None then (False, s)
      else (True, with_payload i (\<lambda>a. write_object a (\<lambda>p. p\<lparr>pp_locally_canceled := True\<rparr>)) s))"

definition Payload_OnEndpointDisconnect :: "string \<Rightarrow> payload_manager \<Rightarrow> payload_manager" where
  "Payload_OnEndpointDisconnect e s =
     (if pm_shutdown s then s else RunOnStatusUpdateThread (EndpointGone e) s)"

definition SetCustomSavePath :: "string \<Rightarrow> payload_manager \<Rightarrow> payload_manager" where
  "SetCustomSavePath path s = s\<lparr>pm_save_path := path\<rparr>"

section \<open>Shutting down\<close>

definition cancel_and_close :: "nat \<Rightarrow> payload_manager \<Rightarrow> payload_manager" where
  "cancel_and_close a s =
     PendingPayload_Close a (write_object a (\<lambda>p. p\<lparr>pp_locally_canceled := True\<rparr>) s)"

text \<open>\<open>CancelAllPayloads\<close> up to the wait for the barrier.\<close>

definition CancelAllPayloads :: "payload_manager \<Rightarrow> payload_manager" where
  "CancelAllPayloads s =
     (let outgoing = filter (\<lambda>(i, a). case pm_objects s a of Some p \<Rightarrow> \<not> pp_is_incoming p | None \<Rightarrow> False)
                       (pm_tracked s);
          s1 = fold cancel_and_close (map snd (pm_tracked s)) s
      in if outgoing = [] then s1 else s1\<lparr>pm_barrier := Some (length outgoing)\<rparr>)"

definition DisconnectFromEndpointManager :: "payload_manager \<Rightarrow> payload_manager" where
  "DisconnectFromEndpointManager s = s\<lparr>pm_shutdown := True\<rparr>"

definition begin_shutdown :: "payload_manager \<Rightarrow> payload_manager" where
  "begin_shutdown s = CancelAllPayloads (DisconnectFromEndpointManager s)"

text \<open>The destructor passes \<open>shutdown_barrier_->Await()\<close>.\<close>

definition shutdown_passes :: "payload_manager \<Rightarrow> bool" where
  "shutdown_passes s \<longleftrightarrow> pm_shutdown s \<and> (pm_barrier s = None \<or> pm_barrier s = Some 0)"

end
