(* ===== verification/Payload_Sender.thy ===== *)
theory Payload_Sender
  imports Payload_Manager "HOL-Library.While_Combinator"
begin

text \<open>
  Sending payloads (connections/implementation/payload_manager.cc): \<open>SendPayload\<close>, the sending
  loop of the three executors, the wait for an acknowledgement; and the runs of the manager, in
  which the threads' steps interleave.

  A step of a sender is one round of its loop.  Where the round waits (for data, or for an
  acknowledgement) the events that other threads bring about during the wait are arguments.
\<close>

section \<open>The steps of the other threads\<close>

datatype pm_event =
    StatusTaskRuns int
  | AckTaskRuns "string \<Rightarrow> bool"
  | FrameArrives incoming_env string payload_frame
  | EndpointDisconnects string
  | ClientCancels int
  | ChannelUnregistered string DisconnectionReason
  | ClientOperation client_op
  | SavePathSet string
  | StreamWritten nat bytes
  | StreamEnded nat
  | StreamRead nat nat
  | StreamAbandoned nat

text \<open>The two notifications of payloads come from the manager only.\<close>

fun other_client_op :: "client_op \<Rightarrow> bool" where
  "other_client_op (OpPayload _ _) = False"
| "other_client_op (OpPayloadProgress _ _) = False"
| "other_client_op _ = True"

definition on_platform :: "(platform \<Rightarrow> platform) \<Rightarrow> payload_manager \<Rightarrow> payload_manager" where
  "on_platform f s = s\<lparr>pm_platform := f (pm_platform s)\<rparr>"

fun pm_event_step :: "pm_event \<Rightarrow> payload_manager \<Rightarrow> payload_manager" where
  "pm_event_step (StatusTaskRuns now) s = run_next_status_task now s"
| "pm_event_step (AckTaskRuns write_ok) s = run_ack_task write_ok s"
| "pm_event_step (FrameArrives env e fr) s = Payload_OnIncomingFrame env e fr s"
| "pm_event_step (EndpointDisconnects e) s = Payload_OnEndpointDisconnect e s"
| "pm_event_step (ClientCancels i) s = snd (CancelPayload i s)"
| "pm_event_step (ChannelUnregistered e r) s =
     s\<lparr>pm_channels := fst (UnregisterChannelForEndpoint e r (pm_channels s))\<rparr>"
| "pm_event_step (ClientOperation op1) s = (if other_client_op op1 then on_payload_client (proxy_step op1) s else s)"
| "pm_event_step (SavePathSet path) s = SetCustomSavePath path s"
| "pm_event_step (StreamWritten r bs) s = on_platform (snd \<circ> on_pipe r (Pipe_Write bs)) s"
| "pm_event_step (StreamEnded r) s = on_platform (close_pipe_output r) s"
| "pm_event_step (StreamRead r n) s = on_platform (snd \<circ> on_pipe r (Pipe_Read n)) s"
| "pm_event_step (StreamAbandoned r) s = on_platform (close_pipe_input r) s"

definition pm_events :: "pm_event list \<Rightarrow> payload_manager \<Rightarrow> payload_manager" where
  "pm_events = fold pm_event_step"

section \<open>Waiting for an acknowledgement\<close>

definition IsEndpointAvailable :: "string \<Rightarrow> EndpointStatus \<Rightarrow> payload_manager \<Rightarrow> bool" where
  "IsEndpointAvailable e st s \<longleftrightarrow>
     st = StatusAvailable \<and> \<not> HasPendingConnectionToEndpoint e (pm_client s)"

record loop_env =
  le_delivers :: "nat option"
  le_packet_size :: "endpoint_channel \<Rightarrow> nat"
  le_write_ok :: "string \<Rightarrow> bool"
  le_while_reading :: "pm_event list"
  le_while_waiting :: "string \<Rightarrow> pm_event list"
  le_interrupted :: "string \<Rightarrow> bool"

text \<open>
  Every path through the body of the code's \<open>while (true)\<close> returns.  The entry of the endpoint,
  which holds the condition variable, has to be there after the wait.
\<close>

definition clear_ack :: "string \<Rightarrow> pending_payload \<Rightarrow> pending_payload" where
  "clear_ack e = update_endpoint_info e (\<lambda>i. i\<lparr>pe_received_ack := False\<rparr>)"

definition wait_for_ack :: "loop_env \<Rightarrow> string \<Rightarrow> nat \<Rightarrow> payload_manager \<Rightarrow> bool \<times> payload_manager" where
  "wait_for_ack env e a s =
     (let s1 = pm_events (le_while_waiting env e) s
      in case pm_objects s1 a of
           None \<Rightarrow> (False, pm_crash s1)
         | Some p \<Rightarrow>
             (case GetEndpoint e p of
                None \<Rightarrow> (False, pm_crash s1)
              | Some i \<Rightarrow>
                  if le_interrupted env e then (False, write_object a (clear_ack e) s1)
                  else if pe_received_ack i then (True, write_object a (clear_ack e) s1)
                  else (False, s1)))"

definition ack_of_endpoint ::
  "loop_env \<Rightarrow> string \<Rightarrow> payload_header \<Rightarrow> int \<Rightarrow> nat \<Rightarrow> payload_manager \<Rightarrow> bool \<times> payload_manager" where
  "ack_of_endpoint env e h off a s =
     (case pm_objects s a of
        None \<Rightarrow> (False, pm_crash s)
      | Some p \<Rightarrow>
          (case GetEndpoint e p of
             None \<Rightarrow> (False, s)
           | Some i \<Rightarrow>
               if pp_locally_canceled p
               then (False, HandleFinishedOutgoingPayload (le_write_ok env) [e] h off LOCAL_CANCELLATION s)
               else if \<not> IsEndpointAvailable e (pe_status i) s
               then (False, HandleFinishedOutgoingPayload (le_write_ok env) [e] h off
                              (EndpointInfoStatusToPayloadStatus (pe_status i)) s)
               else if pe_received_ack i then (True, write_object a (clear_ack e) s)
               else wait_for_ack env e a s))"

definition WaitForReceivedAck ::
  "loop_env \<Rightarrow> string \<Rightarrow> pending_payload \<Rightarrow> payload_header \<Rightarrow> int \<Rightarrow> bool \<Rightarrow> payload_manager \<Rightarrow>
   bool \<times> payload_manager" where
  "WaitForReceivedAck env e p h off is_last s =
     (if \<not> is_last \<or> \<not> ack_enabled e p s then (True, s)
      else case GetPayload (header_id h) s of
             (None, s1) \<Rightarrow> (False, s1)
           | (Some a, s1) \<Rightarrow>
               (case ack_of_endpoint env e h off a s1 of
                  (b, s2) \<Rightarrow> (b, PendingPayloads_Release a s2)))"

section \<open>One round of the loop\<close>

definition GetAvailableEndpoints :: "pending_payload \<Rightarrow> string list" where
  "GetAvailableEndpoints p =
     map fst (filter (\<lambda>(e, i). pe_status i = StatusAvailable) (GetEndpoints p))"

definition GetUnavailableEndpoints :: "pending_payload \<Rightarrow> (string \<times> EndpointStatus) list" where
  "GetUnavailableEndpoints p =
     map (\<lambda>(e, i). (e, pe_status i)) (filter (\<lambda>(e, i). pe_status i \<noteq> StatusAvailable) (GetEndpoints p))"

definition GetOptimalChunkSize :: "loop_env \<Rightarrow> string list \<Rightarrow> payload_manager \<Rightarrow> nat" where
  "GetOptimalChunkSize env es s =
     fold (\<lambda>e n. min n (GetMaxTransmitPacketSize (le_packet_size env) e (pm_channels s))) es 2147483647"

definition CreatePayloadHeader :: "internal_payload \<Rightarrow> nat \<Rightarrow> payload_header" where
  "CreatePayloadHeader ip off =
     (let file = GetType (ip_kind ip) = FILE; n = GetTotalSize (ip_kind ip); p = ip_payload ip
      in \<lparr>hd_id = Some (ip_id ip), hd_type = Some (GetType (ip_kind ip)),
          hd_total_size = Some (if n = kIndeterminateSize then kIndeterminateSize else n - int off),
          hd_file_name = (if file then Some (payload_file_name p) else None),
          hd_parent_folder = (if file then Some (payload_parent_folder p) else None),
          hd_last_modified = (if file then Some (payload_last_modified p) else None)\<rparr>)"

definition CreatePayloadChunk :: "int \<Rightarrow> bytes \<Rightarrow> int \<Rightarrow> payload_chunk" where
  "CreatePayloadChunk off body idx =
     \<lparr>ck_flags = (if body = [] then 0 OR LAST_CHUNK else 0), ck_offset = off, ck_body = body,
      ck_index = idx\<rparr>"

definition confirm_endpoint ::
  "loop_env \<Rightarrow> pending_payload \<Rightarrow> payload_header \<Rightarrow> int \<Rightarrow> payload_chunk \<Rightarrow> string list \<Rightarrow> string \<Rightarrow>
   payload_manager \<Rightarrow> payload_manager" where
  "confirm_endpoint env p h off c failed e s =
     (if e \<in> set failed then s
      else case WaitForReceivedAck env e p h off (IsLastChunk c) s of
             (False, s1) \<Rightarrow> s1
           | (True, s1) \<Rightarrow> HandleSuccessfulOutgoingChunk e h (ck_flags c) (ck_offset c)
                              (int (length (ck_body c))) s1)"

text \<open>The end of a round, once a chunk is detached: whether to go on, and the next offset.\<close>

definition send_chunk ::
  "loop_env \<Rightarrow> running_send \<Rightarrow> pending_payload \<Rightarrow> int \<Rightarrow> string list \<Rightarrow> bytes \<Rightarrow> payload_manager \<Rightarrow>
   bool \<times> int \<times> payload_manager" where
  "send_chunk env r p off available body s =
     (let h = rs_header r;
          total = GetTotalSize (ip_kind (pp_internal p));
          c = CreatePayloadChunk (off - int (rs_resume_offset r)) body (rs_index r)
      in if body = [] \<and> total > 0 \<and> total < off
         then (False, off, HandleFinishedOutgoingPayload (le_write_ok env) available h off LOCAL_ERROR s)
         else case SendTransferFrameBytes (le_write_ok env) (DataFrame h c) available s of
           (failed, s1) \<Rightarrow>
             let s2 = (if failed \<noteq> []
                       then HandleFinishedOutgoingPayload (le_write_ok env) failed h off ENDPOINT_IO_ERROR s1
                       else s1)
             in if length failed < length available
                then (body \<noteq> [], off + int (length body),
                      fold (confirm_endpoint env p h off c failed) available s2)
                else (True, off, s2))"

text \<open>The resume offset, skipped in the first round; \<open>None\<close> when that fails.\<close>

datatype 'a round = Blocked | Stops 'a | Goes 'a

definition skip_to_resume ::
  "loop_env \<Rightarrow> running_send \<Rightarrow> pending_payload \<Rightarrow> string list \<Rightarrow> payload_manager \<Rightarrow>
   (int \<times> payload_manager) round" where
  "skip_to_resume env r p available s =
     (if rs_offset r = 0 \<and> rs_resume_offset r > 0
      then case SkipToOffset (le_delivers env) (rs_resume_offset r) (pp_internal p) (pm_platform s) of
             (SkipBlocks, pf) \<Rightarrow> Blocked
           | (SkipError, pf) \<Rightarrow> Stops (rs_offset r,
               HandleFinishedOutgoingPayload (le_write_ok env) available (rs_header r) (rs_offset r)
                 LOCAL_ERROR (s\<lparr>pm_platform := pf\<rparr>))
           | (Skipped n, pf) \<Rightarrow> Goes (int n, s\<lparr>pm_platform := pf\<rparr>)
      else Goes (rs_offset r, s))"

text \<open>Reading the next chunk; the events of \<open>le_while_reading\<close> come before the data does.\<close>

definition read_and_send ::
  "loop_env \<Rightarrow> running_send \<Rightarrow> int \<Rightarrow> string list \<Rightarrow> payload_manager \<Rightarrow>
   (bool \<times> int \<times> payload_manager) option" where
  "read_and_send env r off available s =
     (let a = rs_object r;
          s1 = fold (\<lambda>e. write_object a (SetOffsetForEndpoint e off)) available s;
          chunk_size = GetOptimalChunkSize env available s1;
          s2 = pm_events (le_while_reading env) s1
      in case pm_objects s2 a of
           None \<Rightarrow> Some (False, off, pm_crash s2)
         | Some p \<Rightarrow>
             (case DetachNextChunk (le_delivers env) chunk_size (pp_internal p, pm_platform s2) of
                (None, _) \<Rightarrow> None
              | (Some body, ip, pf) \<Rightarrow>
                  let s3 = (write_object a (\<lambda>p. p\<lparr>pp_internal := ip\<rparr>) s2)\<lparr>pm_platform := pf\<rparr>
                  in if pm_shutdown s3 then Some (False, off, s3)
                     else Some (send_chunk env r (p\<lparr>pp_internal := ip\<rparr>) off available body s3)))"

text \<open>\<open>None\<close> while the round waits for data.\<close>

definition SendPayloadLoop ::
  "loop_env \<Rightarrow> running_send \<Rightarrow> payload_manager \<Rightarrow> (bool \<times> int \<times> payload_manager) option" where
  "SendPayloadLoop env r s =
     (case pm_objects s (rs_object r) of
        None \<Rightarrow> Some (False, rs_offset r, pm_crash s)
      | Some p \<Rightarrow>
          let available = GetAvailableEndpoints p;
              s1 = fold (\<lambda>(e, st). HandleFinishedOutgoingPayload (le_write_ok env) [e] (rs_header r)
                           (rs_offset r) (EndpointInfoStatusToPayloadStatus st))
                     (GetUnavailableEndpoints p) s
          in if available = [] then Some (False, rs_offset r, s1)
             else if pp_locally_canceled p
             then Some (False, rs_offset r, HandleFinishedOutgoingPayload (le_write_ok env) available
                          (rs_header r) (rs_offset r) LOCAL_CANCELLATION s1)
             else case skip_to_resume env r p available s1 of
                    Blocked \<Rightarrow> None
                  | Stops (off, s2) \<Rightarrow> Some (False, off, s2)
                  | Goes (off, s2) \<Rightarrow> read_and_send env r off available s2)"

section \<open>Sending a payload\<close>

definition CreateOutgoingPayload :: "payload \<Rightarrow> string list \<Rightarrow> payload_manager \<Rightarrow> int \<times> payload_manager" where
  "CreateOutgoingPayload p es s =
     (case CreateOutgoingInternalPayload (pm_platform s) p of
        None \<Rightarrow> (0, s)
      | Some ip \<Rightarrow> (ip_id ip, StartTrackingPayload (ip_id ip) (new_pending_payload ip es False) s))"

definition on_sender :: "PayloadType \<Rightarrow> (sender \<Rightarrow> sender) \<Rightarrow> payload_manager \<Rightarrow> payload_manager" where
  "on_sender t f s = s\<lparr>pm_senders := (pm_senders s)(t := f (pm_senders s t))\<rparr>"

definition SendPayload :: "string list \<Rightarrow> payload \<Rightarrow> payload_manager \<Rightarrow> payload_manager" where
  "SendPayload es p s =
     (if pm_shutdown s \<or> payload_type p = kUnknownType then s
      else case CreateOutgoingPayload p es s of
             (i, s1) \<Rightarrow> on_sender (payload_type p)
               (\<lambda>sd. sd\<lparr>sd_queue := sd_queue sd @
                  [\<lparr>st_payload_id = i, st_resume_offset =
                      (if flag_send_payload_offset (pm_flags s) then payload_offset p else 0)\<rparr>]\<rparr>) s1)"

text \<open>The executor takes the next task; a task that begins after the shutdown returns at once.\<close>

definition begin_send :: "PayloadType \<Rightarrow> send_task \<Rightarrow> payload_manager \<Rightarrow> payload_manager" where
  "begin_send t task s =
     (if pm_shutdown s then s
      else case GetPayload (st_payload_id task) s of
             (None, s1) \<Rightarrow> s1
           | (Some a, s1) \<Rightarrow>
               (case pm_objects s1 a of
                  None \<Rightarrow> pm_crash s1
                | Some p \<Rightarrow> on_sender t (\<lambda>sd. sd\<lparr>sd_running := Some
                    \<lparr>rs_object = a,
                     rs_header = CreatePayloadHeader (pp_internal p) (st_resume_offset task),
                     rs_offset = 0, rs_resume_offset = st_resume_offset task, rs_index = 0\<rparr>\<rparr>) s1))"

text \<open>After the loop the payload is given up; then the handle goes with the task.\<close>

definition end_send :: "PayloadType \<Rightarrow> running_send \<Rightarrow> payload_manager \<Rightarrow> payload_manager" where
  "end_send t r s =
     PendingPayloads_Release (rs_object r)
       (RunOnStatusUpdateThread (DestroyPayload (header_id (rs_header r)))
         (on_sender t (\<lambda>sd. sd\<lparr>sd_running := None\<rparr>) s))"

definition sender_step :: "PayloadType \<Rightarrow> loop_env \<Rightarrow> payload_manager \<Rightarrow> payload_manager" where
  "sender_step t env s =
     (case sd_running (pm_senders s t) of
        None \<Rightarrow>
          (case sd_queue (pm_senders s t) of
             [] \<Rightarrow> s
           | task # rest \<Rightarrow> begin_send t task (on_sender t (\<lambda>sd. sd\<lparr>sd_queue := rest\<rparr>) s))
      | Some r \<Rightarrow>
          if pm_shutdown s then end_send t r s
          else case SendPayloadLoop env r s of
                 None \<Rightarrow> s
               | Some (True, off, s1) \<Rightarrow>
                   on_sender t (\<lambda>sd. sd\<lparr>sd_running := Some (r\<lparr>rs_offset := off,
                      rs_index := rs_index r + 1\<rparr>)\<rparr>) s1
               | Some (False, off, s1) \<Rightarrow> end_send t r s1)"

section \<open>Runs\<close>

datatype pm_step =
    OtherThread pm_event
  | ClientSends "string list" payload
  | SenderRuns PayloadType loop_env
  | ShutdownBegins

fun pm_do :: "pm_step \<Rightarrow> payload_manager \<Rightarrow> payload_manager" where
  "pm_do (OtherThread ev) s = pm_event_step ev s"
| "pm_do (ClientSends es p) s = SendPayload es p s"
| "pm_do (SenderRuns t env) s = sender_step t env s"
| "pm_do ShutdownBegins s = begin_shutdown s"

definition pm_run :: "pm_step list \<Rightarrow> payload_manager \<Rightarrow> payload_manager" where
  "pm_run = fold pm_do"

definition no_sender :: sender where
  "no_sender = \<lparr>sd_queue = [], sd_running = None\<rparr>"

definition empty_platform :: platform where
  "empty_platform = \<lparr>pf_pipes = (\<lambda>_. new_pipe),
     pf_files = (\<lambda>_. \<lparr>io_path = [], io_open = False, io_good = False, io_data = [], io_total_size = 0\<rparr>),
     pf_next = 0\<rparr>"

definition PayloadManager_new ::
  "payload_flags \<Rightarrow> platform \<Rightarrow> client_proxy \<Rightarrow> channel_map \<Rightarrow> payload_manager" where
  "PayloadManager_new fl pf cl ch =
     \<lparr>pm_flags = fl, pm_objects = (\<lambda>_. None), pm_next = 0, pm_tracked = [], pm_bin = [],
      pm_platform = pf, pm_client = cl, pm_channels = ch, pm_status_tasks = [], pm_ack_tasks = [],
      pm_senders = (\<lambda>_. no_sender), pm_sent = [], pm_discards = [], pm_save_path = [],
      pm_shutdown = False, pm_barrier = None, pm_outgoing_updates = 0, pm_incoming_updates = 0,
      pm_last_outgoing_update = None, pm_last_incoming_update = None, pm_crashed = False\<rparr>"

end
