(* ===== verification/Payload_Frame.thy ===== *)
theory Payload_Frame
  imports Payload_Sender
begin

text \<open>
  What all operations of the payload manager that handle frames and send chunks have in common:
  they are made of a few primitive changes.  A relation between states that the primitives
  keep, and that composes, is kept by the operations; the locale says so once, and it is
  interpreted for the reference counts (Payload_Refs) and for the outcomes that are reported
  (Payload_Outcome).  The relation is indexed by the addresses the thread holds handles on.
\<close>

definition mild :: "(pending_payload \<Rightarrow> pending_payload) \<Rightarrow> bool" where
  "mild f \<longleftrightarrow> (\<forall>p. pp_id (f p) = pp_id p \<and> pp_refcount (f p) = pp_refcount p \<and>
     pp_is_incoming (f p) = pp_is_incoming p \<and>
     (\<forall>e. GetEndpoint e p = None \<longrightarrow> GetEndpoint e (f p) = None))"

lemma map_of_map_val:
  "map_of (map (\<lambda>(k, i). (k, g k i)) xs) e = map_option (g e) (map_of xs e)"
  by (induction xs) auto

lemma map_of_filter_key:
  "map_of (filter (\<lambda>(k, _). k \<notin> A) xs) e = (if e \<in> A then None else map_of xs e)"
  by (induction xs) auto

lemma GetEndpoint_update:
  "GetEndpoint e (update_endpoint_info k f p) =
     (if e = k then map_option f (GetEndpoint e p) else GetEndpoint e p)"
  by (simp add: GetEndpoint_def update_endpoint_info_def map_of_map_val [where g = "\<lambda>j i. if j = k then f i else i"]
      option.map_ident)

lemma GetEndpoint_Remove:
  "GetEndpoint e (RemoveEndpoints es p) = (if e \<in> set es then None else GetEndpoint e p)"
  by (simp add: GetEndpoint_def RemoveEndpoints_def map_of_filter_key)

lemma mild_update [simp]: "mild (update_endpoint_info e f)"
  by (simp add: mild_def GetEndpoint_update) (simp add: update_endpoint_info_def pp_id_def)

lemma mild_Remove [simp]: "mild (RemoveEndpoints es)"
  by (simp add: mild_def GetEndpoint_Remove) (simp add: RemoveEndpoints_def pp_id_def)

lemma mild_endpoint_ops [simp]:
  "mild (SetEndpointStatusFromControlMessage e ev)" "mild (SetOffsetForEndpoint e n)"
  "mild (MarkReceivedAckFromEndpoint e)" "mild (clear_ack e)"
  by (simp_all add: SetEndpointStatusFromControlMessage_def SetOffsetForEndpoint_def
      MarkReceivedAckFromEndpoint_def clear_ack_def)

lemma mild_fields [simp]:
  "mild (\<lambda>p. p\<lparr>pp_closed := b\<rparr>)" "mild (\<lambda>p. p\<lparr>pp_locally_canceled := b\<rparr>)"
  by (simp_all add: mild_def pp_id_def GetEndpoint_def)

lemma mild_release [simp]: "mild (\<lambda>p. p\<lparr>pp_internal := snd (ReleasePayload (pp_internal p))\<rparr>)"
  by (simp add: mild_def pp_id_def GetEndpoint_def ReleasePayload_def)

lemma distinct_available: "distinct (GetAvailableEndpoints p)"
proof -
  have "distinct (map fst (GetEndpoints p))"
    by (simp add: GetEndpoints_def distinct_clearjunk)
  then show ?thesis
    by (simp add: GetAvailableEndpoints_def distinct_map_filter)
qed

lemma failed_endpoints:
  assumes "distinct es"
  shows "distinct (fst (SendTransferFrameBytes w fr es s)) \<and> set (fst (SendTransferFrameBytes w fr es s)) \<subseteq> set es"
  using assms by (induction w fr es s rule: SendTransferFrameBytes.induct) (auto simp: case_prod_beta)

text \<open>Data frames are for the payloads with a certain kind of id only.\<close>

fun frame_ok :: "(int \<Rightarrow> bool) \<Rightarrow> payload_frame \<Rightarrow> bool" where
  "frame_ok good_id (DataFrame h c) \<longleftrightarrow> good_id (header_id h)"
| "frame_ok good_id _ \<longleftrightarrow> True"

text \<open>A relation between states that the primitive changes keep.\<close>

locale manager_relation =
  fixes Rel :: "nat set \<Rightarrow> payload_manager \<Rightarrow> payload_manager \<Rightarrow> bool"
    and good :: "status_task \<Rightarrow> bool"
    and good_id :: "int \<Rightarrow> bool"
  assumes r_refl: "Rel A s s"
    and r_trans: "Rel A s t \<Longrightarrow> Rel A t u \<Longrightarrow> Rel A s u"
    and r_mono: "Rel A s t \<Longrightarrow> A \<subseteq> B \<Longrightarrow> Rel B s t"
    and r_platform: "Rel A s (s\<lparr>pm_platform := pf\<rparr>)"
    and r_channels: "Rel A s (s\<lparr>pm_channels := ch\<rparr>)"
    and r_sent: "Rel A s (s\<lparr>pm_sent := fr\<rparr>)"
    and r_discards: "Rel A s (s\<lparr>pm_discards := ds\<rparr>)"
    and r_path: "Rel A s (s\<lparr>pm_save_path := path\<rparr>)"
    and r_counts: "Rel A s (s\<lparr>pm_outgoing_updates := n\<rparr>)" "Rel A s (s\<lparr>pm_incoming_updates := n\<rparr>)"
    and r_times: "Rel A s (s\<lparr>pm_last_outgoing_update := tm\<rparr>)" "Rel A s (s\<lparr>pm_last_incoming_update := tm\<rparr>)"
    and r_write: "mild f \<Longrightarrow> Rel A s (write_object a f s)"
    and r_internal: "pm_objects s a = Some p \<Longrightarrow> ip_id ip = pp_id p \<Longrightarrow>
      Rel A s (write_object a (\<lambda>p. p\<lparr>pp_internal := ip\<rparr>) s)"
    and r_post: "good tk \<Longrightarrow> Rel A s (RunOnStatusUpdateThread tk s)"
    and r_object: "a \<in> A \<Longrightarrow> (\<And>p. pm_objects s a = Some p \<Longrightarrow> Rel A s (g p s)) \<Longrightarrow>
      Rel A s (with_object a g s)"
    and r_payload: "(\<And>a t. map_of (pm_tracked t) i = Some a \<Longrightarrow> pm_flags t = pm_flags s \<Longrightarrow> Rel (insert a A) t (k a t)) \<Longrightarrow>
      Rel A s (with_payload i k s)"
    and r_start: "good_id i \<Longrightarrow> pp_id p = i \<Longrightarrow> pp_refcount p = 0 \<Longrightarrow> Rel A s (StartTrackingPayload i p s)"
    and r_remove: "Rel A s (PendingPayloads_Remove i s)"
    and r_announce: "Rel A s (announce_payload e i s)"
    and r_ack: "Rel A s (SendPayloadReceivedAck a p e b s)"
    and r_received: "pm_objects s a = Some p \<Longrightarrow> map_of (pm_tracked s) (header_id h) = Some a \<Longrightarrow>
      pp_is_incoming p \<Longrightarrow> Rel A s (RunOnStatusUpdateThread (FinishedIncoming e h n st) s)"
    and good_finished: "distinct es \<Longrightarrow> good (FinishedOutgoing es h n st)"
    and good_tasks: "good (OutgoingChunkSent e h fl n sz)"
      "good (DestroyPayload i)" "good (EndpointGone e)" "good ShutdownNotification"
    and good_incoming: "good_id (header_id h) \<Longrightarrow> good (FinishedIncoming e h n st)"
      "good_id (header_id h) \<Longrightarrow> good (IncomingChunkReceived e h fl n sz)"
begin

lemma rel_fold: "(\<And>x t. x \<in> set xs \<Longrightarrow> Rel A t (f x t)) \<Longrightarrow> Rel A s (fold f xs s)"
proof (induction xs arbitrary: s)
  case Nil
  then show ?case
    by (simp add: r_refl)
next
  case (Cons x xs)
  have "Rel A s (f x s)"
    using Cons.prems by simp
  moreover have "Rel A (f x s) (fold f xs (f x s))"
    using Cons by simp
  ultimately show ?case
    by (auto intro: r_trans)
qed

lemma rel_send: "Rel A s (snd (SendTransferFrameBytes w fr es s))"
proof (induction w fr es s rule: SendTransferFrameBytes.induct)
  case (2 w fr e es s)
  have "Rel A s (snd (SendTransferFrameBytes w fr es (s\<lparr>pm_sent := pm_sent s @ [(e, fr)]\<rparr>)))"
    if "\<not> (GetChannelForEndpoint e (pm_channels s) = None \<or> \<not> w e)"
    using 2(2) [OF that] by (rule r_trans [OF r_sent])
  then show ?case
    using 2(1) by (simp add: case_prod_beta)
qed (simp add: r_refl)

lemma rel_send_result: "SendTransferFrameBytes w fr es s = (failed, t) \<Longrightarrow> Rel A s t"
  using rel_send [of A s w fr es] by simp

lemma rel_control: "Rel A s (SendControlMessage w es h n ev s)"
  by (simp add: SendControlMessage_def rel_send)

lemma rel_discard: "Rel A s (payload_DiscardEndpoint e s)"
  unfolding payload_DiscardEndpoint_def
  by (rule r_trans [OF r_channels r_discards])

lemma rel_finished_outgoing:
  assumes "distinct es"
  shows "Rel A s (HandleFinishedOutgoingPayload w es h n st s)"
proof -
  have d: "Rel A t (fold payload_DiscardEndpoint es t)" for t
    by (rule rel_fold) (rule rel_discard)
  show ?thesis
    unfolding HandleFinishedOutgoingPayload_def Let_def
    by (rule r_trans [OF r_post [OF good_finished [OF assms, of h n st]]])
      (cases st; simp add: rel_control r_refl d)
qed

lemma rel_incoming_tail:
  "Rel A s (RunOnStatusUpdateThread (FinishedIncoming e h n st) s) \<Longrightarrow>
   Rel A s (HandleFinishedIncomingPayload w e h n st s)"
  unfolding HandleFinishedIncomingPayload_def Let_def
  by (erule r_trans) (cases st; simp add: rel_control r_refl)

lemma rel_finished_incoming:
  "good_id (header_id h) \<Longrightarrow> Rel A s (HandleFinishedIncomingPayload w e h n st s)"
  by (rule rel_incoming_tail) (rule r_post [OF good_incoming(1)])

lemma rel_chunk_sent: "Rel A s (HandleSuccessfulOutgoingChunk e h fl n k s)"
  unfolding HandleSuccessfulOutgoingChunk_def
  by (rule r_trans [OF _ r_post [OF good_tasks(1)]]) (simp add: r_counts r_refl)

lemma rel_chunk_received:
  "good_id (header_id h) \<Longrightarrow> Rel A s (HandleSuccessfulIncomingChunk e h fl n k s)"
  unfolding HandleSuccessfulIncomingChunk_def
  by (rule r_trans [OF _ r_post [OF good_incoming(2)]]) (simp_all add: r_counts r_refl)

lemma rel_close: "a \<in> A \<Longrightarrow> Rel A s (PendingPayload_Close a s)"
  unfolding PendingPayload_Close_def
  by (rule r_object) (auto intro: r_refl r_trans [OF r_write r_platform])

lemma rel_close_deserted: "a \<in> A \<Longrightarrow> Rel A s (close_if_deserted a s)"
  unfolding close_if_deserted_def by (rule r_object) (auto intro: r_refl rel_close)

section \<open>Frames\<close>

lemma rel_receive_chunk:
  assumes "good_id (header_id h)"
  shows "Rel (insert a A) s (receive_chunk env e h c a s)"
  unfolding receive_chunk_def
proof (rule r_object)
  fix p :: pending_payload
  let ?s1 = "write_object a (SetOffsetForEndpoint e (ck_offset c)) s"
  obtain ok pf where at: "AttachNextChunk (ie_disk_ok env) (ck_body c) (pp_internal p) (pm_platform ?s1) = (ok, pf)"
    by fastforce
  have s2: "Rel (insert a A) s (?s1\<lparr>pm_platform := pf\<rparr>)"
    by (rule r_trans [OF r_write r_platform]) simp
  show "Rel (insert a A) s
     (if pp_locally_canceled p
      then HandleFinishedIncomingPayload (ie_write_ok env) e h (ck_offset c) LOCAL_CANCELLATION s
      else let s1 = ?s1
           in case AttachNextChunk (ie_disk_ok env) (ck_body c) (pp_internal p) (pm_platform s1) of
                (ok, pf) \<Rightarrow> let s2 = s1\<lparr>pm_platform := pf\<rparr>
                  in if \<not> ok
                     then HandleFinishedIncomingPayload (ie_write_ok env) e h (ck_offset c) LOCAL_ERROR s2
                     else HandleSuccessfulIncomingChunk e h (ck_flags c) (ck_offset c)
                            (int (length (ck_body c))) (SendPayloadReceivedAck a p e (IsLastChunk c) s2))"
    using r_trans [OF s2 rel_finished_incoming [OF assms]]
      r_trans [OF r_trans [OF s2 r_ack] rel_chunk_received [OF assms]]
      rel_finished_incoming [OF assms]
    by (simp add: at Let_def)
qed simp

lemma rel_create_incoming:
  assumes "CreateIncomingPayload env fr e s = Inr t" and "fr = DataFrame h c" and "good_id (header_id h)"
  shows "Rel A s t"
proof -
  obtain ip pf where c: "CreateIncomingInternalPayload env (pm_save_path s) fr (pm_platform s) = Inr (ip, pf)"
    and t: "t = StartTrackingPayload (ip_id ip) (new_pending_payload ip [e] True) (s\<lparr>pm_platform := pf\<rparr>)"
    using assms(1) by (auto simp: CreateIncomingPayload_def split: sum.splits)
  have "ip_id ip = header_id h"
    using c assms(2) by (auto simp: CreateIncomingInternalPayload_def new_incoming_file_def Let_def
        split: wire_payload_type.splits prod.splits option.splits if_splits)
  then show ?thesis
    unfolding t using assms(3)
    by (intro r_trans [OF r_platform r_start]) (simp_all add: pp_id_def new_pending_payload_def)
qed

lemma rel_data_packet:
  assumes "good_id (header_id h)"
  shows "Rel A s (ProcessDataPacket env e h c s)"
proof (cases "CreateIncomingPayload env (DataFrame h c) e s")
  case (Inl err)
  have "Rel A s (with_payload (header_id h) (receive_chunk env e h c) s)"
    by (rule r_payload) (rule rel_receive_chunk [OF assms])
  then show ?thesis
    by (simp add: ProcessDataPacket_def Inl rel_control)
next
  case (Inr t)
  have w: "Rel A s (with_payload (header_id h) (receive_chunk env e h c) s)" for s
    by (rule r_payload) (rule rel_receive_chunk [OF assms])
  have "Rel A t (with_payload (header_id h)
      (\<lambda>a s. receive_chunk env e h c a (announce_payload e (header_id h) s)) t)"
    by (rule r_payload) (rule r_trans [OF r_announce rel_receive_chunk [OF assms]])
  with rel_create_incoming [OF Inr refl assms, of A] show ?thesis
    by (auto simp: ProcessDataPacket_def Inr rel_control w intro: r_trans)
qed

lemma rel_control_packet: "Rel A s (ProcessControlPacket env e h ev n s)"
  unfolding ProcessControlPacket_def
proof (rule r_payload, rule r_object)
  fix a and t :: payload_manager and p :: pending_payload
  assume "map_of (pm_tracked t) (header_id h) = Some a" and "pm_objects t a = Some p"
  then show "Rel (insert a A) t
     (if ev = PAYLOAD_CANCELED \<or> ev = PAYLOAD_ERROR
      then if pp_is_incoming p
           then HandleFinishedIncomingPayload (ie_write_ok env) e h n (ControlMessageEventToPayloadStatus ev) t
           else write_object a (SetEndpointStatusFromControlMessage e ev) t
      else t)"
    by (auto intro!: r_refl r_write rel_incoming_tail r_received)
qed simp

lemma rel_ack_packet: "Rel A s (ProcessPayloadAckPacket e h s)"
  unfolding ProcessPayloadAckPacket_def by (rule r_payload) (simp add: r_write)

lemma rel_incoming_frame:
  assumes "frame_ok good_id fr"
  shows "Rel A s (Payload_OnIncomingFrame env e fr s)"
proof -
  have "Rel A s (with_payload i (\<lambda>a. with_object a (\<lambda>p s. if IsLastChunk c \<and> ack_enabled e p s
      then SendPayloadReceivedAck a p e (IsLastChunk c) s else s)) s)" for i c
    by (rule r_payload, rule r_object) (auto intro: r_refl r_ack)
  then show ?thesis
    using assms by (cases fr)
      (auto simp: Payload_OnIncomingFrame_def rel_control_packet rel_data_packet
        rel_ack_packet r_refl)
qed

lemma rel_other:
  "Rel A s (snd (CancelPayload i s))" "Rel A s (Payload_OnEndpointDisconnect e s)"
  "Rel A s (SetCustomSavePath path s)"
  by (auto simp: CancelPayload_def Payload_OnEndpointDisconnect_def SetCustomSavePath_def
      intro!: r_refl r_payload r_write r_post good_tasks r_path)

end


section \<open>The sending loop\<close>

fun event_ok :: "(int \<Rightarrow> bool) \<Rightarrow> pm_event \<Rightarrow> bool" where
  "event_ok good_id (FrameArrives env e fr) \<longleftrightarrow> frame_ok good_id fr"
| "event_ok good_id _ \<longleftrightarrow> True"

lemma event_ok_True [simp]: "event_ok (\<lambda>_. True) ev"
proof (cases ev)
  case (FrameArrives env e fr)
  then show ?thesis
    by (cases fr) simp_all
qed simp_all

definition env_ok :: "(int \<Rightarrow> bool) \<Rightarrow> loop_env \<Rightarrow> bool" where
  "env_ok good_id env \<longleftrightarrow> list_all (event_ok good_id) (le_while_reading env) \<and>
     (\<forall>e. list_all (event_ok good_id) (le_while_waiting env e))"

locale manager_loop = manager_relation +
  assumes r_status: "Rel A s (run_next_status_task now s)"
    and r_ack_task: "Rel A s (run_ack_task w s)"
    and r_client: "other_client_op op1 \<Longrightarrow> Rel A s (on_payload_client (proxy_step op1) s)"
    and r_crash: "flag_payload_received_ack (pm_flags s) \<Longrightarrow> Rel A s (pm_crash s)"
begin

lemma rel_event: "event_ok good_id ev \<Longrightarrow> Rel A s (pm_event_step ev s)"
  by (cases ev) (simp_all add: r_status r_ack_task rel_incoming_frame rel_other r_channels r_client
      r_refl on_platform_def r_platform)

lemma rel_events: "list_all (event_ok good_id) evs \<Longrightarrow> Rel A s (pm_events evs s)"
  unfolding pm_events_def by (rule rel_fold) (simp add: rel_event list_all_iff)

lemma rel_gone: "a \<in> A \<Longrightarrow> pm_objects s a = None \<Longrightarrow> Rel A s (pm_crash s)"
  using r_object [of a A s "\<lambda>p s. s"] by (simp add: with_object_def r_refl)

lemma rel_wait_for_ack:
  assumes a: "a \<in> A" and ok: "env_ok good_id env"
    and flag: "\<And>evs. flag_payload_received_ack (pm_flags (pm_events evs s))"
  shows "Rel A s (snd (wait_for_ack env e a s))"
proof -
  let ?t = "pm_events (le_while_waiting env e) s"
  have ev: "Rel A s ?t"
    using ok by (intro rel_events) (simp add: env_ok_def)
  have "Rel A ?t (pm_crash ?t)" "Rel A ?t (write_object a (clear_ack e) ?t)"
    by (rule r_crash [OF flag], rule r_write) simp
  with ev show ?thesis
    by (auto simp: wait_for_ack_def Let_def split: option.split intro: r_trans)
qed

lemma rel_wait:
  assumes ok: "env_ok good_id env" and flags: "\<And>evs t. pm_flags (pm_events evs t) = pm_flags t"
  shows "Rel A s (snd (WaitForReceivedAck env e p h n l s))"
proof (cases "l \<and> ack_enabled e p s")
  case True
  have "Rel A s (with_payload (header_id h) (\<lambda>a s. snd (ack_of_endpoint env e h n a s)) s)"
  proof (rule r_payload)
    fix a and t :: payload_manager
    assume "pm_flags t = pm_flags s"
    then have "flag_payload_received_ack (pm_flags t)"
      using True by (simp add: ack_enabled_def)
    then show "Rel (insert a A) t (snd (ack_of_endpoint env e h n a t))"
      using rel_wait_for_ack [OF _ ok, of a "insert a A" t e] rel_gone [of a "insert a A" t]
      by (auto simp: ack_of_endpoint_def flags r_refl rel_finished_outgoing r_write split: option.split)
  qed
  moreover have "with_payload (header_id h) (\<lambda>a s. snd (ack_of_endpoint env e h n a s)) s =
      snd (WaitForReceivedAck env e p h n l s)"
    using True by (simp add: with_payload_def WaitForReceivedAck_def case_prod_beta split: option.split)
  ultimately show ?thesis
    by simp
qed (simp add: WaitForReceivedAck_def r_refl)

lemma rel_confirm:
  assumes "env_ok good_id env" and "\<And>evs t. pm_flags (pm_events evs t) = pm_flags t"
  shows "Rel A s (confirm_endpoint env p h n c failed e s)"
proof -
  have w: "Rel A s (snd (WaitForReceivedAck env e p h n (IsLastChunk c) s))"
    by (rule rel_wait [OF assms])
  then show ?thesis
    by (auto simp: confirm_endpoint_def r_refl split: prod.split bool.split
        intro: r_trans [OF _ rel_chunk_sent])
qed

lemma rel_send_chunk:
  assumes "env_ok good_id env" and "\<And>evs t. pm_flags (pm_events evs t) = pm_flags t" and "distinct es"
  shows "Rel A s (snd (snd (send_chunk env r p n es body s)))"
proof -
  obtain failed t where st: "SendTransferFrameBytes (le_write_ok env)
      (DataFrame (rs_header r) (CreatePayloadChunk (n - int (rs_resume_offset r)) body (rs_index r))) es s
      = (failed, t)"
    by fastforce
  then have t: "Rel A s t"
    by (rule rel_send_result)
  let ?u = "if failed \<noteq> [] then HandleFinishedOutgoingPayload (le_write_ok env) failed (rs_header r) n
      ENDPOINT_IO_ERROR t else t"
  have "distinct failed"
    using failed_endpoints [OF assms(3), of "le_write_ok env"] st by (metis fst_conv)
  then have u: "Rel A s ?u"
    using t r_trans [OF t rel_finished_outgoing] by simp
  have "Rel A ?u (fold (confirm_endpoint env p h n c failed) es ?u)" for h c
    by (rule rel_fold) (rule rel_confirm [OF assms(1,2)])
  from r_trans [OF u this] show ?thesis
    using u assms(3) by (simp add: send_chunk_def Let_def st rel_finished_outgoing)
qed

lemma rel_read_and_send:
  assumes ok: "env_ok good_id env" and flags: "\<And>evs t. pm_flags (pm_events evs t) = pm_flags t"
    and es: "distinct es" and a: "rs_object r \<in> A" and res: "read_and_send env r n es s = Some (b, m, u)"
  shows "Rel A s u"
proof -
  let ?a = "rs_object r"
  let ?s1 = "fold (\<lambda>e. write_object ?a (SetOffsetForEndpoint e n)) es s"
  let ?s2 = "pm_events (le_while_reading env) ?s1"
  have "Rel A s ?s1"
    by (rule rel_fold) (simp add: r_write)
  moreover have "Rel A ?s1 ?s2"
    using ok by (intro rel_events) (simp add: env_ok_def)
  ultimately have s2: "Rel A s ?s2"
    by (rule r_trans)
  show ?thesis
  proof (cases "pm_objects ?s2 ?a")
    case None
    then have "u = pm_crash ?s2"
      using res by (auto simp: read_and_send_def Let_def)
    then show ?thesis
      using r_trans [OF s2 rel_gone [OF a None]] by simp
  next
    case (Some p)
    let ?d = "DetachNextChunk (le_delivers env) (GetOptimalChunkSize env es ?s1) (pp_internal p, pm_platform ?s2)"
    obtain body ip pf where d: "?d = (Some body, ip, pf)"
      using res Some by (auto simp: read_and_send_def Let_def split: prod.splits option.splits)
    have ip: "ip_id ip = pp_id p"
      using d by (auto simp: DetachNextChunk_def pp_id_def split: payload_kind.splits option.splits
          prod.splits if_splits)
    let ?s3 = "(write_object ?a (\<lambda>p. p\<lparr>pp_internal := ip\<rparr>) ?s2)\<lparr>pm_platform := pf\<rparr>"
    have s3: "Rel A s ?s3"
      using r_trans [OF s2 r_trans [OF r_internal [OF Some ip] r_platform]] .
    have "u = ?s3 \<or> u = snd (snd (send_chunk env r (p\<lparr>pp_internal := ip\<rparr>) n es body ?s3))"
      using res Some d by (auto simp: read_and_send_def Let_def split: if_splits)
    then show ?thesis
      using s3 r_trans [OF s3 rel_send_chunk [OF ok flags es]] by auto
  qed
qed

lemma rel_loop:
  assumes ok: "env_ok good_id env" and flags: "\<And>evs t. pm_flags (pm_events evs t) = pm_flags t"
    and a: "rs_object r \<in> A" and res: "SendPayloadLoop env r s = Some (b, m, u)"
  shows "Rel A s u"
proof (cases "pm_objects s (rs_object r)")
  case None
  with res rel_gone [OF a None] show ?thesis
    by (simp add: SendPayloadLoop_def)
next
  case (Some p)
  let ?es = "GetAvailableEndpoints p"
  have es: "distinct ?es"
    by (rule distinct_available)
  let ?s1 = "fold (\<lambda>(e, st). HandleFinishedOutgoingPayload (le_write_ok env) [e] (rs_header r)
      (rs_offset r) (EndpointInfoStatusToPayloadStatus st)) (GetUnavailableEndpoints p) s"
  have s1: "Rel A s ?s1"
    by (rule rel_fold) (auto intro: rel_finished_outgoing)
  have skip: "Rel A ?s1 v" if "skip_to_resume env r p ?es ?s1 = Stops (k, v) \<or>
      skip_to_resume env r p ?es ?s1 = Goes (k, v)" for k v
    using that by (auto simp: skip_to_resume_def r_refl r_platform
        intro: r_trans [OF r_platform rel_finished_outgoing [OF es]] split: if_splits prod.splits skip_outcome.splits)
  show ?thesis
    using res Some s1
    by (auto simp: SendPayloadLoop_def Let_def split: if_splits round.splits
        intro: r_trans [OF s1 rel_finished_outgoing [OF es]] r_trans [OF s1 skip]
          r_trans [OF s1 r_trans [OF skip rel_read_and_send [OF ok flags es a]]])
qed

end

end
