(* ===== verification/Payload_Refs.thy ===== *)
theory Payload_Refs
  imports Payload_Frame
begin

text \<open>
  The reference counts of pending payloads: what no operation changes, and the invariant that
  ties each count to the handles that are held.
\<close>

section \<open>Fields that stay\<close>

definition same_control :: "payload_manager \<Rightarrow> payload_manager \<Rightarrow> bool" where
  "same_control s t \<longleftrightarrow> pm_flags t = pm_flags s \<and> pm_senders t = pm_senders s \<and>
     pm_shutdown t = pm_shutdown s"

lemma same_control_refl [simp]: "same_control s s"
  by (simp add: same_control_def)

lemma same_control_trans: "same_control s t \<Longrightarrow> same_control t u \<Longrightarrow> same_control s u"
  by (simp add: same_control_def)

lemma same_control_object:
  "(\<And>p. pm_objects s a = Some p \<Longrightarrow> same_control s (g p s)) \<Longrightarrow> same_control s (with_object a g s)"
  by (simp add: with_object_def pm_crash_def same_control_def split: option.split)

lemma same_control_write: "same_control s (write_object a f s)"
  by (simp add: same_control_def write_object_def)

lemma same_control_close: "same_control s (PendingPayload_Close a s)"
  unfolding PendingPayload_Close_def
  by (rule same_control_object) (simp add: same_control_def write_object_def)

lemma same_control_destroy: "same_control s (destroy_object a s)"
  unfolding destroy_object_def
  by (rule same_control_object) (use same_control_close [of s a] in
      \<open>simp add: same_control_def OnPendingPayloadDestroy_def RunOnStatusUpdateThread_def Let_def\<close>)

lemma same_control_remove: "same_control s (PendingPayloads_Remove i s)"
proof -
  have "same_control s (destroy_object a (add_ref n a s\<lparr>pm_tracked := tr\<rparr>))" for a n tr
    using same_control_destroy [of "add_ref n a s\<lparr>pm_tracked := tr\<rparr>" a]
    by (simp add: same_control_def add_ref_def write_object_def)
  moreover have "same_control s ((add_ref n a s)\<lparr>pm_tracked := tr\<rparr>)" for a n tr
    by (simp add: same_control_def add_ref_def write_object_def)
  ultimately have "same_control s (with_object a (\<lambda>p s. if pp_refcount p = 0 then destroy_object a s
      else s\<lparr>pm_bin := pm_bin s @ [a]\<rparr>) ((add_ref n a s)\<lparr>pm_tracked := tr\<rparr>))" for a n tr
    by (auto simp: with_object_def pm_crash_def same_control_def split: option.split)
  then show ?thesis
    by (auto simp: PendingPayloads_Remove_def split: option.split)
qed

lemma same_control_release: "same_control s (PendingPayloads_Release a s)"
proof -
  have "same_control s (destroy_object a (add_ref n a s\<lparr>pm_bin := b\<rparr>))" for n b
    using same_control_destroy [of "add_ref n a s\<lparr>pm_bin := b\<rparr>" a]
    by (simp add: same_control_def add_ref_def write_object_def)
  from this [where n = "- 1"] show ?thesis
    unfolding PendingPayloads_Release_def
    by (intro same_control_object) (auto simp: Let_def add_ref_def same_control_write)
qed

lemma add_ref_objects:
  "pm_objects (add_ref n a s) =
     (pm_objects s)(a := map_option (\<lambda>p. p\<lparr>pp_refcount := pp_refcount p + n\<rparr>) (pm_objects s a))"
  by (simp add: add_ref_def write_object_def)

lemma GetPayload_SomeE:
  assumes "GetPayload i s = (Some a, t)"
  shows "map_of (pm_tracked s) i = Some a" and "t = add_ref 1 a s" and "map_of (pm_tracked t) i = Some a"
    and "pm_flags t = pm_flags s"
  using assms by (auto simp: GetPayload_def add_ref_def write_object_def split: option.splits)

lemma with_payload_cases:
  assumes "map_of (pm_tracked s) i = None \<Longrightarrow> P s"
    and "\<And>a t. GetPayload i s = (Some a, t) \<Longrightarrow> P (PendingPayloads_Release a (k a t))"
  shows "P (with_payload i k s)"
  using assms by (cases "map_of (pm_tracked s) i") (auto simp: with_payload_def GetPayload_def)

lemma same_control_payload:
  assumes "\<And>a t. map_of (pm_tracked t) i = Some a \<Longrightarrow> pm_flags t = pm_flags s \<Longrightarrow> same_control t (k a t)"
  shows "same_control s (with_payload i k s)"
proof (rule with_payload_cases)
  fix a t
  assume "GetPayload i s = (Some a, t)"
  note g = GetPayload_SomeE [OF this]
  then have "same_control s t"
    by (simp add: add_ref_def same_control_write)
  then show "same_control s (PendingPayloads_Release a (k a t))"
    by (rule same_control_trans [OF same_control_trans [OF _ assms [OF g(3,4)]] same_control_release])
qed simp

lemma same_control_fold:
  "(\<And>x t. same_control t (f x t)) \<Longrightarrow> same_control s (fold f xs s)"
  by (induction xs arbitrary: s) (auto intro: same_control_trans)

lemma same_control_notify: "same_control s (on_payload_client f s)"
  by (simp add: on_payload_client_def same_control_def)

lemmas same_control_steps = same_control_refl same_control_payload same_control_object same_control_fold
  same_control_write same_control_close same_control_remove same_control_release same_control_notify

lemma same_control_deserted: "same_control s (close_if_deserted a s)"
  unfolding close_if_deserted_def by (rule same_control_object) (simp add: same_control_close)

lemma same_control_task: "same_control s (run_status_task now tk s)"
proof -
  have 1: "same_control s (run_FinishedOutgoing es h n st s)" for es h n st
    unfolding run_FinishedOutgoing_def Let_def
    by (intro same_control_payload same_control_trans [OF same_control_trans [OF _ same_control_write]
          same_control_deserted] same_control_fold) (auto simp: notify_finished_def intro!: same_control_steps)
  have 2: "same_control s (run_FinishedIncoming e h n st s)" for e h n st
    unfolding run_FinishedIncoming_def Let_def DestroyPendingPayload_def StopTrackingPayload_def
    by (intro same_control_payload same_control_trans [OF same_control_notify same_control_remove])
  have 3: "same_control s (run_NewPayload e hd s)" for e hd
    unfolding run_NewPayload_def
    by (auto split: option.split intro!: same_control_trans [OF same_control_object same_control_release]
        same_control_trans [OF same_control_write same_control_notify])
  have 4: "same_control s (run_EndpointGone e s)" for e
    unfolding run_EndpointGone_def endpoint_gone_def
    by (auto split: option.split intro!: same_control_fold same_control_object
        same_control_trans [OF same_control_trans [OF same_control_write same_control_deserted] same_control_notify])
  have 5: "same_control s (run_OutgoingChunkSent now e h fl n sz s)" for e h fl n sz
  proof -
    have "same_control t (with_payload i (\<lambda>a. with_object a (\<lambda>p s. if GetEndpoint e p = None then s
        else let s2 = on_payload_client (OnPayloadProgress e (chunk_progress h fl n sz)) s
             in if last_flag fl then close_if_deserted a (write_object a (RemoveEndpoints [e]) s2) else s2)) t)"
      for i t
      by (auto simp: Let_def intro!: same_control_payload same_control_object same_control_notify
          same_control_trans [OF same_control_trans [OF same_control_notify same_control_write] same_control_deserted])
    then show ?thesis
      by (simp add: run_OutgoingChunkSent_def same_control_def Let_def)
  qed
  have 6: "same_control s (run_IncomingChunkReceived now e h fl n sz s)" for e h fl n sz
  proof -
    have "same_control t (with_payload i (\<lambda>a s. let s2 = on_payload_client (OnPayloadProgress e (chunk_progress h fl n sz)) s
        in if last_flag fl then DestroyPendingPayload i s2 else s2) t)" for i t
      by (auto simp: Let_def DestroyPendingPayload_def StopTrackingPayload_def intro!: same_control_payload
          same_control_notify same_control_trans [OF same_control_notify same_control_remove])
    then show ?thesis
      by (simp add: run_IncomingChunkReceived_def same_control_def Let_def)
  qed
  have 7: "same_control s (StopTrackingAllPayloads s)"
    unfolding StopTrackingAllPayloads_def by (rule same_control_fold) (rule same_control_remove)
  show ?thesis
    by (cases tk) (simp_all add: 1 2 3 4 5 6 7 DestroyPendingPayload_def StopTrackingPayload_def
        same_control_remove, simp add: NotifyShutdown_def same_control_def split: option.split)
qed

interpretation control: manager_loop "\<lambda>A. same_control" "\<lambda>_. True" "\<lambda>_. True"
proof
  show "same_control s (StartTrackingPayload i p s)" for i p s
    using same_control_remove [of s i] by (simp add: StartTrackingPayload_def Let_def same_control_def)
  show "same_control s (announce_payload e i s)" for e i s
    by (simp add: announce_payload_def GetPayload_def add_ref_def RunOnStatusUpdateThread_def
        same_control_def write_object_def split: option.split prod.split)
  show "same_control s (SendPayloadReceivedAck a p e b s)" for a p e b s
    by (simp add: SendPayloadReceivedAck_def same_control_def)
  show "same_control s (run_next_status_task now s)" for now s
    using same_control_task [of "s\<lparr>pm_status_tasks := tl (pm_status_tasks s)\<rparr>" now]
    by (cases "pm_status_tasks s") (simp_all add: run_next_status_task_def same_control_def)
  show "same_control s (run_ack_task w s)" for w s
  proof (cases "pm_ack_tasks s")
    case (Cons x ts)
    have "same_control t (snd (SendTransferFrameBytes w fr es t))" for fr es t
      by (induction w fr es t rule: SendTransferFrameBytes.induct)
        (simp_all add: case_prod_beta same_control_def)
    then have "same_control (s\<lparr>pm_ack_tasks := ts\<rparr>) (run_ack_task w s)"
      by (auto simp: run_ack_task_def Cons simp del: SendTransferFrameBytes.simps split: prod.split
          intro: same_control_object)
    then show ?thesis
      by (simp add: same_control_def)
  qed (simp add: run_ack_task_def)
qed (auto simp: same_control_write RunOnStatusUpdateThread_def pm_crash_def on_payload_client_def
    same_control_remove intro: same_control_trans same_control_object same_control_payload,
    simp_all add: same_control_def)

lemma flags_of_events: "pm_flags (pm_events evs s) = pm_flags s"
  using control.rel_events [of evs s] by (simp add: same_control_def list_all_iff)


section \<open>Counts and handles\<close>

fun task_hold :: "status_task \<Rightarrow> nat \<Rightarrow> nat" where
  "task_hold (NewPayload e h) a = (if h = Some a then 1 else 0)"
| "task_hold _ a = 0"

definition tasks_hold :: "payload_manager \<Rightarrow> nat \<Rightarrow> nat" where
  "tasks_hold s a = (\<Sum>tk \<leftarrow> pm_status_tasks s. task_hold tk a)"

definition sender_hold :: "sender \<Rightarrow> nat \<Rightarrow> nat" where
  "sender_hold sd a = (case sd_running sd of Some r \<Rightarrow> if rs_object r = a then 1 else 0 | None \<Rightarrow> 0)"

definition senders_hold :: "(PayloadType \<Rightarrow> sender) \<Rightarrow> nat \<Rightarrow> nat" where
  "senders_hold sd a = (\<Sum>t \<leftarrow> [kUnknownType, kBytes, kFile, kStream]. sender_hold (sd t) a)"

lemma senders_hold_update:
  "senders_hold (sd(t := x)) a + sender_hold (sd t) a = senders_hold sd a + sender_hold x a"
  by (cases t) (simp_all add: senders_hold_def)

lemma sender_hold_le: "sender_hold (sd t) a \<le> senders_hold sd a"
  by (cases t) (simp_all add: senders_hold_def)

text \<open>
  Each live object is tracked or in the bin; its count is the number of handles on it, plus one
  for the table while it is tracked.
\<close>

definition entry_ok :: "(nat \<Rightarrow> nat) \<Rightarrow> payload_manager \<Rightarrow> nat \<Rightarrow> bool" where
  "entry_ok H s a \<longleftrightarrow>
     (case pm_objects s a of
        None \<Rightarrow> H a = 0 \<and> a \<notin> snd ` set (pm_tracked s) \<and> a \<notin> set (pm_bin s)
      | Some p \<Rightarrow> a < pm_next s \<and>
          (if a \<in> set (pm_bin s) then pp_refcount p = int (H a) \<and> 0 < H a
           else (pp_id p, a) \<in> set (pm_tracked s) \<and> pp_refcount p = 1 + int (H a)))"

definition table_inv :: "(nat \<Rightarrow> nat) \<Rightarrow> payload_manager \<Rightarrow> bool" where
  "table_inv H s \<longleftrightarrow>
     distinct (map fst (pm_tracked s)) \<and> distinct (map snd (pm_tracked s)) \<and> distinct (pm_bin s) \<and>
     (\<forall>a \<in> set (pm_bin s). a \<notin> snd ` set (pm_tracked s)) \<and> (\<forall>a. entry_ok H s a)"

lemma table_inv_same:
  assumes "table_inv H s" and "pm_tracked t = pm_tracked s" and "pm_bin t = pm_bin s"
    and "pm_next t = pm_next s"
    and "\<And>a. map_option (\<lambda>p. (pp_id p, pp_refcount p)) (pm_objects t a) =
      map_option (\<lambda>p. (pp_id p, pp_refcount p)) (pm_objects s a)"
  shows "table_inv H t"
proof -
  have "entry_ok H t a" for a
  proof -
    have "entry_ok H s a"
      using assms(1) by (simp add: table_inv_def)
    with assms(2-4) assms(5) [of a] show ?thesis
      by (auto simp: entry_ok_def split: option.splits)
  qed
  with assms(1-3) show ?thesis
    by (simp add: table_inv_def)
qed

lemma table_inv_H: "table_inv H s \<Longrightarrow> (\<And>a. H a = H' a) \<Longrightarrow> table_inv H' s"
  by (metis ext)

lemma table_invD:
  assumes "table_inv H s"
  shows "entry_ok H s a" and "distinct (map fst (pm_tracked s))" and "distinct (map snd (pm_tracked s))"
    and "distinct (pm_bin s)"
  using assms by (simp_all add: table_inv_def)

lemma tracked_inj:
  assumes "table_inv H s" and "(i, a) \<in> set (pm_tracked s)" and "(j, b) \<in> set (pm_tracked s)"
  shows "i = j \<longleftrightarrow> a = b"
proof -
  have "inj_on fst (set (pm_tracked s))" "inj_on snd (set (pm_tracked s))"
    using assms(1) by (simp_all add: table_inv_def distinct_map)
  then show ?thesis
    using assms(2,3) by (metis fst_conv inj_onD snd_conv)
qed

lemma tracked_not_bin:
  "table_inv H s \<Longrightarrow> (i, a) \<in> set (pm_tracked s) \<Longrightarrow> a \<notin> set (pm_bin s)"
  by (force simp: table_inv_def)

lemma tracked_object:
  assumes "table_inv H s" and "map_of (pm_tracked s) i = Some a"
  obtains p where "pm_objects s a = Some p" and "pp_id p = i" and "a \<notin> set (pm_bin s)"
    and "pp_refcount p = 1 + int (H a)" and "a < pm_next s"
proof -
  have m: "(i, a) \<in> set (pm_tracked s)"
    using assms(2) by (rule map_of_SomeD)
  then have b: "a \<notin> set (pm_bin s)" "entry_ok H s a"
    using assms(1) by (force simp: table_inv_def)+
  with m obtain p where p: "pm_objects s a = Some p" "(pp_id p, a) \<in> set (pm_tracked s)"
    "pp_refcount p = 1 + int (H a)" "a < pm_next s"
    by (force simp: entry_ok_def split: option.splits)
  moreover have "pp_id p = i"
    using tracked_inj [OF assms(1) p(2) m] by simp
  ultimately show ?thesis
    using b that by blast
qed

lemma held_object:
  assumes "table_inv H s" and "0 < H a"
  obtains p where "pm_objects s a = Some p" and "a < pm_next s"
  using assms table_invD(1) [OF assms(1), of a]
  by (cases "pm_objects s a") (auto simp: entry_ok_def)

lemma table_add_ref:
  assumes "table_inv H s" and "pm_objects s a = Some p"
  shows "table_inv (H(a := H a + 1)) (add_ref 1 a s)"
proof -
  have "entry_ok (H(a := H a + 1)) (add_ref 1 a s) b" for b
  proof -
    have "entry_ok H s b"
      using assms(1) by (simp add: table_inv_def)
    with assms(2) show ?thesis
      by (auto simp: entry_ok_def add_ref_def write_object_def pp_id_def split: option.splits if_splits)
  qed
  with assms(1) show ?thesis
    by (simp add: table_inv_def add_ref_def write_object_def)
qed

lemma table_drop_ref:
  assumes "table_inv H s" and "pm_objects s a = Some p" and "0 < H a" and "a \<notin> set (pm_bin s) \<or> 1 < H a"
  shows "table_inv (H(a := H a - 1)) (add_ref (- 1) a s)"
proof -
  have "entry_ok (H(a := H a - 1)) (add_ref (- 1) a s) b" for b
  proof -
    have "entry_ok H s b"
      using assms(1) by (simp add: table_inv_def)
    with assms(2-4) show ?thesis
      by (auto simp: entry_ok_def add_ref_def write_object_def pp_id_def split: option.splits if_splits)
  qed
  with assms(1) show ?thesis
    by (simp add: table_inv_def add_ref_def write_object_def)
qed

lemma GetPayload_table:
  assumes "table_inv H s" and "GetPayload i s = (Some a, t)"
  shows "table_inv (H(a := H a + 1)) t"
  using assms GetPayload_SomeE [OF assms(2)] tracked_object [OF assms(1), of i a]
  by (metis table_add_ref)

text \<open>The destruction of an object, and its effect on the fields the invariant reads.\<close>

lemma close_fields [simp]:
  "pm_tracked (PendingPayload_Close a s) = pm_tracked s" "pm_bin (PendingPayload_Close a s) = pm_bin s"
  "pm_next (PendingPayload_Close a s) = pm_next s"
  "pm_status_tasks (PendingPayload_Close a s) = pm_status_tasks s"
  "pm_client (PendingPayload_Close a s) = pm_client s" "pm_ack_tasks (PendingPayload_Close a s) = pm_ack_tasks s"
  by (auto simp: PendingPayload_Close_def with_object_def pm_crash_def write_object_def split: option.split)

lemma close_objects:
  "pm_objects (PendingPayload_Close a s) b =
     (if b = a then map_option (\<lambda>p. p\<lparr>pp_closed := True\<rparr>) (pm_objects s a) else pm_objects s b)"
  by (auto simp: PendingPayload_Close_def with_object_def pm_crash_def write_object_def split: option.split)

lemma destroy_fields [simp]:
  "pm_tracked (destroy_object a s) = pm_tracked s" "pm_bin (destroy_object a s) = pm_bin s"
  "pm_next (destroy_object a s) = pm_next s" "pm_client (destroy_object a s) = pm_client s"
  "pm_ack_tasks (destroy_object a s) = pm_ack_tasks s"
  by (auto simp: destroy_object_def with_object_def pm_crash_def OnPendingPayloadDestroy_def Let_def
      RunOnStatusUpdateThread_def split: option.split)

lemma destroy_objects: "pm_objects (destroy_object a s) = (pm_objects s)(a := None)"
  by (auto simp: destroy_object_def with_object_def pm_crash_def OnPendingPayloadDestroy_def Let_def
      RunOnStatusUpdateThread_def close_objects fun_eq_iff split: option.split)

lemma destroy_tasks:
  "pm_objects s a = Some p \<Longrightarrow> pm_status_tasks (destroy_object a s) =
     pm_status_tasks s @ (if pp_is_incoming p then [] else [ShutdownNotification])"
  by (simp add: destroy_object_def with_object_def OnPendingPayloadDestroy_def Let_def
      RunOnStatusUpdateThread_def)

lemma destroy_crashed: "pm_objects s a \<noteq> None \<Longrightarrow> pm_crashed (destroy_object a s) = pm_crashed s"
  by (auto simp: destroy_object_def with_object_def OnPendingPayloadDestroy_def Let_def
      RunOnStatusUpdateThread_def PendingPayload_Close_def write_object_def split: option.splits if_splits)

lemma table_remove:
  assumes inv: "table_inv H s"
  shows "table_inv H (PendingPayloads_Remove i s)"
proof (cases "map_of (pm_tracked s) i")
  case (Some a)
  from tracked_object [OF inv Some] obtain p where p: "pm_objects s a = Some p" "pp_id p = i"
    "a \<notin> set (pm_bin s)" "pp_refcount p = 1 + int (H a)" "a < pm_next s"
    by metis
  have m: "(i, a) \<in> set (pm_tracked s)"
    using Some by (rule map_of_SomeD)
  have inj: "k = i" if "(k, a) \<in> set (pm_tracked s)" for k
    using tracked_inj [OF inv that m] by simp
  have key: "b = a" if "(i, b) \<in> set (pm_tracked s)" for b
    using tracked_inj [OF inv that m] by simp
  let ?tr = "filter (\<lambda>(k, _). k \<noteq> i) (pm_tracked s)"
  let ?s1 = "(add_ref (- 1) a s)\<lparr>pm_tracked := ?tr\<rparr>"
  have entry: "entry_ok H s b" for b
    using inv by (simp add: table_inv_def)
  have tr: "distinct (map fst ?tr)" "distinct (map snd ?tr)"
    using inv by (auto simp: table_inv_def distinct_map_filter)
  have out: "a \<notin> snd ` set ?tr"
    using inj by auto
  show ?thesis
  proof (cases "H a = 0")
    case True
    have r: "PendingPayloads_Remove i s = destroy_object a ?s1"
      by (simp add: PendingPayloads_Remove_def Some with_object_def add_ref_objects p True)
    have "entry_ok H (destroy_object a ?s1) b" for b
      using entry [of b] p True key [of b] out
      by (auto simp: entry_ok_def destroy_objects add_ref_def write_object_def pp_id_def
          split: option.splits if_splits)
    with tr inv show ?thesis
      unfolding r by (auto simp: table_inv_def add_ref_def write_object_def)
  next
    case False
    have r: "PendingPayloads_Remove i s = ?s1\<lparr>pm_bin := pm_bin s @ [a]\<rparr>"
      using False by (simp add: PendingPayloads_Remove_def Some with_object_def add_ref_objects p) (simp add: add_ref_def write_object_def)
    have "entry_ok H (?s1\<lparr>pm_bin := pm_bin s @ [a]\<rparr>) b" for b
      using entry [of b] p False key [of b]
      by (auto simp: entry_ok_def add_ref_def write_object_def pp_id_def split: option.splits if_splits)
    moreover have "distinct (pm_bin s @ [a])" "\<forall>b \<in> set (pm_bin s @ [a]). b \<notin> snd ` set ?tr"
      using inv p(3) out by (auto simp: table_inv_def)
    ultimately show ?thesis
      unfolding r using tr by (simp add: table_inv_def)
  qed
qed (simp add: PendingPayloads_Remove_def inv)

lemma table_release:
  assumes inv: "table_inv H s" and pos: "0 < H a"
  shows "table_inv (H(a := H a - 1)) (PendingPayloads_Release a s)"
proof -
  from held_object [OF assms] obtain p where p: "pm_objects s a = Some p"
    by metis
  have entry: "entry_ok H s b" for b
    using inv by (simp add: table_inv_def)
  show ?thesis
  proof (cases "a \<in> set (pm_bin s)")
    case False
    then have "(pp_id p, a) \<in> set (pm_tracked s)"
      using entry [of a] p by (simp add: entry_ok_def)
    then have "map_of (pm_tracked s) (pp_id p) = Some a"
      using inv by (simp add: table_inv_def)
    then have "PendingPayloads_Release a s = add_ref (- 1) a s"
      by (simp add: PendingPayloads_Release_def with_object_def p)
    then show ?thesis
      using table_drop_ref [OF inv p pos] False by simp
  next
    case True
    then have nt: "map_of (pm_tracked s) (pp_id p) \<noteq> Some a"
      using inv by (force simp: table_inv_def dest: map_of_SomeD)
    have rc: "pp_refcount p = int (H a)"
      using entry [of a] p True by (simp add: entry_ok_def)
    let ?s1 = "(add_ref (- 1) a s)\<lparr>pm_bin := removeAll a (pm_bin s)\<rparr>"
    show ?thesis
    proof (cases "H a = 1")
      case H: True
      have r: "PendingPayloads_Release a s = destroy_object a ?s1"
        using nt True by (simp add: PendingPayloads_Release_def with_object_def p rc H Let_def
            add_ref_def write_object_def)
      have "entry_ok (H(a := H a - 1)) (destroy_object a ?s1) b" for b
        using entry [of b] p H True tracked_not_bin [OF inv]
        by (auto simp: entry_ok_def destroy_objects add_ref_def write_object_def pp_id_def
            split: option.splits if_splits)
      with inv show ?thesis
        unfolding r by (auto simp: table_inv_def add_ref_def write_object_def distinct_removeAll)
    next
      case H: False
      have "PendingPayloads_Release a s = add_ref (- 1) a s"
        using nt True H pos by (simp add: PendingPayloads_Release_def with_object_def p rc Let_def)
      then show ?thesis
        using table_drop_ref [OF inv p pos] H pos by simp
    qed
  qed
qed

lemma table_start:
  assumes inv: "table_inv H s" and i: "pp_id p = i" and rc: "pp_refcount p = 0"
  shows "table_inv H (StartTrackingPayload i p s)"
proof -
  let ?s1 = "PendingPayloads_Remove i s"
  have s1: "table_inv H ?s1"
    using inv by (rule table_remove)
  then have entry: "entry_ok H ?s1 b" for b
    by (simp add: table_inv_def)
  have fresh: "pm_objects ?s1 (pm_next ?s1) = None"
    using entry [of "pm_next ?s1"] by (auto simp: entry_ok_def split: option.splits)
  have none: "i \<notin> fst ` set (pm_tracked ?s1)"
  proof (cases "map_of (pm_tracked s) i")
    case (Some a)
    from tracked_object [OF inv Some] obtain q where "pm_objects s a = Some q"
      by metis
    then show ?thesis
      by (auto simp: PendingPayloads_Remove_def Some with_object_def add_ref_def write_object_def Let_def)
  next
    case None
    then show ?thesis
      unfolding map_of_eq_None_iff [symmetric] by (simp add: PendingPayloads_Remove_def)
  qed
  let ?n = "pm_next ?s1"
  have H: "H ?n = 0" "?n \<notin> snd ` set (pm_tracked ?s1)" "?n \<notin> set (pm_bin ?s1)"
    using entry [of ?n] fresh by (simp_all add: entry_ok_def)
  have t: "StartTrackingPayload i p s = ?s1\<lparr>
      pm_objects := (pm_objects ?s1)(?n \<mapsto> p\<lparr>pp_refcount := pp_refcount p + 1\<rparr>),
      pm_tracked := pm_tracked ?s1 @ [(i, ?n)], pm_next := Suc ?n\<rparr>"
    by (simp add: StartTrackingPayload_def Let_def)
  have "entry_ok H (StartTrackingPayload i p s) b" for b
    using entry [of b] H fresh i rc unfolding t
    by (auto simp: entry_ok_def pp_id_def less_Suc_eq split: option.splits if_splits)
  with s1 none H show ?thesis
    unfolding t by (auto simp: table_inv_def)
qed


section \<open>The counts are kept\<close>

definition held :: "payload_manager \<Rightarrow> nat \<Rightarrow> nat" where
  "held s a = tasks_hold s a + senders_hold (pm_senders s) a"

text \<open>Without acknowledgements (the argument \<open>b\<close>) no object is used after it is gone.\<close>

definition calm :: "bool \<Rightarrow> payload_manager \<Rightarrow> bool" where
  "calm b s \<longleftrightarrow> (b \<longrightarrow> \<not> flag_payload_received_ack (pm_flags s) \<and> pm_ack_tasks s = [] \<and> \<not> pm_crashed s)"

definition counted :: "bool \<Rightarrow> (nat \<Rightarrow> nat) \<Rightarrow> payload_manager \<Rightarrow> bool" where
  "counted b H s \<longleftrightarrow> table_inv (\<lambda>a. H a + held s a) s \<and> calm b s"

definition keeps_counts :: "bool \<Rightarrow> nat set \<Rightarrow> payload_manager \<Rightarrow> payload_manager \<Rightarrow> bool" where
  "keeps_counts b A s t \<longleftrightarrow> pm_senders t = pm_senders s \<and>
     (\<forall>H. (\<forall>a \<in> A. 0 < H a + senders_hold (pm_senders s) a) \<longrightarrow> counted b H s \<longrightarrow> counted b H t)"

lemma keeps_countsI:
  assumes "pm_senders t = pm_senders s"
    and "\<And>H. (\<forall>a \<in> A. 0 < H a + senders_hold (pm_senders s) a) \<Longrightarrow> counted b H s \<Longrightarrow> counted b H t"
  shows "keeps_counts b A s t"
  using assms by (simp add: keeps_counts_def)

lemma counted_same:
  assumes "counted b H s"
    and "pm_tracked t = pm_tracked s" "pm_bin t = pm_bin s" "pm_next t = pm_next s"
    and "\<And>a. map_option (\<lambda>p. (pp_id p, pp_refcount p)) (pm_objects t a) =
      map_option (\<lambda>p. (pp_id p, pp_refcount p)) (pm_objects s a)"
    and "held t = held s" and "calm b s \<Longrightarrow> calm b t"
  shows "counted b H t"
  using assms table_inv_same [of _ s t] by (simp add: counted_def)

lemma keeps_plain:
  assumes "pm_senders t = pm_senders s" "pm_status_tasks t = pm_status_tasks s"
    "pm_tracked t = pm_tracked s" "pm_bin t = pm_bin s" "pm_next t = pm_next s"
    "pm_flags t = pm_flags s" "pm_ack_tasks t = pm_ack_tasks s" "pm_crashed t = pm_crashed s"
    and "\<And>a. map_option (\<lambda>p. (pp_id p, pp_refcount p)) (pm_objects t a) =
      map_option (\<lambda>p. (pp_id p, pp_refcount p)) (pm_objects s a)"
  shows "keeps_counts b A s t"
proof (rule keeps_countsI)
  fix H
  assume c: "counted b H s"
  have h: "held t = held s"
    by (rule ext) (simp add: held_def tasks_hold_def assms)
  show "counted b H t"
    using assms by (intro counted_same [OF c _ _ _ _ h]) (simp_all add: calm_def)
qed (rule assms(1))

lemma tasks_hold_append:
  "tasks_hold (s\<lparr>pm_status_tasks := pm_status_tasks s @ ts\<rparr>) a =
     tasks_hold s a + (\<Sum>tk \<leftarrow> ts. task_hold tk a)"
  by (simp add: tasks_hold_def)

lemma Remove_fields:
  assumes "table_inv H s"
  shows "tasks_hold (PendingPayloads_Remove i s) = tasks_hold s"
    and "pm_ack_tasks (PendingPayloads_Remove i s) = pm_ack_tasks s"
    and "pm_crashed (PendingPayloads_Remove i s) = pm_crashed s"
proof -
  have "tasks_hold (PendingPayloads_Remove i s) a = tasks_hold s a \<and>
      pm_ack_tasks (PendingPayloads_Remove i s) = pm_ack_tasks s \<and>
      pm_crashed (PendingPayloads_Remove i s) = pm_crashed s" for a
  proof (cases "map_of (pm_tracked s) i")
    case (Some c)
    from tracked_object [OF assms Some] obtain q where "pm_objects s c = Some q"
      by metis
    then show ?thesis
      by (simp add: PendingPayloads_Remove_def Some with_object_def add_ref_objects tasks_hold_def destroy_tasks
          destroy_crashed add_ref_def write_object_def)
  qed (simp add: PendingPayloads_Remove_def)
  then show "tasks_hold (PendingPayloads_Remove i s) = tasks_hold s"
    and "pm_ack_tasks (PendingPayloads_Remove i s) = pm_ack_tasks s"
    and "pm_crashed (PendingPayloads_Remove i s) = pm_crashed s"
    by auto
qed

lemma senders_fixed:
  "pm_senders (PendingPayloads_Remove i s) = pm_senders s" "pm_senders (PendingPayloads_Release a s) = pm_senders s"
  "pm_flags (PendingPayloads_Remove i s) = pm_flags s" "pm_flags (PendingPayloads_Release a s) = pm_flags s"
  using same_control_remove [of s i] same_control_release [of s a] by (simp_all add: same_control_def)

lemma counted_remove: "counted b H s \<Longrightarrow> counted b H (PendingPayloads_Remove i s)"
  using table_remove [of "\<lambda>a. H a + held s a" s i] Remove_fields [of _ s i]
  by (auto simp: counted_def held_def calm_def senders_fixed)

lemma Release_fields:
  assumes "table_inv H s" and "0 < H a"
  shows "tasks_hold (PendingPayloads_Release a s) = tasks_hold s"
    and "pm_ack_tasks (PendingPayloads_Release a s) = pm_ack_tasks s"
    and "pm_crashed (PendingPayloads_Release a s) = pm_crashed s"
proof -
  from held_object [OF assms] obtain q where "pm_objects s a = Some q"
    by metis
  then show "tasks_hold (PendingPayloads_Release a s) = tasks_hold s"
    and "pm_ack_tasks (PendingPayloads_Release a s) = pm_ack_tasks s"
    and "pm_crashed (PendingPayloads_Release a s) = pm_crashed s"
    by (auto simp: PendingPayloads_Release_def with_object_def Let_def tasks_hold_def destroy_tasks
        destroy_crashed add_ref_def write_object_def)
qed

lemma counted_release:
  assumes "counted b H s" and "0 < H a"
  shows "counted b (H(a := H a - 1)) (PendingPayloads_Release a s)"
proof -
  let ?H = "\<lambda>a. H a + held s a"
  have inv: "table_inv ?H s" and pos: "0 < ?H a"
    using assms by (simp_all add: counted_def)
  note f = Release_fields [OF inv pos]
  have "table_inv (?H(a := ?H a - 1)) (PendingPayloads_Release a s)"
    by (rule table_release [OF inv pos])
  then have "table_inv (\<lambda>c. (H(a := H a - 1)) c + held (PendingPayloads_Release a s) c)
      (PendingPayloads_Release a s)"
    by (rule table_inv_H) (use assms(2) in \<open>simp add: held_def f senders_fixed\<close>)
  with assms(1) f show ?thesis
    by (simp add: counted_def calm_def senders_fixed)
qed

lemma add_ref_fields [simp]:
  "pm_tracked (add_ref n a s) = pm_tracked s" "pm_bin (add_ref n a s) = pm_bin s"
  "pm_flags (add_ref n a s) = pm_flags s" "pm_senders (add_ref n a s) = pm_senders s"
  "pm_status_tasks (add_ref n a s) = pm_status_tasks s" "pm_ack_tasks (add_ref n a s) = pm_ack_tasks s"
  "pm_crashed (add_ref n a s) = pm_crashed s" "pm_next (add_ref n a s) = pm_next s"
  "pm_client (add_ref n a s) = pm_client s" "pm_shutdown (add_ref n a s) = pm_shutdown s"
  by (simp_all add: add_ref_def write_object_def)

lemma counted_get:
  assumes "counted b H s" and g: "GetPayload i s = (Some a, t)"
  shows "counted b (H(a := H a + 1)) t"
proof -
  let ?H = "\<lambda>a. H a + held s a"
  note t = GetPayload_SomeE(2) [OF g]
  have "table_inv (?H(a := ?H a + 1)) t"
    using assms by (intro GetPayload_table) (simp_all add: counted_def)
  then have "table_inv (\<lambda>c. (H(a := H a + 1)) c + held t c) t"
    by (rule table_inv_H) (simp add: held_def t tasks_hold_def)
  with assms(1) show ?thesis
    by (simp add: counted_def calm_def t)
qed

lemma counted_start:
  assumes "counted b H s" and "pp_id p = i" and "pp_refcount p = 0"
  shows "counted b H (StartTrackingPayload i p s)"
proof -
  let ?H = "\<lambda>a. H a + held s a" and ?t = "StartTrackingPayload i p s"
  have inv: "table_inv ?H s"
    using assms(1) by (simp add: counted_def)
  note f = Remove_fields [OF inv, of i]
  have "held ?t = held s"
    using f(1) by (simp add: held_def StartTrackingPayload_def Let_def tasks_hold_def 
        senders_fixed fun_eq_iff)
  moreover have "calm b s \<Longrightarrow> calm b ?t"
    using f by (simp add: calm_def StartTrackingPayload_def Let_def senders_fixed)
  ultimately show ?thesis
    using assms(1) table_start [OF inv assms(2,3)] by (simp add: counted_def)
qed

lemma counted_object:
  assumes "counted b H s" and "0 < H a + held s a"
  obtains p where "pm_objects s a = Some p"
  using assms held_object [of "\<lambda>a. H a + held s a" s a] by (auto simp: counted_def)

lemma keeps_counts_trans:
  "keeps_counts b A s t \<Longrightarrow> keeps_counts b A t u \<Longrightarrow> keeps_counts b A s u"
  by (auto simp: keeps_counts_def)

lemma keeps_counts_refl [simp]: "keeps_counts b A s s"
  by (simp add: keeps_counts_def)

lemma keeps_counts_object:
  assumes "a \<in> A" and "\<And>p. pm_objects s a = Some p \<Longrightarrow> keeps_counts b A s (g p s)"
  shows "keeps_counts b A s (with_object a g s)"
proof (cases "pm_objects s a")
  case None
  show ?thesis
  proof (rule keeps_countsI)
    fix H
    assume "\<forall>a \<in> A. 0 < H a + senders_hold (pm_senders s) a" and "counted b H s"
    then have "\<exists>p. pm_objects s a = Some p"
      using counted_object [of b H s a] assms(1) by (auto simp: held_def add.assoc add.left_commute)
    with None show "counted b H (with_object a g s)"
      by simp
  qed (simp add: with_object_def None pm_crash_def)
qed (simp add: with_object_def assms(2))

lemma keeps_counts_payload:
  assumes "\<And>a t. map_of (pm_tracked t) i = Some a \<Longrightarrow> pm_flags t = pm_flags s \<Longrightarrow>
      keeps_counts b (insert a A) t (k a t)"
  shows "keeps_counts b A s (with_payload i k s)"
proof (rule with_payload_cases)
  fix a t
  assume g: "GetPayload i s = (Some a, t)"
  note G = GetPayload_SomeE [OF g]
  have k: "keeps_counts b (insert a A) t (k a t)"
    by (rule assms [OF G(3,4)])
  show "keeps_counts b A s (PendingPayloads_Release a (k a t))"
  proof (rule keeps_countsI)
    show "pm_senders (PendingPayloads_Release a (k a t)) = pm_senders s"
      using k G(2) by (simp add: keeps_counts_def senders_fixed)
  next
    fix H
    assume A: "\<forall>a \<in> A. 0 < H a + senders_hold (pm_senders s) a" and c: "counted b H s"
    let ?H = "H(a := H a + 1)"
    have "counted b ?H t"
      by (rule counted_get [OF c g])
    moreover have "\<forall>c \<in> insert a A. 0 < ?H c + senders_hold (pm_senders t) c"
      using A G(2) by (auto simp:)
    ultimately have "counted b ?H (k a t)"
      using k unfolding keeps_counts_def by blast
    from counted_release [OF this, of a] show "counted b H (PendingPayloads_Release a (k a t))"
      by simp
  qed
qed simp


text \<open>The tasks that release a handle or use an object they hold none on.\<close>

fun plain_task :: "status_task \<Rightarrow> bool" where
  "plain_task (NewPayload e h) \<longleftrightarrow> h = None"
| "plain_task _ \<longleftrightarrow> True"

lemma keeps_counts_write: "mild f \<Longrightarrow> keeps_counts b A s (write_object a f s)"
  by (rule keeps_plain) (auto simp: write_object_def mild_def option.map_comp comp_def)

lemma keeps_counts_fold:
  "(\<And>x t. x \<in> set xs \<Longrightarrow> keeps_counts b A t (f x t)) \<Longrightarrow> keeps_counts b A s (fold f xs s)"
proof (induction xs arbitrary: s)
  case (Cons x xs)
  have "keeps_counts b A s (f x s)" "keeps_counts b A (f x s) (fold f xs (f x s))"
    using Cons by simp_all
  then show ?case
    by (auto intro: keeps_counts_trans)
qed simp

lemma counted_post:
  assumes "counted b H s" and "plain_task tk"
  shows "counted b H (RunOnStatusUpdateThread tk s)"
proof -
  have "held (RunOnStatusUpdateThread tk s) = held s"
    using assms(2) by (cases tk) (auto simp: held_def tasks_hold_def RunOnStatusUpdateThread_def)
  then show ?thesis
    by (intro counted_same [OF assms(1)]) (simp_all add: RunOnStatusUpdateThread_def calm_def)
qed

lemma counted_announce:
  assumes "counted b H s"
  shows "counted b H (announce_payload e i s)"
proof (cases "GetPayload i s")
  case (Pair h t)
  show ?thesis
  proof (cases h)
    case None
    then have "t = s"
      using Pair by (auto simp: GetPayload_def split: option.splits)
    then show ?thesis
      using counted_post [OF assms] by (simp add: announce_payload_def Pair None)
  next
    case (Some a)
    let ?u = "announce_payload e i s"
    have c: "counted b (H(a := H a + 1)) t"
      using counted_get [OF assms] Pair Some by simp
    have u: "?u = t\<lparr>pm_status_tasks := pm_status_tasks t @ [NewPayload e (Some a)]\<rparr>"
      by (simp add: announce_payload_def Pair Some RunOnStatusUpdateThread_def)
    have "table_inv (\<lambda>c. (H(a := H a + 1)) c + held t c) ?u"
      by (rule table_inv_same [where s = t]) (use c in \<open>simp_all add: u counted_def\<close>)
    then have "table_inv (\<lambda>c. H c + held ?u c) ?u"
      by (rule table_inv_H) (simp add: held_def tasks_hold_append u)
    with c show ?thesis
      by (simp add: counted_def calm_def u)
  qed
qed

text \<open>Taking the next task off the queue; the handle of an announcement goes to the thread.\<close>

lemma counted_pop:
  assumes c: "counted b H s" and q: "pm_status_tasks s = tk # ts"
  shows "counted b (\<lambda>a. H a + task_hold tk a) (s\<lparr>pm_status_tasks := ts\<rparr>)"
proof -
  let ?t = "s\<lparr>pm_status_tasks := ts\<rparr>"
  have "table_inv (\<lambda>a. H a + held s a) ?t"
    by (rule table_inv_same [where s = s]) (use c in \<open>simp_all add: counted_def\<close>)
  then have "table_inv (\<lambda>a. H a + task_hold tk a + held ?t a) ?t"
    by (rule table_inv_H)
      (simp add: held_def tasks_hold_def q)
  with c show ?thesis
    by (simp add: counted_def calm_def)
qed


section \<open>The tasks keep the counts\<close>

lemma keeps_counts_close: "pm_objects s a \<noteq> None \<Longrightarrow> keeps_counts b A s (PendingPayload_Close a s)"
  by (rule keeps_plain)
    (auto simp: PendingPayload_Close_def with_object_def write_object_def pp_id_def split: if_splits)

lemma keeps_counts_deserted: "pm_objects s a \<noteq> None \<Longrightarrow> keeps_counts b A s (close_if_deserted a s)"
  using keeps_counts_close [of s a] by (auto simp: close_if_deserted_def with_object_def)

lemma keeps_counts_client: "keeps_counts b A s (on_payload_client f s)"
  by (rule keeps_plain) (simp_all add: on_payload_client_def)

lemma keeps_counts_remove: "keeps_counts b A s (PendingPayloads_Remove i s)"
  by (rule keeps_countsI) (simp_all add: senders_fixed counted_remove)

lemma keeps_countsD: "keeps_counts b A s t \<Longrightarrow> A = {} \<Longrightarrow> counted b H s \<Longrightarrow> counted b H t"
  by (simp add: keeps_counts_def)

lemma object_kept: "pm_objects s a \<noteq> None \<Longrightarrow> pm_objects (write_object a f s) a \<noteq> None"
  by (simp add: write_object_def)

lemma keeps_counts_shrink:
  assumes "a \<in> A" and "\<And>s. keeps_counts b A s (g s)"
  shows "keeps_counts b A s (close_if_deserted a (write_object a (RemoveEndpoints es) (g s)))"
proof -
  have "keeps_counts b A t (close_if_deserted a t)" for t
    unfolding close_if_deserted_def using assms(1)
    by (rule keeps_counts_object) (simp add: keeps_counts_close)
  from keeps_counts_trans [OF keeps_counts_trans [OF assms(2) keeps_counts_write [OF mild_Remove]] this]
  show ?thesis .
qed

lemma keeps_finished_outgoing: "keeps_counts b A s (run_FinishedOutgoing es h n st s)"
  unfolding run_FinishedOutgoing_def Let_def
proof (rule keeps_counts_payload, rule keeps_counts_shrink)
  fix a and info and s :: payload_manager
  show "keeps_counts b (insert a A) s (fold (notify_finished a info) es s)"
    unfolding notify_finished_def
    by (rule keeps_counts_fold, rule keeps_counts_object) (simp_all add: keeps_counts_client)
qed simp

lemma keeps_finished_incoming: "keeps_counts b A s (run_FinishedIncoming e h n st s)"
  unfolding run_FinishedIncoming_def Let_def DestroyPendingPayload_def StopTrackingPayload_def
  by (intro keeps_counts_payload keeps_counts_trans [OF keeps_counts_client keeps_counts_remove])

lemma keeps_chunk_sent: "keeps_counts b A s (run_OutgoingChunkSent now e h fl n sz s)"
proof -
  have w: "keeps_counts b A t (with_payload i (\<lambda>a. with_object a (\<lambda>p s. if GetEndpoint e p = None then s
      else let s2 = on_payload_client (OnPayloadProgress e (chunk_progress h fl n sz)) s
           in if last_flag fl then close_if_deserted a (write_object a (RemoveEndpoints [e]) s2) else s2)) t)"
    for i t
    by (rule keeps_counts_payload, rule keeps_counts_object)
      (auto simp: Let_def keeps_counts_client intro!: keeps_counts_shrink)
  have p: "keeps_counts b A s (s\<lparr>pm_outgoing_updates := k\<rparr>)"
    "keeps_counts b A s (s\<lparr>pm_last_outgoing_update := m\<rparr>)" for k m s
    by (rule keeps_plain; simp)+
  show ?thesis
    unfolding run_OutgoingChunkSent_def Let_def [of "flag_skip_chunk_update (pm_flags s)"]
    using w p keeps_counts_trans [OF p(1) w] keeps_counts_trans [OF p(1) keeps_counts_trans [OF p(2) w]]
    by (auto simp: Let_def)
qed

lemma keeps_chunk_received: "keeps_counts b A s (run_IncomingChunkReceived now e h fl n sz s)"
proof -
  have w: "keeps_counts b A t (with_payload i (\<lambda>a s.
      let s2 = on_payload_client (OnPayloadProgress e (chunk_progress h fl n sz)) s
      in if last_flag fl then DestroyPendingPayload j s2 else s2) t)" for i j t
    by (rule keeps_counts_payload)
      (auto simp: Let_def DestroyPendingPayload_def StopTrackingPayload_def keeps_counts_client
        intro!: keeps_counts_trans [OF keeps_counts_client keeps_counts_remove])
  have p: "keeps_counts b A s (s\<lparr>pm_incoming_updates := k\<rparr>)"
    "keeps_counts b A s (s\<lparr>pm_last_incoming_update := m\<rparr>)" for k m s
    by (rule keeps_plain; simp)+
  show ?thesis
    unfolding run_IncomingChunkReceived_def Let_def [of "flag_skip_chunk_update (pm_flags s)"]
    using w p keeps_counts_trans [OF p(1) w] keeps_counts_trans [OF p(1) keeps_counts_trans [OF p(2) w]]
    by (auto simp: Let_def)
qed

lemma endpoint_gone_step:
  assumes c: "counted b H s" and a: "a \<in> snd ` set (pm_tracked s)"
  shows "counted b H (endpoint_gone e a s)" and "pm_tracked (endpoint_gone e a s) = pm_tracked s"
proof -
  from a obtain i where "map_of (pm_tracked s) i = Some a"
    using c by (auto simp: counted_def table_inv_def)
  then obtain p where p: "pm_objects s a = Some p"
    using tracked_object c by (metis counted_def)
  let ?t = "write_object a (RemoveEndpoints [e]) s"
  have "keeps_counts b {} s (close_if_deserted a ?t)"
    using p by (intro keeps_counts_trans [OF keeps_counts_write keeps_counts_deserted]) (simp_all add: write_object_def)
  then have "keeps_counts b {} s (on_payload_client f (close_if_deserted a ?t))" for f
    by (rule keeps_counts_trans) (rule keeps_counts_client)
  then show "counted b H (endpoint_gone e a s)"
    using c p by (auto simp: endpoint_gone_def with_object_def split: option.split intro: keeps_countsD)
  show "pm_tracked (endpoint_gone e a s) = pm_tracked s"
    using p by (simp add: endpoint_gone_def with_object_def on_payload_client_def close_if_deserted_def
        write_object_def split: option.split)
qed

lemma counted_endpoint_gone: "counted b H s \<Longrightarrow> counted b H (run_EndpointGone e s)"
proof -
  have "counted b H (fold (endpoint_gone e) as s)"
    if "counted b H s" "set as \<subseteq> snd ` set (pm_tracked s)" for as s
    using that
  proof (induction as arbitrary: s)
    case (Cons a as)
    then show ?case
      using endpoint_gone_step [OF Cons.prems(1), of a e] by simp
  qed simp
  then show "counted b H s \<Longrightarrow> counted b H (run_EndpointGone e s)"
    by (simp add: run_EndpointGone_def)
qed

lemma counted_new_payload:
  assumes "counted b (\<lambda>c. H c + task_hold (NewPayload e h) c) s"
  shows "counted b H (run_NewPayload e h s)"
proof (cases h)
  case (Some a)
  let ?H = "\<lambda>c. H c + task_hold (NewPayload e h) c"
  let ?f = "\<lambda>p s. on_payload_client (OnPayload e (fst (ReleasePayload (pp_internal p))))
      (write_object a (\<lambda>p. p\<lparr>pp_internal := snd (ReleasePayload (pp_internal p))\<rparr>) s)"
  have "keeps_counts b {a} s (with_object a ?f s)"
    by (rule keeps_counts_object)
      (auto intro: keeps_counts_trans [OF keeps_counts_write keeps_counts_client])
  then have "counted b ?H (with_object a ?f s)"
    using assms Some by (simp add: keeps_counts_def)
  from counted_release [OF this, of a] have "counted b (?H(a := ?H a - 1)) (run_NewPayload e h s)"
    by (simp add: run_NewPayload_def Some)
  moreover have "?H(a := ?H a - 1) = H"
    by (auto simp: Some)
  ultimately show ?thesis
    by simp
qed (use assms in \<open>simp add: run_NewPayload_def\<close>)

lemma counted_task:
  assumes "counted b (\<lambda>c. H c + task_hold tk c) s"
  shows "counted b H (run_status_task now tk s)"
proof (cases "\<exists>e h. tk = NewPayload e h")
  case True
  then show ?thesis
    using assms counted_new_payload by auto
next
  case False
  then have c: "counted b H s"
    using assms by (cases tk) auto
  have "counted b H (StopTrackingAllPayloads s)"
    unfolding StopTrackingAllPayloads_def
    by (rule keeps_countsD [OF keeps_counts_fold _ c]) (rule keeps_counts_remove, simp)
  moreover have "keeps_counts b {} s (NotifyShutdown s)"
    by (rule keeps_plain) (simp_all add: NotifyShutdown_def split: option.split)
  ultimately show ?thesis
    using False c by (cases tk) (auto simp: DestroyPendingPayload_def StopTrackingPayload_def counted_remove
        counted_endpoint_gone intro: keeps_countsD keeps_finished_outgoing keeps_finished_incoming
        keeps_chunk_sent keeps_chunk_received)
qed

lemma keeps_counts_status: "keeps_counts b A s (run_next_status_task now s)"
proof (rule keeps_countsI)
  show "pm_senders (run_next_status_task now s) = pm_senders s"
    using control.r_status [of s now] by (simp add: same_control_def)
next
  fix H
  assume c: "counted b H s"
  show "counted b H (run_next_status_task now s)"
  proof (cases "pm_status_tasks s")
    case (Cons tk ts)
    then show ?thesis
      using counted_task [OF counted_pop [OF c Cons]] by (simp add: run_next_status_task_def)
  qed (simp add: run_next_status_task_def c)
qed

lemma keeps_counts_internal:
  "pm_objects s a = Some p \<Longrightarrow> ip_id ip = pp_id p \<Longrightarrow>
   keeps_counts b A s (write_object a (\<lambda>p. p\<lparr>pp_internal := ip\<rparr>) s)"
  by (rule keeps_plain) (auto simp: write_object_def pp_id_def)

lemma keeps_counts_post: "plain_task tk \<Longrightarrow> keeps_counts b A s (RunOnStatusUpdateThread tk s)"
  by (intro keeps_countsI counted_post) (simp_all add: RunOnStatusUpdateThread_def)

lemma keeps_counts_start:
  "pp_id p = i \<Longrightarrow> pp_refcount p = 0 \<Longrightarrow> keeps_counts b A s (StartTrackingPayload i p s)"
  using control.r_start [OF TrueI, of p i s] by (intro keeps_countsI counted_start) (auto simp: same_control_def)

lemma keeps_counts_announce: "keeps_counts b A s (announce_payload e i s)"
  using control.r_announce [of s e i] by (intro keeps_countsI counted_announce) (auto simp: same_control_def)

lemma keeps_counts_ack: "keeps_counts b A s (SendPayloadReceivedAck a p e l s)"
proof (rule keeps_countsI)
  fix H
  assume c: "counted b H s"
  then show "counted b H (SendPayloadReceivedAck a p e l s)"
    by (rule counted_same) (auto simp: SendPayloadReceivedAck_def ack_enabled_def calm_def held_def
        tasks_hold_def fun_eq_iff)
qed (simp add: SendPayloadReceivedAck_def)

lemma keeps_counts_crash: "flag_payload_received_ack (pm_flags s) \<Longrightarrow> keeps_counts b A s (pm_crash s)"
proof (rule keeps_countsI)
  fix H
  assume "flag_payload_received_ack (pm_flags s)" and c: "counted b H s"
  then show "counted b H (pm_crash s)"
    by (intro counted_same [OF c]) (simp_all add: pm_crash_def calm_def held_def tasks_hold_def fun_eq_iff)
qed (simp add: pm_crash_def)

lemma keeps_counts_send: "keeps_counts b A s (snd (SendTransferFrameBytes w fr es s))"
proof (induction w fr es s rule: SendTransferFrameBytes.induct)
  case (2 w fr e es s)
  have "keeps_counts b A s (s\<lparr>pm_sent := pm_sent s @ [(e, fr)]\<rparr>)"
    by (rule keeps_plain) simp_all
  with 2 show ?case
    by (auto simp: case_prod_beta intro: keeps_counts_trans)
qed simp

lemma keeps_counts_ack_task: "keeps_counts b A s (run_ack_task w s)"
proof (rule keeps_countsI)
  show "pm_senders (run_ack_task w s) = pm_senders s"
    using control.r_ack_task [of s w] by (simp add: same_control_def)
  fix H
  assume c: "counted b H s"
  show "counted b H (run_ack_task w s)"
  proof (cases "pm_ack_tasks s")
    case (Cons x ts)
    have b: "\<not> b"
      using c Cons by (auto simp: counted_def calm_def)
    let ?s = "s\<lparr>pm_ack_tasks := ts\<rparr>"
    have s: "counted b H ?s"
      using c by (rule counted_same) (simp_all add: b calm_def held_def tasks_hold_def fun_eq_iff)
    then have "counted b H (pm_crash ?s)"
      by (rule counted_same) (simp_all add: b pm_crash_def calm_def held_def tasks_hold_def fun_eq_iff)
    then show ?thesis
      using keeps_countsD [OF keeps_counts_send refl s]
      by (cases x) (simp add: run_ack_task_def Cons with_object_def del: SendTransferFrameBytes.simps
          split: option.split)
  qed (simp add: run_ack_task_def c)
qed

lemma keeps_counts_fields:
  "keeps_counts b A s (s\<lparr>pm_platform := pf\<rparr>)" "keeps_counts b A s (s\<lparr>pm_channels := ch\<rparr>)"
  "keeps_counts b A s (s\<lparr>pm_sent := fr\<rparr>)" "keeps_counts b A s (s\<lparr>pm_discards := ds\<rparr>)"
  "keeps_counts b A s (s\<lparr>pm_save_path := path\<rparr>)"
  "keeps_counts b A s (s\<lparr>pm_outgoing_updates := n\<rparr>)" "keeps_counts b A s (s\<lparr>pm_incoming_updates := n\<rparr>)"
  "keeps_counts b A s (s\<lparr>pm_last_outgoing_update := tm\<rparr>)" "keeps_counts b A s (s\<lparr>pm_last_incoming_update := tm\<rparr>)"
  by (rule keeps_plain; simp)+

lemma keeps_counts_mono: "keeps_counts b A s t \<Longrightarrow> A \<subseteq> B \<Longrightarrow> keeps_counts b B s t"
  unfolding keeps_counts_def by (meson subset_iff)

interpretation counts: manager_loop "keeps_counts b" plain_task "\<lambda>_. True" for b
  by unfold_locales
    (simp_all add: keeps_counts_fields keeps_counts_write keeps_counts_internal keeps_counts_post
      keeps_counts_object keeps_counts_payload keeps_counts_start keeps_counts_remove
      keeps_counts_announce keeps_counts_ack keeps_counts_status keeps_counts_ack_task
      keeps_counts_client keeps_counts_crash, blast intro: keeps_counts_trans, erule keeps_counts_mono)


section \<open>The senders keep the counts\<close>

lemma counted_on_sender:
  assumes c: "counted b H s"
    and h: "\<And>a. H a + sender_hold (pm_senders s t) a = H' a + sender_hold (f (pm_senders s t)) a"
  shows "counted b H' (on_sender t f s)"
proof -
  let ?u = "on_sender t f s"
  have "table_inv (\<lambda>a. H a + held s a) ?u"
    by (rule table_inv_same [where s = s]) (use c in \<open>simp_all add: counted_def on_sender_def\<close>)
  then have "table_inv (\<lambda>a. H' a + held ?u a) ?u"
  proof (rule table_inv_H)
    fix a
    show "H a + held s a = H' a + held ?u a"
      using h [of a] senders_hold_update [of "pm_senders s" t "f (pm_senders s t)" a]
      by (simp add: held_def on_sender_def tasks_hold_def)
  qed
  with c show ?thesis
    by (simp add: counted_def calm_def on_sender_def)
qed

lemma counted_begin_send:
  assumes c: "counted b H s" and r: "sd_running (pm_senders s t) = None"
  shows "counted b H (begin_send t task s)"
proof (cases "GetPayload (st_payload_id task) s")
  case (Pair h u)
  show ?thesis
  proof (cases h)
    case None
    then have "u = s"
      using Pair by (auto simp: GetPayload_def split: option.splits)
    then show ?thesis
      using c Pair None by (simp add: begin_send_def)
  next
    case (Some a)
    have u: "counted b (H(a := H a + 1)) u"
      using counted_get [OF c] Pair Some by simp
    then obtain p where p: "pm_objects u a = Some p"
      using counted_object [OF u, of a] by auto
    have n: "sd_running (pm_senders u t) = None"
      using r GetPayload_SomeE(2) [of "st_payload_id task" s a u] Pair Some by simp
    show ?thesis
      using c counted_on_sender [OF u, of t H] n
      by (simp add: begin_send_def Pair Some p sender_hold_def)
  qed
qed

lemma counted_end_send:
  assumes c: "counted b H s" and r: "sd_running (pm_senders s t) = Some r"
  shows "counted b H (end_send t r s)"
proof -
  let ?a = "rs_object r"
  have "counted b (H(?a := H ?a + 1)) (on_sender t (\<lambda>sd. sd\<lparr>sd_running := None\<rparr>) s)"
    by (rule counted_on_sender [OF c]) (simp add: sender_hold_def r)
  from counted_release [OF counted_post [OF this], of _ ?a] show ?thesis
    by (simp add: end_send_def)
qed

lemma counted_sender_step:
  assumes c: "counted b H s"
  shows "counted b H (sender_step t env s)"
proof (cases "sd_running (pm_senders s t)")
  case None
  show ?thesis
  proof (cases "sd_queue (pm_senders s t)")
    case (Cons task rest)
    let ?s = "on_sender t (\<lambda>sd. sd\<lparr>sd_queue := rest\<rparr>) s"
    have "counted b H ?s"
      by (rule counted_on_sender [OF c]) (simp add: sender_hold_def)
    then show ?thesis
      using counted_begin_send [of b H ?s t task] by (simp add: sender_step_def None Cons on_sender_def)
  qed (simp add: sender_step_def None c)
next
  case (Some r)
  have pos: "0 < senders_hold (pm_senders s) (rs_object r)"
    using sender_hold_le [of "pm_senders s" t "rs_object r"] by (simp add: sender_hold_def Some)
  have ok: "env_ok (\<lambda>_. True) env"
    by (simp add: env_ok_def list_all_iff)
  show ?thesis
  proof (cases "pm_shutdown s \<or> SendPayloadLoop env r s = None")
    case True
    then show ?thesis
      using c counted_end_send [OF c Some] by (auto simp: sender_step_def Some)
  next
    case False
    then obtain go off u where l: "SendPayloadLoop env r s = Some (go, off, u)"
      by (cases "SendPayloadLoop env r s") auto
    have k: "keeps_counts b {rs_object r} s u"
      by (rule counts.rel_loop [OF ok flags_of_events _ l]) simp
    then have u: "counted b H u" and sd: "pm_senders u = pm_senders s"
      using c pos by (simp_all add: keeps_counts_def)
    have "counted b H (on_sender t (\<lambda>sd. sd\<lparr>sd_running := Some (r\<lparr>rs_offset := off,
        rs_index := rs_index r + 1\<rparr>)\<rparr>) u)"
      by (rule counted_on_sender [OF u]) (simp add: sender_hold_def sd Some)
    then show ?thesis
      using counted_end_send [OF u, of t r] False l by (cases go) (simp_all add: sender_step_def Some sd)
  qed
qed

lemma counted_send_payload: "counted b H s \<Longrightarrow> counted b H (SendPayload es p s)"
proof -
  assume c: "counted b H s"
  have "counted b H (snd (CreateOutgoingPayload p es s))"
    using c by (auto simp: CreateOutgoingPayload_def new_pending_payload_def pp_id_def
        intro!: counted_start split: option.split)
  then show ?thesis
    using c by (auto simp: SendPayload_def split: prod.split intro: counted_on_sender simp: sender_hold_def)
qed

lemma counted_shutdown: "counted b H s \<Longrightarrow> counted b H (begin_shutdown s)"
proof -
  assume c: "counted b H s"
  let ?s = "DisconnectFromEndpointManager s"
  have s: "counted b H ?s"
    using c by (rule counted_same)
      (simp_all add: DisconnectFromEndpointManager_def calm_def held_def tasks_hold_def fun_eq_iff)
  have f: "counted b H (fold cancel_and_close as t) \<and> pm_tracked (fold cancel_and_close as t) = pm_tracked t"
    if "counted b H t" "set as \<subseteq> snd ` set (pm_tracked t)" for as t
    using that
  proof (induction as arbitrary: t)
    case (Cons a as)
    then obtain i where "map_of (pm_tracked t) i = Some a"
      by (auto simp: counted_def table_inv_def)
    then obtain p where p: "pm_objects t a = Some p"
      using tracked_object Cons.prems(1) by (metis counted_def)
    have "keeps_counts b {} t (cancel_and_close a t)"
      unfolding cancel_and_close_def
      by (intro keeps_counts_trans [OF keeps_counts_write keeps_counts_close]) (simp_all add: write_object_def p)
    then have "counted b H (cancel_and_close a t)"
      using Cons.prems(1) by (simp add: keeps_counts_def)
    moreover have "pm_tracked (cancel_and_close a t) = pm_tracked t"
      by (simp add: cancel_and_close_def write_object_def)
    ultimately show ?case
      using Cons.IH [of "cancel_and_close a t"] Cons.prems(2) by simp
  qed simp
  let ?u = "fold cancel_and_close (map snd (pm_tracked ?s)) ?s"
  have u: "counted b H ?u"
    using f [OF s] by simp
  have "counted b H (?u\<lparr>pm_barrier := n\<rparr>)" for n
    using u by (rule counted_same) (simp_all add: calm_def held_def tasks_hold_def fun_eq_iff)
  then show ?thesis
    using u by (simp add: begin_shutdown_def CancelAllPayloads_def Let_def)
qed

lemma counted_do: "counted b H s \<Longrightarrow> counted b H (pm_do st s)"
proof (cases st)
  case (OtherThread ev)
  assume "counted b H s"
  then show ?thesis
    using keeps_countsD [OF counts.rel_event [of ev]] by (simp add: OtherThread)
qed (simp_all add: counted_sender_step counted_send_payload counted_shutdown)

lemma counted_run: "counted b H s \<Longrightarrow> counted b H (pm_run sts s)"
  unfolding pm_run_def by (induction sts arbitrary: s) (simp_all add: counted_do)

lemma counted_new: "counted b (\<lambda>_. 0) (PayloadManager_new fl pf cl ch)" if "b \<longrightarrow> \<not> flag_payload_received_ack fl"
  using that by (simp add: counted_def table_inv_def entry_ok_def PayloadManager_new_def held_def tasks_hold_def
      senders_hold_def sender_hold_def no_sender_def calm_def)

end
