(* ===== verification/Payload_Outcome.thy ===== *)
theory Payload_Outcome
  imports Payload_Refs
begin

text \<open>
  What the client is told of an outgoing payload: the updates one endpoint gets for it, and
  the invariant that at most one of them is final and comes last.
\<close>

section \<open>Events that are no payload callbacks\<close>

definition silent :: "client_proxy \<Rightarrow> client_proxy \<Rightarrow> bool" where
  "silent s t \<longleftrightarrow> (\<exists>evs. client_trace t = client_trace s @ evs \<and> (\<forall>ev \<in> set evs. payload_of ev = None))"

lemma silent_same: "client_trace t = client_trace s \<Longrightarrow> silent s t"
  by (simp add: silent_def)

lemma silent_trans: "silent s t \<Longrightarrow> silent t u \<Longrightarrow> silent s u"
  by (auto simp: silent_def)

lemma silent_notify: "client_trace t = client_trace s @ [ev] \<Longrightarrow> payload_of ev = None \<Longrightarrow> silent s t"
  by (simp add: silent_def)

lemma silent_quiet: "quiet_step s t \<Longrightarrow> silent s t"
  by (simp add: quiet_step_def silent_same)

lemma silent_Disconnected: "silent s (OnDisconnected k b s)"
proof -
  let ?s1 = "case LookupConnection k s of
      None \<Rightarrow> s
    | Some c \<Rightarrow>
        let n = (if b then notify (CbDisconnected (listener_target s (conn_listener c)) k) s else s)
        in OnSessionComplete
             (n\<lparr>connections := filter (\<lambda>(e, _). e \<noteq> k) (connections n)\<rparr>)"
  have "silent s ?s1"
    by (cases b) (auto simp: Let_def OnSessionComplete_def silent_def split: option.split)
  then have s2: "silent s (CancelEndpoint k ?s1)"
    by (rule silent_trans [OF _ silent_quiet [OF quiet_flags(2)]])
  show ?thesis
    unfolding OnDisconnected_def Let_def [of ?s1] Let_def [of "CancelEndpoint k ?s1"]
    using s2 silent_trans [OF s2 silent_quiet [OF quiet_Schedule]] by simp
qed

lemma silent_Rejected: "silent s (OnConnectionRejected k st s)"
proof -
  have "silent s (OnDisconnected k False (notify (CbRejected t k st) s))" for t
    by (rule silent_trans [OF silent_notify [of _ _ "CbRejected t k st"] silent_Disconnected]) simp_all
  then show ?thesis
    by (simp add: OnConnectionRejected_def silent_same split: option.splits)
qed

lemma silent_StoppedDiscovery: "silent s (StoppedDiscovery s)"
  by (rule silent_same) (simp add: StoppedDiscovery_def OnSessionComplete_def Let_def)

lemma silent_Reset: "silent s (ClientProxy_Reset s)"
proof -
  let ?t = "RemoveAllEndpoints (StoppedDiscovery (StoppedAdvertising s))"
  have "silent s (StoppedDiscovery (StoppedAdvertising s))"
    by (rule silent_trans [OF silent_quiet [OF quiet_StoppedAdvertising] silent_StoppedDiscovery])
  then have t: "silent s ?t"
    by (rule silent_trans) (rule silent_same, simp add: RemoveAllEndpoints_def OnSessionComplete_def)
  show ?thesis
    unfolding ClientProxy_Reset_def Let_def
    using silent_trans [OF t silent_quiet [OF quiet_Exit(1)]] silent_trans [OF t silent_quiet [OF quiet_Exit(2)]]
    by simp
qed

lemma silent_other: "other_client_op op1 \<Longrightarrow> silent s (proxy_step op1 s)"
proof -
  have q: "client_trace (CancelEndpoint k s) = client_trace s"
    "client_trace (ScheduleClearCachedEndpointIdAlarm s) = client_trace s"
    "client_trace (AddCancellationFlag k s) = client_trace s" for k s
    using quiet_flags quiet_Schedule [of s] by (simp_all add: quiet_step_def)
  show "other_client_op op1 \<Longrightarrow> silent s (proxy_step op1 s)"
    using silent_Disconnected silent_Rejected silent_Reset silent_StoppedDiscovery
      silent_quiet [OF quiet_StartedAdvertising] silent_quiet [OF quiet_StoppedAdvertising]
      silent_quiet [OF quiet_Exit(1)] silent_quiet [OF quiet_Exit(2)] silent_quiet [OF quiet_flags(3)]
      silent_quiet [OF quiet_endpoint_id]
    by (cases op1) (simp_all, auto simp: silent_def StartedListeningForIncomingConnections_def StoppedListeningForIncomingConnections_def
      StartedDiscovery_def OnEndpointFound_def OnEndpointLost_def OnConnectionInitiated_def
      OnConnectionAccepted_def OnBandwidthChanged_def LocalEndpointAcceptedConnection_def
      LocalEndpointRejectedConnection_def RemoteEndpointAcceptedConnection_def
      RemoteEndpointRejectedConnection_def AppendConnectionStatus_def EnterHighVisibilityMode_def
      EnterStableEndpointIdMode_def cached_id_alarm_fires_def ClearCachedLocalEndpointId_def
      SetBluetoothMacAddress_def SetRemoteOsInfo_def SetRemoteSafeToDisconnectVersion_def
      SetRemoteMultiplexSocketBitmask_def OnSessionComplete_def Let_def q split: option.splits)
qed

section \<open>Updates\<close>

fun progress_of :: "string \<Rightarrow> int \<Rightarrow> client_event \<Rightarrow> ProgressStatus list" where
  "progress_of e i (CbPayloadProgress _ k info) =
     (if k = e \<and> progress_payload_id info = i then [progress_status info] else [])"
| "progress_of e i _ = []"

definition updates :: "string \<Rightarrow> int \<Rightarrow> client_proxy \<Rightarrow> ProgressStatus list" where
  "updates e i c = concat (map (progress_of e i) (client_trace c))"

text \<open>All but the last update say that the transfer goes on.\<close>

definition one_outcome :: "ProgressStatus list \<Rightarrow> bool" where
  "one_outcome us \<longleftrightarrow> (\<forall>st \<in> set (butlast us). \<not> terminal_status st)"

definition reported :: "ProgressStatus list \<Rightarrow> bool" where
  "reported us \<longleftrightarrow> (\<exists>st \<in> set us. terminal_status st)"

lemma one_outcome_snoc: "one_outcome us \<Longrightarrow> \<not> reported us \<Longrightarrow> one_outcome (us @ [st])"
  by (auto simp: one_outcome_def reported_def)

lemma progress_of_other: "payload_of ev = None \<Longrightarrow> progress_of e i ev = []"
  by (cases ev) simp_all

lemma updates_silent: "silent s t \<Longrightarrow> updates e i t = updates e i s"
  by (auto simp: silent_def updates_def progress_of_other)

lemma updates_progress:
  "updates e i (OnPayloadProgress k info c) = updates e i c \<or>
   (updates e i (OnPayloadProgress k info c) = updates e i c @ [progress_status info] \<and> k = e \<and>
      progress_payload_id info = i)"
  by (simp add: OnPayloadProgress_def updates_def split: option.split)

lemma updates_payload: "updates e i (OnPayload k p c) = updates e i c"
  by (simp add: OnPayload_def updates_def split: option.split)

section \<open>The invariant\<close>

text \<open>
  \<open>fresh\<close> is that the payload has not been sent yet.
  The tasks that can be in the queue: none that reports an incoming payload of this id, and no
  endpoint twice in a report.
\<close>

fun tame :: "int \<Rightarrow> status_task \<Rightarrow> bool" where
  "tame i (FinishedIncoming e h n st) \<longleftrightarrow> header_id h \<noteq> i"
| "tame i (IncomingChunkReceived e h fl n sz) \<longleftrightarrow> header_id h \<noteq> i"
| "tame i (FinishedOutgoing es h n st) \<longleftrightarrow> distinct es"
| "tame i _ \<longleftrightarrow> True"

definition object_ok :: "string \<Rightarrow> bool \<Rightarrow> pending_payload \<Rightarrow> bool" where
  "object_ok e told p \<longleftrightarrow> \<not> pp_is_incoming p \<and> (told \<longrightarrow> GetEndpoint e p = None)"

definition outcome_inv :: "bool \<Rightarrow> string \<Rightarrow> int \<Rightarrow> payload_manager \<Rightarrow> bool" where
  "outcome_inv fresh e i s \<longleftrightarrow>
     distinct (map fst (pm_tracked s)) \<and>
     (\<forall>(j, a) \<in> set (pm_tracked s). a < pm_next s) \<and>
     (\<forall>j a p. (j, a) \<in> set (pm_tracked s) \<longrightarrow> pm_objects s a = Some p \<longrightarrow> pp_id p = j \<and>
        (j = i \<longrightarrow> object_ok e (reported (updates e i (pm_client s))) p)) \<and>
     one_outcome (updates e i (pm_client s)) \<and> list_all (tame i) (pm_status_tasks s) \<and>
     (fresh \<longrightarrow> updates e i (pm_client s) = [] \<and> i \<notin> fst ` set (pm_tracked s))"

definition keeps_outcome :: "bool \<Rightarrow> string \<Rightarrow> int \<Rightarrow> payload_manager \<Rightarrow> payload_manager \<Rightarrow> bool" where
  "keeps_outcome fresh e i s t \<longleftrightarrow> (outcome_inv fresh e i s \<longrightarrow> outcome_inv fresh e i t)"

lemma keeps_outcome_trans:
  "keeps_outcome fresh e i s t \<Longrightarrow> keeps_outcome fresh e i t u \<Longrightarrow> keeps_outcome fresh e i s u"
  by (simp add: keeps_outcome_def)

lemma keeps_outcome_refl [simp]: "keeps_outcome fresh e i s s"
  by (simp add: keeps_outcome_def)

text \<open>A change that brings no update, tracks nothing new and adds no endpoint to a payload.\<close>

definition smaller :: "(nat \<Rightarrow> pending_payload option) \<Rightarrow> (nat \<Rightarrow> pending_payload option) \<Rightarrow> bool" where
  "smaller os os' \<longleftrightarrow> (\<forall>a p'. os' a = Some p' \<longrightarrow> (\<exists>p. os a = Some p \<and> pp_id p' = pp_id p \<and>
     pp_is_incoming p' = pp_is_incoming p \<and> (\<forall>e. GetEndpoint e p = None \<longrightarrow> GetEndpoint e p' = None)))"

lemma smaller_refl [simp]: "smaller os os"
  by (simp add: smaller_def)

lemma smaller_trans: "smaller a b \<Longrightarrow> smaller b c \<Longrightarrow> smaller a c"
  unfolding smaller_def by metis

lemma smaller_upd:
  assumes "\<And>p. os a = Some p \<Longrightarrow> pp_id (f p) = pp_id p \<and> pp_is_incoming (f p) = pp_is_incoming p \<and>
    (\<forall>e. GetEndpoint e p = None \<longrightarrow> GetEndpoint e (f p) = None)"
  shows "smaller os (os(a := map_option f (os a)))"
  using assms by (auto simp: smaller_def)

lemma keeps_outcome_quiet:
  assumes "updates e i (pm_client t) = updates e i (pm_client s)" and "pm_next s \<le> pm_next t"
    and "set (pm_tracked t) \<subseteq> set (pm_tracked s)"
    and "distinct (map fst (pm_tracked s)) \<Longrightarrow> distinct (map fst (pm_tracked t))"
    and "smaller (pm_objects s) (pm_objects t)"
    and "list_all (tame i) (pm_status_tasks s) \<Longrightarrow> list_all (tame i) (pm_status_tasks t)"
  shows "keeps_outcome fresh e i s t"
  unfolding keeps_outcome_def
proof
  assume inv: "outcome_inv fresh e i s"
  have "pp_id p = j \<and> (j = i \<longrightarrow> object_ok e (reported (updates e i (pm_client s))) p)"
    if m: "(j, a) \<in> set (pm_tracked t)" and p: "pm_objects t a = Some p" for j a p
  proof -
    obtain q where q: "pm_objects s a = Some q" "pp_id p = pp_id q"
      "pp_is_incoming p = pp_is_incoming q" "\<forall>e. GetEndpoint e q = None \<longrightarrow> GetEndpoint e p = None"
      using assms(5) p unfolding smaller_def by metis
    then show ?thesis
      using inv m assms(3) by (auto simp: outcome_inv_def object_ok_def)
  qed
  moreover have "\<forall>(j, a) \<in> set (pm_tracked t). a < pm_next t"
    using inv assms(2,3) by (force simp: outcome_inv_def)
  moreover have "i \<notin> fst ` set (pm_tracked t)" if fresh
    using inv assms(3) that by (auto simp: outcome_inv_def)
  ultimately show "outcome_inv fresh e i t"
    using inv assms(1,4,6) by (simp add: outcome_inv_def)
qed

lemma keeps_outcome_write: "mild f \<Longrightarrow> keeps_outcome fresh e i s (write_object a f s)"
  by (rule keeps_outcome_quiet) (auto simp: write_object_def mild_def intro: smaller_upd)

lemma keeps_outcome_add_ref: "keeps_outcome fresh e i s (add_ref n a s)"
  by (rule keeps_outcome_quiet)
    (auto simp: add_ref_def write_object_def pp_id_def GetEndpoint_def intro: smaller_upd)

lemma keeps_outcome_close: "keeps_outcome fresh e i s (PendingPayload_Close a s)"
proof (rule keeps_outcome_quiet)
  show "smaller (pm_objects s) (pm_objects (PendingPayload_Close a s))"
    by (auto simp: smaller_def close_objects pp_id_def GetEndpoint_def split: if_splits)
qed simp_all

lemma keeps_outcome_destroy: "keeps_outcome fresh e i s (destroy_object a s)"
proof (rule keeps_outcome_quiet)
  show "list_all (tame i) (pm_status_tasks (destroy_object a s))" if "list_all (tame i) (pm_status_tasks s)"
    using that by (cases "pm_objects s a") (simp_all add: destroy_tasks, simp add: destroy_object_def
        with_object_def pm_crash_def)
qed (auto simp: destroy_objects smaller_def)

lemma keeps_outcome_bin: "keeps_outcome fresh e i s (s\<lparr>pm_bin := b\<rparr>)"
  by (rule keeps_outcome_quiet) simp_all

lemma keeps_outcome_crash: "keeps_outcome fresh e i s (pm_crash s)"
  by (rule keeps_outcome_quiet) (simp_all add: pm_crash_def)

lemma keeps_outcome_object:
  "(\<And>p. pm_objects s a = Some p \<Longrightarrow> keeps_outcome fresh e i s (g p s)) \<Longrightarrow> keeps_outcome fresh e i s (with_object a g s)"
  by (simp add: with_object_def keeps_outcome_crash split: option.split)

lemma keeps_outcome_remove: "keeps_outcome fresh e i s (PendingPayloads_Remove j s)"
proof -
  have t: "keeps_outcome fresh e i s ((add_ref n a s)\<lparr>pm_tracked := filter (\<lambda>(k, _). k \<noteq> j) (pm_tracked s)\<rparr>)" for n a
    by (rule keeps_outcome_quiet)
      (auto simp: distinct_map_filter add_ref_objects pp_id_def GetEndpoint_def intro: smaller_upd)
  have "keeps_outcome fresh e i s (with_object a (\<lambda>p s. if pp_refcount p = 0 then destroy_object a s
      else s\<lparr>pm_bin := pm_bin s @ [a]\<rparr>) s)" for a s
    by (rule keeps_outcome_object) (simp add: keeps_outcome_destroy keeps_outcome_bin)
  from keeps_outcome_trans [OF t this] show ?thesis
    by (simp add: PendingPayloads_Remove_def split: option.split)
qed

lemma keeps_outcome_release: "keeps_outcome fresh e i s (PendingPayloads_Release a s)"
proof -
  have "keeps_outcome fresh e i s ((add_ref n a s)\<lparr>pm_bin := b\<rparr>)" for n b
    by (rule keeps_outcome_trans [OF keeps_outcome_add_ref keeps_outcome_bin])
  then show ?thesis
    unfolding PendingPayloads_Release_def
    by (intro keeps_outcome_object)
      (auto simp: Let_def keeps_outcome_add_ref intro!: keeps_outcome_trans [OF _ keeps_outcome_destroy])
qed

lemma keeps_outcome_payload:
  assumes "\<And>a t. map_of (pm_tracked t) j = Some a \<Longrightarrow> pm_flags t = pm_flags s \<Longrightarrow> keeps_outcome fresh e i t (k a t)"
  shows "keeps_outcome fresh e i s (with_payload j k s)"
proof (rule with_payload_cases)
  fix a t
  assume g: "GetPayload j s = (Some a, t)"
  note G = GetPayload_SomeE [OF g]
  have "keeps_outcome fresh e i s t"
    unfolding G(2) by (rule keeps_outcome_add_ref)
  then show "keeps_outcome fresh e i s (PendingPayloads_Release a (k a t))"
    by (rule keeps_outcome_trans [OF keeps_outcome_trans [OF _ assms [OF G(3,4)]] keeps_outcome_release])
qed simp

lemma keeps_outcome_post: "tame i tk \<Longrightarrow> keeps_outcome fresh e i s (RunOnStatusUpdateThread tk s)"
  by (rule keeps_outcome_quiet) (simp_all add: RunOnStatusUpdateThread_def)

lemma keeps_outcome_client: "updates e i (f (pm_client s)) = updates e i (pm_client s) \<Longrightarrow>
    keeps_outcome fresh e i s (on_payload_client f s)"
  by (rule keeps_outcome_quiet) (simp_all add: on_payload_client_def)

lemma Remove_frame:
  "pm_client (PendingPayloads_Remove j s) = pm_client s" "pm_next (PendingPayloads_Remove j s) = pm_next s"
  "pm_tracked (PendingPayloads_Remove j s) = filter (\<lambda>(k, _). k \<noteq> j) (pm_tracked s)"
proof -
  have "filter (\<lambda>(k, _). k \<noteq> j) (pm_tracked s) = pm_tracked s" if "map_of (pm_tracked s) j = None"
    using that by (force simp: filter_id_conv map_of_eq_None_iff)
  then show "pm_client (PendingPayloads_Remove j s) = pm_client s"
    "pm_next (PendingPayloads_Remove j s) = pm_next s"
    "pm_tracked (PendingPayloads_Remove j s) = filter (\<lambda>(k, _). k \<noteq> j) (pm_tracked s)"
    by (auto simp: PendingPayloads_Remove_def with_object_def pm_crash_def split: option.split)
qed

lemma outcome_start:
  assumes inv: "outcome_inv fresh e i s" and p: "pp_id p = j"
    and ok: "j = i \<Longrightarrow> \<not> fresh \<and> object_ok e (reported (updates e i (pm_client s))) p"
  shows "outcome_inv fresh e i (StartTrackingPayload j p s)"
proof -
  let ?s1 = "PendingPayloads_Remove j s" and ?told = "reported (updates e i (pm_client s))"
  have i1: "outcome_inv fresh e i ?s1"
    using inv keeps_outcome_remove [of fresh e i s j] by (simp add: keeps_outcome_def)
  then have d: "distinct (map fst (pm_tracked ?s1))" "one_outcome (updates e i (pm_client ?s1))"
    "list_all (tame i) (pm_status_tasks ?s1)" and lt: "\<And>k a. (k, a) \<in> set (pm_tracked ?s1) \<Longrightarrow> a < pm_next ?s1"
    and ob: "\<And>k a q. (k, a) \<in> set (pm_tracked ?s1) \<Longrightarrow> pm_objects ?s1 a = Some q \<Longrightarrow> pp_id q = k \<and>
        (k = i \<longrightarrow> object_ok e (reported (updates e i (pm_client ?s1))) q)"
    by (auto simp: outcome_inv_def)
  let ?t = "StartTrackingPayload j p s" and ?q = "p\<lparr>pp_refcount := pp_refcount p + 1\<rparr>"
  have t: "pm_tracked ?t = pm_tracked ?s1 @ [(j, pm_next ?s1)]" "pm_next ?t = Suc (pm_next ?s1)"
    "pm_client ?t = pm_client ?s1" "pm_status_tasks ?t = pm_status_tasks ?s1"
    "pm_objects ?t = (pm_objects ?s1)(pm_next ?s1 \<mapsto> ?q)"
    by (simp_all add: StartTrackingPayload_def Let_def)
  have q: "pp_id ?q = j \<and> (j = i \<longrightarrow> object_ok e ?told ?q)"
    using p ok by (simp add: object_ok_def pp_id_def GetEndpoint_def)
  have new: "distinct (map fst (pm_tracked ?t))"
    using d(1) by (auto simp: t Remove_frame)
  moreover have "pp_id r = k \<and> (k = i \<longrightarrow> object_ok e ?told r)"
    if m: "(k, a) \<in> set (pm_tracked ?t)" and r: "pm_objects ?t a = Some r" for k a r
  proof (cases "(k, a) \<in> set (pm_tracked ?s1)")
    case True
    then have "pm_objects ?s1 a = Some r"
      using r lt [OF True] by (auto simp: t(5))
    then show ?thesis
      using ob [OF True] by (simp add: Remove_frame)
  next
    case False
    then have "k = j" "a = pm_next ?s1"
      using m by (auto simp: t(1))
    then show ?thesis
      using r q by (simp add: t(5))
  qed
  moreover have "\<forall>(k, a) \<in> set (pm_tracked ?t). a < pm_next ?t"
    using lt by (auto simp: t(1,2) less_Suc_eq)
  moreover have "updates e i (pm_client s) = [] \<and> i \<notin> fst ` set (pm_tracked ?t)" if fresh
    using inv ok that by (auto simp: outcome_inv_def t(1) Remove_frame)
  ultimately show ?thesis
    using d(2,3) by (auto simp: outcome_inv_def t(3,4) Remove_frame)
qed

section \<open>The tasks\<close>

text \<open>A change that brings one update at most, after which the endpoint is off the payload.\<close>

lemma outcome_update:
  assumes inv: "outcome_inv fresh e i s" and same: "pm_tracked t = pm_tracked s" "pm_next t = pm_next s"
    "pm_status_tasks t = pm_status_tasks s" and sm: "smaller (pm_objects s) (pm_objects t)"
    and upd: "updates e i (pm_client t) = updates e i (pm_client s) \<or>
      updates e i (pm_client t) = updates e i (pm_client s) @ [st] \<and> i \<in> fst ` set (pm_tracked s) \<and>
      \<not> reported (updates e i (pm_client s)) \<and>
      (terminal_status st \<longrightarrow> (\<forall>a p. (i, a) \<in> set (pm_tracked s) \<longrightarrow> pm_objects t a = Some p \<longrightarrow>
         GetEndpoint e p = None))"
  shows "outcome_inv fresh e i t"
proof -
  let ?u = "updates e i (pm_client s)" and ?v = "updates e i (pm_client t)"
  have "pp_id p = j \<and> (j = i \<longrightarrow> object_ok e (reported ?v) p)"
    if m: "(j, a) \<in> set (pm_tracked t)" and p: "pm_objects t a = Some p" for j a p
  proof -
    obtain q where q: "pm_objects s a = Some q" "pp_id p = pp_id q"
      "pp_is_incoming p = pp_is_incoming q" "\<forall>e. GetEndpoint e q = None \<longrightarrow> GetEndpoint e p = None"
      using sm p unfolding smaller_def by metis
    then have "pp_id p = j" "j = i \<longrightarrow> object_ok e (reported ?u) p"
      using inv m same by (auto simp: outcome_inv_def object_ok_def)
    moreover have "reported ?v \<longrightarrow> reported ?u \<or> terminal_status st \<and> ?v = ?u @ [st]"
      using upd by (auto simp: reported_def)
    ultimately show ?thesis
      using upd m p same by (auto simp: object_ok_def)
  qed
  moreover have "one_outcome ?v"
    using upd inv by (auto simp: outcome_inv_def intro: one_outcome_snoc)
  moreover have "?v = []" if fresh
    using inv upd that by (auto simp: outcome_inv_def)
  ultimately show ?thesis
    using inv same by (simp add: outcome_inv_def)
qed

lemma fold_notify:
  assumes "pm_objects s a = Some p" and "distinct es"
  shows "\<exists>c. fold (notify_finished a info) es s = s\<lparr>pm_client := c\<rparr> \<and>
    (updates e i c = updates e i (pm_client s) \<or>
     updates e i c = updates e i (pm_client s) @ [progress_status info] \<and> e \<in> set es \<and>
     GetEndpoint e p \<noteq> None \<and> progress_payload_id info = i)"
  using assms
proof (induction es arbitrary: s)
  case Nil
  have "s = s\<lparr>pm_client := pm_client s\<rparr>"
    by simp
  then show ?case
    by (metis fold_simps(1))
next
  case (Cons k es)
  let ?c = "if GetEndpoint k p = None then pm_client s else OnPayloadProgress k info (pm_client s)"
  have n: "notify_finished a info k s = s\<lparr>pm_client := ?c\<rparr>"
    using Cons.prems(1) by (simp add: notify_finished_def with_object_def on_payload_client_def)
  from Cons.IH [of "s\<lparr>pm_client := ?c\<rparr>"] Cons.prems obtain c where
    c: "fold (notify_finished a info) es (s\<lparr>pm_client := ?c\<rparr>) = s\<lparr>pm_client := c\<rparr>"
    "updates e i c = updates e i ?c \<or> updates e i c = updates e i ?c @ [progress_status info] \<and>
      e \<in> set es \<and> GetEndpoint e p \<noteq> None \<and> progress_payload_id info = i"
    by auto
  have "updates e i ?c = updates e i (pm_client s) \<or>
      updates e i ?c = updates e i (pm_client s) @ [progress_status info] \<and> k = e \<and>
      GetEndpoint e p \<noteq> None \<and> progress_payload_id info = i"
    using updates_progress [of e i k info "pm_client s"] by auto
  with c Cons.prems(2) show ?case
    by (intro exI [of _ c]) (auto simp: n)
qed

lemma tracked_outcome:
  assumes "outcome_inv fresh e i s" and "map_of (pm_tracked s) j = Some a" and "pm_objects s a = Some p"
  shows "pp_id p = j" and "j = i \<Longrightarrow> object_ok e (reported (updates e i (pm_client s))) p"
    and "(j, b) \<in> set (pm_tracked s) \<longleftrightarrow> b = a" and "j \<in> fst ` set (pm_tracked s)"
proof -
  have m: "(j, a) \<in> set (pm_tracked s)"
    using assms(2) by (rule map_of_SomeD)
  then show "j \<in> fst ` set (pm_tracked s)"
    by force
  from m show "pp_id p = j" "j = i \<Longrightarrow> object_ok e (reported (updates e i (pm_client s))) p"
    using assms(1,3) by (auto simp: outcome_inv_def)
  show "(j, b) \<in> set (pm_tracked s) \<longleftrightarrow> b = a"
    using assms(1,2) m by (metis eq_key_imp_eq_value outcome_inv_def)
qed

lemma keeps_deserted: "keeps_outcome fresh e i s (close_if_deserted a s)"
  unfolding close_if_deserted_def by (rule keeps_outcome_object) (simp add: keeps_outcome_close)

lemma keeps_FinishedOutgoing:
  assumes "distinct es"
  shows "keeps_outcome fresh e i s (run_FinishedOutgoing es h n st s)"
  unfolding run_FinishedOutgoing_def
proof (rule keeps_outcome_payload)
  fix a and t :: payload_manager
  assume m: "map_of (pm_tracked t) (header_id h) = Some a"
  let ?info = "\<lparr>progress_payload_id = header_id h, progress_status = PayloadStatusToTransferUpdateStatus st,
      progress_total_bytes = header_total_size h, progress_bytes_transferred = n\<rparr>"
  have "keeps_outcome fresh e i t (write_object a (RemoveEndpoints es) (fold (notify_finished a ?info) es t))"
    unfolding keeps_outcome_def
  proof
    assume inv: "outcome_inv fresh e i t"
    show "outcome_inv fresh e i (write_object a (RemoveEndpoints es) (fold (notify_finished a ?info) es t))"
    proof (cases "pm_objects t a")
      case None
      have crash: "keeps_outcome fresh e i v (fold (notify_finished a ?info) es v) \<and>
          pm_objects (fold (notify_finished a ?info) es v) a = None" if "pm_objects v a = None" for v
        using that
      proof (induction es arbitrary: v)
        case (Cons k es)
        have "notify_finished a ?info k v = pm_crash v"
          by (simp add: notify_finished_def with_object_def Cons.prems)
        with Cons.IH [of "pm_crash v"] Cons.prems show ?case
          by (auto simp: pm_crash_def intro: keeps_outcome_trans [OF keeps_outcome_crash [unfolded pm_crash_def]])
      qed simp
      then show ?thesis
        using inv None keeps_outcome_write [OF mild_Remove] by (metis keeps_outcome_def)
    next
      case (Some p)
      from fold_notify [OF Some assms, of ?info e i] obtain c where
        c: "fold (notify_finished a ?info) es t = t\<lparr>pm_client := c\<rparr>"
        "updates e i c = updates e i (pm_client t) \<or> updates e i c = updates e i (pm_client t) @
           [PayloadStatusToTransferUpdateStatus st] \<and> e \<in> set es \<and> GetEndpoint e p \<noteq> None \<and> header_id h = i"
        by auto
      note tr = tracked_outcome [OF inv m Some]
      show ?thesis
        unfolding c(1)
      proof (rule outcome_update [OF inv, where st = "PayloadStatusToTransferUpdateStatus st"])
        show "smaller (pm_objects t) (pm_objects (write_object a (RemoveEndpoints es) (t\<lparr>pm_client := c\<rparr>)))"
          using mild_Remove by (auto simp: write_object_def mild_def intro: smaller_upd)
      qed (use c(2) tr Some in \<open>auto simp: write_object_def object_ok_def GetEndpoint_Remove\<close>)
    qed
  qed
  then show "keeps_outcome fresh e i t (let info = ?info in close_if_deserted a
      (write_object a (RemoveEndpoints es) (fold (notify_finished a info) es t)))"
    unfolding Let_def by (rule keeps_outcome_trans [OF _ keeps_deserted])
qed

lemma updates_other:
  "progress_payload_id info \<noteq> i \<Longrightarrow> updates e i (OnPayloadProgress k info c) = updates e i c"
  using updates_progress [of e i k info c] by auto

lemma deserted_frame:
  "pm_client (close_if_deserted a s) = pm_client s" "pm_tracked (close_if_deserted a s) = pm_tracked s"
  "pm_next (close_if_deserted a s) = pm_next s" "pm_status_tasks (close_if_deserted a s) = pm_status_tasks s"
  "smaller (pm_objects s) (pm_objects (close_if_deserted a s))"
proof -
  have "smaller (pm_objects s) (pm_objects (PendingPayload_Close a s))"
    by (auto simp: smaller_def close_objects pp_id_def GetEndpoint_def split: if_splits)
  then show "smaller (pm_objects s) (pm_objects (close_if_deserted a s))"
    by (simp add: close_if_deserted_def with_object_def pm_crash_def split: option.split)
qed (simp_all add: close_if_deserted_def with_object_def pm_crash_def split: option.split)

lemma smaller_write: "mild f \<Longrightarrow> smaller (pm_objects s) (pm_objects (write_object a f s))"
  by (auto simp: write_object_def mild_def intro: smaller_upd)

lemma keeps_ChunkSent: "keeps_outcome fresh e i s (run_OutgoingChunkSent now k h fl n sz s)"
proof -
  let ?i = "chunk_progress h fl n sz"
  have w: "keeps_outcome fresh e i u (with_payload (header_id h) (\<lambda>a. with_object a (\<lambda>p s.
      if GetEndpoint k p = None then s
      else let s2 = on_payload_client (OnPayloadProgress k ?i) s
           in if last_flag fl then close_if_deserted a (write_object a (RemoveEndpoints [k]) s2) else s2)) u)"
    for u :: payload_manager
  proof (rule keeps_outcome_payload, rule keeps_outcome_object)
    fix a and t :: payload_manager and p :: pending_payload
    assume m: "map_of (pm_tracked t) (header_id h) = Some a" and p: "pm_objects t a = Some p"
    let ?s2 = "on_payload_client (OnPayloadProgress k ?i) t"
    have c: "updates e i (pm_client ?s2) = updates e i (pm_client t) \<or>
        updates e i (pm_client ?s2) = updates e i (pm_client t) @ [progress_status ?i] \<and> k = e \<and> header_id h = i"
      using updates_progress [of e i k ?i "pm_client t"] by (auto simp: on_payload_client_def chunk_progress_def)
    have "keeps_outcome fresh e i t ?s2" if "\<not> last_flag fl" "GetEndpoint k p \<noteq> None"
      unfolding keeps_outcome_def
    proof
      assume inv: "outcome_inv fresh e i t"
      show "outcome_inv fresh e i ?s2"
        by (rule outcome_update [OF inv, where st = ProgressInProgress])
          (use c that tracked_outcome [OF inv m p] in \<open>auto simp: on_payload_client_def object_ok_def
            chunk_progress_def terminal_status_def\<close>)
    qed
    moreover have "keeps_outcome fresh e i t (close_if_deserted a (write_object a (RemoveEndpoints [k]) ?s2))"
      if g: "GetEndpoint k p \<noteq> None"
    proof (rule keeps_outcome_trans [OF _ keeps_deserted], unfold keeps_outcome_def, rule)
      assume inv: "outcome_inv fresh e i t"
      note tr = tracked_outcome [OF inv m p]
      show "outcome_inv fresh e i (write_object a (RemoveEndpoints [k]) ?s2)"
        by (rule outcome_update [OF inv, where st = "progress_status ?i"])
          (use c g tr p smaller_write [OF mild_Remove, of ?s2 a "[k]"] in
            \<open>auto simp: on_payload_client_def object_ok_def write_object_def GetEndpoint_Remove\<close>)
    qed
    ultimately show "keeps_outcome fresh e i t (if GetEndpoint k p = None then t
      else let s2 = ?s2 in if last_flag fl then close_if_deserted a (write_object a (RemoveEndpoints [k]) s2) else s2)"
      by (simp add: Let_def)
  qed
  have "keeps_outcome fresh e i s (s\<lparr>pm_outgoing_updates := m\<rparr>)"
    "keeps_outcome fresh e i s (s\<lparr>pm_outgoing_updates := m, pm_last_outgoing_update := tm\<rparr>)" for m tm
    by (rule keeps_outcome_quiet; simp)+
  then show ?thesis
    using w keeps_outcome_trans [OF _ w] by (simp add: run_OutgoingChunkSent_def Let_def)
qed

lemma keeps_progress_other:
  "progress_payload_id info \<noteq> i \<Longrightarrow> keeps_outcome fresh e i s (on_payload_client (OnPayloadProgress k info) s)"
  by (rule keeps_outcome_client) (rule updates_other)

lemma keeps_FinishedIncoming:
  "header_id h \<noteq> i \<Longrightarrow> keeps_outcome fresh e i s (run_FinishedIncoming k h n st s)"
  unfolding run_FinishedIncoming_def Let_def DestroyPendingPayload_def StopTrackingPayload_def
  by (rule keeps_outcome_payload, rule keeps_outcome_trans [OF keeps_progress_other keeps_outcome_remove]) simp

lemma keeps_ChunkReceived:
  assumes "header_id h \<noteq> i"
  shows "keeps_outcome fresh e i s (run_IncomingChunkReceived now k h fl n sz s)"
proof -
  let ?c = "on_payload_client (OnPayloadProgress k (chunk_progress h fl n sz))"
  have c: "keeps_outcome fresh e i t (?c t)" for t
    using assms by (intro keeps_progress_other) (simp add: chunk_progress_def)
  have w: "keeps_outcome fresh e i u (with_payload (header_id h) (\<lambda>a s. let s2 = ?c s
      in if last_flag fl then DestroyPendingPayload (header_id h) s2 else s2) u)" for u
    using keeps_outcome_trans [OF c keeps_outcome_remove] c
    by (intro keeps_outcome_payload) (simp add: DestroyPendingPayload_def StopTrackingPayload_def Let_def)
  have "keeps_outcome fresh e i s (s\<lparr>pm_incoming_updates := m\<rparr>)"
    "keeps_outcome fresh e i s (s\<lparr>pm_incoming_updates := m, pm_last_incoming_update := tm\<rparr>)" for m tm
    by (rule keeps_outcome_quiet; simp)+
  then show ?thesis
    using w keeps_outcome_trans [OF _ w] by (simp add: run_IncomingChunkReceived_def Let_def)
qed

lemma keeps_NewPayload: "keeps_outcome fresh e i s (run_NewPayload k hd1 s)"
proof -
  have "keeps_outcome fresh e i s (PendingPayloads_Release a (with_object a (\<lambda>p s.
      on_payload_client (OnPayload k (fst (ReleasePayload (pp_internal p))))
        (write_object a (\<lambda>p. p\<lparr>pp_internal := snd (ReleasePayload (pp_internal p))\<rparr>) s)) s))" for a
    by (rule keeps_outcome_trans [OF keeps_outcome_object keeps_outcome_release])
      (rule keeps_outcome_trans [OF keeps_outcome_write [OF mild_release]], rule keeps_outcome_client,
        rule updates_payload)
  then show ?thesis
    by (simp add: run_NewPayload_def split: option.split)
qed

lemma outcome_endpoint_gone:
  assumes inv: "outcome_inv fresh e i s" and m: "(j, a) \<in> set (pm_tracked s)"
  shows "outcome_inv fresh e i (endpoint_gone k a s) \<and> pm_tracked (endpoint_gone k a s) = pm_tracked s"
proof (cases "pm_objects s a")
  case None
  then show ?thesis
    using inv keeps_outcome_crash [of fresh e i s] by (simp add: endpoint_gone_def with_object_def keeps_outcome_def pm_crash_def)
next
  case (Some p)
  have m': "map_of (pm_tracked s) j = Some a"
    using inv m by (simp add: outcome_inv_def)
  note tr = tracked_outcome [OF inv m' Some]
  let ?w = "write_object a (RemoveEndpoints [k]) s"
  let ?v = "close_if_deserted a ?w"
  have sm: "smaller (pm_objects s) (pm_objects ?v)"
    by (rule smaller_trans [OF smaller_write [OF mild_Remove] deserted_frame(5)])
  have off: "GetEndpoint k q = None" if "pm_objects ?v a = Some q" for q
  proof -
    have "pm_objects ?w a = Some (RemoveEndpoints [k] p)" "GetEndpoint k (RemoveEndpoints [k] p) = None"
      by (simp_all add: write_object_def Some GetEndpoint_Remove)
    with deserted_frame(5) [of ?w a] that show ?thesis
      by (force simp: smaller_def)
  qed
  have "outcome_inv fresh e i (on_payload_client (OnPayloadProgress k info) ?v)"
    if "progress_payload_id info = j" "GetEndpoint k p \<noteq> None" for info
    by (rule outcome_update [OF inv, where st = "progress_status info"])
      (use sm off tr that updates_progress [of e i k info "pm_client s"] in
        \<open>auto simp: on_payload_client_def deserted_frame write_object_def object_ok_def\<close>)
  then show ?thesis
    using inv tr(1) by (simp add: endpoint_gone_def with_object_def Some on_payload_client_def deserted_frame
        write_object_def split: option.split)
qed

lemma keeps_EndpointGone: "keeps_outcome fresh e i s (run_EndpointGone k s)"
proof -
  have "outcome_inv fresh e i (fold (endpoint_gone k) as t)"
    if "outcome_inv fresh e i t" "set as \<subseteq> snd ` set (pm_tracked t)" for as t
    using that
  proof (induction as arbitrary: t)
    case (Cons a as)
    then obtain j where "(j, a) \<in> set (pm_tracked t)"
      by auto
    from outcome_endpoint_gone [OF Cons.prems(1) this, of k] Cons show ?case
      by auto
  qed simp
  then show ?thesis
    by (simp add: keeps_outcome_def run_EndpointGone_def)
qed

lemma keeps_outcome_task:
  assumes "tame i tk"
  shows "keeps_outcome fresh e i s (run_status_task now tk s)"
proof (cases tk)
  case StopTracking
  have "keeps_outcome fresh e i t (fold PendingPayloads_Remove js t)" for js t
    by (induction js arbitrary: t) (auto intro: keeps_outcome_trans [OF keeps_outcome_remove])
  then show ?thesis
    by (simp add: StopTracking StopTrackingAllPayloads_def)
next
  case ShutdownNotification
  have "keeps_outcome fresh e i s (s\<lparr>pm_barrier := n\<rparr>)" for n
    by (rule keeps_outcome_quiet) simp_all
  then show ?thesis
    by (simp add: ShutdownNotification NotifyShutdown_def split: option.split)
qed (use assms in \<open>simp_all add: keeps_FinishedOutgoing keeps_FinishedIncoming keeps_ChunkSent
    keeps_ChunkReceived keeps_NewPayload keeps_EndpointGone DestroyPendingPayload_def StopTrackingPayload_def
    keeps_outcome_remove\<close>)

lemma keeps_outcome_status: "keeps_outcome fresh e i s (run_next_status_task now s)"
proof (cases "pm_status_tasks s")
  case (Cons tk ts)
  show ?thesis
    unfolding keeps_outcome_def
  proof
    assume inv: "outcome_inv fresh e i s"
    then have "tame i tk" "outcome_inv fresh e i (s\<lparr>pm_status_tasks := ts\<rparr>)"
      by (simp_all add: outcome_inv_def Cons)
    with keeps_outcome_task show "outcome_inv fresh e i (run_next_status_task now s)"
      by (simp add: run_next_status_task_def Cons keeps_outcome_def)
  qed
qed (simp add: run_next_status_task_def)

section \<open>All operations\<close>

lemma keeps_outcome_announce: "keeps_outcome fresh e i s (announce_payload k j s)"
proof -
  have "keeps_outcome fresh e i s (RunOnStatusUpdateThread (NewPayload k hd1) (add_ref 1 a s))" for hd1 a
    by (rule keeps_outcome_trans [OF keeps_outcome_add_ref keeps_outcome_post]) simp
  moreover have "keeps_outcome fresh e i s (RunOnStatusUpdateThread (NewPayload k hd1) s)" for hd1
    by (rule keeps_outcome_post) simp
  ultimately show ?thesis
    by (simp add: announce_payload_def GetPayload_def split: option.split)
qed

lemma keeps_outcome_ack_task: "keeps_outcome fresh e i s (run_ack_task w s)"
proof -
  have send: "keeps_outcome fresh e i t (snd (SendTransferFrameBytes w fr es t))" for fr es t
  proof (induction w fr es t rule: SendTransferFrameBytes.induct)
    case (2 w fr k es t)
    have "keeps_outcome fresh e i t (t\<lparr>pm_sent := x\<rparr>)" for x
      by (rule keeps_outcome_quiet) simp_all
    with 2 show ?case
      by (auto simp: case_prod_beta intro: keeps_outcome_trans)
  qed simp
  have "keeps_outcome fresh e i s (s\<lparr>pm_ack_tasks := x\<rparr>)" for x
    by (rule keeps_outcome_quiet) simp_all
  moreover have "keeps_outcome fresh e i t (with_object a (\<lambda>p s. snd (SendTransferFrameBytes w (ack_frame (pp_id p)) [k] s)) t)"
    for a k t by (rule keeps_outcome_object) (rule send)
  ultimately have "keeps_outcome fresh e i s (with_object a (\<lambda>p s. snd (SendTransferFrameBytes w (ack_frame (pp_id p)) [k] s))
      (s\<lparr>pm_ack_tasks := x\<rparr>))" for a k x
    by (rule keeps_outcome_trans)
  then show ?thesis
    by (simp add: run_ack_task_def split: list.split prod.split del: SendTransferFrameBytes.simps)
qed

lemma keeps_outcome_received:
  assumes "pm_objects s a = Some p" and "map_of (pm_tracked s) (header_id h) = Some a" and "pp_is_incoming p"
  shows "keeps_outcome fresh e i s (RunOnStatusUpdateThread (FinishedIncoming k h n st) s)"
  unfolding keeps_outcome_def
proof
  assume inv: "outcome_inv fresh e i s"
  have "tame i (FinishedIncoming k h n st)"
    using tracked_outcome(2) [OF inv assms(2,1)] assms(3) by (auto simp: object_ok_def)
  from keeps_outcome_post [OF this] inv show "outcome_inv fresh e i (RunOnStatusUpdateThread (FinishedIncoming k h n st) s)"
    by (simp add: keeps_outcome_def)
qed

lemma keeps_outcome_internal:
  "pm_objects s a = Some p \<Longrightarrow> ip_id ip = pp_id p \<Longrightarrow>
   keeps_outcome fresh e i s (write_object a (\<lambda>p. p\<lparr>pp_internal := ip\<rparr>) s)"
  by (rule keeps_outcome_quiet) (auto simp: write_object_def pp_id_def GetEndpoint_def smaller_def)

lemma keeps_outcome_ack: "keeps_outcome fresh e i s (SendPayloadReceivedAck a p k b s)"
  by (rule keeps_outcome_quiet) (simp_all add: SendPayloadReceivedAck_def)

lemma keeps_outcome_start:
  "j \<noteq> i \<Longrightarrow> pp_id p = j \<Longrightarrow> keeps_outcome fresh e i s (StartTrackingPayload j p s)"
  using outcome_start [of fresh e i s p j] by (simp add: keeps_outcome_def)

lemma keeps_outcome_other:
  "other_client_op op1 \<Longrightarrow> keeps_outcome fresh e i s (on_payload_client (proxy_step op1) s)"
  by (rule keeps_outcome_client) (rule updates_silent [OF silent_other])

interpretation outcomes: manager_loop "\<lambda>A. keeps_outcome fresh e i" "tame i" "\<lambda>j. j \<noteq> i" for fresh e i
proof unfold_locales
  show "keeps_outcome fresh e i s (with_object a g s)"
    if "\<And>p. pm_objects s a = Some p \<Longrightarrow> keeps_outcome fresh e i s (g p s)" for a s g
    using that by (rule keeps_outcome_object)
  show "keeps_outcome fresh e i s (with_payload j k s)"
    if "\<And>a t. map_of (pm_tracked t) j = Some a \<Longrightarrow> pm_flags t = pm_flags s \<Longrightarrow> keeps_outcome fresh e i t (k a t)" for j s k
    using that by (rule keeps_outcome_payload)
  show "keeps_outcome fresh e i s u" if "keeps_outcome fresh e i s t" "keeps_outcome fresh e i t u" for s t u
    using that by (rule keeps_outcome_trans)
  show "keeps_outcome fresh e i s (s\<lparr>pm_platform := pf\<rparr>)" "keeps_outcome fresh e i s (s\<lparr>pm_channels := ch\<rparr>)"
    "keeps_outcome fresh e i s (s\<lparr>pm_sent := fr\<rparr>)" "keeps_outcome fresh e i s (s\<lparr>pm_discards := ds\<rparr>)"
    "keeps_outcome fresh e i s (s\<lparr>pm_save_path := path\<rparr>)" "keeps_outcome fresh e i s (s\<lparr>pm_outgoing_updates := n\<rparr>)"
    "keeps_outcome fresh e i s (s\<lparr>pm_incoming_updates := n\<rparr>)" "keeps_outcome fresh e i s (s\<lparr>pm_last_outgoing_update := tm\<rparr>)"
    "keeps_outcome fresh e i s (s\<lparr>pm_last_incoming_update := tm\<rparr>)" for s pf ch fr ds path n tm
    by (rule keeps_outcome_quiet; simp)+
qed (simp_all add: keeps_outcome_write keeps_outcome_internal keeps_outcome_post keeps_outcome_remove
    keeps_outcome_announce keeps_outcome_ack keeps_outcome_received keeps_outcome_start keeps_outcome_status
    keeps_outcome_ack_task keeps_outcome_other keeps_outcome_crash)

section \<open>Runs\<close>

fun step_ok :: "int \<Rightarrow> pm_step \<Rightarrow> bool" where
  "step_ok i (OtherThread ev) \<longleftrightarrow> event_ok (\<lambda>j. j \<noteq> i) ev"
| "step_ok i (SenderRuns t env) \<longleftrightarrow> env_ok (\<lambda>j. j \<noteq> i) env"
| "step_ok i _ \<longleftrightarrow> True"

fun sends_id :: "int \<Rightarrow> pm_step \<Rightarrow> bool" where
  "sends_id i (ClientSends es p) \<longleftrightarrow> payload_id p = i"
| "sends_id i _ \<longleftrightarrow> False"

lemma keeps_on_sender: "keeps_outcome fresh e i s (on_sender t g s)"
  by (rule keeps_outcome_quiet) (simp_all add: on_sender_def)

lemma keeps_begin_send: "keeps_outcome fresh e i s (begin_send t task s)"
proof (cases "GetPayload (st_payload_id task) s")
  case (Pair hd1 u)
  show ?thesis
  proof (cases hd1)
    case None
    then show ?thesis
      using Pair by (auto simp: begin_send_def GetPayload_def split: option.splits)
  next
    case (Some a)
    have u: "keeps_outcome fresh e i s u"
      using GetPayload_SomeE(2) [of "st_payload_id task" s a u] Pair Some by (simp add: keeps_outcome_add_ref)
    show ?thesis
      using keeps_outcome_trans [OF u keeps_on_sender] keeps_outcome_trans [OF u keeps_outcome_crash]
      by (simp add: begin_send_def Pair Some split: option.split)
  qed
qed

lemma keeps_end_send: "keeps_outcome fresh e i s (end_send t r s)"
  unfolding end_send_def
  by (rule keeps_outcome_trans [OF keeps_outcome_trans [OF keeps_on_sender keeps_outcome_post] keeps_outcome_release])
    simp

lemma keeps_sender_step:
  assumes ok: "env_ok (\<lambda>j. j \<noteq> i) env"
  shows "keeps_outcome fresh e i s (sender_step t env s)"
proof (cases "sd_running (pm_senders s t)")
  case None
  then show ?thesis
    using keeps_outcome_trans [OF keeps_on_sender keeps_begin_send]
    by (simp add: sender_step_def split: list.split)
next
  case (Some r)
  have "keeps_outcome fresh e i s u" if "SendPayloadLoop env r s = Some (go, off, u)" for go off u
    by (rule outcomes.rel_loop [OF ok flags_of_events _ that, where A = "{rs_object r}"]) simp
  note u = keeps_outcome_trans [OF this keeps_on_sender] keeps_outcome_trans [OF this keeps_end_send]
  show ?thesis
    using u keeps_end_send by (auto simp: sender_step_def Some split: option.split bool.split)
qed

lemma keeps_shutdown: "keeps_outcome fresh e i s (begin_shutdown s)"
proof -
  have "keeps_outcome fresh e i t (cancel_and_close a t)" for a t
    unfolding cancel_and_close_def
    by (rule keeps_outcome_trans [OF keeps_outcome_write keeps_outcome_close]) simp
  then have f: "keeps_outcome fresh e i t (fold cancel_and_close as t)" for as t
    by (induction as arbitrary: t) (auto intro: keeps_outcome_trans)
  have "keeps_outcome fresh e i s (s\<lparr>pm_shutdown := True\<rparr>)"
    by (rule keeps_outcome_quiet) simp_all
  then have "keeps_outcome fresh e i s (fold cancel_and_close as (DisconnectFromEndpointManager s))" for as
    using f by (auto simp: DisconnectFromEndpointManager_def intro: keeps_outcome_trans)
  moreover have "keeps_outcome fresh e i t (t\<lparr>pm_barrier := n\<rparr>)" for t n
    by (rule keeps_outcome_quiet) simp_all
  ultimately show ?thesis
    by (auto simp: begin_shutdown_def CancelAllPayloads_def Let_def intro: keeps_outcome_trans)
qed

lemma outgoing_id: "CreateOutgoingInternalPayload pf p = Some ip \<Longrightarrow> ip_id ip = payload_id p"
  by (auto simp: CreateOutgoingInternalPayload_def split: PayloadType.splits)

lemma outcome_send:
  assumes inv: "outcome_inv fresh e i s" and once: "payload_id p = i \<Longrightarrow> fresh"
  shows "outcome_inv (fresh \<and> payload_id p \<noteq> i) e i (SendPayload es p s)"
proof -
  let ?f = "fresh \<and> payload_id p \<noteq> i"
  have weak: "outcome_inv ?f e i s"
    using inv by (auto simp: outcome_inv_def)
  have new: "\<not> reported (updates e i (pm_client s))" if "payload_id p = i"
    using inv once [OF that] by (auto simp: outcome_inv_def reported_def)
  have "outcome_inv ?f e i (snd (CreateOutgoingPayload p es s))"
    using weak new by (auto simp: CreateOutgoingPayload_def pp_id_def new_pending_payload_def outgoing_id
        object_ok_def intro!: outcome_start split: option.split)
  then show ?thesis
    using weak keeps_on_sender [of ?f e i "snd (CreateOutgoingPayload p es s)"]
    by (auto simp: SendPayload_def keeps_outcome_def split: prod.split)
qed

lemma outcome_do:
  assumes "outcome_inv fresh e i s" and "step_ok i st" and "sends_id i st \<Longrightarrow> fresh"
  shows "outcome_inv (fresh \<and> \<not> sends_id i st) e i (pm_do st s)"
proof (cases st)
  case (OtherThread ev)
  then show ?thesis
    using assms outcomes.rel_event [of i ev fresh e s] by (simp add: keeps_outcome_def)
next
  case (ClientSends es p)
  then show ?thesis
    using assms outcome_send [of fresh e i s p es] by simp
next
  case (SenderRuns t env)
  then show ?thesis
    using assms keeps_sender_step [of i env fresh e s t] by (simp add: keeps_outcome_def)
next
  case ShutdownBegins
  then show ?thesis
    using assms keeps_shutdown [of fresh e i s] by (simp add: keeps_outcome_def)
qed

lemma outcome_run:
  assumes "outcome_inv fresh e i s" and "list_all (step_ok i) sts"
    and "length (filter (sends_id i) sts) \<le> (if fresh then 1 else 0)"
  shows "\<exists>fresh'. outcome_inv fresh' e i (pm_run sts s)"
  using assms
proof (induction sts arbitrary: fresh s)
  case (Cons st sts)
  have "outcome_inv (fresh \<and> \<not> sends_id i st) e i (pm_do st s)"
    using Cons.prems by (intro outcome_do) (auto split: if_splits)
  from Cons.IH [OF this] Cons.prems show ?case
    by (auto simp: pm_run_def split: if_splits)
qed (auto simp: pm_run_def)

lemma outcome_new:
  "updates e i cl = [] \<Longrightarrow> outcome_inv True e i (PayloadManager_new fl pf cl ch)"
  by (simp add: outcome_inv_def PayloadManager_new_def one_outcome_def)

end
