(* ===== verification/Payload_Transfer.thy ===== *)
theory Payload_Transfer
  imports Payload_Outcome
begin

text \<open>
  A transfer without a failure: the rounds of a sending loop that no other thread disturbs, the
  chunks they put on the channels, and what becomes of the chunks where they arrive.
\<close>

section \<open>A round\<close>

lemma unchanged_endpoints:
  "GetAvailableEndpoints (SetOffsetForEndpoint e n p) = GetAvailableEndpoints p"
  "GetUnavailableEndpoints (SetOffsetForEndpoint e n p) = GetUnavailableEndpoints p"
proof -
  let ?f = "\<lambda>(k, i). (k, if k = e then i\<lparr>pe_offset := n\<rparr> else i)"
  have "AList.clearjunk (map ?f xs) = map ?f (AList.clearjunk xs)" for xs
    using clearjunk_map_ran [of "\<lambda>k i. if k = e then i\<lparr>pe_offset := n\<rparr> else i" xs]
    by (simp add: map_ran_def)
  then have g: "GetEndpoints (SetOffsetForEndpoint e n p) = map ?f (GetEndpoints p)"
    by (simp add: GetEndpoints_def SetOffsetForEndpoint_def update_endpoint_info_def)
  have "map fst (filter (\<lambda>(k, i). P (pe_status i)) (map ?f xs)) = map fst (filter (\<lambda>(k, i). P (pe_status i)) xs)"
    "map (\<lambda>(k, i). (k, pe_status i)) (filter (\<lambda>(k, i). P (pe_status i)) (map ?f xs)) =
     map (\<lambda>(k, i). (k, pe_status i)) (filter (\<lambda>(k, i). P (pe_status i)) xs)" for xs P
    by (induction xs) (auto split: if_splits)
  from this(1) [of "\<lambda>st. st = StatusAvailable"] this(2) [of "\<lambda>st. st \<noteq> StatusAvailable"]
  show "GetAvailableEndpoints (SetOffsetForEndpoint e n p) = GetAvailableEndpoints p"
    "GetUnavailableEndpoints (SetOffsetForEndpoint e n p) = GetUnavailableEndpoints p"
    by (simp_all add: GetAvailableEndpoints_def GetUnavailableEndpoints_def g)
qed

definition set_offsets :: "string list \<Rightarrow> int \<Rightarrow> pending_payload \<Rightarrow> pending_payload" where
  "set_offsets es n = fold (\<lambda>e. SetOffsetForEndpoint e n) es"

lemma set_offsets_same:
  "GetAvailableEndpoints (set_offsets es n p) = GetAvailableEndpoints p"
  "GetUnavailableEndpoints (set_offsets es n p) = GetUnavailableEndpoints p"
  "pp_internal (set_offsets es n p) = pp_internal p"
  "pp_locally_canceled (set_offsets es n p) = pp_locally_canceled p"
proof -
  have "pp_internal (SetOffsetForEndpoint e n p) = pp_internal p \<and>
      pp_locally_canceled (SetOffsetForEndpoint e n p) = pp_locally_canceled p" for e p
    by (simp add: SetOffsetForEndpoint_def update_endpoint_info_def)
  then show "GetAvailableEndpoints (set_offsets es n p) = GetAvailableEndpoints p"
    "GetUnavailableEndpoints (set_offsets es n p) = GetUnavailableEndpoints p"
    "pp_internal (set_offsets es n p) = pp_internal p"
    "pp_locally_canceled (set_offsets es n p) = pp_locally_canceled p"
    unfolding set_offsets_def by (induction es arbitrary: p) (simp_all add: unchanged_endpoints)
qed

lemma fold_set_offsets:
  "fold (\<lambda>e. write_object a (SetOffsetForEndpoint e n)) es s =
     s\<lparr>pm_objects := (pm_objects s)(a := map_option (set_offsets es n) (pm_objects s a))\<rparr>"
proof (induction es arbitrary: s)
  case Nil
  have "map_option (set_offsets [] n) x = x" for x
    by (cases x) (simp_all add: set_offsets_def)
  then show ?case
    by simp
next
  case (Cons e es)
  show ?case
    unfolding fold_Cons comp_def Cons.IH
    by (simp add: write_object_def set_offsets_def option.map_comp o_def fun_upd_def fun_eq_iff)
qed

text \<open>Every one of these endpoints can be reached with chunks of \<open>n\<close> bytes.\<close>

definition reachable_by :: "loop_env \<Rightarrow> string list \<Rightarrow> nat \<Rightarrow> payload_manager \<Rightarrow> bool" where
  "reachable_by env es n s \<longleftrightarrow>
     (\<forall>e \<in> set es. le_write_ok env e \<and> GetChannelForEndpoint e (pm_channels s) \<noteq> None) \<and>
     GetOptimalChunkSize env es s = n \<and> 0 < n"

lemma send_all:
  assumes "\<forall>e \<in> set es. w e \<and> GetChannelForEndpoint e (pm_channels s) \<noteq> None"
  shows "SendTransferFrameBytes w fr es s = ([], s\<lparr>pm_sent := pm_sent s @ map (\<lambda>e. (e, fr)) es\<rparr>)"
  using assms by (induction w fr es s rule: SendTransferFrameBytes.induct) auto

definition chunk_sent_tasks :: "string list \<Rightarrow> payload_header \<Rightarrow> payload_chunk \<Rightarrow> status_task list" where
  "chunk_sent_tasks es h c =
     map (\<lambda>e. OutgoingChunkSent e h (ck_flags c) (ck_offset c) (int (length (ck_body c)))) es"

lemma confirm_all:
  assumes "\<not> flag_payload_received_ack (pm_flags s)"
  shows "\<exists>n. fold (confirm_endpoint env p h off c []) es s =
    s\<lparr>pm_status_tasks := pm_status_tasks s @ chunk_sent_tasks es h c, pm_outgoing_updates := n\<rparr>"
  using assms
proof (induction es arbitrary: s)
  case Nil
  show ?case
    by (rule exI [of _ "pm_outgoing_updates s"]) (simp add: chunk_sent_tasks_def)
next
  case (Cons e es)
  let ?s = "confirm_endpoint env p h off c [] e s"
  let ?m = "if flag_skip_chunk_update (pm_flags s) then pm_outgoing_updates s + 1 else pm_outgoing_updates s"
  have s: "?s = s\<lparr>pm_status_tasks := pm_status_tasks s @ chunk_sent_tasks [e] h c, pm_outgoing_updates := ?m\<rparr>"
    using Cons.prems by (simp add: confirm_endpoint_def WaitForReceivedAck_def ack_enabled_def
        HandleSuccessfulOutgoingChunk_def RunOnStatusUpdateThread_def chunk_sent_tasks_def)
  have "\<not> flag_payload_received_ack (pm_flags ?s)"
    using Cons.prems by (simp add: s)
  from Cons.IH [OF this] obtain k where
    "fold (confirm_endpoint env p h off c []) es ?s =
      ?s\<lparr>pm_status_tasks := pm_status_tasks ?s @ chunk_sent_tasks es h c, pm_outgoing_updates := k\<rparr>"
    by blast
  then have "fold (confirm_endpoint env p h off c []) (e # es) s =
      s\<lparr>pm_status_tasks := pm_status_tasks s @ chunk_sent_tasks (e # es) h c, pm_outgoing_updates := k\<rparr>"
    by (simp add: s chunk_sent_tasks_def)
  then show ?case ..
qed

text \<open>The sender is at work on a payload that all its endpoints still take.\<close>

definition at_work :: "loop_env \<Rightarrow> running_send \<Rightarrow> pending_payload \<Rightarrow> string list \<Rightarrow> nat \<Rightarrow> payload_manager \<Rightarrow> bool" where
  "at_work env r p es n s \<longleftrightarrow>
     pm_objects s (rs_object r) = Some p \<and> GetAvailableEndpoints p = es \<and> es \<noteq> [] \<and>
     GetUnavailableEndpoints p = [] \<and> \<not> pp_locally_canceled p \<and> \<not> pm_shutdown s \<and>
     \<not> flag_payload_received_ack (pm_flags s) \<and> reachable_by env es n s \<and> le_while_reading env = []"

lemma one_round:
  assumes w: "at_work env r p es n s"
    and skip: "skip_to_resume env r p es s = Goes (off, s\<lparr>pm_platform := pf\<rparr>)"
    and detach: "DetachNextChunk (le_delivers env) n (pp_internal p, pf) = (Some body, ip, pf')"
    and size_ok: "GetTotalSize (ip_kind ip) \<le> 0 \<or> off \<le> GetTotalSize (ip_kind ip)"
  shows "\<exists>m. SendPayloadLoop env r s = Some (body \<noteq> [], off + int (length body),
    s\<lparr>pm_objects := (pm_objects s)(rs_object r \<mapsto> (set_offsets es off p)\<lparr>pp_internal := ip\<rparr>),
      pm_platform := pf',
      pm_sent := pm_sent s @ map (\<lambda>e. (e, DataFrame (rs_header r)
        (CreatePayloadChunk (off - int (rs_resume_offset r)) body (rs_index r)))) es,
      pm_status_tasks := pm_status_tasks s @ chunk_sent_tasks es (rs_header r)
        (CreatePayloadChunk (off - int (rs_resume_offset r)) body (rs_index r)),
      pm_outgoing_updates := m\<rparr>)"
proof -
  let ?a = "rs_object r"
  let ?c = "CreatePayloadChunk (off - int (rs_resume_offset r)) body (rs_index r)"
  have p: "pm_objects s ?a = Some p" and es: "GetAvailableEndpoints p = es" "es \<noteq> []"
    "GetUnavailableEndpoints p = []" and st: "\<not> pp_locally_canceled p" "\<not> pm_shutdown s"
    "\<not> flag_payload_received_ack (pm_flags s)" "le_while_reading env = []"
    and rb: "\<forall>e \<in> set es. le_write_ok env e \<and> GetChannelForEndpoint e (pm_channels s) \<noteq> None"
    "GetOptimalChunkSize env es s = n"
    using w by (auto simp: at_work_def reachable_by_def)
  let ?s3 = "s\<lparr>pm_objects := (pm_objects s)(?a \<mapsto> (set_offsets es off p)\<lparr>pp_internal := ip\<rparr>), pm_platform := pf'\<rparr>"
  let ?s4 = "?s3\<lparr>pm_sent := pm_sent s @ map (\<lambda>e. (e, DataFrame (rs_header r) ?c)) es\<rparr>"
  obtain m where m: "fold (confirm_endpoint env ((set_offsets es off p)\<lparr>pp_internal := ip\<rparr>) (rs_header r) off ?c []) es ?s4 =
      ?s4\<lparr>pm_status_tasks := pm_status_tasks s @ chunk_sent_tasks es (rs_header r) ?c, pm_outgoing_updates := m\<rparr>"
    using confirm_all [of ?s4 env "(set_offsets es off p)\<lparr>pp_internal := ip\<rparr>" "rs_header r" off ?c es] st(3) by auto
  have send: "SendTransferFrameBytes (le_write_ok env) (DataFrame (rs_header r) ?c) es ?s3 = ([], ?s4)"
    using send_all [of es "le_write_ok env" ?s3] rb(1) by simp
  have "send_chunk env r ((set_offsets es off p)\<lparr>pp_internal := ip\<rparr>) off es body ?s3 =
      (body \<noteq> [], off + int (length body), ?s4\<lparr>pm_status_tasks := pm_status_tasks s @ chunk_sent_tasks es (rs_header r) ?c,
         pm_outgoing_updates := m\<rparr>)"
    using size_ok es(2) m send by (auto simp: send_chunk_def Let_def)
  moreover have "GetOptimalChunkSize env es (s\<lparr>pm_platform := pf, pm_objects := ob\<rparr>) = n" for ob
    using rb(2) by (simp add: GetOptimalChunkSize_def)
  moreover have "read_and_send env r off es (s\<lparr>pm_platform := pf\<rparr>) =
      Some (send_chunk env r ((set_offsets es off p)\<lparr>pp_internal := ip\<rparr>) off es body ?s3)"
    using calculation(2) st(2) detach
    by (simp add: read_and_send_def fold_set_offsets st(4) pm_events_def p set_offsets_same write_object_def
        Let_def)
  ultimately show ?thesis
    using es st(1) skip by (intro exI [of _ m]) (simp add: SendPayloadLoop_def p)
qed

section \<open>All rounds\<close>

fun chunks_of :: "int \<Rightarrow> int \<Rightarrow> bytes list \<Rightarrow> payload_chunk list" where
  "chunks_of off idx [] = [CreatePayloadChunk off [] idx]"
| "chunks_of off idx (b # bs) =
     CreatePayloadChunk off b idx # chunks_of (off + int (length b)) (idx + 1) bs"

definition send_rounds :: "PayloadType \<Rightarrow> loop_env \<Rightarrow> payload_manager \<Rightarrow> payload_manager option" where
  "send_rounds t env = while_option (\<lambda>s. sd_running (pm_senders s t) \<noteq> None) (sender_step t env)"

text \<open>What has been added when the chunks went out to the endpoints and the sender is done.\<close>

definition all_sent ::
  "string list \<Rightarrow> payload_header \<Rightarrow> nat \<Rightarrow> payload_chunk list \<Rightarrow> payload_manager \<Rightarrow> payload_manager \<Rightarrow> bool" where
  "all_sent es h a cs s t \<longleftrightarrow>
     pm_sent t = pm_sent s @ concat (map (\<lambda>c. map (\<lambda>e. (e, DataFrame h c)) es) cs) \<and>
     pm_status_tasks t = pm_status_tasks s @ concat (map (chunk_sent_tasks es h) cs) @ [DestroyPayload (header_id h)] \<and>
     pm_client t = pm_client s \<and> pm_flags t = pm_flags s \<and> pm_tracked t = pm_tracked s \<and>
     (\<forall>p. pm_objects s a = Some p \<longrightarrow> (\<exists>q. pm_objects t a = Some q \<and> pp_id q = pp_id p \<and>
        GetAvailableEndpoints q = GetAvailableEndpoints p))"

lemma end_send_tracked:
  assumes "pm_objects s (rs_object r) = Some p" and "map_of (pm_tracked s) (pp_id p) = Some (rs_object r)"
  shows "end_send t r s = add_ref (- 1) (rs_object r) (RunOnStatusUpdateThread (DestroyPayload (header_id (rs_header r)))
    (on_sender t (\<lambda>sd. sd\<lparr>sd_running := None\<rparr>) s))"
  using assms by (simp add: end_send_def PendingPayloads_Release_def with_object_def RunOnStatusUpdateThread_def
      on_sender_def)

text \<open>Chunks of \<open>n\<close> bytes yield these bodies, and then the end.\<close>

locale payload_reader =
  fixes holds :: "internal_payload \<Rightarrow> platform \<Rightarrow> nat \<Rightarrow> bytes list \<Rightarrow> bool"
  assumes detach: "holds ip pf n bodies \<Longrightarrow> 0 < n \<Longrightarrow>
    \<exists>ip' pf'. DetachNextChunk None n (ip, pf) = (Some (if bodies = [] then [] else hd bodies), ip', pf') \<and>
      (bodies \<noteq> [] \<longrightarrow> hd bodies \<noteq> [] \<and> holds ip' pf' n (tl bodies)) \<and> ip_id ip' = ip_id ip \<and>
      GetTotalSize (ip_kind ip') = GetTotalSize (ip_kind ip)"
begin

lemma rounds:
  assumes "at_work env r p es n s" and del: "le_delivers env = None"
    and "skip_to_resume env r p es s = Goes (off, s\<lparr>pm_platform := pf\<rparr>)" and "0 \<le> off"
    and "holds (pp_internal p) pf n bodies"
    and "GetTotalSize (ip_kind (pp_internal p)) \<le> 0 \<or>
      off + int (length (concat bodies)) \<le> GetTotalSize (ip_kind (pp_internal p))"
    and "sd_running (pm_senders s t) = Some r"
    and "map_of (pm_tracked s) (pp_id p) = Some (rs_object r)"
  shows "\<exists>u. send_rounds t env s = Some u \<and>
    all_sent es (rs_header r) (rs_object r) (chunks_of (off - int (rs_resume_offset r)) (rs_index r) bodies) s u"
  using assms(1,3-8)
proof (induction bodies arbitrary: r p s off pf)
  case (Nil r p s off pf)
  note w = \<open>at_work env r p es n s\<close> and skip = \<open>skip_to_resume env r p es s = _\<close> and pos = \<open>0 \<le> off\<close>
    and run = \<open>sd_running (pm_senders s t) = Some r\<close> and tr = \<open>map_of (pm_tracked s) (pp_id p) = _\<close>
  let ?a = "rs_object r" and ?h = "rs_header r"
  have n: "0 < n" and p: "pm_objects s ?a = Some p" and sh: "\<not> pm_shutdown s"
    using w by (auto simp: at_work_def reachable_by_def)
  from detach [OF \<open>holds (pp_internal p) pf n []\<close> n] obtain ip' pf' where
    d: "DetachNextChunk (le_delivers env) n (pp_internal p, pf) = (Some [], ip', pf')"
    and ip: "ip_id ip' = ip_id (pp_internal p)" "GetTotalSize (ip_kind ip') = GetTotalSize (ip_kind (pp_internal p))"
    by (auto simp: del)
  let ?c = "CreatePayloadChunk (off - int (rs_resume_offset r)) [] (rs_index r)"
  let ?p = "(set_offsets es off p)\<lparr>pp_internal := ip'\<rparr>"
  have "GetTotalSize (ip_kind ip') \<le> 0 \<or> off \<le> GetTotalSize (ip_kind ip')"
    using Nil.prems(5) ip(2) by simp
  from one_round [OF w skip d this] obtain m where
    l: "SendPayloadLoop env r s = Some (False, off + int (length ([] :: bytes)),
      s\<lparr>pm_objects := (pm_objects s)(?a \<mapsto> ?p), pm_platform := pf',
        pm_sent := pm_sent s @ map (\<lambda>e. (e, DataFrame ?h ?c)) es,
        pm_status_tasks := pm_status_tasks s @ chunk_sent_tasks es ?h ?c, pm_outgoing_updates := m\<rparr>)"
      (is "_ = Some (_, _, ?s1)")
    by auto
  have p': "GetAvailableEndpoints ?p = GetAvailableEndpoints p" "pp_id ?p = pp_id p"
    using set_offsets_same [of es off p] ip(1) by (simp_all add: GetAvailableEndpoints_def GetEndpoints_def pp_id_def)
  let ?u = "end_send t r ?s1"
  have "pm_objects ?s1 ?a = Some ?p" "map_of (pm_tracked ?s1) (pp_id ?p) = Some ?a"
    using tr p'(2) by simp_all
  note u = end_send_tracked [OF this, of t]
  have "sender_step t env s = ?u"
    using l sh by (simp add: sender_step_def run)
  moreover have "sd_running (pm_senders ?u t) = None"
    by (simp add: u RunOnStatusUpdateThread_def on_sender_def add_ref_def write_object_def)
  ultimately have "send_rounds t env s = Some ?u"
    unfolding send_rounds_def using run by (simp add: while_option_unfold)
  moreover have "all_sent es ?h ?a [?c] s ?u"
    using p p' by (simp add: all_sent_def u RunOnStatusUpdateThread_def on_sender_def add_ref_def write_object_def
        pp_id_def GetAvailableEndpoints_def GetEndpoints_def)
  ultimately show ?case
    by (intro exI [of _ ?u]) simp
next
  case (Cons body rest r p s off pf)
  note w = \<open>at_work env r p es n s\<close> and skip = \<open>skip_to_resume env r p es s = _\<close> and pos = \<open>0 \<le> off\<close>
    and run = \<open>sd_running (pm_senders s t) = Some r\<close> and tr = \<open>map_of (pm_tracked s) (pp_id p) = _\<close>
    and total = \<open>GetTotalSize (ip_kind (pp_internal p)) \<le> 0 \<or> _\<close>
  let ?a = "rs_object r" and ?h = "rs_header r"
  have n: "0 < n" and p: "pm_objects s ?a = Some p" and sh: "\<not> pm_shutdown s"
    using w by (auto simp: at_work_def reachable_by_def)
  from detach [OF \<open>holds (pp_internal p) pf n (body # rest)\<close> n] obtain ip' pf' where
    d: "DetachNextChunk (le_delivers env) n (pp_internal p, pf) = (Some body, ip', pf')"
    and body: "body \<noteq> []" "holds ip' pf' n rest" and ip: "ip_id ip' = ip_id (pp_internal p)"
    "GetTotalSize (ip_kind ip') = GetTotalSize (ip_kind (pp_internal p))"
    by (auto simp: del)
  let ?c = "CreatePayloadChunk (off - int (rs_resume_offset r)) body (rs_index r)"
  let ?p = "(set_offsets es off p)\<lparr>pp_internal := ip'\<rparr>"
  have "GetTotalSize (ip_kind ip') \<le> 0 \<or> off \<le> GetTotalSize (ip_kind ip')"
    using total ip(2) by auto
  from one_round [OF w skip d this] obtain m where
    l: "SendPayloadLoop env r s = Some (body \<noteq> [], off + int (length body),
      s\<lparr>pm_objects := (pm_objects s)(?a \<mapsto> ?p), pm_platform := pf',
        pm_sent := pm_sent s @ map (\<lambda>e. (e, DataFrame ?h ?c)) es,
        pm_status_tasks := pm_status_tasks s @ chunk_sent_tasks es ?h ?c, pm_outgoing_updates := m\<rparr>)"
      (is "_ = Some (_, _, ?s1)")
    by blast
  have p': "GetAvailableEndpoints ?p = GetAvailableEndpoints p" "GetUnavailableEndpoints ?p = GetUnavailableEndpoints p"
    "pp_locally_canceled ?p = pp_locally_canceled p" "pp_id ?p = pp_id p"
    using set_offsets_same [of es off p] ip(1)
    by (simp_all add: GetAvailableEndpoints_def GetUnavailableEndpoints_def GetEndpoints_def pp_id_def)
  let ?r = "r\<lparr>rs_offset := off + int (length body), rs_index := rs_index r + 1\<rparr>"
  let ?s2 = "on_sender t (\<lambda>sd. sd\<lparr>sd_running := Some ?r\<rparr>) ?s1"
  have step: "sender_step t env s = ?s2"
    using l sh body(1) by (simp add: sender_step_def run)
  have "reachable_by env es n ?s2"
    using w by (simp add: at_work_def reachable_by_def GetOptimalChunkSize_def on_sender_def)
  then have w2: "at_work env ?r ?p es n ?s2"
    using w p' by (simp add: at_work_def on_sender_def)
  have "off + int (length body) \<noteq> 0"
    using pos body(1) by (cases body) simp_all
  then have skip2: "skip_to_resume env ?r ?p es ?s2 = Goes (off + int (length body), ?s2\<lparr>pm_platform := pf'\<rparr>)"
    by (simp add: skip_to_resume_def on_sender_def)
  have run2: "sd_running (pm_senders ?s2 t) = Some ?r"
    by (simp add: on_sender_def)
  have tr2: "map_of (pm_tracked ?s2) (pp_id ?p) = Some (rs_object ?r)"
    using tr p'(4) by (simp add: on_sender_def)
  have h2: "holds (pp_internal ?p) pf' n rest" and pos2: "0 \<le> off + int (length body)"
    using body(2) pos by simp_all
  have tot2: "GetTotalSize (ip_kind (pp_internal ?p)) \<le> 0 \<or>
      off + int (length body) + int (length (concat rest)) \<le> GetTotalSize (ip_kind (pp_internal ?p))"
    using total ip(2) by (simp add: add.assoc)
  from Cons.IH [OF w2 skip2 pos2 h2 tot2 run2 tr2] obtain u where
    u: "send_rounds t env ?s2 = Some u"
      "all_sent es ?h ?a (chunks_of (off + int (length body) - int (rs_resume_offset r)) (rs_index r + 1) rest) ?s2 u"
    by auto
  have "send_rounds t env s = Some u"
    using u(1) run step unfolding send_rounds_def by (subst while_option_unfold) simp
  moreover have "all_sent es ?h ?a (chunks_of (off - int (rs_resume_offset r)) (rs_index r) (body # rest)) s u"
    using u(2) p p' by (simp add: all_sent_def on_sender_def algebra_simps)
  ultimately show ?case
    by blast
qed

end

section \<open>The three sources\<close>

function chop :: "nat \<Rightarrow> bytes \<Rightarrow> bytes list" where
  "chop n bs = (if n = 0 \<or> bs = [] then [] else take n bs # chop n (drop n bs))"
  by pat_completeness auto
termination
  by (relation "measure (length \<circ> snd)") auto

declare chop.simps [simp del]

lemma chop_Nil [simp]: "chop n [] = []"
  by (simp add: chop.simps)

lemma chop_cons: "0 < n \<Longrightarrow> bs \<noteq> [] \<Longrightarrow> chop n bs = take n bs # chop n (drop n bs)"
  by (subst chop.simps) simp

lemma concat_chop: "0 < n \<Longrightarrow> concat (chop n bs) = bs"
  by (induction n bs rule: chop.induct) (subst chop.simps, simp)

lemma chop_no_Nil: "[] \<notin> set (chop n bs)"
  by (induction n bs rule: chop.induct) (subst chop.simps, auto)

definition file_holds :: "internal_payload \<Rightarrow> platform \<Rightarrow> nat \<Rightarrow> bytes list \<Rightarrow> bool" where
  "file_holds ip pf n bodies \<longleftrightarrow> (\<exists>k f. ip_kind ip = OutgoingFileInternalPayload k \<and> AsFile (ip_payload ip) = Some f \<and>
     bodies = chop n (io_data (pf_files pf f)) \<and>
     (io_data (pf_files pf f) \<noteq> [] \<longrightarrow> io_open (pf_files pf f) \<and> io_good (pf_files pf f)))"

definition bytes_hold :: "internal_payload \<Rightarrow> platform \<Rightarrow> nat \<Rightarrow> bytes list \<Rightarrow> bool" where
  "bytes_hold ip pf n bodies \<longleftrightarrow> (\<exists>k b. ip_kind ip = BytesInternalPayload k b \<and>
     bodies = (if b \<or> AsBytes (ip_payload ip) = [] then [] else [AsBytes (ip_payload ip)]))"

text \<open>All has been written to the stream and its writer has closed it.\<close>

definition stream_holds :: "internal_payload \<Rightarrow> platform \<Rightarrow> nat \<Rightarrow> bytes list \<Rightarrow> bool" where
  "stream_holds ip pf n bodies \<longleftrightarrow> (\<exists>r cs. ip_kind ip = OutgoingStreamInternalPayload \<and>
     AsStream (ip_payload ip) = Some r \<and> bodies = concat (map (chop n) cs) \<and> [] \<notin> set cs \<and>
     \<not> pipe_read_all (pf_pipes pf r) \<and> pipe_buffer (pf_pipes pf r) = cs @ [[]])"

interpretation file_reader: payload_reader file_holds
proof
  fix ip pf bodies and n :: nat
  assume "file_holds ip pf n bodies" "0 < n"
  then obtain k f where f: "ip_kind ip = OutgoingFileInternalPayload k" "AsFile (ip_payload ip) = Some f"
    "bodies = chop n (io_data (pf_files pf f))"
    "io_data (pf_files pf f) \<noteq> [] \<longrightarrow> io_open (pf_files pf f) \<and> io_good (pf_files pf f)"
    by (auto simp: file_holds_def)
  let ?bs = "io_data (pf_files pf f)"
  show "\<exists>ip' pf'. DetachNextChunk None n (ip, pf) = (Some (if bodies = [] then [] else hd bodies), ip', pf') \<and>
      (bodies \<noteq> [] \<longrightarrow> hd bodies \<noteq> [] \<and> file_holds ip' pf' n (tl bodies)) \<and> ip_id ip' = ip_id ip \<and>
      GetTotalSize (ip_kind ip') = GetTotalSize (ip_kind ip)"
  proof (cases "?bs = []")
    case True
    then have "fst (DetachNextChunk None n (ip, pf)) = Some [] \<and> fst (snd (DetachNextChunk None n (ip, pf))) = ip"
      using f(1,2) by (simp add: DetachNextChunk_def file_DetachNextChunk_def on_file_def IOFile_Read_def)
    then show ?thesis
      using True f(3) by (cases "DetachNextChunk None n (ip, pf)") auto
  next
    case False
    let ?f = "(pf_files pf f)\<lparr>io_data := drop n ?bs, io_good := (length (take n ?bs) = n)\<rparr>"
    have "DetachNextChunk None n (ip, pf) = (Some (take n ?bs), ip, pf\<lparr>pf_files := (pf_files pf)(f := ?f)\<rparr>)"
      using f False \<open>0 < n\<close> by (simp add: DetachNextChunk_def file_DetachNextChunk_def on_file_def IOFile_Read_def Let_def)
    moreover have "file_holds ip (pf\<lparr>pf_files := (pf_files pf)(f := ?f)\<rparr>) n (chop n (drop n ?bs))"
      using f False by (auto simp: file_holds_def)
    ultimately show ?thesis
      using False \<open>0 < n\<close> by (simp add: f(3) chop_cons)
  qed
qed

interpretation bytes_reader: payload_reader bytes_hold
proof
  fix ip pf bodies and n :: nat
  assume "bytes_hold ip pf n bodies"
  then obtain k b where "ip_kind ip = BytesInternalPayload k b"
    "bodies = (if b \<or> AsBytes (ip_payload ip) = [] then [] else [AsBytes (ip_payload ip)])"
    by (auto simp: bytes_hold_def)
  then show "\<exists>ip' pf'. DetachNextChunk None n (ip, pf) = (Some (if bodies = [] then [] else hd bodies), ip', pf') \<and>
      (bodies \<noteq> [] \<longrightarrow> hd bodies \<noteq> [] \<and> bytes_hold ip' pf' n (tl bodies)) \<and> ip_id ip' = ip_id ip \<and>
      GetTotalSize (ip_kind ip') = GetTotalSize (ip_kind ip)"
    by (cases b) (simp_all add: DetachNextChunk_def bytes_hold_def ex_bool_eq)
qed

interpretation stream_reader: payload_reader stream_holds
proof
  fix ip pf bodies and n :: nat
  assume "stream_holds ip pf n bodies" "0 < n"
  then obtain r cs where r: "ip_kind ip = OutgoingStreamInternalPayload" "AsStream (ip_payload ip) = Some r"
    "bodies = concat (map (chop n) cs)" "[] \<notin> set cs" "\<not> pipe_read_all (pf_pipes pf r)"
    "pipe_buffer (pf_pipes pf r) = cs @ [[]]"
    by (auto simp: stream_holds_def)
  show "\<exists>ip' pf'. DetachNextChunk None n (ip, pf) = (Some (if bodies = [] then [] else hd bodies), ip', pf') \<and>
      (bodies \<noteq> [] \<longrightarrow> hd bodies \<noteq> [] \<and> stream_holds ip' pf' n (tl bodies)) \<and> ip_id ip' = ip_id ip \<and>
      GetTotalSize (ip_kind ip') = GetTotalSize (ip_kind ip)"
  proof (cases cs)
    case Nil
    then show ?thesis
      using r by (simp add: DetachNextChunk_def stream_DetachNextChunk_def on_pipe_def Pipe_Read_def)
  next
    case (Cons c cs')
    then have b: "pipe_buffer (pf_pipes pf r) = c # cs' @ [[]]" "c \<noteq> []"
      using r(4,6) by auto
    let ?q = "if length c \<le> n then (pf_pipes pf r)\<lparr>pipe_buffer := cs' @ [[]]\<rparr>
        else (pf_pipes pf r)\<lparr>pipe_buffer := drop n c # cs' @ [[]]\<rparr>"
    let ?pf = "pf\<lparr>pf_pipes := (pf_pipes pf)(r := ?q)\<rparr>"
    have "DetachNextChunk None n (ip, pf) = (Some (take n c), ip, ?pf)"
      using r(1,2,5) b \<open>0 < n\<close> by (simp add: DetachNextChunk_def stream_DetachNextChunk_def on_pipe_def Pipe_Read_def)
    moreover have "stream_holds ip ?pf n (chop n (drop n c) @ concat (map (chop n) cs'))"
      unfolding stream_holds_def
      by (rule exI [of _ r], rule exI [of _ "if length c \<le> n then cs' else drop n c # cs'"])
        (use r b Cons in auto)
    ultimately show ?thesis
      using b(2) \<open>0 < n\<close> by (simp add: r(3) Cons chop_cons)
  qed
qed

section \<open>Starting to send\<close>

text \<open>A payload whose source can be read to its end, what is in it, and how it is read.\<close>

definition source_ready :: "platform \<Rightarrow> payload \<Rightarrow> bool" where
  "source_ready pf p \<longleftrightarrow>
     (case payload_type p of
        kBytes \<Rightarrow> payload_content p = BytesContent (AsBytes p)
      | kFile \<Rightarrow> (case AsFile p of
          None \<Rightarrow> False
        | Some f \<Rightarrow> io_open (pf_files pf f) \<and> io_good (pf_files pf f) \<and>
            int (length (io_data (pf_files pf f))) \<le> io_total_size (pf_files pf f))
      | kStream \<Rightarrow> (case AsStream p of
          None \<Rightarrow> False
        | Some r \<Rightarrow> \<not> pipe_read_all (pf_pipes pf r) \<and> pipe_buffer (pf_pipes pf r) \<noteq> [] \<and>
            last (pipe_buffer (pf_pipes pf r)) = [] \<and> [] \<notin> set (butlast (pipe_buffer (pf_pipes pf r))))
      | kUnknownType \<Rightarrow> False)"

definition source_content :: "platform \<Rightarrow> payload \<Rightarrow> bytes" where
  "source_content pf p =
     (case payload_content p of
        NoContent \<Rightarrow> []
      | BytesContent bs \<Rightarrow> bs
      | FileContent f \<Rightarrow> io_data (pf_files pf f)
      | StreamContent r \<Rightarrow> concat (pipe_buffer (pf_pipes pf r)))"

definition source_pieces :: "platform \<Rightarrow> payload \<Rightarrow> nat \<Rightarrow> bytes list" where
  "source_pieces pf p n =
     (case payload_type p of
        kBytes \<Rightarrow> if AsBytes p = [] then [] else [AsBytes p]
      | kFile \<Rightarrow> chop n (io_data (pf_files pf (the (AsFile p))))
      | kStream \<Rightarrow> concat (map (chop n) (butlast (pipe_buffer (pf_pipes pf (the (AsStream p))))))
      | kUnknownType \<Rightarrow> [])"

lemma pieces_no_Nil: "[] \<notin> set (source_pieces pf p n)"
  using chop_no_Nil by (auto simp: source_pieces_def split: PayloadType.splits)

lemma concat_pieces:
  assumes "source_ready pf p" and "0 < n"
  shows "concat (source_pieces pf p n) = source_content pf p"
proof -
  have c: "concat (concat (map (chop n) cs)) = concat cs" for cs
    using assms(2) by (induction cs) (simp_all add: concat_chop)
  have "concat cs = concat (butlast cs)" if "cs \<noteq> []" "last cs = []" for cs :: "bytes list"
    using that append_butlast_last_id [of cs] by (metis append_Nil2 concat_append concat.simps)
  then show ?thesis
    using assms c by (cases "payload_type p")
      (auto simp: source_ready_def source_pieces_def source_content_def AsBytes_def AsFile_def AsStream_def concat_chop
        split: payload_content.splits)
qed

definition any_source_holds :: "internal_payload \<Rightarrow> platform \<Rightarrow> nat \<Rightarrow> bytes list \<Rightarrow> bool" where
  "any_source_holds ip pf n bodies \<longleftrightarrow>
     file_holds ip pf n bodies \<or> bytes_hold ip pf n bodies \<or> stream_holds ip pf n bodies"

interpretation any_reader: payload_reader any_source_holds
proof
  fix ip pf bodies and n :: nat
  assume "any_source_holds ip pf n bodies" "0 < n"
  then show "\<exists>ip' pf'. DetachNextChunk None n (ip, pf) = (Some (if bodies = [] then [] else hd bodies), ip', pf') \<and>
      (bodies \<noteq> [] \<longrightarrow> hd bodies \<noteq> [] \<and> any_source_holds ip' pf' n (tl bodies)) \<and> ip_id ip' = ip_id ip \<and>
      GetTotalSize (ip_kind ip') = GetTotalSize (ip_kind ip)"
    using file_reader.detach [of ip pf n bodies] bytes_reader.detach [of ip pf n bodies]
      stream_reader.detach [of ip pf n bodies]
    unfolding any_source_holds_def by blast
qed

lemma source_holds:
  assumes "source_ready pf p"
  shows "\<exists>ip. CreateOutgoingInternalPayload pf p = Some ip \<and> ip_id ip = payload_id p \<and>
    any_source_holds ip pf n (source_pieces pf p n) \<and>
    (GetTotalSize (ip_kind ip) \<le> 0 \<or> int (length (source_content pf p)) \<le> GetTotalSize (ip_kind ip))"
proof (cases "payload_type p")
  case kFile
  then obtain f where "AsFile p = Some f"
    using assms by (auto simp: source_ready_def split: option.splits)
  with kFile assms show ?thesis
    by (auto simp: source_ready_def CreateOutgoingInternalPayload_def any_source_holds_def file_holds_def
        source_pieces_def source_content_def AsFile_def split: payload_content.splits)
next
  case kStream
  then obtain r where "AsStream p = Some r"
    using assms by (auto simp: source_ready_def split: option.splits)
  with kStream assms show ?thesis
    using append_butlast_last_id [of "pipe_buffer (pf_pipes pf r)"]
    by (auto simp: source_ready_def CreateOutgoingInternalPayload_def any_source_holds_def stream_holds_def
        source_pieces_def)
next
  case kBytes
  then show ?thesis
    by (auto simp: CreateOutgoingInternalPayload_def any_source_holds_def bytes_hold_def source_pieces_def
        source_content_def AsBytes_def intro!: exI [of _ False] split: payload_content.splits)
qed (use assms in \<open>simp add: source_ready_def\<close>)

lemma available_all: "distinct es \<Longrightarrow> available_endpoints es =
    map (\<lambda>e. (e, \<lparr>pe_status = StatusAvailable, pe_offset = 0, pe_received_ack = False\<rparr>)) es"
proof (induction es)
  case (Cons e es)
  then have "filter (\<lambda>(k, _). k \<noteq> e) (available_endpoints es) = available_endpoints es"
    by (auto simp: filter_id_conv)
  with Cons show ?case
    by simp
qed simp

lemma new_payload_endpoints:
  assumes "distinct es"
  shows "GetAvailableEndpoints (new_pending_payload ip es b) = es"
    and "GetUnavailableEndpoints (new_pending_payload ip es b) = []"
proof -
  have "AList.clearjunk (available_endpoints es) = available_endpoints es"
    using assms by (simp add: available_all distinct_clearjunk_id o_def)
  then show "GetAvailableEndpoints (new_pending_payload ip es b) = es"
    "GetUnavailableEndpoints (new_pending_payload ip es b) = []"
    using assms by (simp_all add: GetAvailableEndpoints_def GetUnavailableEndpoints_def GetEndpoints_def
        new_pending_payload_def available_all filter_map o_def)
qed

lemma start_fresh:
  assumes "map_of (pm_tracked s) i = None"
  shows "StartTrackingPayload i q s = s\<lparr>pm_objects := (pm_objects s)(pm_next s \<mapsto> q\<lparr>pp_refcount := pp_refcount q + 1\<rparr>),
    pm_tracked := pm_tracked s @ [(i, pm_next s)], pm_next := Suc (pm_next s)\<rparr>"
  using assms by (simp add: StartTrackingPayload_def PendingPayloads_Remove_def Let_def)

text \<open>A sender that has nothing else to do, in a manager that is up.\<close>

definition idle_sender :: "PayloadType \<Rightarrow> payload_manager \<Rightarrow> bool" where
  "idle_sender t s \<longleftrightarrow> pm_senders s t = no_sender \<and> \<not> pm_shutdown s \<and> \<not> flag_payload_received_ack (pm_flags s)"

lemma on_sender_idle: "pm_senders s t = x \<Longrightarrow> on_sender t g s = s\<lparr>pm_senders := (pm_senders s)(t := g x)\<rparr>"
  by (simp add: on_sender_def)

lemma send_begins:
  assumes idle: "idle_sender (payload_type p) s" and new: "map_of (pm_tracked s) (payload_id p) = None"
    and ip: "CreateOutgoingInternalPayload (pm_platform s) p = Some ip" "ip_id ip = payload_id p"
    and known: "payload_type p \<noteq> kUnknownType" 
    and off: "off = (if flag_send_payload_offset (pm_flags s) then payload_offset p else 0)"
  shows "\<exists>q. sender_step (payload_type p) env (SendPayload es p s) =
    s\<lparr>pm_objects := (pm_objects s)(pm_next s \<mapsto> q), pm_tracked := pm_tracked s @ [(payload_id p, pm_next s)],
      pm_next := Suc (pm_next s), pm_senders := (pm_senders s)(payload_type p :=
        \<lparr>sd_queue = [], sd_running = Some \<lparr>rs_object = pm_next s, rs_header = CreatePayloadHeader ip off, rs_offset = 0,
           rs_resume_offset = off, rs_index = 0\<rparr>\<rparr>)\<rparr> \<and>
    q = (new_pending_payload ip es False)\<lparr>pp_refcount := 2\<rparr>"
proof -
  let ?t = "payload_type p" and ?i = "payload_id p" and ?a = "pm_next s"
  let ?q = "(new_pending_payload ip es False)\<lparr>pp_refcount := 1\<rparr>"
  let ?task = "\<lparr>st_payload_id = ?i, st_resume_offset = off\<rparr>"
  let ?s1 = "s\<lparr>pm_objects := (pm_objects s)(?a \<mapsto> ?q), pm_tracked := pm_tracked s @ [(?i, ?a)], pm_next := Suc ?a\<rparr>"
  have idle': "pm_senders s ?t = no_sender" "\<not> pm_shutdown s"
    using idle by (simp_all add: idle_sender_def)
  have "CreateOutgoingPayload p es s = (?i, ?s1)"
    using ip by (simp add: CreateOutgoingPayload_def start_fresh [OF new] new_pending_payload_def)
  then have send: "SendPayload es p s = ?s1\<lparr>pm_senders := (pm_senders s)(?t := no_sender\<lparr>sd_queue := [?task]\<rparr>)\<rparr>"
    using idle' known off by (simp add: SendPayload_def on_sender_def no_sender_def)
  let ?s2 = "?s1\<lparr>pm_senders := (pm_senders s)(?t := no_sender)\<rparr>"
  have s2: "on_sender ?t (\<lambda>sd. sd\<lparr>sd_queue := []\<rparr>) (SendPayload es p s) = ?s2"
    by (simp add: send on_sender_def no_sender_def)
  have tr: "map_of (pm_tracked ?s2) ?i = Some ?a"
    using new by (simp add: map_add_def)
  have "GetPayload ?i ?s2 = (Some ?a, add_ref 1 ?a ?s2)"
    using tr by (simp add: GetPayload_def)
  moreover have "add_ref 1 ?a ?s2 = ?s2\<lparr>pm_objects := (pm_objects s)(?a \<mapsto> (new_pending_payload ip es False)\<lparr>pp_refcount := 2\<rparr>)\<rparr>"
    by (simp add: add_ref_def write_object_def)
  ultimately have "begin_send ?t ?task ?s2 = ?s2\<lparr>pm_objects := (pm_objects s)(?a \<mapsto> (new_pending_payload ip es False)\<lparr>pp_refcount := 2\<rparr>),
      pm_senders := (pm_senders s)(?t := \<lparr>sd_queue = [], sd_running = Some \<lparr>rs_object = ?a,
        rs_header = CreatePayloadHeader ip off, rs_offset = 0, rs_resume_offset = off, rs_index = 0\<rparr>\<rparr>)\<rparr>"
    using idle' by (simp add: begin_send_def on_sender_def no_sender_def new_pending_payload_def)
  moreover have "sender_step ?t env (SendPayload es p s) = begin_send ?t ?task ?s2"
    by (simp add: sender_step_def s2 [symmetric]) (simp add: send no_sender_def)
  ultimately show ?thesis
    by simp
qed

lemma send_all_of_it:
  assumes idle: "idle_sender (payload_type p) s" and new: "map_of (pm_tracked s) (payload_id p) = None"
    and src: "source_ready (pm_platform s) p" and off: "payload_offset p = 0"
    and es: "distinct es" "es \<noteq> []" and rb: "reachable_by env es n s"
    and quiet: "le_delivers env = None" "le_while_reading env = []"
  shows "\<exists>u ip. send_rounds (payload_type p) env (sender_step (payload_type p) env (SendPayload es p s)) = Some u \<and>
    CreateOutgoingInternalPayload (pm_platform s) p = Some ip \<and>
    all_sent es (CreatePayloadHeader ip 0) (pm_next s) (chunks_of 0 0 (source_pieces (pm_platform s) p n))
      (sender_step (payload_type p) env (SendPayload es p s)) u"
proof -
  let ?t = "payload_type p" and ?a = "pm_next s"
  have n: "0 < n"
    using rb by (simp add: reachable_by_def)
  from source_holds [OF src, of n] obtain ip where ip: "CreateOutgoingInternalPayload (pm_platform s) p = Some ip"
    "ip_id ip = payload_id p" and h: "any_source_holds ip (pm_platform s) n (source_pieces (pm_platform s) p n)"
    and tot: "GetTotalSize (ip_kind ip) \<le> 0 \<or> int (length (source_content (pm_platform s) p)) \<le> GetTotalSize (ip_kind ip)"
    by blast
  have "?t \<noteq> kUnknownType"
    using src by (auto simp: source_ready_def)
  from send_begins [OF idle new ip this, of 0 env es] off obtain q where
    s2: "sender_step ?t env (SendPayload es p s) =
      s\<lparr>pm_objects := (pm_objects s)(?a \<mapsto> q), pm_tracked := pm_tracked s @ [(payload_id p, ?a)],
        pm_next := Suc ?a, pm_senders := (pm_senders s)(?t :=
          \<lparr>sd_queue = [], sd_running = Some \<lparr>rs_object = ?a, rs_header = CreatePayloadHeader ip 0, rs_offset = 0,
             rs_resume_offset = 0, rs_index = 0\<rparr>\<rparr>)\<rparr>" (is "?lhs = ?s2")
    and q: "q = (new_pending_payload ip es False)\<lparr>pp_refcount := 2\<rparr>"
    by auto
  let ?r = "\<lparr>rs_object = ?a, rs_header = CreatePayloadHeader ip 0, rs_offset = 0, rs_resume_offset = 0, rs_index = 0\<rparr>"
  have qs: "GetAvailableEndpoints q = es" "GetUnavailableEndpoints q = []" "pp_internal q = ip" "\<not> pp_locally_canceled q"
    using new_payload_endpoints [OF es(1), of ip False]
    by (simp_all add: q GetAvailableEndpoints_def GetUnavailableEndpoints_def GetEndpoints_def)
       (simp_all add: new_pending_payload_def)
  have "reachable_by env es n ?s2"
    using rb by (simp add: reachable_by_def GetOptimalChunkSize_def)
  then have w: "at_work env ?r q es n ?s2"
    using idle qs es quiet by (simp add: at_work_def idle_sender_def)
  have skip: "skip_to_resume env ?r q es ?s2 = Goes (0, ?s2\<lparr>pm_platform := pm_platform s\<rparr>)"
    by (simp add: skip_to_resume_def)
  have tr: "map_of (pm_tracked ?s2) (pp_id q) = Some (rs_object ?r)"
    using new qs(3) ip(2) by (simp add: pp_id_def map_add_def)
  have "\<exists>u. send_rounds ?t env ?s2 = Some u \<and>
    all_sent es (rs_header ?r) (rs_object ?r) (chunks_of (0 - int (rs_resume_offset ?r)) (rs_index ?r)
      (source_pieces (pm_platform s) p n)) ?s2 u"
    by (rule any_reader.rounds [OF w quiet(1) skip]) (use h tot tr qs concat_pieces [OF src n] in simp_all)
  then show ?thesis
    using ip(1) s2 by auto
qed

text \<open>What has been sent to one endpoint.\<close>

definition frames_to :: "string \<Rightarrow> payload_manager \<Rightarrow> payload_frame list" where
  "frames_to e s = map snd (filter (\<lambda>(k, _). k = e) (pm_sent s))"

lemma frames_all_sent:
  assumes "all_sent es h a cs s u" and "distinct es" and "e \<in> set es"
  shows "frames_to e u = frames_to e s @ map (DataFrame h) cs"
proof -
  have one: "filter (\<lambda>(k, _). k = e) (map (\<lambda>k. (k, f)) es) = [(e, f)]" for f :: payload_frame
    using assms(2,3) by (induction es) (auto simp: filter_empty_conv)
  have "map snd (filter (\<lambda>(k, _). k = e) (concat (map (\<lambda>c. map (\<lambda>k. (k, DataFrame h c)) es) cs))) = map (DataFrame h) cs"
    by (induction cs) (simp_all add: one)
  then show ?thesis
    using assms(1) by (simp add: frames_to_def all_sent_def)
qed

section \<open>Resuming\<close>

lemma skip_file_loop:
  "io_open f \<Longrightarrow> io_good f \<Longrightarrow> left \<le> length (io_data f) \<Longrightarrow>
   skip_loop (IOFile_Read None) off left f = (Skipped off, f\<lparr>io_data := drop left (io_data f)\<rparr>)"
proof (induction left arbitrary: f rule: less_induct)
  case (less left)
  show ?case
  proof (cases "left = 0")
    case True
    then show ?thesis
      by (simp add: skip_loop.simps)
  next
    case False
    let ?k = "min left kSkipBufferSize"
    let ?f = "f\<lparr>io_data := drop ?k (io_data f)\<rparr>"
    have k: "0 < ?k" "?k \<le> length (io_data f)" "left - ?k < left"
      using False less.prems(3) by (auto simp: kSkipBufferSize_def)
    then have "IOFile_Read None ?k f = (ReadBytes (take ?k (io_data f)), ?f)" and ne: "take ?k (io_data f) \<noteq> []"
      and len: "length (take ?k (io_data f)) = ?k"
      using less.prems(1,2) by (auto simp: IOFile_Read_def Let_def)
    then have "skip_loop (IOFile_Read None) off left f = skip_loop (IOFile_Read None) off (left - ?k) ?f"
      using False k(1) by (subst skip_loop.simps) (simp add: ne del: take_eq_Nil)
    also have "\<dots> = (Skipped off, ?f\<lparr>io_data := drop (left - ?k) (io_data ?f)\<rparr>)"
      by (rule less.IH [OF k(3)]) (use less.prems in auto)
    also have "drop (left - ?k) (io_data ?f) = drop left (io_data f)"
      by simp
    finally show ?thesis
      by simp
  qed
qed

lemma resume_file:
  assumes idle: "idle_sender kFile s" and new: "map_of (pm_tracked s) (payload_id p) = None"
    and kind: "payload_type p = kFile" "AsFile p = Some f" and src: "source_ready (pm_platform s) p"
    and resume: "flag_send_payload_offset (pm_flags s)" "0 < payload_offset p"
      "payload_offset p \<le> length (io_data (pf_files (pm_platform s) f))"
    and es: "distinct es" "es \<noteq> []" and rb: "reachable_by env es n s"
    and quiet: "le_delivers env = None" "le_while_reading env = []"
  shows "\<exists>u ip. send_rounds kFile env (sender_step kFile env (SendPayload es p s)) = Some u \<and>
    CreateOutgoingInternalPayload (pm_platform s) p = Some ip \<and>
    all_sent es (CreatePayloadHeader ip (payload_offset p)) (pm_next s)
      (chunks_of 0 0 (chop n (drop (payload_offset p) (io_data (pf_files (pm_platform s) f)))))
      (sender_step kFile env (SendPayload es p s)) u \<and> pm_sent (sender_step kFile env (SendPayload es p s)) = pm_sent s"
proof -
  let ?a = "pm_next s" and ?k = "payload_offset p" and ?file = "pf_files (pm_platform s) f"
  let ?ip = "\<lparr>ip_payload = p, ip_id = payload_id p, ip_kind = OutgoingFileInternalPayload (io_total_size ?file)\<rparr>"
  have ready: "io_open ?file" "io_good ?file" "int (length (io_data ?file)) \<le> io_total_size ?file"
    using src kind by (simp_all add: source_ready_def)
  have ip: "CreateOutgoingInternalPayload (pm_platform s) p = Some ?ip"
    by (simp add: CreateOutgoingInternalPayload_def kind)
  let ?r = "\<lparr>rs_object = ?a, rs_header = CreatePayloadHeader ?ip ?k, rs_offset = 0, rs_resume_offset = ?k, rs_index = 0\<rparr>"
  let ?q = "(new_pending_payload ?ip es False)\<lparr>pp_refcount := 2\<rparr>"
  let ?s2 = "s\<lparr>pm_objects := (pm_objects s)(?a \<mapsto> ?q), pm_tracked := pm_tracked s @ [(payload_id p, ?a)],
      pm_next := Suc ?a, pm_senders := (pm_senders s)(kFile := \<lparr>sd_queue = [], sd_running = Some ?r\<rparr>)\<rparr>"
  have s2: "sender_step kFile env (SendPayload es p s) = ?s2"
    using send_begins [of p s ?ip ?k env es] idle new ip kind(1) resume(1) by simp
  have qs: "GetAvailableEndpoints ?q = es" "GetUnavailableEndpoints ?q = []" "pp_internal ?q = ?ip" "\<not> pp_locally_canceled ?q"
    using new_payload_endpoints [OF es(1), of ?ip False]
    by (simp_all add: GetAvailableEndpoints_def GetUnavailableEndpoints_def GetEndpoints_def)
       (simp_all add: new_pending_payload_def)
  have "reachable_by env es n ?s2"
    using rb by (simp add: reachable_by_def GetOptimalChunkSize_def)
  then have w: "at_work env ?r ?q es n ?s2"
    using idle qs es quiet by (simp add: at_work_def idle_sender_def)
  let ?pf = "(pm_platform s)\<lparr>pf_files := (pf_files (pm_platform s))(f := ?file\<lparr>io_data := drop ?k (io_data ?file)\<rparr>)\<rparr>"
  have "SkipToOffset (le_delivers env) ?k ?ip (pm_platform s) = (Skipped ?k, ?pf)"
    using kind skip_file_loop [OF ready(1,2) resume(3)]
    by (simp add: SkipToOffset_def on_file_def InputStream_Skip_def quiet)
  then have skip: "skip_to_resume env ?r ?q es ?s2 = Goes (int ?k, ?s2\<lparr>pm_platform := ?pf\<rparr>)"
    using resume(2) qs(3) by (simp add: skip_to_resume_def)
  have h: "file_holds (pp_internal ?q) ?pf n (chop n (drop ?k (io_data ?file)))"
    using ready kind qs(3) by (simp add: file_holds_def)
  have n: "0 < n"
    using rb by (simp add: reachable_by_def)
  have tr: "map_of (pm_tracked ?s2) (pp_id ?q) = Some (rs_object ?r)"
    using new qs(3) by (simp add: pp_id_def map_add_def)
  have "\<exists>u. send_rounds kFile env ?s2 = Some u \<and>
    all_sent es (rs_header ?r) (rs_object ?r) (chunks_of (int ?k - int (rs_resume_offset ?r)) (rs_index ?r)
      (chop n (drop ?k (io_data ?file)))) ?s2 u"
    by (rule file_reader.rounds [OF w quiet(1) skip _ h _ _ tr]) (use ready(3) qs(3) resume(3) concat_chop [OF n] in simp_all)
  then show ?thesis
    using ip s2 by auto
qed

section \<open>Receiving\<close>

definition receive_frames ::
  "incoming_env \<Rightarrow> string \<Rightarrow> payload_frame list \<Rightarrow> payload_manager \<Rightarrow> payload_manager" where
  "receive_frames env e = fold (Payload_OnIncomingFrame env e)"

definition chunk_received_task :: "string \<Rightarrow> payload_header \<Rightarrow> payload_chunk \<Rightarrow> status_task" where
  "chunk_received_task e h c = IncomingChunkReceived e h (ck_flags c) (ck_offset c) (int (length (ck_body c)))"

text \<open>The payload at \<open>a\<close> is being received from a connected endpoint.\<close>

definition collecting :: "int \<Rightarrow> nat \<Rightarrow> internal_payload \<Rightarrow> string \<Rightarrow> payload_manager \<Rightarrow> bool" where
  "collecting i a ip e s \<longleftrightarrow>
     map_of (pm_tracked s) i = Some a \<and> (\<exists>p. pm_objects s a = Some p \<and> pp_internal p = ip \<and>
       \<not> pp_locally_canceled p) \<and> ip_id ip = i \<and> IsConnectedToEndpoint e (pm_client s) \<and>
     \<not> flag_payload_received_ack (pm_flags s)"

lemma release_tracked:
  "pm_objects s a = Some p \<Longrightarrow> pp_id p = i \<Longrightarrow> map_of (pm_tracked s) i = Some a \<Longrightarrow>
   PendingPayloads_Release a s = add_ref (- 1) a s"
  by (simp add: PendingPayloads_Release_def with_object_def)

lemma receive_step:
  assumes p: "pm_objects s a = Some p" "\<not> pp_locally_canceled p" "\<not> flag_payload_received_ack (pm_flags s)"
    and attach: "AttachNextChunk (ie_disk_ok env) (ck_body c) (pp_internal p) (pm_platform s) = (True, pf)"
  shows "\<exists>m. receive_chunk env e h c a s =
    s\<lparr>pm_objects := (pm_objects s)(a \<mapsto> SetOffsetForEndpoint e (ck_offset c) p), pm_platform := pf,
      pm_status_tasks := pm_status_tasks s @ [chunk_received_task e h c], pm_incoming_updates := m\<rparr>"
proof -
  let ?s1 = "s\<lparr>pm_objects := (pm_objects s)(a \<mapsto> SetOffsetForEndpoint e (ck_offset c) p)\<rparr>"
  let ?m = "if flag_skip_chunk_update (pm_flags s) then pm_incoming_updates s + 1 else pm_incoming_updates s"
  have w: "write_object a (SetOffsetForEndpoint e (ck_offset c)) s = ?s1"
    by (simp add: write_object_def p(1))
  have "receive_chunk env e h c a s =
      HandleSuccessfulIncomingChunk e h (ck_flags c) (ck_offset c) (int (length (ck_body c))) (?s1\<lparr>pm_platform := pf\<rparr>)"
    using attach p by (simp add: receive_chunk_def with_object_def w SendPayloadReceivedAck_def ack_enabled_def Let_def)
  also have "\<dots> = ?s1\<lparr>pm_platform := pf, pm_status_tasks := pm_status_tasks s @ [chunk_received_task e h c],
      pm_incoming_updates := ?m\<rparr>"
    by (simp add: HandleSuccessfulIncomingChunk_def RunOnStatusUpdateThread_def chunk_received_task_def)
  finally show ?thesis
    by - (rule exI [of _ ?m], simp)
qed

lemma collecting_step:
  assumes c: "collecting (header_id h) a ip e s" and h: "header_id h \<noteq> 0" and off: "ck_offset c \<noteq> 0"
    and attach: "AttachNextChunk (ie_disk_ok env) (ck_body c) ip (pm_platform s) = (True, pf)"
  shows "collecting (header_id h) a ip e (Payload_OnIncomingFrame env e (DataFrame h c) s) \<and>
    pm_platform (Payload_OnIncomingFrame env e (DataFrame h c) s) = pf \<and>
    pm_status_tasks (Payload_OnIncomingFrame env e (DataFrame h c) s) = pm_status_tasks s @ [chunk_received_task e h c]"
proof -
  obtain p where p: "pm_objects s a = Some p" "pp_internal p = ip" "\<not> pp_locally_canceled p"
    and tr: "map_of (pm_tracked s) (header_id h) = Some a" and id1: "ip_id ip = header_id h"
    and co: "IsConnectedToEndpoint e (pm_client s)" "\<not> flag_payload_received_ack (pm_flags s)"
    using c by (auto simp: collecting_def)
  let ?p1 = "p\<lparr>pp_refcount := pp_refcount p + 1\<rparr>"
  let ?s1 = "s\<lparr>pm_objects := (pm_objects s)(a \<mapsto> ?p1)\<rparr>"
  have get: "GetPayload (header_id h) s = (Some a, ?s1)"
    by (simp add: GetPayload_def tr add_ref_def write_object_def p(1))
  from receive_step [of ?s1 a ?p1 env c pf e h] p co attach obtain m where
    rc: "receive_chunk env e h c a ?s1 = ?s1\<lparr>pm_objects := (pm_objects s)(a \<mapsto> SetOffsetForEndpoint e (ck_offset c) ?p1),
      pm_platform := pf, pm_status_tasks := pm_status_tasks s @ [chunk_received_task e h c], pm_incoming_updates := m\<rparr>"
      (is "_ = ?s2")
    by auto
  have q: "pp_id (SetOffsetForEndpoint e (ck_offset c) ?p1) = header_id h"
    "pp_internal (SetOffsetForEndpoint e (ck_offset c) ?p1) = ip"
    "\<not> pp_locally_canceled (SetOffsetForEndpoint e (ck_offset c) ?p1)"
    using p id1 by (simp_all add: pp_id_def SetOffsetForEndpoint_def update_endpoint_info_def)
  have "PendingPayloads_Release a ?s2 = add_ref (- 1) a ?s2"
    by (rule release_tracked [OF _ q(1)]) (simp_all add: tr)
  then have "Payload_OnIncomingFrame env e (DataFrame h c) s = add_ref (- 1) a ?s2"
    using co h off by (simp add: Payload_OnIncomingFrame_def ProcessDataPacket_def with_payload_def get rc)
  then show ?thesis
    using tr q co id1 by (simp add: collecting_def add_ref_def write_object_def)
qed

lemma collecting_first:
  assumes new: "map_of (pm_tracked s) (header_id h) = None" and h: "header_id h \<noteq> 0"
    and co: "IsConnectedToEndpoint e (pm_client s)" "\<not> flag_payload_received_ack (pm_flags s)"
    and off: "ck_offset c = 0"
    and create: "CreateIncomingInternalPayload env (pm_save_path s) (DataFrame h c) (pm_platform s) = Inr (ip, pf)"
    and id1: "ip_id ip = header_id h"
    and attach: "AttachNextChunk (ie_disk_ok env) (ck_body c) ip pf = (True, pf')"
  shows "let t = Payload_OnIncomingFrame env e (DataFrame h c) s
    in collecting (header_id h) (pm_next s) ip e t \<and> pm_platform t = pf' \<and>
       pm_status_tasks t = pm_status_tasks s @ [NewPayload e (Some (pm_next s)), chunk_received_task e h c]"
proof -
  let ?i = "header_id h" and ?a = "pm_next s"
  let ?p = "\<lambda>n. (new_pending_payload ip [e] True)\<lparr>pp_refcount := n\<rparr>"
  let ?s1 = "\<lambda>n. s\<lparr>pm_platform := pf, pm_objects := (pm_objects s)(?a \<mapsto> ?p n),
    pm_tracked := pm_tracked s @ [(?i, ?a)], pm_next := Suc ?a\<rparr>"
  have "CreateIncomingPayload env (DataFrame h c) e s = Inr (?s1 1)"
    using new by (simp add: CreateIncomingPayload_def create id1 start_fresh new_pending_payload_def)
  moreover have "map_of (pm_tracked s @ [(?i, ?a)]) ?i = Some ?a"
    using new by (simp add: map_add_def)
  then have get: "GetPayload ?i (?s1 n) = (Some ?a, ?s1 (n + 1))" for n
    by (simp add: GetPayload_def add_ref_def write_object_def)
  let ?s2 = "(?s1 3)\<lparr>pm_status_tasks := pm_status_tasks s @ [NewPayload e (Some ?a)]\<rparr>"
  have "announce_payload e ?i (?s1 2) = ?s2"
    using get [of 2] by (simp add: announce_payload_def RunOnStatusUpdateThread_def)
  moreover have np: "\<not> pp_locally_canceled (?p 3)" "pp_internal (?p 3) = ip"
    by (simp_all add: new_pending_payload_def)
  from receive_step [of ?s2 ?a "?p 3" env c pf' e h] co attach np obtain m where
    "receive_chunk env e h c ?a ?s2 = ?s2\<lparr>pm_objects := (pm_objects s)(?a \<mapsto> SetOffsetForEndpoint e (ck_offset c) (?p 3)),
      pm_platform := pf', pm_status_tasks := pm_status_tasks s @ [NewPayload e (Some ?a), chunk_received_task e h c],
      pm_incoming_updates := m\<rparr>" (is "_ = ?s3")
    by auto
  moreover
  have q: "pp_id (SetOffsetForEndpoint e (ck_offset c) (?p 3)) = ?i"
    "pp_internal (SetOffsetForEndpoint e (ck_offset c) (?p 3)) = ip"
    "\<not> pp_locally_canceled (SetOffsetForEndpoint e (ck_offset c) (?p 3))"
    using np id1 by (simp_all add: pp_id_def SetOffsetForEndpoint_def update_endpoint_info_def)
  moreover have "PendingPayloads_Release ?a ?s3 = add_ref (- 1) ?a ?s3"
    by (rule release_tracked [OF _ q(1)]) (use new in \<open>simp_all add: map_add_def\<close>)
  ultimately have "Payload_OnIncomingFrame env e (DataFrame h c) s = add_ref (- 1) ?a ?s3"
    using co h off get [of 1] by (simp add: Payload_OnIncomingFrame_def ProcessDataPacket_def with_payload_def)
  then show ?thesis
    using q co id1 new by (simp add: collecting_def add_ref_def write_object_def map_add_def)
qed

locale payload_collector =
  fixes collects :: "internal_payload \<Rightarrow> platform \<Rightarrow> bytes \<Rightarrow> bool"
    and collected :: "internal_payload \<Rightarrow> platform \<Rightarrow> bytes \<Rightarrow> bool"
  assumes more: "collects ip pf bs \<Longrightarrow> b \<noteq> [] \<Longrightarrow>
      \<exists>pf'. AttachNextChunk True b ip pf = (True, pf') \<and> collects ip pf' (bs @ b)"
    and last_one: "collects ip pf bs \<Longrightarrow>
      \<exists>pf'. AttachNextChunk True [] ip pf = (True, pf') \<and> collected ip pf' bs"
begin

lemma collect_rest:
  assumes "collecting (header_id h) a ip e s" and h: "header_id h \<noteq> 0" and disk: "ie_disk_ok env"
    and "collects ip (pm_platform s) bs" and "0 < off" and "[] \<notin> set bodies"
  shows "let t = receive_frames env e (map (DataFrame h) (chunks_of off idx bodies)) s
    in collecting (header_id h) a ip e t \<and> collected ip (pm_platform t) (bs @ concat bodies) \<and>
       pm_status_tasks t = pm_status_tasks s @ map (chunk_received_task e h) (chunks_of off idx bodies)"
  using assms(1,4-6)
proof (induction bodies arbitrary: s bs off idx)
  case Nil
  let ?c = "CreatePayloadChunk off [] idx"
  from last_one [OF Nil(2)] obtain pf where
    a: "AttachNextChunk (ie_disk_ok env) (ck_body ?c) ip (pm_platform s) = (True, pf)" "collected ip pf bs"
    by (auto simp: disk CreatePayloadChunk_def)
  have "ck_offset ?c \<noteq> 0"
    using Nil(3) by (simp add: CreatePayloadChunk_def)
  from collecting_step [OF Nil(1) h this a(1)] a(2) show ?case
    by (simp add: receive_frames_def Let_def)
next
  case (Cons b bodies)
  let ?c = "CreatePayloadChunk off b idx" and ?t = "Payload_OnIncomingFrame env e (DataFrame h (CreatePayloadChunk off b idx)) s"
  from more [OF Cons.prems(2), of b] Cons.prems(4) obtain pf where
    a: "AttachNextChunk (ie_disk_ok env) (ck_body ?c) ip (pm_platform s) = (True, pf)" "collects ip pf (bs @ b)"
    by (auto simp: disk CreatePayloadChunk_def)
  have "ck_offset ?c \<noteq> 0"
    using Cons.prems(3) by (simp add: CreatePayloadChunk_def)
  note st = collecting_step [OF Cons.prems(1) h this a(1)]
  have "let t = receive_frames env e (map (DataFrame h) (chunks_of (off + int (length b)) (idx + 1) bodies)) ?t
    in collecting (header_id h) a ip e t \<and> collected ip (pm_platform t) ((bs @ b) @ concat bodies) \<and>
       pm_status_tasks t = pm_status_tasks ?t @ map (chunk_received_task e h) (chunks_of (off + int (length b)) (idx + 1) bodies)"
    by (rule Cons.IH) (use st a Cons.prems in auto)
  then show ?case
    using st by (simp add: receive_frames_def Let_def)
qed

lemma collect_all:
  assumes new: "map_of (pm_tracked s) (header_id h) = None" and h: "header_id h \<noteq> 0"
    and co: "IsConnectedToEndpoint e (pm_client s)" "\<not> flag_payload_received_ack (pm_flags s)"
    and disk: "ie_disk_ok env" and ne: "[] \<notin> set bodies"
    and create: "\<And>c. CreateIncomingInternalPayload env (pm_save_path s) (DataFrame h c) (pm_platform s) = Inr (ip, pf)"
    and id1: "ip_id ip = header_id h" and c0: "collects ip pf []"
  shows "let t = receive_frames env e (map (DataFrame h) (chunks_of 0 idx bodies)) s
    in collecting (header_id h) (pm_next s) ip e t \<and> collected ip (pm_platform t) (concat bodies) \<and>
       pm_status_tasks t = pm_status_tasks s @
         NewPayload e (Some (pm_next s)) # map (chunk_received_task e h) (chunks_of 0 idx bodies)"
proof (cases bodies)
  case Nil
  let ?c = "CreatePayloadChunk 0 [] idx"
  from last_one [OF c0] obtain pf' where
    a: "AttachNextChunk (ie_disk_ok env) (ck_body ?c) ip pf = (True, pf')" "collected ip pf' []"
    by (auto simp: disk CreatePayloadChunk_def)
  have "ck_offset ?c = 0"
    by (simp add: CreatePayloadChunk_def)
  from collecting_first [OF new h co this create id1 a(1)] a(2) show ?thesis
    by (simp add: receive_frames_def Let_def Nil)
next
  case (Cons b bs)
  let ?c = "CreatePayloadChunk 0 b idx" and ?t = "Payload_OnIncomingFrame env e (DataFrame h (CreatePayloadChunk 0 b idx)) s"
  have b: "b \<noteq> []" "[] \<notin> set bs"
    using ne Cons by auto
  from more [OF c0 b(1)] obtain pf' where
    a: "AttachNextChunk (ie_disk_ok env) (ck_body ?c) ip pf = (True, pf')" "collects ip pf' b"
    by (auto simp: disk CreatePayloadChunk_def)
  have "ck_offset ?c = 0"
    by (simp add: CreatePayloadChunk_def)
  note st = collecting_first [OF new h co this create id1 a(1), unfolded Let_def]
  have "let t = receive_frames env e (map (DataFrame h) (chunks_of (int (length b)) (idx + 1) bs)) ?t
    in collecting (header_id h) (pm_next s) ip e t \<and> collected ip (pm_platform t) (b @ concat bs) \<and>
       pm_status_tasks t = pm_status_tasks ?t @ map (chunk_received_task e h) (chunks_of (int (length b)) (idx + 1) bs)"
    by (rule collect_rest) (use st a b h disk in auto)
  then show ?thesis
    using st by (simp add: receive_frames_def Let_def Cons)
qed

end

section \<open>What is received\<close>

definition file_collects :: "internal_payload \<Rightarrow> platform \<Rightarrow> bytes \<Rightarrow> bool" where
  "file_collects ip pf bs \<longleftrightarrow> (\<exists>f m k. ip_kind ip = IncomingFileInternalPayload f m k \<and>
     payload_content (ip_payload ip) = FileContent f \<and> io_open (pf_files pf f) \<and> io_good (pf_files pf f) \<and>
     io_data (pf_files pf f) = bs)"

definition file_collected :: "internal_payload \<Rightarrow> platform \<Rightarrow> bytes \<Rightarrow> bool" where
  "file_collected ip pf bs \<longleftrightarrow> source_content pf (ip_payload ip) = bs"

definition stream_collects :: "internal_payload \<Rightarrow> platform \<Rightarrow> bytes \<Rightarrow> bool" where
  "stream_collects ip pf bs \<longleftrightarrow> (\<exists>r. ip_kind ip = IncomingStreamInternalPayload r \<and>
     payload_content (ip_payload ip) = StreamContent r \<and> \<not> pipe_read_all (pf_pipes pf r) \<and>
     \<not> pipe_input_closed (pf_pipes pf r) \<and> \<not> pipe_output_closed (pf_pipes pf r) \<and>
     concat (pipe_buffer (pf_pipes pf r)) = bs \<and> [] \<notin> set (pipe_buffer (pf_pipes pf r)))"

definition stream_collected :: "internal_payload \<Rightarrow> platform \<Rightarrow> bytes \<Rightarrow> bool" where
  "stream_collected ip pf bs \<longleftrightarrow> source_content pf (ip_payload ip) = bs \<and>
     (payload_type (ip_payload ip) = kStream \<longrightarrow> source_ready pf (ip_payload ip))"

interpretation file_collector: payload_collector file_collects file_collected
proof
  fix ip pf bs and b :: bytes
  assume "file_collects ip pf bs"
  then obtain f m k where f: "ip_kind ip = IncomingFileInternalPayload f m k"
    "payload_content (ip_payload ip) = FileContent f" "io_open (pf_files pf f)" "io_good (pf_files pf f)"
    "io_data (pf_files pf f) = bs"
    by (auto simp: file_collects_def)
  show "\<exists>pf'. AttachNextChunk True b ip pf = (True, pf') \<and> file_collects ip pf' (bs @ b)" if "b \<noteq> []"
    using f that by (simp add: AttachNextChunk_def on_file_def IOFile_Write_def file_collects_def)
  show "\<exists>pf'. AttachNextChunk True [] ip pf = (True, pf') \<and> file_collected ip pf' bs"
    using f by (simp add: AttachNextChunk_def close_file_def on_file_def IOFile_Close_def file_collected_def
        source_content_def)
qed

interpretation stream_collector: payload_collector stream_collects stream_collected
proof
  fix ip pf bs and b :: bytes
  assume "stream_collects ip pf bs"
  then obtain r where r: "ip_kind ip = IncomingStreamInternalPayload r"
    "payload_content (ip_payload ip) = StreamContent r" "\<not> pipe_read_all (pf_pipes pf r)"
    "\<not> pipe_input_closed (pf_pipes pf r)" "\<not> pipe_output_closed (pf_pipes pf r)"
    "concat (pipe_buffer (pf_pipes pf r)) = bs" "[] \<notin> set (pipe_buffer (pf_pipes pf r))"
    by (auto simp: stream_collects_def)
  show "\<exists>pf'. AttachNextChunk True b ip pf = (True, pf') \<and> stream_collects ip pf' (bs @ b)" if "b \<noteq> []"
    using r that by (simp add: AttachNextChunk_def on_pipe_def Pipe_Write_def stream_collects_def)
  show "\<exists>pf'. AttachNextChunk True [] ip pf = (True, pf') \<and> stream_collected ip pf' bs"
    using r by (simp add: AttachNextChunk_def close_pipe_output_def on_pipe_def MarkOutputStreamClosed_def
        Pipe_Write_def stream_collected_def source_content_def source_ready_def AsStream_def)
qed

definition arrived ::
  "payload_header \<Rightarrow> payload_chunk list \<Rightarrow> string \<Rightarrow> payload_manager \<Rightarrow> payload_manager \<Rightarrow> payload \<Rightarrow> bytes \<Rightarrow> bool" where
  "arrived h cs e s t p bs \<longleftrightarrow>
     (\<exists>q. pm_objects t (pm_next s) = Some q \<and> ip_payload (pp_internal q) = p \<and>
        map_of (pm_tracked t) (payload_id p) = Some (pm_next s)) \<and>
     source_content (pm_platform t) p = bs \<and> (payload_type p = kStream \<longrightarrow> source_ready (pm_platform t) p) \<and>
     pm_status_tasks t = pm_status_tasks s @ NewPayload e (Some (pm_next s)) # map (chunk_received_task e h) cs"

lemma outgoing_header:
  assumes "CreateOutgoingInternalPayload pf p = Some ip"
  shows "header_id (CreatePayloadHeader ip 0) = payload_id p"
    and "header_type (CreatePayloadHeader ip 0) = GetType (ip_kind ip)"
    and "hd_file_name (CreatePayloadHeader ip 0) = (if payload_type p = kFile then Some (payload_file_name p) else None)"
    and "GetType (ip_kind ip) = (case payload_type p of kFile \<Rightarrow> FILE | kStream \<Rightarrow> STREAM | _ \<Rightarrow> BYTES)"
  using assms by (auto simp: CreateOutgoingInternalPayload_def CreatePayloadHeader_def header_id_def header_type_def
      Let_def split: PayloadType.splits)

lemma arrives:
  assumes new: "map_of (pm_tracked r) (payload_id p) = None" and i: "payload_id p \<noteq> 0"
    and co: "IsConnectedToEndpoint e (pm_client r)" "\<not> flag_payload_received_ack (pm_flags r)"
    and disk: "ie_disk_ok env" and valid: "\<And>path. ie_output_valid env path"
    and ip: "CreateOutgoingInternalPayload pf p = Some ip" and src: "source_ready pf p" and n: "0 < n"
  shows "\<exists>p'. payload_type p' = payload_type p \<and> payload_id p' = payload_id p \<and>
    arrived (CreatePayloadHeader ip 0) (chunks_of 0 0 (source_pieces pf p n)) e r
      (receive_frames env e (map (DataFrame (CreatePayloadHeader ip 0)) (chunks_of 0 0 (source_pieces pf p n))) r)
      p' (source_content pf p)"
proof -
  let ?h = "CreatePayloadHeader ip 0" and ?cs = "chunks_of 0 0 (source_pieces pf p n)"
  let ?t = "receive_frames env e (map (DataFrame ?h) ?cs) r"
  have hid: "header_id ?h = payload_id p"
    by (rule outgoing_header [OF ip])
  have new': "map_of (pm_tracked r) (header_id ?h) = None" and i': "header_id ?h \<noteq> 0"
    using new i hid by simp_all
  have done1: ?thesis if "collecting (header_id ?h) (pm_next r) ipr e ?t" "source_content (pm_platform ?t) (ip_payload ipr) = source_content pf p"
    "payload_type (ip_payload ipr) = kStream \<longrightarrow> source_ready (pm_platform ?t) (ip_payload ipr)"
    "pm_status_tasks ?t = pm_status_tasks r @ NewPayload e (Some (pm_next r)) # map (chunk_received_task e ?h) ?cs"
    "payload_type (ip_payload ipr) = payload_type p" "payload_id (ip_payload ipr) = payload_id p" for ipr
    by (rule exI [of _ "ip_payload ipr"]) (use that hid in \<open>auto simp: arrived_def collecting_def\<close>)
  show ?thesis
  proof (cases "payload_type p")
    case kFile
    then have h: "header_type ?h = FILE" "hd_file_name ?h = Some (payload_file_name p)"
      using outgoing_header [OF ip] by simp_all
    obtain ipr pfr where c: "\<And>c. CreateIncomingInternalPayload env (pm_save_path r) (DataFrame ?h c) (pm_platform r) = Inr (ipr, pfr)"
      and ipr: "ip_id ipr = header_id ?h" "file_collects ipr pfr []" "payload_type (ip_payload ipr) = kFile"
        "payload_id (ip_payload ipr) = header_id ?h"
    proof -
      have "\<exists>ipr pfr. new_incoming_file env (pm_save_path r) ?h (pm_platform r) = Inr (ipr, pfr) \<and>
          ip_id ipr = header_id ?h \<and> file_collects ipr pfr [] \<and> payload_type (ip_payload ipr) = kFile \<and>
          payload_id (ip_payload ipr) = header_id ?h"
        using h(2) valid by (auto simp: new_incoming_file_def Let_def open_output_def file_collects_def file_payload_def)
      then show ?thesis
        using h(1) that by (auto simp: CreateIncomingInternalPayload_def)
    qed
    from file_collector.collect_all [OF new' i' co disk pieces_no_Nil c ipr(1,2), of 0 pf p n]
    show ?thesis
      using ipr kFile hid concat_pieces [OF src n]
      by (intro done1 [of ipr]) (auto simp: file_collected_def Let_def)
  next
    case kStream
    then have h: "header_type ?h = STREAM"
      using outgoing_header [OF ip] by simp
    obtain ipr pfr where c: "\<And>c. CreateIncomingInternalPayload env (pm_save_path r) (DataFrame ?h c) (pm_platform r) = Inr (ipr, pfr)"
      and ipr: "ip_id ipr = header_id ?h" "stream_collects ipr pfr []" "payload_type (ip_payload ipr) = kStream"
        "payload_id (ip_payload ipr) = header_id ?h"
      using h that by (auto simp: CreateIncomingInternalPayload_def CreatePipe_def stream_collects_def stream_payload_def
          new_pipe_def)
    from stream_collector.collect_all [OF new' i' co disk pieces_no_Nil c ipr(1,2), of 0 pf p n]
    show ?thesis
      using ipr kStream hid concat_pieces [OF src n]
      by (intro done1 [of ipr]) (auto simp: stream_collected_def Let_def)
  next
    case kBytes
    let ?b = "AsBytes p"
    let ?c = "CreatePayloadChunk 0 ?b 0" and ?l = "CreatePayloadChunk (int (length ?b)) [] 1"
    have b: "source_content pf p = ?b"
      using src kBytes by (simp add: source_ready_def source_content_def)
    have h: "header_type ?h = BYTES"
      using outgoing_header [OF ip] kBytes by simp
    define ipr where "ipr = \<lparr>ip_payload = bytes_payload (header_id ?h) ?b, ip_id = header_id ?h,
      ip_kind = BytesInternalPayload (int (length ?b)) False\<rparr>"
    have c: "CreateIncomingInternalPayload env (pm_save_path r) (DataFrame ?h ?c) (pm_platform r) = Inr (ipr, pm_platform r)"
      using h by (simp add: CreateIncomingInternalPayload_def ipr_def CreatePayloadChunk_def)
    have at: "AttachNextChunk b1 x ipr y = (True, y)" for b1 x y
      by (simp add: AttachNextChunk_def ipr_def)
    have off: "ck_offset ?c = 0" and id1: "ip_id ipr = header_id ?h"
      by (simp_all add: CreatePayloadChunk_def ipr_def)
    let ?u = "Payload_OnIncomingFrame env e (DataFrame ?h ?c) r"
    note st = collecting_first [OF new' i' co off c id1 at, unfolded Let_def]
    have t: "collecting (header_id ?h) (pm_next r) ipr e ?t \<and> pm_platform ?t = pm_platform r \<and>
        pm_status_tasks ?t = pm_status_tasks r @ NewPayload e (Some (pm_next r)) # map (chunk_received_task e ?h) ?cs"
    proof (cases "?b = []")
      case True
      then show ?thesis
        using st kBytes by (simp add: source_pieces_def receive_frames_def)
    next
      case False
      then have "ck_offset ?l \<noteq> 0"
        by (simp add: CreatePayloadChunk_def)
      with collecting_step [OF conjunct1 [OF st] i' this at] st False kBytes show ?thesis
        by (simp add: source_pieces_def receive_frames_def)
    qed
    show ?thesis
      by (rule done1 [of ipr]) (use t kBytes b hid in \<open>simp_all add: ipr_def source_content_def bytes_payload_def\<close>)
  qed (use src in \<open>simp add: source_ready_def\<close>)
qed

end
