(* ===== verification/Payload_Props.thy ===== *)
theory Payload_Props
  imports Payload_Transfer Client_Props Channel_Props
begin

text \<open>
  Properties of payload transfer (connections/implementation/payload_manager.cc).
\<close>

section \<open>Sample states\<close>

definition default_flags :: payload_flags where
  "default_flags = \<lparr>flag_payload_received_ack = False, flag_skip_chunk_update = True,
     flag_send_payload_offset = True\<rparr>"

definition connected_client :: client_proxy where
  "connected_client = proxy_run (butlast sample_ops) (ClientProxy_new plain_flags False False False)"

definition sample_channels :: channel_map where
  "sample_channels = RegisterChannelForEndpoint True ''ABCD'' (sample_channel 1 BLE) []"

definition sample_manager :: payload_manager where
  "sample_manager = PayloadManager_new default_flags empty_platform connected_client sample_channels"

definition sample_env :: loop_env where
  "sample_env = \<lparr>le_delivers = None, le_packet_size = (\<lambda>_. 2), le_write_ok = (\<lambda>_. True),
     le_while_reading = [], le_while_waiting = (\<lambda>_. []), le_interrupted = (\<lambda>_. False)\<rparr>"

definition sample_incoming :: incoming_env where
  "sample_incoming = \<lparr>ie_write_ok = (\<lambda>_. True), ie_disk_ok = True, ie_chrome_os = False,
     ie_output_valid = (\<lambda>_. True), ie_custom_save_path = (\<lambda>d f. d @ f), ie_download_path = (\<lambda>d f. d @ f),
     ie_now = 0, ie_show = (\<lambda>_. ''0'')\<rparr>"

lemma sample_channel_found: "GetChannelForEndpoint ''ABCD'' sample_channels = Some (sample_channel 1 BLE)"
  by code_simp

lemma sample_connected: "IsConnectedToEndpoint ''ABCD'' connected_client"
  by code_simp

lemma sample_no_updates: "updates e i connected_client = []"
proof -
  have "client_trace connected_client = [CbInitiated (ToListener 1) ''ABCD'', CbAccepted (ToListener 1) ''ABCD'']"
    by code_simp
  then show ?thesis
    by (simp add: updates_def)
qed

section \<open>Handles\<close>

text \<open>
  C2: In every run of the payload manager, whatever the interleaving of the senders, the status
  thread, the frames that arrive and the client's calls: the count of a pending payload is the
  number of handles that are held on it, plus one while it is tracked; a payload exists exactly as
  long as it is tracked or a handle is held; and with acknowledgements off (as they are by default)
  no thread uses a payload that is gone.
\<close>

theorem payload_handles_safe:
  assumes "s = pm_run sts (PayloadManager_new fl pf cl ch)"
  shows "(pm_objects s a = None \<longleftrightarrow> a \<notin> snd ` set (pm_tracked s) \<and> held s a = 0) \<and>
    (\<forall>p. pm_objects s a = Some p \<longrightarrow>
       pp_refcount p = int (held s a) + (if a \<in> snd ` set (pm_tracked s) then 1 else 0)) \<and>
    (\<not> flag_payload_received_ack fl \<longrightarrow> \<not> pm_crashed s)"
proof -
  have "counted False (\<lambda>_. 0) s"
    using counted_run [OF counted_new] by (simp add: assms)
  then have t: "table_inv (held s) s"
    by (simp add: counted_def)
  note e = table_invD(1) [OF t, of a]
  have nb: "a \<in> set (pm_bin s) \<Longrightarrow> a \<notin> snd ` set (pm_tracked s)"
    using t by (auto simp: table_inv_def)
  have "pm_objects s a = None \<longleftrightarrow> a \<notin> snd ` set (pm_tracked s) \<and> held s a = 0"
    using e by (cases "pm_objects s a") (force simp: entry_ok_def split: if_splits)+
  moreover have "pp_refcount p = int (held s a) + (if a \<in> snd ` set (pm_tracked s) then 1 else 0)"
    if "pm_objects s a = Some p" for p
    using e nb that by (force simp: entry_ok_def split: if_splits)
  moreover have "\<not> pm_crashed s" if "\<not> flag_payload_received_ack fl"
    using counted_run [OF counted_new [of True fl pf cl ch], of sts] that by (simp add: assms counted_def calm_def)
  ultimately show ?thesis
    by blast
qed

definition sample_run :: "pm_step list" where
  "sample_run = [ClientSends [''ABCD''] (bytes_payload 7 [1, 2]), SenderRuns kBytes sample_env,
     SenderRuns kBytes sample_env, SenderRuns kBytes sample_env, OtherThread (StatusTaskRuns 0),
     OtherThread (StatusTaskRuns 0), OtherThread (StatusTaskRuns 0)]"

theorem payload_handles_safe_witness:
  "\<not> pm_crashed (pm_run sample_run sample_manager)"
  using payload_handles_safe [OF refl, of sample_run default_flags] by (simp add: sample_manager_def default_flags_def)

section \<open>Outcomes\<close>

text \<open>
  C3: A payload that the client sends once (and that no data frame claims to be) has at most one
  outcome for each endpoint: of the updates the client is given for the endpoint and the payload, all
  but the last say that the transfer is in progress.  This holds in every run: with failed writes,
  cancellation on either side, endpoints that are lost at any moment, a shutdown.
\<close>

theorem one_outcome_per_endpoint:
  assumes "list_all (step_ok i) sts" and "length (filter (sends_id i) sts) \<le> 1" and "updates e i cl = []"
  shows "one_outcome (updates e i (pm_client (pm_run sts (PayloadManager_new fl pf cl ch))))"
proof -
  obtain fresh where "outcome_inv fresh e i (pm_run sts (PayloadManager_new fl pf cl ch))"
    using outcome_run [OF outcome_new [OF assms(3)] assms(1)] assms(2) by fastforce
  then show ?thesis
    by (simp add: outcome_inv_def)
qed

theorem one_outcome_per_endpoint_witness:
  "one_outcome (updates ''ABCD'' 7 (pm_client (pm_run sample_run sample_manager)))"
  unfolding sample_manager_def
  by (rule one_outcome_per_endpoint)
    (simp_all add: sample_run_def sample_env_def env_ok_def bytes_payload_def sample_no_updates)

section \<open>Transfers\<close>

lemma frames_of_begin:
  assumes "idle_sender (payload_type p) s" and "map_of (pm_tracked s) (payload_id p) = None"
    and "source_ready (pm_platform s) p" and "payload_offset p = 0"
  shows "frames_to e (sender_step (payload_type p) env (SendPayload es p s)) = frames_to e s"
proof -
  have known: "payload_type p \<noteq> kUnknownType"
    using assms(3) by (auto simp: source_ready_def)
  obtain ip where ip: "CreateOutgoingInternalPayload (pm_platform s) p = Some ip"
    using source_holds [OF assms(3)] by blast
  from send_begins [OF assms(1,2) ip outgoing_id [OF ip] known, of 0 env es] assms(4) show ?thesis
    by (auto simp: frames_to_def)
qed

text \<open>
  C30: A sender that is not disturbed ends: a payload whose source can be read to its end goes out, to
  every endpoint it is sent to, as the chunks of its content at consecutive offsets, none larger than
  what the endpoints' channels take (bytes go as one), followed by an empty last chunk; then the
  payload is given up.
\<close>

theorem undisturbed_sender_ends:
  assumes "idle_sender (payload_type p) s" and "map_of (pm_tracked s) (payload_id p) = None"
    and "source_ready (pm_platform s) p" and "payload_offset p = 0"
    and "distinct es" and "es \<noteq> []" and "reachable_by env es n s"
    and "le_delivers env = None" and "le_while_reading env = []"
  shows "\<exists>u h. send_rounds (payload_type p) env (sender_step (payload_type p) env (SendPayload es p s)) = Some u \<and>
    sd_running (pm_senders u (payload_type p)) = None \<and> header_id h = payload_id p \<and>
    last (pm_status_tasks u) = DestroyPayload (payload_id p) \<and>
    (\<forall>e \<in> set es. frames_to e u = frames_to e s @
       map (DataFrame h) (chunks_of 0 0 (source_pieces (pm_platform s) p n)))"
proof -
  let ?s = "sender_step (payload_type p) env (SendPayload es p s)"
  from send_all_of_it [OF assms] obtain u ip where u: "send_rounds (payload_type p) env ?s = Some u"
    and ip: "CreateOutgoingInternalPayload (pm_platform s) p = Some ip"
    and a: "all_sent es (CreatePayloadHeader ip 0) (pm_next s) (chunks_of 0 0 (source_pieces (pm_platform s) p n)) ?s u"
    by blast
  have f: "\<forall>e \<in> set es. frames_to e u = frames_to e s @
      map (DataFrame (CreatePayloadHeader ip 0)) (chunks_of 0 0 (source_pieces (pm_platform s) p n))"
    using frames_all_sent [OF a assms(5)] frames_of_begin [OF assms(1-4)] by simp
  have "\<not> sd_running (pm_senders u (payload_type p)) \<noteq> None"
    using u unfolding send_rounds_def by (rule while_option_stop)
  with u f a outgoing_header(1) [OF ip] show ?thesis
    by (intro exI [of _ u] exI [of _ "CreatePayloadHeader ip 0"]) (simp add: all_sent_def)
qed

theorem undisturbed_sender_ends_witness:
  "\<exists>u h. send_rounds kBytes sample_env (sender_step kBytes sample_env
      (SendPayload [''ABCD''] (bytes_payload 7 [1, 2, 3]) sample_manager)) = Some u \<and>
    frames_to ''ABCD'' u = map (DataFrame h) (chunks_of 0 0 [[1, 2, 3]])"
proof -
  have "reachable_by sample_env [''ABCD''] 2 sample_manager"
    by (simp add: reachable_by_def sample_manager_def PayloadManager_new_def sample_channel_found
        GetOptimalChunkSize_def GetMaxTransmitPacketSize_def) (simp add: sample_env_def)
  from undisturbed_sender_ends [OF _ _ _ _ _ _ this, of "bytes_payload 7 [1, 2, 3]"] show ?thesis
    by (fastforce simp: idle_sender_def sample_manager_def PayloadManager_new_def default_flags_def
        source_ready_def bytes_payload_def AsBytes_def sample_env_def frames_to_def source_pieces_def)
qed



text \<open>
  C31: A transfer that is resumed at an offset sends, in chunks that count from 0 again, exactly the
  part of the file after the offset, and announces the size of that part as the total.
\<close>

theorem resumed_file_sends_rest:
  assumes "idle_sender kFile s" and "map_of (pm_tracked s) (payload_id p) = None"
    and "payload_type p = kFile" and "AsFile p = Some f" and "source_ready (pm_platform s) p"
    and "io_total_size (pf_files (pm_platform s) f) = int (length (io_data (pf_files (pm_platform s) f)))"
    and "flag_send_payload_offset (pm_flags s)" and "0 < payload_offset p"
    and "payload_offset p \<le> length (io_data (pf_files (pm_platform s) f))"
    and "distinct es" and "es \<noteq> []" and "reachable_by env es n s"
    and "le_delivers env = None" and "le_while_reading env = []" and "e \<in> set es"
  shows "\<exists>u h bodies. send_rounds kFile env (sender_step kFile env (SendPayload es p s)) = Some u \<and>
    frames_to e u = frames_to e s @ map (DataFrame h) (chunks_of 0 0 bodies) \<and>
    concat bodies = drop (payload_offset p) (io_data (pf_files (pm_platform s) f)) \<and>
    header_id h = payload_id p \<and> header_total_size h = int (length (concat bodies))"
proof -
  from resume_file [OF assms(1-5,7-14)] obtain u ip where
    u: "send_rounds kFile env (sender_step kFile env (SendPayload es p s)) = Some u"
    and ip: "CreateOutgoingInternalPayload (pm_platform s) p = Some ip"
    and a: "all_sent es (CreatePayloadHeader ip (payload_offset p)) (pm_next s)
      (chunks_of 0 0 (chop n (drop (payload_offset p) (io_data (pf_files (pm_platform s) f)))))
      (sender_step kFile env (SendPayload es p s)) u"
    and same: "pm_sent (sender_step kFile env (SendPayload es p s)) = pm_sent s"
    by blast
  have "0 < n"
    using assms(12) by (simp add: reachable_by_def)
  note c = concat_chop [OF this, of "drop (payload_offset p) (io_data (pf_files (pm_platform s) f))"]
  have h: "header_id (CreatePayloadHeader ip (payload_offset p)) = payload_id p \<and>
      header_total_size (CreatePayloadHeader ip (payload_offset p)) =
        io_total_size (pf_files (pm_platform s) f) - int (payload_offset p)"
    using ip assms(3,4,6) by (auto simp: CreateOutgoingInternalPayload_def CreatePayloadHeader_def header_id_def
        header_total_size_def kIndeterminateSize_def)
  show ?thesis
    using u frames_all_sent [OF a assms(10,15)] same c h assms(6,9)
    by (intro exI [of _ u] exI [of _ "CreatePayloadHeader ip (payload_offset p)"]
        exI [of _ "chop n (drop (payload_offset p) (io_data (pf_files (pm_platform s) f)))"])
      (simp add: frames_to_def of_nat_diff)
qed

definition three_bytes :: platform where
  "three_bytes = empty_platform\<lparr>pf_files := (\<lambda>_. \<lparr>io_path = ''a'', io_open = True, io_good = True, io_data = [1, 2, 3],
     io_total_size = 3\<rparr>)\<rparr>"

theorem resumed_file_sends_rest_witness:
  "\<exists>u h bodies. send_rounds kFile sample_env (sender_step kFile sample_env
      (SendPayload [''ABCD''] ((file_payload 7 [] ''a'' 0 0)\<lparr>payload_offset := 2\<rparr>)
        (sample_manager\<lparr>pm_platform := three_bytes\<rparr>))) = Some u \<and>
    frames_to ''ABCD'' u = map (DataFrame h) (chunks_of 0 0 bodies) \<and> concat bodies = [3]"
proof -
  have "reachable_by sample_env [''ABCD''] 2 (sample_manager\<lparr>pm_platform := three_bytes\<rparr>)"
    by (simp add: reachable_by_def sample_manager_def PayloadManager_new_def sample_channel_found
        GetOptimalChunkSize_def GetMaxTransmitPacketSize_def) (simp add: sample_env_def)
  note r = this
  let ?p = "(file_payload 7 [] ''a'' 0 0)\<lparr>payload_offset := 2\<rparr>" and ?s = "sample_manager\<lparr>pm_platform := three_bytes\<rparr>"
  have "\<exists>u h bodies. send_rounds kFile sample_env (sender_step kFile sample_env (SendPayload [''ABCD''] ?p ?s)) = Some u \<and>
      frames_to ''ABCD'' u = frames_to ''ABCD'' ?s @ map (DataFrame h) (chunks_of 0 0 bodies) \<and>
      concat bodies = drop (payload_offset ?p) (io_data (pf_files (pm_platform ?s) 0)) \<and>
      header_id h = payload_id ?p \<and> header_total_size h = int (length (concat bodies))"
    by (rule resumed_file_sends_rest [OF _ _ _ _ _ _ _ _ _ _ _ r])
      (simp_all add: idle_sender_def sample_manager_def PayloadManager_new_def default_flags_def
        source_ready_def file_payload_def AsFile_def sample_env_def three_bytes_def)
  moreover have "frames_to ''ABCD'' ?s = []"
    by (simp add: frames_to_def sample_manager_def PayloadManager_new_def)
  moreover have "drop (payload_offset ?p) (io_data (pf_files (pm_platform ?s) 0)) = [3]"
    by (simp add: three_bytes_def)
  ultimately show ?thesis
    by fastforce
qed

section \<open>Failures\<close>

lemma send_some:
  "SendTransferFrameBytes w fr es s =
     (filter (\<lambda>e. GetChannelForEndpoint e (pm_channels s) = None \<or> \<not> w e) es,
      s\<lparr>pm_sent := pm_sent s @ map (\<lambda>e. (e, fr)) (filter (\<lambda>e. GetChannelForEndpoint e (pm_channels s) \<noteq> None \<and> w e) es)\<rparr>)"
  by (induction w fr es s rule: SendTransferFrameBytes.induct) auto

lemma confirm_failed: "fold (confirm_endpoint env p h off c failed) es s =
    fold (confirm_endpoint env p h off c []) (filter (\<lambda>e. e \<notin> set failed) es) s"
  by (induction es arbitrary: s) (auto simp: confirm_endpoint_def)

lemma smallest_chunk:
  "fold (\<lambda>e n. min n (f e)) es (k :: nat) \<le> k" "e \<in> set es \<Longrightarrow> fold (\<lambda>e n. min n (f e)) es k \<le> f e"
proof -
  show a: "fold (\<lambda>e n. min n (f e)) es (k :: nat) \<le> k" for k es
  proof (induction es arbitrary: k)
    case (Cons x es)
    from Cons [of "min k (f x)"] show ?case
      by simp
  qed simp
  show "e \<in> set es \<Longrightarrow> fold (\<lambda>e n. min n (f e)) es k \<le> f e"
  proof (induction es arbitrary: k)
    case (Cons x es)
    then show ?case
      using a [of es "min k (f e)"] by auto
  qed simp
qed

lemma no_chunk_without_channel:
  assumes "e \<in> set es" and "GetChannelForEndpoint e (pm_channels s) = None"
  shows "GetOptimalChunkSize env es s = 0"
  using smallest_chunk(2) [OF assms(1), of "\<lambda>e. GetMaxTransmitPacketSize (le_packet_size env) e (pm_channels s)"]
    assms(2) by (simp add: GetOptimalChunkSize_def GetMaxTransmitPacketSize_def)

text \<open>A round that reads nothing before the end of the payload.\<close>

lemma early_end:
  assumes p: "pm_objects s (rs_object r) = Some p" "GetUnavailableEndpoints p = []" "\<not> pp_locally_canceled p"
    and up: "\<not> pm_shutdown s" "\<not> flag_payload_received_ack (pm_flags s)" "le_while_reading env = []"
    and skip: "rs_offset r \<noteq> 0 \<or> rs_resume_offset r = 0"
    and d: "DetachNextChunk (le_delivers env) (GetOptimalChunkSize env (GetAvailableEndpoints p) s) (pp_internal p, pm_platform s) =
      (Some [], ip, pf)"
    and k: "rs_offset r \<le> GetTotalSize (ip_kind ip)"
    and e: "e \<in> set (GetAvailableEndpoints p)" "GetChannelForEndpoint e (pm_channels s) \<noteq> None" "le_write_ok env e"
  shows "\<exists>u. SendPayloadLoop env r s = Some (False, rs_offset r, u) \<and>
    (e, DataFrame (rs_header r) (CreatePayloadChunk (rs_offset r - int (rs_resume_offset r)) [] (rs_index r))) \<in> set (pm_sent u) \<and>
    OutgoingChunkSent e (rs_header r) LAST_CHUNK (rs_offset r - int (rs_resume_offset r)) 0 \<in> set (pm_status_tasks u) \<and>
    pm_platform u = pf"
proof -
  let ?a = "rs_object r" and ?es = "GetAvailableEndpoints p" and ?off = "rs_offset r"
  let ?c = "CreatePayloadChunk (?off - int (rs_resume_offset r)) [] (rs_index r)"
  let ?p = "(set_offsets ?es ?off p)\<lparr>pp_internal := ip\<rparr>"
  let ?bad = "\<lambda>e. GetChannelForEndpoint e (pm_channels s) = None \<or> \<not> le_write_ok env e"
  let ?failed = "filter ?bad ?es"
  let ?s3 = "s\<lparr>pm_objects := (pm_objects s)(?a \<mapsto> ?p), pm_platform := pf\<rparr>"
  let ?s4 = "?s3\<lparr>pm_sent := pm_sent s @ map (\<lambda>e. (e, DataFrame (rs_header r) ?c)) (filter (\<lambda>e. \<not> ?bad e) ?es)\<rparr>"
  define s5 where "s5 = (if ?failed \<noteq> [] then HandleFinishedOutgoingPayload (le_write_ok env) ?failed (rs_header r) ?off ENDPOINT_IO_ERROR ?s4 else ?s4)"
  have es: "?es \<noteq> []" and e': "e \<in> set (filter (\<lambda>e. e \<notin> set ?failed) ?es)"
    using e by auto
  have disc: "pm_flags (fold payload_DiscardEndpoint xs t) = pm_flags t \<and> pm_sent (fold payload_DiscardEndpoint xs t) = pm_sent t \<and>
      pm_platform (fold payload_DiscardEndpoint xs t) = pm_platform t" for xs t
    by (induction xs arbitrary: t) (simp_all add: payload_DiscardEndpoint_def)
  have f5: "pm_flags s5 = pm_flags s" "pm_sent s5 = pm_sent ?s4" "pm_platform s5 = pf"
    using disc by (simp_all add: s5_def HandleFinishedOutgoingPayload_def RunOnStatusUpdateThread_def)
  obtain m where m: "fold (confirm_endpoint env ?p (rs_header r) ?off ?c []) (filter (\<lambda>e. e \<notin> set ?failed) ?es) s5 =
      s5\<lparr>pm_status_tasks := pm_status_tasks s5 @ chunk_sent_tasks (filter (\<lambda>e. e \<notin> set ?failed) ?es) (rs_header r) ?c,
        pm_outgoing_updates := m\<rparr>" (is "_ = ?u")
    using confirm_all [of s5 env ?p "rs_header r" ?off ?c "filter (\<lambda>e. e \<notin> set ?failed) ?es"] up(2) f5(1) by auto
  have less: "length ?failed < length ?es"
    using e by (auto simp: length_filter_less)
  have send: "SendTransferFrameBytes (le_write_ok env) (DataFrame (rs_header r) ?c) ?es ?s3 = (?failed, ?s4)"
    by (simp add: send_some)
  have "send_chunk env r ?p ?off ?es [] ?s3 =
      (False, ?off, fold (confirm_endpoint env ?p (rs_header r) ?off ?c ?failed) ?es s5)"
    using k less by (simp add: send_chunk_def Let_def send s5_def)
  then have "send_chunk env r ?p ?off ?es [] ?s3 = (False, ?off, ?u)"
    unfolding confirm_failed [of env ?p _ _ _ ?failed] m .
  moreover have "read_and_send env r ?off ?es s = Some (send_chunk env r ?p ?off ?es [] ?s3)"
    using d up by (simp add: read_and_send_def fold_set_offsets pm_events_def p(1) set_offsets_same write_object_def
        Let_def GetOptimalChunkSize_def)
  ultimately have "SendPayloadLoop env r s = Some (False, ?off, ?u)"
    using es p skip by (auto simp: SendPayloadLoop_def skip_to_resume_def)
  moreover have "(e, DataFrame (rs_header r) ?c) \<in> set (pm_sent ?u)"
    using e f5(2) by auto
  moreover have "OutgoingChunkSent e (rs_header r) LAST_CHUNK (ck_offset ?c) 0 \<in> set (pm_status_tasks ?u)"
    using e' by (auto simp: chunk_sent_tasks_def CreatePayloadChunk_def image_iff)
  ultimately show ?thesis
    using f5(3) by (intro exI [of _ ?u]) (simp add: CreatePayloadChunk_def)
qed

text \<open>A sender in the middle of a file, in a manager that is up.\<close>

definition sending_file :: "loop_env \<Rightarrow> running_send \<Rightarrow> nat \<Rightarrow> string list \<Rightarrow> payload_manager \<Rightarrow> bool" where
  "sending_file env r f es s \<longleftrightarrow>
     (case pm_objects s (rs_object r) of
        None \<Rightarrow> False
      | Some p \<Rightarrow> GetAvailableEndpoints p = es \<and> GetUnavailableEndpoints p = [] \<and> \<not> pp_locally_canceled p \<and>
          AsFile (ip_payload (pp_internal p)) = Some f \<and>
          (case ip_kind (pp_internal p) of
             OutgoingFileInternalPayload k \<Rightarrow> rs_offset r + int (length (io_data (pf_files (pm_platform s) f))) = k
           | _ \<Rightarrow> False)) \<and>
     io_open (pf_files (pm_platform s) f) \<and> rs_resume_offset r = 0 \<and> \<not> pm_shutdown s \<and>
     \<not> flag_payload_received_ack (pm_flags s) \<and> le_while_reading env = []"

lemma sending_fileE:
  assumes "sending_file env r f es s"
  obtains p k where "pm_objects s (rs_object r) = Some p" "GetAvailableEndpoints p = es" "GetUnavailableEndpoints p = []"
    "\<not> pp_locally_canceled p" "AsFile (ip_payload (pp_internal p)) = Some f"
    "ip_kind (pp_internal p) = OutgoingFileInternalPayload k" "rs_offset r \<le> k"
    "io_open (pf_files (pm_platform s) f)" "rs_resume_offset r = 0" "\<not> pm_shutdown s"
    "\<not> flag_payload_received_ack (pm_flags s)" "le_while_reading env = []"
  using assms by (auto simp: sending_file_def split: option.splits payload_kind.splits)

text \<open>
  C33: When the channel of one recipient of a file is gone, the chunk size for all of them is 0; the
  next round then reads nothing, sends every other recipient an empty chunk that says the file is
  complete, and reports success to the client, with all of the rest of the file still unread.
\<close>

theorem lost_channel_truncates:
  assumes "sending_file env r f es s" and "io_good (pf_files (pm_platform s) f)"
    and "io_data (pf_files (pm_platform s) f) \<noteq> []"
    and "e \<in> set es" and "GetChannelForEndpoint e (pm_channels s) \<noteq> None" and "le_write_ok env e"
    and "e' \<in> set es" and "GetChannelForEndpoint e' (pm_channels s) = None"
  shows "\<exists>u c. SendPayloadLoop env r s = Some (False, rs_offset r, u) \<and>
    (e, DataFrame (rs_header r) c) \<in> set (pm_sent u) \<and> ck_body c = [] \<and> IsLastChunk c \<and>
    OutgoingChunkSent e (rs_header r) (ck_flags c) (rs_offset r) 0 \<in> set (pm_status_tasks u) \<and>
    progress_status (chunk_progress (rs_header r) (ck_flags c) (rs_offset r) 0) = ProgressSuccess \<and>
    io_data (pf_files (pm_platform u) f) = io_data (pf_files (pm_platform s) f)"
proof -
  from assms(1) obtain p k where p: "pm_objects s (rs_object r) = Some p" "GetAvailableEndpoints p = es"
    "GetUnavailableEndpoints p = []" "\<not> pp_locally_canceled p" and f: "AsFile (ip_payload (pp_internal p)) = Some f"
    "ip_kind (pp_internal p) = OutgoingFileInternalPayload k" "rs_offset r \<le> k" "io_open (pf_files (pm_platform s) f)"
    and up: "rs_resume_offset r = 0" "\<not> pm_shutdown s" "\<not> flag_payload_received_ack (pm_flags s)" "le_while_reading env = []"
    by (rule sending_fileE)
  let ?f = "(pf_files (pm_platform s) f)\<lparr>io_good := True\<rparr>"
  have "DetachNextChunk (le_delivers env) 0 (pp_internal p, pm_platform s) =
      (Some [], pp_internal p, (pm_platform s)\<lparr>pf_files := (pf_files (pm_platform s))(f := ?f)\<rparr>)" (is "_ = (_, _, ?pf)")
    using f assms(2,3) by (simp add: DetachNextChunk_def file_DetachNextChunk_def on_file_def IOFile_Read_def Let_def
        split: option.split)
  then have d: "DetachNextChunk (le_delivers env) (GetOptimalChunkSize env (GetAvailableEndpoints p) s) (pp_internal p, pm_platform s) =
      (Some [], pp_internal p, ?pf)"
    using no_chunk_without_channel [OF assms(7,8)] by (simp add: p(2))
  from early_end [OF p(1,3,4) up(2,3,4) _ d, of e] f assms(4-6) p(2) up(1) show ?thesis
    by (fastforce simp: CreatePayloadChunk_def IsLastChunk_def LAST_CHUNK_def last_flag_def chunk_progress_def)
qed

definition cut_file :: platform where
  "cut_file = empty_platform\<lparr>pf_files := (\<lambda>_. \<lparr>io_path = ''a'', io_open = True, io_good = True, io_data = [1, 2, 3],
     io_total_size = 5\<rparr>)\<rparr>"

definition file_object :: "string list \<Rightarrow> pending_payload" where
  "file_object es = (new_pending_payload \<lparr>ip_payload = file_payload 7 '''' ''a'' 0 0, ip_id = 7,
     ip_kind = OutgoingFileInternalPayload 5\<rparr> es False)\<lparr>pp_refcount := 2\<rparr>"

definition file_send :: running_send where
  "file_send = \<lparr>rs_object = 0, rs_header = CreatePayloadHeader (pp_internal (file_object [])) 0, rs_offset = 2,
     rs_resume_offset = 0, rs_index = 1\<rparr>"

definition file_sender :: "string list \<Rightarrow> payload_manager" where
  "file_sender es = sample_manager\<lparr>pm_objects := [0 \<mapsto> file_object es], pm_tracked := [(7, 0)], pm_next := 1,
     pm_platform := cut_file\<rparr>"

lemma sample_sending:
  "distinct es \<Longrightarrow> io_open (pf_files pf 0) \<Longrightarrow> length (io_data (pf_files pf 0)) = 3 \<Longrightarrow>
   sending_file sample_env file_send 0 es ((file_sender es)\<lparr>pm_platform := pf\<rparr>)"
  using new_payload_endpoints [of es] by (simp add: sending_file_def file_sender_def file_send_def file_object_def
      sample_manager_def PayloadManager_new_def default_flags_def sample_env_def GetAvailableEndpoints_def
      GetUnavailableEndpoints_def GetEndpoints_def) (simp add: new_pending_payload_def AsFile_def file_payload_def)

theorem lost_channel_truncates_witness:
  "\<exists>u c. SendPayloadLoop sample_env file_send (file_sender [''ABCD'', ''WXYZ'']) = Some (False, 2, u) \<and>
    (''ABCD'', DataFrame (rs_header file_send) c) \<in> set (pm_sent u) \<and> IsLastChunk c \<and>
    io_data (pf_files (pm_platform u) 0) = [1, 2, 3]"
proof -
  have "GetChannelForEndpoint ''WXYZ'' sample_channels = None"
    by code_simp
  with lost_channel_truncates [OF sample_sending [of "[''ABCD'', ''WXYZ'']" cut_file], of "''ABCD''" "''WXYZ''"] show ?thesis
    by (fastforce simp: file_sender_def cut_file_def sample_manager_def PayloadManager_new_def sample_channel_found
        sample_env_def file_send_def)
qed

text \<open>
  A file that cannot be read to its end is sent as if it were complete: once a read has come back
  short, so that the stream of the file is no longer good, the next round sends every recipient the
  empty last chunk and reports success, although the file's size has not been reached.
\<close>

theorem short_read_truncates:
  assumes "sending_file env r f es s" and "\<not> io_good (pf_files (pm_platform s) f)"
    and "io_data (pf_files (pm_platform s) f) \<noteq> []"
    and "e \<in> set es" and "GetChannelForEndpoint e (pm_channels s) \<noteq> None" and "le_write_ok env e"
  shows "\<exists>u c. SendPayloadLoop env r s = Some (False, rs_offset r, u) \<and>
    (e, DataFrame (rs_header r) c) \<in> set (pm_sent u) \<and> ck_body c = [] \<and> IsLastChunk c \<and>
    OutgoingChunkSent e (rs_header r) (ck_flags c) (rs_offset r) 0 \<in> set (pm_status_tasks u) \<and>
    progress_status (chunk_progress (rs_header r) (ck_flags c) (rs_offset r) 0) = ProgressSuccess \<and>
    io_data (pf_files (pm_platform u) f) = io_data (pf_files (pm_platform s) f)"
proof -
  from assms(1) obtain p k where p: "pm_objects s (rs_object r) = Some p" "GetAvailableEndpoints p = es"
    "GetUnavailableEndpoints p = []" "\<not> pp_locally_canceled p" and f: "AsFile (ip_payload (pp_internal p)) = Some f"
    "ip_kind (pp_internal p) = OutgoingFileInternalPayload k" "rs_offset r \<le> k" "io_open (pf_files (pm_platform s) f)"
    and up: "rs_resume_offset r = 0" "\<not> pm_shutdown s" "\<not> flag_payload_received_ack (pm_flags s)" "le_while_reading env = []"
    by (rule sending_fileE)
  let ?f = "(pf_files (pm_platform s) f)\<lparr>io_good := False, io_open := False\<rparr>"
  have d: "DetachNextChunk (le_delivers env) n (pp_internal p, pm_platform s) =
      (Some [], pp_internal p, (pm_platform s)\<lparr>pf_files := (pf_files (pm_platform s))(f := ?f)\<rparr>)" (is "_ = (_, _, ?pf)") for n
    using f assms(2) by (simp add: DetachNextChunk_def file_DetachNextChunk_def on_file_def IOFile_Read_def
        close_file_def IOFile_Close_def)
  from early_end [OF p(1,3,4) up(2,3,4) _ d, of e] f assms(4-6) p(2) up(1) show ?thesis
    by (fastforce simp: CreatePayloadChunk_def IsLastChunk_def LAST_CHUNK_def last_flag_def chunk_progress_def)
qed

definition stuck_sender :: "payload_manager" where
  "stuck_sender = (file_sender [''ABCD''])\<lparr>pm_platform := cut_file\<lparr>pf_files :=
     (\<lambda>_. (pf_files cut_file 0)\<lparr>io_good := False\<rparr>)\<rparr>\<rparr>"

theorem short_read_truncates_witness:
  "\<exists>u c. SendPayloadLoop sample_env file_send stuck_sender = Some (False, 2, u) \<and>
    (''ABCD'', DataFrame (rs_header file_send) c) \<in> set (pm_sent u) \<and> IsLastChunk c \<and>
    io_data (pf_files (pm_platform u) 0) = [1, 2, 3]"
proof -
  have "sending_file sample_env file_send 0 [''ABCD''] stuck_sender"
    unfolding stuck_sender_def by (rule sample_sending) (simp_all add: cut_file_def)
  from short_read_truncates [OF this, of "''ABCD''"] show ?thesis
    by (fastforce simp: stuck_sender_def file_sender_def cut_file_def sample_manager_def PayloadManager_new_def
        sample_channel_found sample_env_def file_send_def)
qed

text \<open>
  C32: A payload that the client cancels is not sent any further: the next round of its sender puts
  nothing but a cancellation on the channels, one for each recipient it can reach, leaves the source
  alone and ends, after handing the status thread the outcome \<open>Canceled\<close> for all of them.
\<close>

theorem cancelled_send_stops:
  assumes "pm_objects s (rs_object r) = Some p" and "map_of (pm_tracked s) (pp_id p) = Some (rs_object r)"
    and "GetAvailableEndpoints p = es" and "es \<noteq> []" and "GetUnavailableEndpoints p = []"
  shows "\<exists>t u. CancelPayload (pp_id p) s = (True, t) \<and> SendPayloadLoop env r t = Some (False, rs_offset r, u) \<and>
    pm_sent u = pm_sent s @ map (\<lambda>e. (e, ControlFrame (rs_header r) PAYLOAD_CANCELED (rs_offset r)))
      (filter (\<lambda>e. GetChannelForEndpoint e (pm_channels s) \<noteq> None \<and> le_write_ok env e) es) \<and>
    pm_status_tasks u = pm_status_tasks s @ [FinishedOutgoing es (rs_header r) (rs_offset r) LOCAL_CANCELLATION] \<and>
    PayloadStatusToTransferUpdateStatus LOCAL_CANCELLATION = ProgressCanceled \<and> pm_platform u = pm_platform s"
proof -
  let ?a = "rs_object r"
  let ?t = "s\<lparr>pm_objects := (pm_objects s)(?a \<mapsto> p\<lparr>pp_locally_canceled := True\<rparr>)\<rparr>"
  let ?v = "s\<lparr>pm_objects := (pm_objects s)(?a \<mapsto> p\<lparr>pp_refcount := pp_refcount p + 1, pp_locally_canceled := True\<rparr>)\<rparr>"
  have "PendingPayloads_Release ?a ?v = add_ref (- 1) ?a ?v"
    by (rule release_tracked [where i = "pp_id p" and
        p = "p\<lparr>pp_refcount := pp_refcount p + 1, pp_locally_canceled := True\<rparr>"])
      (use assms(2) in \<open>simp_all add: pp_id_def\<close>)
  then have "with_payload (pp_id p) (\<lambda>a. write_object a (\<lambda>p. p\<lparr>pp_locally_canceled := True\<rparr>)) s = ?t"
    using assms(1,2) by (simp add: with_payload_def GetPayload_def add_ref_def write_object_def)
  then have c: "CancelPayload (pp_id p) s = (True, ?t)"
    using assms(2) by (simp add: CancelPayload_def)
  have e: "GetAvailableEndpoints (p\<lparr>pp_locally_canceled := True\<rparr>) = es"
    "GetUnavailableEndpoints (p\<lparr>pp_locally_canceled := True\<rparr>) = []"
    using assms(3,5) by (simp_all add: GetAvailableEndpoints_def GetUnavailableEndpoints_def GetEndpoints_def)
  have "SendPayloadLoop env r ?t = Some (False, rs_offset r,
      HandleFinishedOutgoingPayload (le_write_ok env) es (rs_header r) (rs_offset r) LOCAL_CANCELLATION ?t)"
    using assms(4) by (simp add: SendPayloadLoop_def e)
  then show ?thesis
    unfolding c by (intro exI [of _ ?t] exI [of _ "HandleFinishedOutgoingPayload (le_write_ok env) es (rs_header r)
        (rs_offset r) LOCAL_CANCELLATION ?t"])
      (simp add: HandleFinishedOutgoingPayload_def SendControlMessage_def send_some RunOnStatusUpdateThread_def)
qed

theorem cancelled_send_stops_witness:
  "\<exists>t u. CancelPayload 7 (file_sender [''ABCD'']) = (True, t) \<and>
    SendPayloadLoop sample_env file_send t = Some (False, 2, u) \<and>
    pm_sent u = [(''ABCD'', ControlFrame (rs_header file_send) PAYLOAD_CANCELED 2)]"
proof -
  have p: "pm_objects (file_sender [''ABCD'']) (rs_object file_send) = Some (file_object [''ABCD''])"
    by (simp add: file_sender_def file_send_def)
  have i: "pp_id (file_object [''ABCD'']) = 7"
    by (simp add: file_object_def pp_id_def new_pending_payload_def)
  have e: "GetAvailableEndpoints (file_object [''ABCD'']) = [''ABCD'']" "GetUnavailableEndpoints (file_object [''ABCD'']) = []"
    using new_payload_endpoints [of "[''ABCD'']"] by (simp_all add: file_object_def GetAvailableEndpoints_def
        GetUnavailableEndpoints_def GetEndpoints_def)
  from cancelled_send_stops [OF p _ e(1) _ e(2), of sample_env] show ?thesis
    by (fastforce simp: i file_sender_def file_send_def sample_manager_def PayloadManager_new_def sample_channel_found
        sample_env_def)
qed

text \<open>
  C34: Nothing ties a control frame to the endpoint a payload comes from.  A cancellation or an error
  from any connected endpoint ends another endpoint's transfer: the payload is taken off the table,
  and of what its sender goes on to send every chunk but a first one is dropped.
\<close>

theorem foreign_frame_ends_transfer:
  assumes "IsConnectedToEndpoint k (pm_client s)" and "pm_status_tasks s = []"
    and "map_of (pm_tracked s) (header_id h) = Some a" and "pm_objects s a = Some p" and "pp_is_incoming p"
    and "pp_id p = header_id h" and "header_id h \<noteq> 0" and "ev = PAYLOAD_CANCELED \<or> ev = PAYLOAD_ERROR"
    and "header_id g = header_id h" and "ck_offset c \<noteq> 0"
  shows "let t = run_next_status_task now (Payload_OnIncomingFrame env k (ControlFrame h ev n) s)
    in map_of (pm_tracked t) (header_id h) = None \<and> Payload_OnIncomingFrame env2 e (DataFrame g c) t = t"
proof -
  let ?p = "p\<lparr>pp_refcount := pp_refcount p + 1\<rparr>"
  let ?task = "FinishedIncoming k h n (ControlMessageEventToPayloadStatus ev)"
  let ?v = "s\<lparr>pm_objects := (pm_objects s)(a \<mapsto> ?p), pm_status_tasks := [?task]\<rparr>"
  have get: "GetPayload (header_id h) s = (Some a, s\<lparr>pm_objects := (pm_objects s)(a \<mapsto> ?p)\<rparr>)"
    using assms(3,4) by (simp add: GetPayload_def add_ref_def write_object_def)
  have handle: "HandleFinishedIncomingPayload w k h n (ControlMessageEventToPayloadStatus ev) u =
      RunOnStatusUpdateThread ?task u" for w u
    using assms(8) by (auto simp: HandleFinishedIncomingPayload_def)
  have "PendingPayloads_Release a ?v = add_ref (- 1) a ?v"
    by (rule release_tracked [where i = "header_id h" and p = ?p]) (use assms(3,6) in \<open>simp_all add: pp_id_def\<close>)
  moreover have "Payload_OnIncomingFrame env k (ControlFrame h ev n) s = PendingPayloads_Release a ?v"
    using assms(1,2,5,8) by (simp add: Payload_OnIncomingFrame_def ProcessControlPacket_def with_payload_def get
        with_object_def handle RunOnStatusUpdateThread_def)
  moreover have "add_ref (- 1) a ?v = s\<lparr>pm_status_tasks := [?task]\<rparr>"
  proof -
    have "(pm_objects s)(a \<mapsto> p) = pm_objects s"
      using assms(4) by auto
    then show ?thesis
      by (simp add: add_ref_def write_object_def)
  qed
  ultimately have f: "Payload_OnIncomingFrame env k (ControlFrame h ev n) s = s\<lparr>pm_status_tasks := [?task]\<rparr>"
    by simp
  define t where "t = run_FinishedIncoming k h n (ControlMessageEventToPayloadStatus ev) (s\<lparr>pm_status_tasks := []\<rparr>)"
  have gone: "map_of (pm_tracked (PendingPayloads_Release a (PendingPayloads_Remove (header_id h) u))) (header_id h) = None" for u
  proof -
    have "map_of (filter (\<lambda>(j, _). j \<noteq> header_id h) xs) (header_id h) = None" for xs :: "(int \<times> nat) list"
      by (induction xs) auto
    moreover have "pm_tracked (PendingPayloads_Release a v) = pm_tracked v" for v
      by (simp add: PendingPayloads_Release_def with_object_def pm_crash_def Let_def split: option.split)
    ultimately show ?thesis
      by (simp add: Remove_frame)
  qed
  have "map_of (pm_tracked t) (header_id h) = None"
    unfolding t_def run_FinishedIncoming_def DestroyPendingPayload_def StopTrackingPayload_def Let_def with_payload_def
    using get gone assms(3) by (simp add: GetPayload_def)
  moreover have "Payload_OnIncomingFrame env2 e (DataFrame g c) t = t"
    using calculation assms(7,9,10) by (simp add: Payload_OnIncomingFrame_def ProcessDataPacket_def with_payload_def GetPayload_def)
  ultimately show ?thesis
    by (simp add: f run_next_status_task_def t_def Let_def)
qed

definition receiving_manager :: payload_manager where
  "receiving_manager = sample_manager\<lparr>pm_objects := [0 \<mapsto> (new_pending_payload \<lparr>ip_payload = file_payload 7 [] ''a'' 0 0,
     ip_id = 7, ip_kind = IncomingFileInternalPayload 0 0 5\<rparr> [''WXYZ''] True)\<lparr>pp_refcount := 1\<rparr>],
     pm_tracked := [(7, 0)], pm_next := 1, pm_platform := cut_file\<rparr>"

definition sample_header :: payload_header where
  "sample_header = \<lparr>hd_id = Some 7, hd_type = Some FILE, hd_total_size = Some 5, hd_file_name = Some ''a'',
     hd_parent_folder = None, hd_last_modified = None\<rparr>"

theorem foreign_frame_ends_transfer_witness:
  "let t = run_next_status_task 0 (Payload_OnIncomingFrame sample_incoming ''ABCD''
     (ControlFrame sample_header PAYLOAD_CANCELED 0) receiving_manager)
   in map_of (pm_tracked t) (header_id sample_header) = None \<and>
     Payload_OnIncomingFrame sample_incoming ''WXYZ'' (DataFrame sample_header
       \<lparr>ck_flags = 0, ck_offset = 3, ck_body = [4], ck_index = 1\<rparr>) t = t"
  by (rule foreign_frame_ends_transfer [where a = 0 and p = "the (pm_objects receiving_manager 0)"])
    (simp_all add: receiving_manager_def sample_manager_def PayloadManager_new_def sample_connected header_id_def
      sample_header_def new_pending_payload_def pp_id_def)

fun after_shutdown :: "pm_step \<Rightarrow> bool" where
  "after_shutdown (OtherThread (FrameArrives env e fr)) \<longleftrightarrow> False"
| "after_shutdown ShutdownBegins \<longleftrightarrow> False"
| "after_shutdown _ \<longleftrightarrow> True"

definition waits_for_ever :: "int \<Rightarrow> payload_manager \<Rightarrow> bool" where
  "waits_for_ever i s \<longleftrightarrow> pm_shutdown s \<and> pm_barrier s = Some 1 \<and> pm_status_tasks s = [] \<and> pm_ack_tasks s = [] \<and>
     pm_tracked s = [(i, 0)] \<and> (\<exists>p. pm_objects s 0 = Some p \<and> pp_id p = i) \<and>
     (\<forall>t. sd_running (pm_senders s t) = None)"

lemma waits_on:
  assumes w: "waits_for_ever i s" and ok: "after_shutdown st"
  shows "waits_for_ever i (pm_do st s)"
proof (cases st)
  case (OtherThread ev)
  show ?thesis
  proof (cases ev)
    case (ClientCancels j)
    obtain p where p: "pm_objects s 0 = Some p" "pp_id p = i"
      using w by (auto simp: waits_for_ever_def)
    let ?q = "p\<lparr>pp_refcount := pp_refcount p + 1, pp_locally_canceled := True\<rparr>"
    have "PendingPayloads_Release 0 (s\<lparr>pm_objects := (pm_objects s)(0 \<mapsto> ?q)\<rparr>) =
        add_ref (- 1) 0 (s\<lparr>pm_objects := (pm_objects s)(0 \<mapsto> ?q)\<rparr>)"
      by (rule release_tracked [where i = i and p = ?q]) (use w p in \<open>simp_all add: waits_for_ever_def pp_id_def\<close>)
    with w p show ?thesis
      by (auto simp: OtherThread ClientCancels waits_for_ever_def CancelPayload_def with_payload_def GetPayload_def
          add_ref_def write_object_def pp_id_def)
  qed (use w ok OtherThread in \<open>auto simp: waits_for_ever_def run_next_status_task_def run_ack_task_def
      Payload_OnEndpointDisconnect_def on_payload_client_def SetCustomSavePath_def on_platform_def\<close>)
qed (use w ok in \<open>auto simp: waits_for_ever_def SendPayload_def sender_step_def begin_send_def on_sender_def
    split: list.split\<close>)

lemma waits_on_run: "waits_for_ever i s \<Longrightarrow> list_all after_shutdown sts \<Longrightarrow> waits_for_ever i (fold pm_do sts s)"
  by (induction sts arbitrary: s) (simp_all add: waits_on)



end
