(* ===== verification/Offline_Frames.thy ===== *)
theory Offline_Frames
  imports Connection_Request Payload_Manager
begin

text \<open>
  The frames that connected devices exchange (connections/implementation/offline_frames.cc and
  proto/offline_wire_formats.proto).

  A message is a record with an option for every optional field: \<open>None\<close> is a field that was
  not set, for which the accessor returns the field's default.  A message that a builder does
  not write and no check reads is left out, and so are the fields of \<open>MediumMetadata\<close> about
  channels.  What \<open>OsInfo\<close>, \<open>LocationHint\<close> and \<open>MediumRole\<close> hold is only passed on: a number
  stands for it.  Turning a frame into bytes and back is protobuf's.
\<close>

section \<open>Messages\<close>

datatype FrameType =
    UNKNOWN_FRAME_TYPE | CONNECTION_REQUEST | CONNECTION_RESPONSE | PAYLOAD_TRANSFER
  | BANDWIDTH_UPGRADE_NEGOTIATION | KEEP_ALIVE | DISCONNECTION | PAIRED_KEY_ENCRYPTION
  | AUTHENTICATION_MESSAGE | AUTHENTICATION_RESULT | AUTO_RESUME | AUTO_RECONNECT
  | BANDWIDTH_UPGRADE_RETRY

datatype request_medium =
    Request_UNKNOWN_MEDIUM | Request_MDNS | Request_BLUETOOTH | Request_WIFI_HOTSPOT | Request_BLE
  | Request_WIFI_LAN | Request_WIFI_AWARE | Request_NFC | Request_WIFI_DIRECT | Request_WEB_RTC
  | Request_BLE_L2CAP | Request_USB | Request_WEB_RTC_NON_CELLULAR | Request_AWDL

record connections_device =
  cd_endpoint_id :: "string option"
  cd_endpoint_type :: "nat option"
  cd_connectivity_info_list :: "bytes option"
  cd_endpoint_info :: "bytes option"

record presence_device =
  pd_endpoint_id :: "string option"
  pd_endpoint_type :: "nat option"
  pd_connectivity_info_list :: "bytes option"
  pd_device_id :: "int option"
  pd_device_name :: "string option"
  pd_device_type :: "nat option"
  pd_device_image_url :: "string option"
  pd_discovery_medium :: "request_medium list"
  pd_actions :: "int list"
  pd_identity_type :: "int list"

datatype request_device =
    DeviceNotSet | Connections_Device connections_device | Presence_Device presence_device

record medium_metadata =
  mm_supports_5_ghz :: "bool option"
  mm_bssid :: "string option"
  mm_ip_address :: "string option"
  mm_ap_frequency :: "int option"
  mm_medium_role :: "nat option"

record connection_request_message =
  cr_endpoint_id :: "string option"
  cr_endpoint_name :: "bytes option"
  cr_nonce :: "int option"
  cr_mediums :: "request_medium list"
  cr_endpoint_info :: "bytes option"
  cr_medium_metadata :: "medium_metadata option"
  cr_keep_alive_interval_millis :: "int option"
  cr_keep_alive_timeout_millis :: "int option"
  cr_device :: request_device

datatype packet_type = UNKNOWN_PACKET_TYPE | DATA | CONTROL | PAYLOAD_ACK

record chunk_message =
  cm_flags :: "32 word option"
  cm_offset :: "int option"
  cm_body :: "bytes option"
  cm_index :: "int option"

record control_message =
  ct_event :: "control_event option"
  ct_offset :: "int option"

record payload_transfer =
  pt_packet_type :: "packet_type option"
  pt_payload_header :: "payload_header option"
  pt_payload_chunk :: "chunk_message option"
  pt_control_message :: "control_message option"

datatype upgrade_medium =
    Upgrade_UNKNOWN_MEDIUM | Upgrade_MDNS | Upgrade_BLUETOOTH | Upgrade_WIFI_HOTSPOT | Upgrade_BLE
  | Upgrade_WIFI_LAN | Upgrade_WIFI_AWARE | Upgrade_NFC | Upgrade_WIFI_DIRECT | Upgrade_WEB_RTC
  | Upgrade_USB | Upgrade_WEB_RTC_NON_CELLULAR | Upgrade_AWDL

record wifi_hotspot_credentials =
  wh_ssid :: "string option"
  wh_password :: "string option"
  wh_port :: "int option"
  wh_gateway :: "string option"
  wh_frequency :: "int option"

record wifi_lan_socket =
  wl_ip_address :: "string option"
  wl_wifi_port :: "int option"

record bluetooth_credentials =
  bt_service_name :: "string option"
  bt_mac_address :: "string option"

record wifi_aware_credentials =
  wa_service_id :: "string option"
  wa_service_info :: "string option"
  wa_password :: "string option"

record wifi_direct_credentials =
  wd_ssid :: "string option"
  wd_password :: "string option"
  wd_port :: "int option"
  wd_frequency :: "int option"
  wd_gateway :: "string option"

record web_rtc_credentials =
  wr_peer_id :: "string option"
  wr_location_hint :: "nat option"

record awdl_credentials =
  aw_service_name :: "string option"
  aw_service_type :: "string option"
  aw_password :: "string option"

record upgrade_path_request =
  pr_mediums :: "upgrade_medium list"
  pr_medium_role :: "nat option"

record upgrade_path_info =
  up_medium :: "upgrade_medium option"
  up_wifi_hotspot_credentials :: "wifi_hotspot_credentials option"
  up_wifi_lan_socket :: "wifi_lan_socket option"
  up_bluetooth_credentials :: "bluetooth_credentials option"
  up_wifi_aware_credentials :: "wifi_aware_credentials option"
  up_wifi_direct_credentials :: "wifi_direct_credentials option"
  up_web_rtc_credentials :: "web_rtc_credentials option"
  up_awdl_credentials :: "awdl_credentials option"
  up_supports_disabling_encryption :: "bool option"
  up_supports_client_introduction_ack :: "bool option"
  up_upgrade_path_request :: "upgrade_path_request option"

datatype upgrade_event =
    UNKNOWN_UPGRADE_EVENT | UPGRADE_PATH_AVAILABLE | LAST_WRITE_TO_PRIOR_CHANNEL
  | SAFE_TO_CLOSE_PRIOR_CHANNEL | CLIENT_INTRODUCTION | UPGRADE_FAILURE
  | CLIENT_INTRODUCTION_ACK | UPGRADE_PATH_REQUEST

record client_introduction =
  ci_endpoint_id :: "string option"
  ci_supports_disabling_encryption :: "bool option"
  ci_last_endpoint_id :: "string option"

record upgrade_negotiation =
  bn_event_type :: "upgrade_event option"
  bn_upgrade_path_info :: "upgrade_path_info option"
  bn_client_introduction :: "client_introduction option"

record keep_alive_message =
  ka_ack :: "bool option"
  ka_seq_num :: "32 word option"

record disconnection_message =
  dm_request_safe_to_disconnect :: "bool option"
  dm_ack_safe_to_disconnect :: "bool option"

datatype reconnect_event =
    UNKNOWN_RECONNECT_EVENT | RECONNECT_INTRODUCTION | RECONNECT_INTRODUCTION_ACK

record auto_reconnect_message =
  ar_endpoint_id :: "string option"
  ar_event_type :: "reconnect_event option"
  ar_last_endpoint_id :: "string option"

record v1_frame =
  v1_type :: "FrameType option"
  v1_connection_request :: "connection_request_message option"
  v1_connection_response :: "connection_response_frame option"
  v1_payload_transfer :: "payload_transfer option"
  v1_bandwidth_upgrade_negotiation :: "upgrade_negotiation option"
  v1_keep_alive :: "keep_alive_message option"
  v1_disconnection :: "disconnection_message option"
  v1_auto_reconnect :: "auto_reconnect_message option"

datatype frame_version = UNKNOWN_VERSION | V1

record offline_frame =
  of_version :: "frame_version option"
  of_v1 :: "v1_frame option"

definition GetFrameType :: "offline_frame \<Rightarrow> FrameType" where
  "GetFrameType f =
     (case of_v1 f of
        None \<Rightarrow> UNKNOWN_FRAME_TYPE
      | Some v \<Rightarrow>
          if of_version f = Some V1
          then (case v1_type v of Some t \<Rightarrow> t | None \<Rightarrow> UNKNOWN_FRAME_TYPE)
          else UNKNOWN_FRAME_TYPE)"

text \<open>A fresh message has no field set; a frame is built by setting the fields of its message.\<close>

definition new_v1 :: "FrameType \<Rightarrow> v1_frame" where
  "new_v1 t =
     \<lparr>v1_type = Some t, v1_connection_request = None, v1_connection_response = None,
      v1_payload_transfer = None, v1_bandwidth_upgrade_negotiation = None, v1_keep_alive = None,
      v1_disconnection = None, v1_auto_reconnect = None\<rparr>"

definition v1_offline :: "v1_frame \<Rightarrow> offline_frame" where
  "v1_offline v = \<lparr>of_version = Some V1, of_v1 = Some v\<rparr>"

section \<open>Names of the mediums\<close>

fun MediumToUpgradePathInfoMedium :: "Medium \<Rightarrow> upgrade_medium" where
  "MediumToUpgradePathInfoMedium MDNS = Upgrade_MDNS"
| "MediumToUpgradePathInfoMedium BLUETOOTH = Upgrade_BLUETOOTH"
| "MediumToUpgradePathInfoMedium WIFI_HOTSPOT = Upgrade_WIFI_HOTSPOT"
| "MediumToUpgradePathInfoMedium BLE = Upgrade_BLE"
| "MediumToUpgradePathInfoMedium WIFI_LAN = Upgrade_WIFI_LAN"
| "MediumToUpgradePathInfoMedium WIFI_AWARE = Upgrade_WIFI_AWARE"
| "MediumToUpgradePathInfoMedium NFC = Upgrade_NFC"
| "MediumToUpgradePathInfoMedium WIFI_DIRECT = Upgrade_WIFI_DIRECT"
| "MediumToUpgradePathInfoMedium WEB_RTC = Upgrade_WEB_RTC"
| "MediumToUpgradePathInfoMedium WEB_RTC_NON_CELLULAR = Upgrade_WEB_RTC_NON_CELLULAR"
| "MediumToUpgradePathInfoMedium USB = Upgrade_USB"
| "MediumToUpgradePathInfoMedium AWDL = Upgrade_AWDL"
| "MediumToUpgradePathInfoMedium _ = Upgrade_UNKNOWN_MEDIUM"

fun UpgradePathInfoMediumToMedium :: "upgrade_medium \<Rightarrow> Medium" where
  "UpgradePathInfoMediumToMedium Upgrade_MDNS = MDNS"
| "UpgradePathInfoMediumToMedium Upgrade_BLUETOOTH = BLUETOOTH"
| "UpgradePathInfoMediumToMedium Upgrade_WIFI_HOTSPOT = WIFI_HOTSPOT"
| "UpgradePathInfoMediumToMedium Upgrade_BLE = BLE"
| "UpgradePathInfoMediumToMedium Upgrade_WIFI_LAN = WIFI_LAN"
| "UpgradePathInfoMediumToMedium Upgrade_WIFI_AWARE = WIFI_AWARE"
| "UpgradePathInfoMediumToMedium Upgrade_NFC = NFC"
| "UpgradePathInfoMediumToMedium Upgrade_WIFI_DIRECT = WIFI_DIRECT"
| "UpgradePathInfoMediumToMedium Upgrade_WEB_RTC = WEB_RTC"
| "UpgradePathInfoMediumToMedium Upgrade_WEB_RTC_NON_CELLULAR = WEB_RTC_NON_CELLULAR"
| "UpgradePathInfoMediumToMedium Upgrade_USB = USB"
| "UpgradePathInfoMediumToMedium Upgrade_AWDL = AWDL"
| "UpgradePathInfoMediumToMedium _ = UNKNOWN_MEDIUM"

fun MediumToConnectionRequestMedium :: "Medium \<Rightarrow> request_medium" where
  "MediumToConnectionRequestMedium MDNS = Request_MDNS"
| "MediumToConnectionRequestMedium BLUETOOTH = Request_BLUETOOTH"
| "MediumToConnectionRequestMedium WIFI_HOTSPOT = Request_WIFI_HOTSPOT"
| "MediumToConnectionRequestMedium BLE = Request_BLE"
| "MediumToConnectionRequestMedium BLE_L2CAP = Request_BLE_L2CAP"
| "MediumToConnectionRequestMedium WIFI_LAN = Request_WIFI_LAN"
| "MediumToConnectionRequestMedium WIFI_AWARE = Request_WIFI_AWARE"
| "MediumToConnectionRequestMedium NFC = Request_NFC"
| "MediumToConnectionRequestMedium WIFI_DIRECT = Request_WIFI_DIRECT"
| "MediumToConnectionRequestMedium WEB_RTC = Request_WEB_RTC"
| "MediumToConnectionRequestMedium WEB_RTC_NON_CELLULAR = Request_WEB_RTC_NON_CELLULAR"
| "MediumToConnectionRequestMedium USB = Request_USB"
| "MediumToConnectionRequestMedium AWDL = Request_AWDL"
| "MediumToConnectionRequestMedium _ = Request_UNKNOWN_MEDIUM"

fun ConnectionRequestMediumToMedium :: "request_medium \<Rightarrow> Medium" where
  "ConnectionRequestMediumToMedium Request_MDNS = MDNS"
| "ConnectionRequestMediumToMedium Request_BLUETOOTH = BLUETOOTH"
| "ConnectionRequestMediumToMedium Request_WIFI_HOTSPOT = WIFI_HOTSPOT"
| "ConnectionRequestMediumToMedium Request_BLE = BLE"
| "ConnectionRequestMediumToMedium Request_BLE_L2CAP = BLE_L2CAP"
| "ConnectionRequestMediumToMedium Request_WIFI_LAN = WIFI_LAN"
| "ConnectionRequestMediumToMedium Request_WIFI_AWARE = WIFI_AWARE"
| "ConnectionRequestMediumToMedium Request_NFC = NFC"
| "ConnectionRequestMediumToMedium Request_WIFI_DIRECT = WIFI_DIRECT"
| "ConnectionRequestMediumToMedium Request_WEB_RTC = WEB_RTC"
| "ConnectionRequestMediumToMedium Request_WEB_RTC_NON_CELLULAR = WEB_RTC_NON_CELLULAR"
| "ConnectionRequestMediumToMedium Request_USB = USB"
| "ConnectionRequestMediumToMedium Request_AWDL = AWDL"
| "ConnectionRequestMediumToMedium _ = UNKNOWN_MEDIUM"

definition ConnectionRequestMediumsToMediums :: "connection_request_message \<Rightarrow> Medium list" where
  "ConnectionRequestMediumsToMediums m = map ConnectionRequestMediumToMedium (cr_mediums m)"

lemma request_medium_roundtrip [simp]:
  "ConnectionRequestMediumToMedium (MediumToConnectionRequestMedium m) = m"
  by (cases m) simp_all

lemma upgrade_medium_roundtrip:
  "UpgradePathInfoMediumToMedium (MediumToUpgradePathInfoMedium m) =
     (if m = BLE_L2CAP then UNKNOWN_MEDIUM else m)"
  by (cases m) simp_all

section \<open>Connection frames\<close>

definition metadata_of :: "nat option \<Rightarrow> connection_info \<Rightarrow> medium_metadata" where
  "metadata_of role c =
     \<lparr>mm_supports_5_ghz = Some (info_supports_5_ghz c),
      mm_bssid = (if info_bssid c \<noteq> [] then Some (info_bssid c) else None),
      mm_ip_address = (if info_ip_address c \<noteq> [] then Some (info_ip_address c) else None),
      mm_ap_frequency = Some (info_ap_frequency c), mm_medium_role = role\<rparr>"

definition positive_millis :: "int \<Rightarrow> int option" where
  "positive_millis n = (if n > 0 then Some n else None)"

definition ForConnectionRequestConnections ::
  "bool \<Rightarrow> connections_device \<Rightarrow> connection_info \<Rightarrow> offline_frame" where
  "ForConnectionRequestConnections role_switch device c =
     v1_offline ((new_v1 CONNECTION_REQUEST)\<lparr>v1_connection_request := Some
       \<lparr>cr_endpoint_id = (if info_local_endpoint_id c \<noteq> [] then Some (info_local_endpoint_id c) else None),
        cr_endpoint_name = (if info_local_endpoint_info c \<noteq> [] then Some (info_local_endpoint_info c) else None),
        cr_nonce = Some (info_nonce c),
        cr_mediums = map MediumToConnectionRequestMedium (info_supported_mediums c),
        cr_endpoint_info = (if info_local_endpoint_info c \<noteq> [] then Some (info_local_endpoint_info c) else None),
        cr_medium_metadata = Some (metadata_of (if role_switch then info_medium_role c else None) c),
        cr_keep_alive_interval_millis = positive_millis (info_keep_alive_interval_millis c),
        cr_keep_alive_timeout_millis = positive_millis (info_keep_alive_timeout_millis c),
        cr_device = (if cd_endpoint_id device \<noteq> None then Connections_Device device else DeviceNotSet)\<rparr>\<rparr>)"

definition ForConnectionRequestPresence :: "presence_device \<Rightarrow> connection_info \<Rightarrow> offline_frame" where
  "ForConnectionRequestPresence device c =
     v1_offline ((new_v1 CONNECTION_REQUEST)\<lparr>v1_connection_request := Some
       \<lparr>cr_endpoint_id =
          (if info_local_endpoint_id c \<noteq> []
           then Some (case pd_endpoint_id device of Some e \<Rightarrow> e | None \<Rightarrow> []) else None),
        cr_endpoint_name = (if info_local_endpoint_info c \<noteq> [] then Some (info_local_endpoint_info c) else None),
        cr_nonce = Some (info_nonce c),
        cr_mediums = map MediumToConnectionRequestMedium (info_supported_mediums c),
        cr_endpoint_info = (if info_local_endpoint_info c \<noteq> [] then Some (info_local_endpoint_info c) else None),
        cr_medium_metadata = Some (metadata_of None c),
        cr_keep_alive_interval_millis = positive_millis (info_keep_alive_interval_millis c),
        cr_keep_alive_timeout_millis = positive_millis (info_keep_alive_timeout_millis c),
        cr_device = Presence_Device device\<rparr>\<rparr>)"

text \<open>A device of the third type sends a request with an empty \<open>ConnectionsDevice\<close>.\<close>

datatype local_device =
    LocalConnectionsDevice connections_device | LocalPresenceDevice presence_device
  | LocalUnknownDevice

definition no_connections_device :: connections_device where
  "no_connections_device =
     \<lparr>cd_endpoint_id = None, cd_endpoint_type = None, cd_connectivity_info_list = None,
      cd_endpoint_info = None\<rparr>"

fun WriteConnectionRequestFrame :: "bool \<Rightarrow> local_device \<Rightarrow> connection_info \<Rightarrow> offline_frame" where
  "WriteConnectionRequestFrame rs (LocalConnectionsDevice d) c = ForConnectionRequestConnections rs d c"
| "WriteConnectionRequestFrame rs (LocalPresenceDevice d) c = ForConnectionRequestPresence d c"
| "WriteConnectionRequestFrame rs LocalUnknownDevice c =
     ForConnectionRequestConnections rs no_connections_device c"

text \<open>\<open>Status::kSuccess\<close> is 0.\<close>

definition ForConnectionResponse :: "int \<Rightarrow> int \<Rightarrow> nat \<Rightarrow> 32 word \<Rightarrow> offline_frame" where
  "ForConnectionResponse version status os bitmask =
     v1_offline ((new_v1 CONNECTION_RESPONSE)\<lparr>v1_connection_response := Some
       \<lparr>frame_response = Some (if status = 0 then ACCEPT else REJECT), frame_status = status,
        frame_os_info = Some os, frame_multiplex_socket_bitmask = Some bitmask,
        frame_safe_to_disconnect_version = Some version\<rparr>\<rparr>)"

section \<open>Payload frames\<close>

definition transfer_frame :: "payload_transfer \<Rightarrow> offline_frame" where
  "transfer_frame t = v1_offline ((new_v1 PAYLOAD_TRANSFER)\<lparr>v1_payload_transfer := Some t\<rparr>)"

definition ForDataPayloadTransfer :: "payload_header \<Rightarrow> chunk_message \<Rightarrow> offline_frame" where
  "ForDataPayloadTransfer h c = transfer_frame
     \<lparr>pt_packet_type = Some DATA, pt_payload_header = Some h, pt_payload_chunk = Some c,
      pt_control_message = None\<rparr>"

definition ForControlPayloadTransfer :: "payload_header \<Rightarrow> control_message \<Rightarrow> offline_frame" where
  "ForControlPayloadTransfer h c = transfer_frame
     \<lparr>pt_packet_type = Some CONTROL, pt_payload_header = Some h, pt_payload_chunk = None,
      pt_control_message = Some c\<rparr>"

definition ForPayloadAckPayloadTransfer :: "int \<Rightarrow> offline_frame" where
  "ForPayloadAckPayloadTransfer i = transfer_frame
     \<lparr>pt_packet_type = Some PAYLOAD_ACK,
      pt_payload_header = Some \<lparr>hd_id = Some i, hd_type = None,
        hd_total_size = Some kIndeterminateSize, hd_file_name = None, hd_parent_folder = None,
        hd_last_modified = None\<rparr>,
      pt_payload_chunk = None, pt_control_message = None\<rparr>"

section \<open>Frames of the bandwidth upgrade\<close>

definition upgrade_frame :: "upgrade_negotiation \<Rightarrow> offline_frame" where
  "upgrade_frame n =
     v1_offline ((new_v1 BANDWIDTH_UPGRADE_NEGOTIATION)\<lparr>v1_bandwidth_upgrade_negotiation := Some n\<rparr>)"

definition new_negotiation :: "upgrade_event \<Rightarrow> upgrade_negotiation" where
  "new_negotiation ev =
     \<lparr>bn_event_type = Some ev, bn_upgrade_path_info = None, bn_client_introduction = None\<rparr>"

definition empty_path_info :: upgrade_path_info where
  "empty_path_info =
     \<lparr>up_medium = None, up_wifi_hotspot_credentials = None, up_wifi_lan_socket = None,
      up_bluetooth_credentials = None, up_wifi_aware_credentials = None,
      up_wifi_direct_credentials = None, up_web_rtc_credentials = None,
      up_awdl_credentials = None, up_supports_disabling_encryption = None,
      up_supports_client_introduction_ack = None, up_upgrade_path_request = None\<rparr>"

text \<open>What the frames for an available path have in common.\<close>

definition path_available :: "upgrade_medium \<Rightarrow> (upgrade_path_info \<Rightarrow> upgrade_path_info) \<Rightarrow> offline_frame" where
  "path_available m f = upgrade_frame ((new_negotiation UPGRADE_PATH_AVAILABLE)\<lparr>
     bn_upgrade_path_info := Some (f (empty_path_info\<lparr>up_medium := Some m,
       up_supports_client_introduction_ack := Some True\<rparr>))\<rparr>)"

definition ForBwuWifiHotspotPathAvailable ::
  "string \<Rightarrow> string \<Rightarrow> int \<Rightarrow> int \<Rightarrow> string \<Rightarrow> bool \<Rightarrow> offline_frame" where
  "ForBwuWifiHotspotPathAvailable ssid password port frequency gateway disabling =
     path_available Upgrade_WIFI_HOTSPOT (\<lambda>u. u\<lparr>
       up_supports_disabling_encryption := Some disabling,
       up_wifi_hotspot_credentials := Some
         \<lparr>wh_ssid = Some ssid, wh_password = Some password, wh_port = Some port,
          wh_gateway = Some gateway, wh_frequency = Some frequency\<rparr>\<rparr>)"

definition ForBwuWifiLanPathAvailable :: "string \<Rightarrow> int \<Rightarrow> offline_frame" where
  "ForBwuWifiLanPathAvailable ip port =
     path_available Upgrade_WIFI_LAN (\<lambda>u. u\<lparr>
       up_wifi_lan_socket := Some \<lparr>wl_ip_address = Some ip, wl_wifi_port = Some port\<rparr>\<rparr>)"

definition ForBwuAwdlPathAvailable :: "string \<Rightarrow> string \<Rightarrow> string \<Rightarrow> bool \<Rightarrow> offline_frame" where
  "ForBwuAwdlPathAvailable service_name service_type password disabling =
     path_available Upgrade_AWDL (\<lambda>u. u\<lparr>
       up_supports_disabling_encryption := Some disabling,
       up_awdl_credentials := Some
         \<lparr>aw_service_name = Some service_name, aw_service_type = Some service_type,
          aw_password = Some password\<rparr>\<rparr>)"

definition ForBwuWifiAwarePathAvailable :: "string \<Rightarrow> string \<Rightarrow> string \<Rightarrow> bool \<Rightarrow> offline_frame" where
  "ForBwuWifiAwarePathAvailable service_id service_info password disabling =
     path_available Upgrade_WIFI_AWARE (\<lambda>u. u\<lparr>
       up_supports_disabling_encryption := Some disabling,
       up_wifi_aware_credentials := Some
         \<lparr>wa_service_id = Some service_id, wa_service_info = Some service_info,
          wa_password = (if password \<noteq> [] then Some password else None)\<rparr>\<rparr>)"

definition ForBwuWifiDirectPathAvailable ::
  "string \<Rightarrow> string \<Rightarrow> int \<Rightarrow> int \<Rightarrow> bool \<Rightarrow> string \<Rightarrow> offline_frame" where
  "ForBwuWifiDirectPathAvailable ssid password port frequency disabling gateway =
     path_available Upgrade_WIFI_DIRECT (\<lambda>u. u\<lparr>
       up_supports_disabling_encryption := Some disabling,
       up_wifi_direct_credentials := Some
         \<lparr>wd_ssid = Some ssid, wd_password = Some password, wd_port = Some port,
          wd_frequency = Some frequency, wd_gateway = Some gateway\<rparr>\<rparr>)"

text \<open>\<open>mac_address\<close> is the address as \<open>MacAddress::ToString\<close> prints it.\<close>

definition ForBwuBluetoothPathAvailable :: "string \<Rightarrow> string \<Rightarrow> offline_frame" where
  "ForBwuBluetoothPathAvailable service_id mac_address =
     path_available Upgrade_BLUETOOTH (\<lambda>u. u\<lparr>
       up_bluetooth_credentials := Some
         \<lparr>bt_service_name = Some service_id, bt_mac_address = Some mac_address\<rparr>\<rparr>)"

definition ForBwuWebrtcPathAvailable :: "string \<Rightarrow> nat \<Rightarrow> offline_frame" where
  "ForBwuWebrtcPathAvailable peer_id location_hint =
     path_available Upgrade_WEB_RTC (\<lambda>u. u\<lparr>
       up_web_rtc_credentials := Some
         \<lparr>wr_peer_id = Some peer_id, wr_location_hint = Some location_hint\<rparr>\<rparr>)"

definition ForBwuLastWrite :: offline_frame where
  "ForBwuLastWrite = upgrade_frame (new_negotiation LAST_WRITE_TO_PRIOR_CHANNEL)"

definition ForBwuSafeToClose :: offline_frame where
  "ForBwuSafeToClose = upgrade_frame (new_negotiation SAFE_TO_CLOSE_PRIOR_CHANNEL)"

definition ForBwuIntroduction :: "string \<Rightarrow> bool \<Rightarrow> offline_frame" where
  "ForBwuIntroduction endpoint_id disabling =
     upgrade_frame ((new_negotiation CLIENT_INTRODUCTION)\<lparr>bn_client_introduction := Some
       \<lparr>ci_endpoint_id = Some endpoint_id, ci_supports_disabling_encryption = Some disabling,
        ci_last_endpoint_id = None\<rparr>\<rparr>)"

definition ForBwuIntroductionAck :: offline_frame where
  "ForBwuIntroductionAck = upgrade_frame (new_negotiation CLIENT_INTRODUCTION_ACK)"

definition ForBwuFailure :: "upgrade_path_info \<Rightarrow> offline_frame" where
  "ForBwuFailure info =
     upgrade_frame ((new_negotiation UPGRADE_FAILURE)\<lparr>bn_upgrade_path_info := Some info\<rparr>)"

definition ForBwuPathRequest :: "Medium list \<Rightarrow> nat \<Rightarrow> offline_frame" where
  "ForBwuPathRequest mediums role =
     upgrade_frame ((new_negotiation UPGRADE_PATH_REQUEST)\<lparr>bn_upgrade_path_info :=
       Some (empty_path_info\<lparr>up_upgrade_path_request := Some
         \<lparr>pr_mediums = map MediumToUpgradePathInfoMedium mediums, pr_medium_role = Some role\<rparr>\<rparr>)\<rparr>)"

section \<open>The other frames\<close>

definition plain_ForKeepAlive :: offline_frame where
  "plain_ForKeepAlive = v1_offline ((new_v1 KEEP_ALIVE)\<lparr>v1_keep_alive := Some
     \<lparr>ka_ack = None, ka_seq_num = None\<rparr>\<rparr>)"

definition ForKeepAlive :: "bool \<Rightarrow> 32 word \<Rightarrow> offline_frame" where
  "ForKeepAlive ack seq_num = v1_offline ((new_v1 KEEP_ALIVE)\<lparr>v1_keep_alive := Some
     \<lparr>ka_ack = Some ack, ka_seq_num = Some seq_num\<rparr>\<rparr>)"

definition ForDisconnection :: "bool \<Rightarrow> bool \<Rightarrow> offline_frame" where
  "ForDisconnection request ack = v1_offline ((new_v1 DISCONNECTION)\<lparr>v1_disconnection := Some
     \<lparr>dm_request_safe_to_disconnect = Some request, dm_ack_safe_to_disconnect = Some ack\<rparr>\<rparr>)"

definition ForAutoReconnectIntroduction :: "string \<Rightarrow> offline_frame" where
  "ForAutoReconnectIntroduction endpoint_id =
     v1_offline ((new_v1 AUTO_RECONNECT)\<lparr>v1_auto_reconnect := Some
       \<lparr>ar_endpoint_id = Some endpoint_id, ar_event_type = Some RECONNECT_INTRODUCTION,
        ar_last_endpoint_id = None\<rparr>\<rparr>)"

definition ForAutoReconnectIntroductionAck :: offline_frame where
  "ForAutoReconnectIntroductionAck =
     v1_offline ((new_v1 AUTO_RECONNECT)\<lparr>v1_auto_reconnect := Some
       \<lparr>ar_endpoint_id = None, ar_event_type = Some RECONNECT_INTRODUCTION_ACK,
        ar_last_endpoint_id = None\<rparr>\<rparr>)"

lemma frame_types [simp]:
  "GetFrameType (v1_offline v) = (case v1_type v of Some t \<Rightarrow> t | None \<Rightarrow> UNKNOWN_FRAME_TYPE)"
  "of_v1 (v1_offline v) = Some v" "v1_type (new_v1 t) = Some t"
  by (simp_all add: GetFrameType_def v1_offline_def new_v1_def)

section \<open>What the receivers read\<close>

text \<open>The fields of a connection request as \<open>BasePcpHandler::OnIncomingConnection\<close> reads them.\<close>

definition metadata_field :: "(medium_metadata \<Rightarrow> 'a option) \<Rightarrow> 'a \<Rightarrow> connection_request_message \<Rightarrow> 'a" where
  "metadata_field f d m =
     (case Option.bind (cr_medium_metadata m) f of Some x \<Rightarrow> x | None \<Rightarrow> d)"

definition request_of_message :: "connection_request_message \<Rightarrow> connection_request_frame" where
  "request_of_message m =
     \<lparr>req_endpoint_id = (case cr_endpoint_id m of Some e \<Rightarrow> e | None \<Rightarrow> []),
      req_endpoint_info = cr_endpoint_info m,
      req_endpoint_name = (case cr_endpoint_name m of Some n \<Rightarrow> n | None \<Rightarrow> []),
      req_nonce = (case cr_nonce m of Some n \<Rightarrow> n | None \<Rightarrow> 0),
      req_has_connections_device = (case cr_device m of Connections_Device _ \<Rightarrow> True | _ \<Rightarrow> False),
      req_has_presence_device = (case cr_device m of Presence_Device _ \<Rightarrow> True | _ \<Rightarrow> False),
      req_keep_alive_interval = cr_keep_alive_interval_millis m,
      req_keep_alive_timeout = cr_keep_alive_timeout_millis m,
      req_mediums = ConnectionRequestMediumsToMediums m,
      req_supports_5_ghz = metadata_field mm_supports_5_ghz False m,
      req_bssid = metadata_field mm_bssid [] m,
      req_ap_frequency = metadata_field mm_ap_frequency (-1) m,
      req_ip_address = metadata_field mm_ip_address [] m,
      req_medium_role = Option.bind (cr_medium_metadata m) mm_medium_role\<rparr>"

text \<open>A chunk as it is set by the sender and read by the receiver.\<close>

definition message_of_chunk :: "payload_chunk \<Rightarrow> chunk_message" where
  "message_of_chunk c =
     \<lparr>cm_flags = Some (ck_flags c), cm_offset = Some (ck_offset c),
      cm_body = (if ck_body c \<noteq> [] then Some (ck_body c) else None), cm_index = Some (ck_index c)\<rparr>"

definition chunk_of_message :: "chunk_message \<Rightarrow> payload_chunk" where
  "chunk_of_message m =
     \<lparr>ck_flags = (case cm_flags m of Some x \<Rightarrow> x | None \<Rightarrow> 0),
      ck_offset = (case cm_offset m of Some x \<Rightarrow> x | None \<Rightarrow> 0),
      ck_body = (case cm_body m of Some x \<Rightarrow> x | None \<Rightarrow> []),
      ck_index = (case cm_index m of Some x \<Rightarrow> x | None \<Rightarrow> 0)\<rparr>"

lemma chunk_message_roundtrip [simp]: "chunk_of_message (message_of_chunk c) = c"
  by (simp add: chunk_of_message_def message_of_chunk_def)

definition empty_header :: payload_header where
  "empty_header =
     \<lparr>hd_id = None, hd_type = None, hd_total_size = None, hd_file_name = None,
      hd_parent_folder = None, hd_last_modified = None\<rparr>"

definition header_of :: "payload_transfer \<Rightarrow> payload_header" where
  "header_of t = (case pt_payload_header t of Some h \<Rightarrow> h | None \<Rightarrow> empty_header)"

definition transfer_chunk :: "payload_transfer \<Rightarrow> payload_chunk" where
  "transfer_chunk t =
     chunk_of_message (case pt_payload_chunk t of Some m \<Rightarrow> m
       | None \<Rightarrow> \<lparr>cm_flags = None, cm_offset = None, cm_body = None, cm_index = None\<rparr>)"

text \<open>The transfer frame as \<open>PayloadManager::OnIncomingFrame\<close> reads it.\<close>

definition transfer_of_message :: "payload_transfer \<Rightarrow> payload_frame" where
  "transfer_of_message t =
     (case pt_packet_type t of
        Some DATA \<Rightarrow> DataFrame (header_of t) (transfer_chunk t)
      | Some CONTROL \<Rightarrow>
          (let m = (case pt_control_message t of Some m \<Rightarrow> m | None \<Rightarrow> \<lparr>ct_event = None, ct_offset = None\<rparr>)
           in ControlFrame (header_of t)
                (case ct_event m of Some ev \<Rightarrow> ev | None \<Rightarrow> UNKNOWN_EVENT_TYPE)
                (case ct_offset m of Some off \<Rightarrow> off | None \<Rightarrow> 0))
      | Some PAYLOAD_ACK \<Rightarrow> AckFrame (header_of t)
      | _ \<Rightarrow> UnknownFrame (header_of t))"

end
