(* ===== verification/Pattern.thy ===== *)
theory Pattern
  imports Main
begin

text \<open>
  Regular expressions as \<open>std::regex_match\<close> decides them: the whole string has to match.  The
  matcher takes derivatives, one per character; \<open>matches_lang\<close> says that it decides the
  language of the expression.
\<close>

datatype pattern =
    Nothing | Empty | Class "char \<Rightarrow> bool" | Then pattern pattern | Or pattern pattern | Many pattern

definition Optional :: "pattern \<Rightarrow> pattern" where
  "Optional r = Or r Empty"

definition Lit :: "char \<Rightarrow> pattern" where
  "Lit c = Class (\<lambda>x. x = c)"

fun Text :: "string \<Rightarrow> pattern" where
  "Text [] = Empty"
| "Text (c # s) = Then (Lit c) (Text s)"

fun nullable :: "pattern \<Rightarrow> bool" where
  "nullable Nothing = False"
| "nullable Empty = True"
| "nullable (Class P) = False"
| "nullable (Then r q) = (nullable r \<and> nullable q)"
| "nullable (Or r q) = (nullable r \<or> nullable q)"
| "nullable (Many r) = True"

fun derive :: "char \<Rightarrow> pattern \<Rightarrow> pattern" where
  "derive c Nothing = Nothing"
| "derive c Empty = Nothing"
| "derive c (Class P) = (if P c then Empty else Nothing)"
| "derive c (Then r q) =
     (if nullable r then Or (Then (derive c r) q) (derive c q) else Then (derive c r) q)"
| "derive c (Or r q) = Or (derive c r) (derive c q)"
| "derive c (Many r) = Then (derive c r) (Many r)"

definition regex_match :: "string \<Rightarrow> pattern \<Rightarrow> bool" where
  "regex_match s r = nullable (fold derive s r)"

section \<open>The language of a pattern\<close>

definition glue :: "string set \<Rightarrow> string set \<Rightarrow> string set" where
  "glue A B = {a @ b |a b. a \<in> A \<and> b \<in> B}"

inductive_set closure :: "string set \<Rightarrow> string set" for A where
  closure_Nil: "[] \<in> closure A"
| closure_step: "a \<in> A \<Longrightarrow> s \<in> closure A \<Longrightarrow> a @ s \<in> closure A"

primrec lang :: "pattern \<Rightarrow> string set" where
  "lang Nothing = {}"
| "lang Empty = {[]}"
| "lang (Class P) = {[c] |c. P c}"
| "lang (Then r q) = glue (lang r) (lang q)"
| "lang (Or r q) = lang r \<union> lang q"
| "lang (Many r) = closure (lang r)"

lemma nullable_lang: "nullable r \<longleftrightarrow> [] \<in> lang r"
  by (induction r) (auto simp: glue_def intro: closure_Nil)

lemma closure_Cons:
  "c # s \<in> closure A \<longleftrightarrow> (\<exists>a b. c # a \<in> A \<and> b \<in> closure A \<and> s = a @ b)"
proof
  have "t \<in> closure A \<Longrightarrow> t = c # s \<Longrightarrow> \<exists>a b. c # a \<in> A \<and> b \<in> closure A \<and> s = a @ b" for t
    by (induction t rule: closure.induct) (auto simp: append_eq_Cons_conv)
  then show "c # s \<in> closure A \<Longrightarrow> \<exists>a b. c # a \<in> A \<and> b \<in> closure A \<and> s = a @ b" by blast
  show "\<exists>a b. c # a \<in> A \<and> b \<in> closure A \<and> s = a @ b \<Longrightarrow> c # s \<in> closure A"
    using closure_step [of "c # _" A] by fastforce
qed

lemma glue_Cons:
  "c # s \<in> glue A B \<longleftrightarrow>
     (\<exists>a b. c # a \<in> A \<and> b \<in> B \<and> s = a @ b) \<or> ([] \<in> A \<and> c # s \<in> B)"
proof
  assume "c # s \<in> glue A B"
  then obtain a b where ab: "a \<in> A" "b \<in> B" "c # s = a @ b" by (auto simp: glue_def)
  then show "(\<exists>a b. c # a \<in> A \<and> b \<in> B \<and> s = a @ b) \<or> ([] \<in> A \<and> c # s \<in> B)"
    by (cases a) auto
next
  have "c # a \<in> A \<Longrightarrow> b \<in> B \<Longrightarrow> c # a @ b \<in> glue A B" for a b
    unfolding glue_def by (intro CollectI exI [of _ "c # a"] exI [of _ b]) simp
  moreover have "[] \<in> A \<Longrightarrow> c # s \<in> B \<Longrightarrow> c # s \<in> glue A B"
    unfolding glue_def by (intro CollectI exI [of _ "[]"] exI [of _ "c # s"]) simp
  ultimately show "(\<exists>a b. c # a \<in> A \<and> b \<in> B \<and> s = a @ b) \<or> ([] \<in> A \<and> c # s \<in> B) \<Longrightarrow>
    c # s \<in> glue A B" by blast
qed

lemma in_glue: "s \<in> glue A B \<longleftrightarrow> (\<exists>a\<in>A. \<exists>b\<in>B. s = a @ b)"
  by (auto simp: glue_def)

lemma derive_lang: "s \<in> lang (derive c r) \<longleftrightarrow> c # s \<in> lang r"
proof (induction r arbitrary: s)
  case (Then r q)
  have "s \<in> lang (derive c (Then r q)) \<longleftrightarrow>
      s \<in> glue (lang (derive c r)) (lang q) \<or> (nullable r \<and> s \<in> lang (derive c q))"
    by simp
  also have "\<dots> \<longleftrightarrow> c # s \<in> lang (Then r q)"
    unfolding lang.simps glue_Cons in_glue [of s] Then.IH nullable_lang Bex_def by blast
  finally show ?case .
next
  case (Many r)
  have "s \<in> lang (derive c (Many r)) \<longleftrightarrow> s \<in> glue (lang (derive c r)) (closure (lang r))" by simp
  also have "\<dots> \<longleftrightarrow> c # s \<in> lang (Many r)"
    unfolding lang.simps closure_Cons in_glue Many.IH Bex_def by blast
  finally show ?case .
qed auto

lemma matches_lang: "regex_match s r \<longleftrightarrow> s \<in> lang r"
  unfolding regex_match_def
  by (induction s arbitrary: r) (simp_all add: nullable_lang derive_lang)

lemma lang_Optional [simp]: "lang (Optional r) = lang r \<union> {[]}"
  by (simp add: Optional_def)

lemma lang_Lit [simp]: "lang (Lit c) = {[c]}"
  by (auto simp: Lit_def)

lemma in_glue_Lit [simp]: "s \<in> glue {[c]} B \<longleftrightarrow> (\<exists>b\<in>B. s = c # b)"
  by (auto simp: glue_def)

lemma lang_Text [simp]: "lang (Text w) = {w}"
proof (induction w)
  case (Cons c w)
  then show ?case by (intro set_eqI) (simp only: Text.simps lang.simps lang_Lit in_glue_Lit; simp)
qed simp

end
