(* ===== verification/Frame_Validator.thy ===== *)
theory Frame_Validator
  imports Offline_Frames Pattern
begin

text \<open>
  The checks that a frame passes before anything reads it
  (connections/implementation/offline_frames_validator.cc), and \<open>FromBytes\<close> of
  offline_frames.cc, which parses and checks.  What parsing yields is an argument.
\<close>

datatype exception_value =
    kFailed | kNoException | kIo | kInterrupted | kInvalidProtocolBuffer | kExecution
  | kTimedOut | kIllegalCharacters

definition WithinRange :: "int \<Rightarrow> int \<Rightarrow> int \<Rightarrow> bool" where
  "WithinRange value low high \<longleftrightarrow> value \<ge> low \<and> value < high"

definition kWifiDirectSsidMaxLength :: int where "kWifiDirectSsidMaxLength = 32"
definition kWifiPasswordSsidMinLength :: int where "kWifiPasswordSsidMinLength = 8"
definition kWifiPasswordSsidMaxLength :: int where "kWifiPasswordSsidMaxLength = 64"

section \<open>Patterns\<close>

definition between :: "nat \<Rightarrow> nat \<Rightarrow> pattern" where
  "between a b = Class (\<lambda>c. a \<le> of_char c \<and> of_char c \<le> b)"

definition digit :: pattern where "digit = between 48 57"

definition octet :: pattern where
  "octet =
     Or (Then (Optional (between 48 49)) (Then digit (Optional digit)))
       (Or (Then (Lit (CHR ''2'')) (Then (between 48 52) digit))
           (Then (Text ''25'') (between 48 53)))"

fun dotted_octets :: "nat \<Rightarrow> pattern" where
  "dotted_octets 0 = octet"
| "dotted_octets (Suc n) = Then octet (Then (Lit (CHR ''.'')) (dotted_octets n))"

definition kIpv4PatternString :: pattern where "kIpv4PatternString = dotted_octets 3"
definition kIpv6PatternString :: pattern where "kIpv6PatternString = dotted_octets 5"

definition any_char :: pattern where
  "any_char = Class (\<lambda>c. c \<noteq> CHR 0x0A \<and> c \<noteq> CHR 0x0D)"

definition alphanumeric :: pattern where
  "alphanumeric = Or (between 97 122) (Or (between 65 90) digit)"

definition kWifiDirectSsidPatternString :: pattern where
  "kWifiDirectSsidPatternString =
     Then (Text ''DIRECT-'') (Then alphanumeric (Then alphanumeric (Many any_char)))"

section \<open>Connection frames\<close>

definition EnsureValidConnectionRequestFrame :: "connection_request_message \<Rightarrow> exception_value" where
  "EnsureValidConnectionRequestFrame m =
     (if (case cr_endpoint_id m of Some e \<Rightarrow> e | None \<Rightarrow> []) = [] then kInvalidProtocolBuffer
      else if (case cr_endpoint_name m of Some n \<Rightarrow> n | None \<Rightarrow> []) = [] then kInvalidProtocolBuffer
      else kNoException)"

definition EnsureValidConnectionResponseFrame :: "connection_response_frame \<Rightarrow> exception_value" where
  "EnsureValidConnectionResponseFrame m = kNoException"

section \<open>Payload frames\<close>

definition EnsureValidPayloadTransferDataFrame :: "chunk_message \<Rightarrow> int \<Rightarrow> exception_value" where
  "EnsureValidPayloadTransferDataFrame m total_size =
     (case cm_flags m of
        None \<Rightarrow> kInvalidProtocolBuffer
      | Some fl \<Rightarrow>
          let is_last_chunk = fl AND LAST_CHUNK \<noteq> 0 in
          if cm_body m = None \<and> \<not> is_last_chunk then kInvalidProtocolBuffer
          else case cm_offset m of
            None \<Rightarrow> kInvalidProtocolBuffer
          | Some off \<Rightarrow>
              if off < 0 then kInvalidProtocolBuffer
              else if total_size \<noteq> kIndeterminateSize \<and> total_size < off then kInvalidProtocolBuffer
              else kNoException)"

definition EnsureValidPayloadTransferControlFrame :: "control_message \<Rightarrow> int \<Rightarrow> exception_value" where
  "EnsureValidPayloadTransferControlFrame m total_size =
     (case ct_offset m of
        None \<Rightarrow> kInvalidProtocolBuffer
      | Some off \<Rightarrow>
          if off < 0 then kInvalidProtocolBuffer
          else if total_size \<noteq> kIndeterminateSize \<and> total_size < off then kInvalidProtocolBuffer
          else kNoException)"

text \<open>\<open>std::string::find\<close> of a pattern.\<close>

fun has_substring :: "string \<Rightarrow> string \<Rightarrow> bool" where
  "has_substring p [] \<longleftrightarrow> p = []"
| "has_substring p (c # s) \<longleftrightarrow> take (length p) (c # s) = p \<or> has_substring p s"

definition kIllegalFileNamePatterns :: "string list" where
  "kIllegalFileNamePatterns = ['':'', ''/'', [CHR 0x5C]]"

definition kIllegalParentFolderPatterns :: "string list" where
  "kIllegalParentFolderPatterns = ['':'', ''..'']"

definition CheckForIllegalCharacters :: "string \<Rightarrow> string list \<Rightarrow> bool" where
  "CheckForIllegalCharacters s patterns \<longleftrightarrow>
     s \<noteq> [] \<and> list_ex (\<lambda>p. has_substring p s) patterns"

definition illegal_names :: "payload_header \<Rightarrow> bool" where
  "illegal_names h \<longleftrightarrow>
     hd_type h = Some FILE \<and>
     ((case hd_file_name h of None \<Rightarrow> False
       | Some n \<Rightarrow> CheckForIllegalCharacters n kIllegalFileNamePatterns) \<or>
      (case hd_parent_folder h of None \<Rightarrow> False
       | Some d \<Rightarrow> CheckForIllegalCharacters d kIllegalParentFolderPatterns))"

definition EnsureValidPayloadTransferFrame :: "payload_transfer \<Rightarrow> exception_value" where
  "EnsureValidPayloadTransferFrame t =
     (case pt_payload_header t of
        None \<Rightarrow> kInvalidProtocolBuffer
      | Some h \<Rightarrow>
          if pt_packet_type t = Some PAYLOAD_ACK then kNoException
          else if hd_total_size h = None \<or>
                  (header_total_size h < 0 \<and> header_total_size h \<noteq> kIndeterminateSize)
          then kInvalidProtocolBuffer
          else if illegal_names h then kIllegalCharacters
          else case pt_packet_type t of
            None \<Rightarrow> kInvalidProtocolBuffer
          | Some DATA \<Rightarrow>
              (case pt_payload_chunk t of
                 Some c \<Rightarrow> EnsureValidPayloadTransferDataFrame c (header_total_size h)
               | None \<Rightarrow> kInvalidProtocolBuffer)
          | Some CONTROL \<Rightarrow>
              (case pt_control_message t of
                 Some c \<Rightarrow> EnsureValidPayloadTransferControlFrame c (header_total_size h)
               | None \<Rightarrow> kInvalidProtocolBuffer)
          | _ \<Rightarrow> kNoException)"

section \<open>Frames of the bandwidth upgrade\<close>

definition valid_password :: "string option \<Rightarrow> bool" where
  "valid_password p \<longleftrightarrow> (case p of None \<Rightarrow> False
     | Some s \<Rightarrow> WithinRange (int (length s)) kWifiPasswordSsidMinLength kWifiPasswordSsidMaxLength)"

definition valid_gateway :: "string \<Rightarrow> bool" where
  "valid_gateway g \<longleftrightarrow> regex_match g kIpv4PatternString \<or> regex_match g kIpv6PatternString"

definition EnsureValidBandwidthUpgradeWifiHotspotPathAvailableFrame ::
  "wifi_hotspot_credentials \<Rightarrow> exception_value" where
  "EnsureValidBandwidthUpgradeWifiHotspotPathAvailableFrame c =
     (if wh_ssid c = None then kInvalidProtocolBuffer
      else if \<not> valid_password (wh_password c) then kInvalidProtocolBuffer
      else case wh_gateway c of
        None \<Rightarrow> kInvalidProtocolBuffer
      | Some g \<Rightarrow> if \<not> valid_gateway g then kInvalidProtocolBuffer else kNoException)"

definition EnsureValidBandwidthUpgradeWifiLanPathAvailableFrame ::
  "wifi_lan_socket \<Rightarrow> exception_value" where
  "EnsureValidBandwidthUpgradeWifiLanPathAvailableFrame c =
     (if wl_ip_address c = None then kInvalidProtocolBuffer
      else case wl_wifi_port c of
        None \<Rightarrow> kInvalidProtocolBuffer
      | Some port \<Rightarrow> if port < 0 then kInvalidProtocolBuffer else kNoException)"

definition EnsureValidBandwidthUpgradeWifiAwarePathAvailableFrame ::
  "wifi_aware_credentials \<Rightarrow> exception_value" where
  "EnsureValidBandwidthUpgradeWifiAwarePathAvailableFrame c =
     (if wa_service_id c = None then kInvalidProtocolBuffer
      else if wa_service_info c = None then kInvalidProtocolBuffer
      else kNoException)"

definition EnsureValidBandwidthUpgradeWifiDirectPathAvailableFrame ::
  "wifi_direct_credentials \<Rightarrow> exception_value" where
  "EnsureValidBandwidthUpgradeWifiDirectPathAvailableFrame c =
     (case wd_ssid c of
        None \<Rightarrow> kInvalidProtocolBuffer
      | Some ssid \<Rightarrow>
          if \<not> (int (length ssid) < kWifiDirectSsidMaxLength \<and>
                 regex_match ssid kWifiDirectSsidPatternString)
          then kInvalidProtocolBuffer
          else if \<not> valid_password (wd_password c) then kInvalidProtocolBuffer
          else case wd_frequency c of
            None \<Rightarrow> kInvalidProtocolBuffer
          | Some f \<Rightarrow> if f < -1 then kInvalidProtocolBuffer else kNoException)"

definition EnsureValidBandwidthUpgradeBluetoothPathAvailableFrame ::
  "bluetooth_credentials \<Rightarrow> exception_value" where
  "EnsureValidBandwidthUpgradeBluetoothPathAvailableFrame c =
     (if bt_service_name c = None then kInvalidProtocolBuffer
      else if bt_mac_address c = None then kInvalidProtocolBuffer
      else kNoException)"

definition EnsureValidBandwidthUpgradeWebRtcPathAvailableFrame ::
  "web_rtc_credentials \<Rightarrow> exception_value" where
  "EnsureValidBandwidthUpgradeWebRtcPathAvailableFrame c =
     (if wr_peer_id c = None then kInvalidProtocolBuffer else kNoException)"

definition check_present :: "('a \<Rightarrow> exception_value) \<Rightarrow> 'a option \<Rightarrow> exception_value" where
  "check_present f x = (case x of Some y \<Rightarrow> f y | None \<Rightarrow> kInvalidProtocolBuffer)"

text \<open>The cast of the medium keeps its number, so it is the medium of the same name.\<close>

definition EnsureValidBandwidthUpgradePathAvailableFrame :: "upgrade_path_info \<Rightarrow> exception_value" where
  "EnsureValidBandwidthUpgradePathAvailableFrame u =
     (case up_medium u of
        None \<Rightarrow> kInvalidProtocolBuffer
      | Some m \<Rightarrow>
          (case m of
             Upgrade_WIFI_HOTSPOT \<Rightarrow>
               check_present EnsureValidBandwidthUpgradeWifiHotspotPathAvailableFrame
                 (up_wifi_hotspot_credentials u)
           | Upgrade_WIFI_LAN \<Rightarrow>
               check_present EnsureValidBandwidthUpgradeWifiLanPathAvailableFrame (up_wifi_lan_socket u)
           | Upgrade_WIFI_AWARE \<Rightarrow>
               check_present EnsureValidBandwidthUpgradeWifiAwarePathAvailableFrame
                 (up_wifi_aware_credentials u)
           | Upgrade_WIFI_DIRECT \<Rightarrow>
               check_present EnsureValidBandwidthUpgradeWifiDirectPathAvailableFrame
                 (up_wifi_direct_credentials u)
           | Upgrade_BLUETOOTH \<Rightarrow>
               check_present EnsureValidBandwidthUpgradeBluetoothPathAvailableFrame
                 (up_bluetooth_credentials u)
           | Upgrade_WEB_RTC \<Rightarrow>
               check_present EnsureValidBandwidthUpgradeWebRtcPathAvailableFrame
                 (up_web_rtc_credentials u)
           | _ \<Rightarrow> kNoException))"

definition EnsureValidBandwidthUpgradeClientIntroductionFrame ::
  "client_introduction \<Rightarrow> exception_value" where
  "EnsureValidBandwidthUpgradeClientIntroductionFrame c =
     (if ci_endpoint_id c = None then kInvalidProtocolBuffer else kNoException)"

definition EnsureValidBandwidthUpgradeNegotiationFrame :: "upgrade_negotiation \<Rightarrow> exception_value" where
  "EnsureValidBandwidthUpgradeNegotiationFrame n =
     (case bn_event_type n of
        None \<Rightarrow> kInvalidProtocolBuffer
      | Some UPGRADE_PATH_AVAILABLE \<Rightarrow>
          check_present EnsureValidBandwidthUpgradePathAvailableFrame (bn_upgrade_path_info n)
      | Some CLIENT_INTRODUCTION \<Rightarrow>
          check_present EnsureValidBandwidthUpgradeClientIntroductionFrame (bn_client_introduction n)
      | _ \<Rightarrow> kNoException)"

section \<open>All frames\<close>

definition v1_message :: "(v1_frame \<Rightarrow> 'a option) \<Rightarrow> offline_frame \<Rightarrow> 'a option" where
  "v1_message f fr = Option.bind (of_v1 fr) f"

definition EnsureValidOfflineFrame :: "offline_frame \<Rightarrow> exception_value" where
  "EnsureValidOfflineFrame f =
     (case GetFrameType f of
        CONNECTION_REQUEST \<Rightarrow>
          check_present EnsureValidConnectionRequestFrame (v1_message v1_connection_request f)
      | CONNECTION_RESPONSE \<Rightarrow>
          check_present EnsureValidConnectionResponseFrame (v1_message v1_connection_response f)
      | PAYLOAD_TRANSFER \<Rightarrow>
          check_present EnsureValidPayloadTransferFrame (v1_message v1_payload_transfer f)
      | BANDWIDTH_UPGRADE_NEGOTIATION \<Rightarrow>
          check_present EnsureValidBandwidthUpgradeNegotiationFrame
            (v1_message v1_bandwidth_upgrade_negotiation f)
      | _ \<Rightarrow> kNoException)"

text \<open>\<open>parse\<close> is what protobuf reads from the bytes.\<close>

definition FromBytes ::
  "('b \<Rightarrow> offline_frame option) \<Rightarrow> 'b \<Rightarrow> exception_value + offline_frame" where
  "FromBytes parse bytes =
     (case parse bytes of
        None \<Rightarrow> Inl kInvalidProtocolBuffer
      | Some f \<Rightarrow>
          (if EnsureValidOfflineFrame f \<noteq> kNoException then Inl (EnsureValidOfflineFrame f) else Inr f))"

end
