(* ===== verification/Frame_Props.thy ===== *)
theory Frame_Props
  imports Frame_Validator Payload_Props Request_Props
begin

text \<open>
  What the checks of frames let through, and that the frames this code builds pass them and are
  read as they were meant.
\<close>

section \<open>Patterns and gateways\<close>

definition is_digit :: "char \<Rightarrow> bool" where
  "is_digit c \<longleftrightarrow> (48::nat) \<le> of_char c \<and> of_char c \<le> (57::nat)"

definition decimal :: "string \<Rightarrow> nat" where
  "decimal s = foldl (\<lambda>n c. 10 * n + (of_char c - 48)) 0 s"

definition is_octet :: "string \<Rightarrow> bool" where
  "is_octet s \<longleftrightarrow> s \<noteq> [] \<and> length s \<le> 3 \<and> list_all is_digit s \<and> decimal s \<le> 255"

fun join_dots :: "string list \<Rightarrow> string" where
  "join_dots [] = []"
| "join_dots [s] = s"
| "join_dots (s # t # r) = s @ CHR ''.'' # join_dots (t # r)"

lemma short_string:
  obtains "s = []" | a where "s = [a]" | a b where "s = [a, b]" | a b c where "s = [a, b, c]"
    | a b c d r where "s = a # b # c # d # r"
proof -
  have "s = [] \<or> (\<exists>a. s = [a]) \<or> (\<exists>a b. s = [a, b]) \<or> (\<exists>a b c. s = [a, b, c]) \<or>
      (\<exists>a b c d r. s = a # b # c # d # r)"
    by (metis neq_Nil_conv)
  then show thesis using that by blast
qed

lemma octet_length: "s \<in> lang octet \<Longrightarrow> length s \<le> 3"
  by (auto simp: octet_def between_def digit_def glue_def Lit_def)

lemma glue_simps:
  "x \<in> glue (insert [] A) B \<longleftrightarrow> x \<in> B \<or> x \<in> glue A B"
  "a # s \<in> glue {[c] |c. P c} B \<longleftrightarrow> P a \<and> s \<in> B"
  "[] \<notin> glue {[c] |c. P c} B"
  "x \<in> glue {w} B \<longleftrightarrow> (\<exists>b\<in>B. x = w @ b)"
proof -
  show "x \<in> glue (insert [] A) B \<longleftrightarrow> x \<in> B \<or> x \<in> glue A B"
    unfolding in_glue by auto
  show "a # s \<in> glue {[c] |c. P c} B \<longleftrightarrow> P a \<and> s \<in> B" by (auto simp: glue_Cons)
  show "[] \<notin> glue {[c] |c. P c} B" "x \<in> glue {w} B \<longleftrightarrow> (\<exists>b\<in>B. x = w @ b)"
    unfolding in_glue by auto
qed

lemma char_codes:
  "CHR ''2'' = c \<longleftrightarrow> of_char c = (50::nat)" "CHR ''5'' = c \<longleftrightarrow> of_char c = (53::nat)"
  "c = CHR ''2'' \<longleftrightarrow> of_char c = (50::nat)" "c = CHR ''5'' \<longleftrightarrow> of_char c = (53::nat)"
proof -
  have two: "of_char (CHR ''2'') = (50::nat)" "of_char (CHR ''5'') = (53::nat)" by simp_all
  show "c = CHR ''2'' \<longleftrightarrow> of_char c = (50::nat)" "c = CHR ''5'' \<longleftrightarrow> of_char c = (53::nat)"
    "CHR ''2'' = c \<longleftrightarrow> of_char c = (50::nat)" "CHR ''5'' = c \<longleftrightarrow> of_char c = (53::nat)"
    using two by (metis of_char_eq_iff)+
qed

lemma octet_three:
  "[a, b, c] \<in> lang octet \<longleftrightarrow>
     (48::nat) \<le> of_char a \<and> of_char a \<le> (49::nat) \<and> is_digit b \<and> is_digit c \<or>
     of_char a = (50::nat) \<and> (48::nat) \<le> of_char b \<and> of_char b \<le> (52::nat) \<and> is_digit c \<or>
     of_char a = (50::nat) \<and> of_char b = (53::nat) \<and> (48::nat) \<le> of_char c \<and> of_char c \<le> (53::nat)"
  by (auto simp: octet_def between_def digit_def is_digit_def glue_simps char_codes simp del: Text.simps)

lemma lang_octet: "s \<in> lang octet \<longleftrightarrow> is_octet s"
proof (cases rule: short_string [of s])
  case (5 a b c d r)
  then show ?thesis using octet_length [of s] by (auto simp: is_octet_def)
next
  case 1
  then show ?thesis
    by (simp add: octet_def between_def digit_def glue_simps is_octet_def del: Text.simps)
next
  case (2 a)
  then show ?thesis
    by (auto simp: octet_def between_def digit_def glue_simps is_octet_def is_digit_def decimal_def
        simp del: Text.simps)
next
  case (3 a b)
  then show ?thesis
    by (auto simp: octet_def between_def digit_def glue_simps is_octet_def is_digit_def decimal_def
        char_codes simp del: Text.simps)
next
  case (4 a b c)
  show ?thesis
  proof (cases "is_digit a \<and> is_digit b \<and> is_digit c")
    case True
    have d: "\<exists>n. of_char d = 48 + n \<and> n \<le> (9::nat)" if "is_digit d" for d
      using that unfolding is_digit_def by (intro exI [of _ "of_char d - 48"]) linarith
    obtain x where x: "of_char a = 48 + x" "x \<le> (9::nat)" using d [of a] True by auto
    obtain y where y: "of_char b = 48 + y" "y \<le> (9::nat)" using d [of b] True by auto
    obtain z where z: "of_char c = 48 + z" "z \<le> (9::nat)" using d [of c] True by auto
    note xyz = x y z
    have "s \<in> lang octet \<longleftrightarrow> x \<le> 1 \<or> x = 2 \<and> y \<le> 4 \<or> x = 2 \<and> y = 5 \<and> z \<le> 5"
      using xyz by (simp add: 4 octet_three is_digit_def)
    moreover have "is_octet s \<longleftrightarrow> 100 * x + 10 * y + z \<le> 255"
      using xyz by (simp add: 4 is_octet_def decimal_def is_digit_def)
    moreover have "x \<le> 1 \<or> x = 2 \<and> y \<le> 4 \<or> x = 2 \<and> y = 5 \<and> z \<le> 5 \<longleftrightarrow> 100 * x + 10 * y + z \<le> 255"
      using xyz(2,4,6) by linarith
    ultimately show ?thesis by simp
  next
    case False
    then have "\<not> is_octet s" by (auto simp: 4 is_octet_def)
    moreover have "s \<notin> lang octet" using False by (auto simp: 4 octet_three is_digit_def)
    ultimately show ?thesis by simp
  qed
qed

lemma join_dots_Cons: "ps \<noteq> [] \<Longrightarrow> join_dots (p # ps) = p @ CHR ''.'' # join_dots ps"
  by (cases ps) simp_all

lemma lang_dotted:
  "s \<in> lang (dotted_octets n) \<longleftrightarrow>
     (\<exists>ps. length ps = Suc n \<and> list_all is_octet ps \<and> s = join_dots ps)"
proof (induction n arbitrary: s)
  case 0
  show ?case by (auto simp: lang_octet length_Suc_conv intro!: exI [of _ "[s]"])
next
  case (Suc n)
  have "s \<in> lang (dotted_octets (Suc n)) \<longleftrightarrow>
      (\<exists>a\<in>lang octet. \<exists>b\<in>lang (dotted_octets n). s = a @ CHR ''.'' # b)"
    unfolding dotted_octets.simps lang.simps lang_Lit in_glue [of s] Bex_def in_glue_Lit by blast
  also have "\<dots> \<longleftrightarrow> (\<exists>a ps. is_octet a \<and> length ps = Suc n \<and> list_all is_octet ps \<and>
      s = a @ CHR ''.'' # join_dots ps)"
    unfolding Bex_def lang_octet Suc.IH by blast
  also have "\<dots> \<longleftrightarrow> (\<exists>ps. length ps = Suc (Suc n) \<and> list_all is_octet ps \<and> s = join_dots ps)"
  proof
    assume "\<exists>a ps. is_octet a \<and> length ps = Suc n \<and> list_all is_octet ps \<and> s = a @ CHR ''.'' # join_dots ps"
    then obtain a ps where "is_octet a" "length ps = Suc n" "list_all is_octet ps"
      "s = a @ CHR ''.'' # join_dots ps" by blast
    then show "\<exists>ps. length ps = Suc (Suc n) \<and> list_all is_octet ps \<and> s = join_dots ps"
      by (intro exI [of _ "a # ps"]) (auto simp: length_Suc_conv)
  next
    assume "\<exists>ps. length ps = Suc (Suc n) \<and> list_all is_octet ps \<and> s = join_dots ps"
    then obtain qs where q: "length qs = Suc (Suc n)" "list_all is_octet qs" "s = join_dots qs" by blast
    then obtain a b r where "qs = a # b # r" by (auto simp: length_Suc_conv)
    with q show "\<exists>a ps. is_octet a \<and> length ps = Suc n \<and> list_all is_octet ps \<and>
        s = a @ CHR ''.'' # join_dots ps"
      by (intro exI [of _ a] exI [of _ "b # r"]) simp
  qed
  finally show ?case .
qed

text \<open>
  The gateway of a Wi-Fi hotspot passes the check exactly when it is four or six decimal
  numbers of at most three digits, each at most 255, joined by dots.  The six-part form is
  what the pattern named for IPv6 describes: no IPv6 address passes.
\<close>

theorem gateway_addresses:
  "valid_gateway g \<longleftrightarrow>
     (\<exists>parts. (length parts = 4 \<or> length parts = 6) \<and> list_all is_octet parts \<and> g = join_dots parts)"
proof -
  have n: "4 = Suc 3" "6 = Suc 5" by simp_all
  show ?thesis
    unfolding valid_gateway_def kIpv4PatternString_def kIpv6PatternString_def matches_lang lang_dotted n
    by blast
qed

section \<open>Frames for available paths\<close>

definition is_alphanumeric :: "char \<Rightarrow> bool" where
  "is_alphanumeric c \<longleftrightarrow> (97::nat) \<le> of_char c \<and> of_char c \<le> (122::nat) \<or>
     (65::nat) \<le> of_char c \<and> of_char c \<le> (90::nat) \<or> is_digit c"

definition wifi_direct_ssid :: "string \<Rightarrow> bool" where
  "wifi_direct_ssid s \<longleftrightarrow> (\<exists>a b r. s = ''DIRECT-'' @ a # b # r \<and> is_alphanumeric a \<and>
     is_alphanumeric b \<and> list_all (\<lambda>c. c \<noteq> CHR 0x0A \<and> c \<noteq> CHR 0x0D) r)"

lemma lang_alphanumeric: "lang alphanumeric = {[c] |c. is_alphanumeric c}"
  unfolding alphanumeric_def lang.simps between_def digit_def is_alphanumeric_def is_digit_def
  by blast

lemma glue_class: "s \<in> glue {[c] |c. P c} B \<longleftrightarrow> (\<exists>c b. P c \<and> b \<in> B \<and> s = c # b)"
  by (cases s) (simp_all add: glue_simps)

lemma lang_many_class: "s \<in> closure {[c] |c. P c} \<longleftrightarrow> list_all P s"
proof
  show "s \<in> closure {[c] |c. P c} \<Longrightarrow> list_all P s"
    by (induction rule: closure.induct) auto
  show "list_all P s \<Longrightarrow> s \<in> closure {[c] |c. P c}"
  proof (induction s)
    case (Cons c s)
    then show ?case using closure_step [of "[c]" "{[c] |c. P c}" s] by auto
  qed (simp add: closure_Nil)
qed

lemma wifi_direct_ssid_match:
  "regex_match s kWifiDirectSsidPatternString \<longleftrightarrow> wifi_direct_ssid s"
  unfolding matches_lang kWifiDirectSsidPatternString_def any_char_def lang.simps lang_Text
    glue_simps(4) lang_alphanumeric glue_class lang_many_class Bex_def wifi_direct_ssid_def
  by blast

lemmas upgrade_checks =
  EnsureValidOfflineFrame_def path_available_def upgrade_frame_def new_negotiation_def
  v1_message_def check_present_def EnsureValidBandwidthUpgradeNegotiationFrame_def
  EnsureValidBandwidthUpgradePathAvailableFrame_def new_v1_def empty_path_info_def

lemmas upgrade_limits =
  valid_password_def WithinRange_def kWifiPasswordSsidMinLength_def kWifiPasswordSsidMaxLength_def
  kWifiDirectSsidMaxLength_def wifi_direct_ssid_match

lemma hotspot_path_accepted:
  "EnsureValidOfflineFrame (ForBwuWifiHotspotPathAvailable ssid pw port freq gw dis) = kNoException \<longleftrightarrow>
     8 \<le> length pw \<and> length pw \<le> 63 \<and> valid_gateway gw"
  by (auto simp: upgrade_checks upgrade_limits ForBwuWifiHotspotPathAvailable_def
      EnsureValidBandwidthUpgradeWifiHotspotPathAvailableFrame_def)

lemma lan_path_accepted:
  "EnsureValidOfflineFrame (ForBwuWifiLanPathAvailable ip port) = kNoException \<longleftrightarrow> port \<ge> 0"
  by (auto simp: upgrade_checks ForBwuWifiLanPathAvailable_def
      EnsureValidBandwidthUpgradeWifiLanPathAvailableFrame_def)

lemma direct_path_accepted:
  "EnsureValidOfflineFrame (ForBwuWifiDirectPathAvailable ssid pw port freq dis gw) = kNoException \<longleftrightarrow>
     length ssid \<le> 31 \<and> wifi_direct_ssid ssid \<and> 8 \<le> length pw \<and> length pw \<le> 63 \<and> freq \<ge> -1"
  by (auto simp: upgrade_checks upgrade_limits ForBwuWifiDirectPathAvailable_def
      EnsureValidBandwidthUpgradeWifiDirectPathAvailableFrame_def)

lemma other_paths_accepted:
  "EnsureValidOfflineFrame (ForBwuBluetoothPathAvailable service mac) = kNoException"
  "EnsureValidOfflineFrame (ForBwuWebrtcPathAvailable peer hint) = kNoException"
  "EnsureValidOfflineFrame (ForBwuWifiAwarePathAvailable service sinfo pw dis) = kNoException"
  "EnsureValidOfflineFrame (ForBwuAwdlPathAvailable nm ty pw dis) = kNoException"
  by (simp_all add: upgrade_checks ForBwuBluetoothPathAvailable_def ForBwuWebrtcPathAvailable_def
      ForBwuWifiAwarePathAvailable_def ForBwuAwdlPathAvailable_def
      EnsureValidBandwidthUpgradeBluetoothPathAvailableFrame_def
      EnsureValidBandwidthUpgradeWebRtcPathAvailableFrame_def
      EnsureValidBandwidthUpgradeWifiAwarePathAvailableFrame_def)


section \<open>Payload frames\<close>

text \<open>What the endpoint manager writes for a frame of the payload manager.\<close>

fun written_frame :: "payload_frame \<Rightarrow> offline_frame" where
  "written_frame (DataFrame h c) = ForDataPayloadTransfer h (message_of_chunk c)"
| "written_frame (ControlFrame h ev off) =
     ForControlPayloadTransfer h \<lparr>ct_event = Some ev, ct_offset = Some off\<rparr>"
| "written_frame (AckFrame h) = ForPayloadAckPayloadTransfer (header_id h)"
| "written_frame (UnknownFrame h) =
     transfer_frame \<lparr>pt_packet_type = None, pt_payload_header = Some h, pt_payload_chunk = None,
       pt_control_message = None\<rparr>"

definition read_frame :: "offline_frame \<Rightarrow> payload_frame option" where
  "read_frame f = map_option transfer_of_message (v1_message v1_payload_transfer f)"

lemmas transfer_simps =
  ForDataPayloadTransfer_def ForControlPayloadTransfer_def ForPayloadAckPayloadTransfer_def
  transfer_frame_def v1_message_def new_v1_def

lemma read_written:
  "read_frame (written_frame (DataFrame h c)) = Some (DataFrame h c)"
  "read_frame (written_frame (ControlFrame h ev off)) = Some (ControlFrame h ev off)"
  "read_frame (written_frame (UnknownFrame h)) = Some (UnknownFrame h)"
  by (simp_all add: read_frame_def transfer_simps transfer_of_message_def header_of_def
      transfer_chunk_def)

definition valid_size :: "payload_header \<Rightarrow> int \<Rightarrow> bool" where
  "valid_size h off \<longleftrightarrow> hd_total_size h \<noteq> None \<and> 0 \<le> off \<and>
     (header_total_size h = kIndeterminateSize \<or> off \<le> header_total_size h)"

lemma check_data_frame:
  assumes "valid_size h (ck_offset c)" and "ck_body c = [] \<Longrightarrow> IsLastChunk c"
  shows "EnsureValidOfflineFrame (written_frame (DataFrame h c)) =
     (if illegal_names h then kIllegalCharacters else kNoException)"
  using assms by (auto simp: EnsureValidOfflineFrame_def transfer_simps check_present_def
      EnsureValidPayloadTransferFrame_def EnsureValidPayloadTransferDataFrame_def valid_size_def
      message_of_chunk_def IsLastChunk_def last_flag_def)

lemma check_control_frame:
  assumes "valid_size h off"
  shows "EnsureValidOfflineFrame (written_frame (ControlFrame h ev off)) =
     (if illegal_names h then kIllegalCharacters else kNoException)"
  using assms by (auto simp: EnsureValidOfflineFrame_def transfer_simps check_present_def
      EnsureValidPayloadTransferFrame_def EnsureValidPayloadTransferControlFrame_def valid_size_def)

lemma check_ack_frame: "EnsureValidOfflineFrame (written_frame (AckFrame h)) = kNoException"
  by (simp add: EnsureValidOfflineFrame_def transfer_simps check_present_def
      EnsureValidPayloadTransferFrame_def)

lemma chunks_of_bounds:
  assumes "[] \<notin> set bodies" and "0 \<le> off"
  shows "c \<in> set (chunks_of off idx bodies) \<Longrightarrow>
    0 \<le> ck_offset c \<and> ck_offset c \<le> off + int (length (concat bodies)) \<and>
    (ck_body c = [] \<longrightarrow> IsLastChunk c)"
  using assms
proof (induction bodies arbitrary: off idx)
  case Nil
  then show ?case by (simp add: CreatePayloadChunk_def IsLastChunk_def last_flag_def LAST_CHUNK_def)
next
  case (Cons b bs)
  from Cons.prems consider "c = CreatePayloadChunk off b idx"
    | "c \<in> set (chunks_of (off + int (length b)) (idx + 1) bs)" by auto
  then show ?case
  proof cases
    case 1
    then show ?thesis using Cons.prems by (auto simp: CreatePayloadChunk_def)
  next
    case 2
    from Cons.IH [OF this] Cons.prems show ?thesis by simp
  qed
qed

lemma outgoing_size:
  assumes "source_ready pf p" and "CreateOutgoingInternalPayload pf p = Some ip"
  shows "GetTotalSize (ip_kind ip) = kIndeterminateSize \<or>
    int (length (source_content pf p)) \<le> GetTotalSize (ip_kind ip)"
  using assms by (cases "payload_type p")
    (auto simp: source_ready_def CreateOutgoingInternalPayload_def source_content_def AsBytes_def
      AsFile_def kIndeterminateSize_def split: payload_content.splits)

text \<open>
  C10: Every frame of a payload that is sent whole is well formed: the receiver reads from it the
  chunk that was sent, and its checks refuse the frame only because of the names, in which case they
  refuse all frames of the payload.
\<close>

theorem sent_frames_well_formed:
  assumes "source_ready pf p" and "CreateOutgoingInternalPayload pf p = Some ip" and "0 < n"
    and "c \<in> set (chunks_of 0 0 (source_pieces pf p n))"
  shows "read_frame (written_frame (DataFrame (CreatePayloadHeader ip 0) c)) =
      Some (DataFrame (CreatePayloadHeader ip 0) c) \<and>
    EnsureValidOfflineFrame (written_frame (DataFrame (CreatePayloadHeader ip 0) c)) =
      (if illegal_names (CreatePayloadHeader ip 0) then kIllegalCharacters else kNoException)"
proof -
  let ?h = "CreatePayloadHeader ip 0"
  from chunks_of_bounds [OF pieces_no_Nil _ assms(4)] have b: "0 \<le> ck_offset c"
    "ck_offset c \<le> int (length (source_content pf p))" "ck_body c = [] \<Longrightarrow> IsLastChunk c"
    by (simp_all add: concat_pieces [OF assms(1,3)])
  have "hd_total_size ?h = Some (GetTotalSize (ip_kind ip))"
    by (simp add: CreatePayloadHeader_def Let_def)
  then have "valid_size ?h (ck_offset c)"
    using b outgoing_size [OF assms(1,2)] by (auto simp: valid_size_def header_total_size_def)
  from check_data_frame [OF this] b(3) show ?thesis by (simp only: read_written)
qed

section \<open>Where received files go\<close>

lemma has_substring_iff: "has_substring p s \<longleftrightarrow> (\<exists>a b. s = a @ p @ b)"
proof (induction s)
  case (Cons c s)
  have "take (length p) (c # s) = p \<longleftrightarrow> (\<exists>b. c # s = p @ b)"
    by (metis append_eq_conv_conj append_take_drop_id)
  moreover have "(\<exists>a b. c # s = a @ p @ b) \<longleftrightarrow> (\<exists>b. c # s = p @ b) \<or> (\<exists>a b. s = a @ p @ b)"
    by (metis append_Cons append_Nil list.exhaust list.inject)
  ultimately show ?case using Cons.IH by simp
qed simp

text \<open>A path as the names between its separators, and the directory it leads to.\<close>

definition is_separator :: "char \<Rightarrow> bool" where
  "is_separator c \<longleftrightarrow> c = CHR ''/'' \<or> c = CHR 0x5C"

fun path_names :: "string \<Rightarrow> string list" where
  "path_names [] = [[]]"
| "path_names (c # s) =
     (if is_separator c then [] # path_names s
      else case path_names s of [] \<Rightarrow> [[c]] | w # ws \<Rightarrow> (c # w) # ws)"

definition enter :: "string list \<Rightarrow> string \<Rightarrow> string list" where
  "enter d n = (if n = [] \<or> n = ''.'' then d else if n = ''..'' then butlast d else d @ [n])"

definition resolve :: "string \<Rightarrow> string list" where
  "resolve path = foldl enter [] (path_names path)"

lemma path_names_not_Nil [simp]: "path_names s \<noteq> []"
  by (cases s) (auto split: list.splits)

lemma path_names_append:
  "path_names (a @ CHR ''/'' # b) = path_names a @ path_names b"
  by (induction a) (auto simp: is_separator_def split: list.splits)

lemma path_names_infix: "w \<in> set (path_names s) \<Longrightarrow> \<exists>a b. s = a @ w @ b"
proof -
  have hd_prefix: "\<exists>b. s = hd (path_names s) @ b" for s
  proof (induction s)
    case (Cons c s)
    then show ?case by (cases "path_names s") auto
  qed simp
  show "w \<in> set (path_names s) \<Longrightarrow> \<exists>a b. s = a @ w @ b"
  proof (induction s)
    case (Cons c s)
    show ?case
    proof (cases "w \<in> set (path_names s)")
      case True
      then obtain a b where "s = a @ w @ b" using Cons.IH by blast
      then show ?thesis by (intro exI [of _ "c # a"] exI [of _ b]) simp
    next
      case False
      then have "w = [] \<or> w = c # hd (path_names s)"
        using Cons.prems by (cases "path_names s") (auto split: if_splits)
      then show ?thesis using hd_prefix [of s] by (metis append.left_neutral append_Cons)
    qed
  qed simp
qed

lemma enter_below:
  assumes "''..'' \<notin> set ws"
  shows "\<exists>r. foldl enter d ws = d @ r"
  using assms
proof (induction ws arbitrary: d)
  case (Cons w ws)
  have "\<exists>r1. enter d w = d @ r1" using Cons.prems by (auto simp: enter_def)
  then obtain r1 where "enter d w = d @ r1" by blast
  moreover obtain r2 where "foldl enter (d @ r1) ws = (d @ r1) @ r2"
    using Cons.IH [of "d @ r1"] Cons.prems by auto
  ultimately show ?case by simp
qed simp

lemma legal_folder:
  assumes "\<not> CheckForIllegalCharacters d kIllegalParentFolderPatterns"
  shows "''..'' \<notin> set (path_names d)"
proof
  assume "''..'' \<in> set (path_names d)"
  then obtain a b where "d = a @ ''..'' @ b" using path_names_infix by blast
  then have "d \<noteq> [] \<and> has_substring ''..'' d" by (auto simp: has_substring_iff)
  then show False using assms by (simp add: CheckForIllegalCharacters_def kIllegalParentFolderPatterns_def)
qed

lemma no_separator: "list_all (\<lambda>c. \<not> is_separator c) s \<Longrightarrow> path_names s = [s]"
  by (induction s) auto

lemma legal_name:
  assumes "\<not> CheckForIllegalCharacters n kIllegalFileNamePatterns"
  shows "path_names n = [n]"
proof -
  have "has_substring [c] n" if "c \<in> set n" for c
    using that by (metis append_Cons append_Nil has_substring_iff split_list)
  then have "\<forall>c \<in> set n. \<not> is_separator c"
    using assms by (cases "n = []")
      (auto simp: CheckForIllegalCharacters_def kIllegalFileNamePatterns_def is_separator_def)
  then show ?thesis by (intro no_separator) (simp add: list_all_iff)
qed


section \<open>Connection requests\<close>

text \<open>The endpoint id that a request announces: a presence device gives its own.\<close>

fun announced_id :: "local_device \<Rightarrow> connection_info \<Rightarrow> string" where
  "announced_id (LocalPresenceDevice d) c =
     (if info_local_endpoint_id c = [] then []
      else case pd_endpoint_id d of Some e \<Rightarrow> e | None \<Rightarrow> [])"
| "announced_id _ c = info_local_endpoint_id c"

fun announces_connections_device :: "local_device \<Rightarrow> bool" where
  "announces_connections_device (LocalConnectionsDevice d) \<longleftrightarrow> cd_endpoint_id d \<noteq> None"
| "announces_connections_device _ \<longleftrightarrow> False"

fun is_presence :: "local_device \<Rightarrow> bool" where
  "is_presence (LocalPresenceDevice d) \<longleftrightarrow> True"
| "is_presence _ \<longleftrightarrow> False"

definition request_as_read :: "bool \<Rightarrow> local_device \<Rightarrow> connection_info \<Rightarrow> connection_request_frame" where
  "request_as_read role_switch dev c =
     \<lparr>req_endpoint_id = announced_id dev c,
      req_endpoint_info = (if info_local_endpoint_info c = [] then None else Some (info_local_endpoint_info c)),
      req_endpoint_name = info_local_endpoint_info c, req_nonce = info_nonce c,
      req_has_connections_device = announces_connections_device dev,
      req_has_presence_device = is_presence dev,
      req_keep_alive_interval = positive_millis (info_keep_alive_interval_millis c),
      req_keep_alive_timeout = positive_millis (info_keep_alive_timeout_millis c),
      req_mediums = info_supported_mediums c, req_supports_5_ghz = info_supports_5_ghz c,
      req_bssid = info_bssid c, req_ap_frequency = info_ap_frequency c,
      req_ip_address = info_ip_address c,
      req_medium_role = (if role_switch \<and> \<not> is_presence dev then info_medium_role c else None)\<rparr>"

lemmas request_simps =
  ForConnectionRequestConnections_def ForConnectionRequestPresence_def v1_message_def new_v1_def
  request_of_message_def metadata_field_def metadata_of_def ConnectionRequestMediumsToMediums_def
  request_as_read_def no_connections_device_def

lemma request_read:
  "map_option request_of_message (v1_message v1_connection_request (WriteConnectionRequestFrame rs dev c)) =
     Some (request_as_read rs dev c)"
  by (cases dev) (auto simp: request_simps comp_def)

lemma request_check:
  "EnsureValidOfflineFrame (WriteConnectionRequestFrame rs dev c) = kNoException \<longleftrightarrow>
     announced_id dev c \<noteq> [] \<and> info_local_endpoint_info c \<noteq> []"
  by (cases dev) (auto simp: EnsureValidOfflineFrame_def check_present_def
      EnsureValidConnectionRequestFrame_def ForConnectionRequestConnections_def
      ForConnectionRequestPresence_def v1_message_def new_v1_def)

text \<open>
  C19: A connection request reaches the other side as it was meant: the receiver's checks refuse it
  only when the sender's endpoint id or endpoint info is empty, and what the receiver reads from it
  is what the sender put in, the mediums included.
\<close>

theorem connection_request_roundtrip:
  "(EnsureValidOfflineFrame (WriteConnectionRequestFrame rs dev c) = kNoException \<longleftrightarrow>
      announced_id dev c \<noteq> [] \<and> info_local_endpoint_info c \<noteq> []) \<and>
   map_option request_of_message (v1_message v1_connection_request (WriteConnectionRequestFrame rs dev c)) =
     Some (request_as_read rs dev c)"
  by (simp only: request_check request_read simp_thms)

text \<open>
  C18: A device that advertises and has no connection, pending or established, with the sender of an
  accepted request starts the key exchange with it, when its topology and the device types allow: the
  pending connection has the endpoint info, the nonce and the mediums the sender put in.
\<close>

theorem accepted_request_is_pending:
  assumes "EnsureValidOfflineFrame (WriteConnectionRequestFrame rs dev c) = kNoException"
    and "IsAdvertising (pcp_client s)" and "\<not> IsConnectedToEndpoint (announced_id dev c) (pcp_client s)"
    and "find_pending (announced_id dev c) s = None" and "CanReceiveIncomingConnection (env_kind env) s"
    and "incoming_device_type (request_as_read rs dev c) = listening"
  shows "\<exists>p. case OnIncomingConnection env listening ch
      (map_option request_of_message (v1_message v1_connection_request (WriteConnectionRequestFrame rs dev c))) s of
        (ok, t) \<Rightarrow> ok \<and> find_pending (announced_id dev c) t = Some p \<and>
          pcp_actions t = pcp_actions s @ [StartEncryptionServer (announced_id dev c) (Some (channel_id ch))] \<and>
          pending_is_incoming p \<and> pending_endpoint_info p = info_local_endpoint_info c \<and>
          pending_nonce p = info_nonce c \<and> pending_supported_mediums p = info_supported_mediums c"
proof -
  define f where "f = request_as_read rs dev c"
  have f: "req_endpoint_id f = announced_id dev c" "req_nonce f = info_nonce c"
    "req_endpoint_info f = Some (info_local_endpoint_info c)"
    "req_mediums f = info_supported_mediums c"
    using assms(1) by (simp_all add: f_def request_as_read_def request_check)
  have t: "OnIncomingConnection env listening ch (Some f) s =
      (True, act (StartEncryptionServer (announced_id dev c) (Some (channel_id ch)))
        (s\<lparr>pending_connections :=
            pending_connections s @ [(announced_id dev c, incoming_pending env f ch s)]\<rparr>))"
    using assms(2-6) f(1,2)
    by (simp add: OnIncomingConnection_def BreakTie_def emplace_pending_def pending_channel_id_def
        find_pending_def incoming_pending_def Let_def map_add_def flip: f_def)
  show ?thesis
    using assms(4) f unfolding request_read f_def [symmetric] t
    by (simp add: find_pending_def act_def map_add_def) (simp add: incoming_pending_def)
qed

section \<open>Witnesses\<close>

definition sample_info :: connection_info where
  "sample_info =
     \<lparr>info_local_endpoint_id = ''AAAA'', info_local_endpoint_info = [1, 2], info_nonce = 5,
      info_supports_5_ghz = True, info_bssid = [], info_ap_frequency = 2412, info_ip_address = [],
      info_supported_mediums = [BLE, BLE_L2CAP], info_keep_alive_interval_millis = 5000,
      info_keep_alive_timeout_millis = 30000, info_medium_role = None\<rparr>"

definition sample_file_header :: payload_header where
  "sample_file_header =
     \<lparr>hd_id = Some 7, hd_type = Some FILE, hd_total_size = Some 3, hd_file_name = Some ''b'',
      hd_parent_folder = Some ''a/c'', hd_last_modified = None\<rparr>"

theorem sent_frames_well_formed_witness:
  "let h = CreatePayloadHeader \<lparr>ip_payload = bytes_payload 7 [1, 2, 3], ip_id = 7,
        ip_kind = BytesInternalPayload 3 False\<rparr> 0
   in EnsureValidOfflineFrame (written_frame (DataFrame h (CreatePayloadChunk 3 [] 1))) = kNoException"
proof -
  let ?p = "bytes_payload 7 [1, 2, 3]"
  have s: "source_ready empty_platform ?p" by (simp add: source_ready_def bytes_payload_def AsBytes_def)
  have i: "CreateOutgoingInternalPayload empty_platform ?p = Some \<lparr>ip_payload = ?p, ip_id = 7,
      ip_kind = BytesInternalPayload 3 False\<rparr>"
    by (simp add: CreateOutgoingInternalPayload_def bytes_payload_def AsBytes_def)
  have c: "CreatePayloadChunk 3 [] 1 \<in> set (chunks_of 0 0 (source_pieces empty_platform ?p 1))"
    by (simp add: source_pieces_def bytes_payload_def AsBytes_def)
  from sent_frames_well_formed [OF s i _ c] show ?thesis
    by (simp add: Let_def CreatePayloadHeader_def illegal_names_def)
qed


theorem accepted_request_is_pending_witness:
  "fst (OnIncomingConnection (Request_Props.sample_env ClusterHandler) ConnectionsDevice (plain_channel 3 BLE)
     (map_option request_of_message (v1_message v1_connection_request
        (WriteConnectionRequestFrame False LocalUnknownDevice sample_info))) open_pcp)"
proof -
  have "EnsureValidOfflineFrame (WriteConnectionRequestFrame False LocalUnknownDevice sample_info) =
      kNoException"
    by (simp add: request_check sample_info_def del: WriteConnectionRequestFrame.simps)
  moreover have "\<not> IsConnectedToEndpoint e (pcp_client open_pcp)" for e
    by (simp add: IsConnectedToEndpoint_def ConnectionStatusMatches_def LookupConnection_def open_pcp_facts)
  moreover have "CanReceiveIncomingConnection ClusterHandler open_pcp"
    by (simp add: Base_CanReceiveIncomingConnection_def)
  ultimately have "\<exists>p. case OnIncomingConnection (Request_Props.sample_env ClusterHandler) ConnectionsDevice
      (plain_channel 3 BLE) (map_option request_of_message (v1_message v1_connection_request
        (WriteConnectionRequestFrame False LocalUnknownDevice sample_info))) open_pcp of (ok, t) \<Rightarrow> ok"
    using accepted_request_is_pending [where s = open_pcp and env = "Request_Props.sample_env ClusterHandler"
        and listening = ConnectionsDevice and ch = "plain_channel 3 BLE" and rs = False
        and dev = LocalUnknownDevice and c = sample_info]
    by (simp add: open_pcp_facts find_pending_def incoming_device_type_def request_as_read_def
        Request_Props.sample_env_def case_prod_beta del: WriteConnectionRequestFrame.simps)
  then show ?thesis by (simp only: case_prod_beta ex_simps simp_thms)
qed

end
