(* ===== verification/Channel_Io.thy ===== *)
theory Channel_Io
  imports Frame_Validator "HOL-Library.Sublist"
begin

text \<open>
  How a channel moves messages (connections/implementation/base_endpoint_channel.cc): a message
  is written as its length in four bytes and its bytes, encrypted when the channel is, and
  read back.  The stream a channel reads from delivers its bytes in pieces of any size
  (internal/platform/input_stream.cc).  The cipher is the UKEY2 library's: two functions on a
  context that changes with every message.  Times are arguments.
\<close>

record 'k cipher =
  EncodeMessageToPeer :: "'k \<Rightarrow> bytes \<Rightarrow> bytes option \<times> 'k"
  DecodeMessageFromPeer :: "'k \<Rightarrow> bytes \<Rightarrow> bytes option \<times> 'k"

record 'k channel_io =
  io_max :: int
  io_in :: "bytes list"
  io_out :: bytes
  io_crypto :: "'k option"
  io_paused :: bool
  io_closed :: bool
  io_last_read :: "int option"
  io_last_write :: "int option"
  io_keep_alive_seq :: "32 word"

definition GetMaxAllowedReadBytes :: "int \<Rightarrow> int" where
  "GetMaxAllowedReadBytes flag = (if flag \<ge> 2147483647 then 2147483647 else flag)"

definition BaseEndpointChannel :: "int \<Rightarrow> bytes list \<Rightarrow> 'k channel_io" where
  "BaseEndpointChannel flag pieces =
     \<lparr>io_max = GetMaxAllowedReadBytes flag, io_in = pieces, io_out = [], io_crypto = None,
      io_paused = False, io_closed = False, io_last_read = None, io_last_write = None,
      io_keep_alive_seq = 0\<rparr>"

section \<open>Streams\<close>

text \<open>\<open>InputStream::Read\<close>: at most \<open>n\<close> bytes of the next piece; it fails at the end.\<close>

fun stream_Read :: "nat \<Rightarrow> bytes list \<Rightarrow> (exception_value + bytes) \<times> bytes list" where
  "stream_Read n [] = (Inl kIo, [])"
| "stream_Read n (p # ps) = (Inr (take n p), if drop n p = [] then ps else drop n p # ps)"

text \<open>\<open>got\<close> is the buffer up to \<open>current_pos\<close>.\<close>

function read_rest :: "nat \<Rightarrow> bytes \<Rightarrow> bytes list \<Rightarrow> (exception_value + bytes) \<times> bytes list" where
  "read_rest want got ps =
     (if length got \<ge> want then (Inr got, ps)
      else case stream_Read (want - length got) ps of
        (Inl x, ps1) \<Rightarrow> (Inl x, ps1)
      | (Inr b, ps1) \<Rightarrow> if b = [] then (Inl kIo, ps1) else read_rest want (got @ b) ps1)"
  by pat_completeness auto
termination by (relation "measure (\<lambda>(want, got, ps). want - length got)")
    (auto simp flip: length_greater_0_conv)

declare read_rest.simps [simp del]

definition ReadExactly :: "nat \<Rightarrow> bytes list \<Rightarrow> (exception_value + bytes) \<times> bytes list" where
  "ReadExactly want ps = read_rest want [] ps"

definition BytesToInt :: "bytes \<Rightarrow> 32 word" where
  "BytesToInt bs =
     push_bit 24 (ucast (bs ! 0)) OR push_bit 16 (ucast (bs ! 1)) OR push_bit 8 (ucast (bs ! 2)) OR
     ucast (bs ! 3)"

definition IntToBytes :: "32 word \<Rightarrow> bytes" where
  "IntToBytes value = be32 value"

section \<open>Writing\<close>

text \<open>What the three calls on the writer return, and the time.\<close>

record write_env =
  we_header :: exception_value
  we_data :: exception_value
  we_flush :: exception_value
  we_now :: int

definition seal :: "'k cipher \<Rightarrow> bytes \<Rightarrow> 'k channel_io \<Rightarrow> bytes option \<times> 'k channel_io" where
  "seal C data c =
     (case io_crypto c of
        None \<Rightarrow> (Some data, c)
      | Some k \<Rightarrow> (case EncodeMessageToPeer C k data of (d, k') \<Rightarrow> (d, c\<lparr>io_crypto := Some k'\<rparr>)))"

text \<open>
  The result is \<open>None\<close> while the channel is paused: the call blocks.  The size is compared as
  \<open>size_t\<close>.
\<close>

definition send_sealed :: "write_env \<Rightarrow> bytes \<Rightarrow> 'k channel_io \<Rightarrow> exception_value \<times> 'k channel_io" where
  "send_sealed env d c =
     (if int (length d) > take_bit 64 (io_max c) then (kIo, c)
      else if we_header env \<noteq> kNoException then (we_header env, c)
      else
        let c1 = c\<lparr>io_out := io_out c @ IntToBytes (of_nat (length d))\<rparr> in
        if we_data env \<noteq> kNoException then (we_data env, c1)
        else
          let c2 = c1\<lparr>io_out := io_out c1 @ d\<rparr> in
          if we_flush env \<noteq> kNoException then (we_flush env, c2)
          else (kNoException, c2\<lparr>io_last_write := Some (we_now env)\<rparr>))"

definition channel_Write ::
  "'k cipher \<Rightarrow> write_env \<Rightarrow> bytes \<Rightarrow> 'k channel_io \<Rightarrow> (exception_value \<times> 'k channel_io) option" where
  "channel_Write C env data c =
     (if io_paused c then None
      else Some (case seal C data c of
                   (None, c1) \<Rightarrow> (kIo, c1)
                 | (Some d, c1) \<Rightarrow> send_sealed env d c1))"

section \<open>Reading\<close>

definition unseal ::
  "'k cipher \<Rightarrow> (bytes \<Rightarrow> offline_frame option) \<Rightarrow> bytes \<Rightarrow> 'k channel_io \<Rightarrow>
   (exception_value + bytes) \<times> 'k channel_io" where
  "unseal C parse b c =
     (case io_crypto c of
        None \<Rightarrow> (Inr b, c)
      | Some k \<Rightarrow>
          (case DecodeMessageFromPeer C k b of
             (Some d, k') \<Rightarrow>
               (if d = [] then Inl kInvalidProtocolBuffer else Inr d, c\<lparr>io_crypto := Some k'\<rparr>)
           | (None, k') \<Rightarrow>
               (case FromBytes parse b of
                  Inl x \<Rightarrow> Inl x
                | Inr f \<Rightarrow> if GetFrameType f = KEEP_ALIVE \<and> b \<noteq> [] then Inr b else Inl kInvalidProtocolBuffer,
                c\<lparr>io_crypto := Some k'\<rparr>)))"

definition read_packet :: "'k channel_io \<Rightarrow> (exception_value + bytes) \<times> 'k channel_io" where
  "read_packet c =
     (case ReadExactly 4 (io_in c) of
        (Inl x, ps) \<Rightarrow> (Inl x, c\<lparr>io_in := ps\<rparr>)
      | (Inr header, ps) \<Rightarrow>
          let n = sint (BytesToInt header) in
          if n < 0 \<or> n > io_max c then (Inl kIo, c\<lparr>io_in := ps\<rparr>)
          else case ReadExactly (nat n) ps of (r, ps1) \<Rightarrow> (r, c\<lparr>io_in := ps1\<rparr>))"

definition channel_Read ::
  "'k cipher \<Rightarrow> (bytes \<Rightarrow> offline_frame option) \<Rightarrow> int \<Rightarrow> 'k channel_io \<Rightarrow>
   (exception_value + bytes) \<times> 'k channel_io" where
  "channel_Read C parse now c =
     (case read_packet c of
        (Inl x, c1) \<Rightarrow> (Inl x, c1)
      | (Inr b, c1) \<Rightarrow>
          (case unseal C parse b c1 of
             (Inl x, c2) \<Rightarrow> (Inl x, c2)
           | (Inr d, c2) \<Rightarrow> (Inr d, c2\<lparr>io_last_read := Some now\<rparr>)))"

section \<open>The other operations\<close>

definition TryDecrypt ::
  "'k cipher \<Rightarrow> bytes \<Rightarrow> 'k channel_io \<Rightarrow> (exception_value + bytes) \<times> 'k channel_io" where
  "TryDecrypt C data c =
     (case io_crypto c of
        None \<Rightarrow> (Inl kFailed, c)
      | Some k \<Rightarrow>
          (case DecodeMessageFromPeer C k data of
             (Some d, k') \<Rightarrow> (Inr d, c\<lparr>io_crypto := Some k'\<rparr>)
           | (None, k') \<Rightarrow> (Inl kExecution, c\<lparr>io_crypto := Some k'\<rparr>)))"

definition EnableEncryption :: "'k \<Rightarrow> 'k channel_io \<Rightarrow> 'k channel_io" where
  "EnableEncryption k c = c\<lparr>io_crypto := Some k\<rparr>"

definition DisableEncryption :: "'k channel_io \<Rightarrow> 'k channel_io" where
  "DisableEncryption c = c\<lparr>io_crypto := None\<rparr>"

definition IsEncrypted :: "'k channel_io \<Rightarrow> bool" where
  "IsEncrypted c \<longleftrightarrow> io_crypto c \<noteq> None"

definition channel_Pause :: "'k channel_io \<Rightarrow> 'k channel_io" where
  "channel_Pause c = c\<lparr>io_paused := True\<rparr>"

definition channel_Resume :: "'k channel_io \<Rightarrow> 'k channel_io" where
  "channel_Resume c = c\<lparr>io_paused := False\<rparr>"

text \<open>A closed stream delivers nothing more.\<close>

definition channel_Close :: "'k channel_io \<Rightarrow> 'k channel_io" where
  "channel_Close c =
     (if io_closed c then c else c\<lparr>io_closed := True, io_paused := False, io_in := []\<rparr>)"

definition GetNextKeepAliveSeqNo :: "'k channel_io \<Rightarrow> 32 word \<times> 'k channel_io" where
  "GetNextKeepAliveSeqNo c =
     (io_keep_alive_seq c, c\<lparr>io_keep_alive_seq := io_keep_alive_seq c + 1\<rparr>)"

section \<open>Reading what was written\<close>

definition stream_of :: "bytes \<Rightarrow> bytes list \<Rightarrow> bool" where
  "stream_of bs ps \<longleftrightarrow> concat ps = bs \<and> [] \<notin> set ps"

lemma stream_of_Nil [simp]: "stream_of [] ps \<longleftrightarrow> ps = []"
  by (cases ps) (auto simp: stream_of_def)

lemma stream_Read_some:
  assumes "stream_of (a @ b) ps" and "a \<noteq> []"
  obtains x ps1 y where "stream_Read (length a) ps = (Inr x, ps1)" "x \<noteq> []" "a = x @ y"
    "stream_of (y @ b) ps1"
proof (cases ps)
  case Nil
  then show thesis using assms by (simp add: stream_of_def)
next
  case (Cons p qs)
  define n where "n = min (length a) (length p)"
  from Cons assms have p: "p \<noteq> []" "p @ concat qs = a @ b" "[] \<notin> set qs"
    by (auto simp: stream_of_def)
  have x: "take (length a) p = take n a"
    using p(2) by (metis append_eq_append_conv_if min.commute n_def take_all_iff take_append take_take
        nle_le append_take_drop_id)
  have "stream_of (drop n a @ b) (if drop (length a) p = [] then qs else drop (length a) p # qs)"
  proof (cases "length p \<le> length a")
    case True
    then have "concat qs = drop (length p) a @ b"
      using arg_cong [OF p(2), of "drop (length p)"] by simp
    with True p(3) show ?thesis by (simp add: stream_of_def n_def min_def)
  next
    case False
    then have "drop (length a) p @ concat qs = b"
      using arg_cong [OF p(2), of "drop (length a)"] by simp
    with False p(3) show ?thesis by (simp add: stream_of_def n_def)
  qed
  then show thesis
    using that [of "take n a" "if drop (length a) p = [] then qs else drop (length a) p # qs" "drop n a"]
      Cons x p(1) assms(2) by (simp add: n_def min_def)
qed

lemma read_rest_exact:
  assumes "stream_of (a @ b) ps" and "want = length got + length a"
  shows "\<exists>ps1. read_rest want got ps = (Inr (got @ a), ps1) \<and> stream_of b ps1"
  using assms
proof (induction "length a" arbitrary: a got ps rule: less_induct)
  case less
  show ?case
  proof (cases "a = []")
    case True
    then show ?thesis using less.prems by (simp add: read_rest.simps)
  next
    case False
    from less.prems(1) False obtain x ps1 y where r: "stream_Read (length a) ps = (Inr x, ps1)"
      "x \<noteq> []" "a = x @ y" "stream_of (y @ b) ps1"
      by (rule stream_Read_some)
    from less.hyps [where a = y and got = "got @ x" and ps = ps1] r less.prems(2)
    obtain ps2 where "read_rest want (got @ x) ps1 = (Inr ((got @ x) @ y), ps2)" "stream_of b ps2"
      by auto
    then show ?thesis
      using r less.prems(2) False by (subst read_rest.simps) simp
  qed
qed

lemma ReadExactly_exact:
  assumes "stream_of (a @ b) ps"
  obtains ps1 where "ReadExactly (length a) ps = (Inr a, ps1)" "stream_of b ps1"
  using read_rest_exact [OF assms, of "length a" "[]"] that by (auto simp: ReadExactly_def)

lemma BytesToInt_be32 [simp]: "BytesToInt (be32 w) = w"
  by (simp add: BytesToInt_def be32_def join_simps)

lemma sint_small:
  assumes "int n \<le> 2147483647"
  shows "sint (of_nat n :: 32 word) = int n"
proof -
  have "sint (of_int (int n) :: 32 word) = signed_take_bit 31 (int n)"
    by (simp add: sint_uint unsigned_of_int signed_take_bit_take_bit del: of_int_of_nat_eq)
  also have "\<dots> = int n"
    using assms by (intro signed_take_bit_int_eq_self) simp_all
  finally show ?thesis by simp
qed

lemma read_packet_sent:
  assumes "stream_of (IntToBytes (of_nat (length d)) @ d @ b) (io_in c)"
    and "int (length d) \<le> io_max c" and "io_max c \<le> 2147483647"
  obtains ps where "read_packet c = (Inr d, c\<lparr>io_in := ps\<rparr>)" "stream_of b ps"
proof -
  let ?h = "IntToBytes (of_nat (length d))"
  have four: "length ?h = 4" by (simp add: IntToBytes_def)
  from assms(1) obtain ps1 where h: "ReadExactly 4 (io_in c) = (Inr ?h, ps1)" and r: "stream_of (d @ b) ps1"
    using ReadExactly_exact [of ?h "d @ b" "io_in c"] four by metis
  from r obtain ps2 where d: "ReadExactly (length d) ps1 = (Inr d, ps2)" and b: "stream_of b ps2"
    by (rule ReadExactly_exact)
  have "sint (BytesToInt ?h) = int (length d)"
    using assms(2,3) by (simp add: IntToBytes_def sint_small)
  then show thesis using that [OF _ b] h d assms(2) by (simp add: read_packet_def)
qed

section \<open>Two ciphers that agree\<close>

text \<open>
  What the code relies on of the cipher: what one side encodes the other decodes to the same
  message, and their contexts go on matching.
\<close>

definition ciphers_match :: "'k cipher \<Rightarrow> ('k \<Rightarrow> 'k \<Rightarrow> bool) \<Rightarrow> bool" where
  "ciphers_match C pair \<longleftrightarrow>
     (\<forall>k k' m d k1. pair k k' \<longrightarrow> EncodeMessageToPeer C k m = (Some d, k1) \<longrightarrow>
        (\<exists>k1'. DecodeMessageFromPeer C k' d = (Some m, k1') \<and> pair k1 k1'))"

definition crypto_match :: "('k \<Rightarrow> 'k \<Rightarrow> bool) \<Rightarrow> 'k option \<Rightarrow> 'k option \<Rightarrow> bool" where
  "crypto_match pair x y \<longleftrightarrow>
     (case (x, y) of (None, None) \<Rightarrow> True | (Some k, Some k') \<Rightarrow> pair k k' | _ \<Rightarrow> False)"

fun write_all :: "'k cipher \<Rightarrow> write_env \<Rightarrow> bytes list \<Rightarrow> 'k channel_io \<Rightarrow> 'k channel_io option" where
  "write_all C env [] c = Some c"
| "write_all C env (m # ms) c =
     (case channel_Write C env m c of
        Some (kNoException, c1) \<Rightarrow> write_all C env ms c1
      | _ \<Rightarrow> None)"

fun read_all ::
  "'k cipher \<Rightarrow> (bytes \<Rightarrow> offline_frame option) \<Rightarrow> int \<Rightarrow> nat \<Rightarrow> 'k channel_io \<Rightarrow>
   (exception_value + bytes) list \<times> 'k channel_io" where
  "read_all C parse now 0 c = ([], c)"
| "read_all C parse now (Suc n) c =
     (case channel_Read C parse now c of
        (r, c1) \<Rightarrow> (case read_all C parse now n c1 of (rs, c2) \<Rightarrow> (r # rs, c2)))"

lemma Write_one:
  assumes "channel_Write C env m w = Some (kNoException, w1)" and "0 \<le> io_max w" and "io_max w \<le> 2147483647"
  obtains d where "fst (seal C m w) = Some d" "io_crypto w1 = io_crypto (snd (seal C m w))"
    "io_out w1 = io_out w @ IntToBytes (of_nat (length d)) @ d" "int (length d) \<le> io_max w"
    "io_max w1 = io_max w"
proof -
  from assms(1) obtain d c1 where s: "seal C m w = (Some d, c1)" "send_sealed env d c1 = (kNoException, w1)"
    by (auto simp: channel_Write_def split: if_splits option.splits prod.splits)
  have c1: "io_out c1 = io_out w" "io_max c1 = io_max w"
    using s(1) by (auto simp: seal_def split: option.splits prod.splits)
  have "take_bit 64 (io_max w) = io_max w"
    using assms(2,3) by (intro take_bit_int_eq_self) simp_all
  then show thesis
    using that [of d] s c1 by (auto simp: send_sealed_def Let_def split: if_splits)
qed

lemma unseal_sealed:
  assumes "ciphers_match C pair" and "crypto_match pair (io_crypto w) (io_crypto r)"
    and "fst (seal C m w) = Some d" and "io_crypto r \<noteq> None \<Longrightarrow> m \<noteq> []"
  obtains k where "unseal C parse d r = (Inr m, r\<lparr>io_crypto := k\<rparr>)"
    "crypto_match pair (io_crypto (snd (seal C m w))) k"
proof (cases "io_crypto w")
  case None
  then have "io_crypto r = None" using assms(2) by (auto simp: crypto_match_def split: option.splits)
  then show thesis
    using None assms(3) that [of None] by (simp add: seal_def unseal_def crypto_match_def)
next
  case (Some k)
  then obtain k' where k': "io_crypto r = Some k'" "pair k k'"
    using assms(2) by (auto simp: crypto_match_def split: option.splits)
  obtain k1 where e: "EncodeMessageToPeer C k m = (Some d, k1)"
    using Some assms(3) by (auto simp: seal_def split: prod.splits)
  then obtain k1' where "DecodeMessageFromPeer C k' d = (Some m, k1')" "pair k1 k1'"
    using assms(1) k'(2) unfolding ciphers_match_def by blast
  then show thesis
    using that [of "Some k1'"] Some k' e assms(4) by (simp add: seal_def unseal_def crypto_match_def)
qed

lemma write_all_Cons:
  assumes "write_all C env (m # ms) c = Some w"
  obtains c1 where "channel_Write C env m c = Some (kNoException, c1)" "write_all C env ms c1 = Some w"
proof (cases "channel_Write C env m c")
  case (Some xc)
  obtain x c1 where "xc = (x, c1)" by (cases xc)
  with Some assms that show thesis by (cases x) simp_all
qed (use assms in simp)

lemma write_all_prefix: "write_all C env ms c = Some w \<Longrightarrow> prefix (io_out c) (io_out w)"
proof (induction ms arbitrary: c)
  case (Cons m ms)
  obtain c1 where c1: "channel_Write C env m c = Some (kNoException, c1)" "write_all C env ms c1 = Some w"
    using Cons.prems by (rule write_all_Cons)
  then have "prefix (io_out c) (io_out c1)"
    by (auto simp: channel_Write_def seal_def send_sealed_def Let_def split: if_splits option.splits prod.splits)
  with Cons.IH [OF c1(2)] show ?case by (rule prefix_order.trans [rotated])
qed simp

lemma messages_arrive:
  assumes "ciphers_match C pair" and "crypto_match pair (io_crypto w) (io_crypto r)"
    and "write_all C env ms w = Some w1" and "0 \<le> io_max w" and "io_max w \<le> io_max r"
    and "io_max r \<le> 2147483647" and "io_crypto r \<noteq> None \<Longrightarrow> [] \<notin> set ms"
    and "stream_of (drop (length (io_out w)) (io_out w1) @ b) (io_in r)"
  shows "\<exists>r1. read_all C parse now (length ms) r = (map Inr ms, r1) \<and> stream_of b (io_in r1) \<and>
    prefix (io_out w) (io_out w1)"
  using assms(2-8)
proof (induction ms arbitrary: w r)
  case Nil
  then show ?case by simp
next
  case (Cons m ms)
  obtain w2 where w2: "channel_Write C env m w = Some (kNoException, w2)"
    and rest: "write_all C env ms w2 = Some w1"
    using Cons.prems(2) by (rule write_all_Cons)
  have small: "io_max w \<le> 2147483647" using Cons.prems(4,5) by simp
  obtain d where d: "fst (seal C m w) = Some d"
    "io_crypto w2 = io_crypto (snd (seal C m w))"
    "io_out w2 = io_out w @ IntToBytes (of_nat (length d)) @ d" "int (length d) \<le> io_max w"
    "io_max w2 = io_max w"
    by (rule Write_one [OF w2 Cons.prems(3) small])
  obtain t where t: "io_out w1 = io_out w2 @ t"
    using write_all_prefix [OF rest] by (auto simp: prefix_def)
  have "stream_of (IntToBytes (of_nat (length d)) @ d @ t @ b) (io_in r)"
    using Cons.prems(7) by (simp add: t d(3))
  moreover have "int (length d) \<le> io_max r" using d(4) Cons.prems(4) by simp
  ultimately obtain ps where p: "read_packet r = (Inr d, r\<lparr>io_in := ps\<rparr>)" "stream_of (t @ b) ps"
    using Cons.prems(5) by (rule read_packet_sent)
  have "crypto_match pair (io_crypto w) (io_crypto (r\<lparr>io_in := ps\<rparr>))" using Cons.prems(1) by simp
  from unseal_sealed [OF assms(1) this d(1)] Cons.prems(6) obtain k
    where k: "unseal C parse d (r\<lparr>io_in := ps\<rparr>) = (Inr m, r\<lparr>io_in := ps, io_crypto := k\<rparr>)"
      "crypto_match pair (io_crypto w2) k"
    unfolding d(2) by auto
  define r2 where "r2 = r\<lparr>io_in := ps, io_crypto := k, io_last_read := Some now\<rparr>"
  have one: "channel_Read C parse now r = (Inr m, r2)"
    by (simp add: channel_Read_def p(1) k(1) r2_def)
  have "io_crypto r2 \<noteq> None \<Longrightarrow> io_crypto r \<noteq> None"
    using Cons.prems(1) k(2) d(1,2)
    by (auto simp: r2_def crypto_match_def seal_def split: option.splits prod.splits)
  then have "\<exists>r1. read_all C parse now (length ms) r2 = (map Inr ms, r1) \<and> stream_of b (io_in r1) \<and>
      prefix (io_out w2) (io_out w1)"
    using Cons.prems p(2) k(2) d(5) t rest
    by (intro Cons.IH) (auto simp: r2_def)
  then show ?case using one d(3) by (auto simp: prefix_def)
qed

end
