(* ===== verification/Frame_Dispatch.thy ===== *)
theory Frame_Dispatch
  imports Channel_Io Channel_Manager
begin

text \<open>
  What the threads of an endpoint do (connections/implementation/endpoint_manager.cc): the reader
  takes frames off the channel and routes them to the processor registered for their type, the
  keep-alive thread writes when nothing was written for a while and notices when nothing is
  read; both run in a loop that picks up the endpoint's channel anew after a failure.

  A processor is an object known by a number; what it is given and what is written, closed and posted
  to other threads is the list \<open>dp_log\<close>.  What the other threads do between two rounds of a loop
  is an argument.
\<close>

datatype dispatch_event =
    FrameDelivered nat offline_frame string
  | FrameWritten nat offline_frame
  | ChannelClosed nat DisconnectionReason
  | ChannelResumed nat
  | RemovalPosted string DisconnectionReason
  | DiscardPosted string DisconnectionReason
  | ProcessorNotified nat string DisconnectionReason

record dispatcher =
  dp_processors :: "(FrameType \<times> nat option) list"
  dp_client :: client_proxy
  dp_channels :: channel_map
  dp_log :: "dispatch_event list"

definition log_event :: "dispatch_event \<Rightarrow> dispatcher \<Rightarrow> dispatcher" where
  "log_event ev s = s\<lparr>dp_log := dp_log s @ [ev]\<rparr>"

section \<open>Registration of processors\<close>

text \<open>A processor that was taken off leaves an entry with a null pointer behind.\<close>

definition GetFrameProcessor :: "FrameType \<Rightarrow> dispatcher \<Rightarrow> nat option" where
  "GetFrameProcessor t s = Option.bind (map_of (dp_processors s) t) (\<lambda>p. p)"

definition set_processor :: "FrameType \<Rightarrow> nat option \<Rightarrow> dispatcher \<Rightarrow> dispatcher" where
  "set_processor t p s =
     s\<lparr>dp_processors := map (\<lambda>(k, q). (k, if k = t then p else q)) (dp_processors s)\<rparr>"

definition RegisterFrameProcessor :: "FrameType \<Rightarrow> nat \<Rightarrow> dispatcher \<Rightarrow> dispatcher" where
  "RegisterFrameProcessor t p s =
     (case GetFrameProcessor t s of
        Some _ \<Rightarrow> set_processor t (Some p) s
      | None \<Rightarrow>
          if map_of (dp_processors s) t = None
          then s\<lparr>dp_processors := dp_processors s @ [(t, Some p)]\<rparr> else s)"

definition UnregisterFrameProcessor :: "FrameType \<Rightarrow> nat option \<Rightarrow> dispatcher \<Rightarrow> dispatcher" where
  "UnregisterFrameProcessor t p s =
     (case p of
        None \<Rightarrow> s
      | Some _ \<Rightarrow>
          (case GetFrameProcessor t s of
             None \<Rightarrow> s
           | Some q \<Rightarrow> if p = Some q then set_processor t None s else s))"

text \<open>
  The count of the barrier that is left, which the notified processors count down, and the events.
\<close>

definition NotifyFrameProcessorsOnEndpointDisconnect ::
  "string \<Rightarrow> DisconnectionReason \<Rightarrow> dispatcher \<Rightarrow> nat \<times> dispatcher" where
  "NotifyFrameProcessorsOnEndpointDisconnect e reason s =
     fold (\<lambda>(t, p) (barrier, s).
         case p of None \<Rightarrow> (barrier - 1, s)
         | Some q \<Rightarrow> (barrier, log_event (ProcessorNotified q e reason) s))
       (dp_processors s) (length (dp_processors s), s)"

section \<open>Reading\<close>

text \<open>
  \<open>re_decrypt data n\<close> is what the attempt \<open>n\<close> to decrypt returns, \<open>re_elapsed n\<close> the milliseconds
  that have gone by after it.
\<close>

record reader_env =
  re_parse :: "bytes \<Rightarrow> offline_frame option"
  re_decrypt :: "bytes \<Rightarrow> nat \<Rightarrow> exception_value + bytes"
  re_elapsed :: "nat \<Rightarrow> int"
  re_paused :: bool
  re_write :: "offline_frame \<Rightarrow> exception_value"

definition kDecryptRetryTimeout :: int where "kDecryptRetryTimeout = 3000"

partial_function (option) decrypt_from ::
  "reader_env \<Rightarrow> bytes \<Rightarrow> nat \<Rightarrow> (exception_value + offline_frame) option" where
  "decrypt_from env data n =
     (case re_decrypt env data n of
        Inr d \<Rightarrow> Some (FromBytes (re_parse env) d)
      | Inl x \<Rightarrow>
          if x = kExecution then Some (Inl kExecution)
          else if re_elapsed env n > kDecryptRetryTimeout then Some (Inl kTimedOut)
          else decrypt_from env data (Suc n))"

definition TryDecryptFrame :: "reader_env \<Rightarrow> bytes \<Rightarrow> (exception_value + offline_frame) option" where
  "TryDecryptFrame env data = decrypt_from env data 0"

definition write_frame ::
  "reader_env \<Rightarrow> endpoint_channel \<Rightarrow> offline_frame \<Rightarrow> dispatcher \<Rightarrow> exception_value \<times> dispatcher" where
  "write_frame env ch f s =
     (if re_write env f = kNoException then (kNoException, log_event (FrameWritten (channel_id ch) f) s)
      else (re_write env f, s))"

definition on_channels :: "(channel_map \<Rightarrow> channel_map) \<Rightarrow> dispatcher \<Rightarrow> dispatcher" where
  "on_channels f s = s\<lparr>dp_channels := f (dp_channels s)\<rparr>"

definition disconnection_flag ::
  "(disconnection_message \<Rightarrow> bool option) \<Rightarrow> offline_frame \<Rightarrow> bool" where
  "disconnection_flag g f =
     (case Option.bind (v1_message v1_disconnection f) g of Some b \<Rightarrow> b | None \<Rightarrow> False)"

definition ProcessDisconnectionFrame ::
  "reader_env \<Rightarrow> string \<Rightarrow> endpoint_channel \<Rightarrow> offline_frame \<Rightarrow> dispatcher \<Rightarrow> dispatcher" where
  "ProcessDisconnectionFrame env e ch f s =
     (if \<not> IsSafeToDisconnectEnabled e (dp_client s) \<or>
         \<not> disconnection_flag dm_request_safe_to_disconnect f
      then log_event (ChannelClosed (channel_id ch) REMOTE_DISCONNECTION) s
      else if disconnection_flag dm_ack_safe_to_disconnect f
      then on_channels (MarkEndpointStopWaitToDisconnect e True True) s
      else
        let s1 = on_channels (MarkEndpointStopWaitToDisconnect e True False) s;
            s2 = log_event (RemovalPosted e REMOTE_DISCONNECTION) s1;
            s3 = log_event (ChannelResumed (channel_id ch)) s2
        in snd (write_frame env ch (ForDisconnection True True) s3))"

definition answer_keep_alive ::
  "reader_env \<Rightarrow> endpoint_channel \<Rightarrow> offline_frame \<Rightarrow> dispatcher \<Rightarrow> exception_value \<times> dispatcher" where
  "answer_keep_alive env ch f s =
     (let m = v1_message v1_keep_alive f;
          ack = (case Option.bind m ka_ack of Some b \<Rightarrow> b | None \<Rightarrow> False);
          seq_num = (case Option.bind m ka_seq_num of Some n \<Rightarrow> n | None \<Rightarrow> 0)
      in if \<not> ack \<and> \<not> re_paused env then write_frame env ch (ForKeepAlive True seq_num) s
         else (kNoException, s))"

definition route_frame ::
  "reader_env \<Rightarrow> string \<Rightarrow> endpoint_channel \<Rightarrow> offline_frame \<Rightarrow> dispatcher \<Rightarrow>
   exception_value \<times> dispatcher" where
  "route_frame env e ch f s =
     (case GetFrameProcessor (GetFrameType f) s of
        Some p \<Rightarrow> (kNoException, log_event (FrameDelivered p f e) s)
      | None \<Rightarrow>
          if GetFrameType f = KEEP_ALIVE then answer_keep_alive env ch f s
          else if GetFrameType f = DISCONNECTION
          then (kNoException, ProcessDisconnectionFrame env e ch f s)
          else (kNoException, s))"

text \<open>
  The loop of \<open>HandleData\<close>, over what the calls of \<open>Read\<close> return; the result is \<open>None\<close> while it goes
  on.  The flag is \<open>try_decrypting\<close>.
\<close>

fun read_loop ::
  "reader_env \<Rightarrow> string \<Rightarrow> endpoint_channel \<Rightarrow> bool \<Rightarrow> (exception_value + bytes) list \<Rightarrow> dispatcher \<Rightarrow>
   exception_value option \<times> dispatcher" where
  "read_loop env e ch try [] s = (None, s)"
| "read_loop env e ch try (Inl x # rs) s = (Some x, s)"
| "read_loop env e ch try (Inr b # rs) s =
     (case FromBytes (re_parse env) b of
        Inr f \<Rightarrow>
          (case route_frame env e ch f s of
             (x, s1) \<Rightarrow> if x = kNoException then read_loop env e ch try rs s1 else (Some x, s1))
      | Inl y \<Rightarrow>
          (case (if try then TryDecryptFrame env b else Some (Inl y)) of
             None \<Rightarrow> (None, s)
           | Some (Inr f) \<Rightarrow>
               (case route_frame env e ch f s of
                  (x, s1) \<Rightarrow> if x = kNoException then read_loop env e ch False rs s1 else (Some x, s1))
           | Some (Inl _) \<Rightarrow>
               if y = kInvalidProtocolBuffer then read_loop env e ch False rs s else (Some y, s)))"

definition HandleData ::
  "reader_env \<Rightarrow> string \<Rightarrow> (exception_value + bytes) list \<Rightarrow> endpoint_channel \<Rightarrow> dispatcher \<Rightarrow>
   exception_value option \<times> dispatcher" where
  "HandleData env e reads ch s = read_loop env e ch (\<not> channel_encrypted ch) reads s"

section \<open>The loop over the channels of an endpoint\<close>

text \<open>\<open>EndpointManager::DiscardEndpoint\<close>, which posts the removal.\<close>

definition dispatcher_DiscardEndpoint :: "string \<Rightarrow> DisconnectionReason \<Rightarrow> dispatcher \<Rightarrow> dispatcher" where
  "dispatcher_DiscardEndpoint e reason s =
     log_event (DiscardPosted e reason)
       (if reason = IO_ERROR then on_channels (MarkEndpointStopWaitToDisconnect e False True) s else s)"

text \<open>
  One round: \<open>Inl\<close> when the loop is left, \<open>Inr\<close> with the medium that failed last otherwise.  It is
  \<open>None\<close> when the handler does not come back.
\<close>

type_synonym channel_handler = "endpoint_channel \<Rightarrow> dispatcher \<Rightarrow> exception_value option \<times> dispatcher"

definition loop_round ::
  "channel_handler \<Rightarrow> string \<Rightarrow> Medium \<Rightarrow> dispatcher \<Rightarrow> (dispatcher + Medium \<times> dispatcher) option" where
  "loop_round handler e last_failed s =
     (case GetChannelForEndpoint e (dp_channels s) of
        None \<Rightarrow> Some (Inl s)
      | Some ch \<Rightarrow>
          if last_failed \<noteq> UNKNOWN_MEDIUM \<and> channel_medium ch = last_failed then Some (Inl s)
          else case handler ch s of
            (None, s1) \<Rightarrow> None
          | (Some x, s1) \<Rightarrow>
              if x = kNoException then Some (Inr (last_failed, s1))
              else if x = kInvalidProtocolBuffer \<or> x = kIo then Some (Inr (channel_medium ch, s1))
              else if x = kInterrupted then Some (Inl s1)
              else Some (Inl (if IsSafeToDisconnectEnabled e (dp_client s1)
                              then on_channels (MarkEndpointStopWaitToDisconnect e False True) s1
                              else s1)))"

partial_function (option) channel_loop ::
  "(nat \<Rightarrow> channel_handler) \<Rightarrow> (nat \<Rightarrow> dispatcher \<Rightarrow> dispatcher) \<Rightarrow> string \<Rightarrow> nat \<Rightarrow> Medium \<Rightarrow>
   dispatcher \<Rightarrow> dispatcher option" where
  "channel_loop handler others e n last_failed s =
     (case loop_round (handler n) e last_failed (others n s) of
        None \<Rightarrow> None
      | Some (Inl s1) \<Rightarrow> Some s1
      | Some (Inr (m, s1)) \<Rightarrow> channel_loop handler others e (Suc n) m s1)"

definition EndpointChannelLoopRunnable ::
  "(nat \<Rightarrow> channel_handler) \<Rightarrow> (nat \<Rightarrow> dispatcher \<Rightarrow> dispatcher) \<Rightarrow> string \<Rightarrow> dispatcher \<Rightarrow>
   dispatcher option" where
  "EndpointChannelLoopRunnable handler others e s =
     map_option (dispatcher_DiscardEndpoint e IO_ERROR)
       (channel_loop handler others e 0 UNKNOWN_MEDIUM s)"

definition reader_runnable ::
  "reader_env \<Rightarrow> (nat \<Rightarrow> (exception_value + bytes) list) \<Rightarrow> (nat \<Rightarrow> dispatcher \<Rightarrow> dispatcher) \<Rightarrow> string \<Rightarrow>
   dispatcher \<Rightarrow> dispatcher option" where
  "reader_runnable env reads others e =
     EndpointChannelLoopRunnable (\<lambda>n. HandleData env e (reads n)) others e"

section \<open>Keep-alive\<close>

text \<open>
  The result: what is returned, with \<open>kFailed\<close> for \<open>false\<close>, and how long it waited.  It is \<open>None\<close> when
  the write blocks.  \<open>serialize\<close> is protobuf's.
\<close>

definition keep_alive_wait ::
  "int \<Rightarrow> int \<Rightarrow> exception_value \<Rightarrow> 'k channel_io \<Rightarrow> exception_value \<times> int option \<times> 'k channel_io" where
  "keep_alive_wait until_timeout until_write wait_result c =
     (if wait_result = kNoException then (kNoException, Some (min until_timeout until_write), c)
      else (wait_result, Some (min until_timeout until_write), c))"

definition HandleKeepAlive ::
  "'k cipher \<Rightarrow> (offline_frame \<Rightarrow> bytes) \<Rightarrow> write_env \<Rightarrow> exception_value \<Rightarrow> int \<Rightarrow> int \<Rightarrow> 'k channel_io \<Rightarrow>
   (exception_value \<times> int option \<times> 'k channel_io) option" where
  "HandleKeepAlive C serialize env wait_result interval timeout c =
     (let now = we_now env;
          until_timeout = (case io_last_read c of None \<Rightarrow> timeout | Some t \<Rightarrow> t + timeout - now);
          until_write = (case io_last_write c of None \<Rightarrow> interval | Some t \<Rightarrow> t + interval - now)
      in if until_timeout \<le> 0 then Some (kFailed, None, c)
         else if until_write \<le> 0
         then case GetNextKeepAliveSeqNo c of (n, c1) \<Rightarrow>
                (case channel_Write C env (serialize (ForKeepAlive False n)) c1 of
                   None \<Rightarrow> None
                 | Some (x, c2) \<Rightarrow>
                     if x \<noteq> kNoException then Some (x, None, c2)
                     else Some (keep_alive_wait until_timeout interval wait_result c2))
         else Some (keep_alive_wait until_timeout until_write wait_result c))"

end
