(* ===== verification/Dispatch_Props.thy ===== *)
theory Dispatch_Props
  imports Frame_Dispatch Frame_Props
begin

text \<open>
  Properties of channels and of the threads that read from them: what is written arrives, what is
  read reaches its processor, and the loops end.
\<close>

section \<open>Channels\<close>

text \<open>
  C9: Messages that were written on one side of a channel are read on the other side, whole and in
  order, however the stream cuts its bytes into pieces, encrypted or not; then the reader
  stands at the first byte that follows.
\<close>

theorem channel_delivers:
  assumes "ciphers_match C pair" and "crypto_match pair (io_crypto w) (io_crypto r)"
    and "write_all C env ms w = Some w1" and "0 \<le> io_max w" and "io_max w \<le> io_max r"
    and "io_max r \<le> 2147483647" and "io_crypto r = None \<or> [] \<notin> set ms"
    and "concat (io_in r) = drop (length (io_out w)) (io_out w1) @ b" and "[] \<notin> set (io_in r)"
  shows "\<exists>r1. read_all C parse now (length ms) r = (map Inr ms, r1) \<and> concat (io_in r1) = b"
  using messages_arrive [OF assms(1-6), of b parse now] assms(7-9) by (auto simp: stream_of_def)

text \<open>
  C20: On an encrypted channel nothing is read that the peer's key does not vouch for, except a frame
  that parses as a valid keep-alive; anything else is an error of the read.
\<close>

theorem encrypted_read_authentic:
  assumes "channel_Read C parse now c = (Inr m, c1)" and "io_crypto c = Some k"
  shows "\<exists>b. fst (read_packet c) = Inr b \<and>
    (fst (DecodeMessageFromPeer C k b) = Some m \<or>
     fst (DecodeMessageFromPeer C k b) = None \<and> m = b \<and>
       (\<exists>f. parse b = Some f \<and> EnsureValidOfflineFrame f = kNoException \<and> GetFrameType f = KEEP_ALIVE))"
proof -
  from assms(1) obtain b c2 c3 where b: "read_packet c = (Inr b, c2)" and u: "unseal C parse b c2 = (Inr m, c3)"
    by (auto simp: channel_Read_def split: prod.splits sum.splits)
  have "io_crypto c2 = Some k"
    using b assms(2) by (auto simp: read_packet_def Let_def split: prod.splits sum.splits if_splits)
  with u show ?thesis unfolding b
    by (auto simp: unseal_def FromBytes_def split: prod.splits option.splits if_splits sum.splits)
qed

text \<open>
  A message that is longer than the channel allows is refused and leaves the stream untouched, and
  a length that is negative or too large ends the reading before a byte of the message is taken.
\<close>

theorem oversized_messages_refused:
  assumes "io_crypto c = None" and "0 \<le> io_max c" and "io_max c \<le> 2147483647" and "\<not> io_paused c"
  shows "(int (length m) > io_max c \<longrightarrow> channel_Write C env m c = Some (kIo, c)) \<and>
    (stream_of (be32 n @ rest) (io_in c) \<and> (sint n < 0 \<or> sint n > io_max c) \<longrightarrow>
       (\<exists>c1. channel_Read C parse now c = (Inl kIo, c1) \<and> concat (io_in c1) = rest))"
proof (intro conjI impI)
  have "take_bit 64 (io_max c) = io_max c"
    using assms(2,3) by (intro take_bit_int_eq_self) simp_all
  then show "int (length m) > io_max c \<Longrightarrow> channel_Write C env m c = Some (kIo, c)"
    using assms(1,4) by (simp add: channel_Write_def seal_def send_sealed_def)
next
  assume a: "stream_of (be32 n @ rest) (io_in c) \<and> (sint n < 0 \<or> sint n > io_max c)"
  then obtain ps where "ReadExactly 4 (io_in c) = (Inr (be32 n), ps)" "stream_of rest ps"
    using ReadExactly_exact [of "be32 n" rest "io_in c"] by (metis length_be32)
  with a show "\<exists>c1. channel_Read C parse now c = (Inl kIo, c1) \<and> concat (io_in c1) = rest"
    by (auto simp: channel_Read_def read_packet_def stream_of_def)
qed

section \<open>Registration\<close>

datatype processor_op = Register FrameType nat | Unregister FrameType "nat option"

fun processor_step :: "processor_op \<Rightarrow> dispatcher \<Rightarrow> dispatcher" where
  "processor_step (Register t p) = RegisterFrameProcessor t p"
| "processor_step (Unregister t p) = UnregisterFrameProcessor t p"

lemma map_of_set_processor:
  "map_of (dp_processors (set_processor t p s)) k =
     (if k = t then map_option (\<lambda>_. p) (map_of (dp_processors s) k) else map_of (dp_processors s) k)"
proof -
  have "map_of (map (\<lambda>(k, q). (k, if k = t then p else q)) xs) k =
      (if k = t then map_option (\<lambda>_. p) (map_of xs k) else map_of xs k)" for xs
    by (induction xs) auto
  then show ?thesis by (simp add: set_processor_def)
qed

lemma processor_step_deaf:
  "map_of (dp_processors s) t = Some None \<Longrightarrow> map_of (dp_processors (processor_step op1 s)) t = Some None"
  by (cases op1) (auto simp: RegisterFrameProcessor_def UnregisterFrameProcessor_def map_of_set_processor
      GetFrameProcessor_def split: option.splits)

text \<open>
  Once a processor was taken off, no processor can be registered for its type of frame again:
  the registration finds the entry with the null pointer and changes nothing, so frames of that
  type are dropped whatever is registered later.
\<close>

theorem unregistered_type_stays_deaf:
  assumes "GetFrameProcessor t s = Some p"
  shows "GetFrameProcessor t (fold processor_step ops (UnregisterFrameProcessor t (Some p) s)) = None"
proof -
  have start: "map_of (dp_processors (UnregisterFrameProcessor t (Some p) s)) t = Some None"
    using assms by (auto simp: UnregisterFrameProcessor_def GetFrameProcessor_def map_of_set_processor
        split: option.splits bind_splits)
  have "map_of (dp_processors u) t = Some None \<Longrightarrow>
      map_of (dp_processors (fold processor_step ops u)) t = Some None" for u
    by (induction ops arbitrary: u) (simp_all add: processor_step_deaf)
  from this [OF start] show ?thesis by (simp add: GetFrameProcessor_def)
qed

section \<open>Routing\<close>

definition deliveries :: "dispatch_event list \<Rightarrow> (nat \<times> offline_frame \<times> string) list" where
  "deliveries l = concat (map (\<lambda>ev. case ev of FrameDelivered p f e \<Rightarrow> [(p, f, e)] | _ \<Rightarrow> []) l)"

fun readable :: "reader_env \<Rightarrow> exception_value + bytes \<Rightarrow> offline_frame option" where
  "readable env (Inl x) = None"
| "readable env (Inr b) = (case FromBytes (re_parse env) b of Inr f \<Rightarrow> Some f | Inl _ \<Rightarrow> None)"

fun stops_reader :: "reader_env \<Rightarrow> exception_value + bytes \<Rightarrow> bool" where
  "stops_reader env (Inl x) \<longleftrightarrow> True"
| "stops_reader env (Inr b) \<longleftrightarrow>
     (case FromBytes (re_parse env) b of Inl y \<Rightarrow> y \<noteq> kInvalidProtocolBuffer | Inr _ \<Rightarrow> False)"

definition routed :: "dispatcher \<Rightarrow> string \<Rightarrow> offline_frame option \<Rightarrow> (nat \<times> offline_frame \<times> string) list" where
  "routed s e fr =
     (case fr of None \<Rightarrow> [] | Some f \<Rightarrow>
        (case GetFrameProcessor (GetFrameType f) s of None \<Rightarrow> [] | Some p \<Rightarrow> [(p, f, e)]))"

lemma deliveries_simps [simp]:
  "deliveries (l @ m) = deliveries l @ deliveries m" "deliveries [] = []"
  "deliveries (FrameDelivered p f e # l) = (p, f, e) # deliveries l"
  "deliveries (FrameWritten n f # l) = deliveries l" "deliveries (ChannelClosed n r # l) = deliveries l"
  "deliveries (ChannelResumed n # l) = deliveries l" "deliveries (RemovalPosted e r # l) = deliveries l"
  "deliveries (DiscardPosted e r # l) = deliveries l"
  by (simp_all add: deliveries_def)

lemma route_frame_delivers:
  "deliveries (dp_log (snd (route_frame env e ch f s))) = deliveries (dp_log s) @ routed s e (Some f)"
  by (simp add: route_frame_def routed_def answer_keep_alive_def ProcessDisconnectionFrame_def
      write_frame_def log_event_def on_channels_def Let_def split: option.splits)

lemma route_frame_keeps [simp]:
  "dp_processors (snd (route_frame env e ch f s)) = dp_processors s"
  "GetFrameProcessor t (snd (route_frame env e ch f s)) = GetFrameProcessor t s"
  by (simp_all add: route_frame_def answer_keep_alive_def ProcessDisconnectionFrame_def
      write_frame_def log_event_def on_channels_def Let_def GetFrameProcessor_def split: option.splits)

lemma route_frame_ok:
  "(\<And>g. re_write env g = kNoException) \<Longrightarrow> fst (route_frame env e ch f s) = kNoException"
  by (simp add: route_frame_def answer_keep_alive_def write_frame_def Let_def split: option.splits)

lemma routed_keeps: "dp_processors t = dp_processors s \<Longrightarrow> routed t e fr = routed s e fr"
  by (cases fr) (simp_all add: routed_def GetFrameProcessor_def)


section \<open>The loop of a reader\<close>

abbreviation channel_at :: "string \<Rightarrow> dispatcher \<Rightarrow> endpoint_channel option" where
  "channel_at e s \<equiv> GetChannelForEndpoint e (dp_channels s)"

lemma decrypt_from_ends:
  assumes "\<And>n. re_elapsed env n \<ge> 10 * int n"
  shows "decrypt_from env b n \<noteq> None"
proof (induction "301 - n" arbitrary: n rule: less_induct)
  case less
  show ?case
  proof (cases "n \<le> 300")
    case True
    then have "decrypt_from env b (Suc n) \<noteq> None" using less.hyps [of "Suc n"] by simp
    then show ?thesis by (subst decrypt_from.simps) (simp split: sum.splits)
  next
    case False
    then have "re_elapsed env n > kDecryptRetryTimeout"
      using assms [of n] by (simp add: kDecryptRetryTimeout_def)
    then show ?thesis by (subst decrypt_from.simps) (simp split: sum.splits)
  qed
qed

lemma update_endpoint_channel:
  assumes "\<And>d. ep_channel (f d) = ep_channel d" and "LookupEndpointData k m \<noteq> None"
  shows "GetChannelForEndpoint e (update_endpoint k f m) = GetChannelForEndpoint e m"
  using assms by (auto simp: GetChannelForEndpoint_def LookupEndpointData_def map_of_update_endpoint
      split: option.splits)

lemma mark_keeps_channel [simp]:
  "GetChannelForEndpoint e (MarkEndpointStopWaitToDisconnect k a b m) = GetChannelForEndpoint e m"
  unfolding MarkEndpointStopWaitToDisconnect_def
  by (auto intro!: update_endpoint_channel simp: Let_def)

lemma route_frame_channel [simp]: "channel_at e (snd (route_frame env k ch f s)) = channel_at e s"
  by (simp add: route_frame_def answer_keep_alive_def ProcessDisconnectionFrame_def
      write_frame_def log_event_def on_channels_def Let_def split: option.splits)

fun read_fails :: "exception_value + bytes \<Rightarrow> bool" where
  "read_fails (Inl x) \<longleftrightarrow> x \<noteq> kNoException"
| "read_fails (Inr b) \<longleftrightarrow> False"

definition good_reads :: "(exception_value + bytes) list \<Rightarrow> bool" where
  "good_reads rs \<longleftrightarrow> list_ex read_fails rs \<and> Inl kNoException \<notin> set rs"

lemma FromBytes_error: "FromBytes parse b = Inl y \<Longrightarrow> y \<noteq> kNoException"
  by (auto simp: FromBytes_def split: option.splits if_splits)

lemma read_loop_comes_back:
  assumes "\<And>b. TryDecryptFrame env b \<noteq> None" and "list_ex read_fails rs" and "Inl kNoException \<notin> set rs"
  shows "\<exists>x t. read_loop env e ch retry rs s = (Some x, t) \<and> x \<noteq> kNoException \<and> channel_at k t = channel_at k s"
  using assms(2,3)
proof (induction rs arbitrary: retry s)
  case (Cons r rs)
  show ?case
  proof (cases r)
    case (Inl x)
    then show ?thesis using Cons.prems by auto
  next
    case (Inr b)
    then have rs: "list_ex read_fails rs" "Inl kNoException \<notin> set rs"
      using Cons.prems by simp_all
    have route: "\<exists>x t. (case route_frame env e ch f s of (x, s1) \<Rightarrow>
          if x = kNoException then read_loop env e ch retry2 rs s1 else (Some x, s1)) = (Some x, t) \<and>
        x \<noteq> kNoException \<and> channel_at k t = channel_at k s" for f retry2
      using Cons.IH [OF rs, where retry = retry2 and s = "snd (route_frame env e ch f s)"]
      by (auto simp: case_prod_beta)
    show ?thesis
    proof (cases "FromBytes (re_parse env) b")
      case (Inr f)
      then show ?thesis using route [where f = f and ?retry2.0 = retry] \<open>r = Inr b\<close> by simp
    next
      case (Inl y)
      then have y: "y \<noteq> kNoException" by (rule FromBytes_error)
      obtain d where d: "(if retry then TryDecryptFrame env b else Some (Inl y)) = Some d"
        using assms(1) [of b] by (cases retry) auto
      show ?thesis
      proof (cases d)
        case (Inr f)
        then show ?thesis using route [where f = f and ?retry2.0 = False] \<open>r = Inr b\<close> Inl d by simp
      next
        case (Inl z)
        then show ?thesis
          using \<open>r = Inr b\<close> \<open>FromBytes (re_parse env) b = Inl y\<close> d y Cons.IH [OF rs, where retry = False and s = s]
          by (cases "y = kInvalidProtocolBuffer") auto
      qed
    qed
  qed
qed simp

text \<open>
  The other threads leave the endpoint alone from some round on: its channel keeps its medium, or is
  gone.
\<close>

definition known_medium :: "string \<Rightarrow> dispatcher \<Rightarrow> bool" where
  "known_medium e s \<longleftrightarrow> (\<forall>ch. channel_at e s = Some ch \<longrightarrow> channel_medium ch \<noteq> UNKNOWN_MEDIUM)"

definition settles_down :: "(nat \<Rightarrow> dispatcher \<Rightarrow> dispatcher) \<Rightarrow> string \<Rightarrow> nat \<Rightarrow> bool" where
  "settles_down others e N \<longleftrightarrow>
     (\<forall>n s. known_medium e s \<longrightarrow> known_medium e (others n s) \<and>
        (N \<le> n \<longrightarrow> (\<forall>ch. channel_at e (others n s) = Some ch \<longrightarrow>
           map_option channel_medium (channel_at e s) = Some (channel_medium ch))))"

definition failing_handlers :: "(nat \<Rightarrow> channel_handler) \<Rightarrow> string \<Rightarrow> bool" where
  "failing_handlers handler e \<longleftrightarrow>
     (\<forall>n ch s. \<exists>x t. handler n ch s = (Some x, t) \<and> x \<noteq> kNoException \<and> channel_at e t = channel_at e s)"

lemma loop_round_failing:
  assumes "failing_handlers handler e"
  shows "(\<exists>u. loop_round (handler n) e last_failed s = Some (Inl u)) \<or>
    (\<exists>m t ch. loop_round (handler n) e last_failed s = Some (Inr (m, t)) \<and>
       channel_at e s = Some ch \<and> channel_at e t = Some ch \<and> m = channel_medium ch)"
proof (cases "channel_at e s")
  case (Some ch)
  obtain x t where "handler n ch s = (Some x, t)" "x \<noteq> kNoException" "channel_at e t = channel_at e s"
    using assms unfolding failing_handlers_def by blast
  with Some show ?thesis by (simp add: loop_round_def)
qed (simp add: loop_round_def)

lemma loop_settled:
  assumes "failing_handlers handler e" and "settles_down others e N" and "N \<le> n" and "known_medium e s"
  shows "\<exists>u. channel_loop handler others e n m s = Some u"
proof -
  have k: "known_medium e (others n s)" using assms(2,4) by (simp add: settles_down_def)
  from loop_round_failing [OF assms(1), of n m "others n s"]
  consider u where "loop_round (handler n) e m (others n s) = Some (Inl u)"
    | m2 t ch where "loop_round (handler n) e m (others n s) = Some (Inr (m2, t))"
        "channel_at e (others n s) = Some ch" "channel_at e t = Some ch" "m2 = channel_medium ch" by blast
  then show ?thesis
  proof cases
    case 1
    then show ?thesis by (subst channel_loop.simps) simp
  next
    case 2
    have t: "known_medium e t" using k 2(2,3) by (simp add: known_medium_def)
    have "\<exists>u. loop_round (handler (Suc n)) e m2 (others (Suc n) t) = Some (Inl u)"
    proof (cases "channel_at e (others (Suc n) t)")
      case (Some ch2)
      have "N \<le> Suc n" using assms(3) by simp
      then have "channel_medium ch2 \<noteq> UNKNOWN_MEDIUM \<and> channel_medium ch2 = m2"
        using assms(2) t Some 2(3,4) unfolding settles_down_def known_medium_def
        by (metis option.map(2) option.inject)
      then show ?thesis using Some by (auto simp: loop_round_def)
    qed (simp add: loop_round_def)
    then obtain u where "loop_round (handler (Suc n)) e m2 (others (Suc n) t) = Some (Inl u)" by blast
    then have "channel_loop handler others e (Suc n) m2 t = Some u" by (subst channel_loop.simps) simp
    then show ?thesis using 2(1) by (subst channel_loop.simps) simp
  qed
qed

lemma loop_ends:
  assumes "failing_handlers handler e" and "settles_down others e N"
  shows "known_medium e s \<Longrightarrow> \<exists>u. channel_loop handler others e n m s = Some u"
proof (induction "N - n" arbitrary: n m s rule: less_induct)
  case less
  show ?case
  proof (cases "N \<le> n")
    case True
    with assms less.prems show ?thesis by (blast intro: loop_settled)
  next
    case False
    then have rest: "known_medium e t \<Longrightarrow> \<exists>u. channel_loop handler others e (Suc n) m2 t = Some u" for m2 t
      using less.hyps [of "Suc n"] by simp
    have k: "known_medium e (others n s)" using assms(2) less.prems by (simp add: settles_down_def)
    from loop_round_failing [OF assms(1), of n m "others n s"]
    consider u where "loop_round (handler n) e m (others n s) = Some (Inl u)"
      | m2 t where "loop_round (handler n) e m (others n s) = Some (Inr (m2, t))" "known_medium e t"
      using k by (fastforce simp: known_medium_def)
    then show ?thesis using rest by cases (subst channel_loop.simps; simp)+
  qed
qed

text \<open>
  C8: The thread that reads from an endpoint ends, whatever it reads: when every channel it picks up
  fails at last and the other threads replace the endpoint's channel finitely often, its loop is
  left, and the endpoint is given up to be discarded.  The retries for a frame that is not yet
  decryptable end too, since the clock goes on while they sleep.
\<close>

theorem reader_ends:
  assumes "settles_down others e N" and "known_medium e s" and "\<And>n. good_reads (reads n)" and "\<And>n. re_elapsed env n \<ge> 10 * int n"
  shows "\<exists>u. reader_runnable env reads others e s = Some u \<and> last (dp_log u) = DiscardPosted e IO_ERROR"
proof -
  have "TryDecryptFrame env b \<noteq> None" for b
    using decrypt_from_ends [OF assms(4)] by (simp add: TryDecryptFrame_def)
  then have "failing_handlers (\<lambda>n. HandleData env e (reads n)) e"
    using read_loop_comes_back assms(3)
    unfolding failing_handlers_def HandleData_def good_reads_def by blast
  from loop_ends [OF this assms(1,2)] obtain u
    where "channel_loop (\<lambda>n. HandleData env e (reads n)) others e 0 UNKNOWN_MEDIUM s = Some u" by blast
  then show ?thesis
    by (simp add: reader_runnable_def EndpointChannelLoopRunnable_def dispatcher_DiscardEndpoint_def
        log_event_def)
qed

section \<open>Names that disconnect\<close>

lemma colon_is_illegal:
  assumes "hd_type h = Some FILE" and "hd_file_name h = Some n" and "CHR '':'' \<in> set n"
  shows "illegal_names h"
proof -
  obtain a b where "n = a @ CHR '':'' # b" using assms(3) by (auto dest: split_list)
  then have "n \<noteq> [] \<and> has_substring '':'' n" by (auto simp: has_substring_iff)
  then show ?thesis
    using assms(1,2) by (simp add: illegal_names_def CheckForIllegalCharacters_def kIllegalFileNamePatterns_def)
qed

text \<open>
  C37: A file whose name has a colon, which file systems other than Windows allow, cannot be sent: the
  first frame of its payload makes the receiver's reader leave its loop, and the connection is
  given up, instead of the payload being refused.
\<close>

theorem colon_in_name_disconnects:
  assumes "GetType (ip_kind ip) = FILE" and "CHR '':'' \<in> set (payload_file_name (ip_payload ip))"
    and "0 \<le> GetTotalSize (ip_kind ip)" and "body \<noteq> []"
    and "re_parse env b = Some (written_frame (DataFrame (CreatePayloadHeader ip 0) (CreatePayloadChunk 0 body 0)))"
    and "reads 0 = Inr b # rest" and "channel_at e (others 0 s) = Some ch" and "channel_encrypted ch"
  shows "\<exists>u. reader_runnable env reads others e s = Some u \<and>
    dp_log u = dp_log (others 0 s) @ [DiscardPosted e IO_ERROR]"
proof -
  let ?h = "CreatePayloadHeader ip 0" and ?c = "CreatePayloadChunk 0 body 0"
  have h: "hd_type ?h = Some FILE" "hd_file_name ?h = Some (payload_file_name (ip_payload ip))"
    "hd_total_size ?h = Some (GetTotalSize (ip_kind ip))"
    using assms(1) by (simp_all add: CreatePayloadHeader_def Let_def)
  from colon_is_illegal [OF h(1,2) assms(2)] have "illegal_names ?h" .
  moreover have "valid_size ?h (ck_offset ?c)"
    using h(3) assms(3) by (simp add: valid_size_def header_total_size_def CreatePayloadChunk_def)
  ultimately have "EnsureValidOfflineFrame (written_frame (DataFrame ?h ?c)) = kIllegalCharacters"
    using check_data_frame [of ?h ?c] assms(4) by (simp add: CreatePayloadChunk_def)
  then have "FromBytes (re_parse env) b = Inl kIllegalCharacters"
    using assms(5) by (simp add: FromBytes_def)
  then have "HandleData env e (reads 0) ch (others 0 s) = (Some kIllegalCharacters, others 0 s)"
    using assms(6,8) by (simp add: HandleData_def)
  then have "\<exists>u. loop_round (HandleData env e (reads 0)) e UNKNOWN_MEDIUM (others 0 s) = Some (Inl u) \<and>
      dp_log u = dp_log (others 0 s)"
    using assms(7) by (simp add: loop_round_def on_channels_def)
  then obtain u where "loop_round (HandleData env e (reads 0)) e UNKNOWN_MEDIUM (others 0 s) = Some (Inl u)"
    and l: "dp_log u = dp_log (others 0 s)" by blast
  then have "channel_loop (\<lambda>n. HandleData env e (reads n)) others e 0 UNKNOWN_MEDIUM s = Some u"
    by (subst channel_loop.simps) simp
  then show ?thesis
    using l by (simp add: reader_runnable_def EndpointChannelLoopRunnable_def dispatcher_DiscardEndpoint_def
        log_event_def on_channels_def)
qed

text \<open>
  A worker that failed once on a medium never forgets it: when the endpoint comes back to that
  medium on a new channel after working well on another, the worker takes the new channel for the old
  one, leaves its loop without using it, and the endpoint is discarded.
\<close>

theorem returning_medium_discards:
  assumes "channel_at e (others 0 s) = Some ch" and "channel_medium ch \<noteq> UNKNOWN_MEDIUM"
    and "handler 0 ch (others 0 s) = (Some kIo, t0)"
    and "channel_at e (others 1 t0) = Some ch1" and "channel_medium ch1 \<noteq> channel_medium ch"
    and "handler 1 ch1 (others 1 t0) = (Some kNoException, t1)"
    and "channel_at e (others 2 t1) = Some ch2" and "channel_medium ch2 = channel_medium ch"
  shows "EndpointChannelLoopRunnable handler others e s =
    Some (dispatcher_DiscardEndpoint e IO_ERROR (others 2 t1))"
proof -
  have "loop_round (handler 2) e (channel_medium ch) (others 2 t1) = Some (Inl (others 2 t1))"
    using assms(2,7,8) by (simp add: loop_round_def)
  then have two: "channel_loop handler others e 2 (channel_medium ch) t1 = Some (others 2 t1)"
    by (subst channel_loop.simps) simp
  have "loop_round (handler 1) e (channel_medium ch) (others 1 t0) = Some (Inr (channel_medium ch, t1))"
    using assms(4-6) by (simp add: loop_round_def)
  then have one: "channel_loop handler others e 1 (channel_medium ch) t0 = Some (others 2 t1)"
    using two by (subst channel_loop.simps) (simp add: numeral_2_eq_2)
  have "loop_round (handler 0) e UNKNOWN_MEDIUM (others 0 s) = Some (Inr (channel_medium ch, t0))"
    using assms(1,3) by (simp add: loop_round_def)
  then have "channel_loop handler others e 0 UNKNOWN_MEDIUM s = Some (others 2 t1)"
    using one by (subst channel_loop.simps) simp
  then show ?thesis by (simp add: EndpointChannelLoopRunnable_def)
qed

section \<open>Safe disconnection\<close>

lemma mark_lookup:
  assumes "LookupEndpointData e m = Some d"
  shows "LookupEndpointData e (MarkEndpointStopWaitToDisconnect e safe stop m) =
    Some (if ep_wait_enabled d \<and> stop then d\<lparr>ep_is_safe := safe, ep_wait_notified := True\<rparr>
          else d\<lparr>ep_is_safe := safe\<rparr>)"
  using assms by (auto simp: MarkEndpointStopWaitToDisconnect_def LookupEndpointData_def
      map_of_update_endpoint Let_def)

text \<open>
  C22: Two devices that both support it part safely: the one that is told of a disconnection marks the
  endpoint safe, posts its removal and answers; the answer marks the endpoint safe on the side
  that started, and wakes it if it is waiting.
\<close>

theorem safe_disconnection_handshake:
  assumes "IsSafeToDisconnectEnabled a (dp_client s)" and "LookupEndpointData a (dp_channels s) = Some d"
    and "re_write env (ForDisconnection True True) = kNoException"
    and "IsSafeToDisconnectEnabled b (dp_client r)" and "LookupEndpointData b (dp_channels r) = Some k"
  shows "let s1 = ProcessDisconnectionFrame env a ch (ForDisconnection True False) s;
      r1 = ProcessDisconnectionFrame env2 b ch2 (ForDisconnection True True) r in
    IsSafeToDisconnect a (dp_channels s1) \<and>
    dp_log s1 = dp_log s @ [RemovalPosted a REMOTE_DISCONNECTION, ChannelResumed (channel_id ch),
      FrameWritten (channel_id ch) (ForDisconnection True True)] \<and>
    IsSafeToDisconnect b (dp_channels r1) \<and> dp_log r1 = dp_log r \<and>
    (ep_wait_enabled k \<longrightarrow> (\<exists>k1. LookupEndpointData b (dp_channels r1) = Some k1 \<and> ep_wait_notified k1))"
  using assms mark_lookup [OF assms(2), of True False] mark_lookup [OF assms(5), of True True]
  by (simp add: ProcessDisconnectionFrame_def disconnection_flag_def v1_message_def ForDisconnection_def
      write_frame_def log_event_def on_channels_def IsSafeToDisconnect_def Let_def)

section \<open>Keep-alive\<close>

text \<open>
  The rounds of the keep-alive thread while its writes succeed, nothing is read, and every wait lasts as
  long as it was asked to: when it gives up, and with what.
\<close>

definition quiet_env :: "int \<Rightarrow> write_env" where
  "quiet_env now = \<lparr>we_header = kNoException, we_data = kNoException, we_flush = kNoException, we_now = now\<rparr>"

partial_function (option) keep_alive_run ::
  "'k cipher \<Rightarrow> (offline_frame \<Rightarrow> bytes) \<Rightarrow> int \<Rightarrow> int \<Rightarrow> int \<Rightarrow> 'k channel_io \<Rightarrow>
   (int \<times> exception_value \<times> 'k channel_io) option" where
  "keep_alive_run C serialize interval timeout now c =
     (case HandleKeepAlive C serialize (quiet_env now) kNoException interval timeout c of
        None \<Rightarrow> None
      | Some (x, None, c1) \<Rightarrow> Some (now, x, c1)
      | Some (x, Some w, c1) \<Rightarrow>
          if x \<noteq> kNoException then Some (now, x, c1)
          else keep_alive_run C serialize interval timeout (now + w) c1)"

definition plain_channel_io :: "(offline_frame \<Rightarrow> bytes) \<Rightarrow> 'k channel_io \<Rightarrow> bool" where
  "plain_channel_io serialize c \<longleftrightarrow>
     io_crypto c = None \<and> \<not> io_paused c \<and> 0 \<le> io_max c \<and> io_max c \<le> 2147483647 \<and>
     (\<forall>n. int (length (serialize (ForKeepAlive False n))) \<le> io_max c)"

lemma keep_alive_written:
  assumes "plain_channel_io serialize c"
  shows "\<exists>c1. channel_Write C (quiet_env now) (serialize (ForKeepAlive False n)) c = Some (kNoException, c1) \<and>
    plain_channel_io serialize c1 \<and> io_last_read c1 = io_last_read c \<and> io_last_write c1 = Some now"
proof -
  have "take_bit 64 (io_max c) = io_max c"
    using assms by (intro take_bit_int_eq_self) (simp_all add: plain_channel_io_def)
  then have "\<not> int (length (serialize (ForKeepAlive False n))) > take_bit 64 (io_max c)"
    using assms by (simp add: plain_channel_io_def not_less)
  then show ?thesis
    using assms by (simp add: plain_channel_io_def channel_Write_def seal_def send_sealed_def quiet_env_def Let_def)
qed

lemma keep_alive_round:
  assumes "plain_channel_io serialize c" and "io_last_read c = Some t0" and "io_last_write c = Some w"
    and "now \<le> w + interval" and "0 < interval" and "now < t0 + timeout"
  shows "\<exists>d c1 w1. HandleKeepAlive C serialize (quiet_env now) kNoException interval timeout c =
      Some (kNoException, Some d, c1) \<and> 0 < d \<and> now + d \<le> t0 + timeout \<and> plain_channel_io serialize c1 \<and>
      io_last_read c1 = Some t0 \<and> io_last_write c1 = Some w1 \<and> now + d \<le> w1 + interval"
proof (cases "w + interval - now \<le> 0")
  case True
  define c0 where "c0 = c\<lparr>io_keep_alive_seq := io_keep_alive_seq c + 1\<rparr>"
  obtain n where n: "GetNextKeepAliveSeqNo c = (n, c0)"
    by (simp add: GetNextKeepAliveSeqNo_def c0_def)
  have plain: "plain_channel_io serialize c0" using assms(1) by (simp add: plain_channel_io_def c0_def)
  have kept: "io_last_read c0 = Some t0" using assms(2) by (simp add: c0_def)
  obtain c1 where "channel_Write C (quiet_env now) (serialize (ForKeepAlive False n)) c0 = Some (kNoException, c1)"
    "plain_channel_io serialize c1" "io_last_read c1 = Some t0" "io_last_write c1 = Some now"
    using keep_alive_written [OF plain, where C = C and now = now and n = n] kept by auto
  then show ?thesis
    using True assms(2-6) n by (simp add: HandleKeepAlive_def keep_alive_wait_def quiet_env_def Let_def)
next
  case False
  then show ?thesis
    using assms by (simp add: HandleKeepAlive_def keep_alive_wait_def quiet_env_def Let_def min_def)
qed


section \<open>Notification of processors\<close>

lemma unregistered_and_registered:
  "length (filter (\<lambda>q. snd q = None) xs) + length (filter (\<lambda>q. snd q \<noteq> None) xs) = length xs"
  by (rule sum_length_filter_compl)

lemma barrier_counts_processors:
  "fst (NotifyFrameProcessorsOnEndpointDisconnect e reason s) =
     length (filter (\<lambda>q. snd q \<noteq> None) (dp_processors s))"
proof -
  have "fst (fold (\<lambda>(t, p) (barrier, s). case p of None \<Rightarrow> (barrier - 1, s)
      | Some q \<Rightarrow> (barrier, log_event (ProcessorNotified q e reason) s)) xs (n, u)) =
    n - length (filter (\<lambda>q. snd q = None) xs)" for xs :: "(FrameType \<times> nat option) list" and n u
  proof (induction xs arbitrary: n u)
    case (Cons a xs)
    then show ?case by (cases a; cases "snd a") simp_all
  qed simp
  from this [of "dp_processors s" "length (dp_processors s)" s] show ?thesis
    using unregistered_and_registered [of "dp_processors s"]
    by (simp add: NotifyFrameProcessorsOnEndpointDisconnect_def)
qed

section \<open>Witnesses\<close>

text \<open>A toy cipher, which puts a number in front that both sides count.\<close>

definition counting_cipher :: "byte cipher" where
  "counting_cipher =
     \<lparr>EncodeMessageToPeer = (\<lambda>k m. (Some (k # m), k + 1)),
      DecodeMessageFromPeer = (\<lambda>k d. case d of [] \<Rightarrow> (None, k)
        | x # m \<Rightarrow> if x = k then (Some m, k + 1) else (None, k))\<rparr>"

definition empty_io :: "bytes list \<Rightarrow> byte channel_io" where
  "empty_io = BaseEndpointChannel 100"

definition sample_reader :: "offline_frame \<Rightarrow> reader_env" where
  "sample_reader f = \<lparr>re_parse = (\<lambda>b. if b = [1] then Some f else None), re_decrypt = (\<lambda>_ _. Inl kFailed),
     re_elapsed = (\<lambda>n. 10 * int n), re_paused = False, re_write = (\<lambda>_. kNoException)\<rparr>"

definition sample_dispatcher :: "endpoint_channel \<Rightarrow> dispatcher" where
  "sample_dispatcher ch = \<lparr>dp_processors = [(PAYLOAD_TRANSFER, Some 3)], dp_client = connected_client,
     dp_channels = [(''ABCD'', empty_endpoint_data\<lparr>ep_channel := Some ch\<rparr>)], dp_log = []\<rparr>"

definition safe_client :: client_proxy where
  "safe_client = (SetRemoteSafeToDisconnectVersion ''ABCD'' 1 connected_client)\<lparr>supports_safe_to_disconnect := True\<rparr>"

lemma safe_client_enabled: "IsSafeToDisconnectEnabled ''ABCD'' safe_client"
  by code_simp

lemma counting_ciphers_match: "ciphers_match counting_cipher (=)"
  by (simp add: ciphers_match_def counting_cipher_def)

lemma sample_channel_at: "channel_at ''ABCD'' (sample_dispatcher ch) = Some ch"
  by (simp add: sample_dispatcher_def GetChannelForEndpoint_def LookupEndpointData_def)

theorem channel_delivers_witness:
  "\<exists>r1. read_all counting_cipher (\<lambda>_. None) 0 2 (EnableEncryption 5 (empty_io [[0, 0], [0, 3, 5, 1, 2, 0, 0, 0], [2, 6, 3, 9]])) =
     ([Inr [1, 2], Inr [3]], r1) \<and> concat (io_in r1) = [9]"
proof -
  let ?w = "EnableEncryption 5 (empty_io [])"
  let ?r = "EnableEncryption 5 (empty_io [[0, 0], [0, 3, 5, 1, 2, 0, 0, 0], [2, 6, 3, 9]])"
  define w1 where "w1 = ?w\<lparr>io_crypto := Some 7, io_out := [0, 0, 0, 3, 5, 1, 2, 0, 0, 0, 2, 6, 3], io_last_write := Some 0\<rparr>"
  have c: "crypto_match (=) (io_crypto ?w) (io_crypto ?r)"
    by (simp add: EnableEncryption_def crypto_match_def)
  have w1: "write_all counting_cipher (quiet_env 0) [[1, 2], [3]] ?w = Some w1"
    unfolding w1_def by code_simp
  have "concat (io_in ?r) = drop (length (io_out ?w)) (io_out w1) @ [9]"
    by (simp add: EnableEncryption_def empty_io_def BaseEndpointChannel_def w1_def)
  from channel_delivers [OF counting_ciphers_match c w1 _ _ _ _ this, where parse = "\<lambda>_. None" and now = 0]
  show ?thesis
    by (simp add: EnableEncryption_def empty_io_def BaseEndpointChannel_def GetMaxAllowedReadBytes_def numeral_2_eq_2)
qed

theorem encrypted_read_authentic_witness:
  "\<exists>b. fst (read_packet (EnableEncryption 5 (empty_io [[0, 0, 0, 2, 5, 7]]))) = Inr b \<and>
     fst (DecodeMessageFromPeer counting_cipher 5 b) = Some [7]"
proof -
  have "channel_Read counting_cipher (\<lambda>_. None) 0 (EnableEncryption 5 (empty_io [[0, 0, 0, 2, 5, 7]])) =
      (Inr [7], (empty_io [])\<lparr>io_crypto := Some 6, io_last_read := Some 0\<rparr>)"
    by code_simp
  from encrypted_read_authentic [OF this, of 5] show ?thesis by (simp add: EnableEncryption_def)
qed

theorem oversized_messages_refused_witness:
  "\<exists>c1. channel_Read counting_cipher (\<lambda>_. None) 0 (empty_io [[0, 0, 0, 101, 5, 7]]) = (Inl kIo, c1) \<and>
     concat (io_in c1) = [5, 7]"
  using oversized_messages_refused [where c = "empty_io [[0, 0, 0, 101, 5, 7]]" and n = 101 and rest = "[5, 7]"
      and parse = "\<lambda>_. None" and now = 0 and C = counting_cipher]
  by (simp add: empty_io_def BaseEndpointChannel_def GetMaxAllowedReadBytes_def stream_of_def be32_def)

theorem unregistered_type_stays_deaf_witness:
  "GetFrameProcessor PAYLOAD_TRANSFER (RegisterFrameProcessor PAYLOAD_TRANSFER 4
     (UnregisterFrameProcessor PAYLOAD_TRANSFER (Some 3) (sample_dispatcher (plain_channel 1 BLE)))) = None"
  using unregistered_type_stays_deaf [where ops = "[Register PAYLOAD_TRANSFER 4]" and t = PAYLOAD_TRANSFER and p = 3
      and s = "sample_dispatcher (plain_channel 1 BLE)"]
  by (simp add: sample_dispatcher_def GetFrameProcessor_def)


theorem reader_ends_witness:
  "\<exists>u. reader_runnable (sample_reader (ForPayloadAckPayloadTransfer 7)) (\<lambda>_. [Inr [1], Inl kIo]) (\<lambda>_ s. s) ''ABCD''
      (sample_dispatcher (plain_channel 1 BLE)) = Some u \<and> last (dp_log u) = DiscardPosted ''ABCD'' IO_ERROR"
proof (rule reader_ends [where N = 0])
  show "settles_down (\<lambda>_ s. s) ''ABCD'' 0" by (simp add: settles_down_def)
  show "known_medium ''ABCD'' (sample_dispatcher (plain_channel 1 BLE))"
    by (simp add: known_medium_def sample_channel_at plain_channel_def)
qed (simp_all add: good_reads_def sample_reader_def)

theorem colon_in_name_disconnects_witness:
  "let ip = \<lparr>ip_payload = (bytes_payload 7 [1])\<lparr>payload_file_name := ''a:b''\<rparr>, ip_id = 7,
       ip_kind = IncomingFileInternalPayload 0 0 5\<rparr>;
     env = sample_reader (written_frame (DataFrame (CreatePayloadHeader ip 0) (CreatePayloadChunk 0 [1] 0)));
     s = sample_dispatcher ((plain_channel 1 BLE)\<lparr>channel_encrypted := True\<rparr>) in
   \<exists>u. reader_runnable env (\<lambda>_. [Inr [1]]) (\<lambda>_ s. s) ''ABCD'' s = Some u \<and> dp_log u = [DiscardPosted ''ABCD'' IO_ERROR]"
  using colon_in_name_disconnects [where ip = "\<lparr>ip_payload = (bytes_payload 7 [1])\<lparr>payload_file_name := ''a:b''\<rparr>, ip_id = 7,
       ip_kind = IncomingFileInternalPayload 0 0 5\<rparr>" and body = "[1]" and b = "[1]" and reads = "\<lambda>_. [Inr [1]]" and rest = "[]"
      and others = "\<lambda>_ s. s" and e = "''ABCD''" and ch = "(plain_channel 1 BLE)\<lparr>channel_encrypted := True\<rparr>"
      and s = "sample_dispatcher ((plain_channel 1 BLE)\<lparr>channel_encrypted := True\<rparr>)"]
  by (simp add: sample_channel_at sample_reader_def Let_def) (simp add: sample_dispatcher_def)

theorem returning_medium_discards_witness:
  "EndpointChannelLoopRunnable
     (\<lambda>n ch s. if n = 0 then (Some kIo, s) else (Some kNoException, s))
     (\<lambda>n _. sample_dispatcher (if n = 1 then plain_channel 2 WIFI_LAN else plain_channel n BLE)) ''ABCD''
     (sample_dispatcher (plain_channel 0 BLE)) =
   Some (dispatcher_DiscardEndpoint ''ABCD'' IO_ERROR (sample_dispatcher (plain_channel 2 BLE)))"
proof -
  have m: "channel_medium (plain_channel i x) = x" for i x by (simp add: plain_channel_def)
  show ?thesis
    using returning_medium_discards [where ch = "plain_channel 0 BLE" and ?ch1.0 = "plain_channel 2 WIFI_LAN"
        and ?ch2.0 = "plain_channel 2 BLE" and e = "''ABCD''"
        and handler = "\<lambda>n ch s. if n = 0 then (Some kIo, s) else (Some kNoException, s)"
        and others = "\<lambda>n _. sample_dispatcher (if n = 1 then plain_channel 2 WIFI_LAN else plain_channel n BLE)"
        and ?t0.0 = "sample_dispatcher (plain_channel 0 BLE)" and ?t1.0 = "sample_dispatcher (plain_channel 2 WIFI_LAN)"
        and s = "sample_dispatcher (plain_channel 0 BLE)"]
    by (simp add: sample_channel_at m)
qed


theorem safe_disconnection_handshake_witness:
  "let s = (sample_dispatcher (plain_channel 1 BLE))\<lparr>dp_client := safe_client\<rparr>;
     env = sample_reader (ForDisconnection True True) in
   IsSafeToDisconnect ''ABCD'' (dp_channels (ProcessDisconnectionFrame env ''ABCD'' (plain_channel 1 BLE)
     (ForDisconnection True False) s)) \<and>
   IsSafeToDisconnect ''ABCD'' (dp_channels (ProcessDisconnectionFrame env ''ABCD'' (plain_channel 1 BLE)
     (ForDisconnection True True) s))"
proof -
  let ?s = "(sample_dispatcher (plain_channel 1 BLE))\<lparr>dp_client := safe_client\<rparr>"
  let ?env = "sample_reader (ForDisconnection True True)"
  have c: "IsSafeToDisconnectEnabled ''ABCD'' (dp_client ?s)"
    by (simp add: safe_client_enabled)
  have d: "LookupEndpointData ''ABCD'' (dp_channels ?s) =
      Some (empty_endpoint_data\<lparr>ep_channel := Some (plain_channel 1 BLE)\<rparr>)"
    by (simp add: sample_dispatcher_def LookupEndpointData_def)
  have w: "re_write ?env (ForDisconnection True True) = kNoException" by (simp add: sample_reader_def)
  from safe_disconnection_handshake [OF c d w c d, of "plain_channel 1 BLE" ?env "plain_channel 1 BLE"]
  show ?thesis by (simp only: Let_def simp_thms)
qed

end
