(* ===== verification/Bwu_Manager.thy ===== *)
theory Bwu_Manager
  imports Frame_Dispatch "HOL-Library.AList"
begin

text \<open>
  The bandwidth upgrade (connections/implementation/bwu_manager.cc, base_bwu_handler.cc,
  service_id_constants.h): moving an endpoint to a better medium while frames are under way.

  The manager's operations are tasks of one thread; the queue of that thread is \<open>bw_tasks\<close>.  What is
  done to channels and to the handlers of the mediums is the list \<open>bw_log\<close>.  The handlers themselves, which
  call the radios, are arguments: the frame a medium is announced with, and the channel a connection to an
  announced medium gives.  Analytics are left out.
\<close>

section \<open>Service ids\<close>

definition kUnknownServiceId :: string where "kUnknownServiceId = ''UNKNOWN_SERVICE''"

definition kInitiatorUpgradeServiceIdPostfix :: string where
  "kInitiatorUpgradeServiceIdPostfix = ''_UPGRADE''"

definition IsInitiatorUpgradeServiceId :: "string \<Rightarrow> bool" where
  "IsInitiatorUpgradeServiceId s \<longleftrightarrow>
     s \<noteq> [] \<and> length s \<ge> length kInitiatorUpgradeServiceIdPostfix \<and>
     drop (length s - length kInitiatorUpgradeServiceIdPostfix) s = kInitiatorUpgradeServiceIdPostfix"

definition WrapInitiatorUpgradeServiceId :: "string \<Rightarrow> string" where
  "WrapInitiatorUpgradeServiceId s =
     (if s = [] \<or> IsInitiatorUpgradeServiceId s then s else s @ kInitiatorUpgradeServiceIdPostfix)"

section \<open>State\<close>

datatype bwu_event =
    BwWritten nat offline_frame
  | BwPaused nat
  | BwResumed nat
  | BwClosed nat "DisconnectionReason option"
  | BwDecrypted nat
  | BwRead nat
  | SocketClosed
  | HandlerReverted Medium string
  | HandlerDisconnected Medium string
  | BwBarrier string

text \<open>The tasks of the manager's thread.  \<open>BwIncoming\<close> has the channel of an accepted socket.\<close>

datatype bwu_task =
    BwInitiate string Medium
  | BwFrame string upgrade_negotiation
  | BwIncoming "endpoint_channel option"
  | BwDisconnect string string
  | BwRetry string

record bwu_manager =
  bw_handlers :: "Medium list"
  bw_active :: "((Medium \<times> string) \<times> string list) list"
  bw_medium :: Medium
  bw_mediums :: "(string \<times> Medium) list"
  bw_previous :: "(string \<times> endpoint_channel option) list"
  bw_upgraded :: "string list"
  bw_in_progress :: "string list"
  bw_alarms :: "(string \<times> int) list"
  bw_delays :: "(string \<times> int) list"
  bw_tasks :: "bwu_task list"
  bw_client :: client_proxy
  bw_channels :: channel_map
  bw_log :: "bwu_event list"
  bw_crashed :: bool

text \<open>
  \<open>be_initialize\<close> is the frame a handler announces its medium with, when it can set it up;
  \<open>be_connect\<close> the channel a handler gets from an announced medium; \<open>be_read\<close> what reading a frame from a
  new channel gives.  A write may depend on all that was done before.  Durations are milliseconds.
\<close>

record bwu_env =
  be_available :: "Medium \<Rightarrow> bool"
  be_initialize :: "Medium \<Rightarrow> string \<Rightarrow> string \<Rightarrow> offline_frame option"
  be_connect :: "Medium \<Rightarrow> string \<Rightarrow> string \<Rightarrow> upgrade_path_info \<Rightarrow> endpoint_channel option"
  be_service_id :: "nat \<Rightarrow> string"
  be_write :: "bwu_event list \<Rightarrow> nat \<Rightarrow> offline_frame \<Rightarrow> bool"
  be_read :: "nat \<Rightarrow> exception_value + offline_frame"
  be_hotspot_host :: "nat \<Rightarrow> bool"
  be_multiple_mediums :: bool
  be_exp_backoff :: bool
  be_role_switch :: bool
  be_apple :: bool
  be_windows :: bool
  be_non_cellular :: bool
  be_using_cellular :: bool
  be_retry_delay :: int
  be_retry_max_delay :: int

definition bw_event :: "bwu_event \<Rightarrow> bwu_manager \<Rightarrow> bwu_manager" where
  "bw_event ev s = s\<lparr>bw_log := bw_log s @ [ev]\<rparr>"

definition write_on :: "bwu_env \<Rightarrow> endpoint_channel \<Rightarrow> offline_frame \<Rightarrow> bwu_manager \<Rightarrow> bool \<times> bwu_manager" where
  "write_on env c f s =
     (if be_write env (bw_log s) (channel_id c) f then (True, bw_event (BwWritten (channel_id c) f) s)
      else (False, s))"

definition close_on :: "endpoint_channel \<Rightarrow> DisconnectionReason option \<Rightarrow> bwu_manager \<Rightarrow> bwu_manager" where
  "close_on c reason = bw_event (BwClosed (channel_id c) reason)"

definition bw_channel :: "string \<Rightarrow> bwu_manager \<Rightarrow> endpoint_channel option" where
  "bw_channel e s = GetChannelForEndpoint e (bw_channels s)"

definition RunOnBwuManagerThread :: "bwu_task \<Rightarrow> bwu_manager \<Rightarrow> bwu_manager" where
  "RunOnBwuManagerThread t s = s\<lparr>bw_tasks := bw_tasks s @ [t]\<rparr>"

section \<open>Construction\<close>

text \<open>When everything is off in the configuration, the defaults apply.\<close>

definition default_upgrades :: "bool \<Rightarrow> medium_selector \<Rightarrow> medium_selector" where
  "default_upgrades with_awdl m =
     (if \<not> sel_bluetooth m \<and> \<not> sel_ble m \<and> (\<not> sel_web_rtc m \<or> \<not> sel_web_rtc_no_cellular m) \<and>
         \<not> sel_awdl m \<and> \<not> sel_wifi_lan m \<and> \<not> sel_wifi_hotspot m \<and> \<not> sel_wifi_direct m
      then m\<lparr>sel_web_rtc := True, sel_wifi_direct := True, sel_wifi_lan := True, sel_wifi_hotspot := True,
             sel_awdl := sel_awdl m \<or> with_awdl\<rparr>
      else m)"

definition InitBwuHandlers :: "medium_selector \<Rightarrow> Medium list" where
  "InitBwuHandlers m =
     (if sel_awdl m then [AWDL] else []) @ (if sel_wifi_hotspot m then [WIFI_HOTSPOT] else []) @
     (if sel_wifi_direct m then [WIFI_DIRECT] else []) @ (if sel_wifi_lan m then [WIFI_LAN] else []) @
     (if sel_web_rtc m then [WEB_RTC] else []) @ (if sel_bluetooth m then [BLUETOOTH] else [])"

definition default_retry_delay :: "bool \<Rightarrow> int \<Rightarrow> int" where
  "default_retry_delay exp_backoff d = (if d = 0 then if exp_backoff then 3000 else 5000 else d)"

definition default_retry_max_delay :: "bool \<Rightarrow> int \<Rightarrow> int" where
  "default_retry_max_delay exp_backoff d = (if d = 0 then if exp_backoff then 300000 else 10000 else d)"

definition BwuManager_new :: "bool \<Rightarrow> medium_selector \<Rightarrow> client_proxy \<Rightarrow> channel_map \<Rightarrow> bwu_manager" where
  "BwuManager_new with_awdl allowed client channels =
     \<lparr>bw_handlers = InitBwuHandlers (default_upgrades with_awdl allowed), bw_active = [],
      bw_medium = UNKNOWN_MEDIUM, bw_mediums = [], bw_previous = [], bw_upgraded = [],
      bw_in_progress = [], bw_alarms = [], bw_delays = [], bw_tasks = [], bw_client = client,
      bw_channels = channels, bw_log = [], bw_crashed = False\<rparr>"

section \<open>Handlers\<close>

text \<open>
  \<open>BaseBwuHandler\<close> counts the endpoints for which it has set up its medium under a service id;
  \<open>bw_active\<close> has the counts of all handlers.
\<close>

definition active_endpoints :: "Medium \<Rightarrow> string \<Rightarrow> bwu_manager \<Rightarrow> string list" where
  "active_endpoints m svc s = (case map_of (bw_active s) (m, svc) of Some es \<Rightarrow> es | None \<Rightarrow> [])"

definition InitializeUpgradedMediumForEndpoint ::
  "bwu_env \<Rightarrow> Medium \<Rightarrow> string \<Rightarrow> string \<Rightarrow> bwu_manager \<Rightarrow> offline_frame option \<times> bwu_manager" where
  "InitializeUpgradedMediumForEndpoint env m service_id e s =
     (let svc = WrapInitiatorUpgradeServiceId service_id in
      case be_initialize env m svc e of
        None \<Rightarrow> (None, s)
      | Some f \<Rightarrow>
          (Some f, s\<lparr>bw_active := AList.update (m, svc) (List.insert e (active_endpoints m svc s)) (bw_active s)\<rparr>))"

definition RevertInitiatorState :: "Medium \<Rightarrow> bwu_manager \<Rightarrow> bwu_manager" where
  "RevertInitiatorState m s =
     s\<lparr>bw_log := bw_log s @ map (\<lambda>((m, svc), _). HandlerReverted m svc) (filter (\<lambda>((k, _), _). k = m) (bw_active s)),
       bw_active := filter (\<lambda>((k, _), _). k \<noteq> m) (bw_active s)\<rparr>"

definition RevertInitiatorState_endpoint :: "Medium \<Rightarrow> string \<Rightarrow> string \<Rightarrow> bwu_manager \<Rightarrow> bwu_manager" where
  "RevertInitiatorState_endpoint m svc e s =
     (if \<not> IsInitiatorUpgradeServiceId svc \<or> active_endpoints m svc s = [] then s
      else
        let rest = removeAll e (active_endpoints m svc s) in
        if rest = [] then bw_event (HandlerReverted m svc) (s\<lparr>bw_active := AList.delete (m, svc) (bw_active s)\<rparr>)
        else s\<lparr>bw_active := AList.update (m, svc) rest (bw_active s)\<rparr>)"

definition RevertResponderState :: "Medium \<Rightarrow> string \<Rightarrow> bwu_manager \<Rightarrow> bwu_manager" where
  "RevertResponderState m svc = bw_event (HandlerReverted m svc)"

definition GetBwuMediumForEndpoint :: "bwu_env \<Rightarrow> string \<Rightarrow> bwu_manager \<Rightarrow> Medium" where
  "GetBwuMediumForEndpoint env e s =
     (if \<not> be_multiple_mediums env then bw_medium s
      else case map_of (bw_mediums s) e of None \<Rightarrow> UNKNOWN_MEDIUM | Some m \<Rightarrow> m)"

definition SetBwuMediumForEndpoint :: "bwu_env \<Rightarrow> string \<Rightarrow> Medium \<Rightarrow> bwu_manager \<Rightarrow> bwu_manager" where
  "SetBwuMediumForEndpoint env e m s =
     (if \<not> be_multiple_mediums env then s\<lparr>bw_medium := m\<rparr>
      else s\<lparr>bw_mediums := AList.update e m (bw_mediums s)\<rparr>)"

definition GetHandlerForMedium :: "Medium \<Rightarrow> bwu_manager \<Rightarrow> Medium option" where
  "GetHandlerForMedium m s =
     (if m = UNKNOWN_MEDIUM then None else if m \<in> set (bw_handlers s) then Some m else None)"

definition RevertBwuMediumForEndpoint :: "bwu_env \<Rightarrow> string \<Rightarrow> string \<Rightarrow> bwu_manager \<Rightarrow> bwu_manager" where
  "RevertBwuMediumForEndpoint env svc e s =
     (let m = GetBwuMediumForEndpoint env e s in
      if \<not> be_multiple_mediums env
      then case GetHandlerForMedium m s of
             None \<Rightarrow> s\<lparr>bw_medium := UNKNOWN_MEDIUM\<rparr>
           | Some h \<Rightarrow> RevertInitiatorState h (s\<lparr>bw_medium := UNKNOWN_MEDIUM\<rparr>)
      else
        let s1 = s\<lparr>bw_mediums := AList.delete e (bw_mediums s)\<rparr> in
        case GetHandlerForMedium m s1 of
          None \<Rightarrow> s1
        | Some h \<Rightarrow>
            if \<not> IsInitiatorUpgradeServiceId svc
            then if m = WIFI_HOTSPOT \<or> m = WIFI_DIRECT then RevertResponderState h svc s1 else s1
            else RevertInitiatorState_endpoint h svc e s1)"

section \<open>Choosing a medium\<close>

definition medium_can_upgrade :: "Medium \<Rightarrow> bool" where
  "medium_can_upgrade m \<longleftrightarrow> m \<in> {AWDL, WIFI_LAN, WIFI_DIRECT, WIFI_HOTSPOT, WEB_RTC, BLUETOOTH}"

definition StripOutUnavailableMediums :: "bwu_env \<Rightarrow> Medium list \<Rightarrow> bwu_manager \<Rightarrow> Medium list" where
  "StripOutUnavailableMediums env ms s =
     filter (\<lambda>m. GetHandlerForMedium m s \<noteq> None \<and> medium_can_upgrade m \<and> be_available env m) ms"

definition ChooseBestUpgradeMedium :: "bwu_env \<Rightarrow> string \<Rightarrow> Medium list \<Rightarrow> bwu_manager \<Rightarrow> Medium" where
  "ChooseBestUpgradeMedium env e ms s =
     (let available = StripOutUnavailableMediums env ms s; current = GetBwuMediumForEndpoint env e s in
      if current = UNKNOWN_MEDIUM then (if available \<noteq> [] then hd available else UNKNOWN_MEDIUM)
      else if current \<in> set available then current else UNKNOWN_MEDIUM)"

definition Bwu_InitiateBwuForEndpoint :: "bwu_env \<Rightarrow> string \<Rightarrow> Medium \<Rightarrow> bwu_manager \<Rightarrow> bwu_manager" where
  "Bwu_InitiateBwuForEndpoint env e new_medium s =
     RunOnBwuManagerThread (BwInitiate e
       (if new_medium = UNKNOWN_MEDIUM
        then ChooseBestUpgradeMedium env e (GetUpgradeMediums e (bw_client s)) s else new_medium)) s"

definition NeedToSwitchRole :: "bwu_env \<Rightarrow> Medium \<Rightarrow> nat \<Rightarrow> bool" where
  "NeedToSwitchRole env m role \<longleftrightarrow> be_apple env \<and> m = WIFI_HOTSPOT \<and> be_hotspot_host env role"

section \<open>Retries\<close>

definition CalculateNextRetryDelay :: "bwu_env \<Rightarrow> string \<Rightarrow> bwu_manager \<Rightarrow> int" where
  "CalculateNextRetryDelay env e s =
     (case map_of (bw_delays s) e of
        None \<Rightarrow> be_retry_delay env
      | Some d \<Rightarrow>
          min (if be_exp_backoff env then d * 2 else d + be_retry_delay env) (be_retry_max_delay env))"

definition CancelRetryUpgradeAlarm :: "string \<Rightarrow> bwu_manager \<Rightarrow> bwu_manager" where
  "CancelRetryUpgradeAlarm e s = s\<lparr>bw_alarms := AList.delete e (bw_alarms s)\<rparr>"

definition CancelAllRetryUpgradeAlarms :: "bwu_manager \<Rightarrow> bwu_manager" where
  "CancelAllRetryUpgradeAlarms s = s\<lparr>bw_alarms := [], bw_delays := []\<rparr>"

definition RetryUpgradesAfterDelay :: "bwu_env \<Rightarrow> string \<Rightarrow> bwu_manager \<Rightarrow> bwu_manager" where
  "RetryUpgradesAfterDelay env e s =
     (let delay = CalculateNextRetryDelay env e s; s1 = CancelRetryUpgradeAlarm e s in
      s1\<lparr>bw_alarms := AList.update e delay (bw_alarms s1), bw_delays := AList.update e delay (bw_delays s1)\<rparr>)"

text \<open>The alarm goes off: its entry stays, and its task is posted.\<close>

definition retry_alarm_fires :: "string \<Rightarrow> bwu_manager \<Rightarrow> bwu_manager" where
  "retry_alarm_fires e s =
     (if map_of (bw_alarms s) e = None then s else RunOnBwuManagerThread (BwRetry e) s)"

definition TryNextBestUpgradeMediums :: "bwu_env \<Rightarrow> string \<Rightarrow> Medium list \<Rightarrow> bwu_manager \<Rightarrow> bwu_manager" where
  "TryNextBestUpgradeMediums env e ms s =
     (let next_medium = ChooseBestUpgradeMedium env e ms s;
          current_medium = (case bw_channel e s of Some c \<Rightarrow> channel_medium c | None \<Rightarrow> UNKNOWN_MEDIUM) in
      if current_medium \<noteq> WIFI_LAN \<and>
         (next_medium = current_medium \<or> next_medium = UNKNOWN_MEDIUM \<or> ms = [])
      then RetryUpgradesAfterDelay env e s
      else if GetHandlerForMedium next_medium s = None then s
      else Bwu_InitiateBwuForEndpoint env e next_medium (SetBwuMediumForEndpoint env e next_medium s))"

text \<open>The mediums that follow the one that was tried last.\<close>

fun untried_mediums :: "Medium \<Rightarrow> Medium list \<Rightarrow> Medium list" where
  "untried_mediums tried [] = []"
| "untried_mediums tried (m # ms) = (if m = tried then ms else untried_mediums tried ms)"

definition path_medium :: "upgrade_path_info \<Rightarrow> Medium" where
  "path_medium info =
     UpgradePathInfoMediumToMedium (case up_medium info of Some m \<Rightarrow> m | None \<Rightarrow> Upgrade_UNKNOWN_MEDIUM)"

definition ProcessUpgradeFailureEvent :: "bwu_env \<Rightarrow> string \<Rightarrow> upgrade_path_info \<Rightarrow> bwu_manager \<Rightarrow> bwu_manager" where
  "ProcessUpgradeFailureEvent env e info s =
     (let s1 = s\<lparr>bw_in_progress := removeAll e (bw_in_progress s)\<rparr> in
      if \<not> be_multiple_mediums env \<and> GetConnectedEndpointsCount (bw_channels s1) > 1 then s1
      else
        let svc = (case bw_channel e s1 of Some c \<Rightarrow> be_service_id env (channel_id c) | None \<Rightarrow> kUnknownServiceId);
            s2 = (if GetBwuMediumForEndpoint env e s1 \<noteq> UNKNOWN_MEDIUM
                  then RevertBwuMediumForEndpoint env (WrapInitiatorUpgradeServiceId svc) e s1 else s1)
        in TryNextBestUpgradeMediums env e
             (untried_mediums (path_medium info) (GetUpgradeMediums e (bw_client s2))) s2)"

section \<open>Starting an upgrade\<close>

definition failed_path :: "Medium \<Rightarrow> upgrade_path_info" where
  "failed_path m = empty_path_info\<lparr>up_medium := Some (MediumToUpgradePathInfoMedium m)\<rparr>"

text \<open>The part of the task that sets up the medium and announces it.\<close>

definition announce_path ::
  "bwu_env \<Rightarrow> string \<Rightarrow> Medium \<Rightarrow> endpoint_channel \<Rightarrow> bwu_manager \<Rightarrow> bwu_manager" where
  "announce_path env e m c s =
     (case InitializeUpgradedMediumForEndpoint env m (be_service_id env (channel_id c)) e s of
        (None, s1) \<Rightarrow> ProcessUpgradeFailureEvent env e (failed_path m) s1
      | (Some f, s1) \<Rightarrow>
          (case write_on env c f s1 of
             (False, s2) \<Rightarrow> ProcessUpgradeFailureEvent env e (failed_path m) s2
           | (True, s2) \<Rightarrow> s2\<lparr>bw_in_progress := List.insert e (bw_in_progress s2)\<rparr>))"

definition run_bwu_init :: "bwu_env \<Rightarrow> string \<Rightarrow> Medium \<Rightarrow> bwu_manager \<Rightarrow> bwu_manager" where
  "run_bwu_init env e m s =
     (if isWifiLanConnected (bw_channels s) \<and> m = WIFI_HOTSPOT then s
      else
        let s1 = SetBwuMediumForEndpoint env e m s in
        if GetHandlerForMedium m s1 = None \<or> e \<in> set (bw_in_progress s1) then s1
        else
          let s2 = CancelRetryUpgradeAlarm e s1 in
          if m = (case bw_channel e s2 of Some c \<Rightarrow> channel_medium c | None \<Rightarrow> UNKNOWN_MEDIUM) then s2
          else case bw_channel e s2 of
                 None \<Rightarrow> s2
               | Some c \<Rightarrow>
                   (case GetMediumRole e (bw_client s2) of
                      Some role \<Rightarrow>
                        if be_role_switch env \<and> NeedToSwitchRole env m role
                        then snd (write_on env c (ForBwuPathRequest (GetUpgradeMediums e (bw_client s2)) role) s2)
                        else announce_path env e m c s2
                    | None \<Rightarrow> announce_path env e m c s2))"

section \<open>The handover\<close>

definition previous_channel :: "string \<Rightarrow> bwu_manager \<Rightarrow> endpoint_channel option" where
  "previous_channel e s = Option.bind (map_of (bw_previous s) e) (\<lambda>c. c)"

text \<open>
  \<open>previous_endpoint_channels_[endpoint_id]\<close> makes an entry with a null pointer when there is none.
\<close>

definition ProcessLastWriteToPriorChannelEvent :: "bwu_env \<Rightarrow> string \<Rightarrow> bwu_manager \<Rightarrow> bwu_manager" where
  "ProcessLastWriteToPriorChannelEvent env e s =
     (case previous_channel e s of
        None \<Rightarrow>
          s\<lparr>bw_previous := (if map_of (bw_previous s) e = None then AList.update e None (bw_previous s)
                            else bw_previous s),
            bw_upgraded := List.insert e (bw_upgraded s)\<rparr>
      | Some c \<Rightarrow>
          (case write_on env c ForBwuSafeToClose s of
             (True, s1) \<Rightarrow> s1
           | (False, s1) \<Rightarrow>
               (close_on c (Some IO_ERROR) s1)\<lparr>bw_previous := AList.delete e (bw_previous s1)\<rparr>))"

text \<open>
  \<open>extract\<close> on an absent key gives an empty node handle, whose \<open>mapped()\<close> is not defined.
\<close>

definition ProcessSafeToClosePriorChannelEvent :: "bwu_env \<Rightarrow> string \<Rightarrow> bwu_manager \<Rightarrow> bwu_manager" where
  "ProcessSafeToClosePriorChannelEvent env e s =
     (let s1 = s\<lparr>bw_previous := AList.delete e (bw_previous s)\<rparr> in
      case map_of (bw_previous s) e of
        None \<Rightarrow> s1\<lparr>bw_crashed := True\<rparr>
      | Some None \<Rightarrow> s1
      | Some (Some c) \<Rightarrow>
          let s2 = bw_event (BwDecrypted (channel_id c)) s1;
              s3 = snd (write_on env c (ForDisconnection False False) s2);
              s4 = close_on c (Some UPGRADED) (bw_event (BwRead (channel_id c)) s3) in
          case bw_channel e s4 of
            None \<Rightarrow> s4
          | Some ch \<Rightarrow>
              let m = (if be_non_cellular env \<and> channel_medium ch = WEB_RTC \<and> \<not> be_using_cellular env
                       then WEB_RTC_NON_CELLULAR else channel_medium ch);
                  s5 = bw_event (BwResumed (channel_id ch)) s4
              in s5\<lparr>bw_client := OnBandwidthChanged e m (bw_client s5),
                    bw_in_progress := removeAll e (bw_in_progress s5)\<rparr>)"

definition RunUpgradeProtocol ::
  "bwu_env \<Rightarrow> string \<Rightarrow> endpoint_channel \<Rightarrow> bool \<Rightarrow> bwu_manager \<Rightarrow> bwu_manager" where
  "RunUpgradeProtocol env e ch enable_encryption s =
     (let s1 = bw_event (BwPaused (channel_id ch)) s in
      case bw_channel e s1 of
        None \<Rightarrow> s1
      | Some old \<Rightarrow>
          let s2 = s1\<lparr>bw_channels := ReplaceChannelForEndpoint (IsSafeToDisconnectEnabled e (bw_client s1)) e ch
                        enable_encryption (bw_channels s1)\<rparr> in
          case write_on env old ForBwuLastWrite s2 of
            (False, s3) \<Rightarrow> s3
          | (True, s3) \<Rightarrow>
              let s4 = s3\<lparr>bw_previous := (if map_of (bw_previous s3) e = None
                            then AList.update e (Some old) (bw_previous s3) else bw_previous s3)\<rparr> in
              if e \<in> set (bw_upgraded s4)
              then ProcessLastWriteToPriorChannelEvent env e (s4\<lparr>bw_upgraded := removeAll e (bw_upgraded s4)\<rparr>)
              else s4)"

definition RunUpgradeFailedProtocol :: "bwu_env \<Rightarrow> string \<Rightarrow> upgrade_path_info \<Rightarrow> bwu_manager \<Rightarrow> bwu_manager" where
  "RunUpgradeFailedProtocol env e info s =
     (case bw_channel e s of
        None \<Rightarrow> s
      | Some c \<Rightarrow>
          (case write_on env c (ForBwuFailure info) s of
             (False, s1) \<Rightarrow> close_on c (Some IO_ERROR) s1
           | (True, s1) \<Rightarrow>
               let s2 = (if GetBwuMediumForEndpoint env e s1 \<noteq> UNKNOWN_MEDIUM
                         then RevertBwuMediumForEndpoint env (be_service_id env (channel_id c)) e s1 else s1)
               in s2\<lparr>bw_in_progress := removeAll e (bw_in_progress s2)\<rparr>))"

section \<open>The responder\<close>

definition read_negotiation :: "bwu_env \<Rightarrow> endpoint_channel \<Rightarrow> upgrade_event \<Rightarrow> upgrade_negotiation option" where
  "read_negotiation env c ev =
     (case be_read env (channel_id c) of
        Inl _ \<Rightarrow> None
      | Inr f \<Rightarrow>
          (case v1_message v1_bandwidth_upgrade_negotiation f of
             None \<Rightarrow> None
           | Some n \<Rightarrow> if bn_event_type n = Some ev then Some n else None))"

definition ReadClientIntroductionFrame :: "bwu_env \<Rightarrow> endpoint_channel \<Rightarrow> client_introduction option" where
  "ReadClientIntroductionFrame env c =
     map_option (\<lambda>n. case bn_client_introduction n of Some i \<Rightarrow> i
         | None \<Rightarrow> \<lparr>ci_endpoint_id = None, ci_supports_disabling_encryption = None, ci_last_endpoint_id = None\<rparr>)
       (read_negotiation env c CLIENT_INTRODUCTION)"

definition ReadClientIntroductionAckFrame :: "bwu_env \<Rightarrow> endpoint_channel \<Rightarrow> bool" where
  "ReadClientIntroductionAckFrame env c \<longleftrightarrow> read_negotiation env c CLIENT_INTRODUCTION_ACK \<noteq> None"

definition WriteClientIntroductionAckFrame ::
  "bwu_env \<Rightarrow> endpoint_channel \<Rightarrow> bwu_manager \<Rightarrow> bool \<times> bwu_manager" where
  "WriteClientIntroductionAckFrame env c = write_on env c ForBwuIntroductionAck"

definition path_flag :: "(upgrade_path_info \<Rightarrow> bool option) \<Rightarrow> upgrade_path_info \<Rightarrow> bool" where
  "path_flag f info = (case f info of Some b \<Rightarrow> b | None \<Rightarrow> False)"

definition ProcessBwuPathAvailableEventInternal ::
  "bwu_env \<Rightarrow> string \<Rightarrow> upgrade_path_info \<Rightarrow> bwu_manager \<Rightarrow> endpoint_channel option \<times> bwu_manager" where
  "ProcessBwuPathAvailableEventInternal env e info s =
     (let m = path_medium info in
      if m \<noteq> GetBwuMediumForEndpoint env e s then (None, s)
      else case GetHandlerForMedium m s of
             None \<Rightarrow> (None, s)
           | Some h \<Rightarrow>
               (case bw_channel e s of
                  None \<Rightarrow> (None, s)
                | Some old \<Rightarrow>
                    (case be_connect env h (be_service_id env (channel_id old)) e info of
                       None \<Rightarrow> (None, s)
                     | Some c \<Rightarrow>
                         (case write_on env c (ForBwuIntroduction (local_endpoint_id (bw_client s))
                                 (path_flag up_supports_disabling_encryption info)) s of
                            (False, s1) \<Rightarrow> (None, close_on c None s1)
                          | (True, s1) \<Rightarrow>
                              if path_flag up_supports_client_introduction_ack info \<and>
                                 \<not> ReadClientIntroductionAckFrame env c
                              then (None, close_on c None s1) else (Some c, s1)))))"

text \<open>Is the announcement one that this side, which accepted the connection, should not get?\<close>

definition abort_bwu :: "bwu_env \<Rightarrow> string \<Rightarrow> Medium \<Rightarrow> bwu_manager \<Rightarrow> bool" where
  "abort_bwu env e m s \<longleftrightarrow>
     IsIncomingConnection e (bw_client s) \<and>
     (\<not> be_role_switch env \<or>
      (case GetMediumRole e (bw_client s) of None \<Rightarrow> False | Some role \<Rightarrow> \<not> NeedToSwitchRole env m role))"

definition close_all_channels :: "string \<Rightarrow> bwu_manager \<Rightarrow> bwu_manager" where
  "close_all_channels e s =
     (let s1 = s\<lparr>bw_previous := AList.delete e (bw_previous s)\<rparr>;
          s2 = (case previous_channel e s of None \<Rightarrow> s1 | Some c \<Rightarrow> close_on c (Some UNFINISHED) s1)
      in case bw_channel e s2 of
           None \<Rightarrow> s2
         | Some c \<Rightarrow> close_on c (Some UNFINISHED) (bw_event (BwResumed (channel_id c)) s2))"

definition ProcessBwuPathAvailableEvent :: "bwu_env \<Rightarrow> string \<Rightarrow> upgrade_path_info \<Rightarrow> bwu_manager \<Rightarrow> bwu_manager" where
  "ProcessBwuPathAvailableEvent env e info s =
     (let m = path_medium info in
      if isWifiLanConnected (bw_channels s) \<and> (m = WIFI_HOTSPOT \<or> m = WIFI_DIRECT \<and> be_windows env)
      then RunUpgradeFailedProtocol env e info s
      else if abort_bwu env e m s then s
      else if e \<in> set (bw_in_progress s) then close_all_channels e s
      else
        let s1 = (if GetBwuMediumForEndpoint env e s = UNKNOWN_MEDIUM
                  then SetBwuMediumForEndpoint env e m s else s) in
        if m \<noteq> GetBwuMediumForEndpoint env e s1 then RunUpgradeFailedProtocol env e info s1
        else case ProcessBwuPathAvailableEventInternal env e info s1 of
               (None, s2) \<Rightarrow> RunUpgradeFailedProtocol env e info s2
             | (Some c, s2) \<Rightarrow>
                 RunUpgradeProtocol env e c (\<not> path_flag up_supports_disabling_encryption info)
                   (s2\<lparr>bw_in_progress := List.insert e (bw_in_progress s2)\<rparr>))"

section \<open>The initiator\<close>

definition introduction_endpoint :: "client_introduction \<Rightarrow> string" where
  "introduction_endpoint i = (case ci_endpoint_id i of Some e \<Rightarrow> e | None \<Rightarrow> [])"

definition run_bwu_incoming :: "bwu_env \<Rightarrow> endpoint_channel option \<Rightarrow> bwu_manager \<Rightarrow> bwu_manager" where
  "run_bwu_incoming env connection s =
     (case connection of
        None \<Rightarrow> bw_event SocketClosed s
      | Some c \<Rightarrow>
          (case ReadClientIntroductionFrame env c of
             None \<Rightarrow> close_on c None s
           | Some i \<Rightarrow>
               (case WriteClientIntroductionAckFrame env c s of
                  (False, s1) \<Rightarrow> close_on c None s1
                | (True, s1) \<Rightarrow>
                    let e = introduction_endpoint i in
                    if e \<notin> set (bw_in_progress s1) then s1
                    else RunUpgradeProtocol env e c
                           (\<not> (case ci_supports_disabling_encryption i of Some b \<Rightarrow> b | None \<Rightarrow> False))
                           (CancelRetryUpgradeAlarm e s1))))"

section \<open>Frames, disconnection, shutdown\<close>

definition negotiation_path :: "upgrade_negotiation \<Rightarrow> upgrade_path_info" where
  "negotiation_path n = (case bn_upgrade_path_info n of Some i \<Rightarrow> i | None \<Rightarrow> empty_path_info)"

definition OnBwuNegotiationFrame :: "bwu_env \<Rightarrow> string \<Rightarrow> upgrade_negotiation \<Rightarrow> bwu_manager \<Rightarrow> bwu_manager" where
  "OnBwuNegotiationFrame env e n s =
     (if \<not> IsConnectedToEndpoint e (bw_client s)
      then if bn_event_type n = Some UPGRADE_PATH_AVAILABLE
           then RunUpgradeFailedProtocol env e (negotiation_path n) s else s
      else case bn_event_type n of
             Some UPGRADE_PATH_AVAILABLE \<Rightarrow> ProcessBwuPathAvailableEvent env e (negotiation_path n) s
           | Some UPGRADE_FAILURE \<Rightarrow> ProcessUpgradeFailureEvent env e (negotiation_path n) s
           | Some LAST_WRITE_TO_PRIOR_CHANNEL \<Rightarrow> ProcessLastWriteToPriorChannelEvent env e s
           | Some SAFE_TO_CLOSE_PRIOR_CHANNEL \<Rightarrow> ProcessSafeToClosePriorChannelEvent env e s
           | _ \<Rightarrow> s)"

definition Bwu_OnIncomingFrame :: "string \<Rightarrow> offline_frame \<Rightarrow> bwu_manager \<Rightarrow> bwu_manager" where
  "Bwu_OnIncomingFrame e f s =
     (if GetFrameType f \<noteq> BANDWIDTH_UPGRADE_NEGOTIATION then s
      else RunOnBwuManagerThread (BwFrame e
             (case v1_message v1_bandwidth_upgrade_negotiation f of Some n \<Rightarrow> n
              | None \<Rightarrow> \<lparr>bn_event_type = None, bn_upgrade_path_info = None, bn_client_introduction = None\<rparr>)) s)"

definition run_bwu_disconnect :: "bwu_env \<Rightarrow> string \<Rightarrow> string \<Rightarrow> bwu_manager \<Rightarrow> bwu_manager" where
  "run_bwu_disconnect env svc e s =
     (let s1 = (case GetHandlerForMedium (GetBwuMediumForEndpoint env e s) s of
                  None \<Rightarrow> s | Some h \<Rightarrow> bw_event (HandlerDisconnected h e) s);
          s2 = s1\<lparr>bw_previous := AList.delete e (bw_previous s1)\<rparr>;
          s3 = (case previous_channel e s1 of None \<Rightarrow> s2 | Some c \<Rightarrow> close_on c (Some SHUTDOWN) s2);
          s4 = CancelRetryUpgradeAlarm e
                 (s3\<lparr>bw_in_progress := removeAll e (bw_in_progress s3), bw_delays := AList.delete e (bw_delays s3)\<rparr>);
          s5 = s4\<lparr>bw_upgraded := removeAll e (bw_upgraded s4)\<rparr>;
          s6 = (if be_multiple_mediums env \<or> GetConnectedEndpointsCount (bw_channels s5) \<le> 1
                then RevertBwuMediumForEndpoint env svc e s5 else s5)
      in bw_event (BwBarrier e) s6)"

definition Bwu_OnEndpointDisconnect :: "string \<Rightarrow> string \<Rightarrow> bwu_manager \<Rightarrow> bwu_manager" where
  "Bwu_OnEndpointDisconnect svc e = RunOnBwuManagerThread (BwDisconnect svc e)"

definition Bwu_OnIncomingConnection :: "endpoint_channel option \<Rightarrow> bwu_manager \<Rightarrow> bwu_manager" where
  "Bwu_OnIncomingConnection connection = RunOnBwuManagerThread (BwIncoming connection)"

definition IsUpgradeOngoing :: "string \<Rightarrow> bwu_manager \<Rightarrow> bool" where
  "IsUpgradeOngoing e s \<longleftrightarrow> e \<in> set (bw_in_progress s)"

fun run_bwu_task :: "bwu_env \<Rightarrow> bwu_task \<Rightarrow> bwu_manager \<Rightarrow> bwu_manager" where
  "run_bwu_task env (BwInitiate e m) s = run_bwu_init env e m s"
| "run_bwu_task env (BwFrame e n) s = OnBwuNegotiationFrame env e n s"
| "run_bwu_task env (BwIncoming c) s = run_bwu_incoming env c s"
| "run_bwu_task env (BwDisconnect svc e) s = run_bwu_disconnect env svc e s"
| "run_bwu_task env (BwRetry e) s =
     (if IsConnectedToEndpoint e (bw_client s)
      then TryNextBestUpgradeMediums env e (GetUpgradeMediums e (bw_client s)) s else s)"

definition run_next_bwu_task :: "bwu_env \<Rightarrow> bwu_manager \<Rightarrow> bwu_manager" where
  "run_next_bwu_task env s =
     (case bw_tasks s of [] \<Rightarrow> s | t # ts \<Rightarrow> run_bwu_task env t (s\<lparr>bw_tasks := ts\<rparr>))"

text \<open>
  The executors are shut down first; how many of the tasks that are still queued run then depends on the
  platform.
\<close>

definition ShutdownExecutors :: "bwu_env \<Rightarrow> nat \<Rightarrow> bwu_manager \<Rightarrow> bwu_manager" where
  "ShutdownExecutors env n s = ((run_next_bwu_task env ^^ n) s)\<lparr>bw_tasks := []\<rparr>"

definition Bwu_Shutdown :: "bwu_env \<Rightarrow> nat \<Rightarrow> bwu_manager \<Rightarrow> bwu_manager" where
  "Bwu_Shutdown env n s =
     (let s0 = ShutdownExecutors env n s;
          s1 = fold (\<lambda>(e, c) s. case c of None \<Rightarrow> s | Some c \<Rightarrow> close_on c (Some SHUTDOWN) s) (bw_previous s0) s0;
          s2 = (CancelAllRetryUpgradeAlarms s1)\<lparr>bw_medium := UNKNOWN_MEDIUM, bw_mediums := []\<rparr>;
          s3 = fold RevertInitiatorState (bw_handlers s2) s2
      in s3\<lparr>bw_handlers := []\<rparr>)"

end
