(* ===== verification/Bwu_Props.thy ===== *)
theory Bwu_Props
  imports Bwu_Manager Payload_Props
begin

text \<open>
  Properties of the bandwidth upgrade: the handover from the old channel to the new one, between two
  devices whose tasks, readers and senders interleave as they like; which medium is tried and
  when; and when a medium is taken down.
\<close>

section \<open>Two devices\<close>

text \<open>
  A side has its manager, how far its reader has come on both channels and whether it has left the old
  one, and the data frames its application has sent and was given.  What a channel carries is what the
  other side's log says was written on it.
\<close>

record upgrade_end =
  ue_env :: bwu_env
  ue_peer :: string
  ue_old :: endpoint_channel
  ue_new :: endpoint_channel

record upgrade_side =
  us_bwu :: bwu_manager
  us_read_old :: nat
  us_read_new :: nat
  us_left :: bool
  us_got :: "offline_frame list"
  us_sent :: "offline_frame list"

definition written :: "nat \<Rightarrow> bwu_event list \<Rightarrow> offline_frame list" where
  "written n l = concat (map (\<lambda>ev. case ev of BwWritten k f \<Rightarrow> if k = n then [f] else [] | _ \<Rightarrow> []) l)"

fun pause_step :: "nat \<Rightarrow> bwu_event \<Rightarrow> bool \<Rightarrow> bool" where
  "pause_step n (BwPaused k) b \<longleftrightarrow> k = n \<or> b"
| "pause_step n (BwResumed k) b \<longleftrightarrow> k \<noteq> n \<and> b"
| "pause_step n (BwClosed k r) b \<longleftrightarrow> k \<noteq> n \<and> b"
| "pause_step n _ b \<longleftrightarrow> b"

definition paused :: "nat \<Rightarrow> bwu_event list \<Rightarrow> bool" where
  "paused n l = fold (pause_step n) l False"

definition closed_in :: "nat \<Rightarrow> bwu_event list \<Rightarrow> bool" where
  "closed_in n l \<longleftrightarrow> list_ex (\<lambda>ev. case ev of BwClosed k _ \<Rightarrow> k = n | _ \<Rightarrow> False) l"

lemma log_simps [simp]:
  "written n (l @ m) = written n l @ written n m" "written n [] = []"
  "written n (BwWritten k f # l) = (if k = n then f # written n l else written n l)"
  "written n (BwPaused k # l) = written n l" "written n (BwResumed k # l) = written n l"
  "written n (BwClosed k r # l) = written n l" "written n (BwDecrypted k # l) = written n l"
  "written n (BwRead k # l) = written n l"
  "closed_in n (l @ m) \<longleftrightarrow> closed_in n l \<or> closed_in n m" "\<not> closed_in n []"
  "closed_in n (BwWritten k f # l) \<longleftrightarrow> closed_in n l" "closed_in n (BwPaused k # l) \<longleftrightarrow> closed_in n l"
  "closed_in n (BwResumed k # l) \<longleftrightarrow> closed_in n l" "closed_in n (BwClosed k r # l) \<longleftrightarrow> k = n \<or> closed_in n l"
  "closed_in n (BwDecrypted k # l) \<longleftrightarrow> closed_in n l" "closed_in n (BwRead k # l) \<longleftrightarrow> closed_in n l"
  "paused n (l @ m) = fold (pause_step n) m (paused n l)"
  by (simp_all add: written_def closed_in_def paused_def)

definition is_data :: "offline_frame \<Rightarrow> bool" where
  "is_data f \<longleftrightarrow> GetFrameType f \<notin> {BANDWIDTH_UPGRADE_NEGOTIATION, DISCONNECTION}"

text \<open>
  What is left for the reader on the new channel: the manager itself reads the introduction and its
  acknowledgement, the first frame on either side.
\<close>

definition for_reader :: "offline_frame list \<Rightarrow> offline_frame list" where
  "for_reader fs = tl fs"

definition next_frame :: "nat \<Rightarrow> 'a list \<Rightarrow> 'a option" where
  "next_frame i fs = (if i < length fs then Some (fs ! i) else None)"

definition reads_new :: "upgrade_end \<Rightarrow> upgrade_side \<Rightarrow> bool" where
  "reads_new E X \<longleftrightarrow> us_left X \<or> closed_in (channel_id (ue_old E)) (bw_log (us_bwu X))"

definition readable_frame :: "upgrade_end \<Rightarrow> upgrade_end \<Rightarrow> upgrade_side \<Rightarrow> upgrade_side \<Rightarrow> offline_frame option" where
  "readable_frame E F X Y =
     (if reads_new E X
      then next_frame (us_read_new X) (for_reader (written (channel_id (ue_new F)) (bw_log (us_bwu Y))))
      else next_frame (us_read_old X) (written (channel_id (ue_old F)) (bw_log (us_bwu Y))))"

definition take_frame :: "upgrade_end \<Rightarrow> offline_frame \<Rightarrow> upgrade_side \<Rightarrow> upgrade_side" where
  "take_frame E f X =
     (if GetFrameType f = DISCONNECTION then X\<lparr>us_left := True\<rparr>
      else if GetFrameType f = BANDWIDTH_UPGRADE_NEGOTIATION
      then X\<lparr>us_bwu := Bwu_OnIncomingFrame (ue_peer E) f (us_bwu X)\<rparr>
      else X\<lparr>us_got := us_got X @ [f]\<rparr>)"

definition read_step :: "upgrade_end \<Rightarrow> upgrade_end \<Rightarrow> upgrade_side \<Rightarrow> upgrade_side \<Rightarrow> upgrade_side" where
  "read_step E F Y X =
     (case readable_frame E F X Y of
        None \<Rightarrow> X
      | Some f \<Rightarrow>
          take_frame E f
            (if reads_new E X then X\<lparr>us_read_new := us_read_new X + 1\<rparr>
             else X\<lparr>us_read_old := us_read_old X + 1\<rparr>))"

text \<open>An application's frame goes to the endpoint's channel; on a paused channel the sender waits.\<close>

definition send_step :: "upgrade_end \<Rightarrow> offline_frame \<Rightarrow> upgrade_side \<Rightarrow> upgrade_side" where
  "send_step E f X =
     (case bw_channel (ue_peer E) (us_bwu X) of
        None \<Rightarrow> X
      | Some c \<Rightarrow>
          if is_data f \<and> \<not> paused (channel_id c) (bw_log (us_bwu X)) \<and> \<not> closed_in (channel_id c) (bw_log (us_bwu X))
          then X\<lparr>us_bwu := bw_event (BwWritten (channel_id c) f) (us_bwu X), us_sent := us_sent X @ [f]\<rparr>
          else X)"

definition task_step :: "upgrade_end \<Rightarrow> upgrade_side \<Rightarrow> upgrade_side" where
  "task_step E X = X\<lparr>us_bwu := run_next_bwu_task (ue_env E) (us_bwu X)\<rparr>"

datatype upgrade_step = FirstRuns | SecondRuns | FirstReads | SecondReads
  | FirstSends offline_frame | SecondSends offline_frame

fun upgrade_do ::
  "upgrade_end \<Rightarrow> upgrade_end \<Rightarrow> upgrade_step \<Rightarrow> upgrade_side \<times> upgrade_side \<Rightarrow> upgrade_side \<times> upgrade_side" where
  "upgrade_do E F FirstRuns (X, Y) = (task_step E X, Y)"
| "upgrade_do E F SecondRuns (X, Y) = (X, task_step F Y)"
| "upgrade_do E F FirstReads (X, Y) = (read_step E F Y X, Y)"
| "upgrade_do E F SecondReads (X, Y) = (X, read_step F E X Y)"
| "upgrade_do E F (FirstSends f) (X, Y) = (send_step E f X, Y)"
| "upgrade_do E F (SecondSends f) (X, Y) = (X, send_step F f Y)"

section \<open>The tasks that start a handover\<close>

text \<open>
  The initiator has an accepted socket on which the introduction of its peer arrived; the responder has
  the announcement of a medium it can connect to, and gets the acknowledgement of its introduction.
\<close>

definition responder_ready :: "bwu_env \<Rightarrow> string \<Rightarrow> endpoint_channel \<Rightarrow> upgrade_negotiation \<Rightarrow> bwu_manager \<Rightarrow> bool" where
  "responder_ready env e c n s \<longleftrightarrow>
     (let info = negotiation_path n; m = path_medium info in
      bn_event_type n = Some UPGRADE_PATH_AVAILABLE \<and> IsConnectedToEndpoint e (bw_client s) \<and>
      \<not> (isWifiLanConnected (bw_channels s) \<and> (m = WIFI_HOTSPOT \<or> m = WIFI_DIRECT \<and> be_windows env)) \<and>
      \<not> abort_bwu env e m s \<and> e \<notin> set (bw_in_progress s) \<and>
      GetBwuMediumForEndpoint env e s \<in> {UNKNOWN_MEDIUM, m} \<and> GetHandlerForMedium m s = Some m \<and>
      (\<exists>old. bw_channel e s = Some old \<and> be_connect env m (be_service_id env (channel_id old)) e info = Some c) \<and>
      ReadClientIntroductionAckFrame env c)"

fun starts :: "upgrade_end \<Rightarrow> bwu_task \<Rightarrow> bwu_manager \<Rightarrow> bool" where
  "starts E (BwIncoming (Some c)) s \<longleftrightarrow>
     c = ue_new E \<and> ue_peer E \<in> set (bw_in_progress s) \<and>
     (\<exists>i. ReadClientIntroductionFrame (ue_env E) c = Some i \<and> introduction_endpoint i = ue_peer E)"
| "starts E (BwFrame e n) s \<longleftrightarrow> e = ue_peer E \<and> responder_ready (ue_env E) e (ue_new E) n s"
| "starts E _ s \<longleftrightarrow> False"

text \<open>What the handover reads of the state.\<close>

definition same_core :: "bwu_manager \<Rightarrow> bwu_manager \<Rightarrow> bool" where
  "same_core s t \<longleftrightarrow> bw_previous t = bw_previous s \<and> bw_upgraded t = bw_upgraded s \<and> bw_tasks t = bw_tasks s \<and>
     bw_client t = bw_client s \<and> bw_channels t = bw_channels s \<and> bw_crashed t = bw_crashed s"

definition writes_succeed :: "upgrade_end \<Rightarrow> bool" where
  "writes_succeed E \<longleftrightarrow> (\<forall>l n f. be_write (ue_env E) l n f)"

lemma write_on_ok: "writes_succeed E \<Longrightarrow> write_on (ue_env E) c f s = (True, bw_event (BwWritten (channel_id c) f) s)"
  by (simp add: write_on_def writes_succeed_def)

lemma GetBwuMedium_Set [simp]: "GetBwuMediumForEndpoint env e (SetBwuMediumForEndpoint env e m s) = m"
  by (simp add: GetBwuMediumForEndpoint_def SetBwuMediumForEndpoint_def update_conv')

lemma SetBwuMedium_fields [simp]:
  "bw_handlers (SetBwuMediumForEndpoint env e m s) = bw_handlers s"
  "bw_previous (SetBwuMediumForEndpoint env e m s) = bw_previous s"
  "bw_upgraded (SetBwuMediumForEndpoint env e m s) = bw_upgraded s"
  "bw_in_progress (SetBwuMediumForEndpoint env e m s) = bw_in_progress s"
  "bw_tasks (SetBwuMediumForEndpoint env e m s) = bw_tasks s"
  "bw_client (SetBwuMediumForEndpoint env e m s) = bw_client s"
  "bw_channels (SetBwuMediumForEndpoint env e m s) = bw_channels s"
  "bw_log (SetBwuMediumForEndpoint env e m s) = bw_log s"
  "bw_crashed (SetBwuMediumForEndpoint env e m s) = bw_crashed s"
  "bw_channel k (SetBwuMediumForEndpoint env e m s) = bw_channel k s"
  "GetHandlerForMedium h (SetBwuMediumForEndpoint env e m s) = GetHandlerForMedium h s"
  by (simp_all add: SetBwuMediumForEndpoint_def bw_channel_def GetHandlerForMedium_def)

lemma bw_event_fields [simp]:
  "bw_log (bw_event ev s) = bw_log s @ [ev]" "bw_handlers (bw_event ev s) = bw_handlers s"
  "bw_active (bw_event ev s) = bw_active s" "bw_medium (bw_event ev s) = bw_medium s"
  "bw_mediums (bw_event ev s) = bw_mediums s"
  "bw_previous (bw_event ev s) = bw_previous s" "bw_upgraded (bw_event ev s) = bw_upgraded s"
  "bw_in_progress (bw_event ev s) = bw_in_progress s" "bw_tasks (bw_event ev s) = bw_tasks s"
  "bw_delays (bw_event ev s) = bw_delays s" "bw_alarms (bw_event ev s) = bw_alarms s"
  "bw_client (bw_event ev s) = bw_client s" "bw_channels (bw_event ev s) = bw_channels s"
  "bw_crashed (bw_event ev s) = bw_crashed s" "bw_channel e (bw_event ev s) = bw_channel e s"
  by (simp_all add: bw_event_def bw_channel_def)

lemma starts_runs:
  assumes "starts E t s" and "writes_succeed E"
  obtains enc u f where "run_bwu_task (ue_env E) t s = RunUpgradeProtocol (ue_env E) (ue_peer E) (ue_new E) enc u"
    "same_core s u" "bw_log u = bw_log s @ [BwWritten (channel_id (ue_new E)) f]"
proof (cases t)
  case (BwIncoming c)
  with assms(1) obtain i where c: "c = Some (ue_new E)" "ue_peer E \<in> set (bw_in_progress s)"
    "ReadClientIntroductionFrame (ue_env E) (ue_new E) = Some i" "introduction_endpoint i = ue_peer E"
    by (cases c) auto
  show ?thesis
    by (rule that [of _ "CancelRetryUpgradeAlarm (ue_peer E)
        (bw_event (BwWritten (channel_id (ue_new E)) ForBwuIntroductionAck) s)" ForBwuIntroductionAck])
      (simp_all add: BwIncoming c run_bwu_incoming_def WriteClientIntroductionAckFrame_def write_on_ok [OF assms(2)]
        same_core_def CancelRetryUpgradeAlarm_def Let_def)
next
  case (BwFrame e n)
  define info where "info = negotiation_path n"
  define f where "f = ForBwuIntroduction (local_endpoint_id (bw_client s)) (path_flag up_supports_disabling_encryption info)"
  have "e = ue_peer E" and r: "responder_ready (ue_env E) e (ue_new E) n s"
    using assms(1) unfolding BwFrame by auto
  note e [simp] = this(1)
  define s1 where "s1 = (if GetBwuMediumForEndpoint (ue_env E) (ue_peer E) s = UNKNOWN_MEDIUM
      then SetBwuMediumForEndpoint (ue_env E) (ue_peer E) (path_medium info) s else s)"
  from r obtain old where old: "bw_channel e s = Some old"
    "be_connect (ue_env E) (path_medium info) (be_service_id (ue_env E) (channel_id old)) e info = Some (ue_new E)"
    by (auto simp: responder_ready_def info_def Let_def)
  have m: "GetBwuMediumForEndpoint (ue_env E) e s1 = path_medium info"
    using r by (auto simp: responder_ready_def s1_def info_def Let_def)
  have s1: "same_core s s1" "bw_log s1 = bw_log s" "bw_client s1 = bw_client s" "bw_channel (ue_peer E) s1 = bw_channel (ue_peer E) s"
    "GetHandlerForMedium (path_medium info) s1 = GetHandlerForMedium (path_medium info) s"
    by (simp_all add: s1_def same_core_def)
  define u where "u = (bw_event (BwWritten (channel_id (ue_new E)) f) s1)\<lparr>bw_in_progress :=
      List.insert e (bw_in_progress s1)\<rparr>"
  have "ProcessBwuPathAvailableEventInternal (ue_env E) e info s1 =
      (Some (ue_new E), bw_event (BwWritten (channel_id (ue_new E)) f) s1)"
    using r old m by (simp add: ProcessBwuPathAvailableEventInternal_def s1 responder_ready_def info_def [symmetric] Let_def
        write_on_ok [OF assms(2)] f_def)
  moreover have "(isWifiLanConnected (bw_channels s) \<and> (path_medium info = WIFI_HOTSPOT \<or>
      path_medium info = WIFI_DIRECT \<and> be_windows (ue_env E))) = False"
    using r by (auto simp: responder_ready_def info_def Let_def)
  ultimately have "run_bwu_task (ue_env E) t s = RunUpgradeProtocol (ue_env E) (ue_peer E) (ue_new E)
      (\<not> path_flag up_supports_disabling_encryption info) u"
    using r m by (simp add: BwFrame OnBwuNegotiationFrame_def responder_ready_def info_def [symmetric] Let_def
        ProcessBwuPathAvailableEvent_def s1_def [symmetric] u_def) blast
  then show ?thesis
    by (rule that) (simp_all add: u_def s1 same_core_def, simp_all add: s1_def)
qed (use assms(1) in simp_all)


section \<open>The phases of one side\<close>

text \<open>
  0: not started; 1: on the new channel, having written the last frame to the old one; 2: has seen the last
  frame of the peer; 3: has closed the old channel and sends on the new one.  \<open>ds\<close> and \<open>ns\<close> are the data frames
  written on the old and on the new channel.
\<close>

definition handover_frames :: "offline_frame list" where
  "handover_frames = [ForBwuLastWrite, ForBwuSafeToClose, ForDisconnection False False]"

definition free_to_upgrade :: "upgrade_end \<Rightarrow> bwu_manager \<Rightarrow> bool" where
  "free_to_upgrade E s \<longleftrightarrow> IsConnectedToEndpoint (ue_peer E) (bw_client s) \<and>
     \<not> (IsSafeToDisconnectEnabled (ue_peer E) (bw_client s) \<and>
        IsWaitingForSafeToDisconnectTimeout (ue_peer E) (bw_channels s)) \<and>
     ue_peer E \<notin> set (bw_upgraded s)"

definition side_inv ::
  "upgrade_end \<Rightarrow> nat \<Rightarrow> offline_frame list \<Rightarrow> offline_frame list \<Rightarrow> bwu_manager \<Rightarrow> bool" where
  "side_inv E p ds ns s \<longleftrightarrow>
     (let e = ue_peer E; old = channel_id (ue_old E); new = channel_id (ue_new E) in
      p \<le> 3 \<and> IsConnectedToEndpoint e (bw_client s) \<and>
      written old (bw_log s) = ds @ take p handover_frames \<and>
      for_reader (written new (bw_log s)) = ns \<and> (p = 0 \<longrightarrow> written new (bw_log s) = []) \<and>
      (p > 0 \<longrightarrow> written new (bw_log s) \<noteq> []) \<and>
      (if p = 0 then bw_channel e s = Some (ue_old E) \<and> free_to_upgrade E s
       else \<exists>c. bw_channel e s = Some c \<and> channel_id c = new) \<and>
      map_of (bw_previous s) e = (if p = 1 \<or> p = 2 then Some (Some (ue_old E)) else None) \<and>
      (paused new (bw_log s) \<longleftrightarrow> p = 1 \<or> p = 2) \<and> \<not> paused old (bw_log s) \<and>
      (closed_in old (bw_log s) \<longleftrightarrow> p = 3) \<and> \<not> closed_in new (bw_log s) \<and>
      (p \<noteq> 3 \<longrightarrow> ns = []) \<and> (p = 3 \<longrightarrow> e \<notin> set (bw_in_progress s)) \<and> \<not> bw_crashed s)"

lemma IsWaiting_Set: 
  "IsWaitingForSafeToDisconnectTimeout e (SetActiveEndpointChannel b e c enc m) =
     IsWaitingForSafeToDisconnectTimeout e m"
  by (auto simp: IsWaitingForSafeToDisconnectTimeout_def channel_map_defs Let_def EncryptChannel_def
      empty_endpoint_data_def split: option.splits)

lemma replaced_channel:
  assumes "free_to_upgrade E s"
  shows "\<exists>c. GetChannelForEndpoint (ue_peer E) (ReplaceChannelForEndpoint (IsSafeToDisconnectEnabled (ue_peer E) (bw_client s))
      (ue_peer E) ch enc (bw_channels s)) = Some c \<and> channel_id c = channel_id ch"
  using assms by (auto simp: ReplaceChannelForEndpoint_def free_to_upgrade_def SetActive_channel)

lemma phase_starts:
  assumes "side_inv E 0 ds ns s" and "starts E t s" and "writes_succeed E" and "channel_id (ue_old E) \<noteq> channel_id (ue_new E)"
  shows "side_inv E 1 ds [] (run_bwu_task (ue_env E) t s) \<and> bw_tasks (run_bwu_task (ue_env E) t s) = bw_tasks s"
proof -
  obtain enc u f where u: "run_bwu_task (ue_env E) t s = RunUpgradeProtocol (ue_env E) (ue_peer E) (ue_new E) enc u"
    "same_core s u" "bw_log u = bw_log s @ [BwWritten (channel_id (ue_new E)) f]"
    using assms(2,3) by (rule starts_runs)
  have old: "bw_channel (ue_peer E) u = Some (ue_old E)" and free: "free_to_upgrade E u"
    using assms(1) u(2) by (auto simp: side_inv_def same_core_def bw_channel_def free_to_upgrade_def Let_def)
  obtain c where c: "GetChannelForEndpoint (ue_peer E) (ReplaceChannelForEndpoint (IsSafeToDisconnectEnabled (ue_peer E) (bw_client u))
      (ue_peer E) (ue_new E) enc (bw_channels u)) = Some c" "channel_id c = channel_id (ue_new E)"
    using replaced_channel [OF free] by blast
  show ?thesis
    using assms(1,4) u(2,3) old free c
    by (simp add: u(1) RunUpgradeProtocol_def write_on_ok [OF assms(3)] Let_def side_inv_def same_core_def
        free_to_upgrade_def handover_frames_def bw_channel_def for_reader_def update_conv')
qed

lemma phase_last_write:
  assumes "side_inv E 1 ds ns s" and "writes_succeed E" and "channel_id (ue_old E) \<noteq> channel_id (ue_new E)"
    and "bn_event_type n = Some LAST_WRITE_TO_PRIOR_CHANNEL"
  shows "side_inv E 2 ds ns (OnBwuNegotiationFrame (ue_env E) (ue_peer E) n s) \<and>
    bw_tasks (OnBwuNegotiationFrame (ue_env E) (ue_peer E) n s) = bw_tasks s"
  using assms
  by (auto simp: OnBwuNegotiationFrame_def ProcessLastWriteToPriorChannelEvent_def write_on_ok side_inv_def
      previous_channel_def handover_frames_def Let_def)

lemma IsConnected_OnBandwidthChanged [simp]:
  "IsConnectedToEndpoint e (OnBandwidthChanged k m c) = IsConnectedToEndpoint e c"
  by (auto simp: IsConnectedToEndpoint_def ConnectionStatusMatches_def OnBandwidthChanged_def Lookup_write split: option.splits)

lemma phase_safe:
  assumes "side_inv E 2 ds ns s" and "writes_succeed E" and "channel_id (ue_old E) \<noteq> channel_id (ue_new E)"
    and "bn_event_type n = Some SAFE_TO_CLOSE_PRIOR_CHANNEL"
  shows "side_inv E 3 ds ns (OnBwuNegotiationFrame (ue_env E) (ue_peer E) n s) \<and>
    bw_tasks (OnBwuNegotiationFrame (ue_env E) (ue_peer E) n s) = bw_tasks s"
proof -
  obtain c where "bw_channel (ue_peer E) s = Some c" "channel_id c = channel_id (ue_new E)"
    using assms(1) by (auto simp: side_inv_def Let_def)
  then show ?thesis
    using assms
    by (simp add: OnBwuNegotiationFrame_def ProcessSafeToClosePriorChannelEvent_def write_on_ok side_inv_def close_on_def
        handover_frames_def Let_def delete_conv' bw_channel_def)
qed


section \<open>The invariant of two devices\<close>

definition handover_tasks :: "string \<Rightarrow> bwu_task list" where
  "handover_tasks e = map (BwFrame e)
     [new_negotiation LAST_WRITE_TO_PRIOR_CHANNEL, new_negotiation SAFE_TO_CLOSE_PRIOR_CHANNEL]"

text \<open>One side: its phase and frames, those of the other side, and where its reader stands in those.\<close>

definition reader_inv ::
  "upgrade_end \<Rightarrow> bwu_task \<Rightarrow> nat \<Rightarrow> nat \<Rightarrow> offline_frame list \<Rightarrow> offline_frame list \<Rightarrow> upgrade_side \<Rightarrow> bool" where
  "reader_inv E t p q ds ns X \<longleftrightarrow>
     us_read_old X \<le> length ds + q \<and> (us_left X \<longleftrightarrow> us_read_old X = length ds + 3) \<and>
     p \<le> 1 + (us_read_old X - length ds) \<and> us_read_new X \<le> length ns \<and>
     (us_read_new X > 0 \<longrightarrow> length ds \<le> us_read_old X) \<and>
     us_got X = take (us_read_old X) ds @ take (us_read_new X) ns \<and>
     bw_tasks (us_bwu X) = (if p = 0 then [t] else []) @
       drop (p - 1) (take (us_read_old X - length ds) (handover_tasks (ue_peer E)))"

definition half ::
  "upgrade_end \<Rightarrow> bwu_task \<Rightarrow> nat \<Rightarrow> offline_frame list \<Rightarrow> offline_frame list \<Rightarrow>
   nat \<Rightarrow> offline_frame list \<Rightarrow> offline_frame list \<Rightarrow> upgrade_side \<Rightarrow> bool" where
  "half E t p ds ns q ds2 ns2 X \<longleftrightarrow>
     side_inv E p ds ns (us_bwu X) \<and> reader_inv E t p q ds2 ns2 X \<and> us_sent X = ds @ ns \<and>
     list_all is_data (ds @ ns) \<and> (p = 0 \<longrightarrow> starts E t (us_bwu X))"

definition proper_end :: "upgrade_end \<Rightarrow> bool" where
  "proper_end E \<longleftrightarrow> writes_succeed E \<and> channel_id (ue_old E) \<noteq> channel_id (ue_new E)"

lemma half_later: "half E t p ds ns q ds2 ns2 X \<Longrightarrow> q \<le> q2 \<Longrightarrow> half E t p ds ns q2 ds2 ns2 X"
  by (auto simp: half_def reader_inv_def)

lemma half_more_old:
  assumes "half E t p ds ns 0 ds2 [] X"
  shows "half E t p ds ns 0 (ds2 @ [f]) [] X"
  using assms by (auto simp: half_def reader_inv_def)

lemma half_more_new: "half E t p ds ns q ds2 ns2 X \<Longrightarrow> half E t p ds ns q ds2 (ns2 @ [f]) X"
  by (auto simp: half_def reader_inv_def)

lemma starts_tasks [simp]:
  "starts E t (s\<lparr>bw_tasks := ts\<rparr>) = starts E t s" "starts E t (bw_event ev s) = starts E t s"
  "starts E t (RunOnBwuManagerThread u s) = starts E t s"
proof -
  have "responder_ready env e c n (s\<lparr>bw_tasks := ts\<rparr>) = responder_ready env e c n s"
    "responder_ready env e c n (bw_event ev s) = responder_ready env e c n s" for env e c n s ts ev
    by (simp_all add: responder_ready_def bw_event_def bw_channel_def GetBwuMediumForEndpoint_def
        GetHandlerForMedium_def abort_bwu_def Let_def)
  then show "starts E t (s\<lparr>bw_tasks := ts\<rparr>) = starts E t s" "starts E t (bw_event ev s) = starts E t s"
    "starts E t (RunOnBwuManagerThread u s) = starts E t s"
    by (cases "(E, t, s)" rule: starts.cases; simp add: RunOnBwuManagerThread_def)+
qed

lemma side_tasks [simp]:
  "side_inv E p ds ns (s\<lparr>bw_tasks := ts\<rparr>) = side_inv E p ds ns s"
  "side_inv E p ds ns (RunOnBwuManagerThread u s) = side_inv E p ds ns s"
  by (simp_all add: side_inv_def bw_channel_def free_to_upgrade_def RunOnBwuManagerThread_def)

lemma side_phase: "side_inv E p ds ns s \<Longrightarrow> p = 0 \<or> p = 1 \<or> p = 2 \<or> p = 3"
  by (auto simp: side_inv_def Let_def)

text \<open>A task of one side.\<close>

lemma half_runs:
  assumes h: "half E t p ds ns q ds2 ns2 X" and E: "proper_end E"
  shows "\<exists>p2. (if bw_tasks (us_bwu X) = [] then p2 = p else p2 = Suc p) \<and> half E t p2 ds ns q ds2 ns2 (task_step E X)"
proof -
  let ?s = "us_bwu X" and ?r = "us_read_old X - length ds2"
  have s: "side_inv E p ds ns ?s" and w: "writes_succeed E" "channel_id (ue_old E) \<noteq> channel_id (ue_new E)"
    and ts: "bw_tasks ?s = (if p = 0 then [t] else []) @ drop (p - 1) (take ?r (handover_tasks (ue_peer E)))"
    and rp: "p \<le> 1 + ?r"
    using h E by (simp_all add: half_def proper_end_def reader_inv_def)
  from side_phase [OF s] consider "p = 0" | "p = 1" | "p = 2" | "p = 3" by blast
  then show ?thesis
  proof cases
    case 1
    have st: "starts E t (?s\<lparr>bw_tasks := take ?r (handover_tasks (ue_peer E))\<rparr>)"
      and s0: "side_inv E 0 ds ns (?s\<lparr>bw_tasks := take ?r (handover_tasks (ue_peer E))\<rparr>)"
      using h 1 s by (simp_all add: half_def)
    have "ns = []" using s 1 by (simp add: side_inv_def Let_def)
    with phase_starts [OF s0 st w] have "half E t 1 ds ns q ds2 ns2 (task_step E X)"
      using h 1 ts by (simp add: half_def task_step_def run_next_bwu_task_def reader_inv_def)
    then show ?thesis using 1 ts by auto
  next
    case 2
    show ?thesis
    proof (cases "?r = 0")
      case True
      then show ?thesis using h 2 ts by (intro exI [of _ p]) (simp add: task_step_def run_next_bwu_task_def)
    next
      case False
      define rest where "rest = take (?r - 1) (tl (handover_tasks (ue_peer E)))"
      have t1: "bw_tasks ?s = BwFrame (ue_peer E) (new_negotiation LAST_WRITE_TO_PRIOR_CHANNEL) # rest"
        using ts 2 False by (simp add: rest_def handover_tasks_def take_Cons')
      have s1: "side_inv E 1 ds ns (?s\<lparr>bw_tasks := rest\<rparr>)" using s 2 by simp
      have "bn_event_type (new_negotiation LAST_WRITE_TO_PRIOR_CHANNEL) = Some LAST_WRITE_TO_PRIOR_CHANNEL"
        by (simp add: new_negotiation_def)
      from phase_last_write [OF s1 w this] have "half E t 2 ds ns q ds2 ns2 (task_step E X)"
        using h 2 t1 False by (auto simp: half_def task_step_def run_next_bwu_task_def reader_inv_def rest_def
            handover_tasks_def take_Cons')
      then show ?thesis using 2 t1 by (intro exI [of _ 2]) simp
    qed
  next
    case 3
    show ?thesis
    proof (cases "?r = 1")
      case True
      then show ?thesis using h 3 ts
        by (intro exI [of _ p]) (simp add: task_step_def run_next_bwu_task_def handover_tasks_def)
    next
      case False
      have r2: "?r \<ge> 2" using False rp 3 by simp
      then have t1: "bw_tasks ?s = [BwFrame (ue_peer E) (new_negotiation SAFE_TO_CLOSE_PRIOR_CHANNEL)]"
        using ts 3 by (simp add: handover_tasks_def take_Cons')
      have s1: "side_inv E 2 ds ns (?s\<lparr>bw_tasks := []\<rparr>)" using s 3 by simp
      have "bn_event_type (new_negotiation SAFE_TO_CLOSE_PRIOR_CHANNEL) = Some SAFE_TO_CLOSE_PRIOR_CHANNEL"
        by (simp add: new_negotiation_def)
      from phase_safe [OF s1 w this] have "half E t 3 ds ns q ds2 ns2 (task_step E X)"
        using h 3 t1 r2 by (auto simp: half_def task_step_def run_next_bwu_task_def reader_inv_def
            handover_tasks_def take_Cons')
      then show ?thesis using 3 t1 by (intro exI [of _ 3]) simp
    qed
  next
    case 4
    then have "bw_tasks ?s = []" using ts by (simp add: handover_tasks_def)
    then show ?thesis using h by (intro exI [of _ p]) (simp add: task_step_def run_next_bwu_task_def)
  qed
qed


lemma half_runs_on:
  assumes "half E t p ds ns q ds2 ns2 X" and "proper_end E"
  shows "\<exists>p2. p \<le> p2 \<and> half E t p2 ds ns q ds2 ns2 (task_step E X)"
  using half_runs [OF assms] by (metis le_Suc_eq order_refl)

text \<open>A frame that one side's application sends, as the two sides see it.\<close>

lemma half_sends:
  assumes h: "half E t p ds ns q ds2 ns2 X" and g: "half F u q ds2 ns2 p ds ns Y" and E: "proper_end E"
  shows "\<exists>ds' ns'. half E t p ds' ns' q ds2 ns2 (send_step E f X) \<and> half F u q ds2 ns2 p ds' ns' Y"
proof -
  let ?s = "us_bwu X"
  have s: "side_inv E p ds ns ?s" and w: "channel_id (ue_old E) \<noteq> channel_id (ue_new E)"
    using h E by (simp_all add: half_def proper_end_def)
  show ?thesis
  proof (cases "is_data f")
    case False
    then have "send_step E f X = X" by (simp add: send_step_def split: option.splits)
    then show ?thesis using h g by auto
  next
    case True
    from side_phase [OF s] consider "p = 0" | "p = 1 \<or> p = 2" | "p = 3" by blast
    then show ?thesis
    proof cases
      case 1
      have ns: "ns = []" using s 1 by (simp add: side_inv_def Let_def)
      have "half E t p (ds @ [f]) ns q ds2 ns2 (send_step E f X)"
        using h s w True unfolding 1 ns
        by (auto simp: half_def side_inv_def reader_inv_def send_step_def Let_def free_to_upgrade_def)
      moreover have "half F u q ds2 ns2 p (ds @ [f]) ns Y"
        using half_more_old g unfolding 1 ns by blast
      ultimately show ?thesis by blast
    next
      case 2
      then have "paused (channel_id (ue_new E)) (bw_log ?s)"
        "\<exists>c. bw_channel (ue_peer E) ?s = Some c \<and> channel_id c = channel_id (ue_new E)"
        using s by (auto simp: side_inv_def Let_def)
      then have "send_step E f X = X" by (auto simp: send_step_def)
      then show ?thesis using h g by auto
    next
      case 3
      have "half E t p ds (ns @ [f]) q ds2 ns2 (send_step E f X)"
        using h s w True unfolding 3
        by (auto simp: half_def side_inv_def reader_inv_def send_step_def Let_def for_reader_def)
      moreover have "half F u q ds2 ns2 p ds (ns @ [f]) Y" using half_more_new [OF g] .
      ultimately show ?thesis by blast
    qed
  qed
qed

lemma handover_frame_types [simp]:
  "GetFrameType ForBwuLastWrite = BANDWIDTH_UPGRADE_NEGOTIATION"
  "GetFrameType ForBwuSafeToClose = BANDWIDTH_UPGRADE_NEGOTIATION"
  "GetFrameType (ForDisconnection a b) = DISCONNECTION"
  by (simp_all add: ForBwuLastWrite_def ForBwuSafeToClose_def upgrade_frame_def ForDisconnection_def)

lemma handover_frame_tasks:
  "Bwu_OnIncomingFrame e ForBwuLastWrite s =
     RunOnBwuManagerThread (BwFrame e (new_negotiation LAST_WRITE_TO_PRIOR_CHANNEL)) s"
  "Bwu_OnIncomingFrame e ForBwuSafeToClose s =
     RunOnBwuManagerThread (BwFrame e (new_negotiation SAFE_TO_CLOSE_PRIOR_CHANNEL)) s"
  by (simp_all add: Bwu_OnIncomingFrame_def, simp_all add: ForBwuLastWrite_def ForBwuSafeToClose_def upgrade_frame_def
      v1_message_def)

lemma reads_new_done:
  assumes "half E t p ds ns q ds2 ns2 X" and "reads_new E X"
  shows "length ds2 + 2 \<le> us_read_old X"
  using assms by (auto simp: half_def side_inv_def reader_inv_def reads_new_def Let_def)

text \<open>A frame that one side's reader takes.\<close>

lemma half_reads:
  assumes h: "half E t p ds ns q ds2 ns2 X" and g: "half F u q ds2 ns2 p ds ns Y" and E: "proper_end E"
  shows "half E t p ds ns q ds2 ns2 (read_step E F Y X)"
proof (cases "reads_new E X")
  case True
  have w: "for_reader (written (channel_id (ue_new F)) (bw_log (us_bwu Y))) = ns2" "list_all is_data ns2"
    using g by (auto simp: half_def side_inv_def Let_def)
  show ?thesis
  proof (cases "us_read_new X < length ns2")
    case lt: True
    then have "is_data (ns2 ! us_read_new X)" using w(2) by (simp add: list_all_length)
    then show ?thesis
      using h True lt reads_new_done [OF h True]
      by (auto simp: read_step_def readable_frame_def w(1) next_frame_def take_frame_def is_data_def half_def
          reader_inv_def take_Suc_conv_app_nth)
  qed (use h True in \<open>simp add: read_step_def readable_frame_def w(1) next_frame_def\<close>)
next
  case False
  let ?r = "us_read_old X"
  have w: "written (channel_id (ue_old F)) (bw_log (us_bwu Y)) = ds2 @ take q handover_frames" "list_all is_data ds2"
    and q: "q \<le> 3"
    using g by (auto simp: half_def side_inv_def Let_def)
  have ln: "length (take q handover_frames) = q" using q by (simp add: handover_frames_def)
  show ?thesis
  proof (cases "?r < length ds2 + q")
    case ge: False
    then show ?thesis
      using h False ln by (simp add: read_step_def readable_frame_def w(1) next_frame_def)
  next
    case lt: True
    define f where "f = (ds2 @ take q handover_frames) ! ?r"
    have step: "read_step E F Y X = take_frame E f (X\<lparr>us_read_old := ?r + 1\<rparr>)"
      using lt False ln by (simp add: read_step_def readable_frame_def w(1) next_frame_def f_def)
    show ?thesis
    proof (cases "?r < length ds2")
      case True
      then have "f = ds2 ! ?r" "is_data f" using w(2) by (simp_all add: f_def nth_append list_all_length)
      moreover have "us_read_new X = 0" using h True by (auto simp: half_def reader_inv_def)
      ultimately show ?thesis
        using h True by (auto simp: step take_frame_def is_data_def half_def reader_inv_def take_Suc_conv_app_nth)
    next
      case past: False
      define k where "k = ?r - length ds2"
      have k: "?r = length ds2 + k" "k < q" "p \<le> 1 + k" using past lt h by (auto simp: k_def half_def reader_inv_def)
      then have f: "f = handover_frames ! k" using ln by (simp add: f_def nth_append)
      have "k = 0 \<or> k = 1 \<or> k = 2" using k(2) q by linarith
      then show ?thesis
        using h f k side_phase [of E p ds ns "us_bwu X"]
        by (elim disjE) (auto simp: step take_frame_def half_def reader_inv_def handover_frames_def handover_frame_tasks
            handover_tasks_def RunOnBwuManagerThread_def take_Cons')
    qed
  qed
qed

definition pair_inv ::
  "upgrade_end \<Rightarrow> upgrade_end \<Rightarrow> bwu_task \<Rightarrow> bwu_task \<Rightarrow> upgrade_side \<times> upgrade_side \<Rightarrow> bool" where
  "pair_inv E F t u XY \<longleftrightarrow>
     (\<exists>p ds ns q ds2 ns2. half E t p ds ns q ds2 ns2 (fst XY) \<and> half F u q ds2 ns2 p ds ns (snd XY))"

lemma pair_step:
  assumes "pair_inv E F t u XY" and "proper_end E" and "proper_end F"
  shows "pair_inv E F t u (upgrade_do E F st XY)"
proof -
  obtain X Y where XY: "XY = (X, Y)" by (cases XY)
  from assms(1) obtain p ds ns q ds2 ns2 where
    h: "half E t p ds ns q ds2 ns2 X" and g: "half F u q ds2 ns2 p ds ns Y"
    by (auto simp: pair_inv_def XY)
  show ?thesis
  proof (cases st)
    case FirstRuns
    obtain p2 where "p \<le> p2" "half E t p2 ds ns q ds2 ns2 (task_step E X)"
      using half_runs_on [OF h assms(2)] by blast
    with g half_later show ?thesis by (simp add: pair_inv_def XY FirstRuns) blast
  next
    case SecondRuns
    obtain q2 where "q \<le> q2" "half F u q2 ds2 ns2 p ds ns (task_step F Y)"
      using half_runs_on [OF g assms(3)] by blast
    with h half_later show ?thesis by (simp add: pair_inv_def XY SecondRuns) blast
  next
    case FirstReads
    from half_reads [OF h g assms(2)] g show ?thesis
      by (simp add: pair_inv_def XY FirstReads) blast
  next
    case SecondReads
    from half_reads [OF g h assms(3)] h show ?thesis
      by (simp add: pair_inv_def XY SecondReads) blast
  next
    case (FirstSends f)
    from half_sends [OF h g assms(2)] show ?thesis
      by (simp add: pair_inv_def XY FirstSends) blast
  next
    case (SecondSends f)
    from half_sends [OF g h assms(3)] show ?thesis
      by (simp add: pair_inv_def XY SecondSends) blast
  qed
qed


lemma pair_run:
  assumes "pair_inv E F t u XY" and "proper_end E" and "proper_end F"
  shows "pair_inv E F t u (fold (upgrade_do E F) sts XY)"
  using assms(1) by (induction sts arbitrary: XY) (simp_all add: pair_step assms(2,3))

text \<open>
  Before the handover: the endpoint is on its old channel, and the first task of the manager is the
  one that starts it.
\<close>

definition about_to_upgrade :: "upgrade_end \<Rightarrow> bwu_task \<Rightarrow> upgrade_side \<Rightarrow> bool" where
  "about_to_upgrade E t X \<longleftrightarrow>
     (let s = us_bwu X; old = channel_id (ue_old E); new = channel_id (ue_new E) in
      starts E t s \<and> bw_tasks s = [t] \<and> free_to_upgrade E s \<and> bw_channel (ue_peer E) s = Some (ue_old E) \<and>
      map_of (bw_previous s) (ue_peer E) = None \<and> \<not> bw_crashed s \<and>
      \<not> paused old (bw_log s) \<and> \<not> paused new (bw_log s) \<and>
      \<not> closed_in old (bw_log s) \<and> \<not> closed_in new (bw_log s) \<and>
      written old (bw_log s) = us_sent X \<and> written new (bw_log s) = [] \<and> list_all is_data (us_sent X) \<and>
      us_read_old X = 0 \<and> us_read_new X = 0 \<and> \<not> us_left X \<and> us_got X = [])"

lemma pair_begins:
  assumes "about_to_upgrade E t X" and "about_to_upgrade F u Y"
  shows "pair_inv E F t u (X, Y)"
proof -
  have "half E t 0 (us_sent X) [] 0 ds [] X" if "about_to_upgrade E t X" for E t X ds
    using that by (auto simp: about_to_upgrade_def half_def side_inv_def reader_inv_def Let_def for_reader_def
        free_to_upgrade_def)
  with assms show ?thesis unfolding pair_inv_def by fastforce
qed

lemma half_got:
  assumes "half E t p ds ns q ds2 ns2 X"
  shows "prefix (us_got X) (ds2 @ ns2)" "us_sent X = ds @ ns" "\<not> bw_crashed (us_bwu X)"
proof -
  show "prefix (us_got X) (ds2 @ ns2)"
  proof (cases "us_read_new X = 0")
    case True
    then show ?thesis using assms by (simp add: half_def reader_inv_def take_is_prefix prefix_prefix)
  next
    case False
    then show ?thesis using assms by (simp add: half_def reader_inv_def take_is_prefix)
  qed
qed (use assms in \<open>auto simp: half_def side_inv_def Let_def\<close>)

lemma pair_got:
  assumes "pair_inv E F t u (X, Y)"
  shows "prefix (us_got X) (us_sent Y)" "prefix (us_got Y) (us_sent X)"
    "\<not> bw_crashed (us_bwu X)" "\<not> bw_crashed (us_bwu Y)"
proof -
  from assms obtain p ds ns q ds2 ns2 where
    h: "half E t p ds ns q ds2 ns2 X" and g: "half F u q ds2 ns2 p ds ns Y"
    by (auto simp: pair_inv_def)
  note x = half_got [OF h] and y = half_got [OF g]
  show "prefix (us_got X) (us_sent Y)" "prefix (us_got Y) (us_sent X)"
    "\<not> bw_crashed (us_bwu X)" "\<not> bw_crashed (us_bwu Y)"
    using x y by simp_all
qed


section \<open>The end of a handover\<close>

definition handed_over :: "upgrade_end \<Rightarrow> upgrade_side \<Rightarrow> bool" where
  "handed_over E X \<longleftrightarrow>
     (let s = us_bwu X in
      closed_in (channel_id (ue_old E)) (bw_log s) \<and> \<not> paused (channel_id (ue_new E)) (bw_log s) \<and>
      map_option channel_id (bw_channel (ue_peer E) s) = Some (channel_id (ue_new E)) \<and>
      \<not> IsUpgradeOngoing (ue_peer E) s)"

definition nothing_to_do :: "upgrade_end \<Rightarrow> upgrade_end \<Rightarrow> upgrade_side \<Rightarrow> upgrade_side \<Rightarrow> bool" where
  "nothing_to_do E F X Y \<longleftrightarrow> bw_tasks (us_bwu X) = [] \<and> readable_frame E F X Y = None"

lemma half_done:
  assumes h: "half E t p ds ns q ds2 ns2 X" and g: "half F u q ds2 ns2 p ds ns Y" and n: "nothing_to_do E F X Y"
  shows "p = 1 + min 2 (us_read_old X - length ds2)"
    and "p \<noteq> 3 \<and> us_read_old X = length ds2 + q \<and> q \<noteq> 3 \<or> p = 3 \<and> us_got X = ds2 @ ns2"
proof -
  let ?r = "us_read_old X"
  have p: "p \<le> 3" "p \<le> 1 + (?r - length ds2)" "closed_in (channel_id (ue_old E)) (bw_log (us_bwu X)) \<longleftrightarrow> p = 3"
    "us_left X \<longleftrightarrow> ?r = length ds2 + 3" "?r \<le> length ds2 + q" "us_read_new X \<le> length ns2"
    "us_got X = take ?r ds2 @ take (us_read_new X) ns2" and q: "q \<le> 3"
    using h g by (auto simp: half_def side_inv_def reader_inv_def Let_def)
  have w: "written (channel_id (ue_old F)) (bw_log (us_bwu Y)) = ds2 @ take q handover_frames"
    "for_reader (written (channel_id (ue_new F)) (bw_log (us_bwu Y))) = ns2"
    using g by (auto simp: half_def side_inv_def Let_def)
  have ln: "length (take q handover_frames) = q" using q by (simp add: handover_frames_def)
  have "(if p = 0 then [t] else []) @ drop (p - 1) (take (?r - length ds2) (handover_tasks (ue_peer E))) = []"
    using h n by (simp add: half_def reader_inv_def nothing_to_do_def)
  then have p0: "p \<noteq> 0" and le: "min (?r - length ds2) 2 \<le> p - 1"
    by (auto simp: handover_tasks_def split: if_splits)
  show p1: "p = 1 + min 2 (?r - length ds2)" using p0 le p(1,2) by linarith
  show "p \<noteq> 3 \<and> ?r = length ds2 + q \<and> q \<noteq> 3 \<or> p = 3 \<and> us_got X = ds2 @ ns2"
  proof (cases "reads_new E X")
    case True
    then have "us_read_new X = length ns2"
      using n p(6) by (simp add: nothing_to_do_def readable_frame_def w next_frame_def split: if_splits)
    moreover have "length ds2 + 2 \<le> ?r" by (rule reads_new_done [OF h True])
    ultimately show ?thesis using p(7) p1 by auto
  next
    case False
    then have "?r = length ds2 + q" "p \<noteq> 3" "?r \<noteq> length ds2 + 3"
      using n p(3-5) ln by (simp_all add: nothing_to_do_def readable_frame_def w next_frame_def reads_new_def split: if_splits)
    then show ?thesis by simp
  qed
qed

lemma quiet_finished:
  assumes "pair_inv E F t u (X, Y)" and "nothing_to_do E F X Y" and "nothing_to_do F E Y X"
  shows "handed_over E X \<and> handed_over F Y \<and> us_got X = us_sent Y \<and> us_got Y = us_sent X"
proof -
  from assms(1) obtain p ds ns q ds2 ns2 where
    h: "half E t p ds ns q ds2 ns2 X" and g: "half F u q ds2 ns2 p ds ns Y"
    by (auto simp: pair_inv_def)
  note x = half_done [OF h g assms(2)] and y = half_done [OF g h assms(3)]
  have "p = 3 \<and> q = 3"
    using x y by linarith
  with x y h g show ?thesis
    by (auto simp: handed_over_def half_def side_inv_def IsUpgradeOngoing_def Let_def)
qed


lemma read_step_counts:
  "readable_frame E F X Y \<noteq> None \<Longrightarrow>
   us_read_old (read_step E F Y X) + us_read_new (read_step E F Y X) = us_read_old X + us_read_new X + 1"
  by (auto simp: read_step_def take_frame_def split: option.splits)

lemma half_bounds:
  assumes "half E t p ds ns q ds2 ns2 X"
  shows "p \<le> 3" "us_read_old X + us_read_new X \<le> length ds2 + q + length ns2"
  using assms by (auto simp: half_def side_inv_def reader_inv_def Let_def)

abbreviation inner_steps :: "upgrade_step set" where
  "inner_steps \<equiv> {FirstRuns, SecondRuns, FirstReads, SecondReads}"

lemma can_finish:
  assumes "half E t p ds ns q ds2 ns2 X" and "half F u q ds2 ns2 p ds ns Y" and E: "proper_end E" and F: "proper_end F"
  shows "\<exists>more X2 Y2. set more \<subseteq> inner_steps \<and> fold (upgrade_do E F) more (X, Y) = (X2, Y2) \<and>
    nothing_to_do E F X2 Y2 \<and> nothing_to_do F E Y2 X2"
  using assms(1,2)
proof (induction "(3 - p) + (3 - q) + (length ds2 + 3 + length ns2 - (us_read_old X + us_read_new X)) +
      (length ds + 3 + length ns - (us_read_old Y + us_read_new Y))" arbitrary: p q X Y rule: less_induct)
  case less
  note h = less.prems(1) and g = less.prems(2)
  note bounds = half_bounds [OF h] half_bounds [OF g]
  have step: ?case if "st \<in> inner_steps" and "upgrade_do E F st (X, Y) = (X1, Y1)" and
      "half E t p1 ds ns q1 ds2 ns2 X1" and "half F u q1 ds2 ns2 p1 ds ns Y1" and
      "(3 - p1) + (3 - q1) + (length ds2 + 3 + length ns2 - (us_read_old X1 + us_read_new X1)) +
       (length ds + 3 + length ns - (us_read_old Y1 + us_read_new Y1)) <
       (3 - p) + (3 - q) + (length ds2 + 3 + length ns2 - (us_read_old X + us_read_new X)) +
       (length ds + 3 + length ns - (us_read_old Y + us_read_new Y))" for st X1 Y1 p1 q1
  proof -
    from less.hyps [OF that(5,3,4)] obtain more X2 Y2 where
      "set more \<subseteq> inner_steps" "fold (upgrade_do E F) more (X1, Y1) = (X2, Y2)"
      "nothing_to_do E F X2 Y2" "nothing_to_do F E Y2 X2" by blast
    with that(1,2) show ?thesis by (intro exI [of _ "st # more"]) auto
  qed
  consider "bw_tasks (us_bwu X) \<noteq> []" | "bw_tasks (us_bwu Y) \<noteq> []" | "readable_frame E F X Y \<noteq> None"
    | "readable_frame F E Y X \<noteq> None" | "nothing_to_do E F X Y \<and> nothing_to_do F E Y X"
    unfolding nothing_to_do_def by argo
  then show ?case
  proof cases
    case 1
    then have h1: "half E t (Suc p) ds ns q ds2 ns2 (task_step E X)" using half_runs [OF h E] by auto
    show ?thesis
      by (rule step [OF _ _ h1 half_later [OF g], where st = FirstRuns])
        (use half_bounds [OF h1] in \<open>auto simp: task_step_def\<close>)
  next
    case 2
    then have g1: "half F u (Suc q) ds2 ns2 p ds ns (task_step F Y)" using half_runs [OF g F] by auto
    show ?thesis
      by (rule step [OF _ _ half_later [OF h] g1, where st = SecondRuns])
        (use half_bounds [OF g1] in \<open>auto simp: task_step_def\<close>)
  next
    case 3
    note h1 = half_reads [OF h g E]
    show ?thesis
      by (rule step [OF _ _ h1 g, where st = FirstReads])
        (use read_step_counts [OF 3] half_bounds [OF h1] half_bounds [OF g] in auto)
  next
    case 4
    note g1 = half_reads [OF g h F]
    show ?thesis
      by (rule step [OF _ _ h g1, where st = SecondReads])
        (use read_step_counts [OF 4] half_bounds [OF g1] half_bounds [OF h] in auto)
  next
    case 5
    then show ?thesis by (intro exI [of _ "[]"]) simp
  qed
qed


section \<open>Two concrete devices\<close>

definition direct_announcement :: upgrade_negotiation where
  "direct_announcement = (new_negotiation UPGRADE_PATH_AVAILABLE)\<lparr>bn_upgrade_path_info :=
     Some (empty_path_info\<lparr>up_medium := Some Upgrade_WIFI_DIRECT, up_supports_client_introduction_ack := Some True\<rparr>)\<rparr>"

definition plain_bwu_env :: "offline_frame \<Rightarrow> bwu_env" where
  "plain_bwu_env f =
     \<lparr>be_available = (\<lambda>_. True), be_initialize = (\<lambda>_ _ _. None),
      be_connect = (\<lambda>_ _ _ _. Some (sample_channel 2 WIFI_DIRECT)), be_service_id = (\<lambda>_. ''svc''),
      be_write = (\<lambda>_ _ _. True), be_read = (\<lambda>_. Inr f), be_hotspot_host = (\<lambda>_. False),
      be_multiple_mediums = True, be_exp_backoff = True, be_role_switch = False, be_apple = False,
      be_windows = False, be_non_cellular = False, be_using_cellular = False, be_retry_delay = 3000,
      be_retry_max_delay = 300000\<rparr>"

definition sample_end :: "offline_frame \<Rightarrow> upgrade_end" where
  "sample_end f = \<lparr>ue_env = plain_bwu_env f, ue_peer = ''ABCD'', ue_old = sample_channel 1 BLE,
     ue_new = sample_channel 2 WIFI_DIRECT\<rparr>"

definition outgoing_client :: client_proxy where
  "outgoing_client = proxy_run (OpInitiated ''ABCD'' False plain_options (ClientListener 1) ''token'' # tl (butlast sample_ops))
     (ClientProxy_new plain_flags False False False)"

definition sample_bwu :: "client_proxy \<Rightarrow> bwu_manager" where
  "sample_bwu client = BwuManager_new False \<lparr>sel_bluetooth = False, sel_ble = False, sel_web_rtc_no_cellular = False,
     sel_web_rtc = False, sel_wifi_lan = False, sel_wifi_hotspot = False, sel_wifi_direct = False, sel_awdl = False\<rparr>
     client sample_channels"

definition sample_side :: "bwu_task \<Rightarrow> client_proxy \<Rightarrow> string list \<Rightarrow> upgrade_side" where
  "sample_side t client es =
     \<lparr>us_bwu = (sample_bwu client)\<lparr>bw_in_progress := es, bw_tasks := [t]\<rparr>, us_read_old = 0, us_read_new = 0,
      us_left = False, us_got = [], us_sent = []\<rparr>"

abbreviation sample_initiator :: upgrade_side where
  "sample_initiator \<equiv> sample_side (BwIncoming (Some (sample_channel 2 WIFI_DIRECT))) connected_client [''ABCD'']"

abbreviation sample_responder :: upgrade_side where
  "sample_responder \<equiv> sample_side (BwFrame ''ABCD'' direct_announcement) outgoing_client []"

lemma sample_initiator_ready:
  "about_to_upgrade (sample_end (ForBwuIntroduction ''ABCD'' False)) (BwIncoming (Some (sample_channel 2 WIFI_DIRECT))) sample_initiator"
proof -
  have "ReadClientIntroductionFrame (plain_bwu_env (ForBwuIntroduction ''ABCD'' False)) (sample_channel 2 WIFI_DIRECT) =
      Some \<lparr>ci_endpoint_id = Some ''ABCD'', ci_supports_disabling_encryption = Some False, ci_last_endpoint_id = None\<rparr>"
    by code_simp
  moreover have "IsConnectedToEndpoint ''ABCD'' connected_client"
    "\<not> (IsSafeToDisconnectEnabled ''ABCD'' connected_client \<and> IsWaitingForSafeToDisconnectTimeout ''ABCD'' sample_channels)"
    "GetChannelForEndpoint ''ABCD'' sample_channels = Some (sample_channel 1 BLE)"
    by code_simp+
  ultimately show ?thesis
    by (simp add: about_to_upgrade_def sample_end_def sample_side_def sample_bwu_def BwuManager_new_def free_to_upgrade_def
        bw_channel_def introduction_endpoint_def paused_def)
qed

lemma sample_responder_ready:
  "about_to_upgrade (sample_end ForBwuIntroductionAck) (BwFrame ''ABCD'' direct_announcement) sample_responder"
proof -
  have c: "IsConnectedToEndpoint ''ABCD'' outgoing_client" "\<not> IsIncomingConnection ''ABCD'' outgoing_client"
    "\<not> (IsSafeToDisconnectEnabled ''ABCD'' outgoing_client \<and> IsWaitingForSafeToDisconnectTimeout ''ABCD'' sample_channels)"
    "GetChannelForEndpoint ''ABCD'' sample_channels = Some (sample_channel 1 BLE)" "\<not> isWifiLanConnected sample_channels"
    "ReadClientIntroductionAckFrame (plain_bwu_env ForBwuIntroductionAck) (sample_channel 2 WIFI_DIRECT)"
    "path_medium (negotiation_path direct_announcement) = WIFI_DIRECT"
    "bn_event_type direct_announcement = Some UPGRADE_PATH_AVAILABLE"
    by code_simp+
  have h: "GetHandlerForMedium WIFI_DIRECT ((sample_bwu outgoing_client)\<lparr>bw_in_progress := [], bw_tasks := ts\<rparr>) = Some WIFI_DIRECT"
    "GetBwuMediumForEndpoint (plain_bwu_env f) e ((sample_bwu outgoing_client)\<lparr>bw_in_progress := [], bw_tasks := ts\<rparr>) = UNKNOWN_MEDIUM"
    for ts f e
    by (simp_all add: GetHandlerForMedium_def GetBwuMediumForEndpoint_def sample_bwu_def BwuManager_new_def
        InitBwuHandlers_def default_upgrades_def plain_bwu_env_def)
  have "responder_ready (plain_bwu_env ForBwuIntroductionAck) ''ABCD'' (sample_channel 2 WIFI_DIRECT) direct_announcement
      ((sample_bwu outgoing_client)\<lparr>bw_in_progress := [], bw_tasks := ts\<rparr>)" for ts
    unfolding responder_ready_def c Let_def h using c
    by (simp add: h abort_bwu_def bw_channel_def sample_bwu_def BwuManager_new_def)
      (simp add: plain_bwu_env_def)
  then show ?thesis
    using c by (simp add: about_to_upgrade_def sample_end_def sample_side_def free_to_upgrade_def)
      (simp add: sample_bwu_def BwuManager_new_def bw_channel_def paused_def)
qed

lemma sample_ends_proper: "proper_end (sample_end f)"
  by (simp add: proper_end_def writes_succeed_def sample_end_def plain_bwu_env_def sample_channel_def)



end
