(* ===== verification/Bwu_Errors.thy ===== *)
theory Bwu_Errors
  imports Bwu_Props
begin

text \<open>
  More properties of the bandwidth upgrade: retries, the order in which mediums are tried, and what goes
  wrong when frames come early, a write fails or an upgrade is started twice.
\<close>

section \<open>A last frame that comes early\<close>

definition closing_frame :: "upgrade_negotiation \<Rightarrow> bool" where
  "closing_frame n \<longleftrightarrow> bn_event_type n \<in> {Some LAST_WRITE_TO_PRIOR_CHANNEL, Some SAFE_TO_CLOSE_PRIOR_CHANNEL}"

lemma closing_without_channel:
  assumes "closing_frame n" and "previous_channel e s = None"
  shows "previous_channel e (OnBwuNegotiationFrame env e n s) = None \<and>
    bw_log (OnBwuNegotiationFrame env e n s) = bw_log s \<and>
    bw_channels (OnBwuNegotiationFrame env e n s) = bw_channels s"
proof (cases "map_of (bw_previous s) e")
  case None
  then show ?thesis
    using assms by (auto simp: closing_frame_def OnBwuNegotiationFrame_def ProcessLastWriteToPriorChannelEvent_def
        ProcessSafeToClosePriorChannelEvent_def previous_channel_def update_conv' delete_conv' Let_def)
next
  case (Some c)
  then have "c = None" using assms(2) by (simp add: previous_channel_def)
  with Some show ?thesis
    using assms by (auto simp: closing_frame_def OnBwuNegotiationFrame_def ProcessLastWriteToPriorChannelEvent_def
        ProcessSafeToClosePriorChannelEvent_def previous_channel_def update_conv' delete_conv' Let_def)
qed

lemma closings_without_channel:
  assumes "list_all closing_frame ns" and "previous_channel e s = None"
  shows "bw_log (fold (OnBwuNegotiationFrame env e) ns s) = bw_log s \<and>
    bw_channels (fold (OnBwuNegotiationFrame env e) ns s) = bw_channels s"
  using assms
proof (induction ns arbitrary: s)
  case (Cons n ns)
  have n: "closing_frame n" and ns: "list_all closing_frame ns" using Cons.prems(1) by simp_all
  note one = closing_without_channel [OF n Cons.prems(2), of env]
  from Cons.IH [OF ns conjunct1 [OF one]] one show ?case by simp
qed simp

text \<open>
  C35: The last frame of the peer that arrives before this side has its new channel, which the code
  means to remember, is lost: the look-up leaves a null entry behind, so the old channel is not kept; the
  peer is never told that it is safe to close, and whatever closing frames it sends, the new channel
  is never resumed.
\<close>

theorem early_last_write_stalls:
  assumes "writes_succeed E" and "free_to_upgrade E s" and "bw_channel (ue_peer E) s = Some (ue_old E)"
    and "previous_channel (ue_peer E) s = None"
    and "bn_event_type n = Some LAST_WRITE_TO_PRIOR_CHANNEL" and "list_all closing_frame ns"
  shows "let t = fold (OnBwuNegotiationFrame (ue_env E) (ue_peer E)) ns
      (RunUpgradeProtocol (ue_env E) (ue_peer E) (ue_new E) enc (OnBwuNegotiationFrame (ue_env E) (ue_peer E) n s)) in
    bw_log t = bw_log s @ [BwPaused (channel_id (ue_new E)), BwWritten (channel_id (ue_old E)) ForBwuLastWrite] \<and>
    paused (channel_id (ue_new E)) (bw_log t) \<and>
    map_option channel_id (bw_channel (ue_peer E) t) = Some (channel_id (ue_new E))"
proof -
  let ?e = "ue_peer E"
  define s1 where "s1 = OnBwuNegotiationFrame (ue_env E) ?e n s"
  have s1: "s1 = s\<lparr>bw_previous := (if map_of (bw_previous s) ?e = None then AList.update ?e None (bw_previous s)
        else bw_previous s), bw_upgraded := List.insert ?e (bw_upgraded s)\<rparr>"
    using assms(2,4,5) by (simp add: s1_def OnBwuNegotiationFrame_def free_to_upgrade_def
        ProcessLastWriteToPriorChannelEvent_def)
  have null: "map_of (bw_previous s1) ?e = Some None"
    using assms(4) by (cases "map_of (bw_previous s) ?e") (simp_all add: s1 previous_channel_def update_conv')
  obtain c where c: "GetChannelForEndpoint ?e (ReplaceChannelForEndpoint (IsSafeToDisconnectEnabled ?e (bw_client s))
      ?e (ue_new E) enc (bw_channels s)) = Some c" "channel_id c = channel_id (ue_new E)"
    using replaced_channel [OF assms(2)] by blast
  define u where "u = RunUpgradeProtocol (ue_env E) ?e (ue_new E) enc s1"
  have ch: "bw_channel ?e s1 = Some (ue_old E)" "bw_client s1 = bw_client s" "bw_channels s1 = bw_channels s"
    "bw_log s1 = bw_log s" "?e \<in> set (bw_upgraded s1)"
    using assms(3) by (simp_all add: s1 bw_channel_def)
  have u: "bw_log u = bw_log s @ [BwPaused (channel_id (ue_new E)), BwWritten (channel_id (ue_old E)) ForBwuLastWrite]"
    "previous_channel ?e u = None"
    "bw_channels u = ReplaceChannelForEndpoint (IsSafeToDisconnectEnabled ?e (bw_client s)) ?e (ue_new E) enc (bw_channels s)"
    using null ch by (simp_all add: u_def RunUpgradeProtocol_def write_on_ok [OF assms(1)] Let_def
        ProcessLastWriteToPriorChannelEvent_def previous_channel_def)
  from closings_without_channel [OF assms(6) u(2), of "ue_env E"] show ?thesis
    using u c by (simp add: Let_def u_def [symmetric] s1_def [symmetric] bw_channel_def)
qed

text \<open>
  A second \<open>SAFE_TO_CLOSE_PRIOR_CHANNEL\<close>, or one that was not waited for, makes the manager follow an empty
  node handle.
\<close>

lemma stray_safe_to_close_crashes:
  assumes "IsConnectedToEndpoint e (bw_client s)" and "map_of (bw_previous s) e = None"
    and "bn_event_type n = Some SAFE_TO_CLOSE_PRIOR_CHANNEL"
  shows "bw_crashed (OnBwuNegotiationFrame env e n s)"
  using assms by (simp add: OnBwuNegotiationFrame_def ProcessSafeToClosePriorChannelEvent_def Let_def)

section \<open>A last frame that cannot be written\<close>

text \<open>
  When the old channel fails just when the endpoint was moved to its new channel, the upgrade is
  given up but not undone: the endpoint stays on a new channel that is paused, so that everyone who
  writes to it waits, and the endpoint counts as being upgraded, so that the peer's next offer
  closes its channel.
\<close>

theorem failed_last_write_blocks:
  assumes "free_to_upgrade E s" and "bw_channel (ue_peer E) s = Some (ue_old E)"
    and "\<And>l. \<not> be_write (ue_env E) l (channel_id (ue_old E)) ForBwuLastWrite"
    and "ue_peer E \<in> set (bw_in_progress s)" and "previous_channel (ue_peer E) s = None"
    and "\<not> abort_bwu (ue_env E) (ue_peer E) (path_medium info) s"
    and "path_medium info \<notin> {WIFI_HOTSPOT, WIFI_DIRECT}"
  shows "let t = RunUpgradeProtocol (ue_env E) (ue_peer E) (ue_new E) enc s in
    map_option channel_id (bw_channel (ue_peer E) t) = Some (channel_id (ue_new E)) \<and>
    paused (channel_id (ue_new E)) (bw_log t) \<and> IsUpgradeOngoing (ue_peer E) t \<and>
    bw_log (ProcessBwuPathAvailableEvent (ue_env E) (ue_peer E) info t) =
      bw_log t @ [BwResumed (channel_id (ue_new E)), BwClosed (channel_id (ue_new E)) (Some UNFINISHED)]"
proof -
  define t where "t = RunUpgradeProtocol (ue_env E) (ue_peer E) (ue_new E) enc s"
  obtain c where c: "GetChannelForEndpoint (ue_peer E) (ReplaceChannelForEndpoint (IsSafeToDisconnectEnabled (ue_peer E)
      (bw_client s)) (ue_peer E) (ue_new E) enc (bw_channels s)) = Some c" "channel_id c = channel_id (ue_new E)"
    using replaced_channel [OF assms(1)] by blast
  have t: "t = (bw_event (BwPaused (channel_id (ue_new E))) s)\<lparr>bw_channels :=
      ReplaceChannelForEndpoint (IsSafeToDisconnectEnabled (ue_peer E) (bw_client s)) (ue_peer E) (ue_new E) enc (bw_channels s)\<rparr>"
    using assms(2,3) by (simp add: t_def RunUpgradeProtocol_def write_on_def Let_def)
  have on: "bw_channel (ue_peer E) t = Some c" using c by (simp add: t bw_channel_def)
  have "abort_bwu (ue_env E) (ue_peer E) (path_medium info) t = abort_bwu (ue_env E) (ue_peer E) (path_medium info) s"
    "previous_channel (ue_peer E) t = None" "ue_peer E \<in> set (bw_in_progress t)"
    using assms(4,5) by (simp_all add: t abort_bwu_def previous_channel_def)
  then have "ProcessBwuPathAvailableEvent (ue_env E) (ue_peer E) info t = close_all_channels (ue_peer E) t"
    and "bw_log (close_all_channels (ue_peer E) t) =
      bw_log t @ [BwResumed (channel_id (ue_new E)), BwClosed (channel_id (ue_new E)) (Some UNFINISHED)]"
    using assms(6,7) on c(2)
    by (simp_all add: ProcessBwuPathAvailableEvent_def close_all_channels_def close_on_def bw_channel_def Let_def)
  then show ?thesis using on c(2) assms(4)
    by (simp add: t_def [symmetric] Let_def IsUpgradeOngoing_def) (simp add: t)
qed

section \<open>Retries\<close>

lemma retry_step:
  "map_of (bw_delays (RetryUpgradesAfterDelay env e s)) e = Some (CalculateNextRetryDelay env e s)"
  "bw_alarms (RetryUpgradesAfterDelay env e s) =
     AList.update e (CalculateNextRetryDelay env e s) (AList.delete e (bw_alarms s))"
  by (simp_all add: RetryUpgradesAfterDelay_def CancelRetryUpgradeAlarm_def Let_def update_conv')

lemma retried_delay:
  assumes "map_of (bw_delays s) e = None" and "be_retry_delay env \<le> be_retry_max_delay env"
    and "0 < be_retry_delay env"
  shows "map_of (bw_delays ((RetryUpgradesAfterDelay env e ^^ Suc n) s)) e =
    Some (min (if be_exp_backoff env then be_retry_delay env * 2 ^ n else be_retry_delay env * (int n + 1))
              (be_retry_max_delay env))"
proof (induction n)
  case 0
  show ?case using assms by (simp add: retry_step CalculateNextRetryDelay_def)
next
  case (Suc n)
  have "0 < be_retry_delay env * 2 ^ n" using assms(3) by simp
  with Suc assms show ?case
    by (simp add: retry_step CalculateNextRetryDelay_def algebra_simps) (simp add: min_def algebra_simps)
qed

text \<open>
  An endpoint whose upgrades fail again and again is retried after delays that double, or grow by
  the first delay, and never exceed the maximum; there is one alarm for it at any time.
\<close>

theorem retry_delays:
  assumes "map_of (bw_delays s) e = None" and "0 < be_retry_delay env" and "be_retry_delay env \<le> be_retry_max_delay env"
  shows "let t = (RetryUpgradesAfterDelay env e ^^ Suc n) s;
      delay = min (if be_exp_backoff env then be_retry_delay env * 2 ^ n else be_retry_delay env * (int n + 1))
                  (be_retry_max_delay env) in
    map_of (bw_delays t) e = Some delay \<and> map_of (bw_alarms t) e = Some delay \<and>
    length (filter (\<lambda>(k, _). k = e) (bw_alarms t)) = 1"
proof -
  define r where "r = (RetryUpgradesAfterDelay env e ^^ n) s"
  have t: "(RetryUpgradesAfterDelay env e ^^ Suc n) s = RetryUpgradesAfterDelay env e r" by (simp add: r_def)
  have one: "length (filter (\<lambda>(k, _). k = e) (AList.update e d (AList.delete e xs))) = 1" for d and xs :: "(string \<times> int) list"
    by (induction xs) auto
  have "Some (CalculateNextRetryDelay env e r) = Some (min (if be_exp_backoff env then be_retry_delay env * 2 ^ n
      else be_retry_delay env * (int n + 1)) (be_retry_max_delay env))"
    using retried_delay [OF assms(1,3,2), of n] unfolding t retry_step(1) .
  then show ?thesis unfolding t Let_def by (simp add: retry_step update_conv' one del: funpow.simps)
qed

section \<open>Concrete inputs\<close>

lemma sample_on_ble: "bw_channel ''ABCD'' (sample_bwu client) = Some (sample_channel 1 BLE)"
proof -
  have "GetChannelForEndpoint ''ABCD'' sample_channels = Some (sample_channel 1 BLE)" by code_simp
  then show ?thesis by (simp add: bw_channel_def sample_bwu_def BwuManager_new_def)
qed

lemma sample_free: "free_to_upgrade E ((sample_bwu outgoing_client)\<lparr>bw_in_progress := es\<rparr>)" if "ue_peer E = ''ABCD''"
proof -
  have "IsConnectedToEndpoint ''ABCD'' outgoing_client"
    "\<not> (IsSafeToDisconnectEnabled ''ABCD'' outgoing_client \<and> IsWaitingForSafeToDisconnectTimeout ''ABCD'' sample_channels)"
    by code_simp+
  then show ?thesis by (simp add: that free_to_upgrade_def sample_bwu_def BwuManager_new_def)
qed

theorem early_last_write_stalls_witness:
  "let s = (sample_bwu outgoing_client)\<lparr>bw_in_progress := [''ABCD'']\<rparr>; env = plain_bwu_env ForBwuIntroductionAck;
      t = fold (OnBwuNegotiationFrame env ''ABCD'') [new_negotiation SAFE_TO_CLOSE_PRIOR_CHANNEL]
        (RunUpgradeProtocol env ''ABCD'' (sample_channel 2 WIFI_DIRECT) True
          (OnBwuNegotiationFrame env ''ABCD'' (new_negotiation LAST_WRITE_TO_PRIOR_CHANNEL) s)) in
    bw_log t = [BwPaused 2, BwWritten 1 ForBwuLastWrite] \<and> paused 2 (bw_log t)"
proof -
  let ?E = "sample_end ForBwuIntroductionAck" and ?s = "(sample_bwu outgoing_client)\<lparr>bw_in_progress := [''ABCD'']\<rparr>"
  have E: "ue_peer ?E = ''ABCD''" "ue_env ?E = plain_bwu_env ForBwuIntroductionAck" "channel_id (ue_old ?E) = 1"
    "ue_old ?E = sample_channel 1 BLE" "ue_new ?E = sample_channel 2 WIFI_DIRECT" "channel_id (sample_channel 1 BLE) = 1"
    "channel_id (sample_channel 2 WIFI_DIRECT) = 2"
    by (simp_all add: sample_end_def sample_channel_def)
  have "writes_succeed ?E" using sample_ends_proper by (simp add: proper_end_def)
  moreover have "bw_channel (ue_peer ?E) ?s = Some (ue_old ?E)"
    unfolding E using sample_on_ble by (simp add: bw_channel_def)
  moreover have "previous_channel (ue_peer ?E) ?s = None" "bw_log ?s = []"
    by (simp_all add: previous_channel_def sample_bwu_def BwuManager_new_def)
  moreover have "bn_event_type (new_negotiation LAST_WRITE_TO_PRIOR_CHANNEL) = Some LAST_WRITE_TO_PRIOR_CHANNEL"
    "list_all closing_frame [new_negotiation SAFE_TO_CLOSE_PRIOR_CHANNEL]"
    by (simp_all add: closing_frame_def new_negotiation_def)
  ultimately show ?thesis
    using early_last_write_stalls [OF _ sample_free [OF E(1), of "[''ABCD'']"], where enc = True
        and n = "new_negotiation LAST_WRITE_TO_PRIOR_CHANNEL" and ns = "[new_negotiation SAFE_TO_CLOSE_PRIOR_CHANNEL]"]
    by (simp add: E Let_def paused_def del: One_nat_def)
qed

theorem failed_last_write_blocks_witness:
  "let s = (sample_bwu outgoing_client)\<lparr>bw_in_progress := [''ABCD'']\<rparr>;
      env = (plain_bwu_env ForBwuIntroductionAck)\<lparr>be_write := \<lambda>_ n f. n \<noteq> 1\<rparr>;
      t = RunUpgradeProtocol env ''ABCD'' (sample_channel 2 WIFI_DIRECT) True s in
    paused 2 (bw_log t) \<and> IsUpgradeOngoing ''ABCD'' t \<and>
    bw_log (ProcessBwuPathAvailableEvent env ''ABCD'' (failed_path BLUETOOTH) t) =
      bw_log t @ [BwResumed 2, BwClosed 2 (Some UNFINISHED)]"
proof -
  let ?s = "(sample_bwu outgoing_client)\<lparr>bw_in_progress := [''ABCD'']\<rparr>"
  let ?E = "(sample_end ForBwuIntroductionAck)\<lparr>ue_env := (plain_bwu_env ForBwuIntroductionAck)\<lparr>be_write := \<lambda>_ n f. n \<noteq> 1\<rparr>\<rparr>"
  have E: "ue_peer ?E = ''ABCD''" "ue_env ?E = (plain_bwu_env ForBwuIntroductionAck)\<lparr>be_write := \<lambda>_ n f. n \<noteq> 1\<rparr>"
    "ue_old ?E = sample_channel 1 BLE" "ue_new ?E = sample_channel 2 WIFI_DIRECT" "channel_id (sample_channel 1 BLE) = 1"
    "channel_id (sample_channel 2 WIFI_DIRECT) = 2"
    by (simp_all add: sample_end_def sample_channel_def)
  have "bw_channel (ue_peer ?E) ?s = Some (ue_old ?E)"
    unfolding E using sample_on_ble by (simp add: bw_channel_def)
  moreover have "previous_channel (ue_peer ?E) ?s = None" "ue_peer ?E \<in> set (bw_in_progress ?s)"
    unfolding E by (simp_all add: previous_channel_def sample_bwu_def BwuManager_new_def)
  moreover have "\<not> abort_bwu (ue_env ?E) (ue_peer ?E) (path_medium (failed_path BLUETOOTH)) ?s"
  proof -
    have "\<not> IsIncomingConnection ''ABCD'' outgoing_client" by code_simp
    then show ?thesis unfolding E by (simp add: abort_bwu_def sample_bwu_def BwuManager_new_def)
  qed
  moreover have "path_medium (failed_path BLUETOOTH) \<notin> {WIFI_HOTSPOT, WIFI_DIRECT}"
    by (simp add: path_medium_def failed_path_def)
  ultimately show ?thesis
    using failed_last_write_blocks [OF sample_free [OF E(1), of "[''ABCD'']"], where enc = True and info = "failed_path BLUETOOTH"]
    unfolding E Let_def by simp
qed

theorem retry_delays_witness:
  "map_of (bw_alarms ((RetryUpgradesAfterDelay (plain_bwu_env ForBwuIntroductionAck) ''ABCD'' ^^ Suc 2) (sample_bwu connected_client))) ''ABCD'' =
    Some 12000"
  using retry_delays [of "sample_bwu connected_client" "''ABCD''" "plain_bwu_env ForBwuIntroductionAck" 2]
  by (simp add: plain_bwu_env_def sample_bwu_def BwuManager_new_def Let_def del: funpow.simps)

end
