(* ===== verification/Bwu_Retries.thy ===== *)
theory Bwu_Retries
  imports Bwu_Errors
begin

text \<open>
  Which mediums an upgrade tries, and how long a medium that was set up for it stays set up.
\<close>

section \<open>Down the list of mediums\<close>

text \<open>No medium can be set up, or its announcement cannot be written.\<close>

definition attempts_fail :: "bwu_env \<Rightarrow> string \<Rightarrow> endpoint_channel \<Rightarrow> bool" where
  "attempts_fail env e c \<longleftrightarrow>
     (\<forall>m svc f l. be_initialize env m svc e = Some f \<longrightarrow> \<not> be_write env l (channel_id c) f)"

definition upgrade_attempts :: "bwu_env \<Rightarrow> string \<Rightarrow> endpoint_channel \<Rightarrow> bwu_manager \<Rightarrow> Medium list" where
  "upgrade_attempts env e c s =
     takeWhile (\<lambda>m. m \<noteq> channel_medium c) (StripOutUnavailableMediums env (GetUpgradeMediums e (bw_client s)) s)"

text \<open>What an attempt that fails leaves as it was.\<close>

definition still_upgrading :: "string \<Rightarrow> bwu_manager \<Rightarrow> bwu_manager \<Rightarrow> bool" where
  "still_upgrading e s t \<longleftrightarrow> bw_handlers t = bw_handlers s \<and> bw_client t = bw_client s \<and>
     bw_channels t = bw_channels s \<and> e \<notin> set (bw_in_progress t) \<and> bw_delays t = bw_delays s"

definition upgrade_base :: "bwu_env \<Rightarrow> string \<Rightarrow> endpoint_channel \<Rightarrow> bwu_manager \<Rightarrow> bool" where
  "upgrade_base env e c s \<longleftrightarrow> be_multiple_mediums env \<and> \<not> be_role_switch env \<and> attempts_fail env e c \<and>
     bw_channel e s = Some c \<and> \<not> isWifiLanConnected (bw_channels s) \<and> channel_medium c \<noteq> WIFI_LAN \<and>
     e \<notin> set (bw_in_progress s) \<and> distinct (GetUpgradeMediums e (bw_client s))"

lemma upgrade_base_still:
  assumes "upgrade_base env e c s" and "still_upgrading e s t"
  shows "upgrade_base env e c t" and "upgrade_attempts env e c t = upgrade_attempts env e c s"
proof -
  have h: "GetHandlerForMedium m t = GetHandlerForMedium m s" for m
    using assms(2) by (simp add: still_upgrading_def GetHandlerForMedium_def)
  show "upgrade_base env e c t"
    using assms by (auto simp: upgrade_base_def still_upgrading_def bw_channel_def)
  show "upgrade_attempts env e c t = upgrade_attempts env e c s"
    using assms(2) by (simp add: upgrade_attempts_def StripOutUnavailableMediums_def h still_upgrading_def)
qed

lemma still_trans: "still_upgrading e s t \<Longrightarrow> still_upgrading e t u \<Longrightarrow> still_upgrading e s u"
  by (simp add: still_upgrading_def)

lemma upgradeable_path: "medium_can_upgrade m \<Longrightarrow> path_medium (failed_path m) = m"
  by (auto simp: medium_can_upgrade_def path_medium_def failed_path_def)

lemma Revert_still:
  assumes "be_multiple_mediums env"
  shows "bw_handlers (RevertBwuMediumForEndpoint env svc e s) = bw_handlers s"
    "bw_client (RevertBwuMediumForEndpoint env svc e s) = bw_client s"
    "bw_channels (RevertBwuMediumForEndpoint env svc e s) = bw_channels s"
    "bw_in_progress (RevertBwuMediumForEndpoint env svc e s) = bw_in_progress s"
    "bw_delays (RevertBwuMediumForEndpoint env svc e s) = bw_delays s"
    "bw_tasks (RevertBwuMediumForEndpoint env svc e s) = bw_tasks s"
    "GetBwuMediumForEndpoint env e (RevertBwuMediumForEndpoint env svc e s) = UNKNOWN_MEDIUM"
  using assms
  by (auto simp: RevertBwuMediumForEndpoint_def GetBwuMediumForEndpoint_def RevertInitiatorState_endpoint_def
      RevertResponderState_def delete_conv' Let_def split: option.splits)

lemma GetBwuMedium_fields:
  "GetBwuMediumForEndpoint env e (s\<lparr>bw_active := a\<rparr>) = GetBwuMediumForEndpoint env e s"
  "GetBwuMediumForEndpoint env e (bw_event ev s) = GetBwuMediumForEndpoint env e s"
  "GetBwuMediumForEndpoint env e (s\<lparr>bw_in_progress := p\<rparr>) = GetBwuMediumForEndpoint env e s"
  "GetBwuMediumForEndpoint env e (s\<lparr>bw_alarms := l, bw_delays := d\<rparr>) = GetBwuMediumForEndpoint env e s"
  by (simp_all add: GetBwuMediumForEndpoint_def)

lemma failed_attempt:
  assumes b: "upgrade_base env e c s" and m: "m \<in> set (upgrade_attempts env e c s)"
  obtains t where "run_bwu_init env e m s =
      TryNextBestUpgradeMediums env e (untried_mediums m (GetUpgradeMediums e (bw_client s))) t"
    and "still_upgrading e s t" and "bw_tasks t = bw_tasks s" and "GetBwuMediumForEndpoint env e t = UNKNOWN_MEDIUM"
proof -
  define s1 where "s1 = CancelRetryUpgradeAlarm e (SetBwuMediumForEndpoint env e m s)"
  have ok: "m \<noteq> channel_medium c" "GetHandlerForMedium m s \<noteq> None" "medium_can_upgrade m"
    using m by (auto simp: upgrade_attempts_def StripOutUnavailableMediums_def dest: set_takeWhileD)
  then have unk: "m \<noteq> UNKNOWN_MEDIUM" by (auto simp: medium_can_upgrade_def)
  have s1: "still_upgrading e s s1" "bw_tasks s1 = bw_tasks s" "GetBwuMediumForEndpoint env e s1 = m"
    "bw_channel e s1 = Some c"
    using b by (simp_all add: s1_def still_upgrading_def upgrade_base_def CancelRetryUpgradeAlarm_def bw_channel_def
        SetBwuMediumForEndpoint_def GetBwuMediumForEndpoint_def update_conv')
  have "run_bwu_init env e m s = announce_path env e m c s1"
  proof -
    have "GetMediumRole e (bw_client s1) = None \<or> (\<exists>r. GetMediumRole e (bw_client s1) = Some r)" by auto
    then show ?thesis
      using b ok s1(4) by (auto simp: run_bwu_init_def upgrade_base_def s1_def [symmetric] Let_def)
  qed
  moreover obtain s2 where s2: "announce_path env e m c s1 = ProcessUpgradeFailureEvent env e (failed_path m) s2"
    "still_upgrading e s s2" "bw_tasks s2 = bw_tasks s" "GetBwuMediumForEndpoint env e s2 = m"
  proof (cases "be_initialize env m (WrapInitiatorUpgradeServiceId (be_service_id env (channel_id c))) e")
    case None
    then show ?thesis using s1 by (intro that [of s1])
        (simp_all add: announce_path_def InitializeUpgradedMediumForEndpoint_def Let_def)
  next
    case (Some f)
    define s2 where "s2 = snd (InitializeUpgradedMediumForEndpoint env m (be_service_id env (channel_id c)) e s1)"
    have "\<And>l. \<not> be_write env l (channel_id c) f" using b Some by (auto simp: upgrade_base_def attempts_fail_def)
    then show ?thesis using s1 Some
      by (intro that [of s2]) (simp_all add: announce_path_def InitializeUpgradedMediumForEndpoint_def Let_def
          write_on_def s2_def still_upgrading_def GetBwuMedium_fields)
  qed
  ultimately have run: "run_bwu_init env e m s = ProcessUpgradeFailureEvent env e (failed_path m) s2" by simp
  define s3 where "s3 = s2\<lparr>bw_in_progress := removeAll e (bw_in_progress s2)\<rparr>"
  have s3: "GetBwuMediumForEndpoint env e s3 = m" "bw_client s3 = bw_client s" "bw_tasks s3 = bw_tasks s"
    "still_upgrading e s s3"
    using s2 by (simp_all add: s3_def GetBwuMediumForEndpoint_def still_upgrading_def)
  define svc where "svc = WrapInitiatorUpgradeServiceId
      (case bw_channel e s3 of Some c \<Rightarrow> be_service_id env (channel_id c) | None \<Rightarrow> kUnknownServiceId)"
  define t where "t = RevertBwuMediumForEndpoint env svc e s3"
  have multi: "be_multiple_mediums env" using b by (simp add: upgrade_base_def)
  have "ProcessUpgradeFailureEvent env e (failed_path m) s2 =
      TryNextBestUpgradeMediums env e (untried_mediums m (GetUpgradeMediums e (bw_client t))) t"
    using multi s3(1) unk
    by (simp add: ProcessUpgradeFailureEvent_def s3_def [symmetric] svc_def [symmetric] t_def [symmetric]
        upgradeable_path [OF ok(3)] Let_def)
  with run show ?thesis
    using s3 by (intro that [of t]) (simp_all add: t_def Revert_still [OF multi] still_upgrading_def)
qed

lemma untried_filter:
  assumes "distinct ms" and "filter P ms = xs @ m # ys"
  shows "filter P (untried_mediums m ms) = ys"
  using assms
proof (induction ms arbitrary: xs)
  case (Cons a ms)
  show ?case
  proof (cases "a = m")
    case True
    have "m \<notin> set xs"
    proof (cases xs)
      case Nil then show ?thesis by simp
    next
      case (Cons x xs')
      have "distinct (filter P (a # ms))" using Cons.prems(1) by (rule distinct_filter)
      with Cons.prems(2) show ?thesis by auto
    qed
    have "P m" using Cons.prems(2) by (metis in_set_conv_decomp set_filter mem_Collect_eq)
    with True Cons.prems(2) have "m # filter P ms = xs @ m # ys" by simp
    with \<open>m \<notin> set xs\<close> have "xs = []" by (cases xs) auto
    with \<open>m # filter P ms = xs @ m # ys\<close> True show ?thesis by simp
  next
    case False
    show ?thesis
    proof (cases "P a")
      case True
      with Cons.prems(2) False obtain xs' where "xs = a # xs'" by (cases xs) auto
      with Cons.IH [of xs'] Cons.prems True False show ?thesis by simp
    next
      case P: False
      with Cons.IH [of xs] Cons.prems False show ?thesis by simp
    qed
  qed
qed simp

text \<open>After an attempt that failed: the next one, or the alarm.\<close>

lemma next_attempt:
  assumes b: "upgrade_base env e c s" and k: "k < length (upgrade_attempts env e c s)" and ts: "bw_tasks s = []"
  defines "t \<equiv> run_bwu_init env e (upgrade_attempts env e c s ! k) s"
  shows "if Suc k < length (upgrade_attempts env e c s)
    then still_upgrading e s t \<and> bw_tasks t = [BwInitiate e (upgrade_attempts env e c s ! Suc k)]
    else bw_tasks t = [] \<and> map_of (bw_alarms t) e = Some (CalculateNextRetryDelay env e s) \<and>
      e \<notin> set (bw_in_progress t) \<and> GetBwuMediumForEndpoint env e t = UNKNOWN_MEDIUM"
proof -
  let ?at = "upgrade_attempts env e c s" and ?ms = "GetUpgradeMediums e (bw_client s)"
  define all where "all = StripOutUnavailableMediums env ?ms s"
  have at: "?at = takeWhile (\<lambda>m. m \<noteq> channel_medium c) all" by (simp add: upgrade_attempts_def all_def)
  have len: "length ?at \<le> length all" by (simp add: at length_takeWhile_le)
  have nth: "?at ! i = all ! i" if "i < length ?at" for i using that by (simp add: at takeWhile_nth)
  obtain u where u: "t = TryNextBestUpgradeMediums env e (untried_mediums (?at ! k) ?ms) u"
    "still_upgrading e s u" "bw_tasks u = []" "GetBwuMediumForEndpoint env e u = UNKNOWN_MEDIUM"
    using failed_attempt [OF b nth_mem [OF k]] ts unfolding t_def by metis
  have h: "GetHandlerForMedium m u = GetHandlerForMedium m s" for m
    using u(2) by (simp add: still_upgrading_def GetHandlerForMedium_def)
  have "StripOutUnavailableMediums env xs u = StripOutUnavailableMediums env xs s" for xs
    by (simp add: StripOutUnavailableMediums_def h)
  moreover have "all = take k all @ ?at ! k # drop (Suc k) all"
    using k len by (simp add: nth id_take_nth_drop)
  ultimately have rest: "StripOutUnavailableMediums env (untried_mediums (?at ! k) ?ms) u = drop (Suc k) all"
    using untried_filter [of ?ms _ "take k all"] b by (simp add: StripOutUnavailableMediums_def all_def upgrade_base_def)
  define nxt where "nxt = ChooseBestUpgradeMedium env e (untried_mediums (?at ! k) ?ms) u"
  have nxt: "nxt = (if drop (Suc k) all \<noteq> [] then hd (drop (Suc k) all) else UNKNOWN_MEDIUM)"
    by (simp add: nxt_def ChooseBestUpgradeMedium_def rest u(4) Let_def)
  have ch: "bw_channel e u = Some c" "channel_medium c \<noteq> WIFI_LAN"
    using b u(2) by (simp_all add: upgrade_base_def still_upgrading_def bw_channel_def)
  show ?thesis
  proof (cases "Suc k < length ?at")
    case True
    then have n: "nxt = ?at ! Suc k" using len by (simp add: nxt hd_drop_conv_nth nth)
    have "nxt \<in> set ?at" using True n by simp
    then have ok: "nxt \<noteq> channel_medium c" "nxt \<in> set all" by (auto simp: at dest: set_takeWhileD)
    then have "GetHandlerForMedium nxt u \<noteq> None" "nxt \<noteq> UNKNOWN_MEDIUM"
      by (auto simp: all_def StripOutUnavailableMediums_def h medium_can_upgrade_def)
    moreover have "untried_mediums (?at ! k) ?ms \<noteq> []"
      using rest True len by (auto simp: StripOutUnavailableMediums_def)
    ultimately show ?thesis
      using True u ok(1) ch n
      by (simp add: TryNextBestUpgradeMediums_def nxt_def [symmetric] Bwu_InitiateBwuForEndpoint_def RunOnBwuManagerThread_def
          still_upgrading_def SetBwuMediumForEndpoint_def GetHandlerForMedium_def Let_def)
  next
    case False
    then have "length ?at = Suc k" using k by simp
    then have "nxt = UNKNOWN_MEDIUM \<or> nxt = channel_medium c"
      using nth_length_takeWhile [of "\<lambda>m. m \<noteq> channel_medium c" all]
      by (auto simp: nxt at hd_drop_conv_nth)
    then have "t = RetryUpgradesAfterDelay env e u"
      using ch by (auto simp: u(1) TryNextBestUpgradeMediums_def nxt_def [symmetric] Let_def)
    moreover have "CalculateNextRetryDelay env e u = CalculateNextRetryDelay env e s"
      using u(2) by (simp add: CalculateNextRetryDelay_def still_upgrading_def)
    ultimately show ?thesis
      using False u(2-4) by (simp add: RetryUpgradesAfterDelay_def CancelRetryUpgradeAlarm_def still_upgrading_def
          GetBwuMedium_fields update_conv' Let_def)
  qed
qed

lemma attempts_run:
  assumes b: "upgrade_base env e c s" and "bw_tasks s = [BwInitiate e (upgrade_attempts env e c s ! 0)]"
    and "k < length (upgrade_attempts env e c s)"
  shows "still_upgrading e s ((run_next_bwu_task env ^^ k) s) \<and>
    bw_tasks ((run_next_bwu_task env ^^ k) s) = [BwInitiate e (upgrade_attempts env e c s ! k)]"
  using assms(3)
proof (induction k)
  case 0
  then show ?case using b assms(2) by (simp add: still_upgrading_def upgrade_base_def)
next
  case (Suc k)
  define t where "t = (run_next_bwu_task env ^^ k) s"
  have t: "still_upgrading e s t" "bw_tasks t = [BwInitiate e (upgrade_attempts env e c s ! k)]"
    using Suc by (simp_all add: t_def)
  define t0 where "t0 = t\<lparr>bw_tasks := []\<rparr>"
  have t0: "still_upgrading e s t0" "bw_tasks t0 = []" using t(1) by (simp_all add: t0_def still_upgrading_def)
  note base = upgrade_base_still [OF b t0(1)]
  have "run_next_bwu_task env t = run_bwu_init env e (upgrade_attempts env e c s ! k) t0"
    by (simp add: run_next_bwu_task_def t t0_def)
  with next_attempt [OF base(1) _ t0(2), of k] Suc.prems base(2) still_trans [OF t0(1)]
  show ?case by (simp add: t_def [symmetric])
qed


section \<open>Who uses a medium\<close>

datatype medium_use = Uses string | Leaves string

fun use_medium :: "bwu_env \<Rightarrow> Medium \<Rightarrow> string \<Rightarrow> medium_use \<Rightarrow> bwu_manager \<Rightarrow> bwu_manager" where
  "use_medium env m svc (Uses e) s = snd (InitializeUpgradedMediumForEndpoint env m svc e s)"
| "use_medium env m svc (Leaves e) s = RevertInitiatorState_endpoint m (WrapInitiatorUpgradeServiceId svc) e s"

text \<open>The specification: a set of users, and the number of times its last user left.\<close>

fun use_spec :: "(string \<Rightarrow> bool) \<Rightarrow> medium_use \<Rightarrow> string set \<times> nat \<Rightarrow> string set \<times> nat" where
  "use_spec ok (Uses e) (U, n) = (if ok e then insert e U else U, n)"
| "use_spec ok (Leaves e) (U, n) = (U - {e}, if U = {e} then Suc n else n)"

definition medium_users :: "Medium \<Rightarrow> string \<Rightarrow> bwu_manager \<Rightarrow> string set \<times> nat" where
  "medium_users m svc s =
     (set (active_endpoints m (WrapInitiatorUpgradeServiceId svc) s),
      count_list (bw_log s) (HandlerReverted m (WrapInitiatorUpgradeServiceId svc)))"

lemma wrapped_service_id: "svc \<noteq> [] \<Longrightarrow> IsInitiatorUpgradeServiceId (WrapInitiatorUpgradeServiceId svc)"
  by (simp add: WrapInitiatorUpgradeServiceId_def IsInitiatorUpgradeServiceId_def)

lemma active_update:
  "active_endpoints m svc (s\<lparr>bw_active := AList.update (m, svc) es (bw_active s)\<rparr>) = es"
  "active_endpoints m svc (s\<lparr>bw_active := AList.delete (m, svc) (bw_active s)\<rparr>) = []"
  by (simp_all add: active_endpoints_def update_conv' delete_conv')

lemma use_step_uses:
  "medium_users m svc (use_medium env m svc (Uses e) s) =
    use_spec (\<lambda>e. be_initialize env m (WrapInitiatorUpgradeServiceId svc) e \<noteq> None) (Uses e) (medium_users m svc s)"
  by (cases "be_initialize env m (WrapInitiatorUpgradeServiceId svc) e")
    (simp_all add: medium_users_def InitializeUpgradedMediumForEndpoint_def active_update Let_def)

lemma removeAll_empty: "(removeAll e es = []) = (set es \<subseteq> {e})"
  by (induction es) auto

lemma leaves_run:
  assumes "IsInitiatorUpgradeServiceId w" and "active_endpoints m w s = es"
  shows "RevertInitiatorState_endpoint m w e s = (if es = [] then s else if set es \<subseteq> {e}
      then bw_event (HandlerReverted m w) (s\<lparr>bw_active := AList.delete (m, w) (bw_active s)\<rparr>)
      else s\<lparr>bw_active := AList.update (m, w) (removeAll e es) (bw_active s)\<rparr>)"
  by (simp only: RevertInitiatorState_endpoint_def Let_def assms removeAll_empty not_True_eq_False simp_thms)

lemma active_event: "active_endpoints m w (bw_event ev t) = active_endpoints m w t"
  by (simp add: active_endpoints_def)

lemma use_step_leaves:
  assumes "svc \<noteq> []"
  shows "medium_users m svc (use_medium env m svc (Leaves e) s) = use_spec ok (Leaves e) (medium_users m svc s)"
proof -
  define w where "w = WrapInitiatorUpgradeServiceId svc"
  define es where "es = active_endpoints m w s"
  have w: "IsInitiatorUpgradeServiceId w" unfolding w_def by (rule wrapped_service_id [OF assms])
  note run = leaves_run [OF w es_def [symmetric], of e]
  have spec: "use_spec ok (Leaves e) (medium_users m svc s) = (set es - {e},
      if set es = {e} then Suc (count_list (bw_log s) (HandlerReverted m w)) else count_list (bw_log s) (HandlerReverted m w))"
    by (simp add: medium_users_def w_def es_def)
  have lhs: "medium_users m svc (use_medium env m svc (Leaves e) s) =
      (set (active_endpoints m w (RevertInitiatorState_endpoint m w e s)),
       count_list (bw_log (RevertInitiatorState_endpoint m w e s)) (HandlerReverted m w))"
    by (simp add: medium_users_def w_def)
  consider "es = []" | "es \<noteq> []" "set es = {e}" | "es \<noteq> []" "\<not> set es \<subseteq> {e}" by (auto simp: subset_singleton_iff)
  then show ?thesis
  proof cases
    case 1
    then show ?thesis unfolding lhs spec run using es_def by simp
  next
    case 2
    then have "set es \<subseteq> {e}" by simp
    show ?thesis unfolding lhs spec run if_not_P [OF 2(1)] if_P [OF \<open>set es \<subseteq> {e}\<close>] if_P [OF 2(2)] active_event active_update
      by (simp add: 2(2))
  next
    case 3
    then have "set es \<noteq> {e}" by blast
    show ?thesis unfolding lhs spec run if_not_P [OF 3(1)] if_not_P [OF 3(2)] if_not_P [OF \<open>set es \<noteq> {e}\<close>] active_update
      by simp
  qed
qed

lemma use_medium_step:
  assumes "svc \<noteq> []"
  shows "medium_users m svc (use_medium env m svc a s) =
    use_spec (\<lambda>e. be_initialize env m (WrapInitiatorUpgradeServiceId svc) e \<noteq> None) a (medium_users m svc s)"
  by (cases a) (simp_all only: use_step_uses use_step_leaves [OF assms])

text \<open>
  C17: A medium that is set up for upgrades is taken down exactly when the last of the endpoints it was set
  up for leaves it, however its uses by several endpoints are mixed.
\<close>

theorem medium_taken_down_last:
  assumes "svc \<noteq> []"
  shows "medium_users m svc (fold (use_medium env m svc) as s) =
    fold (use_spec (\<lambda>e. be_initialize env m (WrapInitiatorUpgradeServiceId svc) e \<noteq> None)) as (medium_users m svc s)"
  by (induction as arbitrary: s) (simp_all add: use_medium_step [OF assms])

section \<open>An upgrade that is started twice\<close>

lemma revert_touches:
  assumes "be_multiple_mediums env" and "GetBwuMediumForEndpoint env e u = n"
  shows "\<exists>l. bw_log (RevertBwuMediumForEndpoint env svc e u) = bw_log u @ l \<and> set l \<subseteq> {HandlerReverted n svc}"
    and "k \<noteq> n \<Longrightarrow> map_of (bw_active (RevertBwuMediumForEndpoint env svc e u)) (k, v) = map_of (bw_active u) (k, v)"
proof -
  have r: "RevertBwuMediumForEndpoint env svc e u = t \<or> RevertBwuMediumForEndpoint env svc e u = RevertResponderState n svc t \<or>
      RevertBwuMediumForEndpoint env svc e u = RevertInitiatorState_endpoint n svc e t"
    if "t = u\<lparr>bw_mediums := AList.delete e (bw_mediums u)\<rparr>" for t
    using assms that by (cases "GetHandlerForMedium n t = None")
      (auto simp: RevertBwuMediumForEndpoint_def GetHandlerForMedium_def Let_def)
  note r = r [OF refl]
  show "\<exists>l. bw_log (RevertBwuMediumForEndpoint env svc e u) = bw_log u @ l \<and> set l \<subseteq> {HandlerReverted n svc}"
    using r by (elim disjE) (simp_all add: RevertResponderState_def RevertInitiatorState_endpoint_def Let_def)
  show "k \<noteq> n \<Longrightarrow> map_of (bw_active (RevertBwuMediumForEndpoint env svc e u)) (k, v) = map_of (bw_active u) (k, v)"
    using r by (elim disjE) (simp_all add: RevertResponderState_def RevertInitiatorState_endpoint_def Let_def
        update_conv' delete_conv')
qed

text \<open>What a disconnection does before it reverts the medium.\<close>

lemma before_revert:
  assumes "be_multiple_mediums env" and "GetBwuMediumForEndpoint env e s = n"
  obtains u where "run_bwu_disconnect env rv e s = bw_event (BwBarrier e) (RevertBwuMediumForEndpoint env rv e u)"
    and "GetBwuMediumForEndpoint env e u = n" and "bw_active u = bw_active s" and "e \<notin> set (bw_in_progress u)"
    and "\<exists>l. bw_log u = bw_log s @ l \<and> HandlerReverted m svc \<notin> set l"
proof -
  define s1 where "s1 = (case GetHandlerForMedium (GetBwuMediumForEndpoint env e s) s of
      None \<Rightarrow> s | Some h \<Rightarrow> bw_event (HandlerDisconnected h e) s)"
  define s3 where "s3 = (case previous_channel e s1 of None \<Rightarrow> s1\<lparr>bw_previous := AList.delete e (bw_previous s1)\<rparr>
      | Some c \<Rightarrow> close_on c (Some SHUTDOWN) (s1\<lparr>bw_previous := AList.delete e (bw_previous s1)\<rparr>))"
  have s1: "GetBwuMediumForEndpoint env e s1 = GetBwuMediumForEndpoint env e s" "bw_active s1 = bw_active s"
    "\<exists>l. bw_log s1 = bw_log s @ l \<and> HandlerReverted m svc \<notin> set l"
    by (simp_all add: s1_def GetBwuMediumForEndpoint_def split: option.split)
  have s3: "GetBwuMediumForEndpoint env e s3 = GetBwuMediumForEndpoint env e s" "bw_active s3 = bw_active s"
    "\<exists>l. bw_log s3 = bw_log s @ l \<and> HandlerReverted m svc \<notin> set l"
    using s1 by (auto simp: s3_def GetBwuMediumForEndpoint_def close_on_def split: option.split)
  define u where "u = s3\<lparr>bw_in_progress := removeAll e (bw_in_progress s3), bw_delays := AList.delete e (bw_delays s3),
      bw_alarms := AList.delete e (bw_alarms s3), bw_upgraded := removeAll e (bw_upgraded s3)\<rparr>"
  have "GetBwuMediumForEndpoint env e u = GetBwuMediumForEndpoint env e s3"
    by (simp add: u_def GetBwuMediumForEndpoint_def)
  moreover have "run_bwu_disconnect env rv e s = bw_event (BwBarrier e) (RevertBwuMediumForEndpoint env rv e u)"
    using assms(1)
    by (simp add: run_bwu_disconnect_def s1_def [symmetric] s3_def [symmetric] u_def CancelRetryUpgradeAlarm_def Let_def)
  ultimately show ?thesis
    using s3 assms(2) by (intro that [of u]) (simp_all add: u_def)
qed

text \<open>
  C36: Starting an upgrade to another medium while one is under way is refused, but only after the
  endpoint's medium was overwritten: when the endpoint disconnects, the medium that had been set up
  for it is not reverted, and it counts as used by that endpoint from then on.
\<close>

theorem second_upgrade_leaks_medium:
  assumes "be_multiple_mediums env" and "IsUpgradeOngoing e s" and "n \<noteq> m"
    and "\<not> isWifiLanConnected (bw_channels s)" and "e \<in> set (active_endpoints m svc s)"
  shows "let t = run_bwu_disconnect env svc2 e (run_bwu_init env e n s) in
    e \<in> set (active_endpoints m svc t) \<and> HandlerReverted m svc \<notin> set (drop (length (bw_log s)) (bw_log t)) \<and>
    \<not> IsUpgradeOngoing e t \<and> GetBwuMediumForEndpoint env e t = UNKNOWN_MEDIUM"
proof -
  define s1 where "s1 = SetBwuMediumForEndpoint env e n s"
  have s1: "run_bwu_init env e n s = s1"
    using assms(2,4) by (simp add: s1_def run_bwu_init_def IsUpgradeOngoing_def Let_def)
  obtain u where u: "run_bwu_disconnect env svc2 e s1 = bw_event (BwBarrier e) (RevertBwuMediumForEndpoint env svc2 e u)"
    "GetBwuMediumForEndpoint env e u = n" "bw_active u = bw_active s1" "e \<notin> set (bw_in_progress u)"
    "\<exists>l. bw_log u = bw_log s1 @ l \<and> HandlerReverted m svc \<notin> set l"
    by (rule before_revert [OF assms(1), where e = e and s = s1 and n = n and rv = svc2 and m = m and svc = svc])
      (simp add: s1_def)
  note r = revert_touches [OF assms(1) u(2), where svc = svc2]
  have "bw_log s1 = bw_log s" "bw_active s1 = bw_active s"
    using assms(1) by (simp_all add: s1_def SetBwuMediumForEndpoint_def)
  then show ?thesis
    using u r assms(3,5) Revert_still [OF assms(1), where e = e and svc = svc2 and s = u]
    by (auto simp: s1 Let_def IsUpgradeOngoing_def GetBwuMedium_fields active_endpoints_def)
qed

section \<open>Concrete inputs\<close>

definition hotspot_client :: client_proxy where
  "hotspot_client = proxy_run (OpInitiated ''ABCD'' True (plain_options\<lparr>allowed_mediums := [BLE, WIFI_LAN, WIFI_HOTSPOT]\<rparr>)
      (ClientListener 1) ''token'' # tl (butlast sample_ops)) (ClientProxy_new plain_flags False False False)"


theorem medium_taken_down_last_witness:
  "medium_users WIFI_LAN ''svc'' (fold (use_medium ((plain_bwu_env ForBwuIntroductionAck)\<lparr>be_initialize := \<lambda>_ _ _. Some ForBwuIntroductionAck\<rparr>) WIFI_LAN ''svc'')
      [Uses ''A'', Uses ''B'', Leaves ''A'', Leaves ''B''] (sample_bwu connected_client)) = ({}, 1)"
proof -
  have "''svc'' \<noteq> []" by simp
  from medium_taken_down_last [OF this, of WIFI_LAN "(plain_bwu_env ForBwuIntroductionAck)\<lparr>be_initialize := \<lambda>_ _ _. Some ForBwuIntroductionAck\<rparr>"
      "[Uses ''A'', Uses ''B'', Leaves ''A'', Leaves ''B'']" "sample_bwu connected_client"]
  show ?thesis
    by (auto simp: medium_users_def active_endpoints_def sample_bwu_def BwuManager_new_def simp del: use_medium.simps)
qed

theorem second_upgrade_leaks_medium_witness:
  "let s = (sample_bwu connected_client)\<lparr>bw_in_progress := [''ABCD''],
       bw_active := [((WIFI_LAN, ''svc_UPGRADE''), [''ABCD''])], bw_mediums := [(''ABCD'', WIFI_LAN)]\<rparr> in
    ''ABCD'' \<in> set (active_endpoints WIFI_LAN ''svc_UPGRADE''
      (run_bwu_disconnect (plain_bwu_env ForBwuIntroductionAck) ''svc_UPGRADE'' ''ABCD'' (run_bwu_init (plain_bwu_env ForBwuIntroductionAck) ''ABCD'' WEB_RTC s)))"
proof -
  have w: "\<not> isWifiLanConnected sample_channels" by code_simp
  let ?s = "(sample_bwu connected_client)\<lparr>bw_in_progress := [''ABCD''],
       bw_active := [((WIFI_LAN, ''svc_UPGRADE''), [''ABCD''])], bw_mediums := [(''ABCD'', WIFI_LAN)]\<rparr>"
  have "be_multiple_mediums (plain_bwu_env ForBwuIntroductionAck)" "IsUpgradeOngoing ''ABCD'' ?s" "WEB_RTC \<noteq> WIFI_LAN"
    "\<not> isWifiLanConnected (bw_channels ?s)" "''ABCD'' \<in> set (active_endpoints WIFI_LAN ''svc_UPGRADE'' ?s)"
    using w by (simp_all add: plain_bwu_env_def IsUpgradeOngoing_def sample_bwu_def BwuManager_new_def active_endpoints_def)
  from second_upgrade_leaks_medium [OF this] show ?thesis by (simp add: Let_def)
qed

end
